(* ===== verification/Prelude.thy ===== *)
theory Prelude
  imports Main "HOL-Library.AList" "HOL-Library.Word" "HOL-Library.Sublist"
    "HOL-Library.Char_ord" "HOL-Library.List_Lexorder"
begin

text \<open>
  What the components share: Go's maps as association lists, error results, the decimal
  printing of \<^verbatim>\<open>fmt.Sprintf("%d")\<close>, and the fact collections that the component proofs
  pass to the simplifier.

  A Go \<^verbatim>\<open>map[K]V\<close> is an association list with distinct keys.  Its order stands for the
  order in which one \<^verbatim>\<open>range\<close> loop happens to visit the entries, which Go leaves open, so
  what is proved for every list holds for every visiting order.

  A Go \<^verbatim>\<open>string\<close> is a list of bytes, Isabelle's \<^typ>\<open>string\<close>; \<^verbatim>\<open>List_Lexorder\<close> and
  \<^verbatim>\<open>Char_ord\<close> order it bytewise, as \<^verbatim>\<open>strings.Compare\<close> and \<^verbatim>\<open>slices.Sort\<close> do.
\<close>

named_theorems model_defs \<open>definitions of the model's straight-line operations\<close>
named_theorems record_frame \<open>fields an operation leaves alone\<close>

type_synonym ('k, 'v) gomap = "('k \<times> 'v) list"
type_synonym time = int       \<comment> \<open>instants, Unix nanoseconds\<close>
type_synonym duration = int   \<comment> \<open>\<^verbatim>\<open>time.Duration\<close>, nanoseconds\<close>
type_synonym seqno = "64 word" \<comment> \<open>event sequence numbers, \<^verbatim>\<open>uint64\<close>\<close>

abbreviation nanosecond :: duration where "nanosecond \<equiv> 1"
abbreviation millisecond :: duration where "millisecond \<equiv> 1000000"
abbreviation second :: duration where "second \<equiv> 1000000000"
abbreviation minute :: duration where "minute \<equiv> 60 * second"
abbreviation hour :: duration where "hour \<equiv> 60 * minute"

section \<open>Go maps\<close>

definition gm_ok :: "('k, 'v) gomap \<Rightarrow> bool" where
  "gm_ok m \<longleftrightarrow> distinct (map fst m)"

definition gm_get :: "('k, 'v) gomap \<Rightarrow> 'k \<Rightarrow> 'v option" where
  "gm_get m k = map_of m k"

definition gm_set :: "'k \<Rightarrow> 'v \<Rightarrow> ('k, 'v) gomap \<Rightarrow> ('k, 'v) gomap" where
  "gm_set k v m = AList.update k v m"

definition gm_del :: "'k \<Rightarrow> ('k, 'v) gomap \<Rightarrow> ('k, 'v) gomap" where
  "gm_del k m = AList.delete k m"

definition gm_keys :: "('k, 'v) gomap \<Rightarrow> 'k set" where
  "gm_keys m = fst ` set m"

text \<open>\<^verbatim>\<open>for k, v := range src { dst[k] = v }\<close>\<close>

definition gm_merge :: "('k, 'v) gomap \<Rightarrow> ('k, 'v) gomap \<Rightarrow> ('k, 'v) gomap" where
  "gm_merge dst src = fold (\<lambda>(k, v). gm_set k v) src dst"

lemma gm_get_Nil [simp]: "gm_get [] k = None"
  by (simp add: gm_get_def)

lemma gm_get_Cons [simp]:
  "gm_get ((k', v) # m) k = (if k = k' then Some v else gm_get m k)"
  by (simp add: gm_get_def)

lemma gm_get_set [simp]:
  "gm_get (gm_set k v m) k' = (if k' = k then Some v else gm_get m k')"
  by (simp add: gm_get_def gm_set_def update_conv')

lemma gm_get_del [simp]:
  "gm_get (gm_del k m) k' = (if k' = k then None else gm_get m k')"
  by (simp add: gm_get_def gm_del_def delete_conv')

lemma gm_ok_Nil [simp]: "gm_ok []"
  by (simp add: gm_ok_def)

lemma gm_ok_set [simp, intro]: "gm_ok m \<Longrightarrow> gm_ok (gm_set k v m)"
  by (simp add: gm_ok_def gm_set_def distinct_update)

lemma gm_ok_del [simp, intro]: "gm_ok m \<Longrightarrow> gm_ok (gm_del k m)"
  by (simp add: gm_ok_def gm_del_def distinct_delete)

lemma gm_ok_merge [simp, intro]: "gm_ok dst \<Longrightarrow> gm_ok (gm_merge dst src)"
  unfolding gm_merge_def by (induction src arbitrary: dst) (auto split: prod.splits)

lemma gm_get_in_set: "gm_get m k = Some v \<Longrightarrow> (k, v) \<in> set m"
  by (simp add: gm_get_def map_of_SomeD)

lemma gm_in_set_get: "gm_ok m \<Longrightarrow> (k, v) \<in> set m \<Longrightarrow> gm_get m k = Some v"
  by (simp add: gm_ok_def gm_get_def)

lemma gm_get_None: "gm_get m k = None \<longleftrightarrow> k \<notin> gm_keys m"
  by (simp add: gm_keys_def gm_get_def map_of_eq_None_iff)

lemma gm_get_Some_key: "k \<in> gm_keys m \<longleftrightarrow> (\<exists>v. gm_get m k = Some v)"
  by (metis gm_get_None not_None_eq)

lemma gm_get_merge:
  "gm_ok src \<Longrightarrow> gm_get (gm_merge dst src) k =
     (case gm_get src k of Some v \<Rightarrow> Some v | None \<Rightarrow> gm_get dst k)"
proof (induction src arbitrary: dst)
  case Nil
  then show ?case by (simp add: gm_merge_def)
next
  case (Cons e src)
  obtain a b where e: "e = (a, b)" by (cases e)
  from Cons.prems e have ok: "gm_ok src" and a: "a \<notin> gm_keys src"
    by (auto simp: gm_ok_def gm_keys_def)
  from a have none: "gm_get src a = None" by (simp add: gm_get_None)
  have "gm_get (gm_merge dst (e # src)) k = gm_get (gm_merge (gm_set a b dst) src) k"
    by (simp add: gm_merge_def e)
  also have "\<dots> = (case gm_get src k of Some v \<Rightarrow> Some v | None \<Rightarrow> gm_get (gm_set a b dst) k)"
    by (rule Cons.IH [OF ok])
  finally show ?case using none by (auto simp: e split: option.splits)
qed

lemma gm_keys_Nil [simp]: "gm_keys [] = {}"
  by (simp add: gm_keys_def)

lemma gm_keys_Cons [simp]: "gm_keys (e # m) = insert (fst e) (gm_keys m)"
  by (simp add: gm_keys_def)

lemma gm_keys_set [simp]: "gm_keys (gm_set k v m) = insert k (gm_keys m)"
  by (simp add: gm_keys_def gm_set_def dom_update)

lemma gm_keys_del [simp]: "gm_keys (gm_del k m) = gm_keys m - {k}"
proof -
  have "set (map fst (AList.delete k m)) = set (map fst m) - {k}"
    by (simp only: delete_keys set_removeAll)
  then show ?thesis by (simp add: gm_keys_def gm_del_def)
qed

lemma gm_keys_merge: "gm_keys (gm_merge dst src) = gm_keys dst \<union> gm_keys src"
  unfolding gm_merge_def by (induction src arbitrary: dst) (auto split: prod.splits)

section \<open>Errors as values\<close>

text \<open>
  An error text is the list of pieces a format string makes of its arguments: \<^verbatim>\<open>%s\<close>, \<^verbatim>\<open>%d\<close> and
  \<^verbatim>\<open>%v\<close> give the piece itself, \<^verbatim>\<open>%q\<close> a \<open>Quoted\<close> piece, kept apart because the text depends
  on Go's table of printable characters.  The errors the code tells apart with \<^verbatim>\<open>errors.Is\<close>
  are constructors, every other error is its text.
\<close>

datatype fragment = Lit string | Quoted string

type_synonym err_msg = "fragment list"

datatype go_error =
    ErrSandboxIDAlreadyExists
  | ErrExecIDAlreadyExists
  | ErrText err_msg

fun error_text :: "go_error \<Rightarrow> err_msg" where
  "error_text ErrSandboxIDAlreadyExists = [Lit ''sandbox id already exists'']"
| "error_text ErrExecIDAlreadyExists = [Lit ''exec id already exists'']"
| "error_text (ErrText m) = m"

definition res_bind :: "'e + 'a \<Rightarrow> ('a \<Rightarrow> 'e + 'b) \<Rightarrow> 'e + 'b" where
  "res_bind r f = (case r of Inl e \<Rightarrow> Inl e | Inr a \<Rightarrow> f a)"

lemma res_bind_Inl [simp]: "res_bind (Inl e) f = Inl e"
  and res_bind_Inr [simp]: "res_bind (Inr a) f = f a"
  by (simp_all add: res_bind_def)

lemma res_bind_eq_Inr:
  "res_bind r f = Inr b \<longleftrightarrow> (\<exists>a. r = Inr a \<and> f a = Inr b)"
  by (auto simp: res_bind_def split: sum.splits)

text \<open>
  A Go function returning only \<^verbatim>\<open>error\<close> is a value of \<^typ>\<open>'e option\<close>, \<^const>\<open>None\<close> for
  \<^verbatim>\<open>nil\<close>.  \<open>orelse\<close> is \<^verbatim>\<open>if err := f(); err != nil { return err }\<close> followed by the rest,
  \<open>first_error\<close> a loop of such checks.
\<close>

fun orelse :: "'e option \<Rightarrow> 'e option \<Rightarrow> 'e option" where
  "orelse (Some e) _ = Some e"
| "orelse None r = r"

fun first_error :: "('a \<Rightarrow> 'e option) \<Rightarrow> 'a list \<Rightarrow> 'e option" where
  "first_error f [] = None"
| "first_error f (x # xs) = orelse (f x) (first_error f xs)"

lemma orelse_None [simp]: "orelse a b = None \<longleftrightarrow> a = None \<and> b = None"
  by (cases a) auto

lemma orelse_Some: "orelse a b = Some e \<longleftrightarrow> a = Some e \<or> (a = None \<and> b = Some e)"
  by (cases a) auto

lemma first_error_None [simp]: "first_error f xs = None \<longleftrightarrow> (\<forall>x \<in> set xs. f x = None)"
  by (induction xs) auto

text \<open>A loop that threads a state and stops at the first error.\<close>

fun fold_result :: "('a \<Rightarrow> 's \<Rightarrow> 'e + 's) \<Rightarrow> 'a list \<Rightarrow> 's \<Rightarrow> 'e + 's" where
  "fold_result f [] s = Inr s"
| "fold_result f (x # xs) s = res_bind (f x s) (fold_result f xs)"

lemma fold_result_append:
  "fold_result f (xs @ ys) s = res_bind (fold_result f xs s) (fold_result f ys)"
  by (induction xs arbitrary: s) (auto simp: res_bind_def split: sum.splits)

lemma fold_result_invariant:
  assumes "fold_result f xs s = Inr s'" and "P s"
    and "\<And>x s s'. x \<in> set xs \<Longrightarrow> P s \<Longrightarrow> f x s = Inr s' \<Longrightarrow> P s'"
  shows "P s'"
  using assms
proof (induction xs arbitrary: s)
  case Nil
  then show ?case by simp
next
  case (Cons x xs)
  then obtain t where t: "f x s = Inr t" "fold_result f xs t = Inr s'"
    by (auto simp: res_bind_eq_Inr)
  with Cons.prems have "P t" by auto
  with t Cons show ?case by auto
qed

section \<open>Decimal numbers\<close>

definition digit_char :: "nat \<Rightarrow> char" where
  "digit_char d = char_of (48 + d)"

fun show_nat :: "nat \<Rightarrow> string" where
  "show_nat n =
     (if n < 10 then [digit_char n] else show_nat (n div 10) @ [digit_char (n mod 10)])"

declare show_nat.simps [simp del]

definition digit_value :: "char \<Rightarrow> nat option" where
  "digit_value c = (let n = of_char c in if 48 \<le> n \<and> n \<le> 57 then Some (n - 48) else None)"

fun parse_digits :: "nat \<Rightarrow> string \<Rightarrow> nat option" where
  "parse_digits acc [] = Some acc"
| "parse_digits acc (c # cs) =
     (case digit_value c of None \<Rightarrow> None | Some d \<Rightarrow> parse_digits (10 * acc + d) cs)"

lemma digit_value_char [simp]: "d < 10 \<Longrightarrow> digit_value (digit_char d) = Some d"
  by (simp add: digit_value_def digit_char_def)

lemma parse_digits_append:
  "parse_digits acc (xs @ ys) =
     (case parse_digits acc xs of None \<Rightarrow> None | Some v \<Rightarrow> parse_digits v ys)"
  by (induction xs arbitrary: acc) (auto split: option.splits)

lemma parse_show_nat: "parse_digits 0 (show_nat n) = Some n"
proof (induction n rule: show_nat.induct)
  case (1 n)
  show ?case
  proof (cases "n < 10")
    case True
    then show ?thesis by (subst show_nat.simps) simp
  next
    case False
    with 1 have "parse_digits 0 (show_nat (n div 10)) = Some (n div 10)" by simp
    with False show ?thesis
      by (subst show_nat.simps) (simp add: parse_digits_append)
  qed
qed

lemma show_nat_inj [simp]: "show_nat m = show_nat n \<longleftrightarrow> m = n"
  by (metis option.inject parse_show_nat)

lemma show_nat_nonempty [simp]: "show_nat n \<noteq> []"
  by (subst show_nat.simps) simp

lemma show_nat_digits: "c \<in> set (show_nat n) \<Longrightarrow> digit_value c \<noteq> None"
proof (induction n rule: show_nat.induct)
  case (1 n)
  then show ?case
    by (subst (asm) (2) show_nat.simps) (auto split: if_splits)
qed

section \<open>Lists\<close>

lemma sorted_wrt_nth_step:
  assumes "\<And>i. Suc i < length xs \<Longrightarrow> xs ! i < (xs ! Suc i :: 'a :: order)"
  shows "sorted_wrt (<) xs"
  using assms by (subst sorted_wrt_iff_nth_Suc_transp) (auto intro: transpI)

lemma last_map_upt: "0 < n \<Longrightarrow> last (map f [0..<n]) = f (n - 1)"
  by (cases n) auto

end
