(* ===== verification/Api_Types.thy ===== *)
theory Api_Types
  imports Prelude
begin

text \<open>
  The messages of \<^verbatim>\<open>api/proto/service.proto\<close> as the daemon and the clients see them.  An enum is
  a datatype with the proto's constructors, a message a record, a \<^verbatim>\<open>oneof\<close> a datatype with
  one constructor per alternative, a field of message type (a Go pointer) an option.

  \<^verbatim>\<open>google.protobuf.Timestamp\<close> is an instant and \<^verbatim>\<open>google.protobuf.Duration\<close> a length in
  nanoseconds.  The port protocol of a request is an open enum: a client can send any
  \<^verbatim>\<open>int32\<close>, which \<open>PORT_PROTOCOL_OTHER\<close> carries.
\<close>

section \<open>Enums\<close>

datatype sandbox_state =
    SANDBOX_STATE_UNSPECIFIED
  | SANDBOX_STATE_PENDING
  | SANDBOX_STATE_READY
  | SANDBOX_STATE_FAILED
  | SANDBOX_STATE_STOPPED
  | SANDBOX_STATE_DELETING
  | SANDBOX_STATE_DELETED

datatype event_type =
    EVENT_TYPE_UNSPECIFIED
  | SANDBOX_ACCEPTED
  | SANDBOX_PREPARING
  | SANDBOX_READY
  | SANDBOX_FAILED
  | SANDBOX_STOP_REQUESTED
  | SANDBOX_STOPPED
  | SANDBOX_DELETE_REQUESTED
  | SANDBOX_DELETED
  | EXEC_STARTED
  | EXEC_FINISHED
  | EXEC_FAILED
  | EXEC_CANCELLED
  | COMPANION_CONTAINER_READY
  | COMPANION_CONTAINER_FAILED

datatype exec_state =
    EXEC_STATE_UNSPECIFIED
  | EXEC_STATE_RUNNING
  | EXEC_STATE_FINISHED
  | EXEC_STATE_FAILED
  | EXEC_STATE_CANCELLED

datatype port_protocol =
    PORT_PROTOCOL_TCP
  | PORT_PROTOCOL_UDP
  | PORT_PROTOCOL_SCTP
  | PORT_PROTOCOL_OTHER int

section \<open>What a sandbox is created from\<close>

record mount_spec =
  ms_source :: string
  ms_target :: string
  ms_writable :: bool

record copy_spec =
  cp_source :: string
  cp_target :: string
  cp_exclude_patterns :: "string list"

record port_mapping =
  pm_container_port :: "32 word"
  pm_host_port :: "32 word"
  pm_protocol :: port_protocol

record healthcheck_config =
  hc_test :: "string list"
  hc_interval :: "duration option"
  hc_timeout :: "duration option"
  hc_retries :: "32 word"
  hc_start_period :: "duration option"
  hc_start_interval :: "duration option"

record companion_container_spec =
  cc_name :: string
  cc_image :: string
  cc_envs :: "(string, string) gomap"
  cc_healthcheck :: "healthcheck_config option"
  cc_post_start_on_primary :: "string list"
  cc_command :: "string list"
  cc_cpu_limit :: string
  cc_memory_limit :: string
  cc_disk_limit :: string

record create_spec =
  cs_image :: string
  cs_mounts :: "mount_spec list"
  cs_copies :: "copy_spec list"
  cs_builtin_tools :: "string list"
  cs_companion_containers :: "companion_container_spec list"
  cs_labels :: "(string, string) gomap"
  cs_envs :: "(string, string) gomap"
  cs_idle_ttl :: "duration option"
  cs_ports :: "port_mapping list"
  cs_command :: "string list"
  cs_cpu_limit :: string
  cs_memory_limit :: string
  cs_disk_limit :: string
  cs_gpus :: string

text \<open>\<^verbatim>\<open>&agboxv1.CreateSpec{}\<close>\<close>

definition empty_create_spec :: create_spec where
  "empty_create_spec = \<lparr>cs_image = '''', cs_mounts = [], cs_copies = [], cs_builtin_tools = [],
     cs_companion_containers = [], cs_labels = [], cs_envs = [], cs_idle_ttl = None,
     cs_ports = [], cs_command = [], cs_cpu_limit = '''', cs_memory_limit = '''',
     cs_disk_limit = '''', cs_gpus = ''''\<rparr>"

section \<open>Sandboxes, execs and events\<close>

record sandbox_handle =
  sh_sandbox_id :: string
  sh_state :: sandbox_state
  sh_last_event_sequence :: seqno
  sh_companion_containers :: "companion_container_spec list"
  sh_labels :: "(string, string) gomap"
  sh_created_at :: "time option"
  sh_image :: string
  sh_error_code :: string
  sh_error_message :: string
  sh_state_changed_at :: "time option"

datatype event_details =
    NoDetails
  | SandboxPhase (ph_phase: string) (ph_error_code: string) (ph_error_message: string)
      (ph_reason: string)
  | ExecDetails (ex_exec_id: string) (ex_exit_code: int) (ex_exec_state: exec_state)
      (ex_error_code: string) (ex_error_message: string)
  | CompanionDetails (cd_name: string) (cd_error_code: string) (cd_error_message: string)

record sandbox_event =
  ev_event_id :: string
  ev_sequence :: seqno
  ev_sandbox_id :: string
  ev_event_type :: event_type
  ev_occurred_at :: time
  ev_replay :: bool
  ev_snapshot :: bool
  ev_sandbox_state :: sandbox_state
  ev_details :: event_details

record exec_status =
  es_exec_id :: string
  es_sandbox_id :: string
  es_state :: exec_state
  es_command :: "string list"
  es_cwd :: string
  es_env_overrides :: "(string, string) gomap"
  es_exit_code :: int
  es_error :: string
  es_last_event_sequence :: seqno

section \<open>Requests and responses\<close>

record create_sandbox_request =
  cr_create_spec :: "create_spec option"
  cr_sandbox_id :: string
  cr_config_yaml :: string

record list_sandboxes_request =
  ls_include_deleted :: bool
  ls_label_selector :: "(string, string) gomap"

record subscribe_request =
  sub_sandbox_id :: string
  sub_from_sequence :: seqno
  sub_include_current_snapshot :: bool

record create_exec_request =
  xr_sandbox_id :: string
  xr_command :: "string list"
  xr_cwd :: string
  xr_env_overrides :: "(string, string) gomap"
  xr_exec_id :: string

record create_exec_response =
  xs_exec_id :: string
  xs_stdout_log_path :: string
  xs_stderr_log_path :: string

record delete_sandboxes_response =
  ds_deleted_sandbox_ids :: "string list"
  ds_deleted_count :: "32 word"

section \<open>The order of listed sandboxes\<close>

text \<open>
  \<^verbatim>\<open>ListSandboxes\<close> sorts newest first and breaks ties by sandbox id.  The comparison is the
  order of a key type of its own, so that the library's \<^const>\<open>sort_key\<close> applies.
\<close>

datatype list_key = ListKey (lk_created: time) (lk_id: string)

instantiation list_key :: linorder
begin

definition less_eq_list_key :: "list_key \<Rightarrow> list_key \<Rightarrow> bool" where
  "less_eq_list_key a b \<longleftrightarrow>
     lk_created b < lk_created a \<or> (lk_created a = lk_created b \<and> lk_id a \<le> lk_id b)"

definition less_list_key :: "list_key \<Rightarrow> list_key \<Rightarrow> bool" where
  "less_list_key a b \<longleftrightarrow>
     lk_created b < lk_created a \<or> (lk_created a = lk_created b \<and> lk_id a < lk_id b)"

instance
  by standard (auto simp: less_eq_list_key_def less_list_key_def list_key.expand)

end

end
