(* ===== verification/Clone.thy ===== *)
theory Clone
  imports Api_Types
begin

text \<open>
  The deep copies of \<^verbatim>\<open>internal/control/service_clone.go\<close>.  The daemon hands out copies so that a
  caller cannot reach into its records; in a model of values what matters of a copy is that it
  drops no field.  Each function below rebuilds its message field by field as the code does, and
  its \<open>simp\<close> rule says that the result is the message copied.
\<close>

definition cloneStringMap :: "(string, string) gomap \<Rightarrow> (string, string) gomap" where
  "cloneStringMap source = (if length source = 0 then [] else [(key, val). (key, val) \<leftarrow> source])"

definition cloneMount :: "mount_spec \<Rightarrow> mount_spec" where
  "cloneMount item = \<lparr>ms_source = ms_source item, ms_target = ms_target item,
     ms_writable = ms_writable item\<rparr>"

definition cloneMounts :: "mount_spec list \<Rightarrow> mount_spec list" where
  "cloneMounts items = map cloneMount items"

definition cloneCopy :: "copy_spec \<Rightarrow> copy_spec" where
  "cloneCopy item = \<lparr>cp_source = cp_source item, cp_target = cp_target item,
     cp_exclude_patterns = cp_exclude_patterns item\<rparr>"

definition cloneCopies :: "copy_spec list \<Rightarrow> copy_spec list" where
  "cloneCopies items = map cloneCopy items"

definition clonePortMapping :: "port_mapping \<Rightarrow> port_mapping" where
  "clonePortMapping item = \<lparr>pm_container_port = pm_container_port item,
     pm_host_port = pm_host_port item, pm_protocol = pm_protocol item\<rparr>"

definition clonePortMappings :: "port_mapping list \<Rightarrow> port_mapping list" where
  "clonePortMappings items = map clonePortMapping items"

text \<open>\<^verbatim>\<open>proto.Clone\<close> of a health check\<close>

definition cloneHealthcheck :: "healthcheck_config option \<Rightarrow> healthcheck_config option" where
  "cloneHealthcheck healthcheck = (case healthcheck of None \<Rightarrow> None | Some h \<Rightarrow> Some h)"

definition cloneCompanionContainerSpec ::
  "companion_container_spec \<Rightarrow> companion_container_spec" where
  "cloneCompanionContainerSpec item =
     \<lparr>cc_name = cc_name item, cc_image = cc_image item,
      cc_envs = cloneStringMap (cc_envs item),
      cc_healthcheck = cloneHealthcheck (cc_healthcheck item),
      cc_post_start_on_primary = cc_post_start_on_primary item,
      cc_command = cc_command item, cc_cpu_limit = cc_cpu_limit item,
      cc_memory_limit = cc_memory_limit item, cc_disk_limit = cc_disk_limit item\<rparr>"

definition cloneCompanionContainerSpecs ::
  "companion_container_spec list \<Rightarrow> companion_container_spec list" where
  "cloneCompanionContainerSpecs items = map cloneCompanionContainerSpec items"

definition cloneCreateSpec :: "create_spec option \<Rightarrow> create_spec" where
  "cloneCreateSpec spec =
     (case spec of
        None \<Rightarrow> empty_create_spec
      | Some s \<Rightarrow>
          let cloned = empty_create_spec
             \<lparr>cs_image := cs_image s,
              cs_labels := cloneStringMap (cs_labels s),
              cs_mounts := cloneMounts (cs_mounts s),
              cs_copies := cloneCopies (cs_copies s),
              cs_builtin_tools := cs_builtin_tools s,
              cs_companion_containers := cloneCompanionContainerSpecs (cs_companion_containers s),
              cs_envs := cloneStringMap (cs_envs s),
              cs_ports := clonePortMappings (cs_ports s),
              cs_command := cs_command s,
              cs_cpu_limit := cs_cpu_limit s,
              cs_memory_limit := cs_memory_limit s,
              cs_disk_limit := cs_disk_limit s,
              cs_gpus := cs_gpus s\<rparr>
          in case cs_idle_ttl s of None \<Rightarrow> cloned | Some d \<Rightarrow> cloned\<lparr>cs_idle_ttl := Some d\<rparr>)"

definition cloneHandle :: "sandbox_handle \<Rightarrow> sandbox_handle" where
  "cloneHandle handle =
     \<lparr>sh_sandbox_id = sh_sandbox_id handle, sh_state = sh_state handle,
      sh_last_event_sequence = sh_last_event_sequence handle,
      sh_companion_containers = cloneCompanionContainerSpecs (sh_companion_containers handle),
      sh_labels = cloneStringMap (sh_labels handle), sh_created_at = sh_created_at handle,
      sh_image = sh_image handle, sh_error_code = sh_error_code handle,
      sh_error_message = sh_error_message handle,
      sh_state_changed_at = sh_state_changed_at handle\<rparr>"

definition matchesLabelSelector ::
  "(string, string) gomap \<Rightarrow> (string, string) gomap \<Rightarrow> bool" where
  "matchesLabelSelector labels selector =
     list_all (\<lambda>(key, want). gm_get labels key = Some want) selector"

definition cloneExec :: "exec_status \<Rightarrow> exec_status" where
  "cloneExec e =
     \<lparr>es_exec_id = es_exec_id e, es_sandbox_id = es_sandbox_id e, es_state = es_state e,
      es_command = es_command e, es_cwd = es_cwd e,
      es_env_overrides = cloneStringMap (es_env_overrides e), es_exit_code = es_exit_code e,
      es_error = es_error e, es_last_event_sequence = es_last_event_sequence e\<rparr>"

definition cloneEventDetails :: "event_details \<Rightarrow> event_details" where
  "cloneEventDetails d =
     (case d of
        NoDetails \<Rightarrow> NoDetails
      | SandboxPhase phase code msg reason \<Rightarrow> SandboxPhase phase code msg reason
      | ExecDetails k exitCode st code msg \<Rightarrow> ExecDetails k exitCode st code msg
      | CompanionDetails name code msg \<Rightarrow> CompanionDetails name code msg)"

definition cloneEvent :: "sandbox_event \<Rightarrow> sandbox_event" where
  "cloneEvent event =
     \<lparr>ev_event_id = ev_event_id event, ev_sequence = ev_sequence event,
      ev_sandbox_id = ev_sandbox_id event, ev_event_type = ev_event_type event,
      ev_occurred_at = ev_occurred_at event, ev_replay = ev_replay event,
      ev_snapshot = ev_snapshot event, ev_sandbox_state = ev_sandbox_state event,
      ev_details = cloneEventDetails (ev_details event)\<rparr>"

section \<open>A copy is the message copied\<close>

lemma cloneStringMap_id [simp]: "cloneStringMap m = m"
  by (cases m) (auto simp: cloneStringMap_def intro: map_idI)

lemma cloneMounts_id [simp]: "cloneMounts ms = ms"
  by (simp add: cloneMounts_def cloneMount_def map_idI)

lemma cloneCopies_id [simp]: "cloneCopies cs = cs"
  by (simp add: cloneCopies_def cloneCopy_def map_idI)

lemma clonePortMappings_id [simp]: "clonePortMappings ps = ps"
  by (simp add: clonePortMappings_def clonePortMapping_def map_idI)

lemma cloneHealthcheck_id [simp]: "cloneHealthcheck h = h"
  by (simp add: cloneHealthcheck_def split: option.splits)

lemma cloneCompanionContainerSpecs_id [simp]: "cloneCompanionContainerSpecs cs = cs"
  by (simp add: cloneCompanionContainerSpecs_def cloneCompanionContainerSpec_def map_idI)

lemma cloneHandle_id [simp]: "cloneHandle h = h"
  by (simp add: cloneHandle_def)

lemma cloneExec_id [simp]: "cloneExec e = e"
  by (simp add: cloneExec_def)

lemma cloneEventDetails_id [simp]: "cloneEventDetails d = d"
  by (simp add: cloneEventDetails_def split: event_details.splits)

lemma cloneEvent_id [simp]: "cloneEvent e = e"
  by (simp add: cloneEvent_def)

lemma cloneCreateSpec_Some [simp]: "cloneCreateSpec (Some s) = s"
  by (cases s) (simp add: cloneCreateSpec_def empty_create_spec_def Let_def split: option.splits)

lemma matchesLabelSelector_iff:
  "gm_ok selector \<Longrightarrow>
   matchesLabelSelector labels selector \<longleftrightarrow>
     (\<forall>k v. gm_get selector k = Some v \<longrightarrow> gm_get labels k = Some v)"
  by (auto simp: matchesLabelSelector_def list_all_iff dest: gm_get_in_set gm_in_set_get)

end
