(* ===== verification/Event_Store.thy ===== *)
theory Event_Store
  imports Clone
begin

unbundle bit_operations_syntax

text \<open>
  The event store (\<^verbatim>\<open>internal/control/event_store.go\<close>): the append-only event log of each
  sandbox, the deletion times, and the persisted sandbox and exec configurations.

  The Go interface \<^verbatim>\<open>eventStore\<close> is a record of its methods over the provider's state \<open>'st\<close>.  A
  method returns its error or the new state: a failing method leaves the store as it was, which
  for the persistent store is bbolt's rollback of the transaction.  What every provider promises
  is the locale \<open>event_store\<close>, proved here for \<^verbatim>\<open>memoryEventStore\<close>.

  The key encoding of the persistent store (\<^verbatim>\<open>encodeUint64\<close>, \<^verbatim>\<open>encodeInt64\<close>, the bucket names)
  is modelled byte for byte.
\<close>

section \<open>The interface\<close>

record 'st event_store_ops =
  st_append :: "'st \<Rightarrow> string \<Rightarrow> sandbox_event \<Rightarrow> go_error + 'st"
  st_load_events :: "'st \<Rightarrow> string \<Rightarrow> go_error + sandbox_event list"
  st_load_all_sandbox_ids :: "'st \<Rightarrow> go_error + string list"
  st_max_sequence :: "'st \<Rightarrow> string \<Rightarrow> go_error + seqno"
  st_deleted_at :: "'st \<Rightarrow> string \<Rightarrow> go_error + time option"
  st_mark_deleted :: "'st \<Rightarrow> string \<Rightarrow> time \<Rightarrow> go_error + 'st"
  st_cleanup :: "'st \<Rightarrow> time \<Rightarrow> duration \<Rightarrow> go_error + string list \<times> 'st"
  st_save_sandbox_config :: "'st \<Rightarrow> string \<Rightarrow> create_spec \<Rightarrow> go_error + 'st"
  st_load_sandbox_config :: "'st \<Rightarrow> string \<Rightarrow> go_error + create_spec option"
  st_load_all_sandbox_configs :: "'st \<Rightarrow> go_error + (string, create_spec) gomap"
  st_delete_sandbox_config :: "'st \<Rightarrow> string \<Rightarrow> go_error + 'st"
  st_save_exec_config :: "'st \<Rightarrow> string \<Rightarrow> create_exec_request \<Rightarrow> go_error + 'st"
  st_load_exec_configs :: "'st \<Rightarrow> string \<Rightarrow> go_error + create_exec_request list"

section \<open>The memory store\<close>

record memory_event_store =
  me_events :: "(string, sandbox_event list) gomap"
  me_deleted_at :: "(string, time) gomap"
  me_sandbox_configs :: "(string, create_spec) gomap"
  me_exec_configs :: "(string, (string, create_exec_request) gomap) gomap"

definition newMemoryEventStore :: memory_event_store where
  "newMemoryEventStore = \<lparr>me_events = [], me_deleted_at = [], me_sandbox_configs = [],
     me_exec_configs = []\<rparr>"

text \<open>\<^verbatim>\<open>store.events[sandboxID]\<close> and \<^verbatim>\<open>store.execConfigs[sandboxID]\<close>, the zero value when absent\<close>

definition me_events_of :: "memory_event_store \<Rightarrow> string \<Rightarrow> sandbox_event list" where
  "me_events_of s k = (case gm_get (me_events s) k of None \<Rightarrow> [] | Some es \<Rightarrow> es)"

definition me_execs_of :: "memory_event_store \<Rightarrow> string \<Rightarrow> (string, create_exec_request) gomap"
  where
  "me_execs_of s k = (case gm_get (me_exec_configs s) k of None \<Rightarrow> [] | Some m \<Rightarrow> m)"

definition memory_Append :: "memory_event_store \<Rightarrow> string \<Rightarrow> sandbox_event \<Rightarrow> go_error + memory_event_store"
  where
  "memory_Append s sandboxID event =
     Inr (s\<lparr>me_events := gm_set sandboxID (me_events_of s sandboxID @ [cloneEvent event]) (me_events s)\<rparr>)"

definition memory_LoadEvents :: "memory_event_store \<Rightarrow> string \<Rightarrow> go_error + sandbox_event list" where
  "memory_LoadEvents s sandboxID = Inr (map cloneEvent (me_events_of s sandboxID))"

definition memory_LoadAllSandboxIDs :: "memory_event_store \<Rightarrow> go_error + string list" where
  "memory_LoadAllSandboxIDs s =
     Inr (sort (remdups (map fst (me_sandbox_configs s) @ map fst (me_events s))))"

definition memory_MaxSequence :: "memory_event_store \<Rightarrow> string \<Rightarrow> go_error + seqno" where
  "memory_MaxSequence s sandboxID =
     (let events = me_events_of s sandboxID
      in if length events = 0 then Inr 0 else Inr (ev_sequence (events ! (length events - 1))))"

definition memory_MarkDeleted :: "memory_event_store \<Rightarrow> string \<Rightarrow> time \<Rightarrow> go_error + memory_event_store"
  where
  "memory_MarkDeleted s sandboxID deletedAt =
     Inr (s\<lparr>me_deleted_at := gm_set sandboxID deletedAt (me_deleted_at s)\<rparr>)"

definition memory_DeletedAt :: "memory_event_store \<Rightarrow> string \<Rightarrow> go_error + time option" where
  "memory_DeletedAt s sandboxID = Inr (gm_get (me_deleted_at s) sandboxID)"

text \<open>
  \<^verbatim>\<open>Cleanup\<close> ranges over the deletion times and removes everything kept of each sandbox deleted
  at least \<open>retentionTTL\<close> ago.
\<close>

definition memory_cleanup_one ::
  "time \<Rightarrow> duration \<Rightarrow> string \<times> time \<Rightarrow> string list \<times> memory_event_store
     \<Rightarrow> string list \<times> memory_event_store" where
  "memory_cleanup_one now retentionTTL entry acc =
     (case entry of (sandboxID, deletedAt) \<Rightarrow> case acc of (removed, s) \<Rightarrow>
        if now - deletedAt < retentionTTL then (removed, s)
        else (removed @ [sandboxID],
              s\<lparr>me_deleted_at := gm_del sandboxID (me_deleted_at s),
                me_events := gm_del sandboxID (me_events s),
                me_sandbox_configs := gm_del sandboxID (me_sandbox_configs s),
                me_exec_configs := gm_del sandboxID (me_exec_configs s)\<rparr>))"

definition memory_Cleanup ::
  "memory_event_store \<Rightarrow> time \<Rightarrow> duration \<Rightarrow> go_error + string list \<times> memory_event_store" where
  "memory_Cleanup s now retentionTTL =
     (case fold (memory_cleanup_one now retentionTTL) (me_deleted_at s) ([], s) of
        (removed, s') \<Rightarrow> Inr (sort removed, s'))"

definition memory_SaveSandboxConfig ::
  "memory_event_store \<Rightarrow> string \<Rightarrow> create_spec \<Rightarrow> go_error + memory_event_store" where
  "memory_SaveSandboxConfig s sandboxID spec =
     Inr (s\<lparr>me_sandbox_configs := gm_set sandboxID spec (me_sandbox_configs s)\<rparr>)"

definition memory_LoadSandboxConfig :: "memory_event_store \<Rightarrow> string \<Rightarrow> go_error + create_spec option"
  where
  "memory_LoadSandboxConfig s sandboxID = Inr (gm_get (me_sandbox_configs s) sandboxID)"

definition memory_LoadAllSandboxConfigs ::
  "memory_event_store \<Rightarrow> go_error + (string, create_spec) gomap" where
  "memory_LoadAllSandboxConfigs s = Inr [(k, spec). (k, spec) \<leftarrow> me_sandbox_configs s]"

definition memory_DeleteSandboxConfig :: "memory_event_store \<Rightarrow> string \<Rightarrow> go_error + memory_event_store"
  where
  "memory_DeleteSandboxConfig s sandboxID =
     Inr (s\<lparr>me_sandbox_configs := gm_del sandboxID (me_sandbox_configs s)\<rparr>)"

definition memory_SaveExecConfig ::
  "memory_event_store \<Rightarrow> string \<Rightarrow> create_exec_request \<Rightarrow> go_error + memory_event_store" where
  "memory_SaveExecConfig s sandboxID req =
     Inr (s\<lparr>me_exec_configs :=
            gm_set sandboxID (gm_set (xr_exec_id req) req (me_execs_of s sandboxID))
              (me_exec_configs s)\<rparr>)"

definition memory_LoadExecConfigs ::
  "memory_event_store \<Rightarrow> string \<Rightarrow> go_error + create_exec_request list" where
  "memory_LoadExecConfigs s sandboxID = Inr [req. (_, req) \<leftarrow> me_execs_of s sandboxID]"

definition memoryEventStore :: "memory_event_store event_store_ops" where
  "memoryEventStore =
     \<lparr>st_append = memory_Append, st_load_events = memory_LoadEvents,
      st_load_all_sandbox_ids = memory_LoadAllSandboxIDs, st_max_sequence = memory_MaxSequence,
      st_deleted_at = memory_DeletedAt, st_mark_deleted = memory_MarkDeleted,
      st_cleanup = memory_Cleanup, st_save_sandbox_config = memory_SaveSandboxConfig,
      st_load_sandbox_config = memory_LoadSandboxConfig,
      st_load_all_sandbox_configs = memory_LoadAllSandboxConfigs,
      st_delete_sandbox_config = memory_DeleteSandboxConfig,
      st_save_exec_config = memory_SaveExecConfig,
      st_load_exec_configs = memory_LoadExecConfigs\<rparr>"

lemma memoryEventStore_sel [simp]:
  "st_append memoryEventStore = memory_Append"
  "st_load_events memoryEventStore = memory_LoadEvents"
  "st_load_all_sandbox_ids memoryEventStore = memory_LoadAllSandboxIDs"
  "st_max_sequence memoryEventStore = memory_MaxSequence"
  "st_deleted_at memoryEventStore = memory_DeletedAt"
  "st_mark_deleted memoryEventStore = memory_MarkDeleted"
  "st_cleanup memoryEventStore = memory_Cleanup"
  "st_save_sandbox_config memoryEventStore = memory_SaveSandboxConfig"
  "st_load_sandbox_config memoryEventStore = memory_LoadSandboxConfig"
  "st_load_all_sandbox_configs memoryEventStore = memory_LoadAllSandboxConfigs"
  "st_delete_sandbox_config memoryEventStore = memory_DeleteSandboxConfig"
  "st_save_exec_config memoryEventStore = memory_SaveExecConfig"
  "st_load_exec_configs memoryEventStore = memory_LoadExecConfigs"
  by (simp_all add: memoryEventStore_def)

lemmas memory_store_defs =
  memory_Append_def memory_LoadEvents_def memory_LoadAllSandboxIDs_def memory_MaxSequence_def
  memory_MarkDeleted_def memory_DeletedAt_def memory_SaveSandboxConfig_def
  memory_LoadSandboxConfig_def memory_LoadAllSandboxConfigs_def memory_DeleteSandboxConfig_def
  memory_SaveExecConfig_def memory_LoadExecConfigs_def

section \<open>What a store promises\<close>

text \<open>
  \<open>slog\<close>, \<open>sdel\<close>, \<open>scfg\<close> and \<open>sexe\<close> are what the store holds: the log, the deletion time, the
  configuration and the exec configurations of each sandbox.  Events are appended with growing
  sequence numbers (the persistent store keys them by sequence); times are \<^verbatim>\<open>int64\<close> nanoseconds.
\<close>

definition int64_time :: "time \<Rightarrow> bool" where
  "int64_time t \<longleftrightarrow> - (2 ^ 63) \<le> t \<and> t < 2 ^ 63"

definition next_in_log :: "sandbox_event list \<Rightarrow> sandbox_event \<Rightarrow> bool" where
  "next_in_log es e \<longleftrightarrow> (\<forall>e' \<in> set es. ev_sequence e' < ev_sequence e)"

definition log_ordered :: "sandbox_event list \<Rightarrow> bool" where
  "log_ordered es \<longleftrightarrow> sorted_wrt (<) (map ev_sequence es)"

lemma log_ordered_append:
  "log_ordered es \<Longrightarrow> next_in_log es e \<Longrightarrow> log_ordered (es @ [e])"
  by (auto simp: log_ordered_def next_in_log_def sorted_wrt_append)

lemma log_ordered_Nil [simp]: "log_ordered []"
  by (simp add: log_ordered_def)

locale event_store =
  fixes ops :: "'st event_store_ops"
    and inv :: "'st \<Rightarrow> bool"
    and slog :: "'st \<Rightarrow> string \<Rightarrow> sandbox_event list"
    and sdel :: "'st \<Rightarrow> string \<Rightarrow> time option"
    and scfg :: "'st \<Rightarrow> string \<Rightarrow> create_spec option"
    and sexe :: "'st \<Rightarrow> string \<Rightarrow> string \<Rightarrow> create_exec_request option"
  assumes append:
      "inv st \<Longrightarrow> next_in_log (slog st k) e \<Longrightarrow> st_append ops st k e = Inr st' \<Longrightarrow>
         inv st' \<and> slog st' = (slog st)(k := slog st k @ [e]) \<and> sdel st' = sdel st
         \<and> scfg st' = scfg st \<and> sexe st' = sexe st"
    and load_events: "inv st \<Longrightarrow> st_load_events ops st k = Inr es \<Longrightarrow> es = slog st k"
    and max_sequence:
      "inv st \<Longrightarrow> log_ordered (slog st k) \<Longrightarrow> st_max_sequence ops st k = Inr q \<Longrightarrow>
         q = (if slog st k = [] then 0 else ev_sequence (last (slog st k)))"
    and mark_deleted:
      "inv st \<Longrightarrow> int64_time t \<Longrightarrow> st_mark_deleted ops st k t = Inr st' \<Longrightarrow>
         inv st' \<and> sdel st' = (sdel st)(k \<mapsto> t) \<and> slog st' = slog st
         \<and> scfg st' = scfg st \<and> sexe st' = sexe st"
    and deleted_at: "inv st \<Longrightarrow> st_deleted_at ops st k = Inr d \<Longrightarrow> d = sdel st k"
    and cleanup:
      "inv st \<Longrightarrow> st_cleanup ops st now ttl = Inr (removed, st') \<Longrightarrow>
         inv st' \<and> sorted removed
         \<and> set removed = {k. \<exists>d. sdel st k = Some d \<and> ttl \<le> now - d}
         \<and> sdel st' = (\<lambda>k. if k \<in> set removed then None else sdel st k)
         \<and> slog st' = (\<lambda>k. if k \<in> set removed then [] else slog st k)
         \<and> scfg st' = (\<lambda>k. if k \<in> set removed then None else scfg st k)
         \<and> sexe st' = (\<lambda>k. if k \<in> set removed then Map.empty else sexe st k)"
    and save_sandbox_config:
      "inv st \<Longrightarrow> st_save_sandbox_config ops st k spec = Inr st' \<Longrightarrow>
         inv st' \<and> scfg st' = (scfg st)(k \<mapsto> spec) \<and> slog st' = slog st
         \<and> sdel st' = sdel st \<and> sexe st' = sexe st"
    and load_sandbox_config:
      "inv st \<Longrightarrow> st_load_sandbox_config ops st k = Inr c \<Longrightarrow> c = scfg st k"
    and load_all_sandbox_configs:
      "inv st \<Longrightarrow> st_load_all_sandbox_configs ops st = Inr m \<Longrightarrow> gm_ok m \<and> gm_get m = scfg st"
    and delete_sandbox_config:
      "inv st \<Longrightarrow> st_delete_sandbox_config ops st k = Inr st' \<Longrightarrow>
         inv st' \<and> scfg st' = (scfg st)(k := None) \<and> slog st' = slog st
         \<and> sdel st' = sdel st \<and> sexe st' = sexe st"
    and save_exec_config:
      "inv st \<Longrightarrow> st_save_exec_config ops st k req = Inr st' \<Longrightarrow>
         inv st' \<and> sexe st' = (sexe st)(k := (sexe st k)(xr_exec_id req \<mapsto> req))
         \<and> slog st' = slog st \<and> sdel st' = sdel st \<and> scfg st' = scfg st"
    and load_exec_configs:
      "inv st \<Longrightarrow> st_load_exec_configs ops st k = Inr reqs \<Longrightarrow> set reqs = ran (sexe st k)"
begin

text \<open>Appending a run of events and loading the log gives the events back, in order.\<close>

lemma append_all:
  assumes "fold_result (\<lambda>e s. st_append ops s k e) es st = Inr st'"
    and "inv st" and "log_ordered (slog st k @ es)"
  shows "inv st' \<and> slog st' = (slog st)(k := slog st k @ es) \<and> sdel st' = sdel st
    \<and> scfg st' = scfg st \<and> sexe st' = sexe st"
  using assms
proof (induction es arbitrary: st)
  case Nil
  then show ?case by simp
next
  case (Cons e es)
  from Cons.prems(1) obtain s1 where s1: "st_append ops st k e = Inr s1"
      and rest: "fold_result (\<lambda>e s. st_append ops s k e) es s1 = Inr st'"
    by (auto simp: res_bind_eq_Inr)
  from Cons.prems(3) have nxt: "next_in_log (slog st k) e"
    by (auto simp: log_ordered_def next_in_log_def sorted_wrt_append)
  note a = append [OF Cons.prems(2) nxt s1]
  with Cons.prems(3) have "log_ordered (slog s1 k @ es)" by simp
  with Cons.IH [OF rest] a show ?case by (simp add: fun_eq_iff)
qed

lemma append_then_load:
  assumes "inv st" and "log_ordered (slog st k @ es)"
    and "fold_result (\<lambda>e s. st_append ops s k e) es st = Inr st'"
    and "st_load_events ops st' k' = Inr es'"
  shows "es' = (if k' = k then slog st k @ es else slog st k')"
  using append_all [OF assms(3,1,2)] load_events [OF _ assms(4)] by auto

text \<open>What the restore reads back after a crash: the highest sequence is that of the last event.\<close>

lemma max_sequence_after_append:
  assumes "inv st" and "log_ordered (slog st k @ es)" and "es \<noteq> []"
    and "fold_result (\<lambda>e s. st_append ops s k e) es st = Inr st'"
    and "st_max_sequence ops st' k = Inr q"
  shows "q = ev_sequence (last es)"
proof -
  have a: "inv st'" "slog st' k = slog st k @ es"
    using append_all [OF assms(4,1,2)] by auto
  from max_sequence [OF a(1) _ assms(5)] a(2) assms(2,3) show ?thesis by simp
qed

text \<open>A sandbox is purged exactly when its deletion is old enough; the others are untouched.\<close>

lemma cleanup_keeps:
  assumes "inv st" and "st_cleanup ops st now ttl = Inr (removed, st')"
    and "\<And>d. sdel st k = Some d \<Longrightarrow> now - d < ttl"
  shows "k \<notin> set removed \<and> slog st' k = slog st k \<and> scfg st' k = scfg st k \<and> sexe st' k = sexe st k"
  using cleanup [OF assms(1,2)] assms(3) by fastforce

end

subsection \<open>The memory store keeps the promise\<close>

definition me_inv :: "memory_event_store \<Rightarrow> bool" where
  "me_inv s \<longleftrightarrow> gm_ok (me_deleted_at s) \<and> gm_ok (me_sandbox_configs s)
     \<and> (\<forall>k. gm_ok (me_execs_of s k))"

lemma me_events_of_simps [simp]:
  "me_events_of (s\<lparr>me_deleted_at := d\<rparr>) k = me_events_of s k"
  "me_events_of (s\<lparr>me_sandbox_configs := c\<rparr>) k = me_events_of s k"
  "me_events_of (s\<lparr>me_exec_configs := x\<rparr>) k = me_events_of s k"
  "me_events_of (s\<lparr>me_events := gm_set k' es (me_events s)\<rparr>) k =
     (if k = k' then es else me_events_of s k)"
  "me_execs_of (s\<lparr>me_deleted_at := d\<rparr>) k = me_execs_of s k"
  "me_execs_of (s\<lparr>me_sandbox_configs := c\<rparr>) k = me_execs_of s k"
  "me_execs_of (s\<lparr>me_events := v\<rparr>) k = me_execs_of s k"
  "me_execs_of (s\<lparr>me_exec_configs := gm_set k' m (me_exec_configs s)\<rparr>) k =
     (if k = k' then m else me_execs_of s k)"
  by (simp_all add: me_events_of_def me_execs_of_def)

text \<open>The loop of \<^verbatim>\<open>Cleanup\<close>: the expired entries, in the order visited.\<close>

definition expired :: "time \<Rightarrow> duration \<Rightarrow> (string, time) gomap \<Rightarrow> string list" where
  "expired now ttl m = [k. (k, d) \<leftarrow> m, ttl \<le> now - d]"

lemma memory_cleanup_fold:
  "fold (memory_cleanup_one now ttl) m (removed, s) =
     (removed @ expired now ttl m,
      s\<lparr>me_deleted_at := fold gm_del (expired now ttl m) (me_deleted_at s),
        me_events := fold gm_del (expired now ttl m) (me_events s),
        me_sandbox_configs := fold gm_del (expired now ttl m) (me_sandbox_configs s),
        me_exec_configs := fold gm_del (expired now ttl m) (me_exec_configs s)\<rparr>)"
  by (induction m arbitrary: removed s) (auto simp: expired_def memory_cleanup_one_def)

lemma gm_get_fold_del [simp]:
  "gm_get (fold gm_del ks m) k = (if k \<in> set ks then None else gm_get m k)"
  by (induction ks arbitrary: m) auto

lemma gm_ok_fold_del [simp]: "gm_ok m \<Longrightarrow> gm_ok (fold gm_del ks m)"
  by (induction ks arbitrary: m) auto

lemma set_expired:
  "gm_ok m \<Longrightarrow> set (expired now ttl m) = {k. \<exists>d. gm_get m k = Some d \<and> ttl \<le> now - d}"
  by (auto simp: expired_def dest: gm_get_in_set gm_in_set_get split: if_splits)

lemma memory_Cleanup_eq:
  "memory_Cleanup s now ttl =
     (let ks = expired now ttl (me_deleted_at s) in
      Inr (sort ks,
        s\<lparr>me_deleted_at := fold gm_del ks (me_deleted_at s),
          me_events := fold gm_del ks (me_events s),
          me_sandbox_configs := fold gm_del ks (me_sandbox_configs s),
          me_exec_configs := fold gm_del ks (me_exec_configs s)\<rparr>))"
  by (simp add: memory_Cleanup_def memory_cleanup_fold Let_def)

lemma memory_exec_list:
  "gm_ok m \<Longrightarrow> set [req. (_, req) \<leftarrow> m] = ran (gm_get m)"
  by (auto simp: ran_def dest: gm_get_in_set gm_in_set_get)

interpretation mem_store: event_store memoryEventStore me_inv me_events_of
  "\<lambda>s. gm_get (me_deleted_at s)" "\<lambda>s. gm_get (me_sandbox_configs s)"
  "\<lambda>s k. gm_get (me_execs_of s k)"
proof (unfold_locales, goal_cases)
  case (6 st now ttl removed st')
  then show ?case
    by (auto simp: memory_Cleanup_eq Let_def me_inv_def set_expired me_events_of_def
        me_execs_of_def fun_eq_iff)
next
  case (12 st k reqs)
  then show ?case
    using memory_exec_list [of "me_execs_of st k"]
    by (auto simp: memory_LoadExecConfigs_def me_inv_def)
qed (auto simp: memory_store_defs me_inv_def fun_eq_iff last_conv_nth map_idI Let_def
      split: if_splits)

section \<open>Keys of the persistent store\<close>

text \<open>
  \<^verbatim>\<open>encodeUint64\<close> writes a sequence number big-endian, so that bbolt's bytewise key order is the
  numeric order and the last key of a bucket is the highest sequence.
\<close>

type_synonym u8 = "8 word"

definition encodeUint64 :: "64 word \<Rightarrow> u8 list" where
  "encodeUint64 value = map (\<lambda>i. ucast (drop_bit (8 * i) value)) [7, 6, 5, 4, 3, 2, 1, 0]"

text \<open>\<^verbatim>\<open>binary.BigEndian.Uint64\<close>, which panics on fewer than 8 bytes\<close>

definition decodeUint64 :: "u8 list \<Rightarrow> (64 word) option" where
  "decodeUint64 bs =
     (if length bs < 8 then None
      else Some (foldl (\<lambda>acc b. push_bit 8 acc OR ucast b) 0 (take 8 bs)))"

definition encodeInt64 :: "int \<Rightarrow> u8 list" where
  "encodeInt64 value = encodeUint64 (word_of_int value)"

definition decodeInt64 :: "u8 list \<Rightarrow> int option" where
  "decodeInt64 bs = map_option sint (decodeUint64 bs)"

abbreviation "eventsBucketPrefix \<equiv> ''events:''"
abbreviation "execConfigBucketPrefix \<equiv> ''exec-config:''"

definition eventsBucketName :: "string \<Rightarrow> string" where
  "eventsBucketName sandboxID = eventsBucketPrefix @ sandboxID"

definition isEventsBucketName :: "string \<Rightarrow> bool" where
  "isEventsBucketName name \<longleftrightarrow>
     length name > length eventsBucketPrefix \<and> take (length eventsBucketPrefix) name = eventsBucketPrefix"

definition execConfigBucketName :: "string \<Rightarrow> string" where
  "execConfigBucketName sandboxID = execConfigBucketPrefix @ sandboxID"

section \<open>The encoding is an order embedding\<close>

definition bytes_value :: "u8 list \<Rightarrow> nat" where
  "bytes_value = foldl (\<lambda>acc b. acc * 256 + unat b) 0"

lemma bytes_value_foldl:
  "foldl (\<lambda>acc b. acc * 256 + unat (b :: u8)) a bs = a * 256 ^ length bs + bytes_value bs"
proof (induction bs arbitrary: a)
  case Nil
  then show ?case by (simp add: bytes_value_def)
next
  case (Cons b bs)
  have "bytes_value (b # bs) = unat b * 256 ^ length bs + bytes_value bs"
    using Cons.IH [of "unat b"] by (simp add: bytes_value_def)
  with Cons.IH [of "a * 256 + unat b"] show ?case by (simp add: algebra_simps)
qed

lemma bytes_value_Cons:
  "bytes_value (b # bs) = unat b * 256 ^ length bs + bytes_value bs"
  using bytes_value_foldl [of "unat b" bs] by (simp add: bytes_value_def)

lemma bytes_value_less: "bytes_value bs < 256 ^ length bs"
proof (induction bs)
  case Nil
  then show ?case by (simp add: bytes_value_def)
next
  case (Cons b bs)
  have "unat b \<le> 255" using unsigned_less [of b, where 'a = nat] by simp
  then have "unat b * 256 ^ length bs \<le> 255 * 256 ^ length bs" by (rule mult_le_mono1)
  then have "unat b * 256 ^ length bs + bytes_value bs < 255 * 256 ^ length bs + 256 ^ length bs"
    using Cons by (rule add_le_less_mono)
  then show ?case by (simp add: bytes_value_Cons)
qed

lemma bytes_lex_value:
  "length xs = length ys \<Longrightarrow> xs < ys \<longleftrightarrow> bytes_value xs < bytes_value ys"
proof (induction xs ys rule: list_induct2)
  case Nil
  then show ?case by simp
next
  case (Cons x xs y ys)
  let ?p = "(256::nat) ^ length xs"
  have bx: "bytes_value xs < ?p" and by': "bytes_value ys < ?p"
    using bytes_value_less [of xs] bytes_value_less [of ys] Cons.hyps by simp_all
  have vx: "bytes_value (x # xs) = unat x * ?p + bytes_value xs"
    and vy: "bytes_value (y # ys) = unat y * ?p + bytes_value ys"
    using Cons.hyps by (simp_all add: bytes_value_Cons)
  consider "x < y" | "x = y" | "y < x" by fastforce
  then show ?case
  proof cases
    case 1
    then have "Suc (unat x) * ?p \<le> unat y * ?p"
      by (intro mult_le_mono1) (simp add: word_less_nat_alt Suc_le_eq)
    with 1 bx show ?thesis by (simp add: vx vy)
  next
    case 2
    with Cons.IH vx vy show ?thesis by simp
  next
    case 3
    then have "Suc (unat y) * ?p \<le> unat x * ?p"
      by (intro mult_le_mono1) (simp add: word_less_nat_alt Suc_le_eq)
    with 3 by' show ?thesis by (auto simp: vx vy)
  qed
qed

lemma digits_value:
  "bytes_value (map (\<lambda>i. ucast (drop_bit (8 * i) (w :: 64 word))) (rev [0..<k]))
     = unat w mod 256 ^ k"
proof (induction k)
  case 0
  then show ?case by (simp add: bytes_value_def)
next
  case (Suc k)
  have "(256::nat) ^ k = 2 ^ (8 * k)" by (simp add: power_mult)
  moreover have "unat (drop_bit (8 * k) w) = unat w div 2 ^ (8 * k)"
    by (simp only: unat_drop_bit_eq) (simp only: drop_bit_eq_div)
  ultimately have b: "unat (ucast (drop_bit (8 * k) w) :: u8) = (unat w div 256 ^ k) mod 256"
    by (simp only: unsigned_ucast_eq take_bit_eq_mod) simp
  have "unat w mod (256 ^ Suc k) = 256 ^ k * (unat w div 256 ^ k mod 256) + unat w mod 256 ^ k"
    using mod_mult2_eq [of "unat w" "256 ^ k" 256] by (simp add: mult.commute)
  with Suc b show ?case by (simp add: bytes_value_Cons algebra_simps)
qed

lemma bytes_value_encode: "bytes_value (encodeUint64 w) = unat w"
proof -
  have "rev [0..<8] = [7, 6, 5, 4, 3, 2, 1, 0 :: nat]" by (simp add: upt_conv_Cons)
  moreover have "unat w < 256 ^ 8" using unsigned_less [of w] by simp
  ultimately show ?thesis using digits_value [of w 8] by (simp add: encodeUint64_def)
qed

lemma length_encodeUint64 [simp]: "length (encodeUint64 w) = 8"
  by (simp add: encodeUint64_def)

lemma push_or_value:
  "push_bit 8 (acc :: 64 word) OR ucast (b :: u8) = acc * 256 + ucast b"
proof -
  have "push_bit 8 acc AND (ucast b :: 64 word) = 0"
    by (rule bit_eqI) (auto simp: bit_simps dest: bit_imp_le_length)
  from disjunctive_add_eq_or [OF this] show ?thesis by (simp add: push_bit_eq_mult)
qed

lemma decode_foldl:
  "foldl (\<lambda>acc b. push_bit 8 acc OR ucast b) (of_nat n :: 64 word) bs
     = of_nat (foldl (\<lambda>acc b. acc * 256 + unat (b :: u8)) n bs)"
proof (induction bs arbitrary: n)
  case Nil
  then show ?case by simp
next
  case (Cons b bs)
  have "push_bit 8 (of_nat n :: 64 word) OR ucast b = of_nat (n * 256 + unat b)"
    by (simp add: push_or_value)
  with Cons.IH [of "n * 256 + unat b"] show ?case by (simp only: foldl_Cons)
qed

lemma decode_encode_uint64: "decodeUint64 (encodeUint64 w) = Some w"
  using decode_foldl [of 0 "encodeUint64 w"] bytes_value_encode [of w]
  by (simp add: decodeUint64_def bytes_value_def)

lemma encodeUint64_less: "encodeUint64 a < encodeUint64 b \<longleftrightarrow> a < b"
  by (simp add: bytes_lex_value bytes_value_encode word_less_nat_alt)

lemma decode_encode_int64: "int64_time t \<Longrightarrow> decodeInt64 (encodeInt64 t) = Some t"
  by (simp add: decodeInt64_def encodeInt64_def decode_encode_uint64 int64_time_def
      signed_of_int signed_take_bit_int_eq_self)

lemma length_eventsBucketPrefix: "length eventsBucketPrefix = 7"
  by simp

lemma eventsBucketName_iff:
  "isEventsBucketName name \<longleftrightarrow> (\<exists>k. k \<noteq> '''' \<and> name = eventsBucketName k)"
proof
  assume a: "isEventsBucketName name"
  then have "name = eventsBucketName (drop 7 name)"
    by (metis append_take_drop_id eventsBucketName_def isEventsBucketName_def length_eventsBucketPrefix)
  moreover from a have "drop 7 name \<noteq> ''''" by (simp add: isEventsBucketName_def)
  ultimately show "\<exists>k. k \<noteq> '''' \<and> name = eventsBucketName k" by blast
qed (auto simp: isEventsBucketName_def eventsBucketName_def)

lemma bucket_names_inj [simp]:
  "eventsBucketName a = eventsBucketName b \<longleftrightarrow> a = b"
  "execConfigBucketName a = execConfigBucketName b \<longleftrightarrow> a = b"
  "eventsBucketName a \<noteq> execConfigBucketName b"
  "execConfigBucketName a \<noteq> eventsBucketName b"
  by (auto simp: eventsBucketName_def execConfigBucketName_def)

end
