(* ===== verification/Status_Errors.thy ===== *)
theory Status_Errors
  imports Api_Types
begin

text \<open>
  The status errors of the daemon (\<^verbatim>\<open>internal/control/errors.go\<close>) and what the Go client makes of
  them (\<^verbatim>\<open>sdk/go/rawclient/errors.go\<close>).  A status carries a code, a message and the
  \<^verbatim>\<open>ErrorInfo\<close> details; the client classifies an error by the reason in the first detail and
  reads the ids back from its metadata.
\<close>

section \<open>Status errors\<close>

text \<open>The codes the daemon uses; \<^verbatim>\<open>codes.OK\<close> is never one of them.\<close>

datatype grpc_code =
    InvalidArgument | NotFound | AlreadyExists | FailedPrecondition | OutOfRange | Internal

record error_info =
  ei_reason :: string
  ei_domain :: string
  ei_metadata :: "(string, string) gomap"

record rpc_status =
  st_code :: grpc_code
  st_message :: err_msg
  st_details :: "error_info list"

abbreviation "ErrorDomain \<equiv> ''agents-sandbox''"
abbreviation "ReasonSandboxConflict \<equiv> ''SANDBOX_CONFLICT''"
abbreviation "ReasonSandboxIDAlreadyExists \<equiv> ''SANDBOX_ID_ALREADY_EXISTS''"
abbreviation "ReasonSandboxNotFound \<equiv> ''SANDBOX_NOT_FOUND''"
abbreviation "ReasonSandboxNotReady \<equiv> ''SANDBOX_NOT_READY''"
abbreviation "ReasonSandboxInvalidState \<equiv> ''SANDBOX_INVALID_STATE''"
abbreviation "ReasonExecIDAlreadyExists \<equiv> ''EXEC_ID_ALREADY_EXISTS''"
abbreviation "ReasonExecNotFound \<equiv> ''EXEC_NOT_FOUND''"
abbreviation "ReasonExecAlreadyTerminal \<equiv> ''EXEC_ALREADY_TERMINAL''"
abbreviation "ReasonExecNotRunning \<equiv> ''EXEC_NOT_RUNNING''"
abbreviation "ReasonSandboxEventSequenceExpired \<equiv> ''SANDBOX_EVENT_SEQUENCE_EXPIRED''"

definition newStatusError ::
  "grpc_code \<Rightarrow> string \<Rightarrow> (string, string) gomap \<Rightarrow> err_msg \<Rightarrow> rpc_status" where
  "newStatusError code reason metadata message =
     \<lparr>st_code = code, st_message = message,
      st_details = [\<lparr>ei_reason = reason, ei_domain = ErrorDomain, ei_metadata = metadata\<rparr>]\<rparr>"

text \<open>\<^verbatim>\<open>status.Error(code, msg)\<close> and \<^verbatim>\<open>status.Errorf\<close>: no details.\<close>

definition plainStatus :: "grpc_code \<Rightarrow> err_msg \<Rightarrow> rpc_status" where
  "plainStatus code message = \<lparr>st_code = code, st_message = message, st_details = []\<rparr>"

lemma status_simps [simp]:
  "st_code (newStatusError c r md m) = c"
  "st_message (newStatusError c r md m) = m"
  "st_code (plainStatus c m) = c"
  "st_message (plainStatus c m) = m"
  "st_details (plainStatus c m) = []"
  "newStatusError c r md m = newStatusError c' r' md' m' \<longleftrightarrow>
     c = c' \<and> r = r' \<and> md = md' \<and> m = m'"
  "plainStatus c m = plainStatus c' m' \<longleftrightarrow> c = c' \<and> m = m'"
  "newStatusError c r md m \<noteq> plainStatus c' m'"
  "plainStatus c' m' \<noteq> newStatusError c r md m"
  by (auto simp: newStatusError_def plainStatus_def)

section \<open>The client's errors\<close>

datatype client_error_kind =
    SandboxClientError
  | SandboxConflictError string
  | SandboxNotFoundError string
  | SandboxNotReadyError string
  | SandboxInvalidStateError
  | ExecNotFoundError string
  | ExecAlreadyTerminalError string
  | ExecNotRunningError string
  | SandboxSequenceExpiredError string "seqno option" "seqno option"

text \<open>What a call returned: an error that is no status, or a status.\<close>

datatype call_error = PlainError err_msg | StatusError rpc_status

record client_error =
  ce_kind :: client_error_kind
  ce_message :: err_msg
  ce_cause :: call_error

definition msg_empty :: "err_msg \<Rightarrow> bool" where
  "msg_empty m \<longleftrightarrow> list_all (\<lambda>f. f = Lit '''') m"

text \<open>\<^verbatim>\<open>strconv.ParseUint(s, 10, 64)\<close>\<close>

definition parseUint64 :: "string \<Rightarrow> seqno option" where
  "parseUint64 s =
     (if s = '''' then None
      else case parse_digits 0 s of
             None \<Rightarrow> None
           | Some v \<Rightarrow> if v < 2 ^ 64 then Some (of_nat v) else None)"

definition show_seqno :: "seqno \<Rightarrow> string" where
  "show_seqno q = show_nat (unat q)"

definition md_get :: "(string, string) gomap \<Rightarrow> string \<Rightarrow> string" where
  "md_get md k = (case gm_get md k of None \<Rightarrow> '''' | Some v \<Rightarrow> v)"

definition md_seqno :: "(string, string) gomap \<Rightarrow> string \<Rightarrow> seqno option" where
  "md_seqno md k =
     (case gm_get md k of
        None \<Rightarrow> None
      | Some s \<Rightarrow> if s \<noteq> '''' then parseUint64 s else None)"

definition translateRPCError :: "call_error \<Rightarrow> client_error" where
  "translateRPCError err =
     (case err of
        PlainError m \<Rightarrow> \<lparr>ce_kind = SandboxClientError, ce_message = m, ce_cause = err\<rparr>
      | StatusError st \<Rightarrow>
        (let reason = (case st_details st of [] \<Rightarrow> '''' | i # _ \<Rightarrow> ei_reason i);
             metadata = (case st_details st of [] \<Rightarrow> [] | i # _ \<Rightarrow> ei_metadata i);
             message = (if msg_empty (st_message st)
                        then if reason \<noteq> '''' then [Lit reason] else [Lit ''RPC failed'']
                        else st_message st);
             sandboxID = md_get metadata ''sandbox_id'';
             execID = md_get metadata ''exec_id'';
             mk = (\<lambda>k m. \<lparr>ce_kind = k, ce_message = m, ce_cause = err\<rparr>)
         in
         if reason = ReasonSandboxConflict \<or> reason = ReasonSandboxIDAlreadyExists
            \<or> reason = ReasonExecIDAlreadyExists
         then mk (SandboxConflictError sandboxID) message
         else if reason = ReasonSandboxNotFound
         then mk (SandboxNotFoundError sandboxID)
                (if sandboxID \<noteq> '''' then [Lit ''Sandbox '', Lit sandboxID, Lit '' not found.'']
                 else message)
         else if reason = ReasonSandboxNotReady
         then mk (SandboxNotReadyError sandboxID)
                (if sandboxID \<noteq> '''' then [Lit ''Sandbox '', Lit sandboxID, Lit '' is not ready.'']
                 else message)
         else if reason = ReasonSandboxInvalidState
         then mk SandboxInvalidStateError message
         else if reason = ReasonExecNotFound
         then mk (ExecNotFoundError execID)
                (if execID \<noteq> '''' then [Lit ''Exec '', Lit execID, Lit '' not found.'']
                 else message)
         else if reason = ReasonExecAlreadyTerminal
         then mk (ExecAlreadyTerminalError execID)
                (if execID \<noteq> '''' then [Lit ''Exec '', Lit execID, Lit '' is already terminal.'']
                 else message)
         else if reason = ReasonExecNotRunning
         then mk (ExecNotRunningError execID)
                (if execID \<noteq> '''' then [Lit ''Exec '', Lit execID, Lit '' is not running.'']
                 else message)
         else if reason = ReasonSandboxEventSequenceExpired
         then mk (SandboxSequenceExpiredError sandboxID
                    (md_seqno metadata ''from_sequence'') (md_seqno metadata ''oldest_sequence''))
                message
         else mk SandboxClientError message))"

lemma parseUint64_show [simp]: "parseUint64 (show_seqno q) = Some q"
proof -
  have "unat q < 2 ^ 64" using unsigned_less [of q] by simp
  then show ?thesis by (simp add: parseUint64_def show_seqno_def parse_show_nat)
qed

lemma show_seqno_inj [simp]: "show_seqno a = show_seqno b \<longleftrightarrow> a = b"
  by (simp add: show_seqno_def word_unat_eq_iff)

lemma show_seqno_nonempty [simp]: "show_seqno q \<noteq> []"
  by (simp add: show_seqno_def)

lemma ce_cause_translate: "ce_cause (translateRPCError err) = err"
  by (auto simp: translateRPCError_def Let_def split: call_error.splits)

text \<open>
  The kinds the client derives from the daemon's own status errors, id included.
\<close>

lemma translate_newStatusError:
  "ce_kind (translateRPCError (StatusError (newStatusError c r md m))) =
     (if r \<in> {ReasonSandboxConflict, ReasonSandboxIDAlreadyExists, ReasonExecIDAlreadyExists}
      then SandboxConflictError (md_get md ''sandbox_id'')
      else if r = ReasonSandboxNotFound then SandboxNotFoundError (md_get md ''sandbox_id'')
      else if r = ReasonSandboxNotReady then SandboxNotReadyError (md_get md ''sandbox_id'')
      else if r = ReasonSandboxInvalidState then SandboxInvalidStateError
      else if r = ReasonExecNotFound then ExecNotFoundError (md_get md ''exec_id'')
      else if r = ReasonExecAlreadyTerminal then ExecAlreadyTerminalError (md_get md ''exec_id'')
      else if r = ReasonExecNotRunning then ExecNotRunningError (md_get md ''exec_id'')
      else if r = ReasonSandboxEventSequenceExpired
           then SandboxSequenceExpiredError (md_get md ''sandbox_id'')
                  (md_seqno md ''from_sequence'') (md_seqno md ''oldest_sequence'')
      else SandboxClientError)"
  by (simp add: translateRPCError_def newStatusError_def Let_def)

end
