(* ===== verification/Id_Registry.thy ===== *)
theory Id_Registry
  imports Status_Errors
begin

text \<open>
  The id registry (\<^verbatim>\<open>internal/control/id_registry.go\<close>) and the allocation of sandbox and exec ids
  on top of it (\<^verbatim>\<open>allocateID\<close>, \<^verbatim>\<open>validateCallerProvidedID\<close> in \<^verbatim>\<open>internal/control/service.go\<close>).

  The Go interface \<^verbatim>\<open>idRegistry\<close> is a record of its methods over the provider's state \<open>'r\<close>; a method
  returns its error or the new state.  What every provider promises is the locale
  \<open>id_registry\<close>, proved here for \<^verbatim>\<open>memoryIDRegistry\<close>.

  \<^verbatim>\<open>uuid.NewString\<close> is not part of the repository: the ids it will return are a list
  argument, and the allocation loop that is still running when the list ends is \<^const>\<open>None\<close>.
\<close>

section \<open>The interface\<close>

record 'r id_registry_ops =
  ir_reserve_sandbox_id :: "'r \<Rightarrow> string \<Rightarrow> time \<Rightarrow> go_error + 'r"
  ir_reserve_exec_id :: "'r \<Rightarrow> string \<Rightarrow> time \<Rightarrow> go_error + 'r"
  ir_release_sandbox_id :: "'r \<Rightarrow> string \<Rightarrow> go_error + 'r"
  ir_release_exec_id :: "'r \<Rightarrow> string \<Rightarrow> go_error + 'r"

section \<open>The memory registry\<close>

record memory_id_registry =
  mr_sandbox_ids :: "(string, time) gomap"
  mr_exec_ids :: "(string, time) gomap"

definition newMemoryIDRegistry :: memory_id_registry where
  "newMemoryIDRegistry = \<lparr>mr_sandbox_ids = [], mr_exec_ids = []\<rparr>"

definition memory_reserve ::
  "(string, time) gomap \<Rightarrow> string \<Rightarrow> time \<Rightarrow> go_error \<Rightarrow> go_error + (string, time) gomap" where
  "memory_reserve ids k createdAt duplicateErr =
     (case gm_get ids k of
        Some _ \<Rightarrow> Inl duplicateErr
      | None \<Rightarrow> Inr (gm_set k createdAt ids))"

definition memory_ReserveSandboxID ::
  "memory_id_registry \<Rightarrow> string \<Rightarrow> time \<Rightarrow> go_error + memory_id_registry" where
  "memory_ReserveSandboxID r k createdAt =
     res_bind (memory_reserve (mr_sandbox_ids r) k createdAt ErrSandboxIDAlreadyExists)
       (\<lambda>ids. Inr (r\<lparr>mr_sandbox_ids := ids\<rparr>))"

definition memory_ReserveExecID ::
  "memory_id_registry \<Rightarrow> string \<Rightarrow> time \<Rightarrow> go_error + memory_id_registry" where
  "memory_ReserveExecID r k createdAt =
     res_bind (memory_reserve (mr_exec_ids r) k createdAt ErrExecIDAlreadyExists)
       (\<lambda>ids. Inr (r\<lparr>mr_exec_ids := ids\<rparr>))"

definition memory_ReleaseSandboxID ::
  "memory_id_registry \<Rightarrow> string \<Rightarrow> go_error + memory_id_registry" where
  "memory_ReleaseSandboxID r k = Inr (r\<lparr>mr_sandbox_ids := gm_del k (mr_sandbox_ids r)\<rparr>)"

definition memory_ReleaseExecID ::
  "memory_id_registry \<Rightarrow> string \<Rightarrow> go_error + memory_id_registry" where
  "memory_ReleaseExecID r k = Inr (r\<lparr>mr_exec_ids := gm_del k (mr_exec_ids r)\<rparr>)"

definition memoryIDRegistry :: "memory_id_registry id_registry_ops" where
  "memoryIDRegistry =
     \<lparr>ir_reserve_sandbox_id = memory_ReserveSandboxID,
      ir_reserve_exec_id = memory_ReserveExecID,
      ir_release_sandbox_id = memory_ReleaseSandboxID,
      ir_release_exec_id = memory_ReleaseExecID\<rparr>"

lemmas memory_registry_defs = memory_reserve_def memory_ReserveSandboxID_def
  memory_ReserveExecID_def memory_ReleaseSandboxID_def memory_ReleaseExecID_def

lemma memory_reserve_Inr:
  "memory_reserve ids k t e = Inr ids' \<longleftrightarrow> k \<notin> gm_keys ids \<and> ids' = gm_set k t ids"
  by (auto simp: memory_reserve_def gm_get_None [symmetric] split: option.splits)

lemma memory_reserve_Inl:
  "memory_reserve ids k t e = Inl e' \<longleftrightarrow> k \<in> gm_keys ids \<and> e' = e"
  using gm_get_Some_key [of k ids] by (auto simp: memory_reserve_def split: option.splits)

lemma memoryIDRegistry_sel [simp]:
  "ir_reserve_sandbox_id memoryIDRegistry = memory_ReserveSandboxID"
  "ir_reserve_exec_id memoryIDRegistry = memory_ReserveExecID"
  "ir_release_sandbox_id memoryIDRegistry = memory_ReleaseSandboxID"
  "ir_release_exec_id memoryIDRegistry = memory_ReleaseExecID"
  by (simp_all add: memoryIDRegistry_def)

section \<open>Ids a caller provides\<close>

definition alnum_char :: "char \<Rightarrow> bool" where
  "alnum_char c \<longleftrightarrow>
     (CHR ''a'' \<le> c \<and> c \<le> CHR ''z'') \<or> (CHR ''A'' \<le> c \<and> c \<le> CHR ''Z'')
     \<or> (CHR ''0'' \<le> c \<and> c \<le> CHR ''9'')"

definition id_char :: "char \<Rightarrow> bool" where
  "id_char c \<longleftrightarrow> alnum_char c \<or> c = CHR ''_'' \<or> c = CHR ''-''"

text \<open>\<^verbatim>\<open>^[a-zA-Z0-9][a-zA-Z0-9_-]{2,198}[a-zA-Z0-9]$\<close>\<close>

fun callerProvidedIDPattern :: "string \<Rightarrow> bool" where
  "callerProvidedIDPattern [] = False"
| "callerProvidedIDPattern (c # cs) =
     (alnum_char c \<and> cs \<noteq> [] \<and> alnum_char (last cs)
      \<and> 2 \<le> length (butlast cs) \<and> length (butlast cs) \<le> 198
      \<and> list_all id_char (butlast cs))"

definition validateCallerProvidedID :: "string \<Rightarrow> string \<Rightarrow> rpc_status option" where
  "validateCallerProvidedID fieldName k =
     (if length k < 4
      then Some (plainStatus InvalidArgument
             [Lit fieldName, Lit '' must be at least 4 characters''])
      else if \<not> callerProvidedIDPattern k
      then Some (plainStatus InvalidArgument
             [Lit fieldName, Lit '' must be 4-200 characters, start and end with a letter or digit, and contain only letters, digits, hyphens, or underscores''])
      else None)"

section \<open>Allocation\<close>

text \<open>The \<^verbatim>\<open>for\<close> loop of \<^verbatim>\<open>allocateID\<close> over the ids the generator returns.\<close>

fun allocate_generated ::
  "('r \<Rightarrow> string \<Rightarrow> time \<Rightarrow> go_error + 'r) \<Rightarrow> string \<Rightarrow> time \<Rightarrow> string list \<Rightarrow> 'r
     \<Rightarrow> (rpc_status + string \<times> 'r) option" where
  "allocate_generated reserve fieldName now [] r = None"
| "allocate_generated reserve fieldName now (k # ks) r =
     (case reserve r k now of
        Inr r' \<Rightarrow> Some (Inr (k, r'))
      | Inl err \<Rightarrow>
          if err = ErrSandboxIDAlreadyExists \<or> err = ErrExecIDAlreadyExists
          then allocate_generated reserve fieldName now ks r
          else Some (Inl (plainStatus Internal
                 ([Lit ''reserve '', Lit fieldName, Lit '': ''] @ error_text err))))"

definition allocateID ::
  "('r \<Rightarrow> string \<Rightarrow> time \<Rightarrow> go_error + 'r) \<Rightarrow> string \<Rightarrow> string \<Rightarrow> time \<Rightarrow> string list \<Rightarrow> string \<Rightarrow> 'r
     \<Rightarrow> (rpc_status + string \<times> 'r) option" where
  "allocateID reserve duplicateReason fieldName now uuids requestedID r =
     (if requestedID \<noteq> ''''
      then case validateCallerProvidedID fieldName requestedID of
             Some e \<Rightarrow> Some (Inl e)
           | None \<Rightarrow>
             (case reserve r requestedID now of
                Inr r' \<Rightarrow> Some (Inr (requestedID, r'))
              | Inl err \<Rightarrow>
                  if err = ErrSandboxIDAlreadyExists \<or> err = ErrExecIDAlreadyExists
                  then Some (Inl (newStatusError AlreadyExists duplicateReason
                         [(fieldName, requestedID)]
                         [Lit fieldName, Lit '' '', Lit requestedID, Lit '' already exists'']))
                  else Some (Inl (plainStatus Internal
                         ([Lit ''reserve '', Lit fieldName, Lit '': ''] @ error_text err))))
      else allocate_generated reserve fieldName now uuids r)"

definition allocateSandboxID ::
  "'r id_registry_ops \<Rightarrow> time \<Rightarrow> string list \<Rightarrow> string \<Rightarrow> 'r \<Rightarrow> (rpc_status + string \<times> 'r) option"
  where
  "allocateSandboxID ops now uuids requestedID r =
     allocateID (ir_reserve_sandbox_id ops) ReasonSandboxIDAlreadyExists ''sandbox_id''
       now uuids requestedID r"

definition allocateExecID ::
  "'r id_registry_ops \<Rightarrow> time \<Rightarrow> string list \<Rightarrow> string \<Rightarrow> 'r \<Rightarrow> (rpc_status + string \<times> 'r) option"
  where
  "allocateExecID ops now uuids requestedID r =
     allocateID (ir_reserve_exec_id ops) ReasonExecIDAlreadyExists ''exec_id''
       now uuids requestedID r"

section \<open>What a registry promises\<close>

text \<open>
  \<open>sids\<close> and \<open>eids\<close> are the reserved ids.  A reservation that succeeds was of a free id and
  adds just that id; one refused as a duplicate was of a reserved id; a release removes one id.
\<close>

locale id_registry =
  fixes ops :: "'r id_registry_ops"
    and sids :: "'r \<Rightarrow> string set"
    and eids :: "'r \<Rightarrow> string set"
  assumes reserve_sandbox:
      "ir_reserve_sandbox_id ops r k t = Inr r' \<Longrightarrow>
         k \<notin> sids r \<and> sids r' = insert k (sids r) \<and> eids r' = eids r"
    and reserve_exec:
      "ir_reserve_exec_id ops r k t = Inr r' \<Longrightarrow>
         k \<notin> eids r \<and> eids r' = insert k (eids r) \<and> sids r' = sids r"
    and reserve_sandbox_dup:
      "ir_reserve_sandbox_id ops r k t = Inl ErrSandboxIDAlreadyExists \<Longrightarrow> k \<in> sids r"
    and reserve_sandbox_other: "ir_reserve_sandbox_id ops r k t \<noteq> Inl ErrExecIDAlreadyExists"
    and reserve_exec_dup:
      "ir_reserve_exec_id ops r k t = Inl ErrExecIDAlreadyExists \<Longrightarrow> k \<in> eids r"
    and reserve_exec_other: "ir_reserve_exec_id ops r k t \<noteq> Inl ErrSandboxIDAlreadyExists"
    and release_sandbox:
      "ir_release_sandbox_id ops r k = Inr r' \<Longrightarrow> sids r' = sids r - {k} \<and> eids r' = eids r"
    and release_exec:
      "ir_release_exec_id ops r k = Inr r' \<Longrightarrow> eids r' = eids r - {k} \<and> sids r' = sids r"
begin

lemma allocate_generated_sandbox:
  assumes "allocate_generated (ir_reserve_sandbox_id ops) fn now ks r = Some (Inr (k, r'))"
  shows "k \<in> set ks \<and> k \<notin> sids r \<and> sids r' = insert k (sids r) \<and> eids r' = eids r"
  using assms
  by (induction ks) (auto dest: reserve_sandbox split: sum.splits if_splits)

lemma allocate_generated_exec:
  assumes "allocate_generated (ir_reserve_exec_id ops) fn now ks r = Some (Inr (k, r'))"
  shows "k \<in> set ks \<and> k \<notin> eids r \<and> eids r' = insert k (eids r) \<and> sids r' = sids r"
  using assms
  by (induction ks) (auto dest: reserve_exec split: sum.splits if_splits)

lemma allocate_generated_returns:
  "set ks \<inter> - sids r \<noteq> {} \<Longrightarrow>
     allocate_generated (ir_reserve_sandbox_id ops) fn now ks r \<noteq> None"
proof (induction ks)
  case Nil
  then show ?case by simp
next
  case (Cons k ks)
  then show ?case
    using reserve_sandbox_dup reserve_sandbox_other
    by (auto split: sum.splits)
qed

lemma allocateSandboxID_fresh:
  assumes "allocateSandboxID ops now uuids req r = Some (Inr (k, r'))"
  shows "k \<notin> sids r \<and> sids r' = insert k (sids r) \<and> eids r' = eids r
    \<and> (if req = '''' then k \<in> set uuids else k = req \<and> validateCallerProvidedID ''sandbox_id'' k = None)"
  using assms
  by (auto simp: allocateSandboxID_def allocateID_def
           dest: allocate_generated_sandbox reserve_sandbox
           split: sum.splits option.splits if_splits)

lemma allocateExecID_fresh:
  assumes "allocateExecID ops now uuids req r = Some (Inr (k, r'))"
  shows "k \<notin> eids r \<and> eids r' = insert k (eids r) \<and> sids r' = sids r
    \<and> (if req = '''' then k \<in> set uuids else k = req \<and> validateCallerProvidedID ''exec_id'' k = None)"
  using assms
  by (auto simp: allocateExecID_def allocateID_def
           dest: allocate_generated_exec reserve_exec
           split: sum.splits option.splits if_splits)

lemma allocateSandboxID_returns:
  "req \<noteq> '''' \<or> (\<exists>k \<in> set uuids. k \<notin> sids r) \<Longrightarrow> allocateSandboxID ops now uuids req r \<noteq> None"
  using allocate_generated_returns [of uuids r]
  by (auto simp: allocateSandboxID_def allocateID_def split: sum.splits option.splits)

end

interpretation mem_reg: id_registry memoryIDRegistry
  "\<lambda>r. gm_keys (mr_sandbox_ids r)" "\<lambda>r. gm_keys (mr_exec_ids r)"
  by unfold_locales
    (auto simp: memory_ReserveSandboxID_def memory_ReserveExecID_def memory_ReleaseSandboxID_def
       memory_ReleaseExecID_def memory_reserve_Inr memory_reserve_Inl res_bind_def
     split: sum.splits)

section \<open>Facts about id syntax\<close>

lemma id_char_of_alnum: "alnum_char c \<Longrightarrow> id_char c"
  by (simp add: id_char_def)

lemma callerProvidedID_chars:
  "callerProvidedIDPattern k \<Longrightarrow> c \<in> set k \<Longrightarrow> id_char c"
proof (cases k)
  case (Cons a cs)
  assume p: "callerProvidedIDPattern k" and c: "c \<in> set k"
  from p Cons have cs: "cs \<noteq> []" by simp
  then have "set cs = set (butlast cs) \<union> {last cs}"
    by (metis append_butlast_last_id list.set(1,2) set_append)
  with p c Cons show ?thesis
    by (auto simp: id_char_of_alnum list_all_iff)
qed simp

lemma callerProvidedID_length:
  "callerProvidedIDPattern k \<Longrightarrow> 4 \<le> length k \<and> length k \<le> 200"
  by (cases k) auto

end
