(* ===== verification/Go_Path.thy ===== *)
theory Go_Path
  imports Prelude
begin

text \<open>
  The string and path functions of Go's standard library that the daemon relies on:
  \<^verbatim>\<open>strings.HasPrefix\<close>, \<^verbatim>\<open>Contains\<close>, \<^verbatim>\<open>ReplaceAll\<close>, \<^verbatim>\<open>TrimSpace\<close>, \<^verbatim>\<open>ToLower\<close> and
  \<^verbatim>\<open>filepath.IsAbs\<close>, \<^verbatim>\<open>Clean\<close>, \<^verbatim>\<open>Join\<close>, \<^verbatim>\<open>Dir\<close>, \<^verbatim>\<open>Abs\<close>, \<^verbatim>\<open>Rel\<close> on Unix, and the home-directory
  expansions of \<^verbatim>\<open>internal/control/docker_runtime_materialize.go\<close> built on them.

  \<^verbatim>\<open>Clean\<close> works on the components of the path with a stack: \<^verbatim>\<open>.\<close> and empty components
  vanish, \<^verbatim>\<open>..\<close> pops the component before it, vanishes at the root of an absolute path and
  stays at the start of a relative one.
\<close>

section \<open>Strings\<close>

abbreviation HasPrefix :: "string \<Rightarrow> string \<Rightarrow> bool" where
  "HasPrefix s p \<equiv> prefix p s"

fun str_contains :: "string \<Rightarrow> string \<Rightarrow> bool" where
  "str_contains [] sub \<longleftrightarrow> sub = []"
| "str_contains (c # cs) sub \<longleftrightarrow> prefix sub (c # cs) \<or> str_contains cs sub"

text \<open>\<^verbatim>\<open>strings.ReplaceAll\<close> for a non-empty pattern; the code never uses an empty one\<close>

function replace_all :: "string \<Rightarrow> string \<Rightarrow> string \<Rightarrow> string" where
  "replace_all [] old new = []"
| "replace_all (c # cs) old new =
     (if old \<noteq> [] \<and> prefix old (c # cs)
      then new @ replace_all (drop (length old) (c # cs)) old new
      else c # replace_all cs old new)"
  by pat_completeness auto
termination
  by (relation "measure (\<lambda>(s, _, _). length s)") auto

definition join_with :: "string \<Rightarrow> string list \<Rightarrow> string" where
  "join_with sep parts =
     (case parts of [] \<Rightarrow> [] | p # ps \<Rightarrow> p @ concat (map (\<lambda>q. sep @ q) ps))"

fun split_char :: "char \<Rightarrow> string \<Rightarrow> string list" where
  "split_char sep [] = [[]]"
| "split_char sep (c # cs) =
     (if c = sep then [] # split_char sep cs
      else case split_char sep cs of [] \<Rightarrow> [[c]] | p # ps \<Rightarrow> (c # p) # ps)"

text \<open>\<^verbatim>\<open>strings.ToLower\<close> of ASCII letters; what it does to other runes is never compared\<close>

definition lower_char :: "char \<Rightarrow> char" where
  "lower_char c = (if CHR ''A'' \<le> c \<and> c \<le> CHR ''Z'' then char_of (of_char c + 32 :: nat) else c)"

definition to_lower :: "string \<Rightarrow> string" where
  "to_lower s = map lower_char s"

text \<open>
  \<^verbatim>\<open>strings.TrimSpace\<close>: the UTF-8 encodings of the runes for which \<^verbatim>\<open>unicode.IsSpace\<close> holds.
\<close>

definition space_encodings :: "string list" where
  "space_encodings =
     map (map (char_of :: nat \<Rightarrow> char))
       ([[9], [10], [11], [12], [13], [32], [0xC2, 0x85], [0xC2, 0xA0], [0xE1, 0x9A, 0x80],
         [0xE2, 0x80, 0xA8], [0xE2, 0x80, 0xA9], [0xE2, 0x80, 0xAF], [0xE2, 0x81, 0x9F],
         [0xE3, 0x80, 0x80]] @ map (\<lambda>b. [0xE2, 0x80, b]) [0x80..<0x8B])"

definition trim_one :: "string list \<Rightarrow> string \<Rightarrow> string option" where
  "trim_one encs s = map_option (\<lambda>e. drop (length e) s) (find (\<lambda>e. prefix e s) encs)"

function trim_front :: "string list \<Rightarrow> string \<Rightarrow> string" where
  "trim_front encs s =
     (case trim_one encs s of
        Some s' \<Rightarrow> if length s' < length s then trim_front encs s' else s
      | None \<Rightarrow> s)"
  by pat_completeness auto
termination
  by (relation "measure (\<lambda>(_, s). length s)") auto

declare trim_front.simps [simp del]

definition trim_space :: "string \<Rightarrow> string" where
  "trim_space s = rev (trim_front (map rev space_encodings) (rev (trim_front space_encodings s)))"

section \<open>Paths\<close>

abbreviation slash :: char where "slash \<equiv> CHR ''/''"

definition IsAbs :: "string \<Rightarrow> bool" where
  "IsAbs p \<longleftrightarrow> prefix [slash] p"

definition dot :: string where "dot = ''.''"
definition dotdot :: string where "dotdot = ''..''"

text \<open>One component of \<^verbatim>\<open>Clean\<close>; the stack has the last component first.\<close>

definition clean_step :: "bool \<Rightarrow> string \<Rightarrow> string list \<Rightarrow> string list" where
  "clean_step rooted c stack =
     (if c = [] \<or> c = dot then stack
      else if c = dotdot then
        (case stack of
           [] \<Rightarrow> if rooted then [] else [dotdot]
         | c0 # rest \<Rightarrow> if c0 = dotdot then dotdot # stack else rest)
      else c # stack)"

definition clean_components :: "bool \<Rightarrow> string list \<Rightarrow> string list" where
  "clean_components rooted cs = rev (fold (clean_step rooted) cs [])"

text \<open>The components of a path, and the path made of components.\<close>

definition components :: "string \<Rightarrow> string list" where
  "components p = clean_components (IsAbs p) (split_char slash p)"

definition render_path :: "bool \<Rightarrow> string list \<Rightarrow> string" where
  "render_path rooted cs =
     (if rooted then slash # join_with [slash] cs
      else if cs = [] then dot else join_with [slash] cs)"

definition Clean :: "string \<Rightarrow> string" where
  "Clean p = render_path (IsAbs p) (components p)"

fun JoinPath :: "string list \<Rightarrow> string" where
  "JoinPath [] = []"
| "JoinPath (e # es) = (if e = [] then JoinPath es else Clean (join_with [slash] (e # es)))"

text \<open>\<^verbatim>\<open>filepath.Dir\<close>: everything up to the last slash, cleaned\<close>

definition Dir :: "string \<Rightarrow> string" where
  "Dir p = Clean (rev (dropWhile (\<lambda>c. c \<noteq> slash) (rev p)))"

definition Abs :: "go_error + string \<Rightarrow> string \<Rightarrow> go_error + string" where
  "Abs cwd p = (if IsAbs p then Inr (Clean p) else res_bind cwd (\<lambda>wd. Inr (JoinPath [wd, p])))"

fun strip_common :: "'a list \<Rightarrow> 'a list \<Rightarrow> 'a list \<times> 'a list" where
  "strip_common (x # xs) (y # ys) = (if x = y then strip_common xs ys else (x # xs, y # ys))"
| "strip_common xs ys = (xs, ys)"

text \<open>
  \<^verbatim>\<open>filepath.Rel\<close>: the cleaned paths, \<^verbatim>\<open>.\<close> as base counting as no component, must be both
  absolute or both relative; what is left of the base after the common components is climbed up.
\<close>

definition rel_components :: "bool \<Rightarrow> string \<Rightarrow> string list" where
  "rel_components is_base p =
     (if components p = [] \<and> \<not> IsAbs p \<and> \<not> is_base then [dot] else components p)"

definition Rel :: "string \<Rightarrow> string \<Rightarrow> go_error + string" where
  "Rel basepath targpath =
     (if Clean basepath = Clean targpath then Inr dot
      else if IsAbs basepath \<noteq> IsAbs targpath then
        Inl (ErrText [Lit ''Rel: can't make '', Lit targpath, Lit '' relative to '', Lit basepath])
      else case strip_common (rel_components True basepath) (rel_components False targpath) of
        (b, t) \<Rightarrow>
          if b \<noteq> [] \<and> hd b = dotdot then
            Inl (ErrText [Lit ''Rel: can't make '', Lit targpath, Lit '' relative to '', Lit basepath])
          else Inr (join_with [slash] (replicate (length b) dotdot @ t)))"

section \<open>Home directories\<close>

abbreviation ContainerUserHome :: string where
  "ContainerUserHome \<equiv> ''/home/agbox''"

text \<open>\<open>home\<close> is what \<^verbatim>\<open>os.UserHomeDir\<close> returns, \<open>cwd\<close> what \<^verbatim>\<open>os.Getwd\<close> does.\<close>

definition expandHomePath ::
  "go_error + string \<Rightarrow> go_error + string \<Rightarrow> string \<Rightarrow> go_error + string" where
  "expandHomePath home cwd path =
     (if path = '''' then Inr ''''
      else if path = ''~'' \<or> HasPrefix path ''~/'' then
        res_bind home (\<lambda>homeDir.
          if path = ''~'' then Abs cwd homeDir
          else Abs cwd (JoinPath [homeDir, drop 2 path]))
      else Abs cwd path)"

definition validateTildePath :: "string \<Rightarrow> go_error option" where
  "validateTildePath path =
     (if HasPrefix path ''~'' \<and> path \<noteq> ''~'' \<and> \<not> HasPrefix path ''~/''
      then Some (ErrText [Lit ''~username syntax is not supported: '', Lit path])
      else None)"

definition expandContainerHomePath :: "string \<Rightarrow> string" where
  "expandContainerHomePath path =
     (if path = ''~'' then ContainerUserHome
      else if HasPrefix path ''~/'' then ContainerUserHome @ drop 1 path
      else path)"

section \<open>Components of cleaned paths\<close>

text \<open>A list of components that \<^verbatim>\<open>Clean\<close> can produce: no separators, no \<^verbatim>\<open>.\<close> and no empty ones,
  \<^verbatim>\<open>..\<close> only in front and only in a relative path.\<close>

definition plain_component :: "string \<Rightarrow> bool" where
  "plain_component c \<longleftrightarrow> c \<noteq> [] \<and> c \<noteq> dot \<and> c \<noteq> dotdot \<and> slash \<notin> set c"

definition normal_stack :: "bool \<Rightarrow> string list \<Rightarrow> bool" where
  "normal_stack rooted st \<longleftrightarrow>
     (\<exists>xs n. st = xs @ replicate n dotdot \<and> (\<forall>c \<in> set xs. plain_component c)
       \<and> (rooted \<longrightarrow> n = 0))"

lemma split_char_nonempty [simp]: "split_char s p \<noteq> []"
  by (induction p) (auto split: list.splits)

lemma split_char_no_sep: "c \<in> set (split_char s p) \<Longrightarrow> s \<notin> set c"
  by (induction p arbitrary: c) (auto split: list.splits if_splits)

lemma normal_stack_step:
  assumes "normal_stack rooted st" and "slash \<notin> set c"
  shows "normal_stack rooted (clean_step rooted c st)"
proof -
  from assms(1) obtain xs n where st: "st = xs @ replicate n dotdot"
    and xs: "\<forall>c \<in> set xs. plain_component c" and r: "rooted \<longrightarrow> n = 0"
    unfolding normal_stack_def by auto
  consider "c = [] \<or> c = dot" | "c = dotdot" | "plain_component c"
    using assms(2) by (auto simp: plain_component_def)
  then show ?thesis
  proof cases
    case 1
    with assms(1) show ?thesis by (simp add: clean_step_def)
  next
    case 2
    show ?thesis
    proof (cases xs)
      case Nil
      with st have "st = replicate n dotdot" by simp
      then have "clean_step rooted c st = replicate (if rooted then n else Suc n) dotdot"
        using 2 r by (cases n) (auto simp: clean_step_def dot_def dotdot_def)
      with r show ?thesis
        unfolding normal_stack_def
        by (intro exI [of _ "[]"] exI [of _ "if rooted then n else Suc n"]) simp
    next
      case (Cons x ys)
      with xs have "x \<noteq> dotdot" by (simp add: plain_component_def)
      with 2 st Cons have "clean_step rooted c st = ys @ replicate n dotdot"
        by (simp add: clean_step_def dot_def dotdot_def)
      with xs r Cons show ?thesis unfolding normal_stack_def by auto
    qed
  next
    case 3
    then have "clean_step rooted c st = (c # xs) @ replicate n dotdot"
      by (simp add: clean_step_def plain_component_def st)
    with 3 xs r show ?thesis
      unfolding normal_stack_def by (metis set_ConsD)
  qed
qed

lemma normal_stack_fold:
  "normal_stack rooted st \<Longrightarrow> \<forall>c \<in> set cs. slash \<notin> set c \<Longrightarrow>
     normal_stack rooted (fold (clean_step rooted) cs st)"
  by (induction cs arbitrary: st) (auto intro: normal_stack_step)

lemma normal_stack_Nil [simp]: "normal_stack rooted []"
  unfolding normal_stack_def by (intro exI [of _ "[]"] exI [of _ 0]) simp

lemma components_normal: "normal_stack (IsAbs p) (rev (components p))"
  by (simp add: components_def clean_components_def normal_stack_fold split_char_no_sep)

lemma components_abs_plain:
  "IsAbs p \<Longrightarrow> c \<in> set (components p) \<Longrightarrow> plain_component c"
  using components_normal [of p] unfolding normal_stack_def
  by (metis append.right_neutral replicate_0 set_rev)

lemma components_no_dotdot:
  assumes "components p = [] \<or> hd (components p) \<noteq> dotdot"
  shows "\<forall>c \<in> set (components p). plain_component c"
proof -
  from components_normal [of p] obtain xs n
    where st: "rev (components p) = xs @ replicate n dotdot"
      and xs: "\<forall>c \<in> set xs. plain_component c"
    unfolding normal_stack_def by auto
  from st have c: "components p = replicate n dotdot @ rev xs"
    by (metis rev_append rev_replicate rev_rev_ident)
  with assms have "n = 0" by (cases n) auto
  with c xs show ?thesis by simp
qed

text \<open>Rendering components and taking the components again gives them back.\<close>

lemma fold_clean_plain:
  "\<forall>c \<in> set cs. plain_component c \<Longrightarrow> fold (clean_step r) cs st = rev cs @ st"
  by (induction cs arbitrary: st) (auto simp: clean_step_def plain_component_def)

lemma split_char_append_sep:
  "s \<notin> set p \<Longrightarrow> split_char s (p @ s # q) = p # split_char s q"
  by (induction p) auto

lemma split_char_plain: "s \<notin> set p \<Longrightarrow> split_char s p = [p]"
  by (induction p) auto

lemma split_join:
  "cs \<noteq> [] \<Longrightarrow> \<forall>c \<in> set cs. s \<notin> set c \<Longrightarrow> split_char s (join_with [s] cs) = cs"
proof (induction cs)
  case Nil
  then show ?case by simp
next
  case (Cons c cs)
  show ?case
  proof (cases cs)
    case Nil
    with Cons.prems show ?thesis by (simp add: join_with_def split_char_plain)
  next
    case (Cons d ds)
    then have "join_with [s] (c # cs) = c @ s # join_with [s] cs" by (simp add: join_with_def)
    with Cons.prems Cons.IH Cons show ?thesis by (simp add: split_char_append_sep)
  qed
qed

lemma split_slash_join:
  "\<forall>c \<in> set cs. slash \<notin> set c \<Longrightarrow>
     split_char slash (slash # join_with [slash] cs) = [] # (if cs = [] then [[]] else cs)"
  by (cases "cs = []") (simp_all add: split_join, simp add: join_with_def)

lemma fold_split_append:
  "fold (clean_step r) (split_char slash (p @ slash # q)) st =
     fold (clean_step r) (split_char slash q) (fold (clean_step r) (split_char slash p) st)"
proof (induction p arbitrary: st)
  case Nil
  then show ?case by (simp add: clean_step_def)
next
  case (Cons c p)
  show ?case
  proof (cases "c = slash")
    case True
    with Cons show ?thesis by simp
  next
    case False
    have split: "\<exists>u us. split_char slash p = u # us
        \<and> split_char slash (p @ slash # q) = u # us @ split_char slash q" for p
    proof (induction p)
      case Nil
      then show ?case by simp
    next
      case (Cons d p)
      then show ?case by (auto split: list.splits)
    qed
    from split [of p] obtain u us where u: "split_char slash p = u # us"
        "split_char slash (p @ slash # q) = u # us @ split_char slash q" by auto
    with False show ?thesis by simp
  qed
qed

text \<open>Joining plain components below a directory appends them to its components.\<close>

lemma components_join_plain:
  assumes "IsAbs root" and "cs \<noteq> []" and "\<forall>c \<in> set cs. plain_component c"
  shows "components (root @ slash # join_with [slash] cs) = components root @ cs"
proof -
  from assms(3) have ns: "\<forall>c \<in> set cs. slash \<notin> set c" by (auto simp: plain_component_def)
  have "IsAbs (root @ slash # join_with [slash] cs)"
    using assms(1) by (auto simp: IsAbs_def prefix_def)
  then show ?thesis
    by (simp add: components_def clean_components_def fold_split_append split_join [OF assms(2) ns]
        fold_clean_plain [OF assms(3)] assms(1))
qed

lemma IsAbs_render [simp]:
  "IsAbs (render_path True cs)"
  by (simp add: render_path_def IsAbs_def)

lemma components_render:
  assumes "\<forall>c \<in> set cs. plain_component c"
  shows "components (render_path True cs) = cs"
proof -
  have "\<forall>c \<in> set cs. slash \<notin> set c" using assms by (auto simp: plain_component_def)
  then have "split_char slash (render_path True cs) = [] # (if cs = [] then [[]] else cs)"
    using split_slash_join [of cs] by (simp add: render_path_def)
  moreover have "fold (clean_step True) ([] # (if cs = [] then [[]] else cs)) [] = rev cs"
    using fold_clean_plain [OF assms, of True "[]"] by (simp add: clean_step_def)
  ultimately show ?thesis
    by (simp add: components_def clean_components_def IsAbs_render del: fold.simps)
qed

lemma components_Clean: "IsAbs p \<Longrightarrow> components (Clean p) = components p"
  using components_render [of "components p"] components_abs_plain [of p] by (simp add: Clean_def)

lemma IsAbs_Clean: "IsAbs p \<Longrightarrow> IsAbs (Clean p)"
  by (simp add: Clean_def)

lemma Clean_eq_iff: "IsAbs p \<Longrightarrow> IsAbs q \<Longrightarrow> Clean p = Clean q \<longleftrightarrow> components p = components q"
proof
  assume "IsAbs p" "IsAbs q" "Clean p = Clean q"
  then show "components p = components q" using components_Clean [of p] components_Clean [of q] by simp
qed (simp add: Clean_def)

lemma Clean_idem: "IsAbs p \<Longrightarrow> Clean (Clean p) = Clean p"
  by (simp add: Clean_eq_iff IsAbs_Clean components_Clean)

section \<open>Containment\<close>

lemma strip_common_prefix:
  "strip_common xs ys = (b, t) \<Longrightarrow> b = [] \<longleftrightarrow> prefix xs ys"
  by (induction xs ys rule: strip_common.induct) (auto split: if_splits)

lemma strip_common_suffix:
  "strip_common xs ys = (b, t) \<Longrightarrow> \<exists>zs. xs = zs @ b \<and> ys = zs @ t"
proof (induction xs ys rule: strip_common.induct)
  case (1 x xs y ys)
  show ?case
  proof (cases "x = y")
    case True
    with 1 obtain zs where "xs = zs @ b" "ys = zs @ t" by auto
    with True show ?thesis by (intro exI [of _ "x # zs"]) simp
  next
    case False
    with 1 show ?thesis by auto
  qed
qed auto

lemma slash_dotdot [simp]: "slash \<notin> set dotdot"
  by (simp add: dotdot_def)

lemma climbs_iff:
  "s = dotdot \<or> HasPrefix s (dotdot @ [slash]) \<longleftrightarrow> hd (split_char slash s) = dotdot"
proof
  assume "s = dotdot \<or> HasPrefix s (dotdot @ [slash])"
  then consider "s = dotdot" | r where "s = dotdot @ slash # r" by (auto simp: prefix_def)
  then show "hd (split_char slash s) = dotdot"
    by cases (auto simp: split_char_plain split_char_append_sep dotdot_def)
next
  assume a: "hd (split_char slash s) = dotdot"
  have "s = hd (split_char slash s) \<or> HasPrefix s (hd (split_char slash s) @ [slash])"
    by (induction s) (auto split: list.splits)
  with a show "s = dotdot \<or> HasPrefix s (dotdot @ [slash])" by simp
qed

definition pathWithinRoot :: "string \<Rightarrow> string \<Rightarrow> bool" where
  "pathWithinRoot root candidate =
     (case Rel root candidate of
        Inl _ \<Rightarrow> False
      | Inr relative \<Rightarrow>
          relative = ''.'' \<or> (\<not> HasPrefix relative (''..'' @ [slash]) \<and> relative \<noteq> ''..''))"

lemma pathWithinRoot_iff:
  assumes "IsAbs root" and "IsAbs candidate"
  shows "pathWithinRoot root candidate \<longleftrightarrow> prefix (components root) (components candidate)"
proof (cases "components root = components candidate")
  case True
  then show ?thesis
    using assms by (simp add: pathWithinRoot_def Rel_def Clean_eq_iff dot_def)
next
  case False
  obtain b t where bt: "strip_common (components root) (components candidate) = (b, t)"
    by fastforce
  from strip_common_suffix [OF bt] obtain zs
    where zs: "components root = zs @ b" "components candidate = zs @ t" by auto
  have pb: "\<forall>c \<in> set b. plain_component c" and pt: "\<forall>c \<in> set t. plain_component c"
    using components_abs_plain [OF assms(1)] components_abs_plain [OF assms(2)] zs by auto
  have nb: "\<not> (b \<noteq> [] \<and> hd b = dotdot)"
    using pb by (cases b) (auto simp: plain_component_def)
  let ?s = "join_with [slash] (replicate (length b) dotdot @ t)"
  have rc: "rel_components True root = components root"
      "rel_components False candidate = components candidate"
    using assms by (simp_all add: rel_components_def)
  have nc: "Clean root \<noteq> Clean candidate"
    using False by (simp only: Clean_eq_iff [OF assms] not_False_eq_True)
  have rel: "Rel root candidate = Inr ?s"
    unfolding Rel_def rc bt using nc nb assms by (simp only: if_False if_True prod.case simp_thms)
  have ne: "replicate (length b) dotdot @ t \<noteq> []" using False zs by auto
  have ns: "\<forall>c \<in> set (replicate (length b) dotdot @ t). slash \<notin> set c"
  proof
    fix c
    assume "c \<in> set (replicate (length b) dotdot @ t)"
    then consider "c = dotdot" | "c \<in> set t" by (auto split: if_splits)
    then show "slash \<notin> set c"
      by cases (simp_all add: bspec [OF pt, unfolded plain_component_def])
  qed
  note sp = split_join [OF ne ns]
  have w: "pathWithinRoot root candidate \<longleftrightarrow>
      ?s = dot \<or> \<not> (?s = dotdot \<or> HasPrefix ?s (dotdot @ [slash]))"
    unfolding pathWithinRoot_def rel sum.case dot_def dotdot_def de_Morgan_disj
    by (subst (2) conj_commute) (rule refl)
  have hd: "(?s = dotdot \<or> HasPrefix ?s (dotdot @ [slash])) \<longleftrightarrow> b \<noteq> []"
    unfolding climbs_iff sp using ne pt
    by (cases b; cases t) (auto simp: plain_component_def)
  have "?s \<noteq> dot"
  proof
    assume "?s = dot"
    with sp have "replicate (length b) dotdot @ t = [dot]"
      by (simp add: dot_def)
    with pt show False by (cases b) (auto simp: plain_component_def dot_def dotdot_def)
  qed
  with w hd strip_common_prefix [OF bt] show ?thesis by auto
qed

end
