(* ===== verification/Host_Env.thy ===== *)
theory Host_Env
  imports Api_Types Go_Path
begin

text \<open>
  What the daemon asks of its host and of code outside the repository: the file system, the
  environment of the process, floating-point parsing, \<^verbatim>\<open>github.com/docker/go-units\<close> and the YAML
  decoder.  Each is a field of the record \<open>host_env\<close>, an argument of the definitions that use it;
  nothing is assumed of the fields except where a theorem says so.
\<close>

datatype file_kind = RegularFile | Directory | Symlink | UnixSocket | OtherFile

text \<open>
  What \<^verbatim>\<open>ParseCPU\<close> looks at in the \<^verbatim>\<open>float64\<close> it parsed: whether it is a NaN or an infinity, and
  for a finite \<^verbatim>\<open>v\<close> whether \<^verbatim>\<open>v <= 0\<close> and the value of \<^verbatim>\<open>int64(math.Floor(v * 1000))\<close>.
\<close>

datatype go_float = FloatNaN | FloatInf | FloatFinite (fl_le_zero: bool) (fl_floor_milli: int)

section \<open>The declarative configuration as decoded\<close>

text \<open>
  \<^verbatim>\<open>YAMLConfig\<close> and its parts (\<^verbatim>\<open>internal/control/yaml_config.go\<close>); a pointer field is an option.
\<close>

record yaml_healthcheck_config =
  yh_test :: "string list"
  yh_interval :: string
  yh_timeout :: string
  yh_retries :: "32 word"
  yh_start_period :: string
  yh_start_interval :: string

record yaml_companion_container_spec =
  yc_image :: string
  yc_envs :: "(string, string) gomap"
  yc_healthcheck :: "yaml_healthcheck_config option"
  yc_post_start_on_primary :: "string list"
  yc_command :: "string list option"
  yc_cpu_limit :: string
  yc_memory_limit :: string
  yc_disk_limit :: string

record yaml_port_mapping =
  yp_container_port :: "32 word"
  yp_host_port :: "32 word"
  yp_protocol :: string

record yaml_config =
  yaml_image :: string
  yaml_mounts :: "mount_spec list"
  yaml_copies :: "copy_spec list"
  yaml_ports :: "yaml_port_mapping list"
  yaml_builtin_tools :: "string list"
  yaml_companion_containers :: "(string, yaml_companion_container_spec) gomap"
  yaml_labels :: "(string, string) gomap"
  yaml_envs :: "(string, string) gomap"
  yaml_idle_ttl :: string
  yaml_command :: "string list option"
  yaml_cpu_limit :: string
  yaml_memory_limit :: string
  yaml_disk_limit :: string
  yaml_gpus :: string

section \<open>The host\<close>

record host_env =
  he_home :: "go_error + string"                  \<comment> \<open>\<^verbatim>\<open>os.UserHomeDir\<close>\<close>
  he_cwd :: "go_error + string"                   \<comment> \<open>\<^verbatim>\<open>os.Getwd\<close>\<close>
  he_lstat :: "string \<Rightarrow> go_error + file_kind"   \<comment> \<open>\<^verbatim>\<open>os.Lstat\<close>\<close>
  he_mkdir_all :: "string \<Rightarrow> go_error option"    \<comment> \<open>\<^verbatim>\<open>os.MkdirAll\<close>\<close>
  he_eval_symlinks :: "string \<Rightarrow> go_error + string" \<comment> \<open>\<^verbatim>\<open>filepath.EvalSymlinks\<close>\<close>
  he_parse_float :: "string \<Rightarrow> go_error + go_float" \<comment> \<open>\<^verbatim>\<open>strconv.ParseFloat\<close>\<close>
  he_parse_duration :: "string \<Rightarrow> go_error + duration" \<comment> \<open>\<^verbatim>\<open>time.ParseDuration\<close>\<close>
  he_ram_in_bytes :: "string \<Rightarrow> go_error + int"  \<comment> \<open>\<^verbatim>\<open>units.RAMInBytes\<close>\<close>
  he_decode_yaml :: "string \<Rightarrow> go_error + yaml_config" \<comment> \<open>\<^verbatim>\<open>yaml.Decoder.Decode\<close>, known fields only\<close>

text \<open>A host that refuses everything, to build concrete hosts from.\<close>

definition no_host :: host_env where
  "no_host = \<lparr>he_home = Inl (ErrText [Lit ''$HOME is not defined'']),
     he_cwd = Inl (ErrText [Lit ''getwd: no such file or directory'']),
     he_lstat = (\<lambda>_. Inl (ErrText [Lit ''no such file or directory''])),
     he_mkdir_all = (\<lambda>_. Some (ErrText [Lit ''permission denied''])),
     he_eval_symlinks = (\<lambda>_. Inl (ErrText [Lit ''no such file or directory''])),
     he_parse_float = (\<lambda>_. Inl (ErrText [Lit ''invalid syntax''])),
     he_parse_duration = (\<lambda>_. Inl (ErrText [Lit ''time: invalid duration''])),
     he_ram_in_bytes = (\<lambda>_. Inl (ErrText [Lit ''invalid size''])),
     he_decode_yaml = (\<lambda>_. Inl (ErrText [Lit ''EOF'']))\<rparr>"

end
