(* ===== verification/Res_Limits.thy ===== *)
theory Res_Limits
  imports Host_Env
begin

text \<open>
  Resource limit strings (\<^verbatim>\<open>internal/control/reslimits/reslimits.go\<close>) and the typed limits the
  Docker runtime builds from a whole specification (\<^verbatim>\<open>internal/control/resource_limits.go\<close>).
\<close>

record limits =
  li_cpu_millicores :: int
  li_memory_bytes :: int
  li_primary_disk_bytes :: int
  li_companion_cpu_millicores :: "(string, int) gomap"
  li_companion_memory_bytes :: "(string, int) gomap"
  li_companion_disk_bytes :: "(string, int) gomap"

definition ParseCPU :: "host_env \<Rightarrow> string \<Rightarrow> go_error + int" where
  "ParseCPU env raw =
     (let bad = (\<lambda>m. Inl (ErrText ([Lit ''cpu_limit '', Quoted raw, Lit '': ''] @ m))) in
      if raw = '''' then Inr 0
      else case he_parse_float env raw of
        Inl err \<Rightarrow> bad (error_text err)
      | Inr FloatNaN \<Rightarrow> bad [Lit ''must be a finite number'']
      | Inr FloatInf \<Rightarrow> bad [Lit ''must be a finite number'']
      | Inr (FloatFinite le_zero millicores) \<Rightarrow>
          if le_zero then bad [Lit ''must be > 0'']
          else if millicores \<le> 0
          then bad [Lit ''must resolve to at least 1 millicore (0.001)'']
          else Inr millicores)"

definition ParseMemoryOrDisk :: "host_env \<Rightarrow> string \<Rightarrow> string \<Rightarrow> go_error + int" where
  "ParseMemoryOrDisk env raw fieldName =
     (if raw = '''' then Inr 0
      else case he_ram_in_bytes env raw of
        Inl err \<Rightarrow> Inl (ErrText ([Lit fieldName, Lit '' '', Quoted raw, Lit '': ''] @ error_text err))
      | Inr v \<Rightarrow>
          if v \<le> 0
          then Inl (ErrText [Lit fieldName, Lit '' '', Quoted raw, Lit '': must be > 0''])
          else Inr v)"

text \<open>\<^verbatim>\<open>fmt.Sprintf("companion_containers[%s].%s", name, key)\<close>\<close>

definition companion_field :: "string \<Rightarrow> string \<Rightarrow> string" where
  "companion_field name key = ''companion_containers['' @ name @ ''].'' @ key"

definition wrap_err :: "err_msg \<Rightarrow> go_error + 'a \<Rightarrow> go_error + 'a" where
  "wrap_err m r = (case r of Inl e \<Rightarrow> Inl (ErrText (m @ error_text e)) | Inr x \<Rightarrow> Inr x)"

definition companion_limits ::
  "host_env \<Rightarrow> companion_container_spec \<Rightarrow> limits \<Rightarrow> go_error + limits" where
  "companion_limits env cc lim =
     res_bind
       (if cc_cpu_limit cc \<noteq> ''''
        then res_bind (wrap_err [Lit (companion_field (cc_name cc) ''cpu_limit''), Lit '': '']
                 (ParseCPU env (cc_cpu_limit cc)))
               (\<lambda>v. Inr (lim\<lparr>li_companion_cpu_millicores :=
                    gm_set (cc_name cc) v (li_companion_cpu_millicores lim)\<rparr>))
        else Inr lim)
     (\<lambda>lim. res_bind
       (if cc_memory_limit cc \<noteq> ''''
        then res_bind (ParseMemoryOrDisk env (cc_memory_limit cc)
                 (companion_field (cc_name cc) ''memory_limit''))
               (\<lambda>v. Inr (lim\<lparr>li_companion_memory_bytes :=
                    gm_set (cc_name cc) v (li_companion_memory_bytes lim)\<rparr>))
        else Inr lim)
     (\<lambda>lim.
       (if cc_disk_limit cc \<noteq> ''''
        then res_bind (ParseMemoryOrDisk env (cc_disk_limit cc)
                 (companion_field (cc_name cc) ''disk_limit''))
               (\<lambda>v. Inr (lim\<lparr>li_companion_disk_bytes :=
                    gm_set (cc_name cc) v (li_companion_disk_bytes lim)\<rparr>))
        else Inr lim)))"

definition buildLimits :: "host_env \<Rightarrow> create_spec \<Rightarrow> go_error + limits" where
  "buildLimits env spec =
     res_bind (ParseCPU env (cs_cpu_limit spec)) (\<lambda>cpu.
     res_bind (ParseMemoryOrDisk env (cs_memory_limit spec) ''memory_limit'') (\<lambda>mem.
     res_bind (ParseMemoryOrDisk env (cs_disk_limit spec) ''disk_limit'') (\<lambda>primaryDisk.
       fold_result (companion_limits env) (cs_companion_containers spec)
         \<lparr>li_cpu_millicores = cpu, li_memory_bytes = mem, li_primary_disk_bytes = primaryDisk,
          li_companion_cpu_millicores = [], li_companion_memory_bytes = [],
          li_companion_disk_bytes = []\<rparr>)))"

section \<open>Facts\<close>

text \<open>A limit is zero exactly when it was left out, and positive otherwise.\<close>

lemma ParseCPU_value: "ParseCPU env raw = Inr v \<Longrightarrow> v = 0 \<and> raw = '''' \<or> 0 < v \<and> raw \<noteq> ''''"
  by (auto simp: ParseCPU_def Let_def split: if_splits sum.splits go_float.splits)

lemma ParseMemoryOrDisk_value:
  "ParseMemoryOrDisk env raw f = Inr v \<Longrightarrow> v = 0 \<and> raw = '''' \<or> 0 < v \<and> raw \<noteq> ''''"
  by (auto simp: ParseMemoryOrDisk_def split: if_splits sum.splits)

text \<open>The field name is only in the error text.\<close>

lemma ParseMemoryOrDisk_field:
  "(\<exists>v. ParseMemoryOrDisk env raw f = Inr v) \<longleftrightarrow> (\<exists>v. ParseMemoryOrDisk env raw g = Inr v)"
  by (auto simp: ParseMemoryOrDisk_def split: sum.splits)

text \<open>The limits of one companion parse.\<close>

definition companion_limits_ok :: "host_env \<Rightarrow> companion_container_spec \<Rightarrow> bool" where
  "companion_limits_ok env cc \<longleftrightarrow>
     \<not> isl (ParseCPU env (cc_cpu_limit cc))
     \<and> \<not> isl (ParseMemoryOrDisk env (cc_memory_limit cc) ''memory_limit'')
     \<and> \<not> isl (ParseMemoryOrDisk env (cc_disk_limit cc) ''disk_limit'')"

lemma not_isl_memory:
  "isl (ParseMemoryOrDisk env raw f) = isl (ParseMemoryOrDisk env raw g)"
  by (auto simp: ParseMemoryOrDisk_def split: sum.splits)

lemma companion_limits_returns:
  "companion_limits_ok env cc \<Longrightarrow> \<not> isl (companion_limits env cc lim)"
  using not_isl_memory [of env "cc_memory_limit cc" "companion_field (cc_name cc) ''memory_limit''" "''memory_limit''"]
    not_isl_memory [of env "cc_disk_limit cc" "companion_field (cc_name cc) ''disk_limit''" "''disk_limit''"]
  by (auto simp: companion_limits_def companion_limits_ok_def wrap_err_def res_bind_def
      split: sum.splits)

lemma companion_limits_fold_returns:
  "\<forall>cc \<in> set ccs. companion_limits_ok env cc \<Longrightarrow>
     \<not> isl (fold_result (companion_limits env) ccs lim)"
proof (induction ccs arbitrary: lim)
  case Nil
  then show ?case by simp
next
  case (Cons cc ccs)
  then have "\<not> isl (companion_limits env cc lim)" by (simp add: companion_limits_returns)
  then obtain l where "companion_limits env cc lim = Inr l" by (cases "companion_limits env cc lim") auto
  with Cons show ?case by simp
qed

end
