(* ===== verification/Profile.thy ===== *)
theory Profile
  imports Go_Path
begin

text \<open>
  The builtin tools a sandbox can request and the host mounts behind them
  (\<^verbatim>\<open>internal/profile/capabilities.go\<close>).
\<close>

datatype capability_mode =
    CapabilityModeReadOnly | CapabilityModeReadWrite | CapabilityModeSocket

datatype capability_container_target_mode =
    CapabilityContainerTargetUnset       \<comment> \<open>the field left out: the empty string\<close>
  | CapabilityContainerTargetDeclared
  | CapabilityContainerTargetHostPath

abbreviation "MountIDClaude \<equiv> ''.claude''"
abbreviation "MountIDClaudeJSON \<equiv> ''.claude.json''"
abbreviation "MountIDCodex \<equiv> ''.codex''"
abbreviation "MountIDAgents \<equiv> ''.agents''"
abbreviation "MountIDGHAuth \<equiv> ''gh-auth''"
abbreviation "MountIDSSHAgent \<equiv> ''ssh-agent''"
abbreviation "MountIDSSHKnownHosts \<equiv> ''ssh-known-hosts''"
abbreviation "MountIDUVCache \<equiv> ''uv-cache''"
abbreviation "MountIDUVPython \<equiv> ''uv-python''"
abbreviation "MountIDNPM \<equiv> ''npm''"
abbreviation "MountIDApt \<equiv> ''apt''"
abbreviation "MountIDPulseAudio \<equiv> ''pulse-audio''"
abbreviation "MountIDOpenCodeConfig \<equiv> ''opencode-config''"
abbreviation "MountIDOpenCodeData \<equiv> ''opencode-data''"

abbreviation "ToolIDClaude \<equiv> ''claude''"
abbreviation "ToolIDCodex \<equiv> ''codex''"
abbreviation "ToolIDGit \<equiv> ''git''"
abbreviation "ToolIDUV \<equiv> ''uv''"
abbreviation "ToolIDNPM \<equiv> ''npm''"
abbreviation "ToolIDApt \<equiv> ''apt''"
abbreviation "ToolIDOpenCode \<equiv> ''opencode''"

record macos_keychain_credential =
  kc_service_name :: string
  kc_rel_path :: string

record capability_mount =
  cm_id :: string
  cm_default_host_path :: string
  cm_container_target :: string
  cm_container_target_mode :: capability_container_target_mode
  cm_mode :: capability_mode
  cm_optional :: bool
  cm_container_target_env_key :: string
  cm_macos_keychain :: "macos_keychain_credential option"

record tooling_capability =
  tc_mount_ids :: "string list"

definition buildMountIndex :: "capability_mount list \<Rightarrow> (string, capability_mount) gomap" where
  "buildMountIndex mounts = fold (\<lambda>m index. gm_set (cm_id m) m index) mounts []"

definition capabilityMounts :: "(string, capability_mount) gomap" where
  "capabilityMounts = buildMountIndex
     [
      \<lparr>cm_id = MountIDClaude, cm_default_host_path = ''~/.claude'',
       cm_container_target = JoinPath [ContainerUserHome, ''.claude''],
       cm_container_target_mode = CapabilityContainerTargetUnset, cm_mode = CapabilityModeReadWrite,
       cm_optional = False, cm_container_target_env_key = '''',
       cm_macos_keychain = Some \<lparr>kc_service_name = ''Claude Code-credentials'', kc_rel_path = ''.credentials.json''\<rparr>\<rparr>,
      \<lparr>cm_id = MountIDClaudeJSON, cm_default_host_path = ''~/.claude.json'',
       cm_container_target = JoinPath [ContainerUserHome, ''.claude.json''],
       cm_container_target_mode = CapabilityContainerTargetUnset, cm_mode = CapabilityModeReadWrite,
       cm_optional = False, cm_container_target_env_key = '''',
       cm_macos_keychain = None\<rparr>,
      \<lparr>cm_id = MountIDCodex, cm_default_host_path = ''~/.codex'',
       cm_container_target = JoinPath [ContainerUserHome, ''.codex''],
       cm_container_target_mode = CapabilityContainerTargetUnset, cm_mode = CapabilityModeReadWrite,
       cm_optional = False, cm_container_target_env_key = '''',
       cm_macos_keychain = None\<rparr>,
      \<lparr>cm_id = MountIDAgents, cm_default_host_path = ''~/.agents'',
       cm_container_target = JoinPath [ContainerUserHome, ''.agents''],
       cm_container_target_mode = CapabilityContainerTargetUnset, cm_mode = CapabilityModeReadWrite,
       cm_optional = True, cm_container_target_env_key = '''',
       cm_macos_keychain = None\<rparr>,
      \<lparr>cm_id = MountIDGHAuth, cm_default_host_path = ''~/.config/gh'',
       cm_container_target = JoinPath [ContainerUserHome, ''.config/gh''],
       cm_container_target_mode = CapabilityContainerTargetUnset, cm_mode = CapabilityModeReadOnly,
       cm_optional = True, cm_container_target_env_key = '''',
       cm_macos_keychain = None\<rparr>,
      \<lparr>cm_id = MountIDSSHAgent, cm_default_host_path = ''SSH_AUTH_SOCK'',
       cm_container_target = ''/ssh-agent'',
       cm_container_target_mode = CapabilityContainerTargetUnset, cm_mode = CapabilityModeSocket,
       cm_optional = True, cm_container_target_env_key = '''',
       cm_macos_keychain = None\<rparr>,
      \<lparr>cm_id = MountIDSSHKnownHosts, cm_default_host_path = ''~/.ssh/known_hosts'',
       cm_container_target = JoinPath [ContainerUserHome, ''.ssh/known_hosts''],
       cm_container_target_mode = CapabilityContainerTargetUnset, cm_mode = CapabilityModeReadWrite,
       cm_optional = True, cm_container_target_env_key = '''',
       cm_macos_keychain = None\<rparr>,
      \<lparr>cm_id = MountIDUVCache, cm_default_host_path = ''~/.cache/uv'',
       cm_container_target = JoinPath [ContainerUserHome, ''.cache/uv''],
       cm_container_target_mode = CapabilityContainerTargetUnset, cm_mode = CapabilityModeReadWrite,
       cm_optional = True, cm_container_target_env_key = '''',
       cm_macos_keychain = None\<rparr>,
      \<lparr>cm_id = MountIDUVPython, cm_default_host_path = ''~/.local/share/uv/python'',
       cm_container_target = '''',
       cm_container_target_mode = CapabilityContainerTargetHostPath, cm_mode = CapabilityModeReadWrite,
       cm_optional = True, cm_container_target_env_key = ''UV_PYTHON_INSTALL_DIR'',
       cm_macos_keychain = None\<rparr>,
      \<lparr>cm_id = MountIDNPM, cm_default_host_path = ''~/.npm'',
       cm_container_target = JoinPath [ContainerUserHome, ''.npm''],
       cm_container_target_mode = CapabilityContainerTargetUnset, cm_mode = CapabilityModeReadWrite,
       cm_optional = True, cm_container_target_env_key = '''',
       cm_macos_keychain = None\<rparr>,
      \<lparr>cm_id = MountIDApt, cm_default_host_path = ''~/.cache/agents-sandbox-apt'',
       cm_container_target = ''/var/cache/apt/archives'',
       cm_container_target_mode = CapabilityContainerTargetUnset, cm_mode = CapabilityModeReadWrite,
       cm_optional = True, cm_container_target_env_key = '''',
       cm_macos_keychain = None\<rparr>,
      \<lparr>cm_id = MountIDPulseAudio, cm_default_host_path = ''PULSE_AUDIO_SOCK'',
       cm_container_target = ''/pulse-audio'',
       cm_container_target_mode = CapabilityContainerTargetUnset, cm_mode = CapabilityModeSocket,
       cm_optional = True, cm_container_target_env_key = '''',
       cm_macos_keychain = None\<rparr>,
      \<lparr>cm_id = MountIDOpenCodeConfig, cm_default_host_path = ''~/.config/opencode'',
       cm_container_target = JoinPath [ContainerUserHome, ''.config/opencode''],
       cm_container_target_mode = CapabilityContainerTargetUnset, cm_mode = CapabilityModeReadWrite,
       cm_optional = True, cm_container_target_env_key = '''',
       cm_macos_keychain = None\<rparr>,
      \<lparr>cm_id = MountIDOpenCodeData, cm_default_host_path = ''~/.local/share/opencode'',
       cm_container_target = JoinPath [ContainerUserHome, ''.local/share/opencode''],
       cm_container_target_mode = CapabilityContainerTargetUnset, cm_mode = CapabilityModeReadWrite,
       cm_optional = True, cm_container_target_env_key = '''',
       cm_macos_keychain = None\<rparr>]"

definition builtInToolingCapabilities :: "(string, tooling_capability) gomap" where
  "builtInToolingCapabilities =
     [(ToolIDClaude, \<lparr>tc_mount_ids = [MountIDClaude, MountIDClaudeJSON, MountIDPulseAudio]\<rparr>),
      (ToolIDCodex, \<lparr>tc_mount_ids = [MountIDCodex, MountIDAgents]\<rparr>),
      (ToolIDGit, \<lparr>tc_mount_ids = [MountIDSSHAgent, MountIDGHAuth, MountIDSSHKnownHosts]\<rparr>),
      (ToolIDUV, \<lparr>tc_mount_ids = [MountIDUVCache, MountIDUVPython]\<rparr>),
      (ToolIDNPM, \<lparr>tc_mount_ids = [MountIDNPM]\<rparr>),
      (ToolIDApt, \<lparr>tc_mount_ids = [MountIDApt]\<rparr>),
      (ToolIDOpenCode, \<lparr>tc_mount_ids = [MountIDOpenCodeConfig, MountIDOpenCodeData]\<rparr>)]"

definition BuiltInToolingCapabilities :: "tooling_capability list" where
  "BuiltInToolingCapabilities =
     map (\<lambda>key. the (gm_get builtInToolingCapabilities key))
       (sort (map fst builtInToolingCapabilities))"

definition CapabilityByID :: "string \<Rightarrow> tooling_capability option" where
  "CapabilityByID toolID = gm_get builtInToolingCapabilities toolID"

definition MountByID :: "string \<Rightarrow> capability_mount option" where
  "MountByID mountID = gm_get capabilityMounts mountID"

section \<open>Every tool resolves\<close>

text \<open>The mount ids in the order declared; each is the id of a mount.\<close>

lemma gm_get_buildMountIndex:
  "gm_get (buildMountIndex ms) k = find (\<lambda>m. cm_id m = k) (rev ms)"
proof (induction ms rule: rev_induct)
  case Nil
  then show ?case by (simp add: buildMountIndex_def)
next
  case (snoc m ms)
  then show ?case by (simp add: buildMountIndex_def)
qed

lemma builtin_mounts_known:
  "list_all (\<lambda>(t, c). list_all (\<lambda>m. MountByID m \<noteq> None) (tc_mount_ids c)) builtInToolingCapabilities"
  by (simp add: builtInToolingCapabilities_def MountByID_def capabilityMounts_def
      gm_get_buildMountIndex)

lemma CapabilityByID_mounts:
  assumes "CapabilityByID t = Some c" and "m \<in> set (tc_mount_ids c)"
  shows "\<exists>d. MountByID m = Some d"
proof -
  have "(t, c) \<in> set builtInToolingCapabilities"
    using assms(1) by (simp add: CapabilityByID_def gm_get_in_set)
  with builtin_mounts_known assms(2) show ?thesis
    by (fastforce simp: list_all_iff)
qed

end
