(* ===== verification/Yaml_Config.thy ===== *)
theory Yaml_Config
  imports Clone Host_Env
begin

text \<open>
  The declarative configuration (\<^verbatim>\<open>internal/control/yaml_config.go\<close>): its conversion to a
  \<^verbatim>\<open>CreateSpec\<close> and the merge of the two sources of a request.  Decoding YAML and parsing
  durations are the host's (\<^theory_text>\<open>Host_Env\<close>).
\<close>

section \<open>Conversion\<close>

definition index_path :: "string \<Rightarrow> nat \<Rightarrow> string" where
  "index_path path i = path @ ''['' @ show_nat i @ '']''"

definition validateYAMLCommand :: "string list option \<Rightarrow> string \<Rightarrow> go_error option" where
  "validateYAMLCommand field path =
     (case field of
        None \<Rightarrow> None
      | Some tokens \<Rightarrow>
          if length tokens = 0
          then Some (ErrText [Lit path, Lit '': empty array is not allowed; omit the field to use the default''])
          else first_error
                 (\<lambda>(i, token). if token = ''''
                    then Some (ErrText [Lit (index_path path i), Lit '': empty string entry is not allowed''])
                    else None)
                 (enumerate 0 tokens))"

definition parsePortProtocol :: "string \<Rightarrow> go_error + port_protocol" where
  "parsePortProtocol raw =
     (let normalized = to_lower (trim_space raw) in
      if normalized = '''' \<or> normalized = ''tcp'' then Inr PORT_PROTOCOL_TCP
      else if normalized = ''udp'' then Inr PORT_PROTOCOL_UDP
      else if normalized = ''sctp'' then Inr PORT_PROTOCOL_SCTP
      else Inl (ErrText [Lit ''unsupported port protocol '', Quoted raw, Lit ''; must be tcp, udp, or sctp'']))"

definition parseOptionalDuration :: "host_env \<Rightarrow> string \<Rightarrow> string \<Rightarrow> go_error + duration option" where
  "parseOptionalDuration env field value =
     (if value = '''' then Inr None
      else case he_parse_duration env value of
        Inl err \<Rightarrow> Inl (ErrText ([Lit ''invalid duration for '', Lit field, Lit '': '', Quoted value, Lit '': '']
                    @ error_text err))
      | Inr d \<Rightarrow> Inr (Some d))"

definition convert_healthcheck ::
  "host_env \<Rightarrow> string \<Rightarrow> yaml_healthcheck_config \<Rightarrow> go_error + healthcheck_config" where
  "convert_healthcheck env name h =
     (let wrap = (\<lambda>r. case r of
            Inl err \<Rightarrow> Inl (ErrText ([Lit ''companion container '', Quoted name, Lit '': ''] @ error_text err))
          | Inr d \<Rightarrow> Inr d) in
      res_bind (wrap (parseOptionalDuration env ''interval'' (yh_interval h))) (\<lambda>interval.
      res_bind (wrap (parseOptionalDuration env ''timeout'' (yh_timeout h))) (\<lambda>timeout.
      res_bind (wrap (parseOptionalDuration env ''start_period'' (yh_start_period h))) (\<lambda>start_period.
      res_bind (wrap (parseOptionalDuration env ''start_interval'' (yh_start_interval h))) (\<lambda>start_interval.
        Inr \<lparr>hc_test = yh_test h, hc_interval = interval, hc_timeout = timeout,
             hc_retries = yh_retries h, hc_start_period = start_period,
             hc_start_interval = start_interval\<rparr>)))))"

definition convert_companion ::
  "host_env \<Rightarrow> string \<Rightarrow> yaml_companion_container_spec \<Rightarrow> go_error + companion_container_spec" where
  "convert_companion env name cc =
     (case validateYAMLCommand (yc_command cc) (''companion_containers['' @ name @ ''].command'') of
        Some err \<Rightarrow> Inl err
      | None \<Rightarrow>
        let protoCC = \<lparr>cc_name = name, cc_image = yc_image cc,
              cc_envs = (if length (yc_envs cc) > 0 then [(k, v). (k, v) \<leftarrow> yc_envs cc] else []),
              cc_healthcheck = None, cc_post_start_on_primary = yc_post_start_on_primary cc,
              cc_command = (case yc_command cc of None \<Rightarrow> [] | Some c \<Rightarrow> c),
              cc_cpu_limit = yc_cpu_limit cc, cc_memory_limit = yc_memory_limit cc,
              cc_disk_limit = yc_disk_limit cc\<rparr>
        in case yc_healthcheck cc of
             None \<Rightarrow> Inr protoCC
           | Some h \<Rightarrow> res_bind (convert_healthcheck env name h)
                        (\<lambda>hc. Inr (protoCC\<lparr>cc_healthcheck := Some hc\<rparr>)))"

fun map_result :: "('a \<Rightarrow> 'e + 'b) \<Rightarrow> 'a list \<Rightarrow> 'e + 'b list" where
  "map_result f [] = Inr []"
| "map_result f (x # xs) = res_bind (f x) (\<lambda>y. res_bind (map_result f xs) (\<lambda>ys. Inr (y # ys)))"

definition convertCompanionContainerMap ::
  "host_env \<Rightarrow> (string, yaml_companion_container_spec) gomap
     \<Rightarrow> go_error + companion_container_spec list" where
  "convertCompanionContainerMap env containers =
     map_result (\<lambda>name. convert_companion env name (the (gm_get containers name)))
       (sort (map fst containers))"

definition yamlConfigToCreateSpec :: "host_env \<Rightarrow> yaml_config \<Rightarrow> go_error + create_spec" where
  "yamlConfigToCreateSpec env cfg =
     (case validateYAMLCommand (yaml_command cfg) ''command'' of
        Some err \<Rightarrow> Inl err
      | None \<Rightarrow>
        let spec = empty_create_spec
              \<lparr>cs_image := yaml_image cfg, cs_builtin_tools := yaml_builtin_tools cfg,
               cs_cpu_limit := yaml_cpu_limit cfg, cs_memory_limit := yaml_memory_limit cfg,
               cs_disk_limit := yaml_disk_limit cfg, cs_gpus := yaml_gpus cfg,
               cs_command := (case yaml_command cfg of None \<Rightarrow> [] | Some c \<Rightarrow> c),
               cs_mounts := map (\<lambda>m. \<lparr>ms_source = ms_source m, ms_target = ms_target m,
                                      ms_writable = ms_writable m\<rparr>) (yaml_mounts cfg),
               cs_copies := map (\<lambda>c. \<lparr>cp_source = cp_source c, cp_target = cp_target c,
                                      cp_exclude_patterns = cp_exclude_patterns c\<rparr>) (yaml_copies cfg)\<rparr>
        in
        res_bind (map_result (\<lambda>p. res_bind (parsePortProtocol (yp_protocol p))
            (\<lambda>proto. Inr \<lparr>pm_container_port = yp_container_port p, pm_host_port = yp_host_port p,
                          pm_protocol = proto\<rparr>)) (yaml_ports cfg)) (\<lambda>ports.
        res_bind (convertCompanionContainerMap env (yaml_companion_containers cfg)) (\<lambda>companions.
        let spec = spec\<lparr>cs_ports := ports, cs_companion_containers := companions,
              cs_labels := (if length (yaml_labels cfg) > 0 then [(k, v). (k, v) \<leftarrow> yaml_labels cfg] else []),
              cs_envs := (if length (yaml_envs cfg) > 0 then [(k, v). (k, v) \<leftarrow> yaml_envs cfg] else [])\<rparr>
        in if yaml_idle_ttl cfg \<noteq> '''' then
             (case he_parse_duration env (yaml_idle_ttl cfg) of
                Inl err \<Rightarrow> Inl (ErrText ([Lit ''invalid duration for idle_ttl: '', Quoted (yaml_idle_ttl cfg),
                              Lit '': ''] @ error_text err))
              | Inr d \<Rightarrow> Inr (spec\<lparr>cs_idle_ttl := Some d\<rparr>))
           else Inr spec)))"

section \<open>Merging\<close>

definition dedupe_step :: "string \<Rightarrow> string set \<times> string list \<Rightarrow> string set \<times> string list" where
  "dedupe_step item acc =
     (case acc of (seen, result) \<Rightarrow>
        if item \<in> seen then (seen, result) else (insert item seen, result @ [item]))"

definition dedupeStrings :: "string list \<Rightarrow> string list" where
  "dedupeStrings items =
     (if length items = 0 then [] else snd (fold dedupe_step items ({}, [])))"

text \<open>An override string counts when it is not empty.\<close>

definition override_string :: "string \<Rightarrow> string \<Rightarrow> string" where
  "override_string base over = (if over \<noteq> '''' then over else base)"

definition mergeCreateSpecs :: "create_spec option \<Rightarrow> create_spec option \<Rightarrow> create_spec" where
  "mergeCreateSpecs base over =
     (case (base, over) of
        (None, None) \<Rightarrow> empty_create_spec
      | (None, Some o') \<Rightarrow> o'
      | (Some b, None) \<Rightarrow> b
      | (Some b, Some o') \<Rightarrow>
         let result = b
           \<lparr>cs_image := override_string (cs_image b) (cs_image o'),
            cs_cpu_limit := override_string (cs_cpu_limit b) (cs_cpu_limit o'),
            cs_memory_limit := override_string (cs_memory_limit b) (cs_memory_limit o'),
            cs_disk_limit := override_string (cs_disk_limit b) (cs_disk_limit o'),
            cs_gpus := override_string (cs_gpus b) (cs_gpus o'),
            cs_mounts := cs_mounts b @ cloneMounts (cs_mounts o'),
            cs_copies := cs_copies b @ cloneCopies (cs_copies o'),
            cs_companion_containers :=
              cs_companion_containers b @ cloneCompanionContainerSpecs (cs_companion_containers o'),
            cs_ports := cs_ports b @ clonePortMappings (cs_ports o'),
            cs_builtin_tools := dedupeStrings (cs_builtin_tools b @ cs_builtin_tools o'),
            cs_command := (if length (cs_command o') > 0 then cs_command o' else cs_command b),
            cs_labels := (if length (cs_labels o') > 0 then gm_merge (cs_labels b) (cs_labels o')
                          else cs_labels b),
            cs_envs := (if length (cs_envs o') > 0 then gm_merge (cs_envs b) (cs_envs o')
                        else cs_envs b)\<rparr>
         in case cs_idle_ttl o' of None \<Rightarrow> result | Some d \<Rightarrow> result\<lparr>cs_idle_ttl := Some d\<rparr>)"

section \<open>Facts\<close>

lemma map_result_Inr:
  "map_result f xs = Inr ys \<longleftrightarrow> list_all2 (\<lambda>x y. f x = Inr y) xs ys"
  by (induction xs arbitrary: ys)
    (auto simp: res_bind_eq_Inr list_all2_Cons1)

lemma dedupe_step_pair [simp]:
  "dedupe_step x (seen, r) = (if x \<in> seen then (seen, r) else (insert x seen, r @ [x]))"
  by (simp add: dedupe_step_def)

text \<open>The fold keeps the set of what it has seen equal to what it has kept.\<close>

lemma dedupe_fold:
  assumes "fold dedupe_step items (set acc, acc) = (seen, result)" and "distinct acc"
  shows "seen = set result \<and> set result = set acc \<union> set items \<and> distinct result
    \<and> (\<exists>r. result = acc @ r \<and> subseq r items)"
  using assms
proof (induction items arbitrary: acc)
  case Nil
  then show ?case by auto
next
  case (Cons x items)
  show ?case
  proof (cases "x \<in> set acc")
    case True
    with Cons.prems have "fold dedupe_step items (set acc, acc) = (seen, result)"
      by simp
    from Cons.IH [OF this Cons.prems(2)] True show ?thesis by auto
  next
    case False
    with Cons.prems have "fold dedupe_step items (set (acc @ [x]), acc @ [x]) = (seen, result)"
      and "distinct (acc @ [x])"
      by simp_all
    from Cons.IH [OF this] show ?thesis by auto
  qed
qed

lemma dedupeStrings_props:
  "set (dedupeStrings items) = set items" "distinct (dedupeStrings items)"
  "subseq (dedupeStrings items) items"
proof -
  obtain seen result where r: "fold dedupe_step items (set [], []) = (seen, result)" by fastforce
  from dedupe_fold [OF r] r
  show "set (dedupeStrings items) = set items" "distinct (dedupeStrings items)"
    "subseq (dedupeStrings items) items"
    by (auto simp: dedupeStrings_def)
qed

text \<open>A list without duplicates is left as it is.\<close>

lemma dedupeStrings_distinct: "distinct items \<Longrightarrow> dedupeStrings items = items"
  using dedupeStrings_props [of items] subseq_same_length [of "dedupeStrings items" items]
  by (metis distinct_card)

end
