(* ===== verification/Validation.thy ===== *)
theory Validation
  imports Status_Errors Res_Limits Profile Yaml_Config
begin

text \<open>
  The validation of a \<^verbatim>\<open>CreateSpec\<close> and the paths of exec logs
  (\<^verbatim>\<open>internal/control/service_validation.go\<close>).

  \<^verbatim>\<open>validateCreateSpec\<close> also rewrites the mounts and copies it checks (home directories are
  expanded in place), so it returns the specification it leaves behind.  Its error is either a
  plain error, which the handler turns into \<^verbatim>\<open>InvalidArgument\<close>, or already a status.
\<close>

section \<open>Single checks\<close>

definition show_int :: "int \<Rightarrow> string" where
  "show_int i = (if i < 0 then ''-'' @ show_nat (nat (- i)) else show_nat (nat i))"

definition portProtocolToString :: "port_protocol \<Rightarrow> string" where
  "portProtocolToString protocol =
     (case protocol of
        PORT_PROTOCOL_TCP \<Rightarrow> ''tcp''
      | PORT_PROTOCOL_UDP \<Rightarrow> ''udp''
      | PORT_PROTOCOL_SCTP \<Rightarrow> ''sctp''
      | PORT_PROTOCOL_OTHER _ \<Rightarrow> '''')"

text \<open>The \<^verbatim>\<open>int32\<close> of the enum as \<^verbatim>\<open>api/proto/service.proto\<close> numbers it.\<close>

definition port_protocol_number :: "port_protocol \<Rightarrow> int" where
  "port_protocol_number protocol =
     (case protocol of
        PORT_PROTOCOL_TCP \<Rightarrow> 0 | PORT_PROTOCOL_UDP \<Rightarrow> 1 | PORT_PROTOCOL_SCTP \<Rightarrow> 2
      | PORT_PROTOCOL_OTHER n \<Rightarrow> n)"

definition show_port :: "32 word \<Rightarrow> string" where
  "show_port p = show_nat (unat p)"

definition validateGPUs :: "string \<Rightarrow> rpc_status option" where
  "validateGPUs value =
     (if value = '''' \<or> value = ''all'' then None
      else Some (plainStatus InvalidArgument
             [Lit ''gpus: unsupported value '', Quoted value,
              Lit ''; currently only empty or \"all\" are supported'']))"

text \<open>\<^verbatim>\<open>internal/control/docker_runtime_dockerapi.go\<close>\<close>

abbreviation "supplementalGroupsEnv \<equiv> ''AGENTS_SANDBOX_SUPPLEMENTAL_GROUPS''"

definition validatePrimaryEnvs :: "(string, string) gomap \<Rightarrow> rpc_status option" where
  "validatePrimaryEnvs envs =
     (case gm_get envs supplementalGroupsEnv of
        None \<Rightarrow> None
      | Some _ \<Rightarrow> Some (plainStatus InvalidArgument
          [Lit ''envs.'', Lit supplementalGroupsEnv,
           Lit '' is reserved for internal runtime setup and must not be set by CreateSpec.Envs'']))"

definition validateGenericSourcePath :: "host_env \<Rightarrow> string \<Rightarrow> string \<Rightarrow> go_error option" where
  "validateGenericSourcePath env kind source =
     (if \<not> IsAbs source
      then Some (ErrText [Lit kind, Lit '' source must be absolute: '', Lit source])
      else case he_lstat env source of
        Inl err \<Rightarrow> Some (ErrText ([Lit kind, Lit '' source path is invalid: ''] @ error_text err))
      | Inr Symlink \<Rightarrow> Some (ErrText [Lit kind, Lit '' source must not be a symlink: '', Lit source])
      | Inr OtherFile \<Rightarrow>
          Some (ErrText [Lit kind, Lit '' source must be a file, directory, or unix socket: '', Lit source])
      | Inr RegularFile \<Rightarrow> None
      | Inr Directory \<Rightarrow> None
      | Inr UnixSocket \<Rightarrow> None)"

definition validateHealthcheck :: "string \<Rightarrow> healthcheck_config option \<Rightarrow> go_error option" where
  "validateHealthcheck name healthcheck =
     (case healthcheck of
        None \<Rightarrow> None
      | Some h \<Rightarrow>
        (case hc_test h of
           [] \<Rightarrow> Some (ErrText [Lit ''companion container '', Quoted name, Lit '' healthcheck.test must not be empty''])
         | command # args \<Rightarrow>
             if command \<notin> {''CMD'', ''CMD-SHELL'', ''NONE''}
             then Some (ErrText [Lit ''companion container '', Quoted name,
                    Lit '' healthcheck.test[0] '', Quoted command, Lit '' is invalid''])
             else if command = ''NONE'' \<and> args \<noteq> []
             then Some (ErrText [Lit ''companion container '', Quoted name,
                    Lit '' healthcheck.test must not include extra args when NONE is used''])
             else if (command = ''CMD'' \<or> command = ''CMD-SHELL'') \<and> args = []
             then Some (ErrText [Lit ''companion container '', Quoted name, Lit '' healthcheck.test for '',
                    Lit command, Lit '' must include a command''])
             else None))"

text \<open>No empty token in a command; the path names the field and the index.\<close>

definition reject_empty_tokens :: "string \<Rightarrow> string list \<Rightarrow> go_error option" where
  "reject_empty_tokens path tokens =
     first_error
       (\<lambda>(i, token). if token = ''''
          then Some (ErrText [Lit (index_path path i), Lit '': empty string entry is not allowed''])
          else None)
       (enumerate 0 tokens)"

section \<open>Loops over the specification\<close>

text \<open>\<^verbatim>\<open>registerTarget\<close>: the container paths taken so far and what took them.\<close>

definition registerTarget ::
  "string \<Rightarrow> string \<Rightarrow> (string, string) gomap \<Rightarrow> go_error + (string, string) gomap" where
  "registerTarget kind target targets =
     (if target = '''' then Inl (ErrText [Lit kind, Lit '' target is required''])
      else if \<not> IsAbs target
      then Inl (ErrText [Lit kind, Lit '' target must be absolute: '', Lit target])
      else case gm_get targets target of
        Some existingKind \<Rightarrow>
          Inl (ErrText [Lit ''conflicting target '', Lit target, Lit '' between '', Lit existingKind,
            Lit '' and '', Lit kind])
      | None \<Rightarrow> Inr (gm_set target kind targets))"

text \<open>The checks and the expansion that mounts and copies share.\<close>

definition expand_source_target ::
  "host_env \<Rightarrow> string \<Rightarrow> string \<Rightarrow> string \<Rightarrow> go_error + string \<times> string" where
  "expand_source_target env kind source target =
     (if source = '''' then Inl (ErrText [Lit kind, Lit '' source is required''])
      else case orelse (validateTildePath source) (validateTildePath target) of
        Some err \<Rightarrow> Inl err
      | None \<Rightarrow>
          if \<not> HasPrefix source ''~'' \<and> \<not> IsAbs source
          then Inl (ErrText [Lit kind, Lit '' source must be absolute: '', Lit source])
          else case expandHomePath (he_home env) (he_cwd env) source of
            Inl err \<Rightarrow> Inl (ErrText ([Lit kind, Lit '' source: ''] @ error_text err))
          | Inr expandedSource \<Rightarrow>
              (case validateGenericSourcePath env kind expandedSource of
                 Some err \<Rightarrow> Inl err
               | None \<Rightarrow> Inr (expandedSource, expandContainerHomePath target)))"

definition validate_mount ::
  "host_env \<Rightarrow> mount_spec \<Rightarrow> (string, string) gomap
     \<Rightarrow> go_error + mount_spec \<times> (string, string) gomap" where
  "validate_mount env m targets =
     res_bind (expand_source_target env ''mount'' (ms_source m) (ms_target m)) (\<lambda>(source, target).
     res_bind (registerTarget ''mount'' target targets) (\<lambda>targets'.
       Inr (m\<lparr>ms_source := source, ms_target := target\<rparr>, targets')))"

definition validate_copy ::
  "host_env \<Rightarrow> copy_spec \<Rightarrow> (string, string) gomap
     \<Rightarrow> go_error + copy_spec \<times> (string, string) gomap" where
  "validate_copy env c targets =
     res_bind (expand_source_target env ''copy'' (cp_source c) (cp_target c)) (\<lambda>(source, target).
     if Clean source = ''/'' then Inl (ErrText [Lit ''copy source must not be the root directory''])
     else res_bind (registerTarget ''copy'' target targets) (\<lambda>targets'.
       Inr (c\<lparr>cp_source := source, cp_target := target\<rparr>, targets')))"

text \<open>A loop that rewrites the items of a list and threads a state.\<close>

fun rewrite_loop :: "('a \<Rightarrow> 's \<Rightarrow> 'e + 'a \<times> 's) \<Rightarrow> 'a list \<Rightarrow> 's \<Rightarrow> 'e + 'a list \<times> 's" where
  "rewrite_loop f [] s = Inr ([], s)"
| "rewrite_loop f (x # xs) s =
     res_bind (f x s) (\<lambda>(y, s'). res_bind (rewrite_loop f xs s') (\<lambda>(ys, s''). Inr (y # ys, s'')))"

definition validate_port :: "port_mapping \<Rightarrow> string set \<Rightarrow> go_error + string set" where
  "validate_port port seenHostPorts =
     (if pm_container_port port = 0 \<or> pm_container_port port > 65535
      then Inl (ErrText [Lit ''port container_port must be between 1 and 65535, got '',
             Lit (show_port (pm_container_port port))])
      else if pm_host_port port = 0 \<or> pm_host_port port > 65535
      then Inl (ErrText [Lit ''port host_port must be between 1 and 65535, got '',
             Lit (show_port (pm_host_port port))])
      else
        let protoStr = portProtocolToString (pm_protocol port);
            key = show_port (pm_host_port port) @ ''/'' @ protoStr
        in if protoStr = ''''
           then Inl (ErrText [Lit ''port protocol must be TCP, UDP, or SCTP, got '',
                  Lit (show_int (port_protocol_number (pm_protocol port)))])
           else if key \<in> seenHostPorts
           then Inl (ErrText [Lit ''duplicate host_port '', Lit (show_port (pm_host_port port)),
                  Lit '' with protocol '', Lit protoStr])
           else Inr (insert key seenHostPorts))"

definition validate_companion :: "companion_container_spec \<Rightarrow> string set \<Rightarrow> go_error + string set" where
  "validate_companion cc seen =
     (if cc_name cc = '''' then Inl (ErrText [Lit ''companion container name is required''])
      else if cc_image cc = ''''
      then Inl (ErrText [Lit ''companion container '', Quoted (cc_name cc), Lit '' image is required''])
      else if cc_name cc \<in> seen
      then Inl (ErrText [Lit ''duplicate companion container name '', Quoted (cc_name cc)])
      else if length (cc_post_start_on_primary cc) > 0 \<and> cc_healthcheck cc = None
      then Inl (ErrText [Lit ''companion container '', Quoted (cc_name cc),
             Lit '' with post_start_on_primary must define healthcheck''])
      else case orelse (validateHealthcheck (cc_name cc) (cc_healthcheck cc))
                  (reject_empty_tokens (companion_field (cc_name cc) ''command'') (cc_command cc)) of
        Some err \<Rightarrow> Inl err
      | None \<Rightarrow> Inr (insert (cc_name cc) seen))"

definition validateCompanionContainerSpecs ::
  "companion_container_spec list \<Rightarrow> string set \<Rightarrow> go_error + string set" where
  "validateCompanionContainerSpecs items seen = fold_result validate_companion items seen"

definition limit_status :: "string \<Rightarrow> go_error + int \<Rightarrow> rpc_status option" where
  "limit_status field r =
     (case r of
        Inl err \<Rightarrow> Some (plainStatus InvalidArgument ([Lit field, Lit '': ''] @ error_text err))
      | Inr _ \<Rightarrow> None)"

definition validate_companion_limits ::
  "host_env \<Rightarrow> companion_container_spec \<Rightarrow> rpc_status option" where
  "validate_companion_limits env cc =
     orelse
       (if cc_cpu_limit cc \<noteq> ''''
        then limit_status (companion_field (cc_name cc) ''cpu_limit'') (ParseCPU env (cc_cpu_limit cc))
        else None)
     (orelse
       (if cc_memory_limit cc \<noteq> ''''
        then limit_status (companion_field (cc_name cc) ''memory_limit'')
               (ParseMemoryOrDisk env (cc_memory_limit cc) (companion_field (cc_name cc) ''memory_limit''))
        else None)
       (if cc_disk_limit cc \<noteq> ''''
        then limit_status (companion_field (cc_name cc) ''disk_limit'')
               (ParseMemoryOrDisk env (cc_disk_limit cc) (companion_field (cc_name cc) ''disk_limit''))
        else None))"

definition validateResourceLimits :: "host_env \<Rightarrow> create_spec \<Rightarrow> rpc_status option" where
  "validateResourceLimits env spec =
     orelse (limit_status ''cpu_limit'' (ParseCPU env (cs_cpu_limit spec)))
     (orelse (limit_status ''memory_limit''
                (ParseMemoryOrDisk env (cs_memory_limit spec) ''memory_limit''))
     (orelse (limit_status ''disk_limit''
                (ParseMemoryOrDisk env (cs_disk_limit spec) ''disk_limit''))
       (first_error (validate_companion_limits env) (cs_companion_containers spec))))"

definition validate_builtin :: "string \<Rightarrow> string set \<Rightarrow> go_error + string set" where
  "validate_builtin builtin seenBuiltin =
     (if builtin = '''' then Inl (ErrText [Lit ''builtin resource id must not be empty''])
      else if builtin \<in> seenBuiltin
      then Inl (ErrText [Lit ''duplicate builtin resource '', Quoted builtin])
      else case CapabilityByID builtin of
        None \<Rightarrow> Inl (ErrText [Lit ''unknown builtin resource '', Quoted builtin])
      | Some _ \<Rightarrow> Inr (insert builtin seenBuiltin))"

section \<open>The whole specification\<close>

definition plain :: "go_error + 'a \<Rightarrow> call_error + 'a" where
  "plain r = (case r of Inl err \<Rightarrow> Inl (PlainError (error_text err)) | Inr x \<Rightarrow> Inr x)"

definition check_status :: "rpc_status option \<Rightarrow> call_error + unit" where
  "check_status r = (case r of Some st \<Rightarrow> Inl (StatusError st) | None \<Rightarrow> Inr ())"

definition check_plain :: "go_error option \<Rightarrow> call_error + unit" where
  "check_plain r = (case r of Some err \<Rightarrow> Inl (PlainError (error_text err)) | None \<Rightarrow> Inr ())"

definition validateCreateSpec :: "host_env \<Rightarrow> create_spec \<Rightarrow> call_error + create_spec" where
  "validateCreateSpec env spec =
     (if (case cs_idle_ttl spec of None \<Rightarrow> False | Some d \<Rightarrow> d < 0)
      then Inl (PlainError [Lit ''idle_ttl must not be negative''])
      else
        res_bind (check_status (validateGPUs (cs_gpus spec))) (\<lambda>_.
        res_bind (check_status (validatePrimaryEnvs (cs_envs spec))) (\<lambda>_.
        res_bind (plain (rewrite_loop (validate_mount env) (cs_mounts spec) [])) (\<lambda>(mounts, targets).
        res_bind (plain (rewrite_loop (validate_copy env) (cs_copies spec) targets)) (\<lambda>(copies, targets').
        res_bind (plain (fold_result validate_port (cs_ports spec) {})) (\<lambda>_.
        res_bind (plain (validateCompanionContainerSpecs (cs_companion_containers spec) {})) (\<lambda>_.
        res_bind (check_plain (reject_empty_tokens ''command'' (cs_command spec))) (\<lambda>_.
        res_bind (check_status (validateResourceLimits env spec)) (\<lambda>_.
        res_bind (plain (fold_result validate_builtin (cs_builtin_tools spec) {})) (\<lambda>_.
          Inr (spec\<lparr>cs_mounts := mounts, cs_copies := copies\<rparr>)))))))))))"

section \<open>Exec log paths\<close>

record exec_artifact_paths =
  ap_stdout_path :: string
  ap_stderr_path :: string

definition errArtifactPathEscapesRoot :: go_error where
  "errArtifactPathEscapesRoot = ErrText [Lit ''artifact path escapes configured root'']"

definition expand_field :: "string \<times> string \<Rightarrow> string \<Rightarrow> go_error + string" where
  "expand_field field resolved =
     (case field of (key, value) \<Rightarrow>
        if value = '''' then Inl (ErrText [Lit ''artifact template field is empty: '', Lit key])
        else Inr (replace_all resolved (''{'' @ key @ ''}'') value))"

definition expandArtifactTemplate :: "string \<Rightarrow> (string, string) gomap \<Rightarrow> go_error + string" where
  "expandArtifactTemplate template fieldMap =
     res_bind (fold_result expand_field fieldMap template) (\<lambda>resolved.
       if str_contains resolved ''{'' \<or> str_contains resolved ''}''
       then Inl (ErrText [Lit ''artifact template contains unresolved field: '', Lit resolved])
       else Inr resolved)"

definition check_go :: "go_error option \<Rightarrow> go_error + unit" where
  "check_go r = (case r of Some err \<Rightarrow> Inl err | None \<Rightarrow> Inr ())"

definition prepareExecOutputPrefix ::
  "host_env \<Rightarrow> string \<Rightarrow> string \<Rightarrow> (string, string) gomap \<Rightarrow> go_error + string" where
  "prepareExecOutputPrefix env root template fieldMap =
     res_bind (expandArtifactTemplate template fieldMap) (\<lambda>relativePath.
     if IsAbs relativePath then Inl errArtifactPathEscapesRoot
     else
       let cleanRelative = Clean relativePath in
       if cleanRelative = ''.'' \<or> cleanRelative = '''' \<or> HasPrefix cleanRelative ''..''
       then Inl errArtifactPathEscapesRoot
       else
         res_bind (Abs (he_cwd env) root) (\<lambda>rootAbs.
         res_bind (check_go (he_mkdir_all env rootAbs)) (\<lambda>_.
         res_bind (he_eval_symlinks env rootAbs) (\<lambda>rootReal.
         let targetPrefix = JoinPath [rootReal, cleanRelative];
             parentPath = Dir targetPrefix in
         res_bind (check_go (he_mkdir_all env parentPath)) (\<lambda>_.
         res_bind (he_eval_symlinks env parentPath) (\<lambda>parentRealPath.
           if pathWithinRoot rootReal parentRealPath then Inr targetPrefix
           else Inl errArtifactPathEscapesRoot))))))"

definition prepareExecOutputPaths ::
  "host_env \<Rightarrow> string \<Rightarrow> string \<Rightarrow> (string, string) gomap \<Rightarrow> go_error + exec_artifact_paths" where
  "prepareExecOutputPaths env root template fieldMap =
     res_bind (prepareExecOutputPrefix env root template fieldMap) (\<lambda>prefix'.
       Inr \<lparr>ap_stdout_path = prefix' @ ''.stdout.log'', ap_stderr_path = prefix' @ ''.stderr.log''\<rparr>)"

end
