(* ===== verification/Service_State.thy ===== *)
theory Service_State
  imports Event_Store Id_Registry Validation
begin

text \<open>
  The state of the daemon and the operations every handler is built from:
  \<^verbatim>\<open>Service\<close>, \<^verbatim>\<open>sandboxRecord\<close>, \<^verbatim>\<open>ServiceConfig\<close> (\<^verbatim>\<open>internal/control/service.go\<close>), the runtime
  state of a sandbox (\<^verbatim>\<open>docker_runtime.go\<close>), and \<^verbatim>\<open>appendEventLocked\<close>, the lookups and the event
  queries of \<^verbatim>\<open>service_events.go\<close>.

  \<^verbatim>\<open>s.mu\<close> serialises the handlers, so one critical section is one function on the state.  The
  clock is read once per critical section, the argument \<open>now\<close>.  A goroutine the code starts is a
  value of type \<open>task\<close> that the critical section returns; \<^theory_text>\<open>Service_Async\<close> models what it does.
  Log output is left out.
\<close>

section \<open>Runtime state\<close>

record crashloop_state =
  cl_not_running_since :: "time option"
  cl_running_since :: "time option"

definition fresh_crashloop :: crashloop_state where
  "fresh_crashloop = \<lparr>cl_not_running_since = None, cl_running_since = None\<rparr>"

record runtime_companion_container =
  rc_name :: string
  rc_container_name :: string
  rc_crashloop :: crashloop_state

record sandbox_runtime_state =
  rs_network_name :: string
  rs_primary_container_name :: string
  rs_companion_containers :: "runtime_companion_container list"
  rs_primary_crashloop :: crashloop_state

record companion_container_status =
  ccs_name :: string
  ccs_ready :: bool
  ccs_message :: string

section \<open>Records, configuration, state\<close>

text \<open>
  \<^verbatim>\<open>execCancel\<close> maps an exec to the cancel function of its context; the model keeps its keys, and
  the contexts cancelled so far in the service state.  \<open>svc_detached\<close> holds the records a purge took
  out of the map: an event stream opened before still points to its record.
\<close>

record sandbox_record =
  sr_handle :: sandbox_handle
  sr_create_spec :: create_spec
  sr_companion_containers :: "companion_container_spec list"
  sr_runtime_state :: "sandbox_runtime_state option"
  sr_events :: "sandbox_event list"
  sr_execs :: "(string, exec_status) gomap"
  sr_exec_cancel :: "string set"
  sr_next_sequence :: seqno
  sr_last_terminal_run_finished_at :: "time option"
  sr_deleted_at_recorded :: bool

record event_mutation =
  mu_phase :: string
  mu_companion_container_name :: string
  mu_error_code :: string
  mu_error_message :: string
  mu_reason :: string
  mu_exec_id :: string
  mu_exit_code :: int
  mu_sandbox_state :: sandbox_state
  mu_exec_state :: exec_state

definition no_mutation :: event_mutation where
  "no_mutation = \<lparr>mu_phase = '''', mu_companion_container_name = '''', mu_error_code = '''',
     mu_error_message = '''', mu_reason = '''', mu_exec_id = '''', mu_exit_code = 0,
     mu_sandbox_state = SANDBOX_STATE_UNSPECIFIED, mu_exec_state = EXEC_STATE_UNSPECIFIED\<rparr>"

record ('st, 'r) service_config =
  cfg_transition_delay :: duration
  cfg_poll_interval :: duration
  cfg_idle_ttl :: duration
  cfg_cleanup_ttl :: duration
  cfg_cleanup_interval :: duration
  cfg_artifact_output_root :: string
  cfg_artifact_output_template :: string
  cfg_version :: string
  cfg_daemon_name :: string
  cfg_log_level :: string
  cfg_event_store :: "'st event_store_ops"
  cfg_id_registry :: "'r id_registry_ops"

record ('st, 'r) service =
  svc_store :: 'st
  svc_registry :: 'r
  svc_boxes :: "(string, sandbox_record) gomap"
  svc_execs :: "(string, string) gomap"
  svc_cancelled :: "string set"
  svc_detached :: "(string, sandbox_record) gomap"

text \<open>The goroutines: the function and the arguments it is started with.\<close>

datatype task =
    CompleteSandboxCreate string
  | CompleteSandboxResume string
  | CompleteSandboxStop string string
  | CompleteSandboxDelete string string
  | CompleteExec string
  | CompleteCompanionContainerStartup string
  | StopAfterFailure string

section \<open>Defaults\<close>

abbreviation "buildVersion \<equiv> ''dev''"

definition DefaultServiceConfig ::
  "'st event_store_ops \<Rightarrow> 'r id_registry_ops \<Rightarrow> ('st, 'r) service_config" where
  "DefaultServiceConfig store registry =
     \<lparr>cfg_transition_delay = 10 * millisecond, cfg_poll_interval = 10 * millisecond,
      cfg_idle_ttl = 10 * minute, cfg_cleanup_ttl = 360 * hour, cfg_cleanup_interval = 2 * minute,
      cfg_artifact_output_root = '''',
      cfg_artifact_output_template = ''{sandbox_id}/{exec_id}'',
      cfg_version = buildVersion, cfg_daemon_name = ''agboxd'', cfg_log_level = ''info'',
      cfg_event_store = store, cfg_id_registry = registry\<rparr>"

text \<open>
  \<^verbatim>\<open>NewService\<close> for a configuration that carries its store and registry: unset fields take the
  defaults, except that an \<^verbatim>\<open>IdleTTL\<close> of zero stays zero and disables idle stops.
\<close>

definition withDefaults :: "('st, 'r) service_config \<Rightarrow> ('st, 'r) service_config" where
  "withDefaults config =
     (let defaults = DefaultServiceConfig (cfg_event_store config) (cfg_id_registry config) in
      config
       \<lparr>cfg_transition_delay :=
          (if cfg_transition_delay config \<le> 0 then cfg_transition_delay defaults
           else cfg_transition_delay config),
        cfg_poll_interval :=
          (if cfg_poll_interval config \<le> 0 then cfg_poll_interval defaults
           else cfg_poll_interval config),
        cfg_cleanup_ttl :=
          (if cfg_cleanup_ttl config \<le> 0 then cfg_cleanup_ttl defaults else cfg_cleanup_ttl config),
        cfg_cleanup_interval :=
          (if cfg_cleanup_interval config \<le> 0 then cfg_cleanup_interval defaults
           else cfg_cleanup_interval config),
        cfg_artifact_output_template :=
          (if cfg_artifact_output_template config = '''' then cfg_artifact_output_template defaults
           else cfg_artifact_output_template config),
        cfg_version := (if cfg_version config = '''' then cfg_version defaults else cfg_version config),
        cfg_daemon_name :=
          (if cfg_daemon_name config = '''' then cfg_daemon_name defaults
           else cfg_daemon_name config)\<rparr>)"

definition NewService ::
  "('st, 'r) service_config \<Rightarrow> 'st \<Rightarrow> 'r \<Rightarrow> ('st, 'r) service_config \<times> ('st, 'r) service" where
  "NewService config store registry =
     (withDefaults config,
      \<lparr>svc_store = store, svc_registry = registry, svc_boxes = [], svc_execs = [],
       svc_cancelled = {}, svc_detached = []\<rparr>)"

section \<open>Appending an event\<close>

definition event_details_of :: "event_mutation \<Rightarrow> event_details" where
  "event_details_of m =
     (if mu_exec_id m \<noteq> '''' then
        ExecDetails (mu_exec_id m) (mu_exit_code m) (mu_exec_state m) (mu_error_code m)
          (mu_error_message m)
      else if mu_companion_container_name m \<noteq> '''' then
        CompanionDetails (mu_companion_container_name m) (mu_error_code m) (mu_error_message m)
      else if mu_phase m \<noteq> '''' \<or> mu_error_code m \<noteq> '''' \<or> mu_error_message m \<noteq> ''''
              \<or> mu_reason m \<noteq> '''' then
        SandboxPhase (mu_phase m) (mu_error_code m) (mu_error_message m) (mu_reason m)
      else NoDetails)"

definition new_event :: "time \<Rightarrow> sandbox_record \<Rightarrow> event_type \<Rightarrow> event_mutation \<Rightarrow> sandbox_event" where
  "new_event now rec eventType m =
     (let nextSequence = sr_next_sequence rec + 1; sandboxID = sh_sandbox_id (sr_handle rec) in
      \<lparr>ev_event_id = sandboxID @ ''-'' @ show_seqno nextSequence, ev_sequence = nextSequence,
       ev_sandbox_id = sandboxID, ev_event_type = eventType, ev_occurred_at = now,
       ev_replay = False, ev_snapshot = False, ev_sandbox_state = mu_sandbox_state m,
       ev_details = event_details_of m\<rparr>)"

text \<open>What \<^verbatim>\<open>appendEventLocked\<close> does to the handle once the store took the event.\<close>

definition touch_state_changed_at ::
  "sandbox_event \<Rightarrow> event_mutation \<Rightarrow> sandbox_handle \<Rightarrow> sandbox_handle" where
  "touch_state_changed_at event m h =
     (if mu_sandbox_state m \<noteq> SANDBOX_STATE_UNSPECIFIED
         \<and> (mu_sandbox_state m \<noteq> sh_state h \<or> sh_state_changed_at h = None)
      then h\<lparr>sh_state_changed_at := Some (ev_occurred_at event)\<rparr> else h)"

definition set_error_on_failed :: "event_mutation \<Rightarrow> sandbox_handle \<Rightarrow> sandbox_handle" where
  "set_error_on_failed m h =
     (if mu_sandbox_state m = SANDBOX_STATE_FAILED \<and> mu_sandbox_state m \<noteq> sh_state h
      then h\<lparr>sh_error_code := mu_error_code m, sh_error_message := mu_error_message m\<rparr> else h)"

definition clear_error_on_leave :: "event_mutation \<Rightarrow> sandbox_handle \<Rightarrow> sandbox_handle" where
  "clear_error_on_leave m h =
     (if sh_state h = SANDBOX_STATE_FAILED \<and> mu_sandbox_state m \<noteq> SANDBOX_STATE_UNSPECIFIED
         \<and> mu_sandbox_state m \<noteq> SANDBOX_STATE_FAILED
      then h\<lparr>sh_error_code := '''', sh_error_message := ''''\<rparr> else h)"

definition update_handle :: "sandbox_event \<Rightarrow> event_mutation \<Rightarrow> sandbox_handle \<Rightarrow> sandbox_handle" where
  "update_handle event m h =
     clear_error_on_leave m (set_error_on_failed m (touch_state_changed_at event m
       (h\<lparr>sh_last_event_sequence := ev_sequence event\<rparr>)))"

definition appendEventLocked ::
  "('st, 'r) service_config \<Rightarrow> time \<Rightarrow> sandbox_record \<Rightarrow> event_type \<Rightarrow> event_mutation \<Rightarrow> 'st
     \<Rightarrow> go_error + sandbox_record \<times> 'st" where
  "appendEventLocked cfg now rec eventType m st =
     (let event = new_event now rec eventType m in
      case st_append (cfg_event_store cfg) st (sh_sandbox_id (sr_handle rec)) event of
        Inl err \<Rightarrow> Inl err
      | Inr st' \<Rightarrow>
          Inr (rec\<lparr>sr_next_sequence := sr_next_sequence rec + 1,
                   sr_events := sr_events rec @ [event],
                   sr_handle := update_handle event m (sr_handle rec)\<rparr>, st'))"

text \<open>\<^verbatim>\<open>record.handle.State = state\<close>\<close>

definition set_state :: "sandbox_state \<Rightarrow> sandbox_record \<Rightarrow> sandbox_record" where
  "set_state state rec = rec\<lparr>sr_handle := (sr_handle rec)\<lparr>sh_state := state\<rparr>\<rparr>"

abbreviation rec_state :: "sandbox_record \<Rightarrow> sandbox_state" where
  "rec_state rec \<equiv> sh_state (sr_handle rec)"

definition append_companion_event ::
  "('st, 'r) service_config \<Rightarrow> time \<Rightarrow> sandbox_state \<Rightarrow> companion_container_status
     \<Rightarrow> sandbox_record \<times> 'st \<Rightarrow> go_error + sandbox_record \<times> 'st" where
  "append_companion_event cfg now sandboxState status acc =
     (case acc of (rec, st) \<Rightarrow>
        if ccs_ready status then
          appendEventLocked cfg now rec COMPANION_CONTAINER_READY
            (no_mutation\<lparr>mu_companion_container_name := ccs_name status,
                         mu_sandbox_state := sandboxState\<rparr>) st
        else
          appendEventLocked cfg now rec COMPANION_CONTAINER_FAILED
            (no_mutation\<lparr>mu_companion_container_name := ccs_name status,
                         mu_error_code := ''COMPANION_CONTAINER_FAILED'',
                         mu_error_message := ccs_message status,
                         mu_sandbox_state := sandboxState\<rparr>) st)"

text \<open>
  \<^verbatim>\<open>appendCompanionContainerEventsLocked\<close> keeps the events it appended before an error: it returns
  the record and store as far as it got, and the error.
\<close>

fun appendCompanionContainerEventsLocked ::
  "('st, 'r) service_config \<Rightarrow> time \<Rightarrow> sandbox_state \<Rightarrow> companion_container_status list
     \<Rightarrow> sandbox_record \<times> 'st \<Rightarrow> (sandbox_record \<times> 'st) \<times> go_error option" where
  "appendCompanionContainerEventsLocked cfg now sandboxState [] acc = (acc, None)"
| "appendCompanionContainerEventsLocked cfg now sandboxState (status # statuses) acc =
     (case append_companion_event cfg now sandboxState status acc of
        Inl err \<Rightarrow> (acc, Some err)
      | Inr acc' \<Rightarrow> appendCompanionContainerEventsLocked cfg now sandboxState statuses acc')"

text \<open>
  \<^verbatim>\<open>beginSandboxDeleteLocked\<close>: whether a deletion was started, or the append error
  (\<^verbatim>\<open>internal/control/service_clone.go\<close>).  A record is never nil here.
\<close>

definition beginSandboxDeleteLocked ::
  "('st, 'r) service_config \<Rightarrow> time \<Rightarrow> sandbox_record \<Rightarrow> string \<Rightarrow> 'st
     \<Rightarrow> go_error + bool \<times> sandbox_record \<times> 'st" where
  "beginSandboxDeleteLocked cfg now rec reason st =
     (if rec_state rec = SANDBOX_STATE_DELETED \<or> rec_state rec = SANDBOX_STATE_DELETING
      then Inr (False, rec, st)
      else
        res_bind (appendEventLocked cfg now rec SANDBOX_DELETE_REQUESTED
            (no_mutation\<lparr>mu_reason := reason, mu_sandbox_state := SANDBOX_STATE_DELETING\<rparr>) st)
          (\<lambda>(rec', st'). Inr (True, set_state SANDBOX_STATE_DELETING rec', st')))"

section \<open>Lookups and queries\<close>

definition sandbox_not_found :: "string \<Rightarrow> rpc_status" where
  "sandbox_not_found sandboxID =
     newStatusError NotFound ReasonSandboxNotFound [(''sandbox_id'', sandboxID)]
       [Lit ''sandbox '', Lit sandboxID, Lit '' was not found'']"

definition exec_not_found :: "string \<Rightarrow> rpc_status" where
  "exec_not_found execID =
     newStatusError NotFound ReasonExecNotFound [(''exec_id'', execID)]
       [Lit ''exec '', Lit execID, Lit '' was not found'']"

definition requireSandboxLocked ::
  "('st, 'r) service \<Rightarrow> string \<Rightarrow> rpc_status + sandbox_record" where
  "requireSandboxLocked s sandboxID =
     (case gm_get (svc_boxes s) sandboxID of
        None \<Rightarrow> Inl (sandbox_not_found sandboxID)
      | Some rec \<Rightarrow> Inr rec)"

definition requireExecLocked ::
  "('st, 'r) service \<Rightarrow> string \<Rightarrow> rpc_status + string \<times> sandbox_record \<times> exec_status" where
  "requireExecLocked s execID =
     (case gm_get (svc_execs s) execID of
        None \<Rightarrow> Inl (exec_not_found execID)
      | Some sandboxID \<Rightarrow>
        (case gm_get (svc_boxes s) sandboxID of
           None \<Rightarrow> Inl (sandbox_not_found sandboxID)
         | Some rec \<Rightarrow>
           (case gm_get (sr_execs rec) execID of
              None \<Rightarrow> Inl (exec_not_found execID)
            | Some execRecord \<Rightarrow> Inr (sandboxID, rec, execRecord))))"

definition isExecTerminal :: "exec_state \<Rightarrow> bool" where
  "isExecTerminal state \<longleftrightarrow>
     state = EXEC_STATE_FINISHED \<or> state = EXEC_STATE_FAILED \<or> state = EXEC_STATE_CANCELLED"

definition hasActiveExec :: "sandbox_record \<Rightarrow> bool" where
  "hasActiveExec rec \<longleftrightarrow> list_ex (\<lambda>(_, e). \<not> isExecTerminal (es_state e)) (sr_execs rec)"

definition eventsAfter :: "sandbox_record \<Rightarrow> seqno \<Rightarrow> sandbox_event list" where
  "eventsAfter rec afterSequence =
     map (\<lambda>event. (cloneEvent event)\<lparr>ev_replay := True\<rparr>)
       (filter (\<lambda>event. \<not> ev_sequence event \<le> afterSequence) (sr_events rec))"

definition validateSequenceNotExpired :: "sandbox_record \<Rightarrow> seqno \<Rightarrow> rpc_status option" where
  "validateSequenceNotExpired rec afterSequence =
     (if afterSequence \<le> sr_next_sequence rec then None
      else Some (newStatusError OutOfRange ReasonSandboxEventSequenceExpired
             [(''sandbox_id'', sh_sandbox_id (sr_handle rec)),
              (''from_sequence'', show_seqno afterSequence)]
             [Lit ''sandbox '', Lit (sh_sandbox_id (sr_handle rec)), Lit '' event sequence '',
              Lit (show_seqno afterSequence), Lit '' is outside retained history'']))"

definition eventTypeForExec :: "exec_state \<Rightarrow> event_type" where
  "eventTypeForExec state =
     (case state of
        EXEC_STATE_RUNNING \<Rightarrow> EXEC_STARTED
      | EXEC_STATE_CANCELLED \<Rightarrow> EXEC_CANCELLED
      | EXEC_STATE_FAILED \<Rightarrow> EXEC_FAILED
      | _ \<Rightarrow> EXEC_FINISHED)"

definition snapshotEvents :: "time \<Rightarrow> sandbox_record \<Rightarrow> sandbox_event list" where
  "snapshotEvents now rec =
     (if length (sr_events rec) > 0
      then [(cloneEvent (sr_events rec ! (length (sr_events rec) - 1)))\<lparr>ev_replay := True, ev_snapshot := True\<rparr>]
      else [])
     @ [\<lparr>ev_event_id = sh_sandbox_id (sr_handle rec) @ ''-snapshot-'' @ es_exec_id e,
         ev_sequence = sr_next_sequence rec, ev_sandbox_id = sh_sandbox_id (sr_handle rec),
         ev_event_type = eventTypeForExec (es_state e), ev_occurred_at = now,
         ev_replay = True, ev_snapshot = True, ev_sandbox_state = rec_state rec,
         ev_details = ExecDetails (es_exec_id e) 0 (es_state e) '''' ''''\<rparr>.
        (_, e) \<leftarrow> sr_execs rec, \<not> isExecTerminal (es_state e)]"

text \<open>The last event with a state, scanned backwards; the persisted state of a sandbox.\<close>

definition persistedState :: "sandbox_event list \<Rightarrow> sandbox_state" where
  "persistedState events =
     (case find (\<lambda>e. ev_sandbox_state e \<noteq> SANDBOX_STATE_UNSPECIFIED) (rev events) of
        None \<Rightarrow> SANDBOX_STATE_UNSPECIFIED
      | Some e \<Rightarrow> ev_sandbox_state e)"

text \<open>The loop of \<^verbatim>\<open>resolveExecStateFromEvents\<close>: state, exit code, error code and message.\<close>

definition resolve_exec_step ::
  "string \<Rightarrow> sandbox_event \<Rightarrow> exec_state \<times> int \<times> string \<times> string
     \<Rightarrow> exec_state \<times> int \<times> string \<times> string" where
  "resolve_exec_step execID event acc =
     (case acc of (state, exitCode, errorCode, errorMsg) \<Rightarrow>
      case ev_details event of
        ExecDetails k code _ ecode emsg \<Rightarrow>
          if k \<noteq> execID then acc
          else (case ev_event_type event of
                  EXEC_STARTED \<Rightarrow> (EXEC_STATE_RUNNING, exitCode, errorCode, errorMsg)
                | EXEC_FINISHED \<Rightarrow> (EXEC_STATE_FINISHED, code, errorCode, errorMsg)
                | EXEC_FAILED \<Rightarrow> (EXEC_STATE_FAILED, code, ecode, emsg)
                | EXEC_CANCELLED \<Rightarrow> (EXEC_STATE_CANCELLED, exitCode, errorCode, errorMsg)
                | _ \<Rightarrow> acc)
      | _ \<Rightarrow> acc)"

definition resolveExecStateFromEvents ::
  "sandbox_event list \<Rightarrow> string \<Rightarrow> exec_state \<times> int \<times> string \<times> string" where
  "resolveExecStateFromEvents events execID =
     fold (resolve_exec_step execID) events (EXEC_STATE_UNSPECIFIED, 0, '''', '''')"

end
