(* ===== verification/Service_Rpc.thy ===== *)
theory Service_Rpc
  imports Service_State
begin

text \<open>
  The gRPC handlers of \<^verbatim>\<open>internal/control/service.go\<close>.  A handler that changes state takes the
  configuration, the instant \<open>now\<close>, the request and the state, and returns the state after it, the
  goroutines it starts, and its response or status.  The handlers that only read return
  their response alone.
\<close>

type_synonym ('st, 'r, 'a) handler_result = "('st, 'r) service \<times> task list \<times> (rpc_status + 'a)"

definition internal_error :: "string \<Rightarrow> err_msg \<Rightarrow> rpc_status" where
  "internal_error what err = plainStatus Internal (Lit what # Lit '': '' # err)"

text \<open>\<^verbatim>\<open>errors.Join(err, other)\<close>: the texts on a line each\<close>

definition join_errors :: "err_msg \<Rightarrow> err_msg \<Rightarrow> err_msg" where
  "join_errors a b = a @ [Lit [CHR 0x0A]] @ b"

section \<open>Ping\<close>

definition Ping :: "('st, 'r) service_config \<Rightarrow> string \<times> string" where
  "Ping cfg = (cfg_version cfg, cfg_daemon_name cfg)"

section \<open>CreateSandbox\<close>

text \<open>The specification of a request: the YAML document, overridden by \<^verbatim>\<open>create_spec\<close>.\<close>

definition requested_spec :: "host_env \<Rightarrow> create_sandbox_request \<Rightarrow> rpc_status + create_spec option" where
  "requested_spec env req =
     (if length (cr_config_yaml req) > 0 then
        case res_bind (he_decode_yaml env (cr_config_yaml req)) (yamlConfigToCreateSpec env) of
          Inl err \<Rightarrow> Inl (plainStatus InvalidArgument (Lit ''invalid config_yaml: '' # error_text err))
        | Inr yamlSpec \<Rightarrow>
            let over = (case cr_create_spec req of None \<Rightarrow> empty_create_spec | Some o' \<Rightarrow> o')
            in Inr (Some (mergeCreateSpecs (Some yamlSpec) (Some over)))
      else Inr (cr_create_spec req))"

definition checked_spec :: "host_env \<Rightarrow> create_sandbox_request \<Rightarrow> rpc_status + create_spec" where
  "checked_spec env req =
     res_bind (requested_spec env req) (\<lambda>requested.
       case requested of
         None \<Rightarrow> Inl (plainStatus InvalidArgument [Lit ''create_spec is required''])
       | Some spec \<Rightarrow>
           if cs_image spec = ''''
           then Inl (plainStatus InvalidArgument [Lit ''create_spec.image is required''])
           else case validateCreateSpec env spec of
             Inl (StatusError st) \<Rightarrow> Inl st
           | Inl (PlainError m) \<Rightarrow> Inl (plainStatus InvalidArgument m)
           | Inr spec' \<Rightarrow> Inr spec')"

definition new_record :: "time \<Rightarrow> string \<Rightarrow> create_spec \<Rightarrow> sandbox_record" where
  "new_record now sandboxID spec =
     \<lparr>sr_handle =
        \<lparr>sh_sandbox_id = sandboxID, sh_state = SANDBOX_STATE_PENDING, sh_last_event_sequence = 0,
         sh_companion_containers = cloneCompanionContainerSpecs (cs_companion_containers spec),
         sh_labels = cloneStringMap (cs_labels spec), sh_created_at = Some now,
         sh_image = cs_image spec, sh_error_code = '''', sh_error_message = '''',
         sh_state_changed_at = None\<rparr>,
      sr_create_spec = cloneCreateSpec (Some spec),
      sr_companion_containers = cloneCompanionContainerSpecs (cs_companion_containers spec),
      sr_runtime_state = None, sr_events = [], sr_execs = [], sr_exec_cancel = {},
      sr_next_sequence = 0, sr_last_terminal_run_finished_at = None,
      sr_deleted_at_recorded = False\<rparr>"

text \<open>\<^verbatim>\<open>ReleaseSandboxID\<close> on an error path: the registry after it and the error to report.\<close>

definition release_sandbox_id ::
  "('st, 'r) service_config \<Rightarrow> string \<Rightarrow> err_msg \<Rightarrow> 'r \<Rightarrow> 'r \<times> err_msg" where
  "release_sandbox_id cfg sandboxID err r =
     (case ir_release_sandbox_id (cfg_id_registry cfg) r sandboxID of
        Inr r' \<Rightarrow> (r', err)
      | Inl releaseErr \<Rightarrow>
          (r, join_errors err ([Lit ''release sandbox id '', Lit sandboxID, Lit '': ''] @ error_text releaseErr)))"

text \<open>The critical section, once the specification is accepted and the id reserved.\<close>

definition create_with_id ::
  "('st, 'r) service_config \<Rightarrow> time \<Rightarrow> string \<Rightarrow> create_spec \<Rightarrow> ('st, 'r) service
     \<Rightarrow> ('st, 'r, sandbox_handle) handler_result" where
  "create_with_id cfg now sandboxID spec s =
     (case st_save_sandbox_config (cfg_event_store cfg) (svc_store s) sandboxID spec of
        Inl err \<Rightarrow>
          (case release_sandbox_id cfg sandboxID (error_text err) (svc_registry s) of
             (r', msg) \<Rightarrow> (s\<lparr>svc_registry := r'\<rparr>, [], Inl (internal_error ''save sandbox config'' msg)))
      | Inr st1 \<Rightarrow>
          (case appendEventLocked cfg now (new_record now sandboxID spec) SANDBOX_ACCEPTED
                  (no_mutation\<lparr>mu_sandbox_state := SANDBOX_STATE_PENDING\<rparr>) st1 of
             Inl err \<Rightarrow>
               let st2 = (case st_delete_sandbox_config (cfg_event_store cfg) st1 sandboxID of
                            Inl _ \<Rightarrow> st1 | Inr st' \<Rightarrow> st')
               in (case release_sandbox_id cfg sandboxID (error_text err) (svc_registry s) of
                     (r', msg) \<Rightarrow>
                       (s\<lparr>svc_store := st2, svc_registry := r'\<rparr>, [],
                        Inl (internal_error ''append SANDBOX_ACCEPTED event'' msg)))
           | Inr (rec, st2) \<Rightarrow>
               (s\<lparr>svc_store := st2, svc_boxes := gm_set sandboxID rec (svc_boxes s)\<rparr>,
                [CompleteSandboxCreate sandboxID], Inr (cloneHandle (sr_handle rec)))))"

definition CreateSandbox ::
  "('st, 'r) service_config \<Rightarrow> host_env \<Rightarrow> time \<Rightarrow> string list \<Rightarrow> create_sandbox_request
     \<Rightarrow> ('st, 'r) service \<Rightarrow> ('st, 'r, sandbox_handle) handler_result option" where
  "CreateSandbox cfg env now uuids req s =
     (case checked_spec env req of
        Inl st \<Rightarrow> Some (s, [], Inl st)
      | Inr spec \<Rightarrow>
          (case allocateSandboxID (cfg_id_registry cfg) now uuids (cr_sandbox_id req) (svc_registry s) of
             None \<Rightarrow> None
           | Some (Inl st) \<Rightarrow> Some (s, [], Inl st)
           | Some (Inr (sandboxID, r')) \<Rightarrow>
               Some (create_with_id cfg now sandboxID spec (s\<lparr>svc_registry := r'\<rparr>))))"

section \<open>GetSandbox, ListSandboxes\<close>

definition GetSandbox :: "('st, 'r) service \<Rightarrow> string \<Rightarrow> rpc_status + sandbox_handle" where
  "GetSandbox s sandboxID =
     (case gm_get (svc_boxes s) sandboxID of
        None \<Rightarrow> Inl (sandbox_not_found sandboxID)
      | Some rec \<Rightarrow> Inr (cloneHandle (sr_handle rec)))"

text \<open>\<^verbatim>\<open>GetCreatedAt().AsTime()\<close>: an absent timestamp reads as the Unix epoch\<close>

definition created_at :: "sandbox_handle \<Rightarrow> time" where
  "created_at h = (case sh_created_at h of None \<Rightarrow> 0 | Some t \<Rightarrow> t)"

definition list_order :: "sandbox_handle \<Rightarrow> list_key" where
  "list_order h = ListKey (created_at h) (sh_sandbox_id h)"

definition ListSandboxes :: "('st, 'r) service \<Rightarrow> list_sandboxes_request \<Rightarrow> sandbox_handle list" where
  "ListSandboxes s req =
     sort_key list_order
       [cloneHandle (sr_handle rec). (_, rec) \<leftarrow> svc_boxes s,
          ls_include_deleted req \<or> rec_state rec \<noteq> SANDBOX_STATE_DELETED,
          matchesLabelSelector (sh_labels (sr_handle rec)) (ls_label_selector req)]"

section \<open>Resume, stop, delete\<close>

text \<open>Writing a changed record back: the code changes it through its pointer.\<close>

definition put_record ::
  "string \<Rightarrow> sandbox_record \<Rightarrow> 'st \<Rightarrow> ('st, 'r) service \<Rightarrow> ('st, 'r) service" where
  "put_record sandboxID rec st s =
     s\<lparr>svc_boxes := gm_set sandboxID rec (svc_boxes s), svc_store := st\<rparr>"

definition invalid_state :: "string \<Rightarrow> string \<Rightarrow> rpc_status" where
  "invalid_state sandboxID what =
     newStatusError FailedPrecondition ReasonSandboxInvalidState [(''sandbox_id'', sandboxID)]
       [Lit ''sandbox '', Lit sandboxID, Lit what]"

definition ResumeSandbox ::
  "('st, 'r) service_config \<Rightarrow> time \<Rightarrow> string \<Rightarrow> ('st, 'r) service \<Rightarrow> ('st, 'r, unit) handler_result"
  where
  "ResumeSandbox cfg now sandboxID s =
     (case requireSandboxLocked s sandboxID of
        Inl st \<Rightarrow> (s, [], Inl st)
      | Inr rec \<Rightarrow>
          if rec_state rec \<noteq> SANDBOX_STATE_STOPPED
          then (s, [], Inl (invalid_state sandboxID '' is not stopped''))
          else case appendEventLocked cfg now rec SANDBOX_ACCEPTED
                      (no_mutation\<lparr>mu_sandbox_state := SANDBOX_STATE_PENDING\<rparr>) (svc_store s) of
            Inl err \<Rightarrow> (s, [], Inl (internal_error ''append SANDBOX_ACCEPTED event'' (error_text err)))
          | Inr (rec', st') \<Rightarrow>
              (put_record sandboxID (set_state SANDBOX_STATE_PENDING rec') st' s,
               [CompleteSandboxResume sandboxID], Inr ()))"

definition StopSandbox ::
  "('st, 'r) service_config \<Rightarrow> time \<Rightarrow> string \<Rightarrow> ('st, 'r) service \<Rightarrow> ('st, 'r, unit) handler_result"
  where
  "StopSandbox cfg now sandboxID s =
     (case requireSandboxLocked s sandboxID of
        Inl st \<Rightarrow> (s, [], Inl st)
      | Inr rec \<Rightarrow>
          if rec_state rec \<noteq> SANDBOX_STATE_READY
          then (s, [], Inl (invalid_state sandboxID '' is not ready''))
          else case appendEventLocked cfg now rec SANDBOX_STOP_REQUESTED
                      (no_mutation\<lparr>mu_reason := ''stop_requested''\<rparr>) (svc_store s) of
            Inl err \<Rightarrow>
              (s, [], Inl (internal_error ''append SANDBOX_STOP_REQUESTED event'' (error_text err)))
          | Inr (rec', st') \<Rightarrow>
              (put_record sandboxID rec' st' s,
               [CompleteSandboxStop sandboxID ''stop_requested''], Inr ()))"

definition DeleteSandbox ::
  "('st, 'r) service_config \<Rightarrow> time \<Rightarrow> string \<Rightarrow> ('st, 'r) service \<Rightarrow> ('st, 'r, unit) handler_result"
  where
  "DeleteSandbox cfg now sandboxID s =
     (case requireSandboxLocked s sandboxID of
        Inl st \<Rightarrow> (s, [], Inl st)
      | Inr rec \<Rightarrow>
          if rec_state rec = SANDBOX_STATE_DELETED then
            if \<not> sr_deleted_at_recorded rec then
              (case st_mark_deleted (cfg_event_store cfg) (svc_store s) sandboxID now of
                 Inl err \<Rightarrow> (s, [], Inl (internal_error ''mark sandbox deleted'' (error_text err)))
               | Inr st' \<Rightarrow>
                   (put_record sandboxID (rec\<lparr>sr_deleted_at_recorded := True\<rparr>) st' s, [], Inr ()))
            else (s, [], Inr ())
          else case beginSandboxDeleteLocked cfg now rec ''delete_requested'' (svc_store s) of
            Inl err \<Rightarrow>
              (s, [], Inl (internal_error ''append SANDBOX_DELETE_REQUESTED event'' (error_text err)))
          | Inr (started, rec', st') \<Rightarrow>
              (put_record sandboxID rec' st' s,
               (if started then [CompleteSandboxDelete sandboxID ''delete_requested''] else []), Inr ()))"

text \<open>
  The loop of \<^verbatim>\<open>DeleteSandboxes\<close> over the records, in the order the map happens to give them: the
  state and the ids of the deletions started, or the state so far and the error.
\<close>

fun delete_matching ::
  "('st, 'r) service_config \<Rightarrow> time \<Rightarrow> (string, string) gomap \<Rightarrow> (string \<times> sandbox_record) list
     \<Rightarrow> ('st, 'r) service \<Rightarrow> string list \<Rightarrow> ('st, 'r) service \<times> (go_error + string list)" where
  "delete_matching cfg now selector [] s ids = (s, Inr ids)"
| "delete_matching cfg now selector ((sandboxID, rec) # rest) s ids =
     (if \<not> matchesLabelSelector (sh_labels (sr_handle rec)) selector
      then delete_matching cfg now selector rest s ids
      else case beginSandboxDeleteLocked cfg now rec ''delete_requested'' (svc_store s) of
        Inl err \<Rightarrow> (s, Inl err)
      | Inr (started, rec', st') \<Rightarrow>
          delete_matching cfg now selector rest (put_record sandboxID rec' st' s)
            (if started then ids @ [sandboxID] else ids))"

definition DeleteSandboxes ::
  "('st, 'r) service_config \<Rightarrow> time \<Rightarrow> (string, string) gomap \<Rightarrow> ('st, 'r) service
     \<Rightarrow> ('st, 'r, delete_sandboxes_response) handler_result" where
  "DeleteSandboxes cfg now selector s =
     (if length selector = 0
      then (s, [], Inl (plainStatus InvalidArgument [Lit ''label_selector must not be empty'']))
      else case delete_matching cfg now selector (svc_boxes s) s [] of
        (s', Inl err) \<Rightarrow>
          (s', [], Inl (internal_error ''append SANDBOX_DELETE_REQUESTED event'' (error_text err)))
      | (s', Inr ids) \<Rightarrow>
          (s', map (\<lambda>sandboxID. CompleteSandboxDelete sandboxID ''delete_requested'') (sort ids),
           Inr \<lparr>ds_deleted_sandbox_ids = sort ids, ds_deleted_count = of_nat (length ids)\<rparr>))"

section \<open>SubscribeSandboxEvents\<close>

text \<open>
  The handler sends what it has at the start and then, at every tick, what came since.  It
  keeps a cursor, the sequence of the last event sent.  \<open>subscribe_start\<close> is the part before the
  loop and \<open>subscribe_poll\<close> one tick; each returns the events it sends.  A failed send ends the
  stream, so what a client sees is a prefix of these.
\<close>

definition last_sequence :: "seqno \<Rightarrow> sandbox_event list \<Rightarrow> seqno" where
  "last_sequence cursor events = (if events = [] then cursor else ev_sequence (last events))"

definition subscribe_start ::
  "time \<Rightarrow> ('st, 'r) service \<Rightarrow> subscribe_request \<Rightarrow> sandbox_event list \<times> (rpc_status + seqno)" where
  "subscribe_start now s req =
     (case gm_get (svc_boxes s) (sub_sandbox_id req) of
        None \<Rightarrow> ([], Inl (sandbox_not_found (sub_sandbox_id req)))
      | Some rec \<Rightarrow>
          let snapshot = (if sub_include_current_snapshot req then snapshotEvents now rec else [])
          in case validateSequenceNotExpired rec (sub_from_sequence req) of
               Some st \<Rightarrow> (snapshot, Inl st)
             | None \<Rightarrow>
                 let initialEvents = eventsAfter rec (sub_from_sequence req)
                 in (snapshot @ initialEvents, Inr (last_sequence (sub_from_sequence req) initialEvents)))"

datatype poll_result = PollContinue seqno | PollFinished | PollFailed rpc_status

definition subscribe_poll ::
  "('st, 'r) service \<Rightarrow> string \<Rightarrow> seqno \<Rightarrow> sandbox_event list \<times> poll_result" where
  "subscribe_poll s sandboxID nextSequence =
     (case gm_get (svc_boxes s) sandboxID of
        None \<Rightarrow>
          ((case gm_get (svc_detached s) sandboxID of
              None \<Rightarrow> [] | Some subscribedRecord \<Rightarrow> eventsAfter subscribedRecord nextSequence),
           PollFinished)
      | Some rec \<Rightarrow>
          (case validateSequenceNotExpired rec nextSequence of
             Some st \<Rightarrow> ([], PollFailed st)
           | None \<Rightarrow>
               let pendingEvents = eventsAfter rec nextSequence
               in (pendingEvents, PollContinue (last_sequence nextSequence pendingEvents))))"

section \<open>Execs\<close>

definition prepareExecArtifactPaths ::
  "('st, 'r) service_config \<Rightarrow> host_env \<Rightarrow> string \<Rightarrow> string \<Rightarrow> go_error + exec_artifact_paths" where
  "prepareExecArtifactPaths cfg env sandboxID execID =
     (if cfg_artifact_output_root cfg = '''' \<or> cfg_artifact_output_template cfg = ''''
      then Inr \<lparr>ap_stdout_path = '''', ap_stderr_path = ''''\<rparr>
      else prepareExecOutputPaths env (cfg_artifact_output_root cfg) (cfg_artifact_output_template cfg)
             [(''sandbox_id'', sandboxID), (''exec_id'', execID)])"

definition release_exec_id ::
  "('st, 'r) service_config \<Rightarrow> string \<Rightarrow> err_msg \<Rightarrow> 'r \<Rightarrow> 'r \<times> err_msg" where
  "release_exec_id cfg execID err r =
     (case ir_release_exec_id (cfg_id_registry cfg) r execID of
        Inr r' \<Rightarrow> (r', err)
      | Inl cleanupErr \<Rightarrow> (r, join_errors err (error_text cleanupErr)))"

definition running_exec :: "string \<Rightarrow> create_exec_request \<Rightarrow> exec_status" where
  "running_exec execID req =
     \<lparr>es_exec_id = execID, es_sandbox_id = xr_sandbox_id req, es_state = EXEC_STATE_RUNNING,
      es_command = xr_command req, es_cwd = xr_cwd req,
      es_env_overrides = cloneStringMap (xr_env_overrides req), es_exit_code = 0, es_error = '''',
      es_last_event_sequence = 0\<rparr>"

definition exec_with_id ::
  "('st, 'r) service_config \<Rightarrow> host_env \<Rightarrow> time \<Rightarrow> string \<Rightarrow> create_exec_request \<Rightarrow> sandbox_record
     \<Rightarrow> ('st, 'r) service \<Rightarrow> ('st, 'r, create_exec_response) handler_result" where
  "exec_with_id cfg env now execID req rec s =
     (let sandboxID = xr_sandbox_id req;
          execConfigCopy = \<lparr>xr_sandbox_id = sandboxID, xr_command = xr_command req,
            xr_cwd = xr_cwd req, xr_env_overrides = cloneStringMap (xr_env_overrides req),
            xr_exec_id = execID\<rparr>
      in case st_save_exec_config (cfg_event_store cfg) (svc_store s) sandboxID execConfigCopy of
        Inl err \<Rightarrow>
          (case release_exec_id cfg execID (error_text err) (svc_registry s) of
             (r', msg) \<Rightarrow> (s\<lparr>svc_registry := r'\<rparr>, [], Inl (internal_error ''save exec config'' msg)))
      | Inr st1 \<Rightarrow>
          (case prepareExecArtifactPaths cfg env (sh_sandbox_id (sr_handle rec)) execID of
             Inl artifactErr \<Rightarrow>
               (s\<lparr>svc_store := st1\<rparr>, [],
                Inl (plainStatus FailedPrecondition
                  (Lit ''prepare exec artifact output: '' # error_text artifactErr)))
           | Inr artifactPaths \<Rightarrow>
               (case appendEventLocked cfg now rec EXEC_STARTED
                       (no_mutation\<lparr>mu_exec_id := execID, mu_exec_state := EXEC_STATE_RUNNING\<rparr>) st1 of
                  Inl err \<Rightarrow>
                    (case release_exec_id cfg execID (error_text err) (svc_registry s) of
                       (r', msg) \<Rightarrow>
                         (s\<lparr>svc_store := st1, svc_registry := r'\<rparr>, [],
                          Inl (internal_error ''append EXEC_STARTED event'' msg)))
                | Inr (rec', st2) \<Rightarrow>
                    (put_record sandboxID
                       (rec'\<lparr>sr_execs := gm_set execID (running_exec execID req) (sr_execs rec'),
                             sr_exec_cancel := insert execID (sr_exec_cancel rec')\<rparr>) st2
                       (s\<lparr>svc_execs := gm_set execID sandboxID (svc_execs s)\<rparr>),
                     [CompleteExec execID],
                     Inr \<lparr>xs_exec_id = execID, xs_stdout_log_path = ap_stdout_path artifactPaths,
                          xs_stderr_log_path = ap_stderr_path artifactPaths\<rparr>))))"

definition CreateExec ::
  "('st, 'r) service_config \<Rightarrow> host_env \<Rightarrow> time \<Rightarrow> string list \<Rightarrow> create_exec_request
     \<Rightarrow> ('st, 'r) service \<Rightarrow> ('st, 'r, create_exec_response) handler_result option" where
  "CreateExec cfg env now uuids req s =
     (case requireSandboxLocked s (xr_sandbox_id req) of
        Inl st \<Rightarrow> Some (s, [], Inl st)
      | Inr rec \<Rightarrow>
          if rec_state rec \<noteq> SANDBOX_STATE_READY
          then Some (s, [], Inl (newStatusError FailedPrecondition ReasonSandboxNotReady
                 [(''sandbox_id'', xr_sandbox_id req)]
                 [Lit ''sandbox '', Lit (xr_sandbox_id req), Lit '' is not ready'']))
          else if length (xr_command req) = 0
          then Some (s, [], Inl (plainStatus InvalidArgument [Lit ''command must not be empty'']))
          else case allocateExecID (cfg_id_registry cfg) now uuids (xr_exec_id req) (svc_registry s) of
            None \<Rightarrow> None
          | Some (Inl st) \<Rightarrow> Some (s, [], Inl st)
          | Some (Inr (execID, r')) \<Rightarrow>
              Some (exec_with_id cfg env now execID req rec (s\<lparr>svc_registry := r'\<rparr>)))"

definition CancelExec ::
  "('st, 'r) service_config \<Rightarrow> time \<Rightarrow> string \<Rightarrow> ('st, 'r) service \<Rightarrow> ('st, 'r, unit) handler_result"
  where
  "CancelExec cfg now execID s =
     (case requireExecLocked s execID of
        Inl st \<Rightarrow> (s, [], Inl st)
      | Inr (sandboxID, rec, execRecord) \<Rightarrow>
          if isExecTerminal (es_state execRecord)
          then (s, [], Inl (newStatusError FailedPrecondition ReasonExecAlreadyTerminal
                 [(''exec_id'', execID)] [Lit ''exec '', Lit execID, Lit '' is already terminal'']))
          else case appendEventLocked cfg now rec EXEC_CANCELLED
                 (no_mutation\<lparr>mu_exec_id := execID, mu_exec_state := EXEC_STATE_CANCELLED\<rparr>)
                 (svc_store s) of
            Inl err \<Rightarrow> (s, [], Inl (internal_error ''append EXEC_CANCELLED event'' (error_text err)))
          | Inr (rec', st') \<Rightarrow>
              let cancel = execID \<in> sr_exec_cancel rec';
                  rec'' = rec'\<lparr>sr_execs := gm_set execID (execRecord\<lparr>es_state := EXEC_STATE_CANCELLED\<rparr>)
                                 (sr_execs rec'),
                               sr_exec_cancel := sr_exec_cancel rec' - {execID},
                               sr_last_terminal_run_finished_at := Some now\<rparr>
              in ((put_record sandboxID rec'' st' s)
                    \<lparr>svc_cancelled := (if cancel then insert execID (svc_cancelled s)
                                       else svc_cancelled s)\<rparr>,
                  [], Inr ()))"

definition GetExec :: "('st, 'r) service \<Rightarrow> string \<Rightarrow> rpc_status + exec_status" where
  "GetExec s execID =
     res_bind (requireExecLocked s execID) (\<lambda>(sandboxID, rec, execRecord).
       Inr ((cloneExec execRecord)\<lparr>es_last_event_sequence := sh_last_event_sequence (sr_handle rec)\<rparr>))"

text \<open>\<open>None\<close> as the sandbox id lists the active execs of every sandbox.\<close>

definition ListActiveExecs :: "('st, 'r) service \<Rightarrow> string option \<Rightarrow> exec_status list" where
  "ListActiveExecs s sandboxID =
     sort_key es_exec_id
       [(cloneExec e)\<lparr>es_last_event_sequence := sh_last_event_sequence (sr_handle rec)\<rparr>.
          (_, rec) \<leftarrow> svc_boxes s,
          sandboxID = None \<or> sandboxID = Some (sh_sandbox_id (sr_handle rec)),
          (_, e) \<leftarrow> sr_execs rec, \<not> isExecTerminal (es_state e)]"

end
