(* ===== verification/Service_Async.thy ===== *)
theory Service_Async
  imports Service_Rpc
begin

text \<open>
  The goroutines of the daemon (\<^verbatim>\<open>internal/control/service_async.go\<close> and the companion startup
  of \<^verbatim>\<open>service_events.go\<close>).  A goroutine holds the lock twice, around one call of the runtime
  backend that runs without it, so it is two functions: the part before the call, which also says
  whether the call is made, and the part after it, which takes the call's result.  Other
  handlers and goroutines can run in between.

  The backend is Docker; what it returns is an argument.  An error it returns is the text of
  \<^verbatim>\<open>err.Error()\<close>.
\<close>

section \<open>Failing a sandbox\<close>

text \<open>
  What the goroutines do with an error of the backend: append \<^verbatim>\<open>SANDBOX_FAILED\<close> and set the
  state; when the append fails too, the error is logged and the record stays as it was.
\<close>

definition mark_failed ::
  "('st, 'r) service_config \<Rightarrow> time \<Rightarrow> string \<Rightarrow> sandbox_record \<Rightarrow> string \<Rightarrow> string
     \<Rightarrow> ('st, 'r) service \<Rightarrow> ('st, 'r) service" where
  "mark_failed cfg now sandboxID rec code msg s =
     (case appendEventLocked cfg now rec SANDBOX_FAILED
             (no_mutation\<lparr>mu_error_code := code, mu_error_message := msg,
                          mu_sandbox_state := SANDBOX_STATE_FAILED\<rparr>) (svc_store s) of
        Inl _ \<Rightarrow> s
      | Inr (rec', st') \<Rightarrow> put_record sandboxID (set_state SANDBOX_STATE_FAILED rec') st' s)"

text \<open>Appending an event with a state and, if the store took it, entering that state.\<close>

definition enter_state ::
  "('st, 'r) service_config \<Rightarrow> time \<Rightarrow> string \<Rightarrow> sandbox_record \<Rightarrow> event_type \<Rightarrow> event_mutation
     \<Rightarrow> 'st \<Rightarrow> ('st, 'r) service \<Rightarrow> (('st, 'r) service) option" where
  "enter_state cfg now sandboxID rec eventType m st s =
     (case appendEventLocked cfg now rec eventType m st of
        Inl _ \<Rightarrow> None
      | Inr (rec', st') \<Rightarrow> Some (put_record sandboxID (set_state (mu_sandbox_state m) rec') st' s))"

section \<open>Creation\<close>

definition create_prepare ::
  "('st, 'r) service_config \<Rightarrow> time \<Rightarrow> string \<Rightarrow> ('st, 'r) service \<Rightarrow> ('st, 'r) service \<times> bool" where
  "create_prepare cfg now sandboxID s =
     (case gm_get (svc_boxes s) sandboxID of
        None \<Rightarrow> (s, False)
      | Some rec \<Rightarrow>
          if rec_state rec \<noteq> SANDBOX_STATE_PENDING then (s, False)
          else case appendEventLocked cfg now rec SANDBOX_PREPARING
                 (no_mutation\<lparr>mu_phase := ''materialize'', mu_sandbox_state := SANDBOX_STATE_PENDING\<rparr>)
                 (svc_store s) of
            Inl _ \<Rightarrow> (s, False)
          | Inr (rec', st') \<Rightarrow> (put_record sandboxID rec' st' s, True))"

text \<open>The host directory of the exec logs, made before the backend runs when a root is set.\<close>

definition exec_log_host_dir :: "('st, 'r) service_config \<Rightarrow> string \<Rightarrow> string option" where
  "exec_log_host_dir cfg sandboxID =
     (if cfg_artifact_output_root cfg \<noteq> ''''
      then Some (JoinPath [cfg_artifact_output_root cfg, sandboxID]) else None)"

definition create_log_dir_failed ::
  "('st, 'r) service_config \<Rightarrow> time \<Rightarrow> string \<Rightarrow> string \<Rightarrow> ('st, 'r) service \<Rightarrow> ('st, 'r) service" where
  "create_log_dir_failed cfg now sandboxID err s =
     (case gm_get (svc_boxes s) sandboxID of
        None \<Rightarrow> s
      | Some rec \<Rightarrow>
          mark_failed cfg now sandboxID rec ''SANDBOX_CREATE_FAILED''
            (''create exec log directory: '' @ err) s)"

text \<open>
  The channel of companion statuses: nil, or the statuses that wait in it and whether it is closed
  behind them.
\<close>

type_synonym status_channel = "(companion_container_status list \<times> bool) option"

definition drainAvailableCompanionContainerStatuses ::
  "status_channel \<Rightarrow> companion_container_status list \<times> bool" where
  "drainAvailableCompanionContainerStatuses statuses =
     (case statuses of None \<Rightarrow> ([], False) | Some (waiting, closed) \<Rightarrow> (waiting, \<not> closed))"

record runtime_create_result =
  rcr_statuses :: status_channel
  rcr_runtime_state :: "sandbox_runtime_state option"

text \<open>
  The part after the backend's \<^verbatim>\<open>CreateSandbox\<close>.  The third result is the runtime state that is
  handed back to the backend for deletion, when the sandbox was purged meanwhile.
\<close>

definition create_finish ::
  "('st, 'r) service_config \<Rightarrow> time \<Rightarrow> string \<Rightarrow> string + runtime_create_result
     \<Rightarrow> ('st, 'r) service \<Rightarrow> ('st, 'r) service \<times> task list \<times> sandbox_runtime_state option" where
  "create_finish cfg now sandboxID result s =
     (case gm_get (svc_boxes s) sandboxID of
        None \<Rightarrow> (s, [], case result of Inl _ \<Rightarrow> None | Inr res \<Rightarrow> rcr_runtime_state res)
      | Some rec0 \<Rightarrow>
        (case result of
           Inl err \<Rightarrow> (mark_failed cfg now sandboxID rec0 ''SANDBOX_CREATE_FAILED'' err s, [], None)
         | Inr res \<Rightarrow>
             let rec = rec0\<lparr>sr_runtime_state := rcr_runtime_state res\<rparr> in
             case drainAvailableCompanionContainerStatuses (rcr_statuses res) of
               (statuses, isOpen) \<Rightarrow>
             (case appendCompanionContainerEventsLocked cfg now SANDBOX_STATE_PENDING statuses
                     (rec, svc_store s) of
                ((rec1, st1), Some _) \<Rightarrow> (put_record sandboxID rec1 st1 s, [], None)
              | ((rec1, st1), None) \<Rightarrow>
                (case enter_state cfg now sandboxID rec1 SANDBOX_READY
                        (no_mutation\<lparr>mu_sandbox_state := SANDBOX_STATE_READY\<rparr>) st1 s of
                   None \<Rightarrow> (put_record sandboxID rec1 st1 s, [], None)
                 | Some s' \<Rightarrow>
                     (s', if isOpen then [CompleteCompanionContainerStartup sandboxID] else [], None)))))"

text \<open>One status received by \<^verbatim>\<open>completeCompanionContainerStartup\<close>; \<open>False\<close> ends its loop.\<close>

definition companion_startup_step ::
  "('st, 'r) service_config \<Rightarrow> time \<Rightarrow> string \<Rightarrow> companion_container_status \<Rightarrow> ('st, 'r) service
     \<Rightarrow> ('st, 'r) service \<times> bool" where
  "companion_startup_step cfg now sandboxID status s =
     (case gm_get (svc_boxes s) sandboxID of
        None \<Rightarrow> (s, True)
      | Some rec \<Rightarrow>
          if rec_state rec \<noteq> SANDBOX_STATE_READY then (s, True)
          else case appendCompanionContainerEventsLocked cfg now SANDBOX_STATE_READY [status]
                      (rec, svc_store s) of
            ((rec', st'), Some _) \<Rightarrow> (put_record sandboxID rec' st' s, False)
          | ((rec', st'), None) \<Rightarrow> (put_record sandboxID rec' st' s, True))"

section \<open>Resuming\<close>

definition resume_prepare :: "string \<Rightarrow> ('st, 'r) service \<Rightarrow> bool" where
  "resume_prepare sandboxID s =
     (case gm_get (svc_boxes s) sandboxID of
        None \<Rightarrow> False
      | Some rec \<Rightarrow> rec_state rec = SANDBOX_STATE_PENDING)"

definition resume_finish ::
  "('st, 'r) service_config \<Rightarrow> time \<Rightarrow> string \<Rightarrow> string + companion_container_status list
     \<Rightarrow> ('st, 'r) service \<Rightarrow> ('st, 'r) service" where
  "resume_finish cfg now sandboxID result s =
     (case gm_get (svc_boxes s) sandboxID of
        None \<Rightarrow> s
      | Some rec \<Rightarrow>
        (case result of
           Inl err \<Rightarrow> mark_failed cfg now sandboxID rec ''SANDBOX_RESUME_FAILED'' err s
         | Inr statuses \<Rightarrow>
             (case appendCompanionContainerEventsLocked cfg now SANDBOX_STATE_PENDING statuses
                     (rec, svc_store s) of
                ((rec1, st1), Some _) \<Rightarrow> put_record sandboxID rec1 st1 s
              | ((rec1, st1), None) \<Rightarrow>
                (case enter_state cfg now sandboxID rec1 SANDBOX_READY
                        (no_mutation\<lparr>mu_sandbox_state := SANDBOX_STATE_READY\<rparr>) st1 s of
                   None \<Rightarrow> put_record sandboxID rec1 st1 s
                 | Some s' \<Rightarrow> s'))))"

section \<open>Stopping\<close>

definition stop_prepare :: "string \<Rightarrow> ('st, 'r) service \<Rightarrow> bool" where
  "stop_prepare sandboxID s =
     (case gm_get (svc_boxes s) sandboxID of
        None \<Rightarrow> False
      | Some rec \<Rightarrow> rec_state rec \<noteq> SANDBOX_STATE_DELETED)"

definition stop_finish ::
  "('st, 'r) service_config \<Rightarrow> time \<Rightarrow> string \<Rightarrow> string \<Rightarrow> string option \<Rightarrow> ('st, 'r) service
     \<Rightarrow> ('st, 'r) service" where
  "stop_finish cfg now sandboxID reason err s =
     (case gm_get (svc_boxes s) sandboxID of
        None \<Rightarrow> s
      | Some rec \<Rightarrow>
        (case err of
           Some e \<Rightarrow> mark_failed cfg now sandboxID rec ''SANDBOX_STOP_FAILED'' e s
         | None \<Rightarrow>
             (case enter_state cfg now sandboxID rec SANDBOX_STOPPED
                     (no_mutation\<lparr>mu_reason := reason, mu_sandbox_state := SANDBOX_STATE_STOPPED\<rparr>)
                     (svc_store s) s of
                None \<Rightarrow> s
              | Some s' \<Rightarrow> s')))"

section \<open>Deleting\<close>

definition delete_prepare :: "string \<Rightarrow> ('st, 'r) service \<Rightarrow> bool" where
  "delete_prepare sandboxID s \<longleftrightarrow> gm_get (svc_boxes s) sandboxID \<noteq> None"

definition delete_finish ::
  "('st, 'r) service_config \<Rightarrow> time \<Rightarrow> string \<Rightarrow> string \<Rightarrow> string option \<Rightarrow> ('st, 'r) service
     \<Rightarrow> ('st, 'r) service" where
  "delete_finish cfg now sandboxID reason err s =
     (case gm_get (svc_boxes s) sandboxID of
        None \<Rightarrow> s
      | Some rec \<Rightarrow>
        (case err of
           Some e \<Rightarrow> mark_failed cfg now sandboxID rec ''SANDBOX_DELETE_FAILED'' e s
         | None \<Rightarrow>
             (case appendEventLocked cfg now rec SANDBOX_DELETED
                     (no_mutation\<lparr>mu_reason := reason, mu_sandbox_state := SANDBOX_STATE_DELETED\<rparr>)
                     (svc_store s) of
                Inl _ \<Rightarrow> s
              | Inr (rec', st') \<Rightarrow>
                  (case st_mark_deleted (cfg_event_store cfg) st' sandboxID now of
                     Inl _ \<Rightarrow> put_record sandboxID rec' st' s
                   | Inr st'' \<Rightarrow>
                       put_record sandboxID
                         ((set_state SANDBOX_STATE_DELETED rec')\<lparr>sr_deleted_at_recorded := True\<rparr>) st'' s))))"

section \<open>Running an exec\<close>

definition exec_prepare :: "string \<Rightarrow> ('st, 'r) service \<Rightarrow> exec_status option" where
  "exec_prepare execID s =
     (case requireExecLocked s execID of
        Inl _ \<Rightarrow> None
      | Inr (_, _, execRecord) \<Rightarrow>
          if es_state execRecord \<noteq> EXEC_STATE_RUNNING then None else Some (cloneExec execRecord))"

text \<open>\<open>exitCode\<close> and \<open>runErr\<close> are the two results of \<^verbatim>\<open>RunExec\<close>.\<close>

definition exec_finish ::
  "('st, 'r) service_config \<Rightarrow> time \<Rightarrow> string \<Rightarrow> int \<Rightarrow> string option \<Rightarrow> ('st, 'r) service
     \<Rightarrow> ('st, 'r) service" where
  "exec_finish cfg now execID exitCode runErr s =
     (case requireExecLocked s execID of
        Inl _ \<Rightarrow> s
      | Inr (sandboxID, rec, execRecord) \<Rightarrow>
          if es_state execRecord \<noteq> EXEC_STATE_RUNNING then s
          else if execID \<in> svc_cancelled s then
            put_record sandboxID (rec\<lparr>sr_exec_cancel := sr_exec_cancel rec - {execID}\<rparr>) (svc_store s) s
          else
            (case runErr of
               Some execErrorMessage \<Rightarrow>
                 (case appendEventLocked cfg now rec EXEC_FAILED
                         (no_mutation\<lparr>mu_exec_id := execID, mu_exec_state := EXEC_STATE_FAILED,
                            mu_exit_code := exitCode, mu_error_code := ''EXEC_RUN_FAILED'',
                            mu_error_message := execErrorMessage\<rparr>) (svc_store s) of
                    Inl _ \<Rightarrow> s
                  | Inr (rec', st') \<Rightarrow>
                      put_record sandboxID
                        (rec'\<lparr>sr_exec_cancel := sr_exec_cancel rec' - {execID},
                              sr_execs := gm_set execID
                                (execRecord\<lparr>es_state := EXEC_STATE_FAILED, es_exit_code := exitCode,
                                            es_error := execErrorMessage\<rparr>) (sr_execs rec')\<rparr>) st' s)
             | None \<Rightarrow>
                 (case appendEventLocked cfg now rec EXEC_FINISHED
                         (no_mutation\<lparr>mu_exec_id := execID, mu_exec_state := EXEC_STATE_FINISHED,
                            mu_exit_code := exitCode\<rparr>) (svc_store s) of
                    Inl _ \<Rightarrow> s
                  | Inr (rec', st') \<Rightarrow>
                      put_record sandboxID
                        (rec'\<lparr>sr_exec_cancel := sr_exec_cancel rec' - {execID},
                              sr_execs := gm_set execID
                                (execRecord\<lparr>es_state := EXEC_STATE_FINISHED, es_exit_code := exitCode\<rparr>)
                                (sr_execs rec'),
                              sr_last_terminal_run_finished_at := Some now\<rparr>) st' s)))"

end
