(* ===== verification/Service_Cleanup.thy ===== *)
theory Service_Cleanup
  imports Service_Async
begin

text \<open>
  What the daemon does by itself: the cleanup loop of \<^verbatim>\<open>service_events.go\<close> (idle stop, deletion of
  sandboxes stopped for long, purge of deleted ones) and the crash-loop watch of
  \<^verbatim>\<open>docker_event_watcher.go\<close>.
\<close>

section \<open>Idle stop\<close>

definition effectiveIdleTTL :: "sandbox_record \<Rightarrow> duration \<Rightarrow> duration" where
  "effectiveIdleTTL rec globalTTL =
     (case cs_idle_ttl (sr_create_spec rec) of Some d \<Rightarrow> d | None \<Rightarrow> globalTTL)"

definition idle_reference :: "sandbox_record \<Rightarrow> time" where
  "idle_reference rec =
     (case sr_last_terminal_run_finished_at rec of
        Some t \<Rightarrow> t
      | None \<Rightarrow> created_at (sr_handle rec))"

text \<open>The conditions under which the scan stops a sandbox.\<close>

definition idle_expired :: "('st, 'r) service_config \<Rightarrow> time \<Rightarrow> sandbox_record \<Rightarrow> bool" where
  "idle_expired cfg now rec \<longleftrightarrow>
     rec_state rec = SANDBOX_STATE_READY \<and> \<not> hasActiveExec rec
     \<and> \<not> effectiveIdleTTL rec (cfg_idle_ttl cfg) \<le> 0
     \<and> \<not> now - idle_reference rec < effectiveIdleTTL rec (cfg_idle_ttl cfg)"

definition idle_scan_one ::
  "('st, 'r) service_config \<Rightarrow> time \<Rightarrow> string \<times> sandbox_record \<Rightarrow> ('st, 'r) service \<times> string list
     \<Rightarrow> ('st, 'r) service \<times> string list" where
  "idle_scan_one cfg now entry acc =
     (case entry of (sandboxID, rec) \<Rightarrow> case acc of (s, ids) \<Rightarrow>
        if \<not> idle_expired cfg now rec then (s, ids)
        else case appendEventLocked cfg now rec SANDBOX_STOP_REQUESTED
                    (no_mutation\<lparr>mu_reason := ''idle_ttl''\<rparr>) (svc_store s) of
          Inl _ \<Rightarrow> (s, ids)
        | Inr (rec', st') \<Rightarrow> (put_record sandboxID rec' st' s, ids @ [sandboxID]))"

definition idleScanAndStop ::
  "('st, 'r) service_config \<Rightarrow> time \<Rightarrow> ('st, 'r) service \<Rightarrow> ('st, 'r) service \<times> task list" where
  "idleScanAndStop cfg now s =
     (case fold (idle_scan_one cfg now) (svc_boxes s) (s, []) of
        (s', ids) \<Rightarrow> (s', map (\<lambda>sandboxID. CompleteSandboxStop sandboxID ''idle_ttl'') ids))"

section \<open>Sandboxes stopped for long\<close>

definition stopped_at :: "sandbox_record \<Rightarrow> time option" where
  "stopped_at rec =
     map_option ev_occurred_at (find (\<lambda>e. ev_event_type e = SANDBOX_STOPPED) (rev (sr_events rec)))"

definition stopped_expired :: "('st, 'r) service_config \<Rightarrow> time \<Rightarrow> sandbox_record \<Rightarrow> bool" where
  "stopped_expired cfg now rec \<longleftrightarrow>
     rec_state rec = SANDBOX_STATE_STOPPED
     \<and> (case stopped_at rec of None \<Rightarrow> False | Some t \<Rightarrow> \<not> now - t < cfg_cleanup_ttl cfg)"

definition cleanup_stopped_one ::
  "('st, 'r) service_config \<Rightarrow> time \<Rightarrow> string \<times> sandbox_record \<Rightarrow> ('st, 'r) service \<times> string list
     \<Rightarrow> ('st, 'r) service \<times> string list" where
  "cleanup_stopped_one cfg now entry acc =
     (case entry of (sandboxID, rec) \<Rightarrow> case acc of (s, ids) \<Rightarrow>
        if \<not> stopped_expired cfg now rec then (s, ids)
        else case beginSandboxDeleteLocked cfg now rec ''cleanup_ttl'' (svc_store s) of
          Inl _ \<Rightarrow> (s, ids)
        | Inr (started, rec', st') \<Rightarrow>
            if started then (put_record sandboxID rec' st' s, ids @ [sandboxID]) else (s, ids))"

definition cleanupStoppedSandboxes ::
  "('st, 'r) service_config \<Rightarrow> time \<Rightarrow> ('st, 'r) service \<Rightarrow> ('st, 'r) service \<times> task list" where
  "cleanupStoppedSandboxes cfg now s =
     (case fold (cleanup_stopped_one cfg now) (svc_boxes s) (s, []) of
        (s', ids) \<Rightarrow> (s', map (\<lambda>sandboxID. CompleteSandboxDelete sandboxID ''cleanup_ttl'') ids))"

section \<open>Purge\<close>

definition purge_one :: "string \<Rightarrow> ('st, 'r) service \<Rightarrow> ('st, 'r) service" where
  "purge_one sandboxID s =
     (case gm_get (svc_boxes s) sandboxID of
        None \<Rightarrow> s
      | Some rec \<Rightarrow>
          s\<lparr>svc_execs := fold gm_del (map fst (sr_execs rec)) (svc_execs s),
            svc_boxes := gm_del sandboxID (svc_boxes s),
            svc_detached := gm_set sandboxID rec (svc_detached s)\<rparr>)"

text \<open>
  \<^verbatim>\<open>cleanupExpiredEvents\<close> purges the store first, without the lock, and then forgets the purged
  sandboxes; the two parts are steps of their own.
\<close>

definition cleanup_store ::
  "('st, 'r) service_config \<Rightarrow> time \<Rightarrow> ('st, 'r) service \<Rightarrow> go_error + string list \<times> ('st, 'r) service"
  where
  "cleanup_store cfg now s =
     res_bind (st_cleanup (cfg_event_store cfg) (svc_store s) now (cfg_cleanup_ttl cfg))
       (\<lambda>(removed, st'). Inr (removed, s\<lparr>svc_store := st'\<rparr>))"

definition purge_boxes :: "string list \<Rightarrow> ('st, 'r) service \<Rightarrow> ('st, 'r) service" where
  "purge_boxes removed s = fold purge_one removed s"

definition cleanupExpiredEvents ::
  "('st, 'r) service_config \<Rightarrow> time \<Rightarrow> ('st, 'r) service \<Rightarrow> go_error + ('st, 'r) service" where
  "cleanupExpiredEvents cfg now s =
     res_bind (cleanup_store cfg now s) (\<lambda>(removed, s'). Inr (purge_boxes removed s'))"

text \<open>One tick of \<^verbatim>\<open>cleanupLoop\<close>; an error of the purge is logged and dropped.\<close>

definition cleanup_tick ::
  "('st, 'r) service_config \<Rightarrow> time \<Rightarrow> ('st, 'r) service \<Rightarrow> ('st, 'r) service \<times> task list" where
  "cleanup_tick cfg now s =
     (case idleScanAndStop cfg now s of (s1, stops) \<Rightarrow>
      case cleanupStoppedSandboxes cfg now s1 of (s2, deletes) \<Rightarrow>
      case cleanupExpiredEvents cfg now s2 of
        Inl _ \<Rightarrow> (s2, stops @ deletes)
      | Inr s3 \<Rightarrow> (s3, stops @ deletes))"

section \<open>Crash loops\<close>

abbreviation crashloopNonRunningWindow :: duration where
  "crashloopNonRunningWindow \<equiv> 5 * minute"

abbreviation crashloopRunningGuard :: duration where
  "crashloopRunningGuard \<equiv> 30 * second"

abbreviation reconcileTickInterval :: duration where
  "reconcileTickInterval \<equiv> 15 * second"

abbreviation "containerCrashloop \<equiv> ''CONTAINER_CRASHLOOP''"
abbreviation "containerOOM \<equiv> ''CONTAINER_OOM''"
abbreviation "containerNotRunning \<equiv> ''CONTAINER_NOT_RUNNING''"

record container_inspect_result =
  ins_exists :: bool
  ins_running :: bool
  ins_paused :: bool
  ins_exit_code :: int
  ins_oom_killed :: bool

record container_eval_decision =
  dec_should_fail :: bool
  dec_companion_failed :: bool
  dec_error_code :: string
  dec_error_message :: string

definition no_decision :: container_eval_decision where
  "no_decision = \<lparr>dec_should_fail = False, dec_companion_failed = False, dec_error_code = '''',
     dec_error_message = ''''\<rparr>"

definition fail_decision :: "bool \<Rightarrow> string \<Rightarrow> string \<Rightarrow> container_eval_decision" where
  "fail_decision isPrimary code msg =
     \<lparr>dec_should_fail = isPrimary, dec_companion_failed = (\<not> isPrimary), dec_error_code = code,
      dec_error_message = msg\<rparr>"

definition evaluateContainer ::
  "container_inspect_result \<Rightarrow> crashloop_state \<Rightarrow> bool \<Rightarrow> time
     \<Rightarrow> crashloop_state \<times> container_eval_decision" where
  "evaluateContainer result cs isPrimary now =
     (let who = (if isPrimary then ''primary container'' else ''companion container'') in
      if \<not> ins_exists result then
        (cs, fail_decision isPrimary containerNotRunning
               (who @ '' not running (detected during reconciliation)''))
      else if ins_paused result then
        (\<lparr>cl_not_running_since = None, cl_running_since = None\<rparr>, no_decision)
      else if ins_running result then
        (let since = (case cl_running_since cs of None \<Rightarrow> now | Some t \<Rightarrow> t) in
         if now - since \<ge> crashloopRunningGuard
         then (\<lparr>cl_not_running_since = None, cl_running_since = None\<rparr>, no_decision)
         else (cs\<lparr>cl_running_since := Some since\<rparr>, no_decision))
      else
        (let since = (case cl_not_running_since cs of None \<Rightarrow> now | Some t \<Rightarrow> t);
             cs' = \<lparr>cl_not_running_since = Some since, cl_running_since = None\<rparr> in
         if now - since \<le> crashloopNonRunningWindow then (cs', no_decision)
         else if ins_oom_killed result
         then (cs', fail_decision isPrimary containerOOM (who @ '' OOM killed''))
         else (cs', fail_decision isPrimary containerCrashloop (who @ '' exited''))))"

text \<open>\<open>inspect\<close> is the backend's \<^verbatim>\<open>InspectContainer\<close>.\<close>

type_synonym inspector = "string \<Rightarrow> string + container_inspect_result"

definition applyPrimaryFailed ::
  "('st, 'r) service_config \<Rightarrow> time \<Rightarrow> string \<Rightarrow> sandbox_record \<Rightarrow> container_eval_decision
     \<Rightarrow> ('st, 'r) service \<Rightarrow> ('st, 'r) service \<times> task list" where
  "applyPrimaryFailed cfg now sandboxID rec decision s =
     (case appendEventLocked cfg now rec SANDBOX_FAILED
             (no_mutation\<lparr>mu_error_code := dec_error_code decision,
                          mu_error_message := dec_error_message decision,
                          mu_sandbox_state := SANDBOX_STATE_FAILED\<rparr>) (svc_store s) of
        Inl _ \<Rightarrow> (put_record sandboxID rec (svc_store s) s, [])
      | Inr (rec', st') \<Rightarrow>
          (put_record sandboxID (set_state SANDBOX_STATE_FAILED rec') st' s,
           [StopAfterFailure sandboxID]))"

text \<open>Writing back the window of one companion, and the whole runtime state.\<close>

definition set_companion_window ::
  "nat \<Rightarrow> crashloop_state \<Rightarrow> sandbox_record \<Rightarrow> sandbox_record" where
  "set_companion_window i cs rec =
     (case sr_runtime_state rec of
        None \<Rightarrow> rec
      | Some rs \<Rightarrow>
          rec\<lparr>sr_runtime_state := Some (rs\<lparr>rs_companion_containers :=
             (rs_companion_containers rs)[i := (rs_companion_containers rs ! i)\<lparr>rc_crashloop := cs\<rparr>]\<rparr>)\<rparr>)"

definition set_primary_window :: "crashloop_state \<Rightarrow> sandbox_record \<Rightarrow> sandbox_record" where
  "set_primary_window cs rec =
     (case sr_runtime_state rec of
        None \<Rightarrow> rec
      | Some rs \<Rightarrow> rec\<lparr>sr_runtime_state := Some (rs\<lparr>rs_primary_crashloop := cs\<rparr>)\<rparr>)"

text \<open>
  One companion: inspect it, update its window, and report it when it failed.  An error of the
  inspection or of the append is logged.
\<close>

definition evaluate_companion ::
  "('st, 'r) service_config \<Rightarrow> inspector \<Rightarrow> time \<Rightarrow> nat \<times> runtime_companion_container
     \<Rightarrow> sandbox_record \<times> 'st \<Rightarrow> sandbox_record \<times> 'st" where
  "evaluate_companion cfg inspect now entry acc =
     (case entry of (i, cc) \<Rightarrow> case acc of (rec, st) \<Rightarrow>
      case inspect (rc_container_name cc) of
        Inl _ \<Rightarrow> (rec, st)
      | Inr result \<Rightarrow>
          (case evaluateContainer result (rc_crashloop cc) False now of
             (cs', decision) \<Rightarrow>
               let rec1 = set_companion_window i cs' rec in
               if \<not> dec_companion_failed decision then (rec1, st)
               else case appendEventLocked cfg now rec1 COMPANION_CONTAINER_FAILED
                      (no_mutation\<lparr>mu_companion_container_name := rc_name cc,
                         mu_error_code := dec_error_code decision,
                         mu_error_message := dec_error_message decision,
                         mu_sandbox_state := SANDBOX_STATE_READY\<rparr>) st of
                 Inl _ \<Rightarrow> (rec1, st)
               | Inr (rec2, st') \<Rightarrow> (rec2, st')))"

record container_event =
  ce_sandbox_id :: string
  ce_container_name :: string
  ce_action :: string
  ce_is_companion :: bool
  ce_companion_name :: string

definition handleEvent ::
  "('st, 'r) service_config \<Rightarrow> inspector \<Rightarrow> time \<Rightarrow> container_event \<Rightarrow> ('st, 'r) service
     \<Rightarrow> ('st, 'r) service \<times> task list" where
  "handleEvent cfg inspect now event s =
     (case gm_get (svc_boxes s) (ce_sandbox_id event) of
        None \<Rightarrow> (s, [])
      | Some rec \<Rightarrow>
          if rec_state rec \<noteq> SANDBOX_STATE_READY then (s, [])
          else case sr_runtime_state rec of
            None \<Rightarrow> (s, [])
          | Some rs \<Rightarrow>
              if ce_is_companion event then
                (case find (\<lambda>(_, cc). rc_name cc = ce_companion_name event)
                        (enumerate 0 (rs_companion_containers rs)) of
                   None \<Rightarrow> (s, [])
                 | Some entry \<Rightarrow>
                     (case evaluate_companion cfg inspect now entry (rec, svc_store s) of
                        (rec', st') \<Rightarrow> (put_record (ce_sandbox_id event) rec' st' s, [])))
              else
                (case inspect (rs_primary_container_name rs) of
                   Inl _ \<Rightarrow> (s, [])
                 | Inr result \<Rightarrow>
                     (case evaluateContainer result (rs_primary_crashloop rs) True now of
                        (cs', decision) \<Rightarrow>
                          let rec' = set_primary_window cs' rec in
                          if \<not> dec_should_fail decision
                          then (put_record (ce_sandbox_id event) rec' (svc_store s) s, [])
                          else applyPrimaryFailed cfg now (ce_sandbox_id event) rec' decision s)))"

definition reconcile_one ::
  "('st, 'r) service_config \<Rightarrow> inspector \<Rightarrow> time \<Rightarrow> string \<times> sandbox_record
     \<Rightarrow> ('st, 'r) service \<times> task list \<Rightarrow> ('st, 'r) service \<times> task list" where
  "reconcile_one cfg inspect now entry acc =
     (case entry of (sandboxID, rec) \<Rightarrow> case acc of (s, tasks) \<Rightarrow>
        if rec_state rec \<noteq> SANDBOX_STATE_READY then (s, tasks)
        else case sr_runtime_state rec of
          None \<Rightarrow> (s, tasks)
        | Some rs \<Rightarrow>
            (case inspect (rs_primary_container_name rs) of
               Inl _ \<Rightarrow> (s, tasks)
             | Inr result \<Rightarrow>
                 (case evaluateContainer result (rs_primary_crashloop rs) True now of
                    (cs', decision) \<Rightarrow>
                      let rec' = set_primary_window cs' rec in
                      if dec_should_fail decision then
                        (case applyPrimaryFailed cfg now sandboxID rec' decision s of
                           (s', ts) \<Rightarrow> (s', tasks @ ts))
                      else
                        (case fold (evaluate_companion cfg inspect now)
                                (enumerate 0 (rs_companion_containers rs)) (rec', svc_store s) of
                           (rec'', st'') \<Rightarrow> (put_record sandboxID rec'' st'' s, tasks)))))"

definition reconcileAll ::
  "('st, 'r) service_config \<Rightarrow> inspector \<Rightarrow> time \<Rightarrow> ('st, 'r) service
     \<Rightarrow> ('st, 'r) service \<times> task list" where
  "reconcileAll cfg inspect now s = fold (reconcile_one cfg inspect now) (svc_boxes s) (s, [])"

end
