(* ===== verification/Docker_Names.thy ===== *)
theory Docker_Names
  imports Prelude
begin

text \<open>
  The names and labels of a sandbox's Docker objects (\<^verbatim>\<open>internal/control/docker_runtime_dockerapi.go\<close>,
  \<^verbatim>\<open>internal/runtime/docker/labels.go\<close>).  They are functions of the sandbox id, which is what lets a
  restarted daemon find the containers again.
\<close>

text \<open>The replacer's pairs: slash, backslash, colon, space and dot become a hyphen.\<close>

definition sanitize_char :: "char \<Rightarrow> char" where
  "sanitize_char c =
     (if c \<in> {CHR ''/'', CHR 0x5C, CHR '':'', CHR '' '', CHR ''.''} then CHR ''-'' else c)"

definition sanitizeRuntimeName :: "string \<Rightarrow> string" where
  "sanitizeRuntimeName name = map sanitize_char name"

definition dockerNetworkName :: "string \<Rightarrow> string" where
  "dockerNetworkName sandboxID = ''agbox-net-'' @ sanitizeRuntimeName sandboxID"

definition dockerPrimaryContainerName :: "string \<Rightarrow> string" where
  "dockerPrimaryContainerName sandboxID = ''agbox-primary-'' @ sanitizeRuntimeName sandboxID"

definition dockerCompanionContainerName :: "string \<Rightarrow> string \<Rightarrow> string" where
  "dockerCompanionContainerName sandboxID name =
     ''agbox-cc-'' @ sanitizeRuntimeName sandboxID @ ''-'' @ sanitizeRuntimeName name"

definition LabelNamespace :: string where
  "LabelNamespace = ''io.github.1996fanrui.agents-sandbox''"

abbreviation "LabelSandboxID \<equiv> LabelNamespace @ ''.sandbox-id''"
abbreviation "LabelComponent \<equiv> LabelNamespace @ ''.component''"
abbreviation "LabelCompanionContainerName \<equiv> LabelNamespace @ ''.companion-container-name''"
abbreviation "LabelProfile \<equiv> LabelNamespace @ ''.profile''"
abbreviation "LabelUserPrefix \<equiv> LabelNamespace @ ''.user.''"

definition withUserLabels ::
  "(string, string) gomap \<Rightarrow> (string, string) gomap \<Rightarrow> (string, string) gomap" where
  "withUserLabels base userLabels =
     fold (\<lambda>(key, val). gm_set (LabelUserPrefix @ key) val) userLabels (gm_merge [] base)"

definition SandboxLabels ::
  "string \<Rightarrow> string \<Rightarrow> (string, string) gomap \<Rightarrow> (string, string) gomap" where
  "SandboxLabels sandboxID profile userLabels =
     withUserLabels
       [(LabelSandboxID, sandboxID), (LabelComponent, ''primary''), (LabelProfile, profile)] userLabels"

definition CompanionContainerLabels ::
  "string \<Rightarrow> string \<Rightarrow> (string, string) gomap \<Rightarrow> (string, string) gomap" where
  "CompanionContainerLabels sandboxID name userLabels =
     withUserLabels
       [(LabelSandboxID, sandboxID), (LabelComponent, ''companion''),
        (LabelCompanionContainerName, name)] userLabels"

section \<open>Facts\<close>

text \<open>An id without the replaced characters, as every accepted sandbox id, names its objects alone.\<close>

definition clean_name :: "string \<Rightarrow> bool" where
  "clean_name s \<longleftrightarrow> list_all (\<lambda>c. sanitize_char c = c) s"

lemma sanitize_clean: "clean_name s \<Longrightarrow> sanitizeRuntimeName s = s"
  by (simp add: clean_name_def sanitizeRuntimeName_def list_all_iff map_idI)

lemma primary_name_inj:
  "clean_name a \<Longrightarrow> clean_name b \<Longrightarrow>
     dockerPrimaryContainerName a = dockerPrimaryContainerName b \<longleftrightarrow> a = b"
  by (simp add: dockerPrimaryContainerName_def sanitize_clean)

text \<open>A user label never replaces a label of the daemon: its key has the user prefix.\<close>

lemma prefixed_labels_get:
  "gm_get (fold (\<lambda>(key, val). gm_set (p @ key) val) u m) k =
     (if \<exists>key. k = p @ key \<and> key \<in> gm_keys u
      then gm_get (fold (\<lambda>(key, val). gm_set (p @ key) val) u []) k
      else gm_get m k)"
proof (induction u arbitrary: m rule: rev_induct)
  case Nil
  then show ?case by simp
next
  case (snoc e u)
  obtain key v where e: "e = (key, v)" by fastforce
  have ks: "gm_keys (u @ [e]) = insert key (gm_keys u)" by (auto simp: gm_keys_def e)
  show ?case
  proof (cases "k = p @ key")
    case True
    then show ?thesis by (auto simp: e gm_keys_def)
  next
    case False
    then have "(\<exists>key. k = p @ key \<and> key \<in> gm_keys (u @ [e]))
        \<longleftrightarrow> (\<exists>key. k = p @ key \<and> key \<in> gm_keys u)"
      unfolding ks by blast
    with False snoc.IH [of m] show ?thesis by (simp only: fold_append) (auto simp: e)
  qed
qed

lemma withUserLabels_base:
  assumes "\<nexists>key. k = LabelUserPrefix @ key" and "gm_ok base"
  shows "gm_get (withUserLabels base userLabels) k = gm_get base k"
proof -
  from assms(1) have n: "\<not> (\<exists>key. k = LabelUserPrefix @ key \<and> key \<in> gm_keys userLabels)" by blast
  have "gm_get (withUserLabels base userLabels) k = gm_get (gm_merge [] base) k"
    unfolding withUserLabels_def prefixed_labels_get [of LabelUserPrefix userLabels "gm_merge [] base" k]
    by (simp only: n if_False)
  then show ?thesis by (simp only: gm_get_merge [OF assms(2)]) (simp split: option.splits)
qed

text \<open>And every user label is there, under its prefix.\<close>

lemma prefixed_user:
  "gm_ok u \<Longrightarrow> gm_get (fold (\<lambda>(key, val). gm_set (p @ key) val) u m) (p @ k)
      = (case gm_get u k of Some v \<Rightarrow> Some v | None \<Rightarrow> gm_get m (p @ k))"
proof (induction u arbitrary: m)
  case (Cons e u)
  obtain a b where e: "e = (a, b)" by fastforce
  with Cons.prems have ok: "gm_ok u" and a: "gm_get u a = None"
    by (auto simp: gm_ok_def gm_get_def map_of_eq_None_iff)
  show ?case using Cons.IH [OF ok, of "gm_set (p @ a) b m"] a
    by (auto simp: e split: option.splits)
qed simp

lemma withUserLabels_user:
  assumes "gm_ok userLabels" and "\<forall>x \<in> gm_keys base. \<nexists>key. x = LabelUserPrefix @ key"
  shows "gm_get (withUserLabels base userLabels) (LabelUserPrefix @ k) = gm_get userLabels k"
proof -
  have fresh: "gm_get (gm_merge [] base) (LabelUserPrefix @ k) = None"
    using assms(2) by (auto simp: gm_get_None gm_keys_merge)
  show ?thesis
    unfolding withUserLabels_def using prefixed_user [OF assms(1), of LabelUserPrefix] fresh
    by (simp split: option.splits)
qed

end
