(* ===== verification/Service_Restore.thy ===== *)
theory Service_Restore
  imports Service_Cleanup Docker_Names
begin

text \<open>
  The recovery of the daemon's state from the event store after a restart
  (\<^verbatim>\<open>restorePersistedSandboxes\<close> in \<^verbatim>\<open>internal/control/service_events.go\<close>).

  A loop that stops at an error keeps what it stored before, so each part returns the state as far
  as it got and the error.
\<close>

section \<open>Rebuilding one record\<close>

definition last_terminal_run :: "sandbox_event list \<Rightarrow> time option" where
  "last_terminal_run events =
     fold (\<lambda>e acc. if ev_event_type e = EXEC_FINISHED \<or> ev_event_type e = EXEC_CANCELLED
                   then (case acc of
                           None \<Rightarrow> Some (ev_occurred_at e)
                         | Some t \<Rightarrow> if ev_occurred_at e > t then Some (ev_occurred_at e) else Some t)
                   else acc) events None"

definition runtime_state_of :: "string \<Rightarrow> create_spec \<Rightarrow> sandbox_runtime_state" where
  "runtime_state_of sandboxID spec =
     \<lparr>rs_network_name = dockerNetworkName sandboxID,
      rs_primary_container_name = dockerPrimaryContainerName sandboxID,
      rs_companion_containers =
        map (\<lambda>cc. \<lparr>rc_name = cc_name cc,
                   rc_container_name = dockerCompanionContainerName sandboxID (cc_name cc),
                   rc_crashloop = fresh_crashloop\<rparr>) (cs_companion_containers spec),
      rs_primary_crashloop = fresh_crashloop\<rparr>"

definition restored_handle ::
  "string \<Rightarrow> create_spec \<Rightarrow> sandbox_event list \<Rightarrow> sandbox_handle" where
  "restored_handle sandboxID spec events =
     (let state = persistedState events;
          failed = (if state = SANDBOX_STATE_FAILED
                    then find (\<lambda>e. ev_event_type e = SANDBOX_FAILED) (rev events) else None)
      in \<lparr>sh_sandbox_id = sandboxID, sh_state = state,
          sh_last_event_sequence = ev_sequence (events ! (length events - 1)),
          sh_companion_containers = cloneCompanionContainerSpecs (cs_companion_containers spec),
          sh_labels = cloneStringMap (cs_labels spec),
          sh_created_at = (if length events > 0 then Some (ev_occurred_at (events ! 0)) else None),
          sh_image = cs_image spec,
          sh_error_code = (case failed of
             Some e \<Rightarrow> (case ev_details e of SandboxPhase _ code _ _ \<Rightarrow> code | _ \<Rightarrow> '''') | None \<Rightarrow> ''''),
          sh_error_message = (case failed of
             Some e \<Rightarrow> (case ev_details e of SandboxPhase _ _ msg _ \<Rightarrow> msg | _ \<Rightarrow> '''') | None \<Rightarrow> ''''),
          sh_state_changed_at =
            map_option ev_occurred_at (find (\<lambda>e. ev_sandbox_state e = state) (rev events))\<rparr>)"

definition restored_record ::
  "string \<Rightarrow> create_spec \<Rightarrow> sandbox_event list \<Rightarrow> seqno \<Rightarrow> bool \<Rightarrow> sandbox_record" where
  "restored_record sandboxID spec events maxSequence deletedRecorded =
     \<lparr>sr_handle = restored_handle sandboxID spec events,
      sr_create_spec = cloneCreateSpec (Some spec),
      sr_companion_containers = cloneCompanionContainerSpecs (cs_companion_containers spec),
      sr_runtime_state = (if persistedState events \<noteq> SANDBOX_STATE_DELETED
                          then Some (runtime_state_of sandboxID spec) else None),
      sr_events = events, sr_execs = [], sr_exec_cancel = {}, sr_next_sequence = maxSequence,
      sr_last_terminal_run_finished_at = last_terminal_run events,
      sr_deleted_at_recorded = deletedRecorded\<rparr>"

section \<open>Reconciliation with Docker\<close>

definition wrap_text :: "string \<Rightarrow> string \<Rightarrow> err_msg \<Rightarrow> go_error" where
  "wrap_text what sandboxID err = ErrText (Lit what # Lit sandboxID # Lit '': '' # err)"

text \<open>Appending one event during the recovery; the record and store stay on an error.\<close>

definition recover_append ::
  "('st, 'r) service_config \<Rightarrow> time \<Rightarrow> event_type \<Rightarrow> event_mutation \<Rightarrow> string
     \<Rightarrow> sandbox_record \<Rightarrow> 'st \<Rightarrow> (sandbox_record \<times> 'st) \<times> go_error option" where
  "recover_append cfg now eventType m what rec st =
     (case appendEventLocked cfg now rec eventType m st of
        Inl err \<Rightarrow> ((rec, st), Some (wrap_text what (sh_sandbox_id (sr_handle rec)) (error_text err)))
      | Inr (rec', st') \<Rightarrow> ((rec', st'), None))"

definition failed_mutation :: "string \<Rightarrow> string \<Rightarrow> event_mutation" where
  "failed_mutation code msg = no_mutation\<lparr>mu_error_code := code, mu_error_message := msg,
     mu_sandbox_state := SANDBOX_STATE_FAILED\<rparr>"

text \<open>\<open>reapply\<close> is the backend's \<^verbatim>\<open>ReapplyNetworkIsolation\<close>, \<open>None\<close> for success.\<close>

definition reconcile_restored ::
  "('st, 'r) service_config \<Rightarrow> inspector \<Rightarrow> (sandbox_record \<Rightarrow> string option) \<Rightarrow> time
     \<Rightarrow> string \<Rightarrow> sandbox_record \<Rightarrow> 'st \<Rightarrow> (sandbox_record \<times> 'st) \<times> go_error option" where
  "reconcile_restored cfg inspect reapply now sandboxID rec st =
     (case rec_state rec of
        SANDBOX_STATE_READY \<Rightarrow>
          (case inspect (dockerPrimaryContainerName sandboxID) of
             Inl err \<Rightarrow>
               ((rec, st), Some (wrap_text ''inspect primary container for sandbox '' sandboxID [Lit err]))
           | Inr result \<Rightarrow>
               if \<not> ins_exists result then
                 (case recover_append cfg now SANDBOX_FAILED
                         (failed_mutation containerNotRunning
                            ''primary container not running after daemon restart'')
                         ''append SANDBOX_FAILED for sandbox '' rec st of
                    (acc, Some err) \<Rightarrow> (acc, Some err)
                  | ((rec', st'), None) \<Rightarrow> ((set_state SANDBOX_STATE_FAILED rec', st'), None))
               else (case reapply rec of
                  Some err \<Rightarrow>
                    ((rec, st), Some (wrap_text ''reapply network isolation for sandbox '' sandboxID [Lit err]))
                | None \<Rightarrow>
                    if \<not> ins_running result
                    then ((set_primary_window
                             (case sr_runtime_state rec of
                                Some rs \<Rightarrow> (rs_primary_crashloop rs)\<lparr>cl_not_running_since := Some now\<rparr>
                              | None \<Rightarrow> fresh_crashloop) rec, st), None)
                    else ((rec, st), None)))
      | SANDBOX_STATE_STOPPED \<Rightarrow>
          (case inspect (dockerPrimaryContainerName sandboxID) of
             Inl err \<Rightarrow>
               ((rec, st), Some (wrap_text ''inspect primary container for sandbox '' sandboxID [Lit err]))
           | Inr result \<Rightarrow>
               if \<not> ins_exists result then
                 (case recover_append cfg now SANDBOX_FAILED
                         (failed_mutation containerNotRunning
                            ''primary container missing after daemon restart'')
                         ''append SANDBOX_FAILED for sandbox '' rec st of
                    (acc, Some err) \<Rightarrow> (acc, Some err)
                  | ((rec', st'), None) \<Rightarrow>
                      (((set_state SANDBOX_STATE_FAILED rec')\<lparr>sr_runtime_state := None\<rparr>, st'), None))
               else ((rec, st), None))
      | SANDBOX_STATE_PENDING \<Rightarrow>
          (case recover_append cfg now SANDBOX_FAILED
                  (failed_mutation ''INTERRUPTED_PENDING'' ''sandbox was pending when daemon restarted'')
                  ''append SANDBOX_FAILED for sandbox '' rec st of
             (acc, Some err) \<Rightarrow> (acc, Some err)
           | ((rec', st'), None) \<Rightarrow>
               (((set_state SANDBOX_STATE_FAILED rec')\<lparr>sr_runtime_state := None\<rparr>, st'), None))
      | SANDBOX_STATE_DELETING \<Rightarrow>
          (case recover_append cfg now SANDBOX_DELETED
                  (no_mutation\<lparr>mu_reason := ''daemon_restart_cleanup'',
                               mu_sandbox_state := SANDBOX_STATE_DELETED\<rparr>)
                  ''append SANDBOX_DELETED for sandbox '' rec st of
             (acc, Some err) \<Rightarrow> (acc, Some err)
           | ((rec', st'), None) \<Rightarrow>
               (case st_mark_deleted (cfg_event_store cfg) st' sandboxID now of
                  Inl err \<Rightarrow>
                    ((rec', st'), Some (wrap_text ''mark deleted for sandbox '' sandboxID (error_text err)))
                | Inr st'' \<Rightarrow>
                    (((set_state SANDBOX_STATE_DELETED rec')
                        \<lparr>sr_deleted_at_recorded := True, sr_runtime_state := None\<rparr>, st''), None)))
      | SANDBOX_STATE_DELETED \<Rightarrow> ((rec\<lparr>sr_runtime_state := None\<rparr>, st), None)
      | _ \<Rightarrow> ((rec, st), None))"

section \<open>Execs\<close>

text \<open>
  One saved exec: its state from the events loaded; one that was running, or whose start was never
  recorded, failed with the daemon.
\<close>

definition restore_exec ::
  "('st, 'r) service_config \<Rightarrow> time \<Rightarrow> string \<Rightarrow> sandbox_event list \<Rightarrow> create_exec_request
     \<Rightarrow> (sandbox_record \<times> 'st) \<times> (string, string) gomap
     \<Rightarrow> ((sandbox_record \<times> 'st) \<times> (string, string) gomap) \<times> go_error option" where
  "restore_exec cfg now sandboxID events execCfg acc =
     (case acc of ((rec, st), index) \<Rightarrow>
      let execID = xr_exec_id execCfg in
      case resolveExecStateFromEvents events execID of (execState, exitCode, _, errorMsg) \<Rightarrow>
      let mk = (\<lambda>state msg. \<lparr>es_exec_id = execID, es_sandbox_id = sandboxID, es_state = state,
            es_command = xr_command execCfg, es_cwd = xr_cwd execCfg,
            es_env_overrides = xr_env_overrides execCfg, es_exit_code = exitCode, es_error = msg,
            es_last_event_sequence = 0\<rparr>)
      in
      if execState = EXEC_STATE_RUNNING \<or> execState = EXEC_STATE_UNSPECIFIED then
        (case appendEventLocked cfg now rec EXEC_FAILED
                (no_mutation\<lparr>mu_exec_id := execID, mu_error_code := ''DAEMON_RESTARTED'',
                   mu_error_message := ''exec was running when daemon restarted'',
                   mu_exec_state := EXEC_STATE_FAILED\<rparr>) st of
           Inl err \<Rightarrow> (acc, Some (wrap_text ''append EXEC_FAILED for exec '' execID (error_text err)))
         | Inr (rec', st') \<Rightarrow>
             (((rec'\<lparr>sr_execs := gm_set execID
                   (mk EXEC_STATE_FAILED ''exec was running when daemon restarted'') (sr_execs rec')\<rparr>, st'),
               gm_set execID sandboxID index), None))
      else
        (((rec\<lparr>sr_execs := gm_set execID (mk execState errorMsg) (sr_execs rec)\<rparr>, st),
          gm_set execID sandboxID index), None))"

fun restore_execs ::
  "('st, 'r) service_config \<Rightarrow> time \<Rightarrow> string \<Rightarrow> sandbox_event list \<Rightarrow> create_exec_request list
     \<Rightarrow> (sandbox_record \<times> 'st) \<times> (string, string) gomap
     \<Rightarrow> ((sandbox_record \<times> 'st) \<times> (string, string) gomap) \<times> go_error option" where
  "restore_execs cfg now sandboxID events [] acc = (acc, None)"
| "restore_execs cfg now sandboxID events (c # cs) acc =
     (case restore_exec cfg now sandboxID events c acc of
        (acc', Some err) \<Rightarrow> (acc', Some err)
      | (acc', None) \<Rightarrow> restore_execs cfg now sandboxID events cs acc')"

section \<open>All sandboxes\<close>

definition restore_one ::
  "('st, 'r) service_config \<Rightarrow> inspector \<Rightarrow> (sandbox_record \<Rightarrow> string option) \<Rightarrow> time
     \<Rightarrow> string \<Rightarrow> create_spec \<Rightarrow> ('st, 'r) service \<Rightarrow> ('st, 'r) service \<times> go_error option" where
  "restore_one cfg inspect reapply now sandboxID spec s =
     (let ops = cfg_event_store cfg; st = svc_store s in
      case st_load_events ops st sandboxID of
        Inl err \<Rightarrow> (s, Some (wrap_text ''load events for sandbox '' sandboxID (error_text err)))
      | Inr events \<Rightarrow>
        if length events = 0 then (s, None)
        else case st_max_sequence ops st sandboxID of
          Inl err \<Rightarrow> (s, Some (wrap_text ''load max sequence for sandbox '' sandboxID (error_text err)))
        | Inr maxSequence \<Rightarrow>
          (case st_deleted_at ops st sandboxID of
             Inl err \<Rightarrow>
               (s, Some (wrap_text ''load deleted metadata for sandbox '' sandboxID (error_text err)))
           | Inr deletedAt \<Rightarrow>
             if persistedState events = SANDBOX_STATE_UNSPECIFIED then (s, None)
             else
               let rec = restored_record sandboxID spec events maxSequence (deletedAt \<noteq> None) in
               (case reconcile_restored cfg inspect reapply now sandboxID rec st of
                  ((rec1, st1), Some err) \<Rightarrow> (s\<lparr>svc_store := st1\<rparr>, Some err)
                | ((rec1, st1), None) \<Rightarrow>
                  (case st_load_exec_configs ops st1 sandboxID of
                     Inl err \<Rightarrow>
                       (s\<lparr>svc_store := st1\<rparr>,
                        Some (wrap_text ''load exec configs for sandbox '' sandboxID (error_text err)))
                   | Inr execConfigs \<Rightarrow>
                     (case restore_execs cfg now sandboxID events execConfigs ((rec1, st1), svc_execs s) of
                        (((rec2, st2), index), Some err) \<Rightarrow>
                          (s\<lparr>svc_store := st2, svc_execs := index\<rparr>, Some err)
                      | (((rec2, st2), index), None) \<Rightarrow>
                          (put_record sandboxID rec2 st2 (s\<lparr>svc_execs := index\<rparr>), None))))))"

fun restore_all ::
  "('st, 'r) service_config \<Rightarrow> inspector \<Rightarrow> (sandbox_record \<Rightarrow> string option) \<Rightarrow> time
     \<Rightarrow> (string, create_spec) gomap \<Rightarrow> ('st, 'r) service \<Rightarrow> ('st, 'r) service \<times> go_error option" where
  "restore_all cfg inspect reapply now [] s = (s, None)"
| "restore_all cfg inspect reapply now ((sandboxID, spec) # configs) s =
     (case restore_one cfg inspect reapply now sandboxID spec s of
        (s', Some err) \<Rightarrow> (s', Some err)
      | (s', None) \<Rightarrow> restore_all cfg inspect reapply now configs s')"

definition restorePersistedSandboxes ::
  "('st, 'r) service_config \<Rightarrow> inspector \<Rightarrow> (sandbox_record \<Rightarrow> string option) \<Rightarrow> time
     \<Rightarrow> ('st, 'r) service \<Rightarrow> ('st, 'r) service \<times> go_error option" where
  "restorePersistedSandboxes cfg inspect reapply now s =
     (case st_load_all_sandbox_configs (cfg_event_store cfg) (svc_store s) of
        Inl err \<Rightarrow> (s, Some (ErrText (Lit ''load all sandbox configs: '' # error_text err)))
      | Inr configs \<Rightarrow> restore_all cfg inspect reapply now configs s)"

end
