(* ===== verification/Record_Log.thy ===== *)
theory Record_Log
  imports Service_Restore
begin

text \<open>
  What all handlers have in common: a handler takes a record out of the map, appends events to
  it, and puts it back.  \<open>extends\<close> says what such a passage does to the record and to the store,
  and \<open>upd\<close> is a sequence of them; each handler is shown once to be an \<open>upd\<close>, and the
  invariants are shown once to survive one.
\<close>

section \<open>The log of a record\<close>

text \<open>
  The sequence numbers of a log are \<open>1, 2, ...\<close> in the order of the events; the record's counter
  and the handle's \<^verbatim>\<open>last_event_sequence\<close> are the number of the last.
\<close>

definition numbered :: "sandbox_event list \<Rightarrow> bool" where
  "numbered es \<longleftrightarrow> map ev_sequence es = map (\<lambda>i. of_nat (Suc i)) [0..<length es]"

definition log_ok :: "sandbox_record \<Rightarrow> bool" where
  "log_ok rec \<longleftrightarrow>
     numbered (sr_events rec) \<and> sr_next_sequence rec = of_nat (length (sr_events rec))
     \<and> sh_last_event_sequence (sr_handle rec) = sr_next_sequence rec
     \<and> (\<forall>e \<in> set (sr_events rec). ev_sandbox_id e = sh_sandbox_id (sr_handle rec)
          \<and> ev_event_id e = sh_sandbox_id (sr_handle rec) @ ''-'' @ show_seqno (ev_sequence e)
          \<and> \<not> ev_replay e \<and> \<not> ev_snapshot e)"

lemma numbered_Nil [simp]: "numbered []"
  by (simp add: numbered_def)

lemma numbered_snoc:
  "numbered (es @ [e]) \<longleftrightarrow> numbered es \<and> ev_sequence e = of_nat (Suc (length es))"
  by (simp add: numbered_def)

lemma numbered_nth: "numbered es \<Longrightarrow> i < length es \<Longrightarrow> ev_sequence (es ! i) = of_nat (Suc i)"
  by (drule numbered_def [THEN iffD1], drule arg_cong [of _ _ "\<lambda>l. l ! i"]) simp

text \<open>
  The execs of a record are what its log says of them: resolving an exec from the events, as a
  restart does, gives its state, exit code and error.
\<close>

fun exec_entry_ok :: "sandbox_event list \<Rightarrow> string \<Rightarrow> string \<Rightarrow> exec_status option \<Rightarrow> bool" where
  "exec_entry_ok events sandboxID k None \<longleftrightarrow>
     resolveExecStateFromEvents events k = (EXEC_STATE_UNSPECIFIED, 0, '''', '''')"
| "exec_entry_ok events sandboxID k (Some e) \<longleftrightarrow>
     k \<noteq> '''' \<and> es_exec_id e = k \<and> es_sandbox_id e = sandboxID
     \<and> (\<exists>code. resolveExecStateFromEvents events k = (es_state e, es_exit_code e, code, es_error e))"

definition exec_ok :: "sandbox_record \<Rightarrow> bool" where
  "exec_ok rec \<longleftrightarrow> gm_ok (sr_execs rec) \<and>
     (\<forall>k. exec_entry_ok (sr_events rec) (sh_sandbox_id (sr_handle rec)) k (gm_get (sr_execs rec) k))"

text \<open>The handle repeats what the specification says.\<close>

definition static_ok :: "sandbox_record \<Rightarrow> bool" where
  "static_ok rec \<longleftrightarrow>
     sh_labels (sr_handle rec) = cs_labels (sr_create_spec rec)
     \<and> sh_image (sr_handle rec) = cs_image (sr_create_spec rec)
     \<and> sh_companion_containers (sr_handle rec) = cs_companion_containers (sr_create_spec rec)
     \<and> sr_companion_containers rec = cs_companion_containers (sr_create_spec rec)"

definition rec_ok :: "sandbox_record \<Rightarrow> bool" where
  "rec_ok rec \<longleftrightarrow> log_ok rec \<and> exec_ok rec \<and> static_ok rec"

text \<open>The state of the handle is the last state the log records.\<close>

definition synced :: "sandbox_record \<Rightarrow> bool" where
  "synced rec \<longleftrightarrow> persistedState (sr_events rec) = rec_state rec"

lemma resolve_snoc:
  "resolveExecStateFromEvents (es @ [e]) k = resolve_exec_step k e (resolveExecStateFromEvents es k)"
  by (simp add: resolveExecStateFromEvents_def)

lemma persistedState_snoc:
  "persistedState (es @ [e]) =
     (if ev_sandbox_state e = SANDBOX_STATE_UNSPECIFIED then persistedState es else ev_sandbox_state e)"
  by (simp add: persistedState_def)

text \<open>Below \<open>2 ^ 64\<close> events the numbers do not wrap, so the log is ordered.\<close>

lemma of_nat_less_seqno:
  "i < j \<Longrightarrow> j < 2 ^ 64 \<Longrightarrow> (of_nat i :: seqno) < of_nat j"
  by (simp add: word_of_nat_less_iff take_bit_nat_eq_self)

lemma numbered_ordered:
  assumes "numbered es" and "length es < 2 ^ 64"
  shows "log_ordered es"
  unfolding log_ordered_def
proof (rule sorted_wrt_nth_step)
  fix i
  assume "Suc i < length (map ev_sequence es)"
  then have i: "Suc i < length es" by simp
  with assms show "map ev_sequence es ! i < map ev_sequence es ! Suc i"
    using of_nat_less_seqno [of "Suc i" "Suc (Suc i)"] by (simp add: numbered_nth)
qed

section \<open>Effects on the store\<close>

text \<open>Appending the events \<open>es\<close> to one sandbox, with deletion marks in between.\<close>

inductive store_runs ::
  "'st event_store_ops \<Rightarrow> string \<Rightarrow> 'st \<Rightarrow> sandbox_event list \<Rightarrow> 'st \<Rightarrow> bool"
  for ops k st where
  nil: "store_runs ops k st [] st"
| append: "store_runs ops k st es st1 \<Longrightarrow> st_append ops st1 k e = Inr st2
             \<Longrightarrow> store_runs ops k st (es @ [e]) st2"
| mark: "store_runs ops k st es st1 \<Longrightarrow> int64_time t \<Longrightarrow> st_mark_deleted ops st1 k t = Inr st2
             \<Longrightarrow> store_runs ops k st es st2"

lemma store_runs_trans:
  "store_runs ops k st1 es' st2 \<Longrightarrow> store_runs ops k st es st1 \<Longrightarrow> store_runs ops k st (es @ es') st2"
  by (induction rule: store_runs.induct)
    (auto intro: store_runs.intros simp flip: append_assoc)

text \<open>A store that takes every event and every mark, as the memory store does.\<close>

definition infallible :: "'st event_store_ops \<Rightarrow> bool" where
  "infallible ops \<longleftrightarrow>
     (\<forall>st k e. \<not> isl (st_append ops st k e)) \<and> (\<forall>st k t. \<not> isl (st_mark_deleted ops st k t))"

section \<open>What a handler does to a record\<close>

text \<open>
  \<open>extends cfg rec st rec' st'\<close>: the record got some events more, numbered on, the store the same
  events, and everything of the record that is fixed at creation stayed.
\<close>

definition same_identity :: "sandbox_record \<Rightarrow> sandbox_record \<Rightarrow> bool" where
  "same_identity rec rec' \<longleftrightarrow>
     sh_sandbox_id (sr_handle rec') = sh_sandbox_id (sr_handle rec)
     \<and> sh_labels (sr_handle rec') = sh_labels (sr_handle rec)
     \<and> sh_created_at (sr_handle rec') = sh_created_at (sr_handle rec)
     \<and> sh_image (sr_handle rec') = sh_image (sr_handle rec)
     \<and> sh_companion_containers (sr_handle rec') = sh_companion_containers (sr_handle rec)
     \<and> sr_create_spec rec' = sr_create_spec rec
     \<and> sr_companion_containers rec' = sr_companion_containers rec"

definition extends ::
  "('st, 'r) service_config \<Rightarrow> sandbox_record \<Rightarrow> 'st \<Rightarrow> sandbox_record \<Rightarrow> 'st \<Rightarrow> bool" where
  "extends cfg rec st rec' st' \<longleftrightarrow>
     (\<exists>es. sr_events rec' = sr_events rec @ es
        \<and> store_runs (cfg_event_store cfg) (sh_sandbox_id (sr_handle rec)) st es st')
     \<and> (rec_ok rec \<longrightarrow> rec_ok rec') \<and> same_identity rec rec'"

lemma same_identity_refl [simp, intro]: "same_identity rec rec"
  by (simp add: same_identity_def)

lemma same_identity_trans [trans]: "same_identity a b \<Longrightarrow> same_identity b c \<Longrightarrow> same_identity a c"
  by (simp add: same_identity_def)

lemma extends_refl [simp, intro]: "extends cfg rec st rec st"
  by (auto simp: extends_def intro: store_runs.nil)

lemma extends_trans [trans]:
  assumes "extends cfg a st b st1" and "extends cfg b st1 c st2"
  shows "extends cfg a st c st2"
proof -
  from assms(1) obtain es where es: "sr_events b = sr_events a @ es"
      "store_runs (cfg_event_store cfg) (sh_sandbox_id (sr_handle a)) st es st1"
    and ab: "rec_ok a \<longrightarrow> rec_ok b" "same_identity a b"
    unfolding extends_def by blast
  from assms(2) obtain es' where es': "sr_events c = sr_events b @ es'"
      "store_runs (cfg_event_store cfg) (sh_sandbox_id (sr_handle b)) st1 es' st2"
    and bc: "rec_ok b \<longrightarrow> rec_ok c" "same_identity b c"
    unfolding extends_def by blast
  from ab(2) have "sh_sandbox_id (sr_handle b) = sh_sandbox_id (sr_handle a)"
    by (simp add: same_identity_def)
  with es' have r: "store_runs (cfg_event_store cfg) (sh_sandbox_id (sr_handle a)) st1 es' st2"
    by simp
  have "sr_events c = sr_events a @ (es @ es')" using es(1) es'(1) by simp
  with store_runs_trans [OF r es(2)] ab bc same_identity_trans [OF ab(2) bc(2)] show ?thesis
    unfolding extends_def by blast
qed

text \<open>Changing a field the invariants do not look at keeps \<open>extends\<close>.\<close>

definition same_log_fields :: "sandbox_record \<Rightarrow> sandbox_record \<Rightarrow> bool" where
  "same_log_fields rec rec' \<longleftrightarrow>
     sr_events rec' = sr_events rec \<and> sr_next_sequence rec' = sr_next_sequence rec
     \<and> sh_last_event_sequence (sr_handle rec') = sh_last_event_sequence (sr_handle rec)"

lemma rec_ok_frame:
  "same_log_fields rec rec' \<Longrightarrow> same_identity rec rec' \<Longrightarrow> sr_execs rec' = sr_execs rec \<Longrightarrow>
     rec_ok rec \<Longrightarrow> rec_ok rec'"
  unfolding rec_ok_def log_ok_def exec_ok_def static_ok_def same_identity_def same_log_fields_def
  by simp

lemma extends_frame:
  assumes "extends cfg rec st rec' st'" and "same_log_fields rec' rec''"
    and "same_identity rec' rec''" and "sr_execs rec'' = sr_execs rec'"
  shows "extends cfg rec st rec'' st'"
proof -
  have "rec_ok rec' \<longrightarrow> rec_ok rec''" using rec_ok_frame [OF assms(2-4)] by blast
  moreover have "same_identity rec rec''"
    using assms(1,3) same_identity_trans unfolding extends_def by blast
  moreover have "sr_events rec'' = sr_events rec'" using assms(2) by (simp add: same_log_fields_def)
  ultimately show ?thesis using assms(1) unfolding extends_def by simp
qed

subsection \<open>Appending one event\<close>

lemma handle_update_simps [simp]:
  "sh_sandbox_id (touch_state_changed_at e m h) = sh_sandbox_id h"
  "sh_sandbox_id (set_error_on_failed m h) = sh_sandbox_id h"
  "sh_sandbox_id (clear_error_on_leave m h) = sh_sandbox_id h"
  "sh_labels (touch_state_changed_at e m h) = sh_labels h"
  "sh_labels (set_error_on_failed m h) = sh_labels h"
  "sh_labels (clear_error_on_leave m h) = sh_labels h"
  "sh_created_at (touch_state_changed_at e m h) = sh_created_at h"
  "sh_created_at (set_error_on_failed m h) = sh_created_at h"
  "sh_created_at (clear_error_on_leave m h) = sh_created_at h"
  "sh_image (touch_state_changed_at e m h) = sh_image h"
  "sh_image (set_error_on_failed m h) = sh_image h"
  "sh_image (clear_error_on_leave m h) = sh_image h"
  "sh_companion_containers (touch_state_changed_at e m h) = sh_companion_containers h"
  "sh_companion_containers (set_error_on_failed m h) = sh_companion_containers h"
  "sh_companion_containers (clear_error_on_leave m h) = sh_companion_containers h"
  "sh_state (touch_state_changed_at e m h) = sh_state h"
  "sh_state (set_error_on_failed m h) = sh_state h"
  "sh_state (clear_error_on_leave m h) = sh_state h"
  "sh_last_event_sequence (touch_state_changed_at e m h) = sh_last_event_sequence h"
  "sh_last_event_sequence (set_error_on_failed m h) = sh_last_event_sequence h"
  "sh_last_event_sequence (clear_error_on_leave m h) = sh_last_event_sequence h"
  by (simp_all add: touch_state_changed_at_def set_error_on_failed_def clear_error_on_leave_def)

lemma update_handle_simps [simp]:
  "sh_sandbox_id (update_handle e m h) = sh_sandbox_id h"
  "sh_labels (update_handle e m h) = sh_labels h"
  "sh_created_at (update_handle e m h) = sh_created_at h"
  "sh_image (update_handle e m h) = sh_image h"
  "sh_companion_containers (update_handle e m h) = sh_companion_containers h"
  "sh_state (update_handle e m h) = sh_state h"
  "sh_last_event_sequence (update_handle e m h) = ev_sequence e"
  by (simp_all add: update_handle_def)

lemma new_event_simps [simp]:
  "ev_sequence (new_event now rec t m) = sr_next_sequence rec + 1"
  "ev_sandbox_id (new_event now rec t m) = sh_sandbox_id (sr_handle rec)"
  "ev_event_id (new_event now rec t m) =
     sh_sandbox_id (sr_handle rec) @ ''-'' @ show_seqno (sr_next_sequence rec + 1)"
  "ev_event_type (new_event now rec t m) = t"
  "ev_occurred_at (new_event now rec t m) = now"
  "ev_sandbox_state (new_event now rec t m) = mu_sandbox_state m"
  "ev_details (new_event now rec t m) = event_details_of m"
  "\<not> ev_replay (new_event now rec t m)" "\<not> ev_snapshot (new_event now rec t m)"
  by (simp_all add: new_event_def Let_def)

definition appended :: "time \<Rightarrow> event_type \<Rightarrow> event_mutation \<Rightarrow> sandbox_record \<Rightarrow> sandbox_record" where
  "appended now t m rec =
     rec\<lparr>sr_next_sequence := sr_next_sequence rec + 1,
         sr_events := sr_events rec @ [new_event now rec t m],
         sr_handle := update_handle (new_event now rec t m) m (sr_handle rec)\<rparr>"

lemma appendEventLocked_Inr:
  "appendEventLocked cfg now rec t m st = Inr (rec', st') \<longleftrightarrow>
     st_append (cfg_event_store cfg) st (sh_sandbox_id (sr_handle rec)) (new_event now rec t m) = Inr st'
     \<and> rec' = appended now t m rec"
  by (auto simp: appendEventLocked_def appended_def Let_def split: sum.splits)

lemma appendEventLocked_Inl:
  "appendEventLocked cfg now rec t m st = Inl err \<longleftrightarrow>
     st_append (cfg_event_store cfg) st (sh_sandbox_id (sr_handle rec)) (new_event now rec t m) = Inl err"
  by (auto simp: appendEventLocked_def Let_def split: sum.splits)

lemma appended_simps [simp]:
  "sr_events (appended now t m rec) = sr_events rec @ [new_event now rec t m]"
  "sr_next_sequence (appended now t m rec) = sr_next_sequence rec + 1"
  "sr_handle (appended now t m rec) = update_handle (new_event now rec t m) m (sr_handle rec)"
  "sr_create_spec (appended now t m rec) = sr_create_spec rec"
  "sr_companion_containers (appended now t m rec) = sr_companion_containers rec"
  "sr_runtime_state (appended now t m rec) = sr_runtime_state rec"
  "sr_execs (appended now t m rec) = sr_execs rec"
  "sr_exec_cancel (appended now t m rec) = sr_exec_cancel rec"
  "sr_last_terminal_run_finished_at (appended now t m rec) = sr_last_terminal_run_finished_at rec"
  "sr_deleted_at_recorded (appended now t m rec) = sr_deleted_at_recorded rec"
  by (simp_all add: appended_def)

lemma log_ok_appended: "log_ok rec \<Longrightarrow> log_ok (appended now t m rec)"
  by (auto simp: log_ok_def numbered_snoc)

lemma appended_identity [simp]: "same_identity rec (appended now t m rec)"
  by (simp add: same_identity_def)

lemma event_details_no_exec: "mu_exec_id m = '''' \<Longrightarrow> event_details_of m \<noteq> ExecDetails k c st ec em"
  by (simp add: event_details_of_def)

lemma resolve_other:
  "mu_exec_id m = '''' \<Longrightarrow> resolve_exec_step k (new_event now rec t m) acc = acc"
  using event_details_no_exec [of m]
  by (simp add: resolve_exec_step_def split: prod.splits event_details.splits)

lemma exec_entry_ok_other:
  "mu_exec_id m = '''' \<Longrightarrow>
     exec_entry_ok (events @ [new_event now rec t m]) sid k eo = exec_entry_ok events sid k eo"
  by (cases eo) (simp_all add: resolve_snoc resolve_other)

lemma rec_ok_appended:
  "mu_exec_id m = '''' \<Longrightarrow> rec_ok rec \<Longrightarrow> rec_ok (appended now t m rec)"
  unfolding rec_ok_def
  by (simp add: log_ok_appended exec_ok_def static_ok_def exec_entry_ok_other)

lemma extends_append:
  assumes "appendEventLocked cfg now rec t m st = Inr (rec', st')" and "mu_exec_id m = ''''"
  shows "extends cfg rec st rec' st'"
proof -
  from assms(1) have a: "rec' = appended now t m rec"
      "st_append (cfg_event_store cfg) st (sh_sandbox_id (sr_handle rec)) (new_event now rec t m) = Inr st'"
    by (simp_all add: appendEventLocked_Inr)
  from store_runs.append [OF store_runs.nil a(2)] rec_ok_appended [OF assms(2)]
  show ?thesis unfolding extends_def a(1) by auto
qed

lemma set_state_simps [simp]:
  "sr_events (set_state x rec) = sr_events rec"
  "sr_next_sequence (set_state x rec) = sr_next_sequence rec"
  "rec_state (set_state x rec) = x"
  "sr_runtime_state (set_state x rec) = sr_runtime_state rec"
  "sr_deleted_at_recorded (set_state x rec) = sr_deleted_at_recorded rec"
  "sr_execs (set_state x rec) = sr_execs rec"
  "same_identity rec (set_state x rec)" "same_log_fields rec (set_state x rec)"
  by (simp_all add: set_state_def same_identity_def same_log_fields_def)

lemma extends_set_state [intro]:
  "extends cfg rec st rec' st' \<Longrightarrow> extends cfg rec st (set_state x rec') st'"
  by (erule extends_frame) simp_all

lemma extends_mark_deleted:
  assumes "st_mark_deleted (cfg_event_store cfg) st (sh_sandbox_id (sr_handle rec)) t = Inr st'"
    and "int64_time t"
  shows "extends cfg rec st rec st'"
  using store_runs.mark [OF store_runs.nil assms(2,1)] by (fastforce simp: extends_def)

end
