(* ===== verification/Service_Upd.thy ===== *)
theory Service_Upd
  imports Record_Log
begin

text \<open>
  Every handler and goroutine that touches existing records is a sequence of passages: take a
  record out of the map, append events to it, put it back.  One lemma per operation.
\<close>

section \<open>Passages\<close>

definition exec_stable :: "sandbox_record \<Rightarrow> sandbox_record \<Rightarrow> bool" where
  "exec_stable rec rec' \<longleftrightarrow>
     gm_keys (sr_execs rec') = gm_keys (sr_execs rec)
     \<and> (\<forall>k e. gm_get (sr_execs rec) k = Some e \<longrightarrow>
           gm_get (sr_execs rec') k = Some e
           \<or> (\<not> isExecTerminal (es_state e)
              \<and> (\<exists>e'. gm_get (sr_execs rec') k = Some e' \<and> isExecTerminal (es_state e'))))"

definition passage ::
  "('st, 'r) service_config \<Rightarrow> sandbox_record \<Rightarrow> 'st \<Rightarrow> sandbox_record \<Rightarrow> 'st \<Rightarrow> bool" where
  "passage cfg rec st rec' st' \<longleftrightarrow>
     extends cfg rec st rec' st' \<and> exec_stable rec rec'
     \<and> (infallible (cfg_event_store cfg) \<longrightarrow> synced rec \<longrightarrow> synced rec')"

inductive upd :: "('st, 'r) service_config \<Rightarrow> ('st, 'r) service \<Rightarrow> ('st, 'r) service \<Rightarrow> bool"
  for cfg s where
  none [simp, intro]: "upd cfg s s"
| put: "upd cfg s s1 \<Longrightarrow> gm_get (svc_boxes s1) sid = Some rec \<Longrightarrow>
          passage cfg rec (svc_store s1) rec' st' \<Longrightarrow> upd cfg s (put_record sid rec' st' s1)"

lemma upd_put:
  "gm_get (svc_boxes s) sid = Some rec \<Longrightarrow> passage cfg rec (svc_store s) rec' st' \<Longrightarrow>
     upd cfg s (put_record sid rec' st' s)"
  by (rule upd.put [OF upd.none])

lemma upd_trans [trans]: "upd cfg s1 s2 \<Longrightarrow> upd cfg s s1 \<Longrightarrow> upd cfg s s2"
  by (induction rule: upd.induct) (auto intro: upd.put)

lemma exec_stable_refl [simp, intro]: "sr_execs rec' = sr_execs rec \<Longrightarrow> exec_stable rec rec'"
  by (simp add: exec_stable_def)

lemma exec_stable_trans: "exec_stable a b \<Longrightarrow> exec_stable b c \<Longrightarrow> exec_stable a c"
  unfolding exec_stable_def by metis

lemma passage_refl [simp, intro]: "passage cfg rec st rec st"
  by (simp add: passage_def)

lemma synced_appended [simp]:
  "synced (appended now t m rec) \<longleftrightarrow>
     (if mu_sandbox_state m = SANDBOX_STATE_UNSPECIFIED then synced rec
      else mu_sandbox_state m = rec_state rec)"
  by (simp add: synced_def persistedState_snoc)

lemma synced_set_state_appended:
  "mu_sandbox_state m = x \<Longrightarrow> x \<noteq> SANDBOX_STATE_UNSPECIFIED \<Longrightarrow>
     synced (set_state x (appended now t m rec))"
  by (simp add: synced_def persistedState_snoc)

lemma synced_frame:
  "sr_events rec' = sr_events rec \<Longrightarrow> rec_state rec' = rec_state rec \<Longrightarrow> synced rec' = synced rec"
  by (simp add: synced_def)

text \<open>One event that keeps the state, and one that sets the state it names.\<close>

lemma appendEventLocked_record:
  "appendEventLocked cfg now rec t m st = Inr (rec', st') \<Longrightarrow> rec' = appended now t m rec"
  by (simp add: appendEventLocked_Inr)

lemma passage_keep:
  assumes a: "appendEventLocked cfg now rec t m st = Inr (rec', st')" and "mu_exec_id m = ''''"
    and "mu_sandbox_state m = SANDBOX_STATE_UNSPECIFIED \<or> mu_sandbox_state m = rec_state rec"
  shows "passage cfg rec st rec' st'"
  using extends_append [OF a assms(2)] assms(3)
  by (auto simp: passage_def appendEventLocked_record [OF a])

lemma passage_enter:
  assumes a: "appendEventLocked cfg now rec t m st = Inr (rec', st')" and "mu_exec_id m = ''''"
    and "mu_sandbox_state m = x" and "x \<noteq> SANDBOX_STATE_UNSPECIFIED"
  shows "passage cfg rec st (set_state x rec') st'"
  using extends_set_state [OF extends_append [OF a assms(2)], of x] assms(3,4)
  by (auto simp: passage_def appendEventLocked_record [OF a] synced_set_state_appended)

lemma passage_frame:
  assumes "passage cfg rec st rec' st'" and "same_log_fields rec' rec''"
    and "same_identity rec' rec''" and "sr_execs rec'' = sr_execs rec'"
    and "rec_state rec'' = rec_state rec'"
  shows "passage cfg rec st rec'' st'"
proof -
  have "sr_events rec'' = sr_events rec'" using assms(2) by (simp add: same_log_fields_def)
  with assms(5) have "synced rec'' = synced rec'" by (intro synced_frame)
  with assms extends_frame [OF _ assms(2-4)] show ?thesis
    by (auto simp: passage_def exec_stable_def)
qed

lemma mutation_simps [simp]:
  "mu_exec_id no_mutation = ''''" "mu_sandbox_state no_mutation = SANDBOX_STATE_UNSPECIFIED"
  by (simp_all add: no_mutation_def)

section \<open>The handlers\<close>

lemma Resume_upd:
  assumes "ResumeSandbox cfg now sid s = (s', ts, r)"
  shows "upd cfg s s'"
  using assms
  by (auto simp: ResumeSandbox_def requireSandboxLocked_def split: option.splits sum.splits if_splits
      intro!: upd_put passage_enter)

lemma Stop_upd:
  assumes "StopSandbox cfg now sid s = (s', ts, r)"
  shows "upd cfg s s'"
  using assms
  by (auto simp: StopSandbox_def requireSandboxLocked_def split: option.splits sum.splits if_splits
      intro!: upd_put passage_keep)

lemma beginDelete_passage:
  assumes "beginSandboxDeleteLocked cfg now rec reason st = Inr (started, rec', st')"
  shows "passage cfg rec st rec' st'"
  using assms
  by (auto simp: beginSandboxDeleteLocked_def res_bind_eq_Inr split: if_splits
      intro!: passage_enter)

lemma mark_deleted_passage:
  assumes "st_mark_deleted (cfg_event_store cfg) st (sh_sandbox_id (sr_handle rec)) now = Inr st'"
    and "int64_time now"
  shows "passage cfg rec st (rec\<lparr>sr_deleted_at_recorded := True\<rparr>) st'"
proof -
  have "passage cfg rec st rec st'"
    using extends_mark_deleted [OF assms] by (simp add: passage_def)
  then show ?thesis
    by (rule passage_frame) (simp_all add: same_log_fields_def same_identity_def)
qed

text \<open>From here on the records sit under their own id, which the invariant below says.\<close>

definition keyed :: "('st, 'r) service \<Rightarrow> bool" where
  "keyed s \<longleftrightarrow> gm_ok (svc_boxes s)
     \<and> (\<forall>sid rec. gm_get (svc_boxes s) sid = Some rec \<longrightarrow> sh_sandbox_id (sr_handle rec) = sid)"

lemma put_record_simps [simp]:
  "svc_boxes (put_record sid rec st s) = gm_set sid rec (svc_boxes s)"
  "svc_store (put_record sid rec st s) = st"
  "svc_registry (put_record sid rec st s) = svc_registry s"
  "svc_execs (put_record sid rec st s) = svc_execs s"
  "svc_cancelled (put_record sid rec st s) = svc_cancelled s"
  "svc_detached (put_record sid rec st s) = svc_detached s"
  by (simp_all add: put_record_def)

lemma Delete_upd:
  assumes "DeleteSandbox cfg now sid s = (s', ts, r)" and "keyed s" and "int64_time now"
  shows "upd cfg s s'"
proof (cases "gm_get (svc_boxes s) sid")
  case None
  with assms(1) show ?thesis by (auto simp: DeleteSandbox_def requireSandboxLocked_def)
next
  case (Some rec)
  with assms(2) have sid: "sid = sh_sandbox_id (sr_handle rec)" by (auto simp: keyed_def)
  from assms(1) Some sid show ?thesis
    by (auto simp: DeleteSandbox_def requireSandboxLocked_def
        split: sum.splits if_splits
        intro: upd_put beginDelete_passage mark_deleted_passage assms(3))
qed

lemma delete_matching_upd:
  assumes "delete_matching cfg now sel m s ids = (s', r)"
    and "distinct (map fst m)"
    and "\<forall>(k, v) \<in> set m. gm_get (svc_boxes s) k = Some v"
  shows "upd cfg s s'"
  using assms
proof (induction cfg now sel m s ids rule: delete_matching.induct)
  case (1 cfg now sel s ids)
  then show ?case by simp
next
  case (2 cfg now sel sid rec rest s ids)
  show ?case
  proof (cases "matchesLabelSelector (sh_labels (sr_handle rec)) sel")
    case False
    with 2 show ?thesis by auto
  next
    case True
    show ?thesis
    proof (cases "beginSandboxDeleteLocked cfg now rec ''delete_requested'' (svc_store s)")
      case (Inl err)
      with 2(3) True show ?thesis by simp
    next
      case (Inr x)
      obtain started rec' st' where x: "x = (started, rec', st')" by (cases x) auto
      let ?s1 = "put_record sid rec' st' s"
      have u: "upd cfg s ?s1"
        using 2(5) beginDelete_passage [OF Inr [unfolded x]] by (intro upd_put) auto
      have m: "\<forall>(k, v) \<in> set rest. gm_get (svc_boxes ?s1) k = Some v"
        using 2(4,5) by (force simp: image_iff)
      have "upd cfg ?s1 s'"
        using 2(2) [OF _ Inr x [symmetric] refl _ _ m] 2(3,4) True Inr x by simp
      from upd_trans [OF this u] show ?thesis .
    qed
  qed
qed

lemma DeleteSandboxes_upd:
  assumes "DeleteSandboxes cfg now sel s = (s', ts, r)" and "keyed s"
  shows "upd cfg s s'"
proof -
  have m: "distinct (map fst (svc_boxes s))" "\<forall>(k, v) \<in> set (svc_boxes s). gm_get (svc_boxes s) k = Some v"
    using assms(2) by (auto simp: keyed_def gm_ok_def gm_in_set_get)
  from assms(1) show ?thesis
    by (auto simp: DeleteSandboxes_def split: if_splits prod.splits sum.splits
        intro: delete_matching_upd [OF _ m])
qed

section \<open>The goroutines\<close>

lemma mark_failed_upd:
  "gm_get (svc_boxes s) sid = Some rec \<Longrightarrow> upd cfg s (mark_failed cfg now sid rec code msg s)"
  by (auto simp: mark_failed_def split: sum.splits intro!: upd_put passage_enter)

lemma enter_state_Some:
  assumes "enter_state cfg now sid rec t m st s = Some s'" and "mu_exec_id m = ''''"
    and "mu_sandbox_state m \<noteq> SANDBOX_STATE_UNSPECIFIED"
  shows "\<exists>rec' st'. s' = put_record sid rec' st' s \<and> passage cfg rec st rec' st' \<and> synced rec'"
proof -
  from assms(1) obtain rec' st' where a: "appendEventLocked cfg now rec t m st = Inr (rec', st')"
    and s': "s' = put_record sid (set_state (mu_sandbox_state m) rec') st' s"
    by (auto simp: enter_state_def split: sum.splits)
  note p = passage_enter [OF a assms(2) HOL.refl assms(3)]
  have "synced (set_state (mu_sandbox_state m) rec')"
    unfolding appendEventLocked_record [OF a] by (rule synced_set_state_appended [OF HOL.refl assms(3)])
  with p s' show ?thesis by blast
qed

lemma enter_state_None:
  "enter_state cfg now sid rec t m st s = None \<Longrightarrow> \<not> infallible (cfg_event_store cfg)"
  unfolding infallible_def
  by (auto simp: enter_state_def appendEventLocked_Inl split: sum.splits)
    (metis sum.disc(1))

text \<open>Companion events: the record is extended, its execs and state stay.\<close>

lemma companion_event_extends:
  assumes "append_companion_event cfg now x status (rec, st) = Inr (rec', st')"
  shows "extends cfg rec st rec' st' \<and> sr_execs rec' = sr_execs rec \<and> rec_state rec' = rec_state rec
    \<and> (x = rec_state rec \<longrightarrow> synced rec \<longrightarrow> synced rec')"
  using assms
  by (auto simp: append_companion_event_def split: if_splits intro!: extends_append
      dest: appendEventLocked_record)

lemma companion_event_infallible:
  "infallible (cfg_event_store cfg) \<Longrightarrow> append_companion_event cfg now x status (rec, st) \<noteq> Inl err"
  unfolding infallible_def append_companion_event_def
  by (auto simp: appendEventLocked_Inl split: if_splits) (metis sum.disc(1))+

lemma companion_events_extend:
  assumes "appendCompanionContainerEventsLocked cfg now x statuses (rec, st) = ((rec', st'), err)"
  shows "extends cfg rec st rec' st' \<and> sr_execs rec' = sr_execs rec \<and> rec_state rec' = rec_state rec
    \<and> (x = rec_state rec \<longrightarrow> synced rec \<longrightarrow> synced rec')
    \<and> (infallible (cfg_event_store cfg) \<longrightarrow> err = None)"
  using assms
proof (induction statuses arbitrary: rec st)
  case Nil
  then show ?case by auto
next
  case (Cons status statuses)
  show ?case
  proof (cases "append_companion_event cfg now x status (rec, st)")
    case (Inl e)
    with Cons.prems companion_event_infallible [of cfg now x status rec st e] show ?thesis by auto
  next
    case (Inr y)
    obtain rec1 st1 where y: "y = (rec1, st1)" by (cases y)
    from Cons.prems Inr y
    have rest: "appendCompanionContainerEventsLocked cfg now x statuses (rec1, st1) = ((rec', st'), err)"
      by simp
    from companion_event_extends [OF Inr [unfolded y]] Cons.IH [OF rest] show ?thesis
      by (auto intro: extends_trans)
  qed
qed

lemma extends_then_passage:
  assumes "extends cfg rec st rec1 st1" and "sr_execs rec1 = sr_execs rec"
    and "passage cfg rec1 st1 rec2 st2" and "synced rec2"
  shows "passage cfg rec st rec2 st2"
proof -
  have "extends cfg rec1 st1 rec2 st2" using assms(3) by (simp add: passage_def)
  from extends_trans [OF assms(1) this] have "extends cfg rec st rec2 st2" .
  moreover have "exec_stable rec rec2"
    using assms(2,3) by (simp add: passage_def exec_stable_def)
  ultimately show ?thesis using assms(4) by (simp add: passage_def)
qed

lemma create_prepare_upd:
  "create_prepare cfg now sid s = (s', go) \<Longrightarrow> upd cfg s s'"
  by (auto simp: create_prepare_def split: option.splits sum.splits if_splits
      intro!: upd_put passage_keep)

lemma create_log_dir_failed_upd: "upd cfg s (create_log_dir_failed cfg now sid err s)"
  by (auto simp: create_log_dir_failed_def split: option.splits intro!: mark_failed_upd)

text \<open>The common end of creation and resumption: companion events, then \<^verbatim>\<open>SANDBOX_READY\<close>.\<close>

lemma ready_upd:
  assumes b: "gm_get (svc_boxes s) sid = Some rec0"
    and e0: "extends cfg rec0 (svc_store s) rec (svc_store s)" and x0: "sr_execs rec = sr_execs rec0"
    and c: "appendCompanionContainerEventsLocked cfg now SANDBOX_STATE_PENDING statuses (rec, svc_store s)
              = ((rec1, st1), err)"
  shows "err = Some e \<Longrightarrow> upd cfg s (put_record sid rec1 st1 s)"
    and "enter_state cfg now sid rec1 SANDBOX_READY
           (no_mutation\<lparr>mu_sandbox_state := SANDBOX_STATE_READY\<rparr>) st1 s = None \<Longrightarrow>
         upd cfg s (put_record sid rec1 st1 s)"
    and "enter_state cfg now sid rec1 SANDBOX_READY
           (no_mutation\<lparr>mu_sandbox_state := SANDBOX_STATE_READY\<rparr>) st1 s = Some s' \<Longrightarrow> upd cfg s s'"
proof -
  note ce = companion_events_extend [OF c]
  have ex: "extends cfg rec0 (svc_store s) rec1 st1" and xs: "sr_execs rec1 = sr_execs rec0"
    using ce x0 extends_trans [OF e0] by auto
  {
    assume "\<not> infallible (cfg_event_store cfg)"
    with ex xs have "passage cfg rec0 (svc_store s) rec1 st1" by (simp add: passage_def)
    with b have "upd cfg s (put_record sid rec1 st1 s)" by (rule upd_put)
  } note fallible = this
  show "err = Some e \<Longrightarrow> upd cfg s (put_record sid rec1 st1 s)"
    by (rule fallible) (use ce in auto)
  show "upd cfg s (put_record sid rec1 st1 s)"
    if "enter_state cfg now sid rec1 SANDBOX_READY
           (no_mutation\<lparr>mu_sandbox_state := SANDBOX_STATE_READY\<rparr>) st1 s = None"
    by (rule fallible [OF enter_state_None [OF that]])
  assume es: "enter_state cfg now sid rec1 SANDBOX_READY
           (no_mutation\<lparr>mu_sandbox_state := SANDBOX_STATE_READY\<rparr>) st1 s = Some s'"
  obtain rec' st' where s': "s' = put_record sid rec' st' s" and p: "passage cfg rec1 st1 rec' st'"
    and sy: "synced rec'"
    using enter_state_Some [OF es] by auto
  show "upd cfg s s'"
    unfolding s' by (rule upd_put [OF b extends_then_passage [OF ex xs p sy]])
qed

lemma create_finish_upd:
  assumes "create_finish cfg now sid result s = (s', ts, del)"
  shows "upd cfg s s'"
proof (cases "gm_get (svc_boxes s) sid")
  case None
  with assms show ?thesis by (simp add: create_finish_def)
next
  case (Some rec0)
  note b = this
  show ?thesis
  proof (cases result)
    case (Inl err)
    with assms b show ?thesis by (auto simp: create_finish_def intro: mark_failed_upd)
  next
    case (Inr res)
    let ?rec = "rec0\<lparr>sr_runtime_state := rcr_runtime_state res\<rparr>"
    obtain statuses op where d: "drainAvailableCompanionContainerStatuses (rcr_statuses res) = (statuses, op)"
      by fastforce
    obtain rec1 st1 err where c: "appendCompanionContainerEventsLocked cfg now SANDBOX_STATE_PENDING
        statuses (?rec, svc_store s) = ((rec1, st1), err)" by (metis surj_pair)
    have e0: "extends cfg rec0 (svc_store s) ?rec (svc_store s)"
      by (rule extends_frame [OF extends_refl]) (simp_all add: same_log_fields_def same_identity_def)
    note r = ready_upd [OF b e0 _ c]
    from assms show ?thesis
      using r by (auto simp: create_finish_def b Inr d c split: option.splits)
  qed
qed

lemma companion_startup_upd:
  assumes "companion_startup_step cfg now sid status s = (s', go)"
  shows "upd cfg s s'"
proof (cases "gm_get (svc_boxes s) sid")
  case None
  with assms show ?thesis by (simp add: companion_startup_step_def)
next
  case (Some rec)
  note b = this
  show ?thesis
  proof (cases "rec_state rec = SANDBOX_STATE_READY")
    case False
    with assms b show ?thesis by (simp add: companion_startup_step_def)
  next
    case True
    obtain rec' st' err where c: "appendCompanionContainerEventsLocked cfg now SANDBOX_STATE_READY
        [status] (rec, svc_store s) = ((rec', st'), err)" by (metis surj_pair)
    from companion_events_extend [OF c] True have "passage cfg rec (svc_store s) rec' st'"
      by (simp add: passage_def)
    with b have "upd cfg s (put_record sid rec' st' s)" by (rule upd_put)
    with assms b True c show ?thesis
      by (auto simp: companion_startup_step_def simp del: appendCompanionContainerEventsLocked.simps
          split: option.splits)
  qed
qed

lemma resume_finish_upd: "upd cfg s (resume_finish cfg now sid result s)"
proof (cases "gm_get (svc_boxes s) sid")
  case None
  then show ?thesis by (simp add: resume_finish_def)
next
  case (Some rec)
  note b = this
  show ?thesis
  proof (cases result)
    case (Inl err)
    with b show ?thesis by (auto simp: resume_finish_def intro: mark_failed_upd)
  next
    case (Inr statuses)
    obtain rec1 st1 err where c: "appendCompanionContainerEventsLocked cfg now SANDBOX_STATE_PENDING
        statuses (rec, svc_store s) = ((rec1, st1), err)" by (metis surj_pair)
    note r = ready_upd [OF b extends_refl HOL.refl c]
    show ?thesis using r by (auto simp: resume_finish_def b Inr c split: option.splits)
  qed
qed

lemma stop_finish_upd: "upd cfg s (stop_finish cfg now sid reason err s)"
  by (auto simp: stop_finish_def split: option.splits
      intro!: mark_failed_upd upd_put dest!: enter_state_Some)

lemma delete_finish_upd:
  assumes "keyed s" and "int64_time now"
  shows "upd cfg s (delete_finish cfg now sid reason err s)"
proof (cases "gm_get (svc_boxes s) sid")
  case None
  then show ?thesis by (simp add: delete_finish_def)
next
  case (Some rec)
  note b = this
  with assms(1) have sid: "sid = sh_sandbox_id (sr_handle rec)" by (auto simp: keyed_def)
  show ?thesis
  proof (cases err)
    case (Some e)
    with b show ?thesis by (auto simp: delete_finish_def intro: mark_failed_upd)
  next
    case None
    let ?m = "no_mutation\<lparr>mu_reason := reason, mu_sandbox_state := SANDBOX_STATE_DELETED\<rparr>"
    show ?thesis
    proof (cases "appendEventLocked cfg now rec SANDBOX_DELETED ?m (svc_store s)")
      case (Inl e)
      with b None show ?thesis by (simp add: delete_finish_def)
    next
      case (Inr x)
      then obtain rec' st' where a: "appendEventLocked cfg now rec SANDBOX_DELETED ?m (svc_store s)
          = Inr (rec', st')" by (cases x) auto
      have ex: "extends cfg rec (svc_store s) rec' st'" by (rule extends_append [OF a]) simp
      have r': "rec' = appended now SANDBOX_DELETED ?m rec" by (rule appendEventLocked_record [OF a])
      show ?thesis
      proof (cases "st_mark_deleted (cfg_event_store cfg) st' sid now")
        case (Inl e)
        then have "\<not> infallible (cfg_event_store cfg)"
          unfolding infallible_def by (metis sum.disc(1))
        with ex r' have "passage cfg rec (svc_store s) rec' st'" by (simp add: passage_def)
        with b None a Inl show ?thesis by (simp add: delete_finish_def upd_put)
      next
        case (Inr st'')
        let ?rec = "(set_state SANDBOX_STATE_DELETED rec')\<lparr>sr_deleted_at_recorded := True\<rparr>"
        from Inr have m: "st_mark_deleted (cfg_event_store cfg) st'
            (sh_sandbox_id (sr_handle (set_state SANDBOX_STATE_DELETED rec'))) now = Inr st''"
          by (simp add: sid r' set_state_def)
        have "passage cfg (set_state SANDBOX_STATE_DELETED rec') st' ?rec st''"
          by (rule mark_deleted_passage [OF m assms(2)])
        moreover have "synced ?rec"
          by (simp add: r' synced_def persistedState_snoc set_state_def)
        ultimately have "passage cfg rec (svc_store s) ?rec st''"
          using extends_then_passage [OF extends_set_state [OF ex], of SANDBOX_STATE_DELETED]
          by (simp add: r')
        with b None a Inr show ?thesis by (simp add: delete_finish_def upd_put)
      qed
    qed
  qed
qed

section \<open>Loops over the records\<close>

text \<open>A loop whose body replaces at most the record it is at.\<close>

lemma fold_upd:
  assumes "fold f m (s, acc) = (s', acc')"
    and "distinct (map fst m)" and "\<forall>(k, v) \<in> set m. gm_get (svc_boxes s) k = Some v"
    and body: "\<And>k v s acc s' acc'. f (k, v) (s, acc) = (s', acc') \<Longrightarrow> gm_get (svc_boxes s) k = Some v \<Longrightarrow>
      s' = s \<or> (\<exists>rec' st'. s' = put_record k rec' st' s \<and> passage cfg v (svc_store s) rec' st')"
  shows "upd cfg s s'"
  using assms(1-3)
proof (induction m arbitrary: s acc)
  case Nil
  then show ?case by simp
next
  case (Cons e m)
  obtain k v where e: "e = (k, v)" by (cases e)
  obtain s1 acc1 where f: "f (k, v) (s, acc) = (s1, acc1)" by fastforce
  have b: "gm_get (svc_boxes s) k = Some v" using Cons.prems e by simp
  from body [OF f b] b have u: "upd cfg s s1" by (auto intro: upd_put)
  have m: "\<forall>(k, v) \<in> set m. gm_get (svc_boxes s1) k = Some v"
    using body [OF f b] Cons.prems e by (force simp: image_iff)
  have "upd cfg s1 s'"
    using Cons.IH [of s1 acc1] Cons.prems e f m by simp
  from upd_trans [OF this u] show ?case .
qed

lemma boxes_fold_upd:
  assumes "fold f (svc_boxes s) (s, acc) = (s', acc')" and "keyed s"
    and "\<And>k v s acc s' acc'. f (k, v) (s, acc) = (s', acc') \<Longrightarrow> gm_get (svc_boxes s) k = Some v \<Longrightarrow>
      s' = s \<or> (\<exists>rec' st'. s' = put_record k rec' st' s \<and> passage cfg v (svc_store s) rec' st')"
  shows "upd cfg s s'"
  using assms(2) by (intro fold_upd [OF assms(1) _ _ assms(3)])
    (auto simp: keyed_def gm_ok_def gm_in_set_get)

lemma idleScan_upd:
  assumes "idleScanAndStop cfg now s = (s', ts)" and "keyed s"
  shows "upd cfg s s'"
proof -
  obtain ids where f: "fold (idle_scan_one cfg now) (svc_boxes s) (s, []) = (s', ids)"
    using assms(1) by (auto simp: idleScanAndStop_def split: prod.splits)
  show ?thesis
    by (rule boxes_fold_upd [OF f assms(2)])
      (auto simp: idle_scan_one_def split: if_splits sum.splits dest!: passage_keep)
qed

lemma cleanupStopped_upd:
  assumes "cleanupStoppedSandboxes cfg now s = (s', ts)" and "keyed s"
  shows "upd cfg s s'"
proof -
  obtain ids where f: "fold (cleanup_stopped_one cfg now) (svc_boxes s) (s, []) = (s', ids)"
    using assms(1) by (auto simp: cleanupStoppedSandboxes_def split: prod.splits)
  show ?thesis
    by (rule boxes_fold_upd [OF f assms(2)])
      (auto simp: cleanup_stopped_one_def split: if_splits sum.splits prod.splits
        dest!: beginDelete_passage)
qed

section \<open>The container watch\<close>

lemma window_frame:
  "passage cfg rec st rec' st' \<Longrightarrow> passage cfg rec st (set_primary_window cs rec') st'"
  "passage cfg rec st rec' st' \<Longrightarrow> passage cfg rec st (set_companion_window i cs rec') st'"
  by (erule passage_frame; simp add: set_primary_window_def set_companion_window_def
        same_log_fields_def same_identity_def split: option.splits)+

lemma window_state [simp]:
  "rec_state (set_primary_window cs rec) = rec_state rec"
  "rec_state (set_companion_window i cs rec) = rec_state rec"
  by (simp_all add: set_primary_window_def set_companion_window_def split: option.splits)

lemma passage_trans:
  assumes "passage cfg a st b st1" and "passage cfg b st1 c st2"
  shows "passage cfg a st c st2"
proof -
  have "extends cfg a st b st1" "extends cfg b st1 c st2" "exec_stable a b" "exec_stable b c"
    using assms by (simp_all add: passage_def)
  from extends_trans [OF this(1,2)] exec_stable_trans [OF this(3,4)] assms show ?thesis
    by (auto simp: passage_def)
qed

lemma evaluate_companion_passage:
  assumes "evaluate_companion cfg inspect now entry (rec, st) = (rec', st')"
    and "rec_state rec = SANDBOX_STATE_READY"
  shows "passage cfg rec st rec' st' \<and> rec_state rec' = SANDBOX_STATE_READY"
proof -
  obtain i cc where entry: "entry = (i, cc)" by fastforce
  show ?thesis
  proof (cases "inspect (rc_container_name cc)")
    case (Inl e)
    with assms entry show ?thesis by (simp add: evaluate_companion_def)
  next
    case (Inr result)
    obtain cs' d where ev: "evaluateContainer result (rc_crashloop cc) False now = (cs', d)" by fastforce
    let ?r = "set_companion_window i cs' rec"
    have p: "passage cfg rec st ?r st" by (rule window_frame [OF passage_refl])
    show ?thesis
    proof (cases "dec_companion_failed d")
      case False
      with assms entry Inr ev p show ?thesis by (auto simp: evaluate_companion_def)
    next
      case True
      let ?m = "no_mutation\<lparr>mu_companion_container_name := rc_name cc,
        mu_error_code := dec_error_code d, mu_error_message := dec_error_message d,
        mu_sandbox_state := SANDBOX_STATE_READY\<rparr>"
      show ?thesis
      proof (cases "appendEventLocked cfg now ?r COMPANION_CONTAINER_FAILED ?m st")
        case (Inl e)
        with assms entry Inr ev p True show ?thesis by (auto simp: evaluate_companion_def)
      next
        case (Inr y)
        obtain rec2 st2 where y: "y = (rec2, st2)" by (cases y)
        have "passage cfg ?r st rec2 st2"
          by (rule passage_keep [OF Inr [unfolded y]]) (simp_all add: assms(2))
        from passage_trans [OF p this] have "passage cfg rec st rec2 st2" .
        moreover have "rec_state rec2 = SANDBOX_STATE_READY"
          using appendEventLocked_record [OF Inr [unfolded y]] assms(2) by simp
        ultimately show ?thesis
          using assms(1) entry Inr y \<open>inspect _ = _\<close> ev True by (simp add: evaluate_companion_def)
      qed
    qed
  qed
qed

lemma evaluate_companions_passage:
  assumes "fold (evaluate_companion cfg inspect now) entries (rec, st) = (rec', st')"
    and "rec_state rec = SANDBOX_STATE_READY"
  shows "passage cfg rec st rec' st'"
  using assms
proof (induction entries arbitrary: rec st)
  case Nil
  then show ?case by simp
next
  case (Cons e entries)
  obtain rec1 st1 where f: "evaluate_companion cfg inspect now e (rec, st) = (rec1, st1)" by fastforce
  from evaluate_companion_passage [OF f Cons.prems(2)] Cons.IH [of rec1 st1] Cons.prems(1) f
  show ?case by (auto intro: passage_trans)
qed

lemma applyPrimaryFailed_put:
  assumes "applyPrimaryFailed cfg now sid rec' d s = (s', ts)" and "passage cfg rec (svc_store s) rec' (svc_store s)"
  shows "\<exists>rec'' st''. s' = put_record sid rec'' st'' s \<and> passage cfg rec (svc_store s) rec'' st''"
proof -
  let ?m = "no_mutation\<lparr>mu_error_code := dec_error_code d, mu_error_message := dec_error_message d,
    mu_sandbox_state := SANDBOX_STATE_FAILED\<rparr>"
  show ?thesis
  proof (cases "appendEventLocked cfg now rec' SANDBOX_FAILED ?m (svc_store s)")
    case (Inl e)
    with assms show ?thesis by (auto simp: applyPrimaryFailed_def)
  next
    case (Inr y)
    obtain rec2 st2 where y: "y = (rec2, st2)" by (cases y)
    have "passage cfg rec' (svc_store s) (set_state SANDBOX_STATE_FAILED rec2) st2"
      by (rule passage_enter [OF Inr [unfolded y]]) simp_all
    from passage_trans [OF assms(2) this] assms(1) Inr y show ?thesis
      by (auto simp: applyPrimaryFailed_def)
  qed
qed

lemma reconcile_one_put:
  assumes "reconcile_one cfg inspect now (k, rec) (s, acc) = (s', acc')"
    and "gm_get (svc_boxes s) k = Some rec"
  shows "s' = s \<or> (\<exists>rec' st'. s' = put_record k rec' st' s \<and> passage cfg rec (svc_store s) rec' st')"
proof (cases "rec_state rec = SANDBOX_STATE_READY \<and> sr_runtime_state rec \<noteq> None")
  case False
  with assms(1) show ?thesis by (auto simp: reconcile_one_def split: if_splits)
next
  case True
  then obtain rs where rs: "sr_runtime_state rec = Some rs" and rd: "rec_state rec = SANDBOX_STATE_READY"
    by auto
  show ?thesis
  proof (cases "inspect (rs_primary_container_name rs)")
    case (Inl e)
    with assms(1) rs rd show ?thesis by (simp add: reconcile_one_def)
  next
    case (Inr result)
    obtain cs' d where ev: "evaluateContainer result (rs_primary_crashloop rs) True now = (cs', d)"
      by fastforce
    let ?r = "set_primary_window cs' rec"
    have p: "passage cfg rec (svc_store s) ?r (svc_store s)" by (rule window_frame [OF passage_refl])
    show ?thesis
    proof (cases "dec_should_fail d")
      case True
      then obtain ts where "applyPrimaryFailed cfg now k ?r d s = (s', ts)"
        using assms(1) rs rd Inr ev by (auto simp: reconcile_one_def Let_def split: prod.splits)
      from applyPrimaryFailed_put [OF this p] show ?thesis by blast
    next
      case False
      obtain rec2 st2 where f: "fold (evaluate_companion cfg inspect now)
          (enumerate 0 (rs_companion_containers rs)) (?r, svc_store s) = (rec2, st2)" by fastforce
      from evaluate_companions_passage [OF f] rd have "passage cfg ?r (svc_store s) rec2 st2" by simp
      from passage_trans [OF p this] assms(1) rs rd Inr ev False f show ?thesis
        by (auto simp: reconcile_one_def Let_def)
    qed
  qed
qed

lemma reconcileAll_upd:
  assumes "reconcileAll cfg inspect now s = (s', ts)" and "keyed s"
  shows "upd cfg s s'"
  by (rule boxes_fold_upd [OF assms(1) [unfolded reconcileAll_def] assms(2)]) (rule reconcile_one_put)

lemma handleEvent_upd:
  assumes "handleEvent cfg inspect now event s = (s', ts)"
  shows "upd cfg s s'"
proof (cases "gm_get (svc_boxes s) (ce_sandbox_id event)")
  case None
  with assms show ?thesis by (simp add: handleEvent_def)
next
  case (Some rec)
  note b = this
  show ?thesis
  proof (cases "rec_state rec = SANDBOX_STATE_READY \<and> sr_runtime_state rec \<noteq> None")
    case False
    with assms b show ?thesis by (auto simp: handleEvent_def split: if_splits)
  next
    case True
    then obtain rs where rs: "sr_runtime_state rec = Some rs" and rd: "rec_state rec = SANDBOX_STATE_READY"
      by auto
    show ?thesis
    proof (cases "ce_is_companion event")
      case True
      with assms b rs rd show ?thesis
        by (auto simp: handleEvent_def split: option.splits prod.splits
            dest!: evaluate_companion_passage intro!: upd_put)
    next
      case False
      show ?thesis
      proof (cases "inspect (rs_primary_container_name rs)")
        case (Inl e)
        with assms b rs rd False show ?thesis by (simp add: handleEvent_def)
      next
        case (Inr result)
        obtain cs' d where ev: "evaluateContainer result (rs_primary_crashloop rs) True now = (cs', d)"
          by fastforce
        let ?r = "set_primary_window cs' rec"
        have p: "passage cfg rec (svc_store s) ?r (svc_store s)" by (rule window_frame [OF passage_refl])
        show ?thesis
        proof (cases "dec_should_fail d")
          case True
          then have "applyPrimaryFailed cfg now (ce_sandbox_id event) ?r d s = (s', ts)"
            using assms b rs rd False Inr ev by (simp add: handleEvent_def Let_def)
          from applyPrimaryFailed_put [OF this p] b show ?thesis by (auto intro: upd_put)
        next
          case nf: False
          with assms b rs rd False Inr ev p show ?thesis
            by (auto simp: handleEvent_def Let_def intro: upd_put)
        qed
      qed
    qed
  qed
qed

end
