(* ===== verification/Exec_Upd.thy ===== *)
theory Exec_Upd
  imports Service_Upd
begin

text \<open>
  The operations on execs: an exec event and the change of the exec go together, so the log and
  the exec table of a record stay in agreement.
\<close>

lemma details_exec:
  "mu_exec_id m \<noteq> '''' \<Longrightarrow> event_details_of m =
     ExecDetails (mu_exec_id m) (mu_exit_code m) (mu_exec_state m) (mu_error_code m) (mu_error_message m)"
  by (simp add: event_details_of_def)

lemma resolve_step_exec:
  "mu_exec_id m \<noteq> '''' \<Longrightarrow>
     resolve_exec_step k (new_event now rec t m) (state, exitCode, errorCode, errorMsg) =
       (if mu_exec_id m \<noteq> k then (state, exitCode, errorCode, errorMsg)
        else if t = EXEC_STARTED then (EXEC_STATE_RUNNING, exitCode, errorCode, errorMsg)
        else if t = EXEC_FINISHED then (EXEC_STATE_FINISHED, mu_exit_code m, errorCode, errorMsg)
        else if t = EXEC_FAILED
        then (EXEC_STATE_FAILED, mu_exit_code m, mu_error_code m, mu_error_message m)
        else if t = EXEC_CANCELLED then (EXEC_STATE_CANCELLED, exitCode, errorCode, errorMsg)
        else (state, exitCode, errorCode, errorMsg))"
  by (cases t) (simp_all add: resolve_exec_step_def details_exec)

lemma extends_exec:
  assumes a: "appendEventLocked cfg now rec t m st = Inr (rec', st')"
    and fr: "same_log_fields rec' rec''" "same_identity rec' rec''"
    and xs: "sr_execs rec'' = gm_set k e' (sr_execs rec)" and mk: "mu_exec_id m = k"
    and ok: "rec_ok rec \<Longrightarrow> k \<noteq> '''' \<and> es_exec_id e' = k
      \<and> es_sandbox_id e' = sh_sandbox_id (sr_handle rec)
      \<and> (\<exists>code. resolve_exec_step k (new_event now rec t m)
                  (resolveExecStateFromEvents (sr_events rec) k)
                = (es_state e', es_exit_code e', code, es_error e'))"
  shows "extends cfg rec st rec'' st'"
proof -
  have r': "rec' = appended now t m rec" by (rule appendEventLocked_record [OF a])
  have ev: "sr_events rec'' = sr_events rec @ [new_event now rec t m]"
    using fr(1) by (simp add: r' same_log_fields_def)
  have id: "sh_sandbox_id (sr_handle rec'') = sh_sandbox_id (sr_handle rec)"
    using fr(2) by (simp add: r' same_identity_def)
  have "rec_ok rec''" if r: "rec_ok rec"
  proof -
    have "log_ok rec'" using r by (simp add: r' log_ok_appended rec_ok_def)
    then have l: "log_ok rec''" using fr by (simp add: log_ok_def same_log_fields_def same_identity_def)
    have "static_ok rec'" using r by (simp add: r' static_ok_def rec_ok_def)
    then have s: "static_ok rec''" using fr(2) by (simp add: static_ok_def same_identity_def)
    from r have x: "gm_ok (sr_execs rec)"
      "\<And>j. exec_entry_ok (sr_events rec) (sh_sandbox_id (sr_handle rec)) j (gm_get (sr_execs rec) j)"
      by (simp_all add: rec_ok_def exec_ok_def)
    have "exec_entry_ok (sr_events rec'') (sh_sandbox_id (sr_handle rec'')) j (gm_get (sr_execs rec'') j)"
      for j
    proof (cases "j = k")
      case True
      with ok [OF r] show ?thesis by (simp add: ev id xs resolve_snoc)
    next
      case False
      have "mu_exec_id m \<noteq> ''''" using ok [OF r] mk by simp
      then have "resolve_exec_step j (new_event now rec t m) acc = acc" for acc
        using resolve_step_exec [of m j now rec t] False mk by (cases acc) auto
      with False x(2) [of j] show ?thesis
        by (cases "gm_get (sr_execs rec) j") (simp_all add: ev id xs resolve_snoc)
    qed
    with x(1) have "exec_ok rec''" by (simp add: exec_ok_def xs)
    with l s show ?thesis by (simp add: rec_ok_def)
  qed
  moreover have "store_runs (cfg_event_store cfg) (sh_sandbox_id (sr_handle rec)) st
      [new_event now rec t m] st'"
    using a store_runs.append [OF store_runs.nil] by (fastforce simp: appendEventLocked_Inr)
  moreover have "same_identity rec rec''" using fr(2) by (simp add: r' same_identity_def)
  ultimately show ?thesis using ev unfolding extends_def by blast
qed

text \<open>An exec of a record whose execs agree with the log.\<close>

lemma exec_entryD:
  assumes "rec_ok rec" and "gm_get (sr_execs rec) k = Some e"
  shows "k \<noteq> '''' \<and> es_exec_id e = k \<and> es_sandbox_id e = sh_sandbox_id (sr_handle rec)
    \<and> (\<exists>code. resolveExecStateFromEvents (sr_events rec) k
               = (es_state e, es_exit_code e, code, es_error e))"
proof -
  from assms(1) have "exec_entry_ok (sr_events rec) (sh_sandbox_id (sr_handle rec)) k
      (gm_get (sr_execs rec) k)" by (simp add: rec_ok_def exec_ok_def)
  with assms(2) show ?thesis by simp
qed

lemma passage_exec:
  assumes a: "appendEventLocked cfg now rec t m st = Inr (rec', st')"
    and fr: "same_log_fields rec' rec''" "same_identity rec' rec''" "rec_state rec'' = rec_state rec'"
    and e: "gm_get (sr_execs rec) k = Some e" and run: "\<not> isExecTerminal (es_state e)"
    and ended: "isExecTerminal (es_state e')"
    and xs: "sr_execs rec'' = gm_set k e' (sr_execs rec)"
    and m: "mu_exec_id m = k" "mu_sandbox_state m = SANDBOX_STATE_UNSPECIFIED"
    and ids: "es_exec_id e' = es_exec_id e" "es_sandbox_id e' = es_sandbox_id e"
    and step: "\<And>code. k \<noteq> '''' \<Longrightarrow> \<exists>code'. resolve_exec_step k (new_event now rec t m)
                  (es_state e, es_exit_code e, code, es_error e)
                = (es_state e', es_exit_code e', code', es_error e')"
  shows "passage cfg rec st rec'' st'"
proof -
  have "extends cfg rec st rec'' st'"
  proof (rule extends_exec [OF a fr(1,2) xs m(1)])
    assume "rec_ok rec"
    from exec_entryD [OF this e] ids step show "k \<noteq> '''' \<and> es_exec_id e' = k
      \<and> es_sandbox_id e' = sh_sandbox_id (sr_handle rec)
      \<and> (\<exists>code. resolve_exec_step k (new_event now rec t m)
                  (resolveExecStateFromEvents (sr_events rec) k)
                = (es_state e', es_exit_code e', code, es_error e'))" by auto
  qed
  moreover have "exec_stable rec rec''"
    using e run ended by (auto simp: exec_stable_def xs gm_get_Some_key)
  moreover have "synced rec \<longrightarrow> synced rec''"
  proof -
    have "sr_events rec'' = sr_events rec'" using fr(1) by (simp add: same_log_fields_def)
    from synced_frame [OF this fr(3)] m(2) show ?thesis
      by (simp add: appendEventLocked_record [OF a])
  qed
  ultimately show ?thesis by (simp add: passage_def)
qed

lemma requireExec_Inr:
  "requireExecLocked s k = Inr (sid, rec, e) \<longleftrightarrow>
     gm_get (svc_execs s) k = Some sid \<and> gm_get (svc_boxes s) sid = Some rec
     \<and> gm_get (sr_execs rec) k = Some e"
  by (auto simp: requireExecLocked_def split: option.splits)

lemma exec_finish_upd: "upd cfg s (exec_finish cfg now k exitCode runErr s)"
proof (cases "requireExecLocked s k")
  case (Inl e)
  then show ?thesis by (simp add: exec_finish_def)
next
  case (Inr x)
  obtain sid rec e where x: "x = (sid, rec, e)" by (cases x) auto
  note lk = Inr [unfolded x requireExec_Inr]
  show ?thesis
  proof (cases "es_state e = EXEC_STATE_RUNNING")
    case False
    with Inr x show ?thesis by (simp add: exec_finish_def)
  next
    case run: True
    then have nt: "\<not> isExecTerminal (es_state e)" by (simp add: isExecTerminal_def)
    show ?thesis
    proof (cases "k \<in> svc_cancelled s")
      case True
      have "passage cfg rec (svc_store s) (rec\<lparr>sr_exec_cancel := sr_exec_cancel rec - {k}\<rparr>) (svc_store s)"
        by (rule passage_frame [OF passage_refl]) (simp_all add: same_log_fields_def same_identity_def)
      with lk have "upd cfg s (put_record sid (rec\<lparr>sr_exec_cancel := sr_exec_cancel rec - {k}\<rparr>)
          (svc_store s) s)" by (auto intro: upd_put)
      with Inr x run True show ?thesis by (simp add: exec_finish_def)
    next
      case nc: False
      show ?thesis
      proof (cases runErr)
        case None
        let ?m = "no_mutation\<lparr>mu_exec_id := k, mu_exec_state := EXEC_STATE_FINISHED, mu_exit_code := exitCode\<rparr>"
        show ?thesis
        proof (cases "appendEventLocked cfg now rec EXEC_FINISHED ?m (svc_store s)")
          case (Inl err)
          with Inr x run nc None show ?thesis by (simp add: exec_finish_def)
        next
          case a: (Inr y)
          obtain rec' st' where y: "y = (rec', st')" by (cases y)
          let ?rec = "rec'\<lparr>sr_exec_cancel := sr_exec_cancel rec' - {k},
            sr_execs := gm_set k (e\<lparr>es_state := EXEC_STATE_FINISHED, es_exit_code := exitCode\<rparr>) (sr_execs rec'),
            sr_last_terminal_run_finished_at := Some now\<rparr>"
          have r': "rec' = appended now EXEC_FINISHED ?m rec"
            by (rule appendEventLocked_record [OF a [unfolded y]])
          have "passage cfg rec (svc_store s) ?rec st'"
            by (rule passage_exec [OF a [unfolded y], where k = k and e = e
                  and e' = "e\<lparr>es_state := EXEC_STATE_FINISHED, es_exit_code := exitCode\<rparr>"])
              (use lk nt in \<open>simp_all add: r' same_log_fields_def same_identity_def resolve_step_exec isExecTerminal_def\<close>)
          with lk have "upd cfg s (put_record sid ?rec st' s)" by (auto intro: upd_put)
          with Inr x run nc None a y show ?thesis by (simp add: exec_finish_def)
        qed
      next
        case (Some msg)
        let ?m = "no_mutation\<lparr>mu_exec_id := k, mu_exec_state := EXEC_STATE_FAILED, mu_exit_code := exitCode,
          mu_error_code := ''EXEC_RUN_FAILED'', mu_error_message := msg\<rparr>"
        show ?thesis
        proof (cases "appendEventLocked cfg now rec EXEC_FAILED ?m (svc_store s)")
          case (Inl err)
          with Inr x run nc Some show ?thesis by (simp add: exec_finish_def)
        next
          case a: (Inr y)
          obtain rec' st' where y: "y = (rec', st')" by (cases y)
          let ?e = "e\<lparr>es_state := EXEC_STATE_FAILED, es_exit_code := exitCode, es_error := msg\<rparr>"
          let ?rec = "rec'\<lparr>sr_exec_cancel := sr_exec_cancel rec' - {k},
            sr_execs := gm_set k ?e (sr_execs rec')\<rparr>"
          have r': "rec' = appended now EXEC_FAILED ?m rec"
            by (rule appendEventLocked_record [OF a [unfolded y]])
          have "passage cfg rec (svc_store s) ?rec st'"
            by (rule passage_exec [OF a [unfolded y], where k = k and e = e and e' = ?e])
              (use lk nt in \<open>simp_all add: r' same_log_fields_def same_identity_def resolve_step_exec isExecTerminal_def\<close>)
          with lk have "upd cfg s (put_record sid ?rec st' s)" by (auto intro: upd_put)
          with Inr x run nc Some a y show ?thesis by (simp add: exec_finish_def)
        qed
      qed
    qed
  qed
qed

text \<open>
  \<^verbatim>\<open>CancelExec\<close>: refused, or a passage that leaves the exec cancelled, plus the cancelled context.
\<close>

lemma CancelExec_cases:
  assumes "CancelExec cfg now k s = (s', ts, r)"
  shows "(s' = s \<and> isl r) \<or>
    (\<exists>sid rec e rec' st' b. gm_get (svc_execs s) k = Some sid \<and> gm_get (svc_boxes s) sid = Some rec
       \<and> gm_get (sr_execs rec) k = Some e \<and> \<not> isExecTerminal (es_state e)
       \<and> passage cfg rec (svc_store s) rec' st'
       \<and> gm_get (sr_execs rec') k = Some (e\<lparr>es_state := EXEC_STATE_CANCELLED\<rparr>)
       \<and> s' = (put_record sid rec' st' s)\<lparr>svc_cancelled :=
                (if b then insert k (svc_cancelled s) else svc_cancelled s)\<rparr> \<and> r = Inr ())"
proof (cases "requireExecLocked s k")
  case (Inl e)
  with assms show ?thesis by (auto simp: CancelExec_def)
next
  case (Inr x)
  obtain sid rec e where x: "x = (sid, rec, e)" by (cases x) auto
  note lk = Inr [unfolded x requireExec_Inr]
  show ?thesis
  proof (cases "isExecTerminal (es_state e)")
    case True
    with assms Inr x show ?thesis by (auto simp: CancelExec_def)
  next
    case nt: False
    let ?m = "no_mutation\<lparr>mu_exec_id := k, mu_exec_state := EXEC_STATE_CANCELLED\<rparr>"
    show ?thesis
    proof (cases "appendEventLocked cfg now rec EXEC_CANCELLED ?m (svc_store s)")
      case (Inl err)
      with assms Inr x nt show ?thesis by (auto simp: CancelExec_def)
    next
      case a: (Inr y)
      obtain rec' st' where y: "y = (rec', st')" by (cases y)
      let ?e = "e\<lparr>es_state := EXEC_STATE_CANCELLED\<rparr>"
      let ?rec = "rec'\<lparr>sr_execs := gm_set k ?e (sr_execs rec'),
        sr_exec_cancel := sr_exec_cancel rec' - {k}, sr_last_terminal_run_finished_at := Some now\<rparr>"
      have r': "rec' = appended now EXEC_CANCELLED ?m rec"
        by (rule appendEventLocked_record [OF a [unfolded y]])
      have p: "passage cfg rec (svc_store s) ?rec st'"
        by (rule passage_exec [OF a [unfolded y], where k = k and e = e and e' = ?e])
          (use lk nt in \<open>simp_all add: r' same_log_fields_def same_identity_def resolve_step_exec isExecTerminal_def\<close>)
      have s': "s' = (put_record sid ?rec st' s)\<lparr>svc_cancelled :=
          (if k \<in> sr_exec_cancel rec' then insert k (svc_cancelled s) else svc_cancelled s)\<rparr>" "r = Inr ()"
        using assms Inr x nt a y by (simp_all add: CancelExec_def Let_def)
      have "gm_get (sr_execs ?rec) k = Some ?e" by simp
      with lk nt p s' show ?thesis by blast
    qed
  qed
qed

end
