(* ===== verification/Daemon.thy ===== *)
theory Daemon
  imports Exec_Upd "HOL-Library.Multiset"
begin

text \<open>
  The daemon as a transition system: gRPC handlers, goroutines at their lock boundaries, the
  cleanup loop and the container watch, in any order; and the invariants of every state it can
  reach.  The invariants are proved once, for any event store and id registry that keep the
  promises of \<open>event_store\<close> and \<open>id_registry\<close>, in the locale \<open>daemon_model\<close>.
\<close>

section \<open>The transition system\<close>

text \<open>
  A goroutine waits for its first critical section or, past it, for the backend.  \<open>dm_purging\<close>
  holds the sandboxes that the store has purged and the map not yet.
\<close>

datatype goroutine = Started task | InBackend task

record ('st, 'r) daemon =
  dm_service :: "('st, 'r) service"
  dm_goroutines :: "goroutine multiset"
  dm_purging :: "string list"

definition spawn :: "('st, 'r) service \<Rightarrow> task list \<Rightarrow> ('st, 'r) daemon \<Rightarrow> ('st, 'r) daemon" where
  "spawn s ts d = d\<lparr>dm_service := s, dm_goroutines := dm_goroutines d + mset (map Started ts)\<rparr>"

definition continue ::
  "goroutine \<Rightarrow> goroutine list \<Rightarrow> ('st, 'r) service \<Rightarrow> ('st, 'r) daemon \<Rightarrow> ('st, 'r) daemon" where
  "continue g gs s d =
     d\<lparr>dm_service := s, dm_goroutines := dm_goroutines d - {#g#} + mset gs\<rparr>"

definition initial_daemon :: "('st, 'r) service_config \<Rightarrow> 'st \<Rightarrow> 'r \<Rightarrow> ('st, 'r) daemon" where
  "initial_daemon cfg st r =
     \<lparr>dm_service = snd (NewService cfg st r), dm_goroutines = {#}, dm_purging = []\<rparr>"

inductive daemon_step ::
  "('st, 'r) service_config \<Rightarrow> ('st, 'r) daemon \<Rightarrow> ('st, 'r) daemon \<Rightarrow> bool"
  for cfg d where
  rpc_create:
    "CreateSandbox cfg env now uuids req (dm_service d) = Some (s, ts, r)
       \<Longrightarrow> daemon_step cfg d (spawn s ts d)"
| rpc_resume:
    "ResumeSandbox cfg now sid (dm_service d) = (s, ts, r) \<Longrightarrow> daemon_step cfg d (spawn s ts d)"
| rpc_stop:
    "StopSandbox cfg now sid (dm_service d) = (s, ts, r) \<Longrightarrow> daemon_step cfg d (spawn s ts d)"
| rpc_delete:
    "DeleteSandbox cfg now sid (dm_service d) = (s, ts, r) \<Longrightarrow> int64_time now
       \<Longrightarrow> daemon_step cfg d (spawn s ts d)"
| rpc_delete_many:
    "DeleteSandboxes cfg now sel (dm_service d) = (s, ts, rs) \<Longrightarrow> daemon_step cfg d (spawn s ts d)"
| rpc_create_exec:
    "CreateExec cfg env now uuids xreq (dm_service d) = Some (s, ts, rx) \<Longrightarrow> '''' \<notin> set uuids
       \<Longrightarrow> daemon_step cfg d (spawn s ts d)"
| rpc_cancel_exec:
    "CancelExec cfg now k (dm_service d) = (s, ts, r) \<Longrightarrow> daemon_step cfg d (spawn s ts d)"
| create_begins:
    "Started (CompleteSandboxCreate sid) \<in># dm_goroutines d
       \<Longrightarrow> create_prepare cfg now sid (dm_service d) = (s, go)
       \<Longrightarrow> daemon_step cfg d (continue (Started (CompleteSandboxCreate sid))
             (if go then [InBackend (CompleteSandboxCreate sid)] else []) s d)"
| create_no_log_dir:
    "InBackend (CompleteSandboxCreate sid) \<in># dm_goroutines d
       \<Longrightarrow> daemon_step cfg d (continue (InBackend (CompleteSandboxCreate sid)) []
             (create_log_dir_failed cfg now sid err (dm_service d)) d)"
| create_ends:
    "InBackend (CompleteSandboxCreate sid) \<in># dm_goroutines d
       \<Longrightarrow> create_finish cfg now sid result (dm_service d) = (s, ts, del)
       \<Longrightarrow> daemon_step cfg d
             (continue (InBackend (CompleteSandboxCreate sid)) (map Started ts) s d)"
| companion_status:
    "Started (CompleteCompanionContainerStartup sid) \<in># dm_goroutines d
       \<Longrightarrow> companion_startup_step cfg now sid status (dm_service d) = (s, go)
       \<Longrightarrow> daemon_step cfg d (continue (Started (CompleteCompanionContainerStartup sid))
             (if go then [Started (CompleteCompanionContainerStartup sid)] else []) s d)"
| companion_channel_closed:
    "Started (CompleteCompanionContainerStartup sid) \<in># dm_goroutines d
       \<Longrightarrow> daemon_step cfg d
             (continue (Started (CompleteCompanionContainerStartup sid)) [] (dm_service d) d)"
| resume_begins:
    "Started (CompleteSandboxResume sid) \<in># dm_goroutines d
       \<Longrightarrow> daemon_step cfg d (continue (Started (CompleteSandboxResume sid))
             (if resume_prepare sid (dm_service d) then [InBackend (CompleteSandboxResume sid)] else [])
             (dm_service d) d)"
| resume_ends:
    "InBackend (CompleteSandboxResume sid) \<in># dm_goroutines d
       \<Longrightarrow> daemon_step cfg d (continue (InBackend (CompleteSandboxResume sid)) []
             (resume_finish cfg now sid rresult (dm_service d)) d)"
| stop_begins:
    "Started (CompleteSandboxStop sid reason) \<in># dm_goroutines d
       \<Longrightarrow> daemon_step cfg d (continue (Started (CompleteSandboxStop sid reason))
             (if stop_prepare sid (dm_service d) then [InBackend (CompleteSandboxStop sid reason)] else [])
             (dm_service d) d)"
| stop_ends:
    "InBackend (CompleteSandboxStop sid reason) \<in># dm_goroutines d
       \<Longrightarrow> daemon_step cfg d (continue (InBackend (CompleteSandboxStop sid reason)) []
             (stop_finish cfg now sid reason e (dm_service d)) d)"
| delete_begins:
    "Started (CompleteSandboxDelete sid reason) \<in># dm_goroutines d
       \<Longrightarrow> daemon_step cfg d (continue (Started (CompleteSandboxDelete sid reason))
             (if delete_prepare sid (dm_service d) then [InBackend (CompleteSandboxDelete sid reason)] else [])
             (dm_service d) d)"
| delete_ends:
    "InBackend (CompleteSandboxDelete sid reason) \<in># dm_goroutines d \<Longrightarrow> int64_time now
       \<Longrightarrow> daemon_step cfg d (continue (InBackend (CompleteSandboxDelete sid reason)) []
             (delete_finish cfg now sid reason e (dm_service d)) d)"
| exec_begins:
    "Started (CompleteExec k) \<in># dm_goroutines d
       \<Longrightarrow> daemon_step cfg d (continue (Started (CompleteExec k))
             (case exec_prepare k (dm_service d) of None \<Rightarrow> [] | Some _ \<Rightarrow> [InBackend (CompleteExec k)])
             (dm_service d) d)"
| exec_ends:
    "InBackend (CompleteExec k) \<in># dm_goroutines d
       \<Longrightarrow> daemon_step cfg d (continue (InBackend (CompleteExec k)) []
             (exec_finish cfg now k exitCode runErr (dm_service d)) d)"
| stop_after_failure:
    "Started (StopAfterFailure sid) \<in># dm_goroutines d
       \<Longrightarrow> daemon_step cfg d (continue (Started (StopAfterFailure sid)) [] (dm_service d) d)"
| idle_scan:
    "idleScanAndStop cfg now (dm_service d) = (s, ts) \<Longrightarrow> daemon_step cfg d (spawn s ts d)"
| stopped_scan:
    "cleanupStoppedSandboxes cfg now (dm_service d) = (s, ts) \<Longrightarrow> daemon_step cfg d (spawn s ts d)"
| purge_store:
    "dm_purging d = [] \<Longrightarrow> cleanup_store cfg now (dm_service d) = Inr (removed, s)
       \<Longrightarrow> daemon_step cfg d (d\<lparr>dm_service := s, dm_purging := removed\<rparr>)"
| purge_map:
    "daemon_step cfg d
       (d\<lparr>dm_service := purge_boxes (dm_purging d) (dm_service d), dm_purging := []\<rparr>)"
| container_event:
    "handleEvent cfg inspect now event (dm_service d) = (s, ts) \<Longrightarrow> daemon_step cfg d (spawn s ts d)"
| reconcile:
    "reconcileAll cfg inspect now (dm_service d) = (s, ts) \<Longrightarrow> daemon_step cfg d (spawn s ts d)"

text \<open>
  The runs: from an empty daemon, as long as no sandbox has logged \<open>2 ^ 64\<close> events (the counter
  would wrap).
\<close>

definition log_bound :: "('st, 'r) service \<Rightarrow> bool" where
  "log_bound s \<longleftrightarrow>
     (\<forall>sid rec. gm_get (svc_boxes s) sid = Some rec \<longrightarrow> length (sr_events rec) < 2 ^ 64)"

inductive reachable ::
  "('st, 'r) service_config \<Rightarrow> 'st \<Rightarrow> 'r \<Rightarrow> ('st, 'r) daemon \<Rightarrow> bool"
  for cfg st0 r0 where
  init: "reachable cfg st0 r0 (initial_daemon cfg st0 r0)"
| step: "reachable cfg st0 r0 d \<Longrightarrow> daemon_step cfg d d' \<Longrightarrow> log_bound (dm_service d')
           \<Longrightarrow> reachable cfg st0 r0 d'"

lemma dm_service_simps [simp]:
  "dm_service (spawn s ts d) = s" "dm_purging (spawn s ts d) = dm_purging d"
  "dm_service (continue g gs s d) = s" "dm_purging (continue g gs s d) = dm_purging d"
  by (simp_all add: spawn_def continue_def)

section \<open>The invariants\<close>

text \<open>
  \<open>boxes_ok\<close>: each record sits under its id, its log is numbered, its execs agree with the log,
  and, when the store takes every event, its state is the last state logged.
  \<open>store_agrees\<close>: the store holds the log and the specification of every record; of one that is
  being purged it holds what was appended since.
  \<open>ids_ok\<close>: every sandbox id in use is reserved, and the store has no log of an id never reserved.
  \<open>index_ok\<close>: the exec index is the exec tables.
  \<open>cancelled_ok\<close>: an exec whose context was cancelled is cancelled.
\<close>

definition boxes_ok :: "('st, 'r) service_config \<Rightarrow> ('st, 'r) service \<Rightarrow> bool" where
  "boxes_ok cfg s \<longleftrightarrow> keyed s
     \<and> (\<forall>sid rec. gm_get (svc_boxes s) sid = Some rec \<longrightarrow>
          rec_ok rec \<and> (infallible (cfg_event_store cfg) \<longrightarrow> synced rec))"

definition store_agrees ::
  "('st \<Rightarrow> string \<Rightarrow> sandbox_event list) \<Rightarrow> ('st \<Rightarrow> string \<Rightarrow> create_spec option) \<Rightarrow> string list
     \<Rightarrow> ('st, 'r) service \<Rightarrow> bool" where
  "store_agrees slog scfg purging s \<longleftrightarrow>
     (\<forall>sid rec. gm_get (svc_boxes s) sid = Some rec \<longrightarrow>
        (\<exists>n \<le> length (sr_events rec). slog (svc_store s) sid = drop n (sr_events rec)
           \<and> (sid \<notin> set purging \<longrightarrow> n = 0 \<and> scfg (svc_store s) sid = Some (sr_create_spec rec))))"

definition ids_ok ::
  "('st \<Rightarrow> string \<Rightarrow> sandbox_event list) \<Rightarrow> ('r \<Rightarrow> string set) \<Rightarrow> ('st, 'r) service \<Rightarrow> bool" where
  "ids_ok slog sids s \<longleftrightarrow> gm_keys (svc_boxes s) \<subseteq> sids (svc_registry s)
     \<and> (\<forall>k. k \<notin> sids (svc_registry s) \<longrightarrow> slog (svc_store s) k = [])"

definition index_ok :: "('r \<Rightarrow> string set) \<Rightarrow> ('st, 'r) service \<Rightarrow> bool" where
  "index_ok eids s \<longleftrightarrow>
     (\<forall>k sid. gm_get (svc_execs s) k = Some sid \<longleftrightarrow>
        (\<exists>rec. gm_get (svc_boxes s) sid = Some rec \<and> k \<in> gm_keys (sr_execs rec)))
     \<and> gm_keys (svc_execs s) \<subseteq> eids (svc_registry s)"

definition cancelled_ok :: "('r \<Rightarrow> string set) \<Rightarrow> ('st, 'r) service \<Rightarrow> bool" where
  "cancelled_ok eids s \<longleftrightarrow>
     (\<forall>k \<in> svc_cancelled s. k \<in> eids (svc_registry s)
        \<and> (\<forall>sid rec e. gm_get (svc_boxes s) sid = Some rec \<longrightarrow> gm_get (sr_execs rec) k = Some e
             \<longrightarrow> es_state e = EXEC_STATE_CANCELLED))"

lemma boxes_ok_keyed: "boxes_ok cfg s \<Longrightarrow> keyed s"
  by (simp add: boxes_ok_def)

lemma boxes_okD:
  "boxes_ok cfg s \<Longrightarrow> gm_get (svc_boxes s) sid = Some rec \<Longrightarrow>
     rec_ok rec \<and> sh_sandbox_id (sr_handle rec) = sid \<and> (infallible (cfg_event_store cfg) \<longrightarrow> synced rec)"
  by (auto simp: boxes_ok_def keyed_def)

section \<open>What one passage preserves\<close>

lemma put_boxes_ok:
  assumes "boxes_ok cfg s" and "gm_get (svc_boxes s) sid = Some rec"
    and "passage cfg rec (svc_store s) rec' st'"
  shows "boxes_ok cfg (put_record sid rec' st' s)"
  using assms boxes_okD [OF assms(1,2)]
  by (auto simp: boxes_ok_def keyed_def passage_def extends_def same_identity_def)

lemma put_index_ok:
  assumes "index_ok eids s" and "gm_get (svc_boxes s) sid = Some rec"
    and "passage cfg rec (svc_store s) rec' st'"
  shows "index_ok eids (put_record sid rec' st' s)"
  using assms by (auto simp: index_ok_def passage_def exec_stable_def)

lemma put_cancelled_ok:
  assumes "cancelled_ok eids s" and b: "gm_get (svc_boxes s) sid = Some rec"
    and "passage cfg rec (svc_store s) rec' st'"
  shows "cancelled_ok eids (put_record sid rec' st' s)"
  unfolding cancelled_ok_def
proof (intro ballI conjI allI impI)
  fix k
  assume "k \<in> svc_cancelled (put_record sid rec' st' s)"
  then have k: "k \<in> svc_cancelled s" by simp
  with assms(1) show "k \<in> eids (svc_registry (put_record sid rec' st' s))"
    by (simp add: cancelled_ok_def)
  fix sid2 rec2 e
  assume g: "gm_get (svc_boxes (put_record sid rec' st' s)) sid2 = Some rec2"
    and e: "gm_get (sr_execs rec2) k = Some e"
  show "es_state e = EXEC_STATE_CANCELLED"
  proof (cases "sid2 = sid")
    case False
    with g e k assms(1) show ?thesis by (auto simp: cancelled_ok_def)
  next
    case True
    with g have r: "rec2 = rec'" by simp
    from assms(3) have st: "exec_stable rec rec'" by (simp add: passage_def)
    with e r obtain e0 where e0: "gm_get (sr_execs rec) k = Some e0"
      by (metis exec_stable_def gm_get_Some_key)
    with k b assms(1) have "es_state e0 = EXEC_STATE_CANCELLED" by (auto simp: cancelled_ok_def)
    with st e0 e r show ?thesis by (fastforce simp: exec_stable_def isExecTerminal_def)
  qed
qed

lemma passage_grows:
  "passage cfg rec st rec' st' \<Longrightarrow> length (sr_events rec) \<le> length (sr_events rec')"
  by (auto simp: passage_def extends_def)

lemma upd_log_bound: "upd cfg s s' \<Longrightarrow> log_bound s' \<Longrightarrow> log_bound s"
proof (induction rule: upd.induct)
  case none
  then show ?case .
next
  case (put s1 sid rec rec' st')
  have "log_bound s1"
    unfolding log_bound_def
  proof (intro allI impI)
    fix k r
    assume g: "gm_get (svc_boxes s1) k = Some r"
    show "length (sr_events r) < 2 ^ 64"
    proof (cases "k = sid")
      case True
      with g put.hyps(2) have "r = rec" by simp
      with passage_grows [OF put.hyps(3)] put.prems show ?thesis
        by (auto simp: log_bound_def dest: spec [of _ sid])
    next
      case False
      with g put.prems show ?thesis by (auto simp: log_bound_def dest: spec [of _ k])
    qed
  qed
  with put.IH show ?case .
qed

section \<open>The shapes of a step\<close>

text \<open>
  Every step is a sequence of passages, but the two creations, the cancellation of an exec and the
  two halves of a purge.
\<close>

lemma step_shape [consumes 2, case_names upd create create_exec cancel_exec purge_store purge_map]:
  assumes "daemon_step cfg d d'" and kd: "keyed (dm_service d)"
    and u: "upd cfg (dm_service d) (dm_service d') \<Longrightarrow> dm_purging d' = dm_purging d \<Longrightarrow> thesis"
    and c: "\<And>env now uuids req ts r. CreateSandbox cfg env now uuids req (dm_service d) = Some (dm_service d', ts, r)
              \<Longrightarrow> dm_purging d' = dm_purging d \<Longrightarrow> thesis"
    and x: "\<And>env now uuids req ts r. CreateExec cfg env now uuids req (dm_service d) = Some (dm_service d', ts, r)
              \<Longrightarrow> '''' \<notin> set uuids \<Longrightarrow> dm_purging d' = dm_purging d \<Longrightarrow> thesis"
    and k: "\<And>now k ts r. CancelExec cfg now k (dm_service d) = (dm_service d', ts, r)
              \<Longrightarrow> dm_purging d' = dm_purging d \<Longrightarrow> thesis"
    and p: "\<And>now. dm_purging d = [] \<Longrightarrow>
              cleanup_store cfg now (dm_service d) = Inr (dm_purging d', dm_service d') \<Longrightarrow> thesis"
    and m: "dm_service d' = purge_boxes (dm_purging d) (dm_service d) \<Longrightarrow> dm_purging d' = [] \<Longrightarrow> thesis"
  shows thesis
  using assms(1)
proof (cases rule: daemon_step.cases)
  case (rpc_create env now uuids req s ts r)
  with c show thesis by simp
next
  case (rpc_resume now sid s ts r)
  with u [OF _ ] Resume_upd show thesis by fastforce
next
  case (rpc_stop now sid s ts r)
  with u Stop_upd show thesis by fastforce
next
  case (rpc_delete now sid s ts r)
  with u Delete_upd [OF _ kd] show thesis by fastforce
next
  case (rpc_delete_many now sel s ts rs)
  with u DeleteSandboxes_upd [OF _ kd] show thesis by fastforce
next
  case (rpc_create_exec env now uuids xreq s ts rx)
  with x show thesis by simp
next
  case (rpc_cancel_exec now k s ts r)
  with k show thesis by simp
next
  case (create_begins sid now s go)
  with u create_prepare_upd show thesis by fastforce
next
  case (create_no_log_dir sid now err)
  with u create_log_dir_failed_upd show thesis by fastforce
next
  case (create_ends sid now result s ts del)
  with u create_finish_upd show thesis by fastforce
next
  case (companion_status sid now status s go)
  with u companion_startup_upd show thesis by fastforce
next
  case (resume_ends sid now rresult)
  with u resume_finish_upd show thesis by fastforce
next
  case (stop_ends sid reason now e)
  with u stop_finish_upd show thesis by fastforce
next
  case (delete_ends sid reason now e)
  with u delete_finish_upd [OF kd] show thesis by fastforce
next
  case (exec_ends k now exitCode runErr)
  with u exec_finish_upd show thesis by fastforce
next
  case (idle_scan now s ts)
  with u idleScan_upd [OF _ kd] show thesis by fastforce
next
  case (stopped_scan now s ts)
  with u cleanupStopped_upd [OF _ kd] show thesis by fastforce
next
  case (purge_store now removed s)
  with p show thesis by simp
next
  case purge_map
  with m show thesis by simp
next
  case (container_event inspect now event s ts)
  with u handleEvent_upd show thesis by fastforce
next
  case (reconcile inspect now s ts)
  with u reconcileAll_upd [OF _ kd] show thesis by fastforce
qed (use u in simp_all)

section \<open>The invariants of every run\<close>

locale daemon_model =
  event_store "cfg_event_store cfg" inv slog sdel scfg sexe +
  id_registry "cfg_id_registry cfg" sids eids
  for cfg :: "('st, 'r) service_config"
    and inv :: "'st \<Rightarrow> bool"
    and slog :: "'st \<Rightarrow> string \<Rightarrow> sandbox_event list"
    and sdel :: "'st \<Rightarrow> string \<Rightarrow> time option"
    and scfg :: "'st \<Rightarrow> string \<Rightarrow> create_spec option"
    and sexe :: "'st \<Rightarrow> string \<Rightarrow> string \<Rightarrow> create_exec_request option"
    and sids :: "'r \<Rightarrow> string set"
    and eids :: "'r \<Rightarrow> string set"
begin

definition svc_inv :: "string list \<Rightarrow> ('st, 'r) service \<Rightarrow> bool" where
  "svc_inv purging s \<longleftrightarrow>
     inv (svc_store s) \<and> boxes_ok cfg s \<and> store_agrees slog scfg purging s
     \<and> ids_ok slog sids s \<and> index_ok eids s \<and> cancelled_ok eids s"

lemma store_runs_view:
  assumes "store_runs (cfg_event_store cfg) k st es st'" and "inv st"
    and "log_ordered (slog st k @ es)"
  shows "inv st' \<and> slog st' = (slog st)(k := slog st k @ es) \<and> scfg st' = scfg st \<and> sexe st' = sexe st
    \<and> (\<forall>j. j \<noteq> k \<longrightarrow> sdel st' j = sdel st j)"
  using assms
proof (induction rule: store_runs.induct)
  case nil
  then show ?case by simp
next
  case (append es st1 e st2)
  from append.prems(2) have o: "log_ordered (slog st k @ es)"
    by (auto simp: log_ordered_def sorted_wrt_append)
  note i = append.IH [OF append.prems(1) o]
  have "next_in_log (slog st1 k) e"
    using append.prems(2) i by (auto simp: log_ordered_def next_in_log_def sorted_wrt_append)
  from event_store.append [OF event_store_axioms _ this append.hyps(2)] i show ?case
    by (auto simp: fun_eq_iff)
next
  case (mark es st1 t st2)
  note i = mark.IH [OF mark.prems]
  from mark_deleted [OF _ mark.hyps(2,3)] i show ?case by auto
qed

text \<open>A passage appends to the store what it appends to the record.\<close>

lemma put_store_view:
  assumes "inv (svc_store s)" and "boxes_ok cfg s" and ag: "store_agrees slog scfg P s"
    and b: "gm_get (svc_boxes s) sid = Some rec" and p: "extends cfg rec (svc_store s) rec' st'"
    and bound: "length (sr_events rec') < 2 ^ 64"
  shows "\<exists>es. sr_events rec' = sr_events rec @ es \<and> inv st'
    \<and> slog st' = (slog (svc_store s))(sid := slog (svc_store s) sid @ es)
    \<and> scfg st' = scfg (svc_store s) \<and> sexe st' = sexe (svc_store s)
    \<and> (\<forall>j. j \<noteq> sid \<longrightarrow> sdel st' j = sdel (svc_store s) j)"
proof -
  from p boxes_okD [OF assms(2) b] obtain es where es: "sr_events rec' = sr_events rec @ es"
    and run: "store_runs (cfg_event_store cfg) sid (svc_store s) es st'" and rok: "rec_ok rec'"
    unfolding extends_def by auto
  from ag b obtain n where "n \<le> length (sr_events rec)" "slog (svc_store s) sid = drop n (sr_events rec)"
    unfolding store_agrees_def by blast
  then have all: "slog (svc_store s) sid @ es = drop n (sr_events rec')" using es by simp
  have "log_ordered (sr_events rec')"
    using rok bound numbered_ordered by (simp add: rec_ok_def log_ok_def)
  then have "log_ordered (drop n (sr_events rec'))"
    unfolding log_ordered_def by (simp add: sorted_wrt_drop drop_map [symmetric])
  with all store_runs_view [OF run assms(1)] es show ?thesis by auto
qed

lemma put_store_extends:
  assumes i: "inv (svc_store s)" and bx: "boxes_ok cfg s" and ag: "store_agrees slog scfg P s"
    and io: "ids_ok slog sids s"
    and b: "gm_get (svc_boxes s) sid = Some rec" and p: "extends cfg rec (svc_store s) rec' st'"
    and bound: "length (sr_events rec') < 2 ^ 64"
  shows "inv st' \<and> store_agrees slog scfg P (put_record sid rec' st' s)
    \<and> ids_ok slog sids (put_record sid rec' st' s)"
proof -
  from put_store_view [OF i bx ag b p bound] obtain es where es: "sr_events rec' = sr_events rec @ es"
    and v: "inv st'" "slog st' = (slog (svc_store s))(sid := slog (svc_store s) sid @ es)"
      "scfg st' = scfg (svc_store s)" by blast
  have spec: "sr_create_spec rec' = sr_create_spec rec" using p by (simp add: extends_def same_identity_def)
  have "store_agrees slog scfg P (put_record sid rec' st' s)"
    unfolding store_agrees_def
  proof (intro allI impI)
    fix k r
    assume g: "gm_get (svc_boxes (put_record sid rec' st' s)) k = Some r"
    show "\<exists>n \<le> length (sr_events r). slog (svc_store (put_record sid rec' st' s)) k = drop n (sr_events r)
       \<and> (k \<notin> set P \<longrightarrow> n = 0 \<and> scfg (svc_store (put_record sid rec' st' s)) k = Some (sr_create_spec r))"
    proof (cases "k = sid")
      case True
      from ag b obtain n where "n \<le> length (sr_events rec)"
          "slog (svc_store s) sid = drop n (sr_events rec)"
          "sid \<notin> set P \<longrightarrow> n = 0 \<and> scfg (svc_store s) sid = Some (sr_create_spec rec)"
        unfolding store_agrees_def by blast
      with True g v es spec show ?thesis by (intro exI [of _ n]) auto
    next
      case False
      with g v ag show ?thesis unfolding store_agrees_def by simp
    qed
  qed
  moreover have "ids_ok slog sids (put_record sid rec' st' s)"
    using io b v by (auto simp: ids_ok_def gm_get_Some_key subset_iff)
  ultimately show ?thesis using v by blast
qed

lemma put_inv:
  assumes "svc_inv P s" and "gm_get (svc_boxes s) sid = Some rec"
    and "passage cfg rec (svc_store s) rec' st'" and "length (sr_events rec') < 2 ^ 64"
  shows "svc_inv P (put_record sid rec' st' s)"
proof -
  have "extends cfg rec (svc_store s) rec' st'" using assms(3) by (simp add: passage_def)
  from put_store_extends [where P = P, OF _ _ _ _ assms(2) this assms(4)] assms(1)
  have "inv st' \<and> store_agrees slog scfg P (put_record sid rec' st' s)
      \<and> ids_ok slog sids (put_record sid rec' st' s)" by (simp add: svc_inv_def)
  with assms put_boxes_ok put_index_ok put_cancelled_ok show ?thesis
    unfolding svc_inv_def by fastforce
qed

lemma upd_inv:
  assumes "upd cfg s s'" and "svc_inv P s" and "log_bound s'"
  shows "svc_inv P s'"
  using assms
proof (induction rule: upd.induct)
  case none
  then show ?case by simp
next
  case (put s1 sid rec rec' st')
  have "upd cfg s1 (put_record sid rec' st' s1)" using put.hyps(2,3) by (rule upd_put)
  from upd_log_bound [OF this put.prems(2)] put.IH put.prems(1) have i: "svc_inv P s1" by blast
  have "length (sr_events rec') < 2 ^ 64"
    using put.prems(2) by (auto simp: log_bound_def dest: spec [of _ sid])
  from put_inv [OF i put.hyps(2,3) this] show ?case .
qed

subsection \<open>Creation\<close>

lemma release_sandbox_sids:
  assumes "release_sandbox_id cfg k err r = (r', msg)" and "sids r = insert k S" and "k \<notin> S"
  shows "eids r' = eids r \<and> (sids r' = S \<or> sids r' = sids r)"
proof (cases "ir_release_sandbox_id (cfg_id_registry cfg) r k")
  case (Inl e)
  with assms(1) show ?thesis by (auto simp: release_sandbox_id_def)
next
  case (Inr r1)
  with assms(1) have "r1 = r'" by (simp add: release_sandbox_id_def)
  with release_sandbox [OF Inr] assms(2,3) show ?thesis by auto
qed

text \<open>A change of the registry, or of the configuration of an id that is not in use.\<close>

lemma svc_inv_registry:
  assumes "svc_inv P s" and "inv st'" and "slog st' = slog (svc_store s)"
    and "\<And>k. k \<noteq> sid \<Longrightarrow> scfg st' k = scfg (svc_store s) k"
    and "sid \<notin> gm_keys (svc_boxes s)" and "slog (svc_store s) sid = []"
    and "sids (svc_registry s) \<subseteq> insert sid (sids r')" and "sids (svc_registry s) - {sid} \<subseteq> sids r'"
    and "gm_keys (svc_boxes s) \<subseteq> sids r'"
    and "eids r' = eids (svc_registry s)"
  shows "svc_inv P (s\<lparr>svc_store := st', svc_registry := r'\<rparr>)"
proof -
  have ne: "k \<noteq> sid" if "gm_get (svc_boxes s) k = Some rec" for k rec
    using that assms(5) by (auto simp: gm_get_Some_key)
  have "store_agrees slog scfg P (s\<lparr>svc_store := st', svc_registry := r'\<rparr>)"
    unfolding store_agrees_def
  proof (intro allI impI)
    fix k rec
    assume "gm_get (svc_boxes (s\<lparr>svc_store := st', svc_registry := r'\<rparr>)) k = Some rec"
    then have g: "gm_get (svc_boxes s) k = Some rec" by simp
    from assms(1) g have "\<exists>n \<le> length (sr_events rec). slog (svc_store s) k = drop n (sr_events rec)
        \<and> (k \<notin> set P \<longrightarrow> n = 0 \<and> scfg (svc_store s) k = Some (sr_create_spec rec))"
      unfolding svc_inv_def store_agrees_def by blast
    with assms(3) assms(4) [OF ne [OF g]]
    show "\<exists>n \<le> length (sr_events rec).
        slog (svc_store (s\<lparr>svc_store := st', svc_registry := r'\<rparr>)) k = drop n (sr_events rec)
        \<and> (k \<notin> set P \<longrightarrow> n = 0
           \<and> scfg (svc_store (s\<lparr>svc_store := st', svc_registry := r'\<rparr>)) k = Some (sr_create_spec rec))"
      by simp
  qed
  moreover have "ids_ok slog sids (s\<lparr>svc_store := st', svc_registry := r'\<rparr>)"
    using assms(1,3,6-9) unfolding svc_inv_def ids_ok_def by auto
  ultimately show ?thesis
    using assms(1,2,10)
    by (simp add: svc_inv_def boxes_ok_def keyed_def index_ok_def cancelled_ok_def)
qed

lemma new_record_ok:
  "rec_ok (new_record now sid spec)" "sh_sandbox_id (sr_handle (new_record now sid spec)) = sid"
  "sr_events (new_record now sid spec) = []" "sr_create_spec (new_record now sid spec) = spec"
  "sr_execs (new_record now sid spec) = []" "rec_state (new_record now sid spec) = SANDBOX_STATE_PENDING"
  by (simp_all add: new_record_def rec_ok_def log_ok_def exec_ok_def static_ok_def
      resolveExecStateFromEvents_def)

lemma create_with_id_inv:
  assumes i: "svc_inv P (s\<lparr>svc_registry := r0\<rparr>)"
    and fresh: "sid \<notin> sids r0" "sids (svc_registry s) = insert sid (sids r0)" "eids (svc_registry s) = eids r0"
    and c: "create_with_id cfg now sid spec s = (s', ts, r)"
  shows "svc_inv P s'"
proof -
  let ?s0 = "s\<lparr>svc_registry := r0\<rparr>"
  from i have nb: "sid \<notin> gm_keys (svc_boxes s)" and nl: "slog (svc_store s) sid = []"
    and sub: "gm_keys (svc_boxes s) \<subseteq> sids r0" and inv0: "inv (svc_store s)"
    using fresh(1) by (auto simp: svc_inv_def ids_ok_def)
  have step: "svc_inv P (s\<lparr>svc_store := st', svc_registry := r'\<rparr>)"
    if "inv st'" "slog st' = slog (svc_store s)" "\<And>k. k \<noteq> sid \<Longrightarrow> scfg st' k = scfg (svc_store s) k"
      and r': "eids r' = eids r0" "sids r' = sids r0 \<or> sids r' = insert sid (sids r0)" for st' r'
  proof -
    have "svc_inv P (?s0\<lparr>svc_store := st', svc_registry := r'\<rparr>)"
      by (rule svc_inv_registry [OF i, where sid = sid]) (use that nb nl sub fresh in auto)
    then show ?thesis by simp
  qed
  have rel: "eids r' = eids r0 \<and> (sids r' = sids r0 \<or> sids r' = insert sid (sids r0))"
    if "release_sandbox_id cfg sid err (svc_registry s) = (r', msg)" for err r' msg
    using release_sandbox_sids [OF that fresh(2,1)] fresh by auto
  show ?thesis
  proof (cases "st_save_sandbox_config (cfg_event_store cfg) (svc_store s) sid spec")
    case (Inl err)
    obtain r' msg where r': "release_sandbox_id cfg sid (error_text err) (svc_registry s) = (r', msg)"
      by fastforce
    have "svc_inv P (s\<lparr>svc_store := svc_store s, svc_registry := r'\<rparr>)"
      by (rule step) (use inv0 rel [OF r'] in auto)
    with c Inl r' show ?thesis by (simp add: create_with_id_def)
  next
    case (Inr st1)
    from save_sandbox_config [OF inv0 Inr]
    have st1: "inv st1" "slog st1 = slog (svc_store s)" "scfg st1 = (scfg (svc_store s))(sid \<mapsto> spec)"
      by auto
    let ?m = "no_mutation\<lparr>mu_sandbox_state := SANDBOX_STATE_PENDING\<rparr>"
    let ?rec = "new_record now sid spec"
    show ?thesis
    proof (cases "appendEventLocked cfg now ?rec SANDBOX_ACCEPTED ?m st1")
      case (Inl err)
      define st2 where "st2 = (case st_delete_sandbox_config (cfg_event_store cfg) st1 sid of
                                 Inl _ \<Rightarrow> st1 | Inr st' \<Rightarrow> st')"
      have st2: "inv st2" "slog st2 = slog (svc_store s)"
          "\<And>k. k \<noteq> sid \<Longrightarrow> scfg st2 k = scfg (svc_store s) k"
        using delete_sandbox_config [OF st1(1)] st1 unfolding st2_def
        by (auto split: sum.splits)
      obtain r' msg where r': "release_sandbox_id cfg sid (error_text err) (svc_registry s) = (r', msg)"
        by fastforce
      have "svc_inv P (s\<lparr>svc_store := st2, svc_registry := r'\<rparr>)"
        by (rule step) (use st2 rel [OF r'] in auto)
      with c Inr Inl r' show ?thesis by (simp add: create_with_id_def Let_def st2_def)
    next
      case a: (Inr y)
      obtain rec st2 where y: "y = (rec, st2)" by (cases y)
      have p: "passage cfg ?rec st1 rec st2"
        by (rule passage_keep [OF a [unfolded y]]) (simp_all add: new_record_ok)
      have rr: "rec = appended now SANDBOX_ACCEPTED ?m ?rec"
        by (rule appendEventLocked_record [OF a [unfolded y]])
      have es: "sr_events rec = [new_event now ?rec SANDBOX_ACCEPTED ?m]"
        by (simp add: rr new_record_ok)
      from a y have "st_append (cfg_event_store cfg) st1 sid (new_event now ?rec SANDBOX_ACCEPTED ?m) = Inr st2"
        by (simp add: appendEventLocked_Inr new_record_ok)
      from event_store.append [OF event_store_axioms st1(1) _ this] st1(2) nl
      have st2: "inv st2" "slog st2 = (slog (svc_store s))(sid := sr_events rec)" "scfg st2 = scfg st1"
        using es by (auto simp: next_in_log_def)
      have ro: "rec_ok rec" "sh_sandbox_id (sr_handle rec) = sid" "sr_create_spec rec = spec"
          "sr_execs rec = []" "synced rec"
        using p by (simp_all add: passage_def extends_def new_record_ok rr)
      let ?s' = "s\<lparr>svc_store := st2, svc_boxes := gm_set sid rec (svc_boxes s)\<rparr>"
      have s': "s' = ?s'" using c Inr a y by (simp add: create_with_id_def)
      have bx: "boxes_ok cfg ?s'"
        using i ro by (auto simp: svc_inv_def boxes_ok_def keyed_def)
      have ag: "store_agrees slog scfg P ?s'"
        unfolding store_agrees_def
      proof (intro allI impI)
        fix k r
        assume g: "gm_get (svc_boxes ?s') k = Some r"
        show "\<exists>n \<le> length (sr_events r). slog (svc_store ?s') k = drop n (sr_events r)
          \<and> (k \<notin> set P \<longrightarrow> n = 0 \<and> scfg (svc_store ?s') k = Some (sr_create_spec r))"
        proof (cases "k = sid")
          case True
          with g st2 st1 ro show ?thesis by (intro exI [of _ 0]) auto
        next
          case False
          with g i st2 st1 show ?thesis by (auto simp: svc_inv_def store_agrees_def)
        qed
      qed
      have "ids_ok slog sids ?s'"
        using i st2 fresh sub by (auto simp: svc_inv_def ids_ok_def)
      moreover have "index_ok eids ?s'"
        using i fresh(3) ro(4) nb by (auto simp: svc_inv_def index_ok_def gm_get_Some_key)
      moreover have "cancelled_ok eids ?s'"
        using i fresh(3) ro(4) by (auto simp: svc_inv_def cancelled_ok_def)
      ultimately show ?thesis using bx ag st2(1) by (simp add: s' svc_inv_def)
    qed
  qed
qed

lemma CreateSandbox_inv:
  assumes "svc_inv P s" and "CreateSandbox cfg env now uuids req s = Some (s', ts, r)"
  shows "svc_inv P s'"
proof (cases "checked_spec env req")
  case (Inl e)
  with assms show ?thesis by (simp add: CreateSandbox_def)
next
  case (Inr spec)
  note sp = this
  show ?thesis
  proof (cases "allocateSandboxID (cfg_id_registry cfg) now uuids (cr_sandbox_id req) (svc_registry s)")
    case None
    with assms sp show ?thesis by (simp add: CreateSandbox_def)
  next
    case (Some x)
    show ?thesis
    proof (cases x)
      case (Inl e)
      with assms sp Some show ?thesis by (simp add: CreateSandbox_def)
    next
      case (Inr y)
      obtain sid r' where y: "y = (sid, r')" by (cases y)
      from allocateSandboxID_fresh [OF Some [unfolded Inr y]]
      have f: "sid \<notin> sids (svc_registry s)" "sids r' = insert sid (sids (svc_registry s))"
          "eids r' = eids (svc_registry s)" by auto
      from assms(2) sp Some Inr y
      have c: "create_with_id cfg now sid spec (s\<lparr>svc_registry := r'\<rparr>) = (s', ts, r)"
        by (simp add: CreateSandbox_def)
      show ?thesis
        by (rule create_with_id_inv [OF _ f(1) _ _ c]) (use assms(1) f in simp_all)
    qed
  qed
qed

subsection \<open>Execs\<close>

lemma release_exec_eids:
  assumes "release_exec_id cfg k err r = (r', msg)" and "eids r = insert k E" and "k \<notin> E"
  shows "sids r' = sids r \<and> (eids r' = E \<or> eids r' = eids r)"
proof (cases "ir_release_exec_id (cfg_id_registry cfg) r k")
  case (Inl e)
  with assms(1) show ?thesis by (auto simp: release_exec_id_def)
next
  case (Inr r1)
  with assms(1) have "r1 = r'" by (simp add: release_exec_id_def)
  with release_exec [OF Inr] assms(2,3) show ?thesis by auto
qed

lemma svc_inv_exec_registry:
  assumes "svc_inv P s" and "inv st'" and "slog st' = slog (svc_store s)" and "scfg st' = scfg (svc_store s)"
    and "sids r' = sids (svc_registry s)" and "eids (svc_registry s) \<subseteq> eids r'"
  shows "svc_inv P (s\<lparr>svc_store := st', svc_registry := r'\<rparr>)"
  using assms
  by (auto simp: svc_inv_def boxes_ok_def keyed_def store_agrees_def ids_ok_def index_ok_def cancelled_ok_def)

lemma exec_with_id_inv:
  assumes i: "svc_inv P (s\<lparr>svc_registry := r0\<rparr>)"
    and fresh: "k \<notin> eids r0" "eids (svc_registry s) = insert k (eids r0)" "sids (svc_registry s) = sids r0"
    and k: "k \<noteq> ''''"
    and b: "gm_get (svc_boxes s) (xr_sandbox_id req) = Some rec"
    and c: "exec_with_id cfg env now k req rec s = (s', ts, r)"
    and bound: "log_bound s'"
  shows "svc_inv P s'"
proof -
  let ?s0 = "s\<lparr>svc_registry := r0\<rparr>"
  let ?sid = "xr_sandbox_id req"
  have step: "svc_inv P (s\<lparr>svc_store := st', svc_registry := r'\<rparr>)"
    if "inv st'" "slog st' = slog (svc_store s)" "scfg st' = scfg (svc_store s)"
      "sids r' = sids r0" "eids r0 \<subseteq> eids r'" for st' r'
    using svc_inv_exec_registry [OF i, of st' r'] that by simp
  have rel: "sids r' = sids r0 \<and> eids r0 \<subseteq> eids r'"
    if "release_exec_id cfg k err (svc_registry s) = (r', msg)" for err r' msg
    using release_exec_eids [OF that fresh(2,1)] fresh by auto
  from i have inv0: "inv (svc_store s)" and bx: "boxes_ok cfg s" and idx: "index_ok eids ?s0"
    and cn: "cancelled_ok eids ?s0"
    by (auto simp: svc_inv_def boxes_ok_def keyed_def)
  note ok = boxes_okD [OF bx b]
  have kx: "gm_get (sr_execs q) k = None" if "gm_get (svc_boxes s) sid = Some q" for sid q
  proof (rule ccontr)
    assume "gm_get (sr_execs q) k \<noteq> None"
    then have "gm_get (svc_execs s) k = Some sid"
      using idx that by (auto simp: index_ok_def gm_get_Some_key)
    then have "k \<in> eids r0" using idx by (auto simp: index_ok_def gm_get_Some_key subset_iff)
    with fresh(1) show False by simp
  qed
  let ?copy = "\<lparr>xr_sandbox_id = ?sid, xr_command = xr_command req, xr_cwd = xr_cwd req,
    xr_env_overrides = cloneStringMap (xr_env_overrides req), xr_exec_id = k\<rparr>"
  show ?thesis
  proof (cases "st_save_exec_config (cfg_event_store cfg) (svc_store s) ?sid ?copy")
    case (Inl err)
    obtain r' msg where r': "release_exec_id cfg k (error_text err) (svc_registry s) = (r', msg)" by fastforce
    have "svc_inv P (s\<lparr>svc_store := svc_store s, svc_registry := r'\<rparr>)"
      by (rule step) (use inv0 rel [OF r'] in auto)
    with c Inl r' show ?thesis by (simp add: exec_with_id_def Let_def)
  next
    case (Inr st1)
    note sv = this
    from save_exec_config [OF inv0 Inr]
    have st1: "inv st1" "slog st1 = slog (svc_store s)" "scfg st1 = scfg (svc_store s)" by auto
    have i1: "svc_inv P (s\<lparr>svc_store := st1, svc_registry := svc_registry s\<rparr>)"
      by (rule step) (use st1 fresh in auto)
    show ?thesis
    proof (cases "prepareExecArtifactPaths cfg env (sh_sandbox_id (sr_handle rec)) k")
      case (Inl err)
      with c sv i1 show ?thesis by (simp add: exec_with_id_def Let_def)
    next
      case (Inr paths)
      note pa = this
      let ?m = "no_mutation\<lparr>mu_exec_id := k, mu_exec_state := EXEC_STATE_RUNNING\<rparr>"
      show ?thesis
      proof (cases "appendEventLocked cfg now rec EXEC_STARTED ?m st1")
        case (Inl err)
        obtain r' msg where r': "release_exec_id cfg k (error_text err) (svc_registry s) = (r', msg)" by fastforce
        have "svc_inv P (s\<lparr>svc_store := st1, svc_registry := r'\<rparr>)"
          by (rule step) (use st1 rel [OF r'] in auto)
        with c sv pa Inl r' show ?thesis by (simp add: exec_with_id_def Let_def)
      next
        case a: (Inr y)
        obtain rec' st2 where y: "y = (rec', st2)" by (cases y)
        let ?e = "running_exec k req"
        let ?rec = "rec'\<lparr>sr_execs := gm_set k ?e (sr_execs rec'),
          sr_exec_cancel := insert k (sr_exec_cancel rec')\<rparr>"
        let ?s1 = "s\<lparr>svc_store := st1\<rparr>"
        have s': "s' = put_record ?sid ?rec st2 (s\<lparr>svc_execs := gm_set k ?sid (svc_execs s)\<rparr>)"
          using c sv pa a y by (simp add: exec_with_id_def Let_def)
        have rr: "rec' = appended now EXEC_STARTED ?m rec"
          by (rule appendEventLocked_record [OF a [unfolded y]])
        have ex: "extends cfg rec st1 ?rec st2"
        proof (rule extends_exec [OF a [unfolded y], where k = k and e' = ?e])
          assume "rec_ok rec"
          with kx [OF b] have "resolveExecStateFromEvents (sr_events rec) k =
              (EXEC_STATE_UNSPECIFIED, 0, '''', '''')"
            by (auto simp: rec_ok_def exec_ok_def dest: spec [of _ k])
          with k ok show "k \<noteq> '''' \<and> es_exec_id ?e = k
            \<and> es_sandbox_id ?e = sh_sandbox_id (sr_handle rec)
            \<and> (\<exists>code. resolve_exec_step k (new_event now rec EXEC_STARTED ?m)
                  (resolveExecStateFromEvents (sr_events rec) k)
                = (es_state ?e, es_exit_code ?e, code, es_error ?e))"
            by (simp add: running_exec_def resolve_step_exec)
        qed (simp_all add: rr same_log_fields_def same_identity_def)
        have sy: "infallible (cfg_event_store cfg) \<longrightarrow> synced ?rec"
          using ok synced_frame [of ?rec rec'] by (simp add: rr)
        have lb: "length (sr_events ?rec) < 2 ^ 64"
          using bound s' by (auto simp: log_bound_def dest: spec [of _ ?sid])
        have i1': "svc_inv P ?s1" using i1 by simp
        have view: "inv st2 \<and> store_agrees slog scfg P (put_record ?sid ?rec st2 ?s1)
            \<and> ids_ok slog sids (put_record ?sid ?rec st2 ?s1)"
        proof (rule put_store_extends)
          show "inv (svc_store ?s1)" "boxes_ok cfg ?s1" "store_agrees slog scfg P ?s1" "ids_ok slog sids ?s1"
            using i1' by (simp_all add: svc_inv_def)
          show "gm_get (svc_boxes ?s1) ?sid = Some rec" using b by simp
          show "extends cfg rec (svc_store ?s1) ?rec st2" using ex by simp
          show "length (sr_events ?rec) < 2 ^ 64" by (rule lb)
        qed
        have "boxes_ok cfg s'"
          using bx ex sy ok s' by (auto simp: boxes_ok_def keyed_def extends_def same_identity_def)
        moreover have "store_agrees slog scfg P s'" "ids_ok slog sids s'" "inv (svc_store s')"
          using view by (simp_all add: s' store_agrees_def ids_ok_def)
        moreover have "index_ok eids s'"
          unfolding index_ok_def
        proof (intro conjI allI)
          fix j sid
          show "gm_get (svc_execs s') j = Some sid \<longleftrightarrow>
              (\<exists>q. gm_get (svc_boxes s') sid = Some q \<and> j \<in> gm_keys (sr_execs q))"
          proof (cases "j = k")
            case True
            have "k \<in> gm_keys (sr_execs q) \<longrightarrow> gm_get (svc_boxes s) sid \<noteq> Some q" for sid q
              using kx [of sid q] by (auto simp: gm_get_Some_key)
            with True show ?thesis by (auto simp: s' split: if_splits)
          next
            case False
            with idx b show ?thesis by (auto simp: s' index_ok_def rr split: if_splits)
          qed
        next
          show "gm_keys (svc_execs s') \<subseteq> eids (svc_registry s')"
            using idx fresh by (auto simp: s' index_ok_def)
        qed
        moreover have "cancelled_ok eids s'"
          unfolding cancelled_ok_def
        proof (intro ballI conjI allI impI)
          fix j
          assume "j \<in> svc_cancelled s'"
          then have j: "j \<in> svc_cancelled s" by (simp add: s')
          with cn have je: "j \<in> eids r0" by (simp add: cancelled_ok_def)
          then show "j \<in> eids (svc_registry s')" using fresh by (simp add: s')
          fix sid q e
          assume g: "gm_get (svc_boxes s') sid = Some q" and e: "gm_get (sr_execs q) j = Some e"
          have "j \<noteq> k" using je fresh(1) by auto
          with g e have "\<exists>q0. gm_get (svc_boxes s) sid = Some q0 \<and> gm_get (sr_execs q0) j = Some e"
            using b by (auto simp: s' rr split: if_splits)
          with cn j show "es_state e = EXEC_STATE_CANCELLED" by (auto simp: cancelled_ok_def)
        qed
        ultimately show ?thesis by (simp add: svc_inv_def)
      qed
    qed
  qed
qed

lemma CreateExec_inv:
  assumes "svc_inv P s" and c: "CreateExec cfg env now uuids req s = Some (s', ts, r)"
    and "'''' \<notin> set uuids" and "log_bound s'"
  shows "svc_inv P s'"
proof (cases "requireSandboxLocked s (xr_sandbox_id req)")
  case (Inl e)
  with assms show ?thesis by (simp add: CreateExec_def)
next
  case (Inr rec)
  note rq = this
  then have b: "gm_get (svc_boxes s) (xr_sandbox_id req) = Some rec"
    by (auto simp: requireSandboxLocked_def split: option.splits)
  show ?thesis
  proof (cases "rec_state rec = SANDBOX_STATE_READY \<and> length (xr_command req) \<noteq> 0")
    case False
    with assms(1) c rq show ?thesis by (auto simp: CreateExec_def split: if_splits)
  next
    case ok: True
    show ?thesis
    proof (cases "allocateExecID (cfg_id_registry cfg) now uuids (xr_exec_id req) (svc_registry s)")
      case None
      with c rq ok show ?thesis by (auto simp: CreateExec_def)
    next
      case (Some x)
      show ?thesis
      proof (cases x)
        case (Inl e)
        with assms(1) c rq ok Some show ?thesis by (auto simp: CreateExec_def)
      next
        case (Inr y)
        obtain k r' where y: "y = (k, r')" by (cases y)
        from allocateExecID_fresh [OF Some [unfolded Inr y]] assms(3)
        have f: "k \<notin> eids (svc_registry s)" "eids r' = insert k (eids (svc_registry s))"
            "sids r' = sids (svc_registry s)" "k \<noteq> ''''"
          by (auto split: if_splits)
        from c rq ok Some Inr y
        have w: "exec_with_id cfg env now k req rec (s\<lparr>svc_registry := r'\<rparr>) = (s', ts, r)"
          by (auto simp: CreateExec_def)
        show ?thesis
          by (rule exec_with_id_inv [OF _ f(1) _ _ f(4) _ w assms(4)]) (use assms(1) f b in simp_all)
      qed
    qed
  qed
qed

lemma CancelExec_inv:
  assumes i: "svc_inv P s" and c: "CancelExec cfg now k s = (s', ts, r)" and bound: "log_bound s'"
  shows "svc_inv P s'"
  using CancelExec_cases [OF c]
proof (elim disjE exE conjE)
  assume "s' = s"
  with i show ?thesis by simp
next
  fix sid rec e rec' st' bb
  assume g: "gm_get (svc_execs s) k = Some sid" "gm_get (svc_boxes s) sid = Some rec"
    and p: "passage cfg rec (svc_store s) rec' st'"
    and e': "gm_get (sr_execs rec') k = Some (e\<lparr>es_state := EXEC_STATE_CANCELLED\<rparr>)"
    and s': "s' = (put_record sid rec' st' s)\<lparr>svc_cancelled :=
                (if bb then insert k (svc_cancelled s) else svc_cancelled s)\<rparr>"
  have "length (sr_events rec') < 2 ^ 64"
    using bound s' by (auto simp: log_bound_def dest: spec [of _ sid])
  from put_inv [OF i g(2) p this] have q: "svc_inv P (put_record sid rec' st' s)" .
  have "cancelled_ok eids s'"
    unfolding cancelled_ok_def
  proof (intro ballI conjI allI impI)
    fix j
    assume j: "j \<in> svc_cancelled s'"
    have kk: "k \<in> eids (svc_registry s)"
      using i g(1) by (auto simp: svc_inv_def index_ok_def gm_get_Some_key subset_iff)
    from q have cq: "cancelled_ok eids (put_record sid rec' st' s)" by (simp add: svc_inv_def)
    show "j \<in> eids (svc_registry s')"
      using j kk cq by (auto simp: s' cancelled_ok_def split: if_splits)
    fix sid2 q2 e2
    assume h: "gm_get (svc_boxes s') sid2 = Some q2" and e2: "gm_get (sr_execs q2) j = Some e2"
    show "es_state e2 = EXEC_STATE_CANCELLED"
    proof (cases "j = k")
      case False
      with j have "j \<in> svc_cancelled s" by (auto simp: s' split: if_splits)
      with cq h e2 show ?thesis by (auto simp: s' cancelled_ok_def split: if_splits)
    next
      case True
      from q have ix: "index_ok eids (put_record sid rec' st' s)" by (simp add: svc_inv_def)
      from h e2 True have "gm_get (svc_execs s) k = Some sid2"
        using ix unfolding index_ok_def by (auto simp: s' gm_get_Some_key)
      with g(1) have "sid2 = sid" by simp
      with h e2 e' True show ?thesis by (simp add: s')
    qed
  qed
  with q show ?thesis
    by (auto simp: s' svc_inv_def boxes_ok_def keyed_def store_agrees_def ids_ok_def index_ok_def)
qed

subsection \<open>Purging\<close>

lemma cleanup_store_inv:
  assumes i: "svc_inv [] s" and c: "cleanup_store cfg now s = Inr (removed, s')"
  shows "svc_inv removed s'"
proof -
  from c obtain st' where cl: "st_cleanup (cfg_event_store cfg) (svc_store s) now (cfg_cleanup_ttl cfg) = Inr (removed, st')"
    and s': "s' = s\<lparr>svc_store := st'\<rparr>"
    by (auto simp: cleanup_store_def res_bind_eq_Inr)
  from i have "inv (svc_store s)" by (simp add: svc_inv_def)
  from cleanup [OF this cl]
  have v: "inv st'" "slog st' = (\<lambda>k. if k \<in> set removed then [] else slog (svc_store s) k)"
      "scfg st' = (\<lambda>k. if k \<in> set removed then None else scfg (svc_store s) k)" by auto
  have "store_agrees slog scfg removed s'"
    unfolding store_agrees_def
  proof (intro allI impI)
    fix sid rec
    assume g: "gm_get (svc_boxes s') sid = Some rec"
    with i obtain n where "n \<le> length (sr_events rec)" "slog (svc_store s) sid = drop n (sr_events rec)"
        "n = 0 \<and> scfg (svc_store s) sid = Some (sr_create_spec rec)"
      by (fastforce simp: s' svc_inv_def store_agrees_def)
    then show "\<exists>n \<le> length (sr_events rec). slog (svc_store s') sid = drop n (sr_events rec)
        \<and> (sid \<notin> set removed \<longrightarrow> n = 0 \<and> scfg (svc_store s') sid = Some (sr_create_spec rec))"
      using v by (cases "sid \<in> set removed") (auto simp: s' intro: exI [of _ "length (sr_events rec)"])
  qed
  with i v show ?thesis
    by (auto simp: s' svc_inv_def boxes_ok_def keyed_def ids_ok_def index_ok_def cancelled_ok_def)
qed

lemma gm_get_purge_execs:
  "gm_get (fold gm_del ks m) k = (if k \<in> set ks then None else gm_get m k)"
  by (rule gm_get_fold_del)

lemma purge_one_inv:
  assumes i: "svc_inv P s"
  shows "svc_inv P (purge_one sid s)"
proof (cases "gm_get (svc_boxes s) sid")
  case None
  with i show ?thesis by (simp add: purge_one_def)
next
  case (Some rec)
  let ?s' = "purge_one sid s"
  have s': "svc_boxes ?s' = gm_del sid (svc_boxes s)"
      "svc_execs ?s' = fold gm_del (map fst (sr_execs rec)) (svc_execs s)"
      "svc_store ?s' = svc_store s" "svc_registry ?s' = svc_registry s"
      "svc_cancelled ?s' = svc_cancelled s"
    using Some by (simp_all add: purge_one_def)
  have ks: "set (map fst (sr_execs rec)) = gm_keys (sr_execs rec)" by (simp add: gm_keys_def)
  from i have idx: "index_ok eids s" by (simp add: svc_inv_def)
  have "index_ok eids ?s'"
    unfolding index_ok_def s'
  proof (intro conjI allI)
    fix k q
    show "gm_get (fold gm_del (map fst (sr_execs rec)) (svc_execs s)) k = Some q \<longleftrightarrow>
        (\<exists>r. gm_get (gm_del sid (svc_boxes s)) q = Some r \<and> k \<in> gm_keys (sr_execs r))"
    proof (cases "k \<in> gm_keys (sr_execs rec)")
      case True
      then have "gm_get (svc_execs s) k = Some sid" using idx Some by (auto simp: index_ok_def)
      with idx have "q = sid" if "gm_get (svc_boxes s) q = Some r" "k \<in> gm_keys (sr_execs r)" for r
        using that unfolding index_ok_def by (metis option.inject)
      with True show ?thesis unfolding gm_get_fold_del ks by auto
    next
      case False
      with idx Some show ?thesis unfolding gm_get_fold_del ks by (auto simp: index_ok_def)
    qed
  next
    show "gm_keys (fold gm_del (map fst (sr_execs rec)) (svc_execs s)) \<subseteq> eids (svc_registry s)"
      using idx by (auto simp: index_ok_def gm_get_Some_key subset_iff split: if_splits)
  qed
  moreover have "boxes_ok cfg ?s'" "store_agrees slog scfg P ?s'" "ids_ok slog sids ?s'"
      "cancelled_ok eids ?s'"
    using i by (auto simp: s' svc_inv_def boxes_ok_def keyed_def store_agrees_def ids_ok_def cancelled_ok_def
        split: if_splits)
  ultimately show ?thesis using i by (simp add: svc_inv_def s')
qed

lemma purge_boxes_inv:
  assumes "svc_inv P s"
  shows "svc_inv P (purge_boxes ks s)"
  unfolding purge_boxes_def using assms by (induction ks arbitrary: s) (simp_all add: purge_one_inv)

text \<open>Once the purged sandboxes are out of the map, no record waits for the purge.\<close>

lemma purge_boxes_gone:
  "gm_get (svc_boxes (purge_boxes ks s)) sid = (if sid \<in> set ks then None else gm_get (svc_boxes s) sid)"
  unfolding purge_boxes_def
  by (induction ks arbitrary: s) (auto simp: purge_one_def split: option.splits)

lemma purge_map_inv:
  assumes "svc_inv P s"
  shows "svc_inv [] (purge_boxes P s)"
  using purge_boxes_inv [OF assms, of P] purge_boxes_gone [of P s]
  by (auto simp: svc_inv_def store_agrees_def split: if_splits)

subsection \<open>Every step\<close>

lemma step_inv:
  assumes "daemon_step cfg d d'" and i: "svc_inv (dm_purging d) (dm_service d)"
    and b: "log_bound (dm_service d')"
  shows "svc_inv (dm_purging d') (dm_service d')"
proof -
  have kd: "keyed (dm_service d)" using i boxes_ok_keyed by (auto simp: svc_inv_def)
  from assms(1) kd show ?thesis
  proof (cases rule: step_shape)
    case upd
    with upd_inv [OF _ i b] show ?thesis by simp
  next
    case (create env now uuids req ts r)
    with CreateSandbox_inv [OF i] show ?thesis by simp
  next
    case (create_exec env now uuids req ts r)
    with CreateExec_inv [OF i] b show ?thesis by simp
  next
    case (cancel_exec now k ts r)
    with CancelExec_inv [OF i] b show ?thesis by simp
  next
    case (purge_store now)
    with cleanup_store_inv [of "dm_service d" now "dm_purging d'" "dm_service d'"] i show ?thesis by simp
  next
    case purge_map
    with purge_map_inv [OF i] show ?thesis by simp
  qed
qed

lemma initial_inv:
  assumes "inv st0" and "\<And>k. k \<notin> sids r0 \<Longrightarrow> slog st0 k = []"
  shows "svc_inv [] (snd (NewService cfg st0 r0))"
  using assms
  by (simp add: NewService_def svc_inv_def boxes_ok_def keyed_def store_agrees_def ids_ok_def
      index_ok_def cancelled_ok_def)

theorem reachable_inv:
  assumes "reachable cfg st0 r0 d" and "inv st0" and "\<And>k. k \<notin> sids r0 \<Longrightarrow> slog st0 k = []"
  shows "svc_inv (dm_purging d) (dm_service d)"
  using assms(1)
proof (induction rule: reachable.induct)
  case init
  from initial_inv [OF assms(2,3)] show ?case by (simp add: initial_daemon_def)
next
  case (step d d')
  from step_inv [OF step.hyps(2) step.IH step.hyps(3)] show ?case .
qed

lemma reachable_record:
  assumes "reachable cfg st0 r0 d" and "inv st0" and "\<And>k. k \<notin> sids r0 \<Longrightarrow> slog st0 k = []"
    and "gm_get (svc_boxes (dm_service d)) sid = Some rec"
  shows "rec_ok rec \<and> sh_sandbox_id (sr_handle rec) = sid
    \<and> (infallible (cfg_event_store cfg) \<longrightarrow> synced rec)
    \<and> (sid \<notin> set (dm_purging d) \<longrightarrow> slog (svc_store (dm_service d)) sid = sr_events rec
         \<and> scfg (svc_store (dm_service d)) sid = Some (sr_create_spec rec))"
proof -
  note i = reachable_inv [OF assms(1-3)]
  then have bx: "boxes_ok cfg (dm_service d)"
    and ag: "store_agrees slog scfg (dm_purging d) (dm_service d)" by (simp_all add: svc_inv_def)
  from ag assms(4) have "sid \<notin> set (dm_purging d) \<longrightarrow>
      slog (svc_store (dm_service d)) sid = sr_events rec
      \<and> scfg (svc_store (dm_service d)) sid = Some (sr_create_spec rec)"
    unfolding store_agrees_def by fastforce
  with boxes_okD [OF bx assms(4)] show ?thesis by blast
qed

end

section \<open>The daemon over the memory store\<close>

definition memory_config ::
  "(memory_event_store, memory_id_registry) service_config
     \<Rightarrow> (memory_event_store, memory_id_registry) service_config" where
  "memory_config base =
     base\<lparr>cfg_event_store := memoryEventStore, cfg_id_registry := memoryIDRegistry\<rparr>"

lemma memory_config_simps [simp]:
  "cfg_event_store (memory_config base) = memoryEventStore"
  "cfg_id_registry (memory_config base) = memoryIDRegistry"
  by (simp_all add: memory_config_def)

lemma memory_infallible [simp]: "infallible memoryEventStore"
  by (simp add: infallible_def memory_Append_def memory_MarkDeleted_def)

interpretation mem_daemon: daemon_model "memory_config base" me_inv me_events_of
  "\<lambda>s. gm_get (me_deleted_at s)" "\<lambda>s. gm_get (me_sandbox_configs s)"
  "\<lambda>s k. gm_get (me_execs_of s k)"
  "\<lambda>r. gm_keys (mr_sandbox_ids r)" "\<lambda>r. gm_keys (mr_exec_ids r)"
  unfolding daemon_model_def memory_config_simps
  by (intro conjI mem_store.event_store_axioms mem_reg.id_registry_axioms)

text \<open>A run of the daemon over the memory store starts with nothing stored.\<close>

definition memory_run ::
  "(memory_event_store, memory_id_registry) service_config
     \<Rightarrow> (memory_event_store, memory_id_registry) daemon \<Rightarrow> bool" where
  "memory_run base d \<longleftrightarrow> reachable (memory_config base) newMemoryEventStore newMemoryIDRegistry d"

lemma memory_start:
  "me_inv newMemoryEventStore" "me_events_of newMemoryEventStore k = []"
  by (simp_all add: me_inv_def newMemoryEventStore_def me_events_of_def me_execs_of_def)

lemmas memory_run_inv = mem_daemon.reachable_inv [OF _ memory_start(1) memory_start(2)]
lemmas memory_run_record = mem_daemon.reachable_record [OF _ memory_start(1) memory_start(2)]

end
