(* ===== verification/Step_Kept.thy ===== *)
theory Step_Kept
  imports Daemon
begin

text \<open>
  What a step of the daemon leaves of a sandbox that was there before it: the record stays, with its
  identity, its log grows at the end only, and an exec that ended stays as it ended.  Only the purge
  of an expired sandbox takes a record away.
\<close>

definition exec_kept :: "sandbox_record \<Rightarrow> sandbox_record \<Rightarrow> bool" where
  "exec_kept rec rec' \<longleftrightarrow>
     (\<forall>k e. gm_get (sr_execs rec) k = Some e \<longrightarrow>
        (\<exists>e'. gm_get (sr_execs rec') k = Some e' \<and> (isExecTerminal (es_state e) \<longrightarrow> e' = e)))"

definition record_kept :: "sandbox_record \<Rightarrow> sandbox_record \<Rightarrow> bool" where
  "record_kept rec rec' \<longleftrightarrow>
     (\<exists>es. sr_events rec' = sr_events rec @ es) \<and> same_identity rec rec' \<and> exec_kept rec rec'"

definition keeps :: "('st, 'r) service \<Rightarrow> ('st, 'r) service \<Rightarrow> bool" where
  "keeps s s' \<longleftrightarrow>
     (\<forall>sid rec. gm_get (svc_boxes s) sid = Some rec \<longrightarrow>
        (\<exists>rec'. gm_get (svc_boxes s') sid = Some rec' \<and> record_kept rec rec'))"

lemma exec_kept_trans: "exec_kept a b \<Longrightarrow> exec_kept b c \<Longrightarrow> exec_kept a c"
  unfolding exec_kept_def by metis

lemma record_kept_refl [simp, intro]: "record_kept rec rec"
  by (auto simp: record_kept_def exec_kept_def)

lemma record_kept_trans [trans]: "record_kept a b \<Longrightarrow> record_kept b c \<Longrightarrow> record_kept a c"
  by (auto simp: record_kept_def intro: same_identity_trans elim: exec_kept_trans)

lemma keeps_refl [simp, intro]: "keeps s s"
  by (simp add: keeps_def)

lemma keeps_boxes [intro]: "svc_boxes s' = svc_boxes s \<Longrightarrow> keeps s s'"
  by (auto simp: keeps_def)

lemma keeps_trans [trans]: "keeps a b \<Longrightarrow> keeps b c \<Longrightarrow> keeps a c"
  unfolding keeps_def by (meson record_kept_trans)

lemma passage_kept: "passage cfg rec st rec' st' \<Longrightarrow> record_kept rec rec'"
  unfolding passage_def extends_def record_kept_def exec_stable_def exec_kept_def
  by (metis gm_get_Some_key)

lemma keeps_put:
  "gm_get (svc_boxes s) sid = Some rec \<Longrightarrow> record_kept rec rec' \<Longrightarrow>
     svc_boxes s' = gm_set sid rec' (svc_boxes s) \<Longrightarrow> keeps s s'"
  by (auto simp: keeps_def)

lemma keeps_fresh:
  "gm_get (svc_boxes s) sid = None \<Longrightarrow> svc_boxes s' = gm_set sid rec (svc_boxes s) \<Longrightarrow> keeps s s'"
  by (auto simp: keeps_def)

lemma upd_keeps: "upd cfg s s' \<Longrightarrow> keeps s s'"
proof (induction rule: upd.induct)
  case none
  show ?case by simp
next
  case (put s1 sid rec rec' st')
  have "keeps s1 (put_record sid rec' st' s1)"
    by (rule keeps_put [OF put.hyps(2) passage_kept [OF put.hyps(3)]]) simp
  with put.IH show ?case by (rule keeps_trans)
qed

lemma create_with_id_keeps:
  assumes "create_with_id cfg now sid spec s = (s', ts, r)" and "gm_get (svc_boxes s) sid = None"
  shows "keeps s s'"
  using assms
  by (auto simp: create_with_id_def Let_def split: sum.splits prod.splits intro: keeps_fresh)

lemma exec_with_id_keeps:
  assumes c: "exec_with_id cfg env now k req rec s = (s', ts, r)"
    and b: "gm_get (svc_boxes s) (xr_sandbox_id req) = Some rec" and "gm_get (sr_execs rec) k = None"
  shows "keeps s s'"
proof (cases "svc_boxes s' = svc_boxes s")
  case True
  then show ?thesis ..
next
  case False
  with c obtain st1 rec' st2 where
      a: "appendEventLocked cfg now rec EXEC_STARTED
            (no_mutation\<lparr>mu_exec_id := k, mu_exec_state := EXEC_STATE_RUNNING\<rparr>) st1 = Inr (rec', st2)"
    and s': "svc_boxes s' = gm_set (xr_sandbox_id req)
            (rec'\<lparr>sr_execs := gm_set k (running_exec k req) (sr_execs rec'),
                  sr_exec_cancel := insert k (sr_exec_cancel rec')\<rparr>) (svc_boxes s)"
    by (auto simp: exec_with_id_def Let_def split: sum.splits prod.splits)
  show ?thesis
    by (rule keeps_put [OF b _ s'])
      (use assms(3) in \<open>auto simp: appendEventLocked_record [OF a] record_kept_def exec_kept_def
         same_identity_def\<close>)
qed

lemma CancelExec_keeps:
  assumes "CancelExec cfg now k s = (s', ts, r)"
  shows "keeps s s'"
  using CancelExec_cases [OF assms]
  by (auto intro: keeps_put [OF _ passage_kept])

text \<open>Every step but the second half of a purge keeps every record.\<close>

context daemon_model
begin

lemma CreateSandbox_keeps:
  assumes "svc_inv P s" and c: "CreateSandbox cfg env now uuids req s = Some (s', ts, r)"
  shows "keeps s s'"
proof (cases "svc_boxes s' = svc_boxes s")
  case True
  then show ?thesis ..
next
  case False
  with c obtain spec sid r' where
      al: "allocateSandboxID (cfg_id_registry cfg) now uuids (cr_sandbox_id req) (svc_registry s)
             = Some (Inr (sid, r'))"
    and w: "create_with_id cfg now sid spec (s\<lparr>svc_registry := r'\<rparr>) = (s', ts, r)"
    by (auto simp: CreateSandbox_def split: sum.splits option.splits)
  from allocateSandboxID_fresh [OF al] assms(1) have "gm_get (svc_boxes s) sid = None"
    by (auto simp: svc_inv_def ids_ok_def gm_get_None)
  then have "keeps (s\<lparr>svc_registry := r'\<rparr>) s'" by (intro create_with_id_keeps [OF w]) simp
  then show ?thesis by (simp add: keeps_def)
qed

lemma CreateExec_keeps:
  assumes i: "svc_inv P s" and c: "CreateExec cfg env now uuids req s = Some (s', ts, r)"
  shows "keeps s s'"
proof (cases "svc_boxes s' = svc_boxes s")
  case True
  then show ?thesis ..
next
  case False
  with c obtain rec k r' where
      b: "gm_get (svc_boxes s) (xr_sandbox_id req) = Some rec"
    and al: "allocateExecID (cfg_id_registry cfg) now uuids (xr_exec_id req) (svc_registry s)
             = Some (Inr (k, r'))"
    and w: "exec_with_id cfg env now k req rec (s\<lparr>svc_registry := r'\<rparr>) = (s', ts, r)"
    by (auto simp: CreateExec_def requireSandboxLocked_def split: sum.splits option.splits if_splits)
  from allocateExecID_fresh [OF al] have f: "k \<notin> eids (svc_registry s)" by blast
  have "gm_get (sr_execs rec) k = None"
  proof (rule ccontr)
    assume "gm_get (sr_execs rec) k \<noteq> None"
    with i b have "gm_get (svc_execs s) k = Some (xr_sandbox_id req)"
      by (auto simp: svc_inv_def index_ok_def gm_get_Some_key)
    with i f show False by (auto simp: svc_inv_def index_ok_def gm_get_Some_key subset_iff)
  qed
  with b have "keeps (s\<lparr>svc_registry := r'\<rparr>) s'" by (intro exec_with_id_keeps [OF w]) simp_all
  then show ?thesis by (simp add: keeps_def)
qed

lemma step_keeps:
  assumes "daemon_step cfg d d'" and i: "svc_inv (dm_purging d) (dm_service d)"
  shows "keeps (dm_service d) (dm_service d')
    \<or> (dm_service d' = purge_boxes (dm_purging d) (dm_service d) \<and> dm_purging d' = [])"
proof -
  have kd: "keyed (dm_service d)" using i boxes_ok_keyed by (auto simp: svc_inv_def)
  from assms(1) kd show ?thesis
  proof (cases rule: step_shape)
    case upd
    then show ?thesis by (auto dest: upd_keeps)
  next
    case (create env now uuids req ts r)
    then show ?thesis by (auto dest: CreateSandbox_keeps [OF i])
  next
    case (create_exec env now uuids req ts r)
    then show ?thesis by (auto dest: CreateExec_keeps [OF i])
  next
    case (cancel_exec now k ts r)
    then show ?thesis by (auto dest: CancelExec_keeps)
  next
    case (purge_store now)
    then have "svc_boxes (dm_service d') = svc_boxes (dm_service d)"
      by (auto simp: cleanup_store_def res_bind_eq_Inr dest!: sym [of _ "dm_service d'"])
    then show ?thesis by blast
  qed simp
qed

lemma step_record:
  assumes "daemon_step cfg d d'" and "svc_inv (dm_purging d) (dm_service d)"
    and "gm_get (svc_boxes (dm_service d)) sid = Some rec"
  shows "(\<exists>rec'. gm_get (svc_boxes (dm_service d')) sid = Some rec' \<and> record_kept rec rec')
    \<or> (gm_get (svc_boxes (dm_service d')) sid = None \<and> sid \<in> set (dm_purging d))"
  using step_keeps [OF assms(1,2)] assms(3) purge_boxes_gone [of "dm_purging d" "dm_service d" sid]
  unfolding keeps_def by (auto split: if_splits)

end

end
