(* ===== verification/Sample_Run.thy ===== *)
theory Sample_Run
  imports Daemon
begin

text \<open>
  A short run of the daemon over the memory store, computed step by step: a sandbox is created,
  becomes ready, runs one exec to its end, starts a second, which is cancelled, and is stopped.  The
  witnesses of the properties of all runs are taken from it.
\<close>

abbreviation sample_base :: "(memory_event_store, memory_id_registry) service_config" where
  "sample_base \<equiv> DefaultServiceConfig memoryEventStore memoryIDRegistry"

abbreviation sample_config :: "(memory_event_store, memory_id_registry) service_config" where
  "sample_config \<equiv> memory_config sample_base"

definition sample_request :: create_sandbox_request where
  "sample_request = \<lparr>cr_create_spec = Some (empty_create_spec\<lparr>cs_image := ''img''\<rparr>),
     cr_sandbox_id = ''box-1'', cr_config_yaml = ''''\<rparr>"

definition sample_exec :: "string \<Rightarrow> create_exec_request" where
  "sample_exec k = \<lparr>xr_sandbox_id = ''box-1'', xr_command = [''ls''], xr_cwd = '''',
     xr_env_overrides = [], xr_exec_id = k\<rparr>"

type_synonym memory_daemon = "(memory_event_store, memory_id_registry) daemon"

text \<open>The steps of the run, as functions of the daemon.\<close>

definition do_create :: "memory_daemon \<Rightarrow> memory_daemon" where
  "do_create d = (case CreateSandbox sample_config no_host 100 [] sample_request (dm_service d) of
                    Some (s, ts, r) \<Rightarrow> spawn s ts d | None \<Rightarrow> d)"

definition do_prepare :: "memory_daemon \<Rightarrow> memory_daemon" where
  "do_prepare d = (case create_prepare sample_config 200 ''box-1'' (dm_service d) of
                     (s, go) \<Rightarrow> continue (Started (CompleteSandboxCreate ''box-1''))
                       (if go then [InBackend (CompleteSandboxCreate ''box-1'')] else []) s d)"

definition do_ready :: "memory_daemon \<Rightarrow> memory_daemon" where
  "do_ready d = (case create_finish sample_config 300 ''box-1''
                        (Inr \<lparr>rcr_statuses = None, rcr_runtime_state = None\<rparr>) (dm_service d) of
                   (s, ts, del) \<Rightarrow>
                     continue (InBackend (CompleteSandboxCreate ''box-1'')) (map Started ts) s d)"

definition do_exec :: "time \<Rightarrow> string \<Rightarrow> memory_daemon \<Rightarrow> memory_daemon" where
  "do_exec now k d = (case CreateExec sample_config no_host now [] (sample_exec k) (dm_service d) of
                        Some (s, ts, r) \<Rightarrow> spawn s ts d | None \<Rightarrow> d)"

definition do_run :: "string \<Rightarrow> memory_daemon \<Rightarrow> memory_daemon" where
  "do_run k d = continue (Started (CompleteExec k))
     (case exec_prepare k (dm_service d) of None \<Rightarrow> [] | Some _ \<Rightarrow> [InBackend (CompleteExec k)])
     (dm_service d) d"

definition do_finish :: "time \<Rightarrow> string \<Rightarrow> memory_daemon \<Rightarrow> memory_daemon" where
  "do_finish now k d = continue (InBackend (CompleteExec k)) []
     (exec_finish sample_config now k 0 None (dm_service d)) d"

definition do_cancel :: "time \<Rightarrow> string \<Rightarrow> memory_daemon \<Rightarrow> memory_daemon" where
  "do_cancel now k d = (case CancelExec sample_config now k (dm_service d) of (s, ts, r) \<Rightarrow> spawn s ts d)"

definition do_stop :: "time \<Rightarrow> memory_daemon \<Rightarrow> memory_daemon" where
  "do_stop now d = (case StopSandbox sample_config now ''box-1'' (dm_service d) of
                      (s, ts, r) \<Rightarrow> spawn s ts d)"

definition run0 :: memory_daemon where "run0 = initial_daemon sample_config newMemoryEventStore newMemoryIDRegistry"
definition run1 :: memory_daemon where "run1 = do_create run0"
definition run2 :: memory_daemon where "run2 = do_prepare run1"
definition run3 :: memory_daemon where "run3 = do_ready run2"
definition run4 :: memory_daemon where "run4 = do_exec 400 ''exec-1'' run3"
definition run5 :: memory_daemon where "run5 = do_run ''exec-1'' run4"
definition run6 :: memory_daemon where "run6 = do_finish 500 ''exec-1'' run5"
definition run7 :: memory_daemon where "run7 = do_exec 600 ''exec-2'' run6"
definition run8 :: memory_daemon where "run8 = do_cancel 700 ''exec-2'' run7"
definition run9 :: memory_daemon where "run9 = do_stop 800 run8"

section \<open>It is a run\<close>

lemma log_bound_small:
  assumes "list_all (\<lambda>(k, rec). length (sr_events rec) < 100) (svc_boxes s)"
  shows "log_bound s"
  unfolding log_bound_def
proof (intro allI impI)
  fix sid rec
  assume "gm_get (svc_boxes s) sid = Some rec"
  with assms have "length (sr_events rec) < 100" by (auto simp: list_all_iff dest!: gm_get_in_set)
  also have "(100::nat) < 2 ^ 64" by simp
  finally show "length (sr_events rec) < 2 ^ 64" .
qed

lemma memory_run_init:
  "memory_run base (initial_daemon (memory_config base) newMemoryEventStore newMemoryIDRegistry)"
  unfolding memory_run_def by (rule reachable.init)

lemma memory_run_step:
  assumes "memory_run base d" and "daemon_step (memory_config base) d d'"
    and "list_all (\<lambda>(k, rec). length (sr_events rec) < 100) (svc_boxes (dm_service d'))"
  shows "memory_run base d'"
  using reachable.step [OF assms(1) [unfolded memory_run_def] assms(2) log_bound_small [OF assms(3)]]
  unfolding memory_run_def .

lemma do_create_step:
  "CreateSandbox sample_config no_host 100 [] sample_request (dm_service d) \<noteq> None
     \<Longrightarrow> daemon_step sample_config d (do_create d)"
  by (auto simp: do_create_def intro: daemon_step.rpc_create)

lemma do_prepare_step:
  "Started (CompleteSandboxCreate ''box-1'') \<in># dm_goroutines d
     \<Longrightarrow> daemon_step sample_config d (do_prepare d)"
  unfolding do_prepare_def case_prod_beta
  by (rule daemon_step.create_begins [OF _ prod.collapse [symmetric]])

lemma do_ready_step:
  "InBackend (CompleteSandboxCreate ''box-1'') \<in># dm_goroutines d
     \<Longrightarrow> daemon_step sample_config d (do_ready d)"
  by (cases "create_finish sample_config 300 ''box-1''
        (Inr \<lparr>rcr_statuses = None, rcr_runtime_state = None\<rparr>) (dm_service d)")
    (auto simp: do_ready_def intro: daemon_step.create_ends)

lemma do_exec_step:
  "CreateExec sample_config no_host now [] (sample_exec k) (dm_service d) \<noteq> None
     \<Longrightarrow> daemon_step sample_config d (do_exec now k d)"
  by (auto simp: do_exec_def intro!: daemon_step.rpc_create_exec [where uuids = "[]"])

lemma do_run_step:
  "Started (CompleteExec k) \<in># dm_goroutines d \<Longrightarrow> daemon_step sample_config d (do_run k d)"
  unfolding do_run_def by (rule daemon_step.exec_begins)

lemma do_finish_step:
  "InBackend (CompleteExec k) \<in># dm_goroutines d \<Longrightarrow> daemon_step sample_config d (do_finish now k d)"
  unfolding do_finish_def by (rule daemon_step.exec_ends)

lemma do_cancel_step: "daemon_step sample_config d (do_cancel now k d)"
  by (cases "CancelExec sample_config now k (dm_service d)")
    (auto simp: do_cancel_def intro: daemon_step.rpc_cancel_exec)

lemma do_stop_step: "daemon_step sample_config d (do_stop now d)"
  by (cases "StopSandbox sample_config now ''box-1'' (dm_service d)")
    (auto simp: do_stop_def intro: daemon_step.rpc_stop)

lemma run0_run: "memory_run sample_base run0"
  unfolding run0_def by (rule memory_run_init)

lemma run1_run: "memory_run sample_base run1"
  unfolding run1_def by (rule memory_run_step [OF run0_run do_create_step]) code_simp+

lemma run2_run: "memory_run sample_base run2"
  unfolding run2_def by (rule memory_run_step [OF run1_run do_prepare_step]) code_simp+

lemma run3_run: "memory_run sample_base run3"
  unfolding run3_def by (rule memory_run_step [OF run2_run do_ready_step]) code_simp+

lemma run4_run: "memory_run sample_base run4"
  unfolding run4_def by (rule memory_run_step [OF run3_run do_exec_step]) code_simp+

lemma run5_run: "memory_run sample_base run5"
  unfolding run5_def by (rule memory_run_step [OF run4_run do_run_step]) code_simp+

lemma run6_run: "memory_run sample_base run6"
  unfolding run6_def by (rule memory_run_step [OF run5_run do_finish_step]) code_simp+

lemma run7_run: "memory_run sample_base run7"
  unfolding run7_def by (rule memory_run_step [OF run6_run do_exec_step]) code_simp+

lemma run8_step: "daemon_step sample_config run7 run8"
  unfolding run8_def by (rule do_cancel_step)

lemma run8_run: "memory_run sample_base run8"
  by (rule memory_run_step [OF run7_run run8_step]) code_simp

lemma run9_run: "memory_run sample_base run9"
  unfolding run9_def by (rule memory_run_step [OF run8_run do_stop_step]) code_simp

end
