(* ===== verification/Run_Props.thy ===== *)
theory Run_Props
  imports Step_Kept Sample_Run
begin

text \<open>
  What holds in every state the daemon can reach, over the store and registry the daemon keeps in
  memory: whatever the order in which RPCs, goroutines, the cleanup loop and the container watch take
  their critical sections.  Each property rests on the invariant proved once in \<open>daemon_model\<close> and
  transferred by its interpretation \<open>mem_daemon\<close>.
\<close>

abbreviation box_of :: "memory_daemon \<Rightarrow> string \<Rightarrow> sandbox_record option" where
  "box_of d sid \<equiv> gm_get (svc_boxes (dm_service d)) sid"

abbreviation store_of :: "memory_daemon \<Rightarrow> memory_event_store" where
  "store_of d \<equiv> svc_store (dm_service d)"

lemma memory_run_facts:
  assumes "memory_run base d" and "box_of d sid = Some rec"
  shows "rec_ok rec" and "sh_sandbox_id (sr_handle rec) = sid" and "synced rec"
    and "sid \<notin> set (dm_purging d) \<Longrightarrow> me_events_of (store_of d) sid = sr_events rec
           \<and> gm_get (me_sandbox_configs (store_of d)) sid = Some (sr_create_spec rec)"
  using memory_run_record [OF assms(1) [unfolded memory_run_def] assms(2)] by auto

lemma memory_run_svc_inv:
  "memory_run base d \<Longrightarrow> mem_daemon.svc_inv base (dm_purging d) (dm_service d)"
  unfolding memory_run_def by (rule memory_run_inv)

lemma reachable_bound:
  "reachable cfg st r d \<Longrightarrow> log_bound (dm_service d)"
  by (induction rule: reachable.induct)
    (simp_all add: initial_daemon_def NewService_def log_bound_def)

lemma memory_run_bound:
  "memory_run base d \<Longrightarrow> box_of d sid = Some rec \<Longrightarrow> length (sr_events rec) < 2 ^ 64"
  using reachable_bound [of "memory_config base" newMemoryEventStore newMemoryIDRegistry d]
  unfolding memory_run_def log_bound_def by blast

lemma memory_run_indexed:
  assumes "memory_run base d"
  shows "gm_get (svc_execs (dm_service d)) k = Some sid \<longleftrightarrow>
     (\<exists>rec. box_of d sid = Some rec \<and> k \<in> gm_keys (sr_execs rec))"
  using memory_run_svc_inv [OF assms] by (simp add: mem_daemon.svc_inv_def index_ok_def)

section \<open>Logs\<close>

text \<open>
  C1. In every reachable state the log of a sandbox is numbered \<open>1, 2, ..., n\<close> without gap or
  repetition, strictly increasing, every event carries the sandbox's id, and both the record's
  counter and the handle's \<^verbatim>\<open>last_event_sequence\<close> are the number of the last event.
\<close>
theorem run_log_numbered:
  assumes "memory_run base d" and "box_of d sid = Some rec"
  shows "map ev_sequence (sr_events rec) = map (\<lambda>i. of_nat (Suc i)) [0..<length (sr_events rec)]
    \<and> sorted_wrt (<) (map ev_sequence (sr_events rec))
    \<and> (\<forall>e \<in> set (sr_events rec). ev_sandbox_id e = sid)
    \<and> sr_next_sequence rec = of_nat (length (sr_events rec))
    \<and> sh_last_event_sequence (sr_handle rec) = of_nat (length (sr_events rec))"
proof -
  from memory_run_facts [OF assms] have l: "log_ok rec" "sh_sandbox_id (sr_handle rec) = sid"
    by (simp_all add: rec_ok_def)
  from numbered_ordered [OF _ memory_run_bound [OF assms]] l
  show ?thesis by (simp add: log_ok_def numbered_def log_ordered_def)
qed

theorem run_log_numbered_witness:
  "\<exists>rec. box_of run9 ''box-1'' = Some rec \<and> map ev_sequence (sr_events rec) = [1, 2, 3, 4, 5, 6, 7, 8]"
proof -
  obtain rec where r: "box_of run9 ''box-1'' = Some rec"
    and n: "length (sr_events rec) = 8"
  proof -
    have "box_of run9 ''box-1'' \<noteq> None \<and> length (sr_events (the (box_of run9 ''box-1''))) = 8"
      by code_simp
    then show ?thesis using that by auto
  qed
  from run_log_numbered [OF run9_run r] n show ?thesis
    by (auto simp: r upt_rec)
qed



section \<open>Execs\<close>

text \<open>
  C3. In every reachable state the exec table of a sandbox is a function of its log: replaying the
  log as a restart does (\<^verbatim>\<open>resolveExecStateFromEvents\<close>) gives each exec's state, exit code and
  error, and says nothing of an id that is not in the table.
\<close>
theorem run_execs_from_log:
  assumes "memory_run base d" and "box_of d sid = Some rec"
  shows "case gm_get (sr_execs rec) k of
      Some e \<Rightarrow> es_exec_id e = k \<and> es_sandbox_id e = sid
        \<and> (\<exists>code. resolveExecStateFromEvents (sr_events rec) k
                   = (es_state e, es_exit_code e, code, es_error e))
    | None \<Rightarrow> resolveExecStateFromEvents (sr_events rec) k = (EXEC_STATE_UNSPECIFIED, 0, '''', '''')"
  using memory_run_facts(1,2) [OF assms]
  by (auto simp: rec_ok_def exec_ok_def dest: spec [of _ k] split: option.split)

theorem run_execs_from_log_witness:
  "resolveExecStateFromEvents (sr_events (the (box_of run8 ''box-1''))) ''no-such-exec''
     = (EXEC_STATE_UNSPECIFIED, 0, '''', '''')"
proof -
  have p: "box_of run8 ''box-1'' \<noteq> None
      \<and> gm_get (sr_execs (the (box_of run8 ''box-1''))) ''no-such-exec'' = None" by code_simp
  then obtain rec where "box_of run8 ''box-1'' = Some rec" by auto
  with run_execs_from_log [OF run8_run this, of "''no-such-exec''"] p show ?thesis by simp
qed

text \<open>
  In every reachable state \<^verbatim>\<open>GetExec\<close> finds an exec exactly when some sandbox holds it, and the
  index names that sandbox; so no exec id belongs to two sandboxes.
\<close>
theorem run_exec_index:
  assumes "memory_run base d"
  shows "((\<exists>e. GetExec (dm_service d) k = Inr e) \<longleftrightarrow>
            (\<exists>sid rec. box_of d sid = Some rec \<and> k \<in> gm_keys (sr_execs rec)))
    \<and> (\<forall>sid rec. box_of d sid = Some rec \<longrightarrow> k \<in> gm_keys (sr_execs rec) \<longrightarrow>
           gm_get (svc_execs (dm_service d)) k = Some sid)"
proof (intro conjI allI impI)
  note ix = memory_run_indexed [OF assms]
  show "(\<exists>e. GetExec (dm_service d) k = Inr e) \<longleftrightarrow>
      (\<exists>sid rec. box_of d sid = Some rec \<and> k \<in> gm_keys (sr_execs rec))"
  proof
    assume "\<exists>e. GetExec (dm_service d) k = Inr e"
    then obtain x where "requireExecLocked (dm_service d) k = Inr x"
      by (auto simp: GetExec_def res_bind_eq_Inr)
    then show "\<exists>sid rec. box_of d sid = Some rec \<and> k \<in> gm_keys (sr_execs rec)"
      by (cases x) (auto simp: requireExec_Inr gm_get_Some_key)
  next
    assume "\<exists>sid rec. box_of d sid = Some rec \<and> k \<in> gm_keys (sr_execs rec)"
    then obtain sid rec e where h: "box_of d sid = Some rec" "gm_get (sr_execs rec) k = Some e"
      by (auto simp: gm_get_Some_key)
    with ix [of k sid] have "requireExecLocked (dm_service d) k = Inr (sid, rec, e)"
      by (auto simp: requireExec_Inr gm_get_Some_key)
    then show "\<exists>e. GetExec (dm_service d) k = Inr e" by (simp add: GetExec_def)
  qed
  fix sid rec
  assume "box_of d sid = Some rec" "k \<in> gm_keys (sr_execs rec)"
  with ix show "gm_get (svc_execs (dm_service d)) k = Some sid" by blast
qed

theorem run_exec_index_witness:
  "\<exists>e. GetExec (dm_service run9) ''exec-2'' = Inr e"
proof -
  have p: "box_of run9 ''box-1'' \<noteq> None
      \<and> ''exec-2'' \<in> gm_keys (sr_execs (the (box_of run9 ''box-1'')))" by code_simp
  then show ?thesis using run_exec_index [OF run9_run, of "''exec-2''"] by auto
qed

text \<open>
  In every reachable state a running exec has a live context.  So \<^verbatim>\<open>completeExec\<close>'s early return
  for a cancelled context is never taken (the state test before it has already returned), and a run
  that returns from the backend always leaves its exec FINISHED or FAILED.
\<close>
theorem run_exec_finish_terminal:
  assumes "memory_run base d" and "GetExec (dm_service d) k = Inr e" and "es_state e = EXEC_STATE_RUNNING"
  shows "k \<notin> svc_cancelled (dm_service d)
    \<and> (\<exists>e'. GetExec (exec_finish (memory_config base) now k code runErr (dm_service d)) k = Inr e'
         \<and> es_state e' = (if runErr = None then EXEC_STATE_FINISHED else EXEC_STATE_FAILED)
         \<and> es_exit_code e' = code)"
proof -
  from assms(2,3) obtain sid rec e0 where
      x: "requireExecLocked (dm_service d) k = Inr (sid, rec, e0)" and r: "es_state e0 = EXEC_STATE_RUNNING"
    by (auto simp: GetExec_def res_bind_eq_Inr cloneExec_def)
  note lk = x [unfolded requireExec_Inr]
  from memory_run_svc_inv [OF assms(1)] lk r have n: "k \<notin> svc_cancelled (dm_service d)"
    by (auto simp: mem_daemon.svc_inv_def cancelled_ok_def)
  show ?thesis
    using lk r n
    by (cases runErr)
      (auto simp: x exec_finish_def GetExec_def appendEventLocked_def Let_def memory_Append_def
         requireExecLocked_def cloneExec_def)
qed

theorem run_exec_finish_terminal_witness:
  "\<exists>e'. GetExec (exec_finish sample_config 900 ''exec-2'' 7 None (dm_service run7)) ''exec-2'' = Inr e'
     \<and> es_state e' = EXEC_STATE_FINISHED \<and> es_exit_code e' = 7"
proof -
  have "GetExec (dm_service run7) ''exec-2'' = Inr (projr (GetExec (dm_service run7) ''exec-2''))
      \<and> es_state (projr (GetExec (dm_service run7) ''exec-2'')) = EXEC_STATE_RUNNING"
    by code_simp
  with run_exec_finish_terminal [OF run7_run, of "''exec-2''" _ 900 7 None] show ?thesis by fastforce
qed

section \<open>Steps\<close>

text \<open>
  C4. Append-only and stable: one step of the daemon, whichever it is, leaves every sandbox in the map,
  with its identity, specification and labels, with a log that extends the old one, and with every
  exec that had ended exactly as it ended.  The one exception is the purge: it removes just the
  sandboxes whose logs the store has dropped.
\<close>
theorem step_keeps_records:
  assumes "memory_run base d" and "daemon_step (memory_config base) d d'" and "box_of d sid = Some rec"
  shows "(\<exists>rec' es. box_of d' sid = Some rec' \<and> sr_events rec' = sr_events rec @ es
            \<and> sr_create_spec rec' = sr_create_spec rec
            \<and> sh_sandbox_id (sr_handle rec') = sid
            \<and> sh_labels (sr_handle rec') = sh_labels (sr_handle rec)
            \<and> sh_created_at (sr_handle rec') = sh_created_at (sr_handle rec)
            \<and> (\<forall>k e. gm_get (sr_execs rec) k = Some e \<longrightarrow> isExecTerminal (es_state e) \<longrightarrow>
                 gm_get (sr_execs rec') k = Some e))
    \<or> (box_of d' sid = None \<and> sid \<in> set (dm_purging d))"
proof -
  from mem_daemon.step_record [OF assms(2) memory_run_svc_inv [OF assms(1)] assms(3)]
  show ?thesis
  proof
    assume "\<exists>rec'. box_of d' sid = Some rec' \<and> record_kept rec rec'"
    then obtain rec' where "box_of d' sid = Some rec'" "record_kept rec rec'" by blast
    with memory_run_facts(2) [OF assms(1,3)] show ?thesis
      by (fastforce simp: record_kept_def same_identity_def exec_kept_def)
  qed simp
qed

theorem step_keeps_records_witness:
  "\<exists>rec rec' es. box_of run7 ''box-1'' = Some rec \<and> box_of run8 ''box-1'' = Some rec'
     \<and> sr_events rec' = sr_events rec @ es"
proof -
  have "box_of run7 ''box-1'' \<noteq> None \<and> dm_purging run7 = []" by code_simp
  then obtain rec where r: "box_of run7 ''box-1'' = Some rec" and p: "dm_purging run7 = []" by auto
  from step_keeps_records [OF run7_run run8_step r] p r show ?thesis by auto
qed



section \<open>Purging\<close>

text \<open>
  C6. A sandbox leaves the store only through a cleanup that finds its recorded deletion at least
  the retention time ago; that cleanup names exactly those sandboxes, and then removes exactly them,
  with their execs, from the map.
\<close>
theorem purge_exact:
  assumes "memory_run base d" and "dm_purging d = []"
    and "cleanupExpiredEvents (memory_config base) now (dm_service d) = Inr s'"
  shows "gm_get (svc_boxes s') sid =
      (case gm_get (me_deleted_at (store_of d)) sid of
         Some t \<Rightarrow> if cfg_cleanup_ttl base \<le> now - t then None else box_of d sid
       | None \<Rightarrow> box_of d sid)
    \<and> me_events_of (svc_store s') sid =
      (case gm_get (me_deleted_at (store_of d)) sid of
         Some t \<Rightarrow> if cfg_cleanup_ttl base \<le> now - t then [] else me_events_of (store_of d) sid
       | None \<Rightarrow> me_events_of (store_of d) sid)
    \<and> ((\<exists>e. GetExec s' k = Inr e) \<longleftrightarrow>
      (\<exists>sid rec. gm_get (svc_boxes s') sid = Some rec \<and> k \<in> gm_keys (sr_execs rec)))"
proof -
  from assms(3) obtain removed st' where
      st': "st_cleanup memoryEventStore (store_of d) now (cfg_cleanup_ttl base) = Inr (removed, st')"
    and s': "s' = purge_boxes removed ((dm_service d)\<lparr>svc_store := st'\<rparr>)"
    by (auto simp: cleanupExpiredEvents_def cleanup_store_def res_bind_eq_Inr memory_config_def)
  then have c: "cleanup_store (memory_config base) now (dm_service d)
      = Inr (removed, (dm_service d)\<lparr>svc_store := st'\<rparr>)"
    by (simp add: cleanup_store_def memory_config_def)
  from memory_run_svc_inv [OF assms(1)] have i: "mem_daemon.svc_inv base [] (dm_service d)"
    by (simp add: assms(2))
  then have m: "me_inv (store_of d)" by (simp add: mem_daemon.svc_inv_def)
  note cl = mem_store.cleanup [OF m st']
  have st: "svc_store (purge_boxes ks q) = svc_store q" for ks and q :: "(memory_event_store, memory_id_registry) service"
    by (induction ks arbitrary: q) (auto simp: purge_boxes_def purge_one_def split: option.splits)
  from mem_daemon.cleanup_store_inv [OF i c]
  have "mem_daemon.svc_inv base removed ((dm_service d)\<lparr>svc_store := st'\<rparr>)"
    .
  from mem_daemon.purge_map_inv [OF this] have ix: "index_ok (\<lambda>r. gm_keys (mr_exec_ids r)) s'"
    by (simp add: s' mem_daemon.svc_inv_def)
  have "gm_get (svc_boxes s') sid =
      (case gm_get (me_deleted_at (store_of d)) sid of
         Some t \<Rightarrow> if cfg_cleanup_ttl base \<le> now - t then None else box_of d sid
       | None \<Rightarrow> box_of d sid)"
    using cl by (auto simp: s' mem_daemon.purge_boxes_gone split: option.split)
  moreover have "me_events_of (svc_store s') sid =
      (case gm_get (me_deleted_at (store_of d)) sid of
         Some t \<Rightarrow> if cfg_cleanup_ttl base \<le> now - t then [] else me_events_of (store_of d) sid
       | None \<Rightarrow> me_events_of (store_of d) sid)"
    using cl by (auto simp: s' st split: option.split)
  moreover have "(\<exists>e. GetExec s' k = Inr e) \<longleftrightarrow>
      (\<exists>sid rec. gm_get (svc_boxes s') sid = Some rec \<and> k \<in> gm_keys (sr_execs rec))"
    using ix
    by (fastforce simp: GetExec_def res_bind_eq_Inr requireExec_Inr index_ok_def gm_get_Some_key)
  ultimately show ?thesis by blast
qed

theorem purge_exact_witness:
  "\<exists>s'. cleanupExpiredEvents sample_config 900 (dm_service run7) = Inr s'
     \<and> gm_get (svc_boxes s') ''box-1'' = box_of run7 ''box-1''"
proof -
  have p: "dm_purging run7 = [] \<and> gm_get (me_deleted_at (store_of run7)) ''box-1'' = None
      \<and> \<not> isl (cleanupExpiredEvents sample_config 900 (dm_service run7))" by code_simp
  then obtain s' where "cleanupExpiredEvents sample_config 900 (dm_service run7) = Inr s'"
    by (cases "cleanupExpiredEvents sample_config 900 (dm_service run7)") auto
  with purge_exact [OF run7_run _ this, of "''box-1''" "''exec-1''"] p show ?thesis by auto
qed

end
