(* ===== verification/Rpc_Props.thy ===== *)
theory Rpc_Props
  imports Run_Props
begin

text \<open>
  What each RPC promises its caller: the response, the state after it and the goroutine it starts, on
  the accepting and on the refusing branches.
\<close>

section \<open>CreateSandbox\<close>

lemma create_with_id_Inr:
  assumes "create_with_id cfg now sid spec s = (s', ts, Inr h)"
  shows "ts = [CompleteSandboxCreate sid]
    \<and> (\<exists>rec. rec = appended now SANDBOX_ACCEPTED (no_mutation\<lparr>mu_sandbox_state := SANDBOX_STATE_PENDING\<rparr>)
                       (new_record now sid spec)
         \<and> svc_boxes s' = gm_set sid rec (svc_boxes s) \<and> h = sr_handle rec)"
  using assms
  by (auto simp: create_with_id_def Let_def release_sandbox_id_def appendEventLocked_Inr
      dest: appendEventLocked_record split: sum.splits prod.splits)

lemma CreateSandbox_Inr:
  assumes "CreateSandbox cfg env now uuids req s = Some (s', ts, Inr h)"
  obtains spec sid r' where "checked_spec env req = Inr spec"
    and "allocateSandboxID (cfg_id_registry cfg) now uuids (cr_sandbox_id req) (svc_registry s) = Some (Inr (sid, r'))"
    and "create_with_id cfg now sid spec (s\<lparr>svc_registry := r'\<rparr>) = (s', ts, Inr h)"
  using assms by (auto simp: CreateSandbox_def split: sum.splits option.splits)

text \<open>
  C7. An accepted \<^verbatim>\<open>CreateSandbox\<close>: the id is the one asked for, and a valid one, or one the generator
  gave; the sandbox is there, PENDING, with one event, and the handle returned is the one
  \<^verbatim>\<open>GetSandbox\<close> reports; image and labels are those of the merged and checked specification; no other
  sandbox changed; exactly one goroutine starts, which will create it.
\<close>
theorem CreateSandbox_accepted:
  assumes "CreateSandbox cfg env now uuids req s = Some (s', ts, Inr h)"
    and "cfg_id_registry cfg = memoryIDRegistry"
  shows "\<exists>spec. checked_spec env req = Inr spec
    \<and> sh_image h = cs_image spec \<and> sh_labels h = cs_labels spec
    \<and> sh_companion_containers h = cs_companion_containers spec
    \<and> sh_state h = SANDBOX_STATE_PENDING \<and> sh_last_event_sequence h = 1
    \<and> (if cr_sandbox_id req = '''' then sh_sandbox_id h \<in> set uuids
       else sh_sandbox_id h = cr_sandbox_id req
         \<and> validateCallerProvidedID ''sandbox_id'' (cr_sandbox_id req) = None)
    \<and> GetSandbox s' (sh_sandbox_id h) = Inr h
    \<and> (\<forall>k. k \<noteq> sh_sandbox_id h \<longrightarrow> gm_get (svc_boxes s') k = gm_get (svc_boxes s) k)
    \<and> ts = [CompleteSandboxCreate (sh_sandbox_id h)]"
proof -
  from assms(1) obtain spec sid r' where sp: "checked_spec env req = Inr spec"
    and al: "allocateSandboxID (cfg_id_registry cfg) now uuids (cr_sandbox_id req) (svc_registry s) = Some (Inr (sid, r'))"
    and w: "create_with_id cfg now sid spec (s\<lparr>svc_registry := r'\<rparr>) = (s', ts, Inr h)"
    by (rule CreateSandbox_Inr)
  note f = mem_reg.allocateSandboxID_fresh [OF al [unfolded assms(2)]]
  from create_with_id_Inr [OF w] sp f show ?thesis
    by (auto simp: GetSandbox_def new_record_def new_event_def update_handle_def touch_state_changed_at_def
        set_error_on_failed_def clear_error_on_leave_def no_mutation_def)
qed

theorem CreateSandbox_accepted_witness:
  "\<exists>s' ts h. CreateSandbox sample_config no_host 100 [] sample_request (dm_service run0) = Some (s', ts, Inr h)
     \<and> sh_sandbox_id h = ''box-1'' \<and> ts = [CompleteSandboxCreate ''box-1'']"
proof -
  have "case CreateSandbox sample_config no_host 100 [] sample_request (dm_service run0) of
      Some (_, _, r) \<Rightarrow> \<not> isl r | None \<Rightarrow> False" by code_simp
  then obtain s' ts h where c: "CreateSandbox sample_config no_host 100 [] sample_request (dm_service run0)
      = Some (s', ts, Inr h)"
    by (auto simp: isl_def split: option.splits) (metis sum.exhaust)
  have "cr_sandbox_id sample_request = ''box-1''" by (simp add: sample_request_def)
  with CreateSandbox_accepted [OF c memory_config_simps(2)] c show ?thesis by force
qed


definition full_disk :: "memory_event_store event_store_ops" where
  "full_disk = memoryEventStore\<lparr>st_append := \<lambda>_ _ _. Inl (ErrText [Lit ''no space left on device''])\<rparr>"


text \<open>
  C9. Without an id from the caller the allocation loop ends: as soon as the generator returns an id
  that is not in use, \<^verbatim>\<open>CreateSandbox\<close> answers.
\<close>
theorem CreateSandbox_answers:
  assumes "cfg_id_registry cfg = memoryIDRegistry"
    and "cr_sandbox_id req \<noteq> '''' \<or> (\<exists>k \<in> set uuids. k \<notin> gm_keys (mr_sandbox_ids (svc_registry s)))"
  shows "CreateSandbox cfg env now uuids req s \<noteq> None"
  using mem_reg.allocateSandboxID_returns [of "cr_sandbox_id req" uuids "svc_registry s" now] assms
  by (auto simp: CreateSandbox_def simp del: not_None_eq split: sum.splits option.splits)

theorem CreateSandbox_answers_witness:
  "CreateSandbox sample_config no_host 100 [''box-1'', ''fresh''] (sample_request\<lparr>cr_sandbox_id := ''''\<rparr>)
     (dm_service run3) \<noteq> None"
proof (rule CreateSandbox_answers)
  have "''fresh'' \<notin> gm_keys (mr_sandbox_ids (svc_registry (dm_service run3)))" by code_simp
  then show "cr_sandbox_id (sample_request\<lparr>cr_sandbox_id := ''''\<rparr>) \<noteq> ''''
    \<or> (\<exists>k \<in> set [''box-1'', ''fresh'']. k \<notin> gm_keys (mr_sandbox_ids (svc_registry (dm_service run3))))"
    by auto
qed simp

section \<open>ListSandboxes\<close>

lemma memory_run_keyed:
  assumes "memory_run base d"
  shows "keyed (dm_service d)"
  using memory_run_svc_inv [OF assms] boxes_ok_keyed by (auto simp: mem_daemon.svc_inv_def)

lemma keyed_box:
  "keyed s \<Longrightarrow> (k, rec) \<in> set (svc_boxes s) \<Longrightarrow> gm_get (svc_boxes s) k = Some rec \<and> sh_sandbox_id (sr_handle rec) = k"
  by (auto simp: keyed_def gm_in_set_get)

lemma keyed_iff:
  "keyed s \<Longrightarrow> (k, rec) \<in> set (svc_boxes s) \<longleftrightarrow>
     gm_get (svc_boxes s) k = Some rec \<and> sh_sandbox_id (sr_handle rec) = k"
  using keyed_box [of s k rec] gm_get_in_set [of "svc_boxes s" k rec] by iprover

lemma GetSandbox_Inr:
  "GetSandbox s k = Inr h \<longleftrightarrow> (\<exists>rec. gm_get (svc_boxes s) k = Some rec \<and> h = sr_handle rec)"
  by (auto simp: GetSandbox_def split: option.splits)

lemma distinct_map_sort_key: "distinct (map f (sort_key g xs)) = distinct (map f xs)"
  by (metis mset_eq_imp_distinct_iff mset_map mset_sort)

text \<open>The sandboxes \<^verbatim>\<open>ListSandboxes\<close> selects, before it orders them.\<close>

lemma listed_map:
  "[cloneHandle (sr_handle rec). (_, rec) \<leftarrow> m, P rec, Q rec]
     = map (sr_handle \<circ> snd) (filter (\<lambda>(_, rec). P rec \<and> Q rec) m)"
  by (induction m) (auto split: if_splits)

text \<open>
  \<^verbatim>\<open>ListSandboxes\<close> returns, each once and ordered by creation time and then id, exactly the
  sandboxes that carry every label of the selector, the deleted ones only when asked for.
\<close>
theorem ListSandboxes_exact:
  assumes "memory_run base d" and "gm_ok (ls_label_selector req)"
  shows "sorted (map list_order (ListSandboxes (dm_service d) req))
    \<and> distinct (map sh_sandbox_id (ListSandboxes (dm_service d) req))
    \<and> set (ListSandboxes (dm_service d) req) =
        {h. GetSandbox (dm_service d) (sh_sandbox_id h) = Inr h
          \<and> (ls_include_deleted req \<or> sh_state h \<noteq> SANDBOX_STATE_DELETED)
          \<and> (\<forall>k v. gm_get (ls_label_selector req) k = Some v \<longrightarrow> gm_get (sh_labels h) k = Some v)}"
proof -
  note kd = memory_run_keyed [OF assms(1)]
  let ?P = "\<lambda>(_, rec). (ls_include_deleted req \<or> rec_state rec \<noteq> SANDBOX_STATE_DELETED)
      \<and> matchesLabelSelector (sh_labels (sr_handle rec)) (ls_label_selector req)"
  let ?l = "map (sr_handle \<circ> snd) (filter ?P (svc_boxes (dm_service d)))"
  have l: "ListSandboxes (dm_service d) req = sort_key list_order ?l"
    by (simp only: ListSandboxes_def listed_map)
  have "map sh_sandbox_id ?l = map fst (filter ?P (svc_boxes (dm_service d)))"
    using keyed_box [OF kd] by (auto simp: comp_def)
  moreover have "distinct (map fst (filter ?P (svc_boxes (dm_service d))))"
    using kd by (intro distinct_map_filter) (simp add: keyed_def gm_ok_def)
  ultimately have "distinct (map sh_sandbox_id (ListSandboxes (dm_service d) req))"
    by (simp only: l distinct_map_sort_key)
  moreover have "sorted (map list_order (ListSandboxes (dm_service d) req))"
    by (simp only: l sorted_sort_key)
  moreover have "h \<in> set (ListSandboxes (dm_service d) req) \<longleftrightarrow>
      GetSandbox (dm_service d) (sh_sandbox_id h) = Inr h
        \<and> (ls_include_deleted req \<or> sh_state h \<noteq> SANDBOX_STATE_DELETED)
        \<and> (\<forall>k v. gm_get (ls_label_selector req) k = Some v \<longrightarrow> gm_get (sh_labels h) k = Some v)" for h
  proof -
    have "h \<in> set (ListSandboxes (dm_service d) req) \<longleftrightarrow>
        (\<exists>k rec. (k, rec) \<in> set (svc_boxes (dm_service d)) \<and> ?P (k, rec) \<and> h = sr_handle rec)"
      by (auto simp: l image_iff)
    also have "\<dots> \<longleftrightarrow> (\<exists>rec. box_of d (sh_sandbox_id h) = Some rec \<and> ?P (sh_sandbox_id h, rec) \<and> h = sr_handle rec)"
      unfolding keyed_iff [OF kd] by (auto simp only: prod.case)
    finally show ?thesis
      unfolding GetSandbox_Inr prod.case matchesLabelSelector_iff [OF assms(2)] by metis
  qed
  ultimately show ?thesis by blast
qed

theorem ListSandboxes_exact_witness:
  "map sh_sandbox_id (ListSandboxes (dm_service run9) \<lparr>ls_include_deleted = False, ls_label_selector = []\<rparr>)
     = [''box-1'']
   \<and> distinct (map sh_sandbox_id (ListSandboxes (dm_service run9) \<lparr>ls_include_deleted = False, ls_label_selector = []\<rparr>))"
proof
  show "map sh_sandbox_id (ListSandboxes (dm_service run9) \<lparr>ls_include_deleted = False, ls_label_selector = []\<rparr>)
     = [''box-1'']" by code_simp
  show "distinct (map sh_sandbox_id (ListSandboxes (dm_service run9) \<lparr>ls_include_deleted = False, ls_label_selector = []\<rparr>))"
    using ListSandboxes_exact [OF run9_run, of "\<lparr>ls_include_deleted = False, ls_label_selector = []\<rparr>"]
    by simp
qed

section \<open>SubscribeSandboxEvents\<close>

lemma of_nat_le_seqno:
  "i < 2 ^ 64 \<Longrightarrow> j < 2 ^ 64 \<Longrightarrow> (of_nat i :: seqno) \<le> of_nat j \<longleftrightarrow> i \<le> j"
  using of_nat_less_seqno [of i j] of_nat_less_seqno [of j i] by (cases i j rule: linorder_cases) auto

lemma filter_after:
  assumes "numbered es" and "length es < 2 ^ 64" and "n \<le> length es"
  shows "filter (\<lambda>e. \<not> ev_sequence e \<le> of_nat n) es = drop n es"
proof -
  have sq: "\<not> ev_sequence (es ! i) \<le> of_nat n \<longleftrightarrow> n \<le> i" if "i < length es" for i
  proof -
    have "ev_sequence (es ! i) = of_nat (Suc i)" using assms(1) that by (rule numbered_nth)
    then show ?thesis
      using of_nat_le_seqno [of "Suc i" n] that assms(2,3) by (simp add: not_less_eq_eq del: of_nat_Suc)
  qed
  have "filter (\<lambda>e. \<not> ev_sequence e \<le> of_nat n) (take n es) = []"
    using sq assms(3) by (auto simp: filter_empty_conv in_set_conv_nth) (metis not_le order_less_le_trans)
  moreover have "filter (\<lambda>e. \<not> ev_sequence e \<le> of_nat n) (drop n es) = drop n es"
    using sq by (auto simp: filter_id_conv in_set_conv_nth) (metis add.commute le_add1 less_diff_conv)
  ultimately show ?thesis
    by (metis append_Nil append_take_drop_id filter_append)
qed

lemma last_numbered:
  assumes "numbered es" and "n \<le> length es"
  shows "last_sequence (of_nat n) (map (\<lambda>e. e\<lparr>ev_replay := True\<rparr>) (drop n es)) = of_nat (length es)"
proof (cases "n = length es")
  case True
  then show ?thesis by (simp add: last_sequence_def)
next
  case False
  with assms(2) have n: "n < length es" by simp
  then have "last (drop n es) = es ! (length es - 1)" by (simp add: last_conv_nth)
  with n numbered_nth [OF assms(1), of "length es - 1"] show ?thesis
    by (simp add: last_sequence_def last_map)
qed

lemma subscribe_events:
  assumes "memory_run base d" and "box_of d sid = Some rec" and "n \<le> length (sr_events rec)"
  shows "eventsAfter rec (of_nat n) = map (\<lambda>e. e\<lparr>ev_replay := True\<rparr>) (drop n (sr_events rec))"
    and "validateSequenceNotExpired rec (of_nat n) = None"
    and "last_sequence (of_nat n) (eventsAfter rec (of_nat n)) = of_nat (length (sr_events rec))"
proof -
  from memory_run_facts(1) [OF assms(1,2)]
  have l: "numbered (sr_events rec)" "sr_next_sequence rec = of_nat (length (sr_events rec))"
    by (simp_all add: rec_ok_def log_ok_def)
  note b = memory_run_bound [OF assms(1,2)]
  show e: "eventsAfter rec (of_nat n) = map (\<lambda>e. e\<lparr>ev_replay := True\<rparr>) (drop n (sr_events rec))"
    by (simp add: eventsAfter_def filter_after [OF l(1) b assms(3)])
  show "validateSequenceNotExpired rec (of_nat n) = None"
    using of_nat_less_seqno [of n "length (sr_events rec)"] b assms(3) l(2)
    by (cases "n = length (sr_events rec)") (simp_all add: validateSequenceNotExpired_def less_imp_le)
  show "last_sequence (of_nat n) (eventsAfter rec (of_nat n)) = of_nat (length (sr_events rec))"
    by (simp add: e last_numbered [OF l(1) assms(3)])
qed



end
