(* ===== verification/Sweep_Props.thy ===== *)
theory Sweep_Props
  imports Rpc_Props
begin

text \<open>
  Deletion, one by one and by label, and the two scans of the cleanup loop.  They all sweep over the
  sandboxes and change those a predicate selects; what a sweep does is shown once.
\<close>

section \<open>Sweeps over the sandboxes\<close>

lemma mem_append:
  obtains st' where "appendEventLocked (memory_config base) now rec t m st = Inr (appended now t m rec, st')"
proof -
  have "\<not> isl (appendEventLocked (memory_config base) now rec t m st)"
    by (simp add: appendEventLocked_def Let_def memory_Append_def)
  then obtain r st' where a: "appendEventLocked (memory_config base) now rec t m st = Inr (r, st')"
    by (cases "appendEventLocked (memory_config base) now rec t m st") auto
  with appendEventLocked_record [OF a] that show ?thesis by simp
qed

text \<open>
  \<open>F\<close> visits a sandbox, turns the record into \<open>g rec\<close> and notes its id when \<open>P rec\<close>, and touches no
  other sandbox.
\<close>

definition sweeps ::
  "(string \<times> sandbox_record \<Rightarrow> ('st, 'r) service \<times> string list \<Rightarrow> ('st, 'r) service \<times> string list)
     \<Rightarrow> (sandbox_record \<Rightarrow> bool) \<Rightarrow> (sandbox_record \<Rightarrow> sandbox_record) \<Rightarrow> bool" where
  "sweeps F P g \<longleftrightarrow>
     (\<forall>k rec s ids. gm_get (svc_boxes s) k = Some rec \<longrightarrow>
        (\<exists>s'. F (k, rec) (s, ids) = (s', if P rec then ids @ [k] else ids)
           \<and> (\<forall>j. gm_get (svc_boxes s') j = (if j = k \<and> P rec then Some (g rec) else gm_get (svc_boxes s) j))))"

definition swept :: "(sandbox_record \<Rightarrow> bool) \<Rightarrow> (sandbox_record \<Rightarrow> sandbox_record) \<Rightarrow> sandbox_record \<Rightarrow> sandbox_record"
  where
  "swept P g rec = (if P rec then g rec else rec)"

lemma sweep_fold:
  assumes "sweeps F P g" and "distinct (map fst m)"
    and "\<forall>(k, rec) \<in> set m. gm_get (svc_boxes s) k = Some rec"
  shows "\<exists>s'. fold F m (s, ids) = (s', ids @ map fst (filter (P \<circ> snd) m))
    \<and> (\<forall>j. gm_get (svc_boxes s') j =
          (if j \<in> fst ` set m then map_option (swept P g) (gm_get (svc_boxes s) j) else gm_get (svc_boxes s) j))"
  using assms(2,3)
proof (induction m arbitrary: s ids)
  case Nil
  then show ?case by simp
next
  case (Cons e m)
  obtain k rec where e: "e = (k, rec)" by (cases e)
  with Cons.prems(2) have b: "gm_get (svc_boxes s) k = Some rec" by simp
  with assms(1) obtain s1 where s1: "F (k, rec) (s, ids) = (s1, if P rec then ids @ [k] else ids)"
    and b1: "\<And>j. gm_get (svc_boxes s1) j = (if j = k \<and> P rec then Some (g rec) else gm_get (svc_boxes s) j)"
    unfolding sweeps_def by blast
  from Cons.prems(1) e have nk: "k \<notin> fst ` set m" "distinct (map fst m)" by auto
  have "\<forall>(j, r) \<in> set m. gm_get (svc_boxes s1) j = Some r"
    using Cons.prems(2) nk(1) b1 by (force simp: image_iff)
  from Cons.IH [OF nk(2) this, of "if P rec then ids @ [k] else ids"]
  obtain s' where s': "fold F m (s1, if P rec then ids @ [k] else ids)
        = (s', (if P rec then ids @ [k] else ids) @ map fst (filter (P \<circ> snd) m))"
    and b': "\<And>j. gm_get (svc_boxes s') j =
        (if j \<in> fst ` set m then map_option (swept P g) (gm_get (svc_boxes s1) j) else gm_get (svc_boxes s1) j)"
    by blast
  have "fold F (e # m) (s, ids) = (s', ids @ map fst (filter (P \<circ> snd) (e # m)))"
    using s1 s' e by simp
  moreover have "gm_get (svc_boxes s') j =
      (if j \<in> fst ` set (e # m) then map_option (swept P g) (gm_get (svc_boxes s) j) else gm_get (svc_boxes s) j)" for j
    using b b1 b' nk(1) e by (auto simp: swept_def)
  ultimately show ?case by blast
qed

lemma sweep_all:
  assumes "sweeps F P g" and "keyed s"
  shows "\<exists>s'. fold F (svc_boxes s) (s, []) = (s', map fst (filter (P \<circ> snd) (svc_boxes s)))
    \<and> (\<forall>j. gm_get (svc_boxes s') j = map_option (swept P g) (gm_get (svc_boxes s) j))"
proof -
  have "distinct (map fst (svc_boxes s))" "\<forall>(k, rec) \<in> set (svc_boxes s). gm_get (svc_boxes s) k = Some rec"
    using assms(2) by (auto simp: keyed_def gm_ok_def gm_in_set_get)
  from sweep_fold [OF assms(1) this, of "[]"] obtain s' where
      "fold F (svc_boxes s) (s, []) = (s', map fst (filter (P \<circ> snd) (svc_boxes s)))"
    and g: "\<And>j. gm_get (svc_boxes s') j =
          (if j \<in> fst ` set (svc_boxes s) then map_option (swept P g) (gm_get (svc_boxes s) j)
           else gm_get (svc_boxes s) j)" by auto
  moreover have "gm_get (svc_boxes s') j = map_option (swept P g) (gm_get (svc_boxes s) j)" for j
    using g [of j] gm_get_None [of "svc_boxes s" j] by (auto simp: gm_keys_def)
  ultimately show ?thesis by blast
qed

text \<open>The ids a sweep notes are those of the selected sandboxes.\<close>

lemma swept_ids:
  assumes "keyed s"
  shows "set (map fst (filter (P \<circ> snd) (svc_boxes s))) = {k. \<exists>rec. gm_get (svc_boxes s) k = Some rec \<and> P rec}"
    and "distinct (map fst (filter (P \<circ> snd) (svc_boxes s)))"
proof -
  have "(k, rec) \<in> set (svc_boxes s) \<longleftrightarrow> gm_get (svc_boxes s) k = Some rec" for k rec
    using assms gm_in_set_get [of "svc_boxes s" k rec] gm_get_in_set [of "svc_boxes s" k rec]
    by (auto simp: keyed_def)
  moreover have "set (map fst (filter (P \<circ> snd) (svc_boxes s))) = {k. \<exists>rec. (k, rec) \<in> set (svc_boxes s) \<and> P rec}"
    by (auto simp: image_iff)
  ultimately show "set (map fst (filter (P \<circ> snd) (svc_boxes s)))
      = {k. \<exists>rec. gm_get (svc_boxes s) k = Some rec \<and> P rec}" by simp
  show "distinct (map fst (filter (P \<circ> snd) (svc_boxes s)))"
    using assms by (intro distinct_map_filter) (simp add: keyed_def gm_ok_def)
qed

lemma distinct_map_task: "distinct ids \<Longrightarrow> inj f \<Longrightarrow> distinct (map f ids)"
  by (simp add: distinct_map inj_def inj_on_def)

section \<open>Deletion\<close>

definition deletable :: "sandbox_record \<Rightarrow> bool" where
  "deletable rec \<longleftrightarrow> rec_state rec \<noteq> SANDBOX_STATE_DELETED \<and> rec_state rec \<noteq> SANDBOX_STATE_DELETING"

definition deleting :: "time \<Rightarrow> string \<Rightarrow> sandbox_record \<Rightarrow> sandbox_record" where
  "deleting now reason rec = set_state SANDBOX_STATE_DELETING (appended now SANDBOX_DELETE_REQUESTED
     (no_mutation\<lparr>mu_reason := reason, mu_sandbox_state := SANDBOX_STATE_DELETING\<rparr>) rec)"

lemma mem_beginDelete:
  obtains st' where "beginSandboxDeleteLocked (memory_config base) now rec reason st
      = Inr (deletable rec, swept deletable (deleting now reason) rec, st')"
proof (cases "deletable rec")
  case True
  obtain st' where a: "appendEventLocked (memory_config base) now rec SANDBOX_DELETE_REQUESTED
      (no_mutation\<lparr>mu_reason := reason, mu_sandbox_state := SANDBOX_STATE_DELETING\<rparr>) st
      = Inr (appended now SANDBOX_DELETE_REQUESTED
          (no_mutation\<lparr>mu_reason := reason, mu_sandbox_state := SANDBOX_STATE_DELETING\<rparr>) rec, st')"
    by (rule mem_append)
  show ?thesis
    by (rule that [of st']) (use True a in \<open>simp add: beginSandboxDeleteLocked_def deletable_def deleting_def swept_def\<close>)
next
  case False
  show ?thesis
    by (rule that [of st]) (use False in \<open>auto simp: beginSandboxDeleteLocked_def deletable_def swept_def\<close>)
qed

lemma deleting_simps [simp]:
  "rec_state (deleting now reason rec) = SANDBOX_STATE_DELETING"
  "length (sr_events (deleting now reason rec)) = Suc (length (sr_events rec))"
  "\<not> deletable (deleting now reason rec)"
  by (simp_all add: deleting_def deletable_def)

text \<open>
  \<^verbatim>\<open>DeleteSandbox\<close> of a known sandbox always succeeds and is idempotent: the sandbox is DELETING,
  or DELETED if it was; a goroutine starts only when the deletion was not already under way; and a
  second call succeeds, starts nothing and adds no event.
\<close>
theorem DeleteSandbox_idempotent:
  assumes "gm_get (svc_boxes s) sid = Some rec"
    and "DeleteSandbox (memory_config base) now sid s = (s', ts, r)"
  shows "r = Inr ()
    \<and> ts = (if deletable rec then [CompleteSandboxDelete sid ''delete_requested''] else [])
    \<and> (\<exists>rec'. gm_get (svc_boxes s') sid = Some rec'
         \<and> rec_state rec' = (if rec_state rec = SANDBOX_STATE_DELETED then SANDBOX_STATE_DELETED
                             else SANDBOX_STATE_DELETING)
         \<and> (\<exists>s'' rec''. DeleteSandbox (memory_config base) now' sid s' = (s'', [], Inr ())
              \<and> gm_get (svc_boxes s'') sid = Some rec'' \<and> rec_state rec'' = rec_state rec'
              \<and> sr_events rec'' = sr_events rec'))"
proof (cases "rec_state rec = SANDBOX_STATE_DELETED")
  case True
  with assms show ?thesis
    by (auto simp: DeleteSandbox_def requireSandboxLocked_def memory_MarkDeleted_def deletable_def
        split: if_splits)
next
  case False
  obtain st' where b: "beginSandboxDeleteLocked (memory_config base) now rec ''delete_requested'' (svc_store s)
      = Inr (deletable rec, swept deletable (deleting now ''delete_requested'') rec, st')"
    by (rule mem_beginDelete)
  let ?rec' = "swept deletable (deleting now ''delete_requested'') rec"
  have st: "rec_state ?rec' = SANDBOX_STATE_DELETING" using False by (simp add: swept_def deletable_def)
  from False assms b have s': "s' = put_record sid ?rec' st' s"
    and o': "r = Inr ()" "ts = (if deletable rec then [CompleteSandboxDelete sid ''delete_requested''] else [])"
    by (auto simp: DeleteSandbox_def requireSandboxLocked_def split: if_splits)
  have "DeleteSandbox (memory_config base) now' sid s' = (put_record sid ?rec' st' s', [], Inr ())"
    using st by (simp add: s' DeleteSandbox_def requireSandboxLocked_def beginSandboxDeleteLocked_def)
  with s' o' st False show ?thesis by auto
qed

theorem DeleteSandbox_idempotent_witness:
  "\<exists>s' ts r. DeleteSandbox sample_config 900 ''box-1'' (dm_service run8) = (s', ts, r) \<and> r = Inr ()"
proof -
  have "box_of run8 ''box-1'' \<noteq> None" by code_simp
  then obtain rec where b: "box_of run8 ''box-1'' = Some rec" by auto
  obtain s' ts r where d: "DeleteSandbox sample_config 900 ''box-1'' (dm_service run8) = (s', ts, r)"
    by (cases "DeleteSandbox sample_config 900 ''box-1'' (dm_service run8)")
  from DeleteSandbox_idempotent [OF b d, of 901] d show ?thesis by blast
qed

definition delete_step ::
  "('st, 'r) service_config \<Rightarrow> time \<Rightarrow> (string, string) gomap \<Rightarrow> string \<times> sandbox_record
     \<Rightarrow> ('st, 'r) service \<times> string list \<Rightarrow> ('st, 'r) service \<times> string list" where
  "delete_step cfg now selector entry acc =
     (case delete_matching cfg now selector [entry] (fst acc) (snd acc) of
        (s', Inr ids) \<Rightarrow> (s', ids) | (s', Inl _) \<Rightarrow> (s', snd acc))"

lemma mem_delete_matching:
  "delete_matching (memory_config base) now sel m s ids =
     (case fold (delete_step (memory_config base) now sel) m (s, ids) of (s', ids') \<Rightarrow> (s', Inr ids'))"
proof (induction m arbitrary: s ids)
  case Nil
  then show ?case by simp
next
  case (Cons e m)
  obtain k rec where e: "e = (k, rec)" by (cases e)
  obtain st' where "beginSandboxDeleteLocked (memory_config base) now rec ''delete_requested'' (svc_store s)
      = Inr (deletable rec, swept deletable (deleting now ''delete_requested'') rec, st')"
    by (rule mem_beginDelete)
  with Cons.IH show ?case by (simp add: e delete_step_def)
qed

lemma delete_sweeps:
  "sweeps (delete_step (memory_config base) now sel)
     (\<lambda>rec. matchesLabelSelector (sh_labels (sr_handle rec)) sel \<and> deletable rec)
     (deleting now ''delete_requested'')"
  unfolding sweeps_def
proof (intro allI impI)
  fix k rec ids and s :: "(memory_event_store, memory_id_registry) service"
  assume b: "gm_get (svc_boxes s) k = Some rec"
  obtain st' where d: "beginSandboxDeleteLocked (memory_config base) now rec ''delete_requested'' (svc_store s)
      = Inr (deletable rec, swept deletable (deleting now ''delete_requested'') rec, st')"
    by (rule mem_beginDelete)
  show "\<exists>s'. delete_step (memory_config base) now sel (k, rec) (s, ids) = (s',
        if matchesLabelSelector (sh_labels (sr_handle rec)) sel \<and> deletable rec then ids @ [k] else ids)
      \<and> (\<forall>j. gm_get (svc_boxes s') j = (if j = k \<and> matchesLabelSelector (sh_labels (sr_handle rec)) sel
            \<and> deletable rec then Some (deleting now ''delete_requested'' rec) else gm_get (svc_boxes s) j))"
    using b by (cases "matchesLabelSelector (sh_labels (sr_handle rec)) sel")
      (auto simp: delete_step_def d swept_def)
qed

text \<open>
  C11. \<^verbatim>\<open>DeleteSandboxes\<close> with a selector reports, in order and each once, exactly the sandboxes that
  match it and are not already deleted or being deleted; these are DELETING afterwards with one more
  event each, every other sandbox is untouched, and one deletion goroutine starts per reported id.
\<close>
theorem DeleteSandboxes_exact:
  assumes "keyed s" and "sel \<noteq> []"
    and "DeleteSandboxes (memory_config base) now sel s = (s', ts, r)"
  shows "\<exists>ids. r = Inr \<lparr>ds_deleted_sandbox_ids = ids, ds_deleted_count = of_nat (length ids)\<rparr>
    \<and> sorted ids \<and> distinct ids
    \<and> set ids = {k. \<exists>rec. gm_get (svc_boxes s) k = Some rec
                     \<and> matchesLabelSelector (sh_labels (sr_handle rec)) sel \<and> deletable rec}
    \<and> ts = map (\<lambda>k. CompleteSandboxDelete k ''delete_requested'') ids
    \<and> (\<forall>k. gm_get (svc_boxes s') k =
          map_option (\<lambda>rec. if k \<in> set ids then deleting now ''delete_requested'' rec else rec)
            (gm_get (svc_boxes s) k))"
proof -
  let ?P = "\<lambda>rec. matchesLabelSelector (sh_labels (sr_handle rec)) sel \<and> deletable rec"
  let ?ids = "map fst (filter (?P \<circ> snd) (svc_boxes s))"
  from sweep_all [OF delete_sweeps assms(1)] obtain s1 where
      f: "fold (delete_step (memory_config base) now sel) (svc_boxes s) (s, []) = (s1, ?ids)"
    and b: "\<And>j. gm_get (svc_boxes s1) j
        = map_option (swept ?P (deleting now ''delete_requested'')) (gm_get (svc_boxes s) j)"
    by blast
  have len: "length sel \<noteq> 0" using assms(2) by simp
  from assms(3) have o': "s' = s1" "r = Inr \<lparr>ds_deleted_sandbox_ids = sort ?ids, ds_deleted_count = of_nat (length ?ids)\<rparr>"
      "ts = map (\<lambda>k. CompleteSandboxDelete k ''delete_requested'') (sort ?ids)"
    using len by (simp_all add: DeleteSandboxes_def mem_delete_matching f)
  note ids = swept_ids [OF assms(1), of ?P]
  have "gm_get (svc_boxes s') k =
          map_option (\<lambda>rec. if k \<in> set (sort ?ids) then deleting now ''delete_requested'' rec else rec)
            (gm_get (svc_boxes s) k)" for k
    unfolding o'(1) b set_sort ids(1) by (cases "gm_get (svc_boxes s) k") (auto simp: swept_def)
  then show ?thesis
    using o' ids by (intro exI [of _ "sort ?ids"]) simp
qed

definition labelled :: "string \<Rightarrow> (memory_event_store, memory_id_registry) service
    \<Rightarrow> (memory_event_store, memory_id_registry) service" where
  "labelled k s = fst (create_with_id sample_config 100 k
     (empty_create_spec\<lparr>cs_image := ''img'', cs_labels := [(''team'', ''a'')]\<rparr>) s)"

definition two_boxes :: "(memory_event_store, memory_id_registry) service" where
  "two_boxes = labelled ''box-2'' (labelled ''box-1'' (dm_service run0))"

lemma keyed_list_all:
  "distinct (map fst (svc_boxes s)) \<Longrightarrow>
     list_all (\<lambda>(k, rec). sh_sandbox_id (sr_handle rec) = k) (svc_boxes s) \<Longrightarrow> keyed s"
  by (fastforce simp: keyed_def gm_ok_def list_all_iff dest!: gm_get_in_set)

lemma two_boxes_keyed: "keyed two_boxes"
  by (rule keyed_list_all) code_simp+

theorem DeleteSandboxes_exact_witness:
  "\<exists>s' ts r. DeleteSandboxes sample_config 900 [(''team'', ''a'')] two_boxes = (s', ts, Inr r) \<and> length ts = 2"
proof -
  obtain s' ts r where d: "DeleteSandboxes sample_config 900 [(''team'', ''a'')] two_boxes = (s', ts, r)"
    by (cases "DeleteSandboxes sample_config 900 [(''team'', ''a'')] two_boxes")
  have "length (fst (snd (DeleteSandboxes sample_config 900 [(''team'', ''a'')] two_boxes))) = 2" by code_simp
  with d have l: "length ts = 2" by simp
  from DeleteSandboxes_exact [OF two_boxes_keyed _ d] obtain r' where "r = Inr r'" by auto
  with d l show ?thesis by auto
qed

text \<open>A store that fails for the sandbox \<open>box-2\<close>.\<close>

definition mid_failure :: "(memory_event_store, memory_id_registry) service_config" where
  "mid_failure = sample_config\<lparr>cfg_event_store := memoryEventStore\<lparr>st_append := \<lambda>st k e.
     if k = ''box-2'' then Inl (ErrText [Lit ''no space left on device'']) else memory_Append st k e\<rparr>\<rparr>"

text \<open>
  When an append fails in the middle of \<^verbatim>\<open>DeleteSandboxes\<close>, the call reports the error and starts
  no goroutine, but the sandboxes it had marked before stay DELETING; and since \<^verbatim>\<open>DeleteSandbox\<close> starts
  nothing for a sandbox that is DELETING, retrying it does not delete it either.  Here \<^verbatim>\<open>box-1\<close> was
  marked before the append for \<^verbatim>\<open>box-2\<close> failed.
\<close>
theorem DeleteSandboxes_failure_strands:
  "\<exists>s' st rec s'' rec''.
     DeleteSandboxes mid_failure 900 [(''team'', ''a'')] two_boxes = (s', [], Inl st)
   \<and> gm_get (svc_boxes two_boxes) ''box-1'' = Some rec \<and> rec_state rec = SANDBOX_STATE_PENDING
   \<and> DeleteSandbox sample_config 901 ''box-1'' s' = (s'', [], Inr ())
   \<and> gm_get (svc_boxes s'') ''box-1'' = Some rec'' \<and> rec_state rec'' = SANDBOX_STATE_DELETING"
proof -
  let ?d = "DeleteSandboxes mid_failure 900 [(''team'', ''a'')] two_boxes"
  let ?e = "DeleteSandbox sample_config 901 ''box-1'' (fst ?d)"
  have "fst (snd ?d) = [] \<and> isl (snd (snd ?d)) \<and> fst (snd ?e) = [] \<and> \<not> isl (snd (snd ?e))
    \<and> map_option rec_state (gm_get (svc_boxes two_boxes) ''box-1'') = Some SANDBOX_STATE_PENDING
    \<and> map_option rec_state (gm_get (svc_boxes (fst ?e)) ''box-1'') = Some SANDBOX_STATE_DELETING"
    by code_simp
  then show ?thesis
    by (cases ?d; cases "snd (snd ?d)"; cases ?e; cases "snd (snd ?e)") auto
qed

section \<open>The idle scan\<close>

lemma idle_sweeps:
  "sweeps (idle_scan_one (memory_config base) now) (idle_expired (memory_config base) now)
     (appended now SANDBOX_STOP_REQUESTED (no_mutation\<lparr>mu_reason := ''idle_ttl''\<rparr>))"
  unfolding sweeps_def
proof (intro allI impI)
  fix k rec ids and s :: "(memory_event_store, memory_id_registry) service"
  assume "gm_get (svc_boxes s) k = Some rec"
  obtain st' where "appendEventLocked (memory_config base) now rec SANDBOX_STOP_REQUESTED
      (no_mutation\<lparr>mu_reason := ''idle_ttl''\<rparr>) (svc_store s)
      = Inr (appended now SANDBOX_STOP_REQUESTED (no_mutation\<lparr>mu_reason := ''idle_ttl''\<rparr>) rec, st')"
    by (rule mem_append)
  then show "\<exists>s'. idle_scan_one (memory_config base) now (k, rec) (s, ids)
        = (s', if idle_expired (memory_config base) now rec then ids @ [k] else ids)
      \<and> (\<forall>j. gm_get (svc_boxes s') j = (if j = k \<and> idle_expired (memory_config base) now rec
            then Some (appended now SANDBOX_STOP_REQUESTED (no_mutation\<lparr>mu_reason := ''idle_ttl''\<rparr>) rec)
            else gm_get (svc_boxes s) j))"
    by (auto simp: idle_scan_one_def)
qed

text \<open>
  C12. The idle scan stops exactly the READY sandboxes without an active exec whose idle time limit
  (their own, or the daemon's) is positive and has passed since their last run ended, or since their
  creation; each once.  It adds the stop request to their logs, leaves them READY until the stop is
  done, and touches no other sandbox.
\<close>
theorem idle_scan_exact:
  assumes "keyed s" and "idleScanAndStop (memory_config base) now s = (s', ts)"
  shows "set ts = {CompleteSandboxStop k ''idle_ttl'' | k. \<exists>rec. gm_get (svc_boxes s) k = Some rec
            \<and> rec_state rec = SANDBOX_STATE_READY
            \<and> (\<forall>(x, e) \<in> set (sr_execs rec). isExecTerminal (es_state e))
            \<and> 0 < effectiveIdleTTL rec (cfg_idle_ttl base)
            \<and> effectiveIdleTTL rec (cfg_idle_ttl base) \<le> now - idle_reference rec}
    \<and> distinct ts
    \<and> (\<forall>k rec. gm_get (svc_boxes s) k = Some rec \<longrightarrow>
         (\<exists>rec'. gm_get (svc_boxes s') k = Some rec' \<and> rec_state rec' = rec_state rec
            \<and> sr_execs rec' = sr_execs rec
            \<and> (CompleteSandboxStop k ''idle_ttl'' \<notin> set ts \<longrightarrow> rec' = rec)))"
proof -
  let ?P = "idle_expired (memory_config base) now"
  let ?g = "appended now SANDBOX_STOP_REQUESTED (no_mutation\<lparr>mu_reason := ''idle_ttl''\<rparr>)"
  let ?ids = "map fst (filter (?P \<circ> snd) (svc_boxes s))"
  from sweep_all [OF idle_sweeps assms(1)] obtain s1 where
      f: "fold (idle_scan_one (memory_config base) now) (svc_boxes s) (s, []) = (s1, ?ids)"
    and b: "\<And>j. gm_get (svc_boxes s1) j = map_option (swept ?P ?g) (gm_get (svc_boxes s) j)" by blast
  from assms(2) f have o': "s' = s1" "ts = map (\<lambda>k. CompleteSandboxStop k ''idle_ttl'') ?ids"
    by (simp_all add: idleScanAndStop_def)
  note ids = swept_ids [OF assms(1), of ?P]
  have ex: "?P rec \<longleftrightarrow> rec_state rec = SANDBOX_STATE_READY
      \<and> (\<forall>(x, e) \<in> set (sr_execs rec). isExecTerminal (es_state e))
      \<and> 0 < effectiveIdleTTL rec (cfg_idle_ttl base)
      \<and> effectiveIdleTTL rec (cfg_idle_ttl base) \<le> now - idle_reference rec" for rec
    by (auto simp: idle_expired_def hasActiveExec_def list_ex_iff memory_config_def)
  have "set ts = {CompleteSandboxStop k ''idle_ttl'' | k. \<exists>rec. gm_get (svc_boxes s) k = Some rec \<and> ?P rec}"
    unfolding o'(2) set_map [of _ ?ids] ids(1) by auto
  moreover have "distinct ts"
    unfolding o'(2) by (rule distinct_map_task [OF ids(2)]) (simp add: inj_def)
  moreover have "\<exists>rec'. gm_get (svc_boxes s') k = Some rec' \<and> rec_state rec' = rec_state rec
            \<and> sr_execs rec' = sr_execs rec
            \<and> (CompleteSandboxStop k ''idle_ttl'' \<notin> set ts \<longrightarrow> rec' = rec)"
    if "gm_get (svc_boxes s) k = Some rec" for k rec
    using that b [of k] calculation(1) by (auto simp: o'(1) swept_def)
  ultimately show ?thesis unfolding ex by blast
qed

theorem idle_scan_exact_witness:
  "snd (idleScanAndStop sample_config (20 * minute) (dm_service run8)) = [CompleteSandboxStop ''box-1'' ''idle_ttl'']
   \<and> CompleteSandboxStop ''box-1'' ''idle_ttl'' \<notin> set (snd (idleScanAndStop sample_config 900 (dm_service run8)))"
proof
  show "snd (idleScanAndStop sample_config (20 * minute) (dm_service run8)) = [CompleteSandboxStop ''box-1'' ''idle_ttl'']"
    by code_simp
  obtain s' ts where i: "idleScanAndStop sample_config 900 (dm_service run8) = (s', ts)" by fastforce
  have "map_option (\<lambda>rec. effectiveIdleTTL rec (cfg_idle_ttl sample_base) \<le> 900 - idle_reference rec)
      (box_of run8 ''box-1'') = Some False" by code_simp
  with idle_scan_exact [OF memory_run_keyed [OF run8_run] i] i
  show "CompleteSandboxStop ''box-1'' ''idle_ttl'' \<notin> set (snd (idleScanAndStop sample_config 900 (dm_service run8)))"
    by auto
qed

section \<open>Sandboxes stopped for long\<close>

lemma cleanup_stopped_sweeps:
  "sweeps (cleanup_stopped_one (memory_config base) now) (stopped_expired (memory_config base) now)
     (deleting now ''cleanup_ttl'')"
  unfolding sweeps_def
proof (intro allI impI)
  fix k rec ids and s :: "(memory_event_store, memory_id_registry) service"
  assume "gm_get (svc_boxes s) k = Some rec"
  obtain st' where "beginSandboxDeleteLocked (memory_config base) now rec ''cleanup_ttl'' (svc_store s)
      = Inr (deletable rec, swept deletable (deleting now ''cleanup_ttl'') rec, st')"
    by (rule mem_beginDelete)
  then show "\<exists>s'. cleanup_stopped_one (memory_config base) now (k, rec) (s, ids)
        = (s', if stopped_expired (memory_config base) now rec then ids @ [k] else ids)
      \<and> (\<forall>j. gm_get (svc_boxes s') j = (if j = k \<and> stopped_expired (memory_config base) now rec
            then Some (deleting now ''cleanup_ttl'' rec) else gm_get (svc_boxes s) j))"
    by (auto simp: cleanup_stopped_one_def stopped_expired_def deletable_def swept_def)
qed

text \<open>
  The scan for sandboxes stopped for long starts the deletion of exactly the STOPPED sandboxes
  whose last stop is the retention time ago, marks these DELETING, and touches no other.
\<close>
theorem cleanup_stopped_exact:
  assumes "keyed s" and "cleanupStoppedSandboxes (memory_config base) now s = (s', ts)"
  shows "set ts = {CompleteSandboxDelete k ''cleanup_ttl'' | k. \<exists>rec t. gm_get (svc_boxes s) k = Some rec
            \<and> rec_state rec = SANDBOX_STATE_STOPPED \<and> stopped_at rec = Some t
            \<and> cfg_cleanup_ttl base \<le> now - t}
    \<and> distinct ts
    \<and> (\<forall>k rec. gm_get (svc_boxes s) k = Some rec \<longrightarrow>
         gm_get (svc_boxes s') k = Some
           (if CompleteSandboxDelete k ''cleanup_ttl'' \<in> set ts then deleting now ''cleanup_ttl'' rec else rec))"
proof -
  let ?P = "stopped_expired (memory_config base) now"
  let ?ids = "map fst (filter (?P \<circ> snd) (svc_boxes s))"
  from sweep_all [OF cleanup_stopped_sweeps assms(1)] obtain s1 where
      f: "fold (cleanup_stopped_one (memory_config base) now) (svc_boxes s) (s, []) = (s1, ?ids)"
    and b: "\<And>j. gm_get (svc_boxes s1) j = map_option (swept ?P (deleting now ''cleanup_ttl'')) (gm_get (svc_boxes s) j)"
    by blast
  from assms(2) f have o': "s' = s1" "ts = map (\<lambda>k. CompleteSandboxDelete k ''cleanup_ttl'') ?ids"
    by (simp_all add: cleanupStoppedSandboxes_def)
  note ids = swept_ids [OF assms(1), of ?P]
  have ex: "?P rec \<longleftrightarrow> (\<exists>t. rec_state rec = SANDBOX_STATE_STOPPED \<and> stopped_at rec = Some t
      \<and> cfg_cleanup_ttl base \<le> now - t)" for rec
    by (auto simp: stopped_expired_def memory_config_def split: option.splits)
  have t: "set ts = {CompleteSandboxDelete k ''cleanup_ttl'' | k. \<exists>rec. gm_get (svc_boxes s) k = Some rec \<and> ?P rec}"
    unfolding o'(2) set_map [of _ ?ids] ids(1) by auto
  moreover have "distinct ts"
    unfolding o'(2) by (rule distinct_map_task [OF ids(2)]) (simp add: inj_def)
  moreover have "gm_get (svc_boxes s') k = Some
      (if CompleteSandboxDelete k ''cleanup_ttl'' \<in> set ts then deleting now ''cleanup_ttl'' rec else rec)"
    if "gm_get (svc_boxes s) k = Some rec" for k rec
    using that b [of k] t by (auto simp: o'(1) swept_def)
  ultimately show ?thesis unfolding ex by auto
qed

definition stopped_service :: "(memory_event_store, memory_id_registry) service" where
  "stopped_service = stop_finish sample_config 1000 ''box-1'' ''stop_requested'' None (dm_service run9)"

theorem cleanup_stopped_exact_witness:
  "CompleteSandboxDelete ''box-1'' ''cleanup_ttl''
     \<in> set (snd (cleanupStoppedSandboxes sample_config (1000 + 360 * hour) stopped_service))"
proof -
  obtain s' ts where c: "cleanupStoppedSandboxes sample_config (1000 + 360 * hour) stopped_service = (s', ts)"
    by fastforce
  have k: "keyed stopped_service" by (rule keyed_list_all) code_simp+
  have "gm_get (svc_boxes stopped_service) ''box-1'' \<noteq> None
      \<and> rec_state (the (gm_get (svc_boxes stopped_service) ''box-1'')) = SANDBOX_STATE_STOPPED
      \<and> stopped_at (the (gm_get (svc_boxes stopped_service) ''box-1'')) = Some 1000
      \<and> cfg_cleanup_ttl sample_base \<le> (1000 + 360 * hour) - 1000" by code_simp
  then obtain rec where "gm_get (svc_boxes stopped_service) ''box-1'' = Some rec"
      "rec_state rec = SANDBOX_STATE_STOPPED" "stopped_at rec = Some 1000"
      "cfg_cleanup_ttl sample_base \<le> (1000 + 360 * hour) - 1000"
    by auto
  with cleanup_stopped_exact [OF k c] c show ?thesis by (auto intro!: exI [of _ rec])
qed

end
