(* ===== verification/Watch_Props.thy ===== *)
theory Watch_Props
  imports Sweep_Props
begin

text \<open>
  The crash-loop watch, over whole histories of observations of one container; and a race the
  goroutines allow: a stop that is still with the backend when its sandbox is deleted.
\<close>

section \<open>The crash-loop window\<close>

type_synonym observation = "container_inspect_result \<times> time"

text \<open>The window after a history of observations, oldest first.\<close>

definition watched :: "bool \<Rightarrow> observation list \<Rightarrow> crashloop_state \<Rightarrow> crashloop_state" where
  "watched isPrimary obs cs = fold (\<lambda>(r, t) cs. fst (evaluateContainer r cs isPrimary t)) obs cs"

definition down :: "container_inspect_result \<Rightarrow> bool" where
  "down r \<longleftrightarrow> ins_exists r \<and> \<not> ins_paused r \<and> \<not> ins_running r"

text \<open>
  No stretch of consecutive running observations spans the guard of 30 seconds; \<open>since\<close> is the
  start of the stretch under way.
\<close>

fun short_runs :: "time option \<Rightarrow> observation list \<Rightarrow> bool" where
  "short_runs since [] = True"
| "short_runs since ((r, t) # obs) =
     (if ins_running r then
        (let s = (case since of None \<Rightarrow> t | Some s \<Rightarrow> s)
         in t - s < crashloopRunningGuard \<and> short_runs (Some s) obs)
      else short_runs None obs)"

lemma watched_simps [simp]:
  "watched p [] cs = cs"
  "watched p ((r, t) # obs) cs = watched p obs (fst (evaluateContainer r cs p t))"
  "watched p (obs @ [(r, t)]) cs = fst (evaluateContainer r (watched p obs cs) p t)"
  by (simp_all add: watched_def)

lemma window_stays:
  assumes "cl_not_running_since cs = Some t0" and "short_runs (cl_running_since cs) obs"
    and "\<forall>(r, t) \<in> set obs. ins_exists r \<and> \<not> ins_paused r"
  shows "cl_not_running_since (watched p obs cs) = Some t0"
  using assms
proof (induction obs arbitrary: cs)
  case Nil
  then show ?case by simp
next
  case (Cons o' obs)
  obtain r t where o': "o' = (r, t)" by (cases o')
  have "cl_not_running_since (fst (evaluateContainer r cs p t)) = Some t0
      \<and> short_runs (cl_running_since (fst (evaluateContainer r cs p t))) obs"
    using Cons.prems o' by (auto simp: evaluateContainer_def Let_def split: option.splits if_splits)
  with Cons.IH [of "fst (evaluateContainer r cs p t)"] Cons.prems(3) show ?case by (simp add: o')
qed

text \<open>
  A crash loop is always detected: from a window that is closed, if a container is seen down at
  \<open>t0\<close> and down again at \<open>t\<close>, more than five minutes later, and in between it was never paused and no
  stretch of running observations spanned 30 seconds, it is failed at \<open>t\<close> (with the OOM code when it
  was killed for memory), however often it seemed to run.
\<close>
theorem crashloop_detected:
  assumes "cl_not_running_since cs = None" and "down r0" and "down r"
    and "\<forall>(x, u) \<in> set obs. ins_exists x \<and> \<not> ins_paused x" and "short_runs None obs"
    and "5 * minute < t - t0"
  shows "(let d = snd (evaluateContainer r (watched isPrimary ((r0, t0) # obs) cs) isPrimary t) in
      dec_should_fail d = isPrimary \<and> dec_companion_failed d = (\<not> isPrimary)
      \<and> dec_error_code d = (if ins_oom_killed r then ''CONTAINER_OOM'' else ''CONTAINER_CRASHLOOP''))"
proof -
  let ?cs = "fst (evaluateContainer r0 cs isPrimary t0)"
  have c: "cl_not_running_since ?cs = Some t0" "cl_running_since ?cs = None"
    using assms(1,2) by (simp_all add: evaluateContainer_def down_def Let_def)
  from window_stays [OF c(1) _ assms(4)] assms(5) c(2)
  have "cl_not_running_since (watched isPrimary obs ?cs) = Some t0" by simp
  with assms(3,6) show ?thesis
    by (simp add: evaluateContainer_def down_def Let_def fail_decision_def)
qed

definition seen :: "bool \<Rightarrow> container_inspect_result" where
  "seen running = \<lparr>ins_exists = True, ins_running = running, ins_paused = False, ins_exit_code = 1,
     ins_oom_killed = False\<rparr>"

theorem crashloop_detected_witness:
  "dec_error_code (snd (evaluateContainer (seen False)
      (watched True [(seen False, 0), (seen True, 100 * second), (seen False, 110 * second),
         (seen True, 200 * second)] fresh_crashloop) True (301 * second))) = ''CONTAINER_CRASHLOOP''"
proof -
  have "cl_not_running_since fresh_crashloop = None" "down (seen False)"
    by (simp_all add: fresh_crashloop_def down_def seen_def)
  from crashloop_detected [OF this(1) this(2) this(2), of
      "[(seen True, 100 * second), (seen False, 110 * second), (seen True, 200 * second)]" "301 * second" 0 True]
  show ?thesis by (simp add: seen_def Let_def)
qed

text \<open>A container that is failed was down for more than five minutes: no false alarm.\<close>

lemma window_origin:
  assumes "cl_not_running_since (watched p obs cs) = Some t0" and "cl_not_running_since cs = None"
  shows "\<exists>pre r post. obs = pre @ (r, t0) # post \<and> down r
    \<and> (\<forall>(x, u) \<in> set post. \<not> ins_exists x \<or> \<not> ins_paused x)"
  using assms(1)
proof (induction obs rule: rev_induct)
  case Nil
  with assms(2) show ?case by simp
next
  case (snoc o' obs)
  obtain r t where o': "o' = (r, t)" by (cases o')
  let ?w = "watched p obs cs"
  show ?case
  proof (cases "cl_not_running_since ?w = Some t0")
    case True
    from snoc.IH [OF True] obtain pre x post where h: "obs = pre @ (x, t0) # post" "down x"
        "\<forall>(x, u) \<in> set post. \<not> ins_exists x \<or> \<not> ins_paused x" by blast
    have "\<not> ins_exists r \<or> \<not> ins_paused r"
      using snoc.prems by (auto simp: o' evaluateContainer_def)
    with h o' show ?thesis by (intro exI [of _ pre] exI [of _ x] exI [of _ "post @ [o']"]) auto
  next
    case False
    with snoc.prems have "down r \<and> t = t0"
      by (auto simp: o' evaluateContainer_def down_def Let_def split: if_splits option.splits)
    with o' show ?thesis by (intro exI [of _ obs] exI [of _ r] exI [of _ "[]"]) simp
  qed
qed

text \<open>
  No false alarm: a container that exists and is failed at \<open>t\<close> was seen down at some \<open>t0\<close> more
  than five minutes before \<open>t\<close>, is down at \<open>t\<close>, and was not seen paused in between.
\<close>
theorem crashloop_no_false_alarm:
  assumes "cl_not_running_since cs = None" and "ins_exists r"
    and "evaluateContainer r (watched isPrimary obs cs) isPrimary t = (cs', d)"
    and "dec_should_fail d \<or> dec_companion_failed d"
  shows "down r \<and> (\<exists>pre r0 t0 post. obs = pre @ (r0, t0) # post \<and> down r0 \<and> 5 * minute < t - t0
      \<and> (\<forall>(x, u) \<in> set post. \<not> ins_exists x \<or> \<not> ins_paused x))"
proof -
  let ?w = "watched isPrimary obs cs"
  from assms(2-4) have d: "down r"
    by (auto simp: evaluateContainer_def down_def Let_def no_decision_def split: if_splits option.splits)
  with assms(3,4) obtain t0 where "cl_not_running_since ?w = Some t0" "5 * minute < t - t0"
    by (cases "cl_not_running_since ?w")
      (auto simp: evaluateContainer_def down_def Let_def no_decision_def split: if_splits)
  with window_origin [OF _ assms(1), of isPrimary obs] d show ?thesis by blast
qed

theorem crashloop_no_false_alarm_witness:
  "\<exists>pre r0 t0 post. [(seen False, 0)] = pre @ (r0, t0) # post \<and> down r0 \<and> 5 * minute < 301 * second - t0"
proof -
  obtain cs' d where e: "evaluateContainer (seen False) (watched True [(seen False, 0)] fresh_crashloop)
      True (301 * second) = (cs', d)" by fastforce
  have "dec_should_fail (snd (evaluateContainer (seen False) (watched True [(seen False, 0)] fresh_crashloop)
      True (301 * second)))" by code_simp
  with e have "dec_should_fail d \<or> dec_companion_failed d" by simp
  from crashloop_no_false_alarm [OF _ _ e this] show ?thesis
    by (auto simp: fresh_crashloop_def seen_def)
qed

section \<open>A stop that overtakes a deletion\<close>

text \<open>The run goes on: the stop is with the backend while the sandbox is deleted, and ends last.\<close>

definition do_stop_begins :: "memory_daemon \<Rightarrow> memory_daemon" where
  "do_stop_begins d = continue (Started (CompleteSandboxStop ''box-1'' ''stop_requested''))
     (if stop_prepare ''box-1'' (dm_service d)
      then [InBackend (CompleteSandboxStop ''box-1'' ''stop_requested'')] else [])
     (dm_service d) d"

definition do_delete :: "memory_daemon \<Rightarrow> memory_daemon" where
  "do_delete d = (case DeleteSandbox sample_config 900 ''box-1'' (dm_service d) of
                    (s, ts, r) \<Rightarrow> spawn s ts d)"

definition do_delete_begins :: "memory_daemon \<Rightarrow> memory_daemon" where
  "do_delete_begins d = continue (Started (CompleteSandboxDelete ''box-1'' ''delete_requested''))
     (if delete_prepare ''box-1'' (dm_service d)
      then [InBackend (CompleteSandboxDelete ''box-1'' ''delete_requested'')] else [])
     (dm_service d) d"

definition do_delete_ends :: "memory_daemon \<Rightarrow> memory_daemon" where
  "do_delete_ends d = continue (InBackend (CompleteSandboxDelete ''box-1'' ''delete_requested'')) []
     (delete_finish sample_config 1000 ''box-1'' ''delete_requested'' None (dm_service d)) d"

definition do_stop_ends :: "memory_daemon \<Rightarrow> memory_daemon" where
  "do_stop_ends d = continue (InBackend (CompleteSandboxStop ''box-1'' ''stop_requested'')) []
     (stop_finish sample_config 1100 ''box-1'' ''stop_requested'' None (dm_service d)) d"

definition run10 :: memory_daemon where "run10 = do_stop_begins run9"
definition run11 :: memory_daemon where "run11 = do_delete run10"
definition run12 :: memory_daemon where "run12 = do_delete_begins run11"
definition run13 :: memory_daemon where "run13 = do_delete_ends run12"
definition run14 :: memory_daemon where "run14 = do_stop_ends run13"

lemma run10_run: "memory_run sample_base run10"
  unfolding run10_def do_stop_begins_def
  by (rule memory_run_step [OF run9_run daemon_step.stop_begins]) code_simp+

lemma run11_run: "memory_run sample_base run11"
  unfolding run11_def do_delete_def case_prod_beta
proof (rule memory_run_step [OF run10_run])
  show "daemon_step sample_config run10 (spawn (fst (DeleteSandbox sample_config 900 ''box-1'' (dm_service run10)))
      (fst (snd (DeleteSandbox sample_config 900 ''box-1'' (dm_service run10)))) run10)"
    by (rule daemon_step.rpc_delete [where now = 900 and sid = "''box-1''"
          and r = "snd (snd (DeleteSandbox sample_config 900 ''box-1'' (dm_service run10)))"])
      (simp_all add: int64_time_def)
qed code_simp

lemma run12_run: "memory_run sample_base run12"
  unfolding run12_def do_delete_begins_def
  by (rule memory_run_step [OF run11_run daemon_step.delete_begins]) code_simp+

lemma run13_run: "memory_run sample_base run13"
  unfolding run13_def do_delete_ends_def
  by (rule memory_run_step [OF run12_run daemon_step.delete_ends]) code_simp+

lemma run14_run: "memory_run sample_base run14"
  unfolding run14_def do_stop_ends_def
  by (rule memory_run_step [OF run13_run daemon_step.stop_ends]) code_simp+

text \<open>
  C14. \<^verbatim>\<open>completeSandboxStop\<close> does not look at the state again after the backend returned.  So there is a
  reachable state in which a sandbox whose deletion was completed and recorded in the store is
  STOPPED again, and can be resumed although its containers are gone.
\<close>
theorem stop_revives_deleted:
  "\<exists>d rec s' ts. memory_run sample_base d \<and> box_of d ''box-1'' = Some rec
     \<and> rec_state rec = SANDBOX_STATE_STOPPED
     \<and> SANDBOX_DELETED \<in> ev_event_type ` set (sr_events rec)
     \<and> gm_get (me_deleted_at (store_of d)) ''box-1'' = Some 1000
     \<and> ResumeSandbox sample_config 1200 ''box-1'' (dm_service d) = (s', [CompleteSandboxResume ''box-1''], Inr ())"
proof -
  have "box_of run14 ''box-1'' \<noteq> None
     \<and> rec_state (the (box_of run14 ''box-1'')) = SANDBOX_STATE_STOPPED
     \<and> SANDBOX_DELETED \<in> ev_event_type ` set (sr_events (the (box_of run14 ''box-1'')))
     \<and> gm_get (me_deleted_at (store_of run14)) ''box-1'' = Some 1000
     \<and> fst (snd (ResumeSandbox sample_config 1200 ''box-1'' (dm_service run14))) = [CompleteSandboxResume ''box-1'']
     \<and> snd (snd (ResumeSandbox sample_config 1200 ''box-1'' (dm_service run14))) = Inr ()"
    by code_simp
  with run14_run show ?thesis by (metis option.exhaust_sel prod.collapse)
qed

end
