(* ===== verification/Restore_Props.thy ===== *)
theory Restore_Props
  imports Watch_Props
begin

text \<open>
  What a restart of the daemon makes of the store: which sandboxes come back, in which state, with
  which log and execs.
\<close>

lemma set_state_more [simp]:
  "sr_create_spec (set_state x rec) = sr_create_spec rec"
  "sh_sandbox_id (sr_handle (set_state x rec)) = sh_sandbox_id (sr_handle rec)"
  by (simp_all add: set_state_def)

text \<open>The state a sandbox comes back in, from the last state logged and whether its container is there.\<close>

definition restart_state :: "sandbox_state \<Rightarrow> bool \<Rightarrow> sandbox_state" where
  "restart_state state found =
     (case state of
        SANDBOX_STATE_PENDING \<Rightarrow> SANDBOX_STATE_FAILED
      | SANDBOX_STATE_DELETING \<Rightarrow> SANDBOX_STATE_DELETED
      | SANDBOX_STATE_READY \<Rightarrow> if found then SANDBOX_STATE_READY else SANDBOX_STATE_FAILED
      | SANDBOX_STATE_STOPPED \<Rightarrow> if found then SANDBOX_STATE_STOPPED else SANDBOX_STATE_FAILED
      | _ \<Rightarrow> state)"

definition container_found :: "inspector \<Rightarrow> string \<Rightarrow> bool" where
  "container_found inspect sid =
     (case inspect (dockerPrimaryContainerName sid) of Inl _ \<Rightarrow> False | Inr result \<Rightarrow> ins_exists result)"

lemma memory_append_view:
  assumes "appendEventLocked (memory_config base) now rec t m st = Inr (rec', st')"
    and "sh_sandbox_id (sr_handle rec) = sid" and "me_events_of st sid = sr_events rec"
  shows "rec' = appended now t m rec \<and> me_events_of st' = (me_events_of st)(sid := sr_events rec')
    \<and> me_sandbox_configs st' = me_sandbox_configs st \<and> me_exec_configs st' = me_exec_configs st
    \<and> me_deleted_at st' = me_deleted_at st"
proof -
  have r: "rec' = appended now t m rec" by (rule appendEventLocked_record [OF assms(1)])
  from assms(1) have "st' = st\<lparr>me_events := gm_set sid (me_events_of st sid @ [new_event now rec t m]) (me_events st)\<rparr>"
    by (simp add: appendEventLocked_Inr memory_Append_def assms(2))
  with r assms(3) show ?thesis by (auto simp: fun_eq_iff)
qed

text \<open>
  \<open>came_back st sid rec st'\<close>: the record extends the log in the store, the store now has the
  record's log, and all else in the store is as it was (but the deletion time, which may be new).
\<close>

definition came_back ::
  "memory_event_store \<Rightarrow> string \<Rightarrow> sandbox_record \<Rightarrow> memory_event_store \<Rightarrow> bool" where
  "came_back st sid rec st' \<longleftrightarrow>
     sh_sandbox_id (sr_handle rec) = sid
     \<and> (\<exists>es. sr_events rec = me_events_of st sid @ es)
     \<and> me_events_of st' = (me_events_of st)(sid := sr_events rec)
     \<and> me_sandbox_configs st' = me_sandbox_configs st \<and> me_exec_configs st' = me_exec_configs st"

lemma came_back_start:
  "sh_sandbox_id (sr_handle rec) = sid \<Longrightarrow> sr_events rec = me_events_of st sid \<Longrightarrow> came_back st sid rec st"
  by (auto simp: came_back_def)

lemma came_back_append:
  assumes "came_back st sid rec st1"
    and a: "appendEventLocked (memory_config base) now rec t m st1 = Inr (rec', st2)"
    and "sr_events rec'' = sr_events rec'" and "sh_sandbox_id (sr_handle rec'') = sh_sandbox_id (sr_handle rec')"
  shows "came_back st sid rec'' st2"
proof -
  from assms(1) have i: "sh_sandbox_id (sr_handle rec) = sid" "me_events_of st1 sid = sr_events rec"
    by (auto simp: came_back_def)
  from memory_append_view [OF a i] assms show ?thesis by (auto simp: came_back_def)
qed

lemma came_back_frame:
  "came_back st sid rec st' \<Longrightarrow> sr_events rec' = sr_events rec \<Longrightarrow>
     sh_sandbox_id (sr_handle rec') = sh_sandbox_id (sr_handle rec) \<Longrightarrow> came_back st sid rec' st'"
  by (auto simp: came_back_def)

lemma came_back_mark:
  "came_back st sid rec st1 \<Longrightarrow> memory_MarkDeleted st1 k t = Inr st2 \<Longrightarrow> came_back st sid rec st2"
  by (auto simp: came_back_def memory_MarkDeleted_def fun_eq_iff)

lemma recover_append_Some:
  "recover_append cfg now t m what rec st = ((rec', st'), None) \<longleftrightarrow>
     appendEventLocked cfg now rec t m st = Inr (rec', st')"
  by (auto simp: recover_append_def split: sum.splits)

lemma reconcile_mem:
  assumes "reconcile_restored (memory_config base) inspect reapply now sid rec st = ((rec', st'), None)"
    and "sh_sandbox_id (sr_handle rec) = sid" and "sr_events rec = me_events_of st sid"
  shows "came_back st sid rec' st' \<and> rec_state rec' = restart_state (rec_state rec) (container_found inspect sid)
    \<and> sr_execs rec' = sr_execs rec \<and> sr_create_spec rec' = sr_create_spec rec"
proof -
  note start = came_back_start [OF assms(2,3)]
  have app: "came_back st sid rec'' st1"
    if "appendEventLocked (memory_config base) now rec t m st = Inr (r, st1)"
      "sr_events rec'' = sr_events r" "sh_sandbox_id (sr_handle rec'') = sh_sandbox_id (sr_handle r)"
    for t m r st1 rec''
    using came_back_append [OF start that] .
  show ?thesis
  proof (cases "rec_state rec")
    case SANDBOX_STATE_READY
    note ready = this
    from assms(1) ready obtain result where i: "inspect (dockerPrimaryContainerName sid) = Inr result"
      by (auto simp: reconcile_restored_def split: sum.splits)
    show ?thesis
    proof (cases "ins_exists result")
      case True
      have "rec' = rec \<or> (\<exists>w. rec' = set_primary_window w rec)" "st' = st"
        using assms(1) ready i True
        by (auto simp: reconcile_restored_def split: option.splits if_splits)
      moreover have "came_back st sid (set_primary_window w rec) st"
        "sr_execs (set_primary_window w rec) = sr_execs rec"
        "rec_state (set_primary_window w rec) = rec_state rec"
        "sr_create_spec (set_primary_window w rec) = sr_create_spec rec" for w
        by (rule came_back_frame [OF start]) (simp_all add: set_primary_window_def split: option.splits)
      ultimately show ?thesis
        using start i True ready by (auto simp: restart_state_def container_found_def)
    next
      case False
      with assms(1) ready i obtain r where
          a: "appendEventLocked (memory_config base) now rec SANDBOX_FAILED (failed_mutation containerNotRunning
                ''primary container not running after daemon restart'') st = Inr (r, st')"
        and r': "rec' = set_state SANDBOX_STATE_FAILED r"
        by (auto simp: reconcile_restored_def recover_append_Some split: option.splits prod.splits)
      from app [OF a, of rec'] appendEventLocked_record [OF a] i False ready show ?thesis
        by (simp add: r' restart_state_def container_found_def)
    qed
  next
    case SANDBOX_STATE_STOPPED
    with assms(1) start show ?thesis
      by (auto simp: reconcile_restored_def restart_state_def container_found_def recover_append_Some
          dest: appendEventLocked_record intro: app split: sum.splits if_splits option.splits prod.splits)
  next
    case SANDBOX_STATE_PENDING
    with assms(1) show ?thesis
      by (auto simp: reconcile_restored_def restart_state_def recover_append_Some
          dest: appendEventLocked_record intro: app split: option.splits prod.splits)
  next
    case SANDBOX_STATE_DELETING
    with assms(1) show ?thesis
      by (auto simp: reconcile_restored_def restart_state_def recover_append_Some
          dest: appendEventLocked_record intro!: came_back_mark [OF app] split: option.splits prod.splits sum.splits)
  qed (use assms(1) start in \<open>auto simp: reconcile_restored_def restart_state_def intro: came_back_frame\<close>)
qed

text \<open>The execs: each configuration saved gives one exec that has ended.\<close>

definition all_ended :: "sandbox_record \<Rightarrow> bool" where
  "all_ended rec \<longleftrightarrow> (\<forall>(k, e) \<in> set (sr_execs rec). isExecTerminal (es_state e))"

lemma all_ended_iff: "all_ended rec \<longleftrightarrow> \<not> hasActiveExec rec"
  by (auto simp: all_ended_def hasActiveExec_def list_ex_iff)

lemma in_gm_set: "x \<in> set (gm_set k v m) \<Longrightarrow> x = (k, v) \<or> x \<in> set m"
  by (induction m) (auto simp: gm_set_def split: if_splits)

lemma all_ended_set:
  "all_ended rec \<Longrightarrow> sr_execs rec' = gm_set k e (sr_execs rec) \<Longrightarrow> isExecTerminal (es_state e) \<Longrightarrow>
     all_ended rec'"
  by (auto simp: all_ended_def dest!: in_gm_set)

lemma resolve_range:
  "resolveExecStateFromEvents events k = (state, rest) \<Longrightarrow> state \<noteq> EXEC_STATE_RUNNING \<Longrightarrow>
     state \<noteq> EXEC_STATE_UNSPECIFIED \<Longrightarrow> isExecTerminal state"
  by (cases state) (simp_all add: isExecTerminal_def)

lemma restore_exec_mem:
  assumes "restore_exec (memory_config base) now sid events c ((rec, st1), index) = (((rec', st2), index'), None)"
    and "came_back st sid rec st1" and "all_ended rec"
  shows "came_back st sid rec' st2 \<and> all_ended rec' \<and> rec_state rec' = rec_state rec
    \<and> sr_create_spec rec' = sr_create_spec rec
    \<and> gm_keys (sr_execs rec') = insert (xr_exec_id c) (gm_keys (sr_execs rec))"
proof -
  obtain state code ec em where r: "resolveExecStateFromEvents events (xr_exec_id c) = (state, code, ec, em)"
    by (cases "resolveExecStateFromEvents events (xr_exec_id c)") auto
  show ?thesis
  proof (cases "state = EXEC_STATE_RUNNING \<or> state = EXEC_STATE_UNSPECIFIED")
    case True
    let ?m = "no_mutation\<lparr>mu_exec_id := xr_exec_id c, mu_error_code := ''DAEMON_RESTARTED'',
      mu_error_message := ''exec was running when daemon restarted'', mu_exec_state := EXEC_STATE_FAILED\<rparr>"
    let ?e = "\<lparr>es_exec_id = xr_exec_id c, es_sandbox_id = sid, es_state = EXEC_STATE_FAILED,
      es_command = xr_command c, es_cwd = xr_cwd c, es_env_overrides = xr_env_overrides c,
      es_exit_code = code, es_error = ''exec was running when daemon restarted'',
      es_last_event_sequence = 0\<rparr>"
    from assms(1) r True obtain rec1 where
        a: "appendEventLocked (memory_config base) now rec EXEC_FAILED ?m st1 = Inr (rec1, st2)"
      and r': "rec' = rec1\<lparr>sr_execs := gm_set (xr_exec_id c) ?e (sr_execs rec1)\<rparr>"
      by (auto simp: restore_exec_def Let_def split: sum.splits)
    have rec1: "rec1 = appended now EXEC_FAILED ?m rec" by (rule appendEventLocked_record [OF a])
    have "all_ended rec'"
      by (rule all_ended_set [OF assms(3), of _ "xr_exec_id c" ?e]) (simp_all add: r' rec1 isExecTerminal_def)
    with came_back_append [OF assms(2) a, of rec'] show ?thesis by (simp add: r' rec1)
  next
    case False
    define e where "e = \<lparr>es_exec_id = xr_exec_id c, es_sandbox_id = sid, es_state = state,
      es_command = xr_command c, es_cwd = xr_cwd c, es_env_overrides = xr_env_overrides c,
      es_exit_code = code, es_error = em, es_last_event_sequence = 0\<rparr>"
    from assms(1) r False have e: "es_state e = state" "st2 = st1"
        "rec' = rec\<lparr>sr_execs := gm_set (xr_exec_id c) e (sr_execs rec)\<rparr>"
      by (auto simp: restore_exec_def Let_def e_def)
    have "all_ended rec'"
      by (rule all_ended_set [OF assms(3), of _ "xr_exec_id c" e]) (use e False resolve_range [OF r] in simp_all)
    with e came_back_frame [OF assms(2), of rec'] show ?thesis by simp
  qed
qed

lemma restore_execs_mem:
  assumes "restore_execs (memory_config base) now sid events cs ((rec, st1), index) = (((rec', st2), index'), None)"
    and "came_back st sid rec st1" and "all_ended rec"
  shows "came_back st sid rec' st2 \<and> all_ended rec' \<and> rec_state rec' = rec_state rec
    \<and> sr_create_spec rec' = sr_create_spec rec
    \<and> gm_keys (sr_execs rec') = xr_exec_id ` set cs \<union> gm_keys (sr_execs rec)"
  using assms
proof (induction cs arbitrary: rec st1 index)
  case Nil
  then show ?case by simp
next
  case (Cons c cs)
  from Cons.prems(1) obtain rec1 st1' index1 where
      e: "restore_exec (memory_config base) now sid events c ((rec, st1), index) = (((rec1, st1'), index1), None)"
    and rest: "restore_execs (memory_config base) now sid events cs ((rec1, st1'), index1) = (((rec', st2), index'), None)"
    by (auto split: prod.splits option.splits)
  note h = restore_exec_mem [OF e Cons.prems(2,3)]
  from Cons.IH [OF rest] h show ?case by auto
qed

section \<open>All sandboxes\<close>

text \<open>What is true of a sandbox that was restored from the store \<open>st\<close>.\<close>

definition restored_ok :: "inspector \<Rightarrow> memory_event_store \<Rightarrow> string \<Rightarrow> sandbox_record \<Rightarrow> memory_event_store \<Rightarrow> bool"
  where
  "restored_ok inspect st sid rec st' \<longleftrightarrow>
     sh_sandbox_id (sr_handle rec) = sid
     \<and> gm_get (me_sandbox_configs st) sid = Some (sr_create_spec rec)
     \<and> rec_state rec = restart_state (persistedState (me_events_of st sid)) (container_found inspect sid)
     \<and> (\<exists>es. sr_events rec = me_events_of st sid @ es) \<and> me_events_of st' sid = sr_events rec
     \<and> all_ended rec \<and> gm_keys (sr_execs rec) = xr_exec_id ` snd ` set (me_execs_of st sid)"

lemma restored_start [simp]:
  "sh_sandbox_id (sr_handle (restored_record sid spec events q b)) = sid"
  "sr_events (restored_record sid spec events q b) = events"
  "rec_state (restored_record sid spec events q b) = persistedState events"
  "sr_execs (restored_record sid spec events q b) = []"
  "sr_create_spec (restored_record sid spec events q b) = spec"
  by (simp_all add: restored_record_def restored_handle_def Let_def)

lemma map_cloneEvent [simp]: "map cloneEvent es = es"
  by (simp add: map_idI)

lemma restore_one_mem:
  assumes "restore_one (memory_config base) inspect reapply now sid spec s = (s', None)"
    and "gm_get (me_sandbox_configs (svc_store s)) sid = Some spec"
  shows "if persistedState (me_events_of (svc_store s) sid) = SANDBOX_STATE_UNSPECIFIED then s' = s
    else (\<exists>rec. svc_boxes s' = gm_set sid rec (svc_boxes s)
       \<and> restored_ok inspect (svc_store s) sid rec (svc_store s')
       \<and> me_sandbox_configs (svc_store s') = me_sandbox_configs (svc_store s)
       \<and> me_exec_configs (svc_store s') = me_exec_configs (svc_store s)
       \<and> (\<forall>k. k \<noteq> sid \<longrightarrow> me_events_of (svc_store s') k = me_events_of (svc_store s) k))"
proof (cases "persistedState (me_events_of (svc_store s) sid) = SANDBOX_STATE_UNSPECIFIED")
  case True
  with assms(1) show ?thesis
    by (auto simp: restore_one_def Let_def memory_store_defs split: if_splits)
next
  case False
  let ?es = "me_events_of (svc_store s) sid"
  have ne: "?es \<noteq> []" using False by (auto simp: persistedState_def)
  from assms(1) False ne obtain q b rec1 st1 rec2 st2 index where
      r: "reconcile_restored (memory_config base) inspect reapply now sid
            (restored_record sid spec ?es q b) (svc_store s) = ((rec1, st1), None)"
    and x: "restore_execs (memory_config base) now sid ?es [req. (_, req) \<leftarrow> me_execs_of st1 sid]
              ((rec1, st1), svc_execs s) = (((rec2, st2), index), None)"
    and s': "s' = put_record sid rec2 st2 (s\<lparr>svc_execs := index\<rparr>)"
    by (auto simp: restore_one_def Let_def memory_store_defs split: prod.splits option.splits if_splits)
  have "came_back (svc_store s) sid rec1 st1
      \<and> rec_state rec1 = restart_state (persistedState ?es) (container_found inspect sid)
      \<and> sr_execs rec1 = [] \<and> sr_create_spec rec1 = spec"
    using reconcile_mem [OF r] by simp
  note c1 = this
  then have "all_ended rec1" by (simp add: all_ended_def)
  note c2 = restore_execs_mem [OF x conjunct1 [OF c1] this] c1
  have cs: "set [req. (_, req) \<leftarrow> me_execs_of st1 sid] = snd ` set (me_execs_of (svc_store s) sid)"
  proof -
    have "me_execs_of st1 sid = me_execs_of (svc_store s) sid"
      using c1 by (simp add: came_back_def me_execs_of_def)
    then show ?thesis by (simp only: set_map split_def)
  qed
  have "restored_ok inspect (svc_store s) sid rec2 st2"
    using c2 [unfolded cs] assms(2) by (auto simp: restored_ok_def came_back_def)
  with False c2 show ?thesis
    by (auto simp: s' came_back_def)
qed

lemma restore_all_mem:
  assumes "restore_all (memory_config base) inspect reapply now m s = (s', None)"
    and "distinct (map fst m)"
    and "\<forall>(k, spec) \<in> set m. gm_get (me_sandbox_configs (svc_store s)) k = Some spec"
    and "\<forall>k \<in> fst ` set m. gm_get (svc_boxes s) k = None"
  shows "me_sandbox_configs (svc_store s') = me_sandbox_configs (svc_store s)
    \<and> (\<forall>k. k \<notin> fst ` set m \<longrightarrow> me_events_of (svc_store s') k = me_events_of (svc_store s) k
          \<and> gm_get (svc_boxes s') k = gm_get (svc_boxes s) k)
    \<and> me_exec_configs (svc_store s') = me_exec_configs (svc_store s)
    \<and> (\<forall>k \<in> fst ` set m. if persistedState (me_events_of (svc_store s) k) = SANDBOX_STATE_UNSPECIFIED
          then gm_get (svc_boxes s') k = None
          else (\<exists>rec. gm_get (svc_boxes s') k = Some rec
                  \<and> restored_ok inspect (svc_store s) k rec (svc_store s')))"
  using assms
proof (induction m arbitrary: s)
  case Nil
  then show ?case by simp
next
  case (Cons e m)
  obtain sid spec where e: "e = (sid, spec)" by (cases e)
  from Cons.prems(1) e obtain s1 where
      o1: "restore_one (memory_config base) inspect reapply now sid spec s = (s1, None)"
    and rest: "restore_all (memory_config base) inspect reapply now m s1 = (s', None)"
    by (auto split: prod.splits option.splits)
  have g: "gm_get (me_sandbox_configs (svc_store s)) sid = Some spec" using Cons.prems(3) e by simp
  note one = restore_one_mem [OF o1 g]
  have nk: "sid \<notin> fst ` set m" "distinct (map fst m)" using Cons.prems(2) e by auto
  have s1: "me_sandbox_configs (svc_store s1) = me_sandbox_configs (svc_store s)"
      "me_exec_configs (svc_store s1) = me_exec_configs (svc_store s)"
      "\<And>k. k \<noteq> sid \<Longrightarrow> me_events_of (svc_store s1) k = me_events_of (svc_store s) k"
      "\<And>k. k \<noteq> sid \<Longrightarrow> gm_get (svc_boxes s1) k = gm_get (svc_boxes s) k"
    using one by (auto split: if_splits)
  have p3: "\<forall>(k, spec) \<in> set m. gm_get (me_sandbox_configs (svc_store s1)) k = Some spec"
    using Cons.prems(3) s1(1) by auto
  have p4: "\<forall>k \<in> fst ` set m. gm_get (svc_boxes s1) k = None"
  proof
    fix k
    assume k: "k \<in> fst ` set m"
    then have "k \<noteq> sid" using nk(1) by auto
    moreover have "gm_get (svc_boxes s) k = None" using k Cons.prems(4) by auto
    ultimately show "gm_get (svc_boxes s1) k = None" using s1(4) by simp
  qed
  note ih = Cons.IH [OF rest nk(2) p3 p4]
  have tail: "restored_ok inspect (svc_store s1) k rec (svc_store s') = restored_ok inspect (svc_store s) k rec (svc_store s')"
    if "k \<noteq> sid" for k rec
    using s1 that by (simp add: restored_ok_def me_execs_of_def)
  have head: "if persistedState (me_events_of (svc_store s) sid) = SANDBOX_STATE_UNSPECIFIED
          then gm_get (svc_boxes s') sid = None
          else (\<exists>rec. gm_get (svc_boxes s') sid = Some rec
                  \<and> restored_ok inspect (svc_store s) sid rec (svc_store s'))"
    using one ih nk(1) Cons.prems(4) e by (auto simp: restored_ok_def split: if_splits)
  have others: "if persistedState (me_events_of (svc_store s) k) = SANDBOX_STATE_UNSPECIFIED
          then gm_get (svc_boxes s') k = None
          else (\<exists>rec. gm_get (svc_boxes s') k = Some rec
                  \<and> restored_ok inspect (svc_store s) k rec (svc_store s'))" if "k \<in> fst ` set m" for k
  proof -
    have "k \<noteq> sid" using that nk(1) by auto
    with ih that tail [OF this] s1(3) show ?thesis by auto
  qed
  from ih s1 head others nk(1) e show ?case by auto
qed


text \<open>The sample run, interrupted while an exec runs, and restarted with the container still there.\<close>

definition restarted ::
  "(memory_event_store, memory_id_registry) service \<times> go_error option" where
  "restarted = restorePersistedSandboxes sample_config (\<lambda>_. Inr (seen True)) (\<lambda>_. None) 2000
     (snd (NewService sample_config (store_of run7) (svc_registry (dm_service run7))))"


end
