(* ===== verification/Config_Props.thy ===== *)
theory Config_Props
  imports Validation Docker_Names Id_Registry
begin

text \<open>
  What a specification that passed validation promises the rest of the daemon, how the two sources of
  a request are merged, where exec logs can go, and the names of a sandbox's Docker objects.
\<close>

section \<open>Validation\<close>

lemma check_Inr [simp]:
  "check_status r = Inr u \<longleftrightarrow> r = None" "check_plain p = Inr u \<longleftrightarrow> p = None"
  "check_go q = Inr u \<longleftrightarrow> q = None"
  by (auto simp: check_status_def check_plain_def check_go_def split: option.splits)

lemma plain_Inr [simp]: "plain r = Inr x \<longleftrightarrow> r = Inr x"
  by (auto simp: plain_def split: sum.splits)

text \<open>The facts of one rewritten item, and of the table of targets.\<close>

definition source_ok :: "host_env \<Rightarrow> string \<Rightarrow> bool" where
  "source_ok env source \<longleftrightarrow> IsAbs source
     \<and> (\<exists>kind. he_lstat env source = Inr kind \<and> kind \<in> {RegularFile, Directory, UnixSocket})"

lemma expand_source_target_Inr:
  assumes "expand_source_target env kind source target = Inr (source', target')"
  shows "source_ok env source' \<and> target' = expandContainerHomePath target"
proof -
  from assms have "validateGenericSourcePath env kind source' = None" "target' = expandContainerHomePath target"
    by (auto simp: expand_source_target_def split: if_splits option.splits sum.splits)
  then show ?thesis
    by (auto simp: validateGenericSourcePath_def source_ok_def split: if_splits sum.splits file_kind.splits)
qed

lemma registerTarget_Inr:
  "registerTarget kind target targets = Inr targets' \<longleftrightarrow>
     target \<noteq> '''' \<and> IsAbs target \<and> target \<notin> gm_keys targets \<and> targets' = gm_set target kind targets"
  by (auto simp: registerTarget_def gm_get_None [symmetric] split: option.splits)

lemma validate_mount_Inr:
  assumes "validate_mount env m targets = Inr (m', targets')"
  shows "source_ok env (ms_source m') \<and> ms_target m' = expandContainerHomePath (ms_target m)
    \<and> ms_writable m' = ms_writable m \<and> IsAbs (ms_target m')
    \<and> ms_target m' \<notin> gm_keys targets \<and> gm_keys targets' = insert (ms_target m') (gm_keys targets)"
  using assms
  by (auto simp: validate_mount_def res_bind_eq_Inr registerTarget_Inr dest!: expand_source_target_Inr)

lemma validate_copy_Inr:
  assumes "validate_copy env c targets = Inr (c', targets')"
  shows "source_ok env (cp_source c') \<and> Clean (cp_source c') \<noteq> ''/''
    \<and> cp_target c' = expandContainerHomePath (cp_target c)
    \<and> cp_exclude_patterns c' = cp_exclude_patterns c \<and> IsAbs (cp_target c')
    \<and> cp_target c' \<notin> gm_keys targets \<and> gm_keys targets' = insert (cp_target c') (gm_keys targets)"
  using assms
  by (auto simp: validate_copy_def res_bind_eq_Inr registerTarget_Inr dest!: expand_source_target_Inr
      split: if_splits)

lemma mounts_loop:
  "rewrite_loop (validate_mount env) ms targets = Inr (ms', targets') \<Longrightarrow>
     list_all2 (\<lambda>m m'. source_ok env (ms_source m') \<and> IsAbs (ms_target m')
        \<and> ms_target m' = expandContainerHomePath (ms_target m) \<and> ms_writable m' = ms_writable m) ms ms'
     \<and> distinct (map ms_target ms') \<and> set (map ms_target ms') \<inter> gm_keys targets = {}
     \<and> gm_keys targets' = gm_keys targets \<union> set (map ms_target ms')"
proof (induction ms arbitrary: targets ms')
  case Nil
  then show ?case by simp
next
  case (Cons m ms)
  from Cons.prems obtain m' t1 ms1 where h: "validate_mount env m targets = Inr (m', t1)"
      "rewrite_loop (validate_mount env) ms t1 = Inr (ms1, targets')" "ms' = m' # ms1"
    by (auto simp: res_bind_eq_Inr)
  from validate_mount_Inr [OF h(1)] Cons.IH [OF h(2)] h(3) show ?case by auto
qed

lemma copies_loop:
  "rewrite_loop (validate_copy env) cs targets = Inr (cs', targets') \<Longrightarrow>
     list_all2 (\<lambda>c c'. source_ok env (cp_source c') \<and> IsAbs (cp_target c') \<and> Clean (cp_source c') \<noteq> ''/''
        \<and> cp_target c' = expandContainerHomePath (cp_target c)
        \<and> cp_exclude_patterns c' = cp_exclude_patterns c) cs cs'
     \<and> distinct (map cp_target cs') \<and> set (map cp_target cs') \<inter> gm_keys targets = {}"
proof (induction cs arbitrary: targets cs')
  case Nil
  then show ?case by simp
next
  case (Cons c cs)
  from Cons.prems obtain c' t1 cs1 where h: "validate_copy env c targets = Inr (c', t1)"
      "rewrite_loop (validate_copy env) cs t1 = Inr (cs1, targets')" "cs' = c' # cs1"
    by (auto simp: res_bind_eq_Inr)
  from validate_copy_Inr [OF h(1)] Cons.IH [OF h(2)] h(3) show ?case by auto
qed

text \<open>Ports: in range, of a known protocol, and no host port taken twice for one protocol.\<close>

definition port_ok :: "port_mapping \<Rightarrow> bool" where
  "port_ok p \<longleftrightarrow> 1 \<le> pm_container_port p \<and> pm_container_port p \<le> 65535
     \<and> 1 \<le> pm_host_port p \<and> pm_host_port p \<le> 65535
     \<and> pm_protocol p \<in> {PORT_PROTOCOL_TCP, PORT_PROTOCOL_UDP, PORT_PROTOCOL_SCTP}"

definition port_key :: "port_mapping \<Rightarrow> string" where
  "port_key p = show_port (pm_host_port p) @ ''/'' @ portProtocolToString (pm_protocol p)"

lemma word_pos: "(w :: 32 word) \<noteq> 0 \<Longrightarrow> 1 \<le> w"
  by (simp add: word_less_nat_alt word_le_nat_alt unat_gt_0 Suc_leI)

lemma validate_port_Inr:
  "validate_port p seen = Inr seen' \<Longrightarrow>
     port_ok p \<and> port_key p \<notin> seen \<and> seen' = insert (port_key p) seen"
  by (cases "pm_protocol p")
    (auto simp: validate_port_def port_ok_def port_key_def Let_def portProtocolToString_def word_pos
      split: if_splits)

lemma keyed_loop:
  assumes "\<And>x s s'. f x s = Inr s' \<Longrightarrow> P x \<and> key x \<notin> s \<and> s' = insert (key x) s"
  shows "fold_result f xs s = Inr s' \<Longrightarrow>
     (\<forall>x \<in> set xs. P x) \<and> distinct (map key xs) \<and> set (map key xs) \<inter> s = {}"
proof (induction xs arbitrary: s)
  case Nil
  then show ?case by simp
next
  case (Cons x xs)
  from Cons.prems obtain s1 where h: "f x s = Inr s1" "fold_result f xs s1 = Inr s'"
    by (auto simp: res_bind_eq_Inr)
  from assms [OF h(1)] Cons.IH [OF h(2)] show ?case by auto
qed

lemma show_port_digits: "CHR ''/'' \<notin> set (show_port p)"
  using show_nat_digits [of "CHR ''/''" "unat p"] by (auto simp: show_port_def digit_value_def)

lemma port_key_inj:
  assumes "port_ok p" and "port_ok q" and "port_key p = port_key q"
  shows "pm_host_port p = pm_host_port q \<and> pm_protocol p = pm_protocol q"
proof -
  have "takeWhile (\<lambda>c. c \<noteq> CHR ''/'') (show_port (pm_host_port p) @ CHR ''/'' # r) = show_port (pm_host_port p)"
    for p r
    using show_port_digits [of "pm_host_port p"] by (subst takeWhile_append2) (auto simp: in_set_conv_decomp)
  with assms(3) have "show_port (pm_host_port p) = show_port (pm_host_port q)"
    unfolding port_key_def by (metis append_Cons append_Nil)
  then have h: "pm_host_port p = pm_host_port q" by (simp add: show_port_def word_unat_eq_iff)
  with assms(3) have "portProtocolToString (pm_protocol p) = portProtocolToString (pm_protocol q)"
    by (simp add: port_key_def)
  with assms(1,2) h show ?thesis by (auto simp: port_ok_def portProtocolToString_def)
qed

lemma distinct_ports:
  assumes "\<forall>p \<in> set ps. port_ok p" and "distinct (map port_key ps)"
  shows "distinct (map (\<lambda>p. (pm_host_port p, pm_protocol p)) ps)"
  using assms
proof (induction ps)
  case Nil
  then show ?case by simp
next
  case (Cons p ps)
  have "(pm_host_port p, pm_protocol p) \<notin> set (map (\<lambda>p. (pm_host_port p, pm_protocol p)) ps)"
  proof
    assume "(pm_host_port p, pm_protocol p) \<in> set (map (\<lambda>p. (pm_host_port p, pm_protocol p)) ps)"
    then obtain q where "q \<in> set ps" "pm_host_port q = pm_host_port p" "pm_protocol q = pm_protocol p" by auto
    with Cons.prems(2) show False by (auto simp: port_key_def image_iff)
  qed
  with Cons show ?case by simp
qed

lemma tokens_nonempty: "reject_empty_tokens path tokens = None \<longleftrightarrow> '''' \<notin> set tokens"
proof -
  have "reject_empty_tokens path tokens = None \<longleftrightarrow> (\<forall>x \<in> set (enumerate 0 tokens). snd x \<noteq> '''')"
    unfolding reject_empty_tokens_def first_error_None by (auto split: prod.splits if_splits)
  also have "\<dots> \<longleftrightarrow> '''' \<notin> snd ` set (enumerate 0 tokens)" by (auto simp: image_iff)
  also have "snd ` set (enumerate 0 tokens) = set tokens"
    unfolding set_map [symmetric] by (simp add: enumerate_eq_zip)
  finally show ?thesis .
qed

lemma validate_companion_Inr:
  "validate_companion cc seen = Inr seen' \<Longrightarrow>
     cc_name cc \<noteq> '''' \<and> cc_image cc \<noteq> ''''
     \<and> (cc_post_start_on_primary cc \<noteq> [] \<longrightarrow> cc_healthcheck cc \<noteq> None) \<and> '''' \<notin> set (cc_command cc)
     \<and> cc_name cc \<notin> seen \<and> seen' = insert (cc_name cc) seen"
  by (auto simp: validate_companion_def tokens_nonempty split: if_splits option.splits)

lemma validate_builtin_Inr:
  "validate_builtin b seen = Inr seen' \<Longrightarrow> CapabilityByID b \<noteq> None \<and> b \<notin> seen \<and> seen' = insert b seen"
  by (auto simp: validate_builtin_def split: if_splits option.splits)

lemma validateCreateSpec_Inr:
  assumes "validateCreateSpec env spec = Inr spec'"
  obtains mounts targets copies t2 t3 t4 t5 where
    "rewrite_loop (validate_mount env) (cs_mounts spec) [] = Inr (mounts, targets)"
    "rewrite_loop (validate_copy env) (cs_copies spec) targets = Inr (copies, t2)"
    "fold_result validate_port (cs_ports spec) {} = Inr t3"
    "fold_result validate_companion (cs_companion_containers spec) {} = Inr t4"
    "validateResourceLimits env spec = None"
    "fold_result validate_builtin (cs_builtin_tools spec) {} = Inr t5"
    "gm_get (cs_envs spec) supplementalGroupsEnv = None"
    "spec' = spec\<lparr>cs_mounts := mounts, cs_copies := copies\<rparr>"
  using assms
  by (auto simp: validateCreateSpec_def res_bind_eq_Inr validateCompanionContainerSpecs_def
      validatePrimaryEnvs_def split: if_splits option.splits)

text \<open>
  C34. A specification that passes validation: its mounts and copies come from absolute paths that are
  files, directories or sockets (never a symlink, and no copy of the root), and go to absolute
  container paths of which no two are equal; ports are in range, of a known protocol, and no host
  port is mapped twice for one protocol; companion names are present and distinct, and one with
  start hooks has a health check; the built-in tools are known and distinct; the reserved
  environment variable is not set.  Validation changes nothing but the paths it expands.
\<close>
theorem validateCreateSpec_guarantees:
  assumes "validateCreateSpec env spec = Inr spec'"
  shows "(\<forall>m \<in> set (cs_mounts spec'). source_ok env (ms_source m) \<and> IsAbs (ms_target m))
    \<and> (\<forall>c \<in> set (cs_copies spec'). source_ok env (cp_source c) \<and> IsAbs (cp_target c) \<and> Clean (cp_source c) \<noteq> ''/'')
    \<and> distinct (map ms_target (cs_mounts spec') @ map cp_target (cs_copies spec'))
    \<and> (\<forall>p \<in> set (cs_ports spec'). port_ok p)
    \<and> distinct (map (\<lambda>p. (pm_host_port p, pm_protocol p)) (cs_ports spec'))
    \<and> (\<forall>cc \<in> set (cs_companion_containers spec'). cc_name cc \<noteq> '''' \<and> cc_image cc \<noteq> ''''
         \<and> (cc_post_start_on_primary cc \<noteq> [] \<longrightarrow> cc_healthcheck cc \<noteq> None))
    \<and> distinct (map cc_name (cs_companion_containers spec'))
    \<and> (\<forall>b \<in> set (cs_builtin_tools spec'). CapabilityByID b \<noteq> None) \<and> distinct (cs_builtin_tools spec')
    \<and> gm_get (cs_envs spec') ''AGENTS_SANDBOX_SUPPLEMENTAL_GROUPS'' = None
    \<and> spec' = spec\<lparr>cs_mounts := cs_mounts spec', cs_copies := cs_copies spec'\<rparr>
    \<and> length (cs_mounts spec') = length (cs_mounts spec) \<and> length (cs_copies spec') = length (cs_copies spec)"
  using assms
proof (rule validateCreateSpec_Inr)
  fix mounts targets copies t2 t3 t4 t5
  assume h: "rewrite_loop (validate_mount env) (cs_mounts spec) [] = Inr (mounts, targets)"
    "rewrite_loop (validate_copy env) (cs_copies spec) targets = Inr (copies, t2)"
    "fold_result validate_port (cs_ports spec) {} = Inr t3"
    "fold_result validate_companion (cs_companion_containers spec) {} = Inr t4"
    "fold_result validate_builtin (cs_builtin_tools spec) {} = Inr t5"
    and env: "gm_get (cs_envs spec) supplementalGroupsEnv = None"
    and s': "spec' = spec\<lparr>cs_mounts := mounts, cs_copies := copies\<rparr>"
  note m = mounts_loop [OF h(1)] and c = copies_loop [OF h(2)]
  have 1: "\<forall>x \<in> set mounts. source_ok env (ms_source x) \<and> IsAbs (ms_target x)"
    using m by (auto simp: list_all2_conv_all_nth in_set_conv_nth)
  have 2: "\<forall>x \<in> set copies. source_ok env (cp_source x) \<and> IsAbs (cp_target x) \<and> Clean (cp_source x) \<noteq> ''/''"
    using c by (auto simp: list_all2_conv_all_nth in_set_conv_nth)
  have 3: "distinct (map ms_target mounts @ map cp_target copies)" using m c by auto
  have 4: "length mounts = length (cs_mounts spec)" "length copies = length (cs_copies spec)"
    using m c by (auto dest: list_all2_lengthD)
  from keyed_loop [of validate_port port_ok port_key, OF validate_port_Inr h(3)]
  have 5: "\<forall>p \<in> set (cs_ports spec). port_ok p" "distinct (map port_key (cs_ports spec))" by auto
  from keyed_loop [of validate_companion "\<lambda>cc. cc_name cc \<noteq> '''' \<and> cc_image cc \<noteq> ''''
      \<and> (cc_post_start_on_primary cc \<noteq> [] \<longrightarrow> cc_healthcheck cc \<noteq> None)" cc_name, OF _ h(4)]
  have 6: "\<forall>cc \<in> set (cs_companion_containers spec). cc_name cc \<noteq> '''' \<and> cc_image cc \<noteq> ''''
         \<and> (cc_post_start_on_primary cc \<noteq> [] \<longrightarrow> cc_healthcheck cc \<noteq> None)"
      "distinct (map cc_name (cs_companion_containers spec))"
    using validate_companion_Inr by (metis (no_types, lifting))+
  from keyed_loop [of validate_builtin "\<lambda>b. CapabilityByID b \<noteq> None" "\<lambda>b. b", OF validate_builtin_Inr h(5)]
  have 7: "\<forall>b \<in> set (cs_builtin_tools spec). CapabilityByID b \<noteq> None" "distinct (cs_builtin_tools spec)" by auto
  have s: "cs_mounts spec' = mounts" "cs_copies spec' = copies" "cs_ports spec' = cs_ports spec"
      "cs_companion_containers spec' = cs_companion_containers spec"
      "cs_builtin_tools spec' = cs_builtin_tools spec" "cs_envs spec' = cs_envs spec" by (simp_all add: s')
  show ?thesis
    unfolding s by (intro conjI 1 2 3 4 5(1) distinct_ports [OF 5] 6 7 env s')
qed

definition test_host :: host_env where
  "test_host = no_host\<lparr>he_home := Inr ''/home/u'', he_cwd := Inr ''/'', he_mkdir_all := \<lambda>_. None,
     he_eval_symlinks := \<lambda>p. Inr p, he_lstat := \<lambda>_. Inr Directory\<rparr>"

definition test_spec :: create_spec where
  "test_spec = empty_create_spec\<lparr>cs_image := ''img'',
     cs_mounts := [\<lparr>ms_source = ''~/code'', ms_target = ''~/code'', ms_writable = True\<rparr>],
     cs_copies := [\<lparr>cp_source = ''/etc/x'', cp_target = ''/opt/x'', cp_exclude_patterns = []\<rparr>],
     cs_builtin_tools := [''git'']\<rparr>"

theorem validateCreateSpec_guarantees_witness:
  "\<exists>spec'. validateCreateSpec test_host test_spec = Inr spec'
     \<and> distinct (map ms_target (cs_mounts spec') @ map cp_target (cs_copies spec'))"
proof -
  have "\<not> isl (validateCreateSpec test_host test_spec)" by code_simp
  then obtain spec' where "validateCreateSpec test_host test_spec = Inr spec'"
    by (cases "validateCreateSpec test_host test_spec") auto
  with validateCreateSpec_guarantees [OF this] show ?thesis by blast
qed

section \<open>Limits\<close>

lemma limit_status_None [simp]: "limit_status f r = None \<longleftrightarrow> \<not> isl r"
  by (cases r) (simp_all add: limit_status_def)

lemma companion_limits_accepted:
  "validate_companion_limits env cc = None \<Longrightarrow> companion_limits_ok env cc"
  using not_isl_memory [of env "cc_memory_limit cc" "companion_field (cc_name cc) ''memory_limit''" "''memory_limit''"]
    not_isl_memory [of env "cc_disk_limit cc" "companion_field (cc_name cc) ''disk_limit''" "''disk_limit''"]
  by (auto simp: validate_companion_limits_def companion_limits_ok_def ParseCPU_def
      ParseMemoryOrDisk_def [of env "''''"] split: if_splits)

text \<open>
  A specification that passes validation has limits the Docker runtime can build, so a limit never
  fails a sandbox after its creation was accepted; and every limit built is positive, or zero when
  the field was left out.
\<close>
theorem buildLimits_after_validation:
  assumes "validateCreateSpec env spec = Inr spec'"
  shows "\<exists>l. buildLimits env spec' = Inr l
    \<and> (li_cpu_millicores l = 0 \<longleftrightarrow> cs_cpu_limit spec = '''') \<and> 0 \<le> li_cpu_millicores l
    \<and> (li_memory_bytes l = 0 \<longleftrightarrow> cs_memory_limit spec = '''') \<and> 0 \<le> li_memory_bytes l
    \<and> (li_primary_disk_bytes l = 0 \<longleftrightarrow> cs_disk_limit spec = '''') \<and> 0 \<le> li_primary_disk_bytes l"
proof -
  from assms obtain mounts copies where s': "spec' = spec\<lparr>cs_mounts := mounts, cs_copies := copies\<rparr>"
    and v: "validateResourceLimits env spec = None"
    by (rule validateCreateSpec_Inr)
  from v obtain cpu mem disk where p: "ParseCPU env (cs_cpu_limit spec) = Inr cpu"
      "ParseMemoryOrDisk env (cs_memory_limit spec) ''memory_limit'' = Inr mem"
      "ParseMemoryOrDisk env (cs_disk_limit spec) ''disk_limit'' = Inr disk"
    by (auto simp: validateResourceLimits_def isl_def) (metis sum.exhaust)
  have ok: "\<forall>cc \<in> set (cs_companion_containers spec). companion_limits_ok env cc"
    using v by (auto simp: validateResourceLimits_def companion_limits_accepted)
  let ?l0 = "\<lparr>li_cpu_millicores = cpu, li_memory_bytes = mem, li_primary_disk_bytes = disk,
    li_companion_cpu_millicores = [], li_companion_memory_bytes = [], li_companion_disk_bytes = []\<rparr>"
  from companion_limits_fold_returns [OF ok, of ?l0] obtain l where
      l: "fold_result (companion_limits env) (cs_companion_containers spec) ?l0 = Inr l"
    by (cases "fold_result (companion_limits env) (cs_companion_containers spec) ?l0") auto
  have "li_cpu_millicores l = cpu \<and> li_memory_bytes l = mem \<and> li_primary_disk_bytes l = disk"
    by (rule fold_result_invariant [OF l]) (auto simp: companion_limits_def res_bind_eq_Inr split: if_splits)
  moreover have "buildLimits env spec' = Inr l" using p l by (simp add: buildLimits_def s')
  ultimately show ?thesis
    using ParseCPU_value [OF p(1)] ParseMemoryOrDisk_value [OF p(2)] ParseMemoryOrDisk_value [OF p(3)]
    by (intro exI [of _ l]) auto
qed

theorem buildLimits_after_validation_witness: "\<not> isl (buildLimits test_host test_spec)"
proof -
  have "\<not> isl (validateCreateSpec test_host test_spec)" by code_simp
  then obtain spec' where v: "validateCreateSpec test_host test_spec = Inr spec'"
    by (cases "validateCreateSpec test_host test_spec") auto
  from validateCreateSpec_Inr [OF v] obtain mounts copies where
      "spec' = test_spec\<lparr>cs_mounts := mounts, cs_copies := copies\<rparr>" by blast
  then have "buildLimits test_host spec' = buildLimits test_host test_spec" by (simp add: buildLimits_def)
  with buildLimits_after_validation [OF v] show ?thesis by auto
qed

section \<open>Merging\<close>

lemma merge_selectors:
  "cs_image (mergeCreateSpecs (Some b) (Some r)) = (if cs_image r = '''' then cs_image b else cs_image r)"
  "cs_cpu_limit (mergeCreateSpecs (Some b) (Some r))
    = (if cs_cpu_limit r = '''' then cs_cpu_limit b else cs_cpu_limit r)"
  "cs_idle_ttl (mergeCreateSpecs (Some b) (Some r))
    = (case cs_idle_ttl r of None \<Rightarrow> cs_idle_ttl b | Some d \<Rightarrow> Some d)"
  "cs_mounts (mergeCreateSpecs (Some b) (Some r)) = cs_mounts b @ cs_mounts r"
  "cs_copies (mergeCreateSpecs (Some b) (Some r)) = cs_copies b @ cs_copies r"
  "cs_ports (mergeCreateSpecs (Some b) (Some r)) = cs_ports b @ cs_ports r"
  "cs_companion_containers (mergeCreateSpecs (Some b) (Some r))
    = cs_companion_containers b @ cs_companion_containers r"
  "cs_command (mergeCreateSpecs (Some b) (Some r))
    = (if cs_command r = [] then cs_command b else cs_command r)"
  by (simp_all only: mergeCreateSpecs_def Let_def prod.case option.case override_string_def)
    (cases "cs_idle_ttl r"; simp)+

text \<open>
  The merge of a YAML specification \<open>b\<close> with the request's own \<open>r\<close>: a scalar of the request wins
  when it is set, lists are concatenated with the file's first, a label or variable of the request
  shadows that of the file, and the tools are the union of both, each once, in order of first mention.
\<close>
theorem mergeCreateSpecs_meaning:
  assumes "gm_ok (cs_labels r)" and "gm_ok (cs_envs r)"
  shows "let m = mergeCreateSpecs (Some b) (Some r) in
      cs_image m = (if cs_image r = '''' then cs_image b else cs_image r)
    \<and> cs_cpu_limit m = (if cs_cpu_limit r = '''' then cs_cpu_limit b else cs_cpu_limit r)
    \<and> cs_idle_ttl m = (case cs_idle_ttl r of None \<Rightarrow> cs_idle_ttl b | Some d \<Rightarrow> Some d)
    \<and> cs_mounts m = cs_mounts b @ cs_mounts r \<and> cs_copies m = cs_copies b @ cs_copies r
    \<and> cs_ports m = cs_ports b @ cs_ports r
    \<and> cs_companion_containers m = cs_companion_containers b @ cs_companion_containers r
    \<and> cs_command m = (if cs_command r = [] then cs_command b else cs_command r)
    \<and> (\<forall>k. gm_get (cs_labels m) k = (case gm_get (cs_labels r) k of Some v \<Rightarrow> Some v | None \<Rightarrow> gm_get (cs_labels b) k))
    \<and> (\<forall>k. gm_get (cs_envs m) k = (case gm_get (cs_envs r) k of Some v \<Rightarrow> Some v | None \<Rightarrow> gm_get (cs_envs b) k))
    \<and> set (cs_builtin_tools m) = set (cs_builtin_tools b) \<union> set (cs_builtin_tools r)
    \<and> distinct (cs_builtin_tools m) \<and> subseq (cs_builtin_tools m) (cs_builtin_tools b @ cs_builtin_tools r)"
proof -
  note d = dedupeStrings_props [of "cs_builtin_tools b @ cs_builtin_tools r"]
  have c: "cs_builtin_tools (mergeCreateSpecs (Some b) (Some r)) = dedupeStrings (cs_builtin_tools b @ cs_builtin_tools r)"
    by (simp add: mergeCreateSpecs_def Let_def split: option.splits)
  have l: "cs_labels (mergeCreateSpecs (Some b) (Some r))
        = (if length (cs_labels r) > 0 then gm_merge (cs_labels b) (cs_labels r) else cs_labels b)"
      "cs_envs (mergeCreateSpecs (Some b) (Some r))
        = (if length (cs_envs r) > 0 then gm_merge (cs_envs b) (cs_envs r) else cs_envs b)"
    by (simp_all add: mergeCreateSpecs_def Let_def split: option.splits)
  have g: "gm_get (if length x > 0 then gm_merge y x else y) k = (case gm_get x k of Some v \<Rightarrow> Some v | None \<Rightarrow> gm_get y k)"
    if "gm_ok x" for x y :: "(string, string) gomap" and k
    using that by (cases "x = []") (simp_all add: gm_get_merge)
  show ?thesis
    unfolding Let_def c d(1) l g [OF assms(1)] g [OF assms(2)] merge_selectors set_append
    by (intro conjI allI refl d(2,3))
qed

theorem mergeCreateSpecs_meaning_witness:
  "cs_image (mergeCreateSpecs (Some (empty_create_spec\<lparr>cs_image := ''a''\<rparr>)) (Some empty_create_spec)) = ''a''"
  using mergeCreateSpecs_meaning [of empty_create_spec "empty_create_spec\<lparr>cs_image := ''a''\<rparr>"]
  by (simp add: empty_create_spec_def Let_def)

end
