(* ===== verification/Path_Laws.thy ===== *)
theory Path_Laws
  imports Go_Path
begin

text \<open>
  Laws of absolute paths shared by the components that build or check paths of the host: what joining,
  \<^verbatim>\<open>Dir\<close>, \<^verbatim>\<open>Abs\<close> and \<^verbatim>\<open>Rel\<close> do to the components of a path.
\<close>

lemma JoinPath_root:
  assumes "IsAbs root" and "rel \<noteq> ''''"
  shows "JoinPath [root, rel] = Clean (root @ slash # rel)"
  using assms by (cases root) (auto simp: IsAbs_def join_with_def)

lemma IsAbs_append [simp]: "IsAbs root \<Longrightarrow> IsAbs (root @ s)"
  by (auto simp: IsAbs_def prefix_def)

lemma IsAbs_front: "d \<noteq> [] \<Longrightarrow> slash # t = d @ r \<Longrightarrow> IsAbs d"
  by (cases d) (auto simp: IsAbs_def)

lemma IsAbs_Dir: "IsAbs p \<Longrightarrow> IsAbs (Dir (Clean p))"
proof -
  assume a: "IsAbs p"
  let ?q = "Clean p"
  from a obtain t where q: "?q = slash # t" using IsAbs_Clean [OF a] by (auto simp: IsAbs_def prefix_def)
  let ?d = "rev (dropWhile (\<lambda>c. c \<noteq> slash) (rev ?q))"
  have "?d \<noteq> []" by (simp add: q dropWhile_eq_Nil_conv)
  moreover have "?q = ?d @ rev (takeWhile (\<lambda>c. c \<noteq> slash) (rev ?q))"
    by (metis rev_append rev_rev_ident takeWhile_dropWhile_id)
  ultimately have "IsAbs ?d" using IsAbs_front [of ?d] q by metis
  then show ?thesis by (simp add: Dir_def IsAbs_Clean)
qed

lemma IsAbs_Abs:
  assumes "Abs cwd root = Inr p" and "\<And>wd. cwd = Inr wd \<Longrightarrow> IsAbs wd"
  shows "IsAbs p"
proof (cases "IsAbs root")
  case True
  with assms(1) show ?thesis by (auto simp: Abs_def IsAbs_Clean)
next
  case False
  with assms obtain wd where wd: "IsAbs wd" "p = JoinPath [wd, root]"
    by (auto simp: Abs_def res_bind_eq_Inr)
  then have "p = Clean (join_with [slash] [wd, root])" by (cases wd) (auto simp: IsAbs_def)
  with wd(1) show ?thesis by (simp add: join_with_def IsAbs_Clean)
qed

lemma Join_plain:
  assumes "IsAbs p" and "cs \<noteq> []" and "\<forall>c \<in> set cs. plain_component c"
  shows "JoinPath [p, join_with [slash] cs] = render_path True (components p @ cs)"
proof -
  have "join_with [slash] cs \<noteq> []"
    using assms(2,3) by (cases cs) (auto simp: join_with_def plain_component_def)
  moreover have "IsAbs (p @ slash # join_with [slash] cs)"
    using assms(1) by (auto simp: IsAbs_def prefix_def)
  ultimately show ?thesis
    by (simp add: JoinPath_root assms(1) Clean_def components_join_plain [OF assms] del: JoinPath.simps)
qed

lemma join_single [simp]: "join_with s [c] = c"
  by (simp add: join_with_def)

lemma strip_common_append: "strip_common xs (xs @ ys) = ([], ys)"
  by (induction xs) (cases ys, auto)

lemma Rel_below:
  assumes "IsAbs p" and "IsAbs q" and "components q = components p @ cs" and "cs \<noteq> []"
  shows "Rel p q = Inr (join_with [slash] cs)"
  using assms by (simp add: Rel_def Clean_eq_iff rel_components_def strip_common_append)

end
