(* ===== verification/Object_Props.thy ===== *)
theory Object_Props
  imports Config_Props Sweep_Props Path_Laws
begin

text \<open>
  Where the logs of an exec can go, the names and labels of a sandbox's Docker objects, and the error a
  client sees for each refusal of the daemon.
\<close>

section \<open>Exec logs\<close>

text \<open>A relative path that does not climb is, cleaned, its components with slashes between.\<close>

lemma relative_components_plain:
  assumes "\<not> IsAbs p" and "Clean p \<noteq> ''.''" and "\<not> HasPrefix (Clean p) ''..''"
  shows "components p \<noteq> [] \<and> (\<forall>c \<in> set (components p). plain_component c)
    \<and> Clean p = join_with [slash] (components p)"
proof -
  have c: "components p \<noteq> []" using assms(1,2) by (auto simp: Clean_def render_path_def dot_def)
  with assms(1) have j: "Clean p = join_with [slash] (components p)"
    by (simp add: Clean_def render_path_def)
  have "hd (components p) \<noteq> dotdot"
  proof
    assume "hd (components p) = dotdot"
    with c have "\<exists>r. join_with [slash] (components p) = dotdot @ r"
      by (cases "components p"; cases "tl (components p)") (auto simp: join_with_def)
    with assms(3) j show False by (auto simp: dotdot_def)
  qed
  with c j components_no_dotdot [of p] show ?thesis by blast
qed

text \<open>
  C36. Exec logs cannot leave their root: when \<^verbatim>\<open>prepareExecOutputPaths\<close> succeeds, both paths are in
  the root with its symlinks resolved, at least one level below it and never climbing, and the
  directory that will hold them, symlinks resolved again, is inside the root too.  This holds for
  every template and every field values, ids with slashes or dots included.
\<close>
theorem exec_logs_inside_root:
  assumes "prepareExecOutputPaths env root template fieldMap = Inr p"
    and "\<And>wd. he_cwd env = Inr wd \<Longrightarrow> IsAbs wd"
    and "\<And>q r. IsAbs q \<Longrightarrow> he_eval_symlinks env q = Inr r \<Longrightarrow> IsAbs r"
  shows "\<exists>rootAbs rootReal cs pre parentReal.
      Abs (he_cwd env) root = Inr rootAbs \<and> he_eval_symlinks env rootAbs = Inr rootReal
    \<and> cs \<noteq> [] \<and> (\<forall>c \<in> set cs. plain_component c) \<and> components pre = components rootReal @ cs
    \<and> ap_stdout_path p = pre @ ''.stdout.log'' \<and> ap_stderr_path p = pre @ ''.stderr.log''
    \<and> he_eval_symlinks env (Dir pre) = Inr parentReal
    \<and> prefix (components rootReal) (components parentReal)"
proof -
  from assms(1) obtain rel rootAbs rootReal parentReal where
      rel: "\<not> IsAbs rel" "Clean rel \<noteq> ''.''" "Clean rel \<noteq> ''''" "\<not> HasPrefix (Clean rel) ''..''"
    and abs: "Abs (he_cwd env) root = Inr rootAbs" and real: "he_eval_symlinks env rootAbs = Inr rootReal"
    and parent: "he_eval_symlinks env (Dir (JoinPath [rootReal, Clean rel])) = Inr parentReal"
    and within: "pathWithinRoot rootReal parentReal"
    and p: "ap_stdout_path p = JoinPath [rootReal, Clean rel] @ ''.stdout.log''"
      "ap_stderr_path p = JoinPath [rootReal, Clean rel] @ ''.stderr.log''"
    by (auto simp: prepareExecOutputPaths_def prepareExecOutputPrefix_def res_bind_eq_Inr Let_def
        split: if_splits)
  have ra: "IsAbs rootReal" using assms(3) [OF IsAbs_Abs [OF abs assms(2)] real] .
  note rc = relative_components_plain [OF rel(1,2,4)]
  have j: "JoinPath [rootReal, Clean rel] = Clean (rootReal @ slash # Clean rel)"
    by (rule JoinPath_root [OF ra rel(3)])
  have c: "components (JoinPath [rootReal, Clean rel]) = components rootReal @ components rel"
    unfolding j using rc ra by (simp add: components_Clean components_join_plain)
  have "IsAbs (Dir (JoinPath [rootReal, Clean rel]))"
    unfolding j by (rule IsAbs_Dir) (simp add: ra)
  with parent assms(3) have pa: "IsAbs parentReal" by blast
  with within ra have "prefix (components rootReal) (components parentReal)"
    by (simp add: pathWithinRoot_iff)
  with abs real rc c p parent show ?thesis by blast
qed

theorem exec_logs_inside_root_witness:
  "\<exists>p cs pre. prepareExecOutputPaths test_host ''/logs'' ''{sandbox_id}/{exec_id}''
        [(''sandbox_id'', ''box-1''), (''exec_id'', ''exec-1'')] = Inr p
     \<and> components pre = [''logs''] @ cs \<and> cs \<noteq> [] \<and> ap_stdout_path p = pre @ ''.stdout.log''"
proof -
  let ?r = "prepareExecOutputPaths test_host ''/logs'' ''{sandbox_id}/{exec_id}''
        [(''sandbox_id'', ''box-1''), (''exec_id'', ''exec-1'')]"
  have "\<not> isl ?r" by code_simp
  then obtain p where p: "?r = Inr p" by (cases ?r) auto
  have a: "Abs (he_cwd test_host) ''/logs'' = Inr ''/logs''" by code_simp
  have c: "components ''/logs'' = [''logs'']" by code_simp
  have cwd: "he_cwd test_host = Inr ''/''" and sl: "he_eval_symlinks test_host = Inr"
    by (simp_all add: test_host_def)
  from exec_logs_inside_root [OF p] show ?thesis
    using p a c cwd sl by (auto simp: IsAbs_def)
qed

section \<open>Names and labels of Docker objects\<close>

lemma accepted_id_clean: "validateCallerProvidedID fn k = None \<Longrightarrow> clean_name k"
proof -
  have "sanitize_char c = c" if "id_char c" for c
    using that by (auto simp: id_char_def alnum_char_def sanitize_char_def)
  moreover assume "validateCallerProvidedID fn k = None"
  then have "callerProvidedIDPattern k" by (auto simp: validateCallerProvidedID_def split: if_splits)
  ultimately show ?thesis using callerProvidedID_chars by (auto simp: clean_name_def list_all_iff)
qed

text \<open>
  Two accepted sandbox ids never share a primary container or a network, and no container of one
  sandbox has the name of the primary container of another or of its own.
\<close>
theorem docker_names_unique:
  assumes "validateCallerProvidedID ''sandbox_id'' a = None" and "validateCallerProvidedID ''sandbox_id'' b = None"
  shows "(dockerPrimaryContainerName a = dockerPrimaryContainerName b \<longleftrightarrow> a = b)
    \<and> (dockerNetworkName a = dockerNetworkName b \<longleftrightarrow> a = b)
    \<and> dockerCompanionContainerName a name \<noteq> dockerPrimaryContainerName b
    \<and> (clean_name n \<longrightarrow> clean_name m \<longrightarrow>
         (dockerCompanionContainerName a n = dockerCompanionContainerName a m \<longleftrightarrow> n = m))"
  using accepted_id_clean [OF assms(1)] accepted_id_clean [OF assms(2)]
  by (simp add: primary_name_inj dockerNetworkName_def dockerCompanionContainerName_def
      dockerPrimaryContainerName_def sanitize_clean)

theorem docker_names_unique_witness:
  "dockerPrimaryContainerName ''box-1'' \<noteq> dockerPrimaryContainerName ''box-2''"
proof -
  have "validateCallerProvidedID ''sandbox_id'' ''box-1'' = None"
    "validateCallerProvidedID ''sandbox_id'' ''box-2'' = None" by code_simp+
  from docker_names_unique [OF this] show ?thesis by simp
qed

definition simple_companion :: "string \<Rightarrow> companion_container_spec" where
  "simple_companion n =
     \<lparr>cc_name = n, cc_image = ''img'', cc_envs = [], cc_healthcheck = None, cc_post_start_on_primary = [],
      cc_command = [], cc_cpu_limit = '''', cc_memory_limit = '''', cc_disk_limit = ''''\<rparr>"

text \<open>
  Companion containers are not as safe: two accepted sandboxes with accepted companions can ask for
  the same container name, because the hyphen that joins id and name may occur in both; and within one
  sandbox two different companion names can become one when their characters are replaced.
\<close>
theorem companion_names_collide:
  "\<exists>a b x y u v. validateCallerProvidedID ''sandbox_id'' a = None \<and> validateCallerProvidedID ''sandbox_id'' b = None
    \<and> a \<noteq> b \<and> dockerCompanionContainerName a x = dockerCompanionContainerName b y
    \<and> u \<noteq> v \<and> dockerCompanionContainerName a u = dockerCompanionContainerName a v
    \<and> validateCompanionContainerSpecs [simple_companion x, simple_companion u, simple_companion v] {} =
        Inr {x, u, v}
    \<and> validateCompanionContainerSpecs [simple_companion y] {} = Inr {y}"
proof -
  have v: "validate_companion (simple_companion n) seen = Inr (insert n seen)"
    if "n \<noteq> ''''" "n \<notin> seen" for n seen
    using that by (simp add: validate_companion_def simple_companion_def validateHealthcheck_def reject_empty_tokens_def)
  have f: "validateCallerProvidedID ''sandbox_id'' ''abcd'' = None"
    "validateCallerProvidedID ''sandbox_id'' ''abcd-x'' = None"
    "dockerCompanionContainerName ''abcd'' ''x-y'' = dockerCompanionContainerName ''abcd-x'' ''y''"
    "dockerCompanionContainerName ''abcd'' ''d.b'' = dockerCompanionContainerName ''abcd'' ''d b''"
    by code_simp+
  have o: "validateCompanionContainerSpecs [simple_companion ''x-y'', simple_companion ''d.b'', simple_companion ''d b''] {}
        = Inr {''x-y'', ''d.b'', ''d b''}"
    "validateCompanionContainerSpecs [simple_companion ''y''] {} = Inr {''y''}"
    by (simp_all add: validateCompanionContainerSpecs_def v insert_commute)
  show ?thesis
    by (rule exI [of _ "''abcd''"], rule exI [of _ "''abcd-x''"], rule exI [of _ "''x-y''"],
        rule exI [of _ "''y''"], rule exI [of _ "''d.b''"], rule exI [of _ "''d b''"], intro conjI)
      (fact f(1) f(2) f(3) f(4) o(1) o(2) | simp)+
qed

text \<open>
  The labels of a primary container: the daemon's own three labels say the sandbox, the component
  and the profile whatever labels the user gives, and every user label is there under its prefix.
\<close>
lemma sandbox_labels_exact:
  assumes "gm_ok userLabels"
  shows "gm_get (SandboxLabels sid prof userLabels) LabelSandboxID = Some sid
    \<and> gm_get (SandboxLabels sid prof userLabels) LabelComponent = Some ''primary''
    \<and> gm_get (SandboxLabels sid prof userLabels) LabelProfile = Some prof
    \<and> gm_get (SandboxLabels sid prof userLabels) (LabelUserPrefix @ k) = gm_get userLabels k"
proof (intro conjI)
  show "gm_get (SandboxLabels sid prof userLabels) LabelSandboxID = Some sid"
    unfolding SandboxLabels_def
    by (subst withUserLabels_base) (simp_all add: gm_ok_def)
  show "gm_get (SandboxLabels sid prof userLabels) LabelComponent = Some ''primary''"
    unfolding SandboxLabels_def
    by (subst withUserLabels_base) (simp_all add: gm_ok_def)
  show "gm_get (SandboxLabels sid prof userLabels) LabelProfile = Some prof"
    unfolding SandboxLabels_def
    by (subst withUserLabels_base) (simp_all add: gm_ok_def)
  show "gm_get (SandboxLabels sid prof userLabels) (LabelUserPrefix @ k) = gm_get userLabels k"
    unfolding SandboxLabels_def by (rule withUserLabels_user [OF assms]) simp
qed

section \<open>What a client sees of a refusal\<close>

definition client_sees :: "rpc_status \<Rightarrow> client_error_kind" where
  "client_sees st = ce_kind (translateRPCError (StatusError st))"

lemma client_sees_simps [simp]:
  "client_sees (sandbox_not_found k) = SandboxNotFoundError k"
  "client_sees (exec_not_found k) = ExecNotFoundError k"
  "client_sees (invalid_state k what) = SandboxInvalidStateError"
  by (simp_all add: client_sees_def translate_newStatusError sandbox_not_found_def exec_not_found_def
      invalid_state_def md_get_def)

lemma mem_append_not_Inl: "appendEventLocked (memory_config base) now rec t m st \<noteq> Inl e"
  by (rule mem_append [of base now rec t m st]) simp

lemma client_sees_exec [simp]:
  "client_sees (newStatusError c ReasonExecAlreadyTerminal [(''exec_id'', k)] m) = ExecAlreadyTerminalError k"
  "client_sees (newStatusError c ReasonSandboxNotReady [(''sandbox_id'', k)] m) = SandboxNotReadyError k"
  "client_sees (newStatusError c ReasonSandboxIDAlreadyExists [(''sandbox_id'', k)] m) = SandboxConflictError k"
  "client_sees (newStatusError c ReasonExecIDAlreadyExists [(''exec_id'', k)] m) = SandboxConflictError ''''"
  "client_sees (newStatusError c ReasonSandboxEventSequenceExpired
      [(''sandbox_id'', k), (''from_sequence'', show_seqno q)] m) = SandboxSequenceExpiredError k (Some q) None"
  by (simp_all add: client_sees_def translate_newStatusError md_get_def md_seqno_def)

lemma nonempty_id: "validateCallerProvidedID fn k = None \<Longrightarrow> k \<noteq> ''''"
  by (auto simp: validateCallerProvidedID_def)

lemma duplicate_exec_refused:
  assumes "validateCallerProvidedID ''exec_id'' k = None" and "k \<in> gm_keys (mr_exec_ids r)"
  shows "\<exists>m. allocateExecID memoryIDRegistry now uuids k r
    = Some (Inl (newStatusError AlreadyExists ReasonExecIDAlreadyExists [(''exec_id'', k)] m))"
  using assms nonempty_id [OF assms(1)]
  by (simp add: allocateExecID_def allocateID_def memory_ReserveExecID_def memory_reserve_def gm_get_Some_key)
    (auto simp: res_bind_def)

lemma create_refused_sees:
  assumes "CreateSandbox (memory_config base) env now uuids req s = Some (s', ts, Inl st)"
    and "\<not> isl (checked_spec env req)" and "validateCallerProvidedID ''sandbox_id'' (cr_sandbox_id req) = None"
  shows "client_sees st = SandboxConflictError (cr_sandbox_id req)"
proof -
  note ne = nonempty_id [OF assms(3)]
  obtain spec where spec: "checked_spec env req = Inr spec"
    using assms(2) by (cases "checked_spec env req") auto
  show ?thesis
  proof (cases "memory_ReserveSandboxID (svc_registry s) (cr_sandbox_id req) now")
    case (Inl e)
    then have "e = ErrSandboxIDAlreadyExists"
      by (auto simp: memory_ReserveSandboxID_def res_bind_def memory_reserve_Inl split: sum.splits)
    with Inl assms(1,3) spec ne show ?thesis
      by (simp add: CreateSandbox_def allocateSandboxID_def allocateID_def) (auto simp del: newStatusError_def)
  next
    case (Inr r')
    with assms(1,3) spec ne show ?thesis
      by (simp add: CreateSandbox_def allocateSandboxID_def allocateID_def create_with_id_def
          memory_SaveSandboxConfig_def mem_append_not_Inl split: sum.splits prod.splits)
  qed
qed

text \<open>
  The error a Go client gets for a refusal of the daemon names what was refused: an unknown sandbox
  or exec by its id, a taken sandbox id by that id, a sandbox that is not ready, an exec that has ended,
  and a subscription beyond the log by sandbox and sequence, decoded from its decimal form.  The one
  exception is a taken exec id, which arrives as a conflict of the sandbox with the empty id.
\<close>
theorem client_errors_faithful:
  shows "(GetSandbox s k = Inl st \<longrightarrow> client_sees st = SandboxNotFoundError k)
    \<and> (StopSandbox (memory_config base) now k s = (s', ts, Inl st) \<longrightarrow>
         client_sees st = (if k \<in> gm_keys (svc_boxes s) then SandboxInvalidStateError else SandboxNotFoundError k))
    \<and> (ResumeSandbox (memory_config base) now k s = (s', ts, Inl st) \<longrightarrow>
         client_sees st = (if k \<in> gm_keys (svc_boxes s) then SandboxInvalidStateError else SandboxNotFoundError k))
    \<and> (CancelExec (memory_config base) now k s = (s', ts, Inl st) \<longrightarrow>
         (case requireExecLocked s k of
            Inr _ \<Rightarrow> client_sees st = ExecAlreadyTerminalError k
          | Inl _ \<Rightarrow> client_sees st = ExecNotFoundError k
              \<or> (\<exists>sid. gm_get (svc_execs s) k = Some sid \<and> client_sees st = SandboxNotFoundError sid)))
    \<and> (CreateSandbox (memory_config base) env now uuids req s = Some (s', ts, Inl st)
         \<and> \<not> isl (checked_spec env req) \<and> validateCallerProvidedID ''sandbox_id'' (cr_sandbox_id req) = None \<longrightarrow>
         client_sees st = SandboxConflictError (cr_sandbox_id req))
    \<and> (subscribe_start now s sub = (sent, Inl st) \<longrightarrow>
         (case gm_get (svc_boxes s) (sub_sandbox_id sub) of
            None \<Rightarrow> client_sees st = SandboxNotFoundError (sub_sandbox_id sub)
          | Some rec \<Rightarrow> client_sees st = SandboxSequenceExpiredError (sh_sandbox_id (sr_handle rec))
                          (Some (sub_from_sequence sub)) None))
    \<and> (CreateExec (memory_config base) env now uuids xreq s = Some (s', ts, Inl st)
         \<and> xr_exec_id xreq \<in> gm_keys (mr_exec_ids (svc_registry s)) \<and> validateCallerProvidedID ''exec_id'' (xr_exec_id xreq) = None
         \<and> xr_command xreq \<noteq> [] \<longrightarrow>
         client_sees st =
           (case gm_get (svc_boxes s) (xr_sandbox_id xreq) of
              None \<Rightarrow> SandboxNotFoundError (xr_sandbox_id xreq)
            | Some rec \<Rightarrow> if rec_state rec = SANDBOX_STATE_READY then SandboxConflictError ''''
                          else SandboxNotReadyError (xr_sandbox_id xreq)))"
proof (intro conjI impI)
  assume "GetSandbox s k = Inl st"
  then show "client_sees st = SandboxNotFoundError k" by (auto simp: GetSandbox_def split: option.splits)
next
  assume "StopSandbox (memory_config base) now k s = (s', ts, Inl st)"
  then show "client_sees st = (if k \<in> gm_keys (svc_boxes s) then SandboxInvalidStateError else SandboxNotFoundError k)"
    by (auto simp: StopSandbox_def requireSandboxLocked_def gm_get_Some_key mem_append_not_Inl
        split: option.splits if_splits sum.splits)
next
  assume "ResumeSandbox (memory_config base) now k s = (s', ts, Inl st)"
  then show "client_sees st = (if k \<in> gm_keys (svc_boxes s) then SandboxInvalidStateError else SandboxNotFoundError k)"
    by (auto simp: ResumeSandbox_def requireSandboxLocked_def gm_get_Some_key mem_append_not_Inl
        split: option.splits if_splits sum.splits)
next
  assume "CancelExec (memory_config base) now k s = (s', ts, Inl st)"
  then show "case requireExecLocked s k of Inr _ \<Rightarrow> client_sees st = ExecAlreadyTerminalError k
      | Inl _ \<Rightarrow> client_sees st = ExecNotFoundError k
          \<or> (\<exists>sid. gm_get (svc_execs s) k = Some sid \<and> client_sees st = SandboxNotFoundError sid)"
    by (auto simp: CancelExec_def requireExecLocked_def Let_def mem_append_not_Inl client_sees_exec
        split: option.splits if_splits sum.splits)
next
  assume "CreateSandbox (memory_config base) env now uuids req s = Some (s', ts, Inl st)
      \<and> \<not> isl (checked_spec env req) \<and> validateCallerProvidedID ''sandbox_id'' (cr_sandbox_id req) = None"
  then show "client_sees st = SandboxConflictError (cr_sandbox_id req)"
    by (auto intro: create_refused_sees)
next
  assume "subscribe_start now s sub = (sent, Inl st)"
  then show "case gm_get (svc_boxes s) (sub_sandbox_id sub) of
        None \<Rightarrow> client_sees st = SandboxNotFoundError (sub_sandbox_id sub)
      | Some rec \<Rightarrow> client_sees st = SandboxSequenceExpiredError (sh_sandbox_id (sr_handle rec))
                      (Some (sub_from_sequence sub)) None"
    by (auto simp: subscribe_start_def validateSequenceNotExpired_def Let_def split: option.splits if_splits)
next
  assume x: "CreateExec (memory_config base) env now uuids xreq s = Some (s', ts, Inl st)
      \<and> xr_exec_id xreq \<in> gm_keys (mr_exec_ids (svc_registry s))
      \<and> validateCallerProvidedID ''exec_id'' (xr_exec_id xreq) = None \<and> xr_command xreq \<noteq> []"
  then obtain m where m: "allocateExecID memoryIDRegistry now uuids (xr_exec_id xreq) (svc_registry s)
      = Some (Inl (newStatusError AlreadyExists ReasonExecIDAlreadyExists [(''exec_id'', xr_exec_id xreq)] m))"
    using duplicate_exec_refused by blast
  from x show "client_sees st =
      (case gm_get (svc_boxes s) (xr_sandbox_id xreq) of
         None \<Rightarrow> SandboxNotFoundError (xr_sandbox_id xreq)
       | Some rec \<Rightarrow> if rec_state rec = SANDBOX_STATE_READY then SandboxConflictError ''''
                     else SandboxNotReadyError (xr_sandbox_id xreq))"
    by (auto simp: CreateExec_def requireSandboxLocked_def m
        split: option.splits if_splits)
qed

theorem client_errors_faithful_witness:
  "client_sees (sandbox_not_found ''box-9'') = SandboxNotFoundError ''box-9''"
proof (rule client_errors_faithful [THEN conjunct1, THEN mp])
  show "GetSandbox (snd (NewService sample_config newMemoryEventStore newMemoryIDRegistry)) ''box-9''
      = Inl (sandbox_not_found ''box-9'')"
    by (simp add: GetSandbox_def NewService_def)
qed

end
