(* ===== verification/Bolt.thy ===== *)
theory Bolt
  imports Event_Store
begin

text \<open>
  The key-value store of the persistent daemon is \<^verbatim>\<open>go.etcd.io/bbolt\<close>, which is not part of the
  repository.  Its operations, as far as \<^verbatim>\<open>event_store.go\<close> and \<^verbatim>\<open>id_registry.go\<close> use them, are the
  fields of the record \<open>bolt_ops\<close>, an argument of the definitions; what its documentation promises of
  them is the locale \<open>bolt\<close>, with the fact that a package cannot return the error values this
  repository declares.  \<open>sorted_bolt\<close> is an instance, a list of buckets that are sorted lists.

  Keys and bucket names are byte strings.  A stored value is a byte slice, of the abstract type \<open>'v\<close>;
  the protobuf encoder and decoder and the two views of an 8-byte value are the record \<open>codec\<close>.
\<close>

section \<open>Operations\<close>

datatype 'db delete_bucket_result = BucketDeleted 'db | BucketNotFound | DeleteFailed go_error

text \<open>
  The operations inside a transaction, on its working copy of the database.  \<open>bo_items\<close> is what
  \<^verbatim>\<open>ForEach\<close> and a cursor visit, in order; \<open>None\<close> stands for a bucket that does not exist.
  \<open>bo_commit\<close> ends an \<^verbatim>\<open>Update\<close>; \<open>bo_open\<close> is the error of beginning a transaction, if any.
\<close>

record ('db, 'v) bolt_ops =
  bo_open :: "'db \<Rightarrow> go_error option"
  bo_names :: "'db \<Rightarrow> string list"
  bo_items :: "'db \<Rightarrow> string \<Rightarrow> (string \<times> 'v) list option"
  bo_get :: "'db \<Rightarrow> string \<Rightarrow> string \<Rightarrow> 'v option"
  bo_create :: "'db \<Rightarrow> string \<Rightarrow> go_error + 'db"
  bo_delete_bucket :: "'db \<Rightarrow> string \<Rightarrow> 'db delete_bucket_result"
  bo_put :: "'db \<Rightarrow> string \<Rightarrow> string \<Rightarrow> 'v \<Rightarrow> go_error + 'db"
  bo_delete :: "'db \<Rightarrow> string \<Rightarrow> string \<Rightarrow> go_error + 'db"
  bo_commit :: "'db \<Rightarrow> go_error + 'db"

record 'v codec =
  co_bytes :: "'v \<Rightarrow> u8 list"
  co_value :: "u8 list \<Rightarrow> 'v"
  co_marshal_event :: "sandbox_event \<Rightarrow> go_error + 'v"
  co_unmarshal_event :: "'v \<Rightarrow> go_error + sandbox_event"
  co_marshal_spec :: "create_spec \<Rightarrow> go_error + 'v"
  co_unmarshal_spec :: "'v \<Rightarrow> go_error + create_spec"
  co_marshal_exec :: "create_exec_request \<Rightarrow> go_error + 'v"
  co_unmarshal_exec :: "'v \<Rightarrow> go_error + create_exec_request"

text \<open>
  \<^verbatim>\<open>db.Update(fn)\<close>: the function's error, or the commit's, rolls everything back, so that an error
  leaves the database it started from.  \<^verbatim>\<open>db.View(fn)\<close> only reads.
\<close>

definition bolt_update :: "('db, 'v) bolt_ops \<Rightarrow> ('db \<Rightarrow> go_error + 'a \<times> 'db) \<Rightarrow> 'db \<Rightarrow> go_error + 'a \<times> 'db"
  where
  "bolt_update b fn db =
     (case bo_open b db of
        Some err \<Rightarrow> Inl err
      | None \<Rightarrow> res_bind (fn db) (\<lambda>(x, db'). res_bind (bo_commit b db') (\<lambda>db''. Inr (x, db''))))"

definition bolt_view :: "('db, 'v) bolt_ops \<Rightarrow> ('db \<Rightarrow> go_error + 'a) \<Rightarrow> 'db \<Rightarrow> go_error + 'a" where
  "bolt_view b fn db = (case bo_open b db of Some err \<Rightarrow> Inl err | None \<Rightarrow> fn db)"

section \<open>What bbolt promises\<close>

text \<open>The content of a bucket as a map.\<close>

definition bucket_map :: "('db, 'v) bolt_ops \<Rightarrow> 'db \<Rightarrow> string \<Rightarrow> (string \<rightharpoonup> 'v) option" where
  "bucket_map b db n = map_option map_of (bo_items b db n)"

lemma sorted_map_unique:
  assumes m: "map_of xs = map_of ys" and s: "sorted_wrt (<) (map fst xs)" "sorted_wrt (<) (map fst ys)"
  shows "xs = (ys :: ('k :: linorder \<times> 'v) list)"
proof -
  have d: "distinct (map fst xs)" "distinct (map fst ys)" using s strict_sorted_iff by blast+
  have "set (map fst xs) = set (map fst ys)"
    using arg_cong [OF m, of dom] by (simp add: dom_map_of_conv_image_fst)
  then have k: "map fst xs = map fst ys" using s by (simp add: strict_sorted_equal)
  have e: "zs = map (\<lambda>k. (k, the (map_of zs k))) (map fst zs)"
    if "distinct (map fst zs)" for zs :: "('k \<times> 'v) list"
    using that by (auto simp: map_idI [symmetric] intro!: map_idI [symmetric])
  show ?thesis using e [OF d(1)] e [OF d(2)] by (simp only: m k)
qed

locale bolt =
  fixes b :: "('db, 'v) bolt_ops"
  assumes items_sorted: "bo_items b db n = Some kvs \<Longrightarrow> sorted_wrt (<) (map fst kvs)"
    and get_items: "bo_items b db n = Some kvs \<Longrightarrow> bo_get b db n k = map_of kvs k"
    and names_items: "n \<in> set (bo_names b db) \<longleftrightarrow> bo_items b db n \<noteq> None"
    and names_distinct: "distinct (bo_names b db)"
    and create:
      "bo_create b db n = Inr db' \<Longrightarrow>
         bucket_map b db' = (if bucket_map b db n = None then (bucket_map b db)(n \<mapsto> Map.empty)
                             else bucket_map b db)"
    and delete_bucket:
      "bo_delete_bucket b db n = BucketDeleted db' \<Longrightarrow> bucket_map b db' = (bucket_map b db)(n := None)"
    and delete_missing: "bo_delete_bucket b db n = BucketNotFound \<Longrightarrow> bucket_map b db n = None"
    and put:
      "bucket_map b db n = Some m \<Longrightarrow> bo_put b db n k v = Inr db' \<Longrightarrow>
         bucket_map b db' = (bucket_map b db)(n \<mapsto> m(k \<mapsto> v))"
    and delete:
      "bucket_map b db n = Some m \<Longrightarrow> bo_delete b db n k = Inr db' \<Longrightarrow>
         bucket_map b db' = (bucket_map b db)(n \<mapsto> m(k := None))"
    and commit: "bo_commit b db = Inr db' \<Longrightarrow> bucket_map b db' = bucket_map b db"
    and foreign_errors:
      "bo_open b db = Some err \<or> bo_put b db n k v = Inl err \<or> bo_delete b db n k = Inl err
         \<or> bo_commit b db = Inl err \<Longrightarrow> err \<noteq> ErrSandboxIDAlreadyExists \<and> err \<noteq> ErrExecIDAlreadyExists"
begin

text \<open>An operation on one bucket leaves the items of the others.\<close>

lemma items_same: "bucket_map b db' n = bucket_map b db n' \<Longrightarrow> bo_items b db' n = bo_items b db n'"
proof (cases "bo_items b db n'")
  case None
  then show "bucket_map b db' n = bucket_map b db n' \<Longrightarrow> bo_items b db' n = bo_items b db n'"
    by (simp add: bucket_map_def)
next
  case (Some kvs)
  moreover assume "bucket_map b db' n = bucket_map b db n'"
  ultimately obtain kvs' where k: "bo_items b db' n = Some kvs'" and m: "map_of kvs' = map_of kvs"
    by (auto simp: bucket_map_def)
  with sorted_map_unique [OF m items_sorted [OF k] items_sorted [OF Some]] Some show ?thesis by simp
qed

lemma bucket_map_None: "bucket_map b db n = None \<longleftrightarrow> bo_items b db n = None"
  by (simp add: bucket_map_def)

lemma bucket_map_Some: "bucket_map b db n = Some m \<longleftrightarrow> (\<exists>kvs. bo_items b db n = Some kvs \<and> m = map_of kvs)"
  by (auto simp: bucket_map_def)

lemma items_distinct: "bo_items b db n = Some kvs \<Longrightarrow> distinct (map fst kvs)"
  using items_sorted strict_sorted_iff by blast

lemma get_bucket: "bucket_map b db n = Some m \<Longrightarrow> bo_get b db n k = m k"
  using get_items by (auto simp: bucket_map_Some)

text \<open>The items of a bucket are determined by its content, since they are sorted.\<close>

lemma items_eq:
  assumes "bucket_map b db n = Some (map_of kvs)" and "sorted_wrt (<) (map fst kvs)"
  shows "bo_items b db n = Some kvs"
proof -
  from assms(1) obtain kvs' where i: "bo_items b db n = Some kvs'" and m: "map_of kvs' = map_of kvs"
    by (auto simp: bucket_map_Some)
  from sorted_map_unique [OF m items_sorted [OF i] assms(2)] i show ?thesis by simp
qed

lemma update_Inr:
  assumes "bolt_update b fn db = Inr (x, db')"
  obtains db1 where "fn db = Inr (x, db1)" and "bucket_map b db' = bucket_map b db1"
  using assms commit by (auto simp: bolt_update_def res_bind_eq_Inr split: option.splits)

lemma view_Inr: "bolt_view b fn db = Inr x \<Longrightarrow> fn db = Inr x"
  by (simp add: bolt_view_def split: option.splits)

end

section \<open>The encoder\<close>

text \<open>
  Decoding what was encoded gives the message back, and the two views of an 8-byte value are inverse.
\<close>

locale message_codec =
  fixes c :: "'v codec"
  assumes event: "co_marshal_event c e = Inr v \<Longrightarrow> co_unmarshal_event c v = Inr e"
    and spec: "co_marshal_spec c sp = Inr v \<Longrightarrow> co_unmarshal_spec c v = Inr sp"
    and exec: "co_marshal_exec c x = Inr v \<Longrightarrow> co_unmarshal_exec c v = Inr x"
    and bytes: "co_bytes c (co_value c bs) = bs"

section \<open>An instance\<close>

text \<open>
  A database as an association list of buckets, each an association list, the first entry of a key
  counting.  As bbolt does, it refuses the empty bucket name and the empty key.
\<close>

definition listed :: "(string, 'v) gomap \<Rightarrow> (string \<times> 'v) list" where
  "listed m = [(k, the (gm_get m k)). k \<leftarrow> sort (remdups (map fst m))]"

definition sorted_bolt :: "((string, (string, 'v) gomap) gomap, 'v) bolt_ops" where
  "sorted_bolt =
     \<lparr>bo_open = (\<lambda>_. None),
      bo_names = (\<lambda>db. sort (remdups (map fst db))),
      bo_items = (\<lambda>db n. map_option listed (gm_get db n)),
      bo_get = (\<lambda>db n k. case gm_get db n of None \<Rightarrow> None | Some m \<Rightarrow> gm_get m k),
      bo_create = (\<lambda>db n. if n = '''' then Inl (ErrText [Lit ''bucket name required''])
         else case gm_get db n of None \<Rightarrow> Inr (gm_set n [] db) | Some _ \<Rightarrow> Inr db),
      bo_delete_bucket = (\<lambda>db n. case gm_get db n of None \<Rightarrow> BucketNotFound
         | Some _ \<Rightarrow> BucketDeleted (gm_del n db)),
      bo_put = (\<lambda>db n k v. case gm_get db n of
           None \<Rightarrow> Inl (ErrText [Lit ''bucket not found''])
         | Some m \<Rightarrow> if k = '''' then Inl (ErrText [Lit ''key required''])
                     else Inr (gm_set n (gm_set k v m) db)),
      bo_delete = (\<lambda>db n k. case gm_get db n of
           None \<Rightarrow> Inl (ErrText [Lit ''bucket not found''])
         | Some m \<Rightarrow> Inr (gm_set n (gm_del k m) db)),
      bo_commit = Inr\<rparr>"

datatype stored =
  StoredBytes "u8 list" | StoredEvent sandbox_event | StoredSpec create_spec | StoredExec create_exec_request

definition corrupt :: go_error where
  "corrupt = ErrText [Lit ''proto: cannot parse invalid wire-format data'']"

definition tagged_codec :: "stored codec" where
  "tagged_codec =
     \<lparr>co_bytes = (\<lambda>v. case v of StoredBytes bs \<Rightarrow> bs | _ \<Rightarrow> []), co_value = StoredBytes,
      co_marshal_event = (\<lambda>e. Inr (StoredEvent e)),
      co_unmarshal_event = (\<lambda>v. case v of StoredEvent e \<Rightarrow> Inr e | _ \<Rightarrow> Inl corrupt),
      co_marshal_spec = (\<lambda>e. Inr (StoredSpec e)),
      co_unmarshal_spec = (\<lambda>v. case v of StoredSpec e \<Rightarrow> Inr e | _ \<Rightarrow> Inl corrupt),
      co_marshal_exec = (\<lambda>e. Inr (StoredExec e)),
      co_unmarshal_exec = (\<lambda>v. case v of StoredExec e \<Rightarrow> Inr e | _ \<Rightarrow> Inl corrupt)\<rparr>"

lemma keys_listed [simp]: "map fst (listed m) = sort (remdups (map fst m))"
  by (simp add: listed_def comp_def)

lemma map_of_graph: "map_of (map (\<lambda>k. (k, f k)) ks) k = (if k \<in> set ks then Some (f k) else None)"
  by (induction ks) auto

lemma map_of_listed [simp]: "map_of (listed m) = gm_get m"
proof
  fix k
  have "map_of (listed m) k = (if k \<in> gm_keys m then Some (the (gm_get m k)) else None)"
    by (simp add: listed_def gm_keys_def map_of_graph)
  then show "map_of (listed m) k = gm_get m k"
    by (cases "gm_get m k") (auto simp: gm_get_None [symmetric] gm_get_Some_key)
qed

lemma sorted_bolt_map: "bucket_map sorted_bolt db n = map_option gm_get (gm_get db n)"
  by (simp add: bucket_map_def sorted_bolt_def option.map_comp comp_def)

interpretation sorted_bolt: bolt sorted_bolt
proof (unfold_locales, goal_cases)
  case (1 db n kvs)
  then show ?case by (auto simp: sorted_bolt_def strict_sorted_iff)
next
  case (2 db n kvs k)
  then show ?case by (auto simp: sorted_bolt_def)
next
  case (3 n db)
  then show ?case by (simp add: sorted_bolt_def gm_get_None gm_keys_def)
next
  case (4 db)
  then show ?case by (simp add: sorted_bolt_def)
qed (auto simp: fun_eq_iff sorted_bolt_map, auto simp: sorted_bolt_def split: option.splits if_splits)

interpretation tagged_codec: message_codec tagged_codec
  by unfold_locales (auto simp: tagged_codec_def)

end
