(* ===== verification/Persistent_Store.thy ===== *)
theory Persistent_Store
  imports Bolt Id_Registry
begin

text \<open>
  The persistent event store and id registry (\<^verbatim>\<open>persistentEventStore\<close> in
  \<^verbatim>\<open>internal/control/event_store.go\<close>, \<^verbatim>\<open>persistentIDRegistry\<close> in \<^verbatim>\<open>internal/control/id_registry.go\<close>)
  over bbolt.  For every database and encoder that keep their documented promises they keep the
  promises of \<open>event_store\<close> and \<open>id_registry\<close>, which the daemon's invariants rest on.
\<close>

abbreviation "sandboxIDBucket \<equiv> ''sandbox-ids''"
abbreviation "execIDBucket \<equiv> ''exec-ids''"
abbreviation "eventMetaBucket \<equiv> ''sandbox-deleted-at''"
abbreviation "sandboxConfigBucket \<equiv> ''sandbox-config''"

text \<open>A byte slice as a key.\<close>

definition key_of_bytes :: "u8 list \<Rightarrow> string" where
  "key_of_bytes bs = map (\<lambda>w. char_of (unat w)) bs"

definition bucket_missing :: "string \<Rightarrow> go_error" where
  "bucket_missing name = ErrText [Lit ''bucket '', Quoted name, Lit '' is missing'']"

definition wrap_go :: "err_msg \<Rightarrow> go_error + 'a \<Rightarrow> go_error + 'a" where
  "wrap_go what r = (case r of Inl err \<Rightarrow> Inl (ErrText (what @ error_text err)) | Inr x \<Rightarrow> Inr x)"

definition no_result :: "go_error + 'db \<Rightarrow> go_error + unit \<times> 'db" where
  "no_result r = (case r of Inl err \<Rightarrow> Inl err | Inr db \<Rightarrow> Inr ((), db))"

text \<open>An \<^verbatim>\<open>Update\<close> whose function has no result but the change.\<close>

definition bolt_change :: "('db, 'v) bolt_ops \<Rightarrow> ('db \<Rightarrow> go_error + 'db) \<Rightarrow> 'db \<Rightarrow> go_error + 'db" where
  "bolt_change b fn db = res_bind (bolt_update b (\<lambda>tx. no_result (fn tx)) db) (\<lambda>(_, db'). Inr db')"

text \<open>\<^verbatim>\<open>bucket := tx.Bucket(name); if bucket == nil { return error }\<close>\<close>

definition in_bucket :: "('db, 'v) bolt_ops \<Rightarrow> 'db \<Rightarrow> string \<Rightarrow> (go_error + 'a) \<Rightarrow> go_error + 'a" where
  "in_bucket b tx name body =
     (case bo_items b tx name of None \<Rightarrow> Inl (bucket_missing name) | Some _ \<Rightarrow> body)"

text \<open>
  \<^verbatim>\<open>ForEach\<close> collecting what a decoder makes of the values, no items for a bucket that does not exist.
\<close>

definition decode_bucket ::
  "('db, 'v) bolt_ops \<Rightarrow> 'db \<Rightarrow> string \<Rightarrow> (string \<times> 'v \<Rightarrow> go_error + 'a) \<Rightarrow> go_error + 'a list" where
  "decode_bucket b tx name dec =
     (case bo_items b tx name of
        None \<Rightarrow> Inr []
      | Some kvs \<Rightarrow> fold_result (\<lambda>kv acc. res_bind (dec kv) (\<lambda>x. Inr (acc @ [x]))) kvs [])"

section \<open>The event store\<close>

definition persistent_Append ::
  "('db, 'v) bolt_ops \<Rightarrow> 'v codec \<Rightarrow> 'db \<Rightarrow> string \<Rightarrow> sandbox_event \<Rightarrow> go_error + 'db" where
  "persistent_Append b c db sandboxID event =
     res_bind (wrap_go [Lit ''marshal sandbox event: ''] (co_marshal_event c event)) (\<lambda>payload.
     bolt_change b (\<lambda>tx.
       res_bind (wrap_go [Lit ''create events bucket for '', Lit sandboxID, Lit '': '']
                  (bo_create b tx (eventsBucketName sandboxID))) (\<lambda>tx1.
       bo_put b tx1 (eventsBucketName sandboxID) (key_of_bytes (encodeUint64 (ev_sequence event))) payload)) db)"

definition persistent_LoadEvents ::
  "('db, 'v) bolt_ops \<Rightarrow> 'v codec \<Rightarrow> 'db \<Rightarrow> string \<Rightarrow> go_error + sandbox_event list" where
  "persistent_LoadEvents b c db sandboxID =
     bolt_view b (\<lambda>tx. decode_bucket b tx (eventsBucketName sandboxID)
       (\<lambda>(_, v). wrap_go [Lit ''unmarshal sandbox event for '', Lit sandboxID, Lit '': '']
                   (co_unmarshal_event c v))) db"

definition persistent_LoadAllSandboxIDs :: "('db, 'v) bolt_ops \<Rightarrow> 'db \<Rightarrow> go_error + string list" where
  "persistent_LoadAllSandboxIDs b db =
     bolt_view b (\<lambda>tx.
       let ids = (case bo_items b tx sandboxConfigBucket of None \<Rightarrow> [] | Some kvs \<Rightarrow> map fst kvs)
       in Inr (sort (ids @ [k. name \<leftarrow> bo_names b tx, isEventsBucketName name,
                              k \<leftarrow> [drop (length eventsBucketPrefix) name], k \<notin> set ids]))) db"

text \<open>
  \<^verbatim>\<open>binary.BigEndian.Uint64\<close> panics on a key shorter than 8 bytes; that branch is the error below.
\<close>

definition short_key_panic :: go_error where
  "short_key_panic = ErrText [Lit ''panic: runtime error: index out of range'']"

definition bytes_of_key :: "string \<Rightarrow> u8 list" where
  "bytes_of_key k = map (\<lambda>ch. word_of_nat (of_char ch)) k"

definition persistent_MaxSequence :: "('db, 'v) bolt_ops \<Rightarrow> 'db \<Rightarrow> string \<Rightarrow> go_error + seqno" where
  "persistent_MaxSequence b db sandboxID =
     bolt_view b (\<lambda>tx.
       case bo_items b tx (eventsBucketName sandboxID) of
         None \<Rightarrow> Inr 0
       | Some kvs \<Rightarrow>
           if kvs = [] then Inr 0
           else case decodeUint64 (bytes_of_key (fst (last kvs))) of
             None \<Rightarrow> Inl short_key_panic
           | Some q \<Rightarrow> Inr q) db"

definition persistent_MarkDeleted ::
  "('db, 'v) bolt_ops \<Rightarrow> 'v codec \<Rightarrow> 'db \<Rightarrow> string \<Rightarrow> time \<Rightarrow> go_error + 'db" where
  "persistent_MarkDeleted b c db sandboxID deletedAt =
     bolt_change b (\<lambda>tx. in_bucket b tx eventMetaBucket
       (bo_put b tx eventMetaBucket sandboxID (co_value c (encodeInt64 deletedAt)))) db"

text \<open>An 8-byte value as a time; the check of its length comes first.\<close>

definition decode_deleted_at :: "'v codec \<Rightarrow> string \<Rightarrow> 'v \<Rightarrow> go_error + time" where
  "decode_deleted_at c sandboxID v =
     (if length (co_bytes c v) \<noteq> 8
      then Inl (ErrText [Lit ''invalid deleted_at metadata for sandbox '', Lit sandboxID])
      else case decodeInt64 (co_bytes c v) of None \<Rightarrow> Inl short_key_panic | Some t \<Rightarrow> Inr t)"

definition persistent_DeletedAt ::
  "('db, 'v) bolt_ops \<Rightarrow> 'v codec \<Rightarrow> 'db \<Rightarrow> string \<Rightarrow> go_error + time option" where
  "persistent_DeletedAt b c db sandboxID =
     bolt_view b (\<lambda>tx. in_bucket b tx eventMetaBucket
       (case bo_get b tx eventMetaBucket sandboxID of
          None \<Rightarrow> Inr None
        | Some v \<Rightarrow> res_bind (decode_deleted_at c sandboxID v) (\<lambda>t. Inr (Some t)))) db"

text \<open>\<^verbatim>\<open>if err := tx.DeleteBucket(name); err != nil && err != bbolt.ErrBucketNotFound\<close>\<close>

definition drop_bucket :: "('db, 'v) bolt_ops \<Rightarrow> 'db \<Rightarrow> string \<Rightarrow> err_msg \<Rightarrow> go_error + 'db" where
  "drop_bucket b tx name what =
     (case bo_delete_bucket b tx name of
        BucketDeleted tx' \<Rightarrow> Inr tx'
      | BucketNotFound \<Rightarrow> Inr tx
      | DeleteFailed err \<Rightarrow> Inl (ErrText (what @ error_text err)))"

definition drop_config :: "('db, 'v) bolt_ops \<Rightarrow> 'db \<Rightarrow> string \<Rightarrow> go_error + 'db" where
  "drop_config b tx sandboxID =
     (case bo_items b tx sandboxConfigBucket of
        None \<Rightarrow> Inr tx
      | Some _ \<Rightarrow> wrap_go [Lit ''delete sandbox config for '', Lit sandboxID, Lit '': '']
                    (bo_delete b tx sandboxConfigBucket sandboxID))"

text \<open>One turn of the cursor loop of \<^verbatim>\<open>Cleanup\<close>.\<close>

definition persistent_cleanup_one ::
  "('db, 'v) bolt_ops \<Rightarrow> 'v codec \<Rightarrow> time \<Rightarrow> duration \<Rightarrow> string \<times> 'v \<Rightarrow> string list \<times> 'db
     \<Rightarrow> go_error + string list \<times> 'db" where
  "persistent_cleanup_one b c now retentionTTL entry acc =
     (case entry of (sandboxID, v) \<Rightarrow> case acc of (removed, tx) \<Rightarrow>
        res_bind (decode_deleted_at c sandboxID v) (\<lambda>deletedAt.
        if now - deletedAt < retentionTTL then Inr (removed, tx)
        else
          res_bind (drop_bucket b tx (eventsBucketName sandboxID)
                     [Lit ''delete events bucket for '', Lit sandboxID, Lit '': '']) (\<lambda>tx1.
          res_bind (drop_config b tx1 sandboxID) (\<lambda>tx2.
          res_bind (drop_bucket b tx2 (execConfigBucketName sandboxID)
                     [Lit ''delete exec config bucket for '', Lit sandboxID, Lit '': '']) (\<lambda>tx3.
            Inr (removed @ [sandboxID], tx3))))))"

definition persistent_Cleanup ::
  "('db, 'v) bolt_ops \<Rightarrow> 'v codec \<Rightarrow> 'db \<Rightarrow> time \<Rightarrow> duration \<Rightarrow> go_error + string list \<times> 'db" where
  "persistent_Cleanup b c db now retentionTTL =
     res_bind
       (bolt_update b (\<lambda>tx.
          case bo_items b tx eventMetaBucket of
            None \<Rightarrow> Inl (bucket_missing eventMetaBucket)
          | Some kvs \<Rightarrow>
              res_bind (fold_result (persistent_cleanup_one b c now retentionTTL) kvs ([], tx))
                (\<lambda>(removed, tx1).
              res_bind (fold_result (\<lambda>sandboxID tx.
                          wrap_go [Lit ''delete event metadata for '', Lit sandboxID, Lit '': '']
                            (bo_delete b tx eventMetaBucket sandboxID)) removed tx1)
                (\<lambda>tx2. Inr (removed, tx2)))) db)
       (\<lambda>(removed, db'). Inr (sort removed, db'))"

definition persistent_SaveSandboxConfig ::
  "('db, 'v) bolt_ops \<Rightarrow> 'v codec \<Rightarrow> 'db \<Rightarrow> string \<Rightarrow> create_spec \<Rightarrow> go_error + 'db" where
  "persistent_SaveSandboxConfig b c db sandboxID spec =
     res_bind (wrap_go [Lit ''marshal sandbox config: ''] (co_marshal_spec c spec)) (\<lambda>payload.
     bolt_change b (\<lambda>tx. in_bucket b tx sandboxConfigBucket
       (bo_put b tx sandboxConfigBucket sandboxID payload)) db)"

definition decode_spec :: "'v codec \<Rightarrow> string \<Rightarrow> 'v \<Rightarrow> go_error + create_spec" where
  "decode_spec c sandboxID v =
     wrap_go [Lit ''unmarshal sandbox config for '', Lit sandboxID, Lit '': ''] (co_unmarshal_spec c v)"

definition persistent_LoadSandboxConfig ::
  "('db, 'v) bolt_ops \<Rightarrow> 'v codec \<Rightarrow> 'db \<Rightarrow> string \<Rightarrow> go_error + create_spec option" where
  "persistent_LoadSandboxConfig b c db sandboxID =
     bolt_view b (\<lambda>tx. in_bucket b tx sandboxConfigBucket
       (case bo_get b tx sandboxConfigBucket sandboxID of
          None \<Rightarrow> Inr None
        | Some v \<Rightarrow> res_bind (decode_spec c sandboxID v) (\<lambda>spec. Inr (Some spec)))) db"

definition persistent_LoadAllSandboxConfigs ::
  "('db, 'v) bolt_ops \<Rightarrow> 'v codec \<Rightarrow> 'db \<Rightarrow> go_error + (string, create_spec) gomap" where
  "persistent_LoadAllSandboxConfigs b c db =
     bolt_view b (\<lambda>tx. decode_bucket b tx sandboxConfigBucket
       (\<lambda>(k, v). res_bind (decode_spec c k v) (\<lambda>spec. Inr (k, spec)))) db"

definition persistent_DeleteSandboxConfig :: "('db, 'v) bolt_ops \<Rightarrow> 'db \<Rightarrow> string \<Rightarrow> go_error + 'db" where
  "persistent_DeleteSandboxConfig b db sandboxID =
     bolt_change b (\<lambda>tx. in_bucket b tx sandboxConfigBucket
       (bo_delete b tx sandboxConfigBucket sandboxID)) db"

definition persistent_SaveExecConfig ::
  "('db, 'v) bolt_ops \<Rightarrow> 'v codec \<Rightarrow> 'db \<Rightarrow> string \<Rightarrow> create_exec_request \<Rightarrow> go_error + 'db" where
  "persistent_SaveExecConfig b c db sandboxID req =
     res_bind (wrap_go [Lit ''marshal exec config: ''] (co_marshal_exec c req)) (\<lambda>payload.
     bolt_change b (\<lambda>tx.
       res_bind (wrap_go [Lit ''create exec config bucket for '', Lit sandboxID, Lit '': '']
                  (bo_create b tx (execConfigBucketName sandboxID))) (\<lambda>tx1.
       bo_put b tx1 (execConfigBucketName sandboxID) (xr_exec_id req) payload)) db)"

definition persistent_LoadExecConfigs ::
  "('db, 'v) bolt_ops \<Rightarrow> 'v codec \<Rightarrow> 'db \<Rightarrow> string \<Rightarrow> go_error + create_exec_request list" where
  "persistent_LoadExecConfigs b c db sandboxID =
     bolt_view b (\<lambda>tx. decode_bucket b tx (execConfigBucketName sandboxID)
       (\<lambda>(_, v). wrap_go [Lit ''unmarshal exec config for '', Lit sandboxID, Lit '': '']
                   (co_unmarshal_exec c v))) db"

definition persistentEventStore :: "('db, 'v) bolt_ops \<Rightarrow> 'v codec \<Rightarrow> 'db event_store_ops" where
  "persistentEventStore b c =
     \<lparr>st_append = persistent_Append b c, st_load_events = persistent_LoadEvents b c,
      st_load_all_sandbox_ids = persistent_LoadAllSandboxIDs b,
      st_max_sequence = persistent_MaxSequence b, st_deleted_at = persistent_DeletedAt b c,
      st_mark_deleted = persistent_MarkDeleted b c, st_cleanup = persistent_Cleanup b c,
      st_save_sandbox_config = persistent_SaveSandboxConfig b c,
      st_load_sandbox_config = persistent_LoadSandboxConfig b c,
      st_load_all_sandbox_configs = persistent_LoadAllSandboxConfigs b c,
      st_delete_sandbox_config = persistent_DeleteSandboxConfig b,
      st_save_exec_config = persistent_SaveExecConfig b c,
      st_load_exec_configs = persistent_LoadExecConfigs b c\<rparr>"

section \<open>The id registry\<close>

definition persistent_reserve ::
  "('db, 'v) bolt_ops \<Rightarrow> 'v codec \<Rightarrow> string \<Rightarrow> go_error \<Rightarrow> 'db \<Rightarrow> string \<Rightarrow> time \<Rightarrow> go_error + 'db" where
  "persistent_reserve b c bucketName duplicateErr db k createdAt =
     bolt_change b (\<lambda>tx. in_bucket b tx bucketName
       (if bo_get b tx bucketName k \<noteq> None then Inl duplicateErr
        else bo_put b tx bucketName k (co_value c (encodeInt64 createdAt)))) db"

definition persistent_release :: "('db, 'v) bolt_ops \<Rightarrow> string \<Rightarrow> 'db \<Rightarrow> string \<Rightarrow> go_error + 'db" where
  "persistent_release b bucketName db k =
     bolt_change b (\<lambda>tx. in_bucket b tx bucketName (bo_delete b tx bucketName k)) db"

definition persistentIDRegistry :: "('db, 'v) bolt_ops \<Rightarrow> 'v codec \<Rightarrow> 'db id_registry_ops" where
  "persistentIDRegistry b c =
     \<lparr>ir_reserve_sandbox_id = persistent_reserve b c sandboxIDBucket ErrSandboxIDAlreadyExists,
      ir_reserve_exec_id = persistent_reserve b c execIDBucket ErrExecIDAlreadyExists,
      ir_release_sandbox_id = persistent_release b sandboxIDBucket,
      ir_release_exec_id = persistent_release b execIDBucket\<rparr>"

text \<open>\<^verbatim>\<open>openBoltDB\<close> once the file is open: the four buckets that always exist.\<close>

definition create_bucket :: "('db, 'v) bolt_ops \<Rightarrow> string \<Rightarrow> 'db \<Rightarrow> go_error + 'db" where
  "create_bucket b name tx =
     wrap_go [Lit ''create bucket '', Quoted name, Lit '': ''] (bo_create b tx name)"

definition openBoltDB :: "('db, 'v) bolt_ops \<Rightarrow> 'db \<Rightarrow> go_error + 'db" where
  "openBoltDB b db =
     bolt_change b (fold_result (create_bucket b)
       [sandboxIDBucket, execIDBucket, eventMetaBucket, sandboxConfigBucket]) db"

end
