(* ===== verification/Persistent_Laws.thy ===== *)
theory Persistent_Laws
  imports Persistent_Store
begin

text \<open>
  The persistent event store and id registry keep the promises of \<open>event_store\<close> and \<open>id_registry\<close>, for
  every bbolt and every encoder that keep theirs.
\<close>

section \<open>Keys in order\<close>

definition sequence_key :: "seqno \<Rightarrow> string" where
  "sequence_key q = key_of_bytes (encodeUint64 q)"

lemma u8_mod [simp]: "unat (w :: u8) mod 256 = unat w"
  using unsigned_less [of w, where 'a = nat] by simp

lemma key_of_bytes_less: "key_of_bytes xs < key_of_bytes ys \<longleftrightarrow> xs < ys"
proof -
  have l: "char_of (unat x) < (char_of (unat y) :: char) \<longleftrightarrow> x < y" for x y :: u8
    by (simp add: less_char_def word_less_nat_alt)
  have e: "(char_of (unat x) :: char) = char_of (unat y) \<longleftrightarrow> x = y" for x y :: u8
  proof
    assume "(char_of (unat x) :: char) = char_of (unat y)"
    then have "(of_char (char_of (unat x) :: char) :: nat) = of_char (char_of (unat y) :: char)" by simp
    then show "x = y" by (simp add: word_unat_eq_iff)
  qed simp
  show ?thesis unfolding key_of_bytes_def
  proof (induction xs arbitrary: ys)
    case Nil
    then show ?case by (cases ys) simp_all
  next
    case (Cons x xs)
    then show ?case by (cases ys) (simp_all only: list.map Cons_less_Cons l e not_less_Nil)
  qed
qed

lemma sequence_key_less: "sequence_key p < sequence_key q \<longleftrightarrow> p < q"
  by (simp add: sequence_key_def key_of_bytes_less encodeUint64_less)

lemma bytes_of_key_of_bytes [simp]: "bytes_of_key (key_of_bytes bs) = bs"
  by (simp add: bytes_of_key_def key_of_bytes_def comp_def)

lemma decode_sequence_key [simp]: "decodeUint64 (bytes_of_key (sequence_key q)) = Some q"
  by (simp add: sequence_key_def decode_encode_uint64)

section \<open>What a database holds\<close>

definition pe_log :: "('db, 'v) bolt_ops \<Rightarrow> 'v codec \<Rightarrow> 'db \<Rightarrow> string \<Rightarrow> sandbox_event list" where
  "pe_log b c db k =
     (case bo_items b db (eventsBucketName k) of
        None \<Rightarrow> [] | Some kvs \<Rightarrow> map (\<lambda>(_, v). projr (co_unmarshal_event c v)) kvs)"

definition pe_del :: "('db, 'v) bolt_ops \<Rightarrow> 'v codec \<Rightarrow> 'db \<Rightarrow> string \<Rightarrow> time option" where
  "pe_del b c db k =
     (case bucket_map b db eventMetaBucket of
        None \<Rightarrow> None | Some m \<Rightarrow> map_option (\<lambda>v. the (decodeInt64 (co_bytes c v))) (m k))"

definition pe_cfg :: "('db, 'v) bolt_ops \<Rightarrow> 'v codec \<Rightarrow> 'db \<Rightarrow> string \<Rightarrow> create_spec option" where
  "pe_cfg b c db k =
     (case bucket_map b db sandboxConfigBucket of
        None \<Rightarrow> None | Some m \<Rightarrow> map_option (\<lambda>v. projr (co_unmarshal_spec c v)) (m k))"

definition pe_exe :: "('db, 'v) bolt_ops \<Rightarrow> 'v codec \<Rightarrow> 'db \<Rightarrow> string \<Rightarrow> string \<Rightarrow> create_exec_request option"
  where
  "pe_exe b c db sid k =
     (case bucket_map b db (execConfigBucketName sid) of
        None \<Rightarrow> None | Some m \<Rightarrow> map_option (\<lambda>v. projr (co_unmarshal_exec c v)) (m k))"

definition reserved :: "('db, 'v) bolt_ops \<Rightarrow> string \<Rightarrow> 'db \<Rightarrow> string set" where
  "reserved b bucketName db = (case bucket_map b db bucketName of None \<Rightarrow> {} | Some m \<Rightarrow> dom m)"

text \<open>Every value is of the kind its bucket is for; an event is under the key of its sequence number.\<close>

definition good_event :: "'v codec \<Rightarrow> string \<Rightarrow> 'v \<Rightarrow> bool" where
  "good_event c key v \<longleftrightarrow> (\<exists>e. co_unmarshal_event c v = Inr e \<and> key = sequence_key (ev_sequence e))"

definition pe_inv :: "('db, 'v) bolt_ops \<Rightarrow> 'v codec \<Rightarrow> 'db \<Rightarrow> bool" where
  "pe_inv b c db \<longleftrightarrow>
     (\<forall>k m key v. bucket_map b db (eventsBucketName k) = Some m \<longrightarrow> m key = Some v \<longrightarrow> good_event c key v)
   \<and> (\<forall>m k v. bucket_map b db eventMetaBucket = Some m \<longrightarrow> m k = Some v \<longrightarrow> length (co_bytes c v) = 8)
   \<and> (\<forall>m k v. bucket_map b db sandboxConfigBucket = Some m \<longrightarrow> m k = Some v \<longrightarrow>
        \<not> isl (co_unmarshal_spec c v))
   \<and> (\<forall>sid m k v. bucket_map b db (execConfigBucketName sid) = Some m \<longrightarrow> m k = Some v \<longrightarrow>
        \<not> isl (co_unmarshal_exec c v))"

lemma buckets_apart [simp]:
  "eventsBucketName k \<noteq> eventMetaBucket" "eventsBucketName k \<noteq> sandboxConfigBucket"
  "execConfigBucketName k \<noteq> eventMetaBucket" "execConfigBucketName k \<noteq> sandboxConfigBucket"
  "eventsBucketName k \<noteq> sandboxIDBucket" "eventsBucketName k \<noteq> execIDBucket"
  "execConfigBucketName k \<noteq> sandboxIDBucket" "execConfigBucketName k \<noteq> execIDBucket"
  "eventMetaBucket \<noteq> eventsBucketName k" "sandboxConfigBucket \<noteq> eventsBucketName k"
  "eventMetaBucket \<noteq> execConfigBucketName k" "sandboxConfigBucket \<noteq> execConfigBucketName k"
  by (simp_all add: eventsBucketName_def execConfigBucketName_def)

lemma fold_collect:
  "fold_result (\<lambda>kv acc. res_bind (dec kv) (\<lambda>x. Inr (acc @ [x]))) kvs acc = Inr ys \<longleftrightarrow>
     (\<exists>xs. ys = acc @ xs \<and> list_all2 (\<lambda>kv x. dec kv = Inr x) kvs xs)"
proof (induction kvs arbitrary: acc)
  case (Cons kv kvs)
  show ?case
    by (cases "dec kv") (auto simp: Cons.IH list_all2_Cons1)
qed auto

lemma decode_bucket_Inr:
  "decode_bucket b tx n dec = Inr ys \<longleftrightarrow>
     (case bo_items b tx n of None \<Rightarrow> ys = [] | Some kvs \<Rightarrow> list_all2 (\<lambda>kv y. dec kv = Inr y) kvs ys)"
  by (auto simp: decode_bucket_def fold_collect split: option.splits)

lemma wrap_go_Inr [simp]: "wrap_go what r = Inr x \<longleftrightarrow> r = Inr x"
  by (auto simp: wrap_go_def split: sum.splits)

lemma map_of_snoc: "k \<notin> fst ` set kvs \<Longrightarrow> map_of (kvs @ [(k, v)]) = (map_of kvs)(k \<mapsto> v)"
  by (induction kvs) auto

lemma in_bucket_Inr: "in_bucket b tx n body = Inr x \<longleftrightarrow> bo_items b tx n \<noteq> None \<and> body = Inr x"
  by (auto simp: in_bucket_def split: option.splits)

section \<open>The store keeps its promises\<close>

locale bolt_store = bolt b + message_codec c
  for b :: "('db, 'v) bolt_ops" and c :: "'v codec"
begin

lemma change_Inr:
  assumes "bolt_change b fn db = Inr db'"
  obtains db1 where "fn db = Inr db1" and "bucket_map b db' = bucket_map b db1"
proof -
  from assms obtain x where "bolt_update b (\<lambda>tx. no_result (fn tx)) db = Inr (x, db')"
    by (auto simp: bolt_change_def res_bind_eq_Inr)
  then show ?thesis by (rule update_Inr) (use that in \<open>auto simp: no_result_def split: sum.splits\<close>)
qed

lemma create_put:
  assumes "bo_create b db n = Inr tx1" and "bo_put b tx1 n k v = Inr tx2"
  shows "bucket_map b tx2
    = (bucket_map b db)(n \<mapsto> (case bucket_map b db n of None \<Rightarrow> Map.empty | Some m \<Rightarrow> m)(k \<mapsto> v))"
proof (cases "bucket_map b db n")
  case None
  with create [OF assms(1)] have "bucket_map b tx1 = (bucket_map b db)(n \<mapsto> Map.empty)" by simp
  with put [OF _ assms(2), of Map.empty] None show ?thesis by simp
next
  case (Some m)
  with create [OF assms(1)] have "bucket_map b tx1 = bucket_map b db" by simp
  with put [OF _ assms(2), of m] Some show ?thesis by simp
qed

text \<open>A change of one bucket in place.\<close>

lemma in_bucket_put:
  assumes "bolt_change b (\<lambda>tx. in_bucket b tx n (bo_put b tx n k v)) db = Inr db'"
  obtains m where "bucket_map b db n = Some m" and "bucket_map b db' = (bucket_map b db)(n \<mapsto> m(k \<mapsto> v))"
proof -
  from assms obtain db1 where "bo_items b db n \<noteq> None" and p: "bo_put b db n k v = Inr db1"
      and db1: "bucket_map b db' = bucket_map b db1"
    by (rule change_Inr) (simp add: in_bucket_Inr)
  then obtain m where m: "bucket_map b db n = Some m" by (auto simp: bucket_map_def)
  from that [OF m] put [OF m p] db1 show ?thesis by simp
qed

lemma in_bucket_delete:
  assumes "bolt_change b (\<lambda>tx. in_bucket b tx n (bo_delete b tx n k)) db = Inr db'"
  obtains m where "bucket_map b db n = Some m" and "bucket_map b db' = (bucket_map b db)(n \<mapsto> m(k := None))"
proof -
  from assms obtain db1 where "bo_items b db n \<noteq> None" and p: "bo_delete b db n k = Inr db1"
      and db1: "bucket_map b db' = bucket_map b db1"
    by (rule change_Inr) (simp add: in_bucket_Inr)
  then obtain m where m: "bucket_map b db n = Some m" by (auto simp: bucket_map_def)
  from that [OF m] delete [OF m p] db1 show ?thesis by simp
qed

lemma pe_log_same:
  "bucket_map b db' (eventsBucketName k) = bucket_map b db (eventsBucketName k) \<Longrightarrow>
     pe_log b c db' k = pe_log b c db k"
  using items_same [of db' "eventsBucketName k" db "eventsBucketName k"] by (simp add: pe_log_def)

text \<open>A log is its bucket's values in the order of the keys.\<close>

lemma log_items:
  assumes "pe_inv b c db" and "bo_items b db (eventsBucketName k) = Some kvs"
  shows "list_all2 (\<lambda>(key, v) e. co_unmarshal_event c v = Inr e \<and> key = sequence_key (ev_sequence e))
    kvs (pe_log b c db k)"
proof -
  note m = items_distinct [OF assms(2)]
  have "good_event c key v" if "(key, v) \<in> set kvs" for key v
  proof -
    have "bucket_map b db (eventsBucketName k) = Some (map_of kvs)" using assms(2) by (simp add: bucket_map_def)
    moreover have "map_of kvs key = Some v" using that m by simp
    ultimately show ?thesis using assms(1) unfolding pe_inv_def by blast
  qed
  then have "co_unmarshal_event c v = Inr (projr (co_unmarshal_event c v))
      \<and> key = sequence_key (ev_sequence (projr (co_unmarshal_event c v)))" if "(key, v) \<in> set kvs" for key v
    using that by (fastforce simp: good_event_def)
  then show ?thesis using assms(2) by (auto simp: pe_log_def list_all2_map2 list_all2_same)
qed

subsection \<open>Appending\<close>

lemma append_bucket:
  assumes "persistent_Append b c db k e = Inr db'"
  obtains v where "co_unmarshal_event c v = Inr e"
    and "bucket_map b db' = (bucket_map b db)(eventsBucketName k \<mapsto>
      (case bucket_map b db (eventsBucketName k) of None \<Rightarrow> Map.empty | Some m \<Rightarrow> m)
        (sequence_key (ev_sequence e) \<mapsto> v))"
proof -
  from assms obtain v where v: "co_marshal_event c e = Inr v"
    and ch: "bolt_change b (\<lambda>tx.
       res_bind (wrap_go [Lit ''create events bucket for '', Lit k, Lit '': ''] (bo_create b tx (eventsBucketName k)))
         (\<lambda>tx1. bo_put b tx1 (eventsBucketName k) (key_of_bytes (encodeUint64 (ev_sequence e))) v)) db = Inr db'"
    by (auto simp: persistent_Append_def res_bind_eq_Inr)
  from ch obtain tx1 db1 where "bo_create b db (eventsBucketName k) = Inr tx1"
      and "bo_put b tx1 (eventsBucketName k) (sequence_key (ev_sequence e)) v = Inr db1"
      and "bucket_map b db' = bucket_map b db1"
    by (rule change_Inr) (auto simp: res_bind_eq_Inr sequence_key_def)
  with create_put that event [OF v] show ?thesis by metis
qed

lemma append_log:
  assumes inv: "pe_inv b c db" and next': "next_in_log (pe_log b c db k) e"
    and v: "co_unmarshal_event c v = Inr e"
    and db': "bucket_map b db' = (bucket_map b db)(eventsBucketName k \<mapsto>
      (case bucket_map b db (eventsBucketName k) of None \<Rightarrow> Map.empty | Some m \<Rightarrow> m)
        (sequence_key (ev_sequence e) \<mapsto> v))"
  shows "pe_log b c db' k = pe_log b c db k @ [e]"
proof (cases "bo_items b db (eventsBucketName k)")
  case None
  then have "bucket_map b db' (eventsBucketName k) = Some (map_of [(sequence_key (ev_sequence e), v)])"
    by (simp add: db' bucket_map_def)
  then have "bo_items b db' (eventsBucketName k) = Some [(sequence_key (ev_sequence e), v)]"
    by (rule items_eq) simp
  with None v show ?thesis by (simp add: pe_log_def)
next
  case (Some kvs)
  let ?q = "sequence_key (ev_sequence e)"
  note l = log_items [OF inv Some]
  have "key < ?q" if "(key, v') \<in> set kvs" for key v'
  proof -
    from that l obtain e' where "e' \<in> set (pe_log b c db k)" "key = sequence_key (ev_sequence e')"
      by (fastforce simp: list_all2_conv_all_nth in_set_conv_nth)
    with next' show ?thesis by (simp add: next_in_log_def sequence_key_less)
  qed
  then have s: "sorted_wrt (<) (map fst (kvs @ [(?q, v)]))"
    using items_sorted [OF Some] by (auto simp: sorted_wrt_append)
  have "?q \<notin> fst ` set kvs"
    using s by (auto simp: sorted_wrt_append)
  then have "map_of (kvs @ [(?q, v)]) = (map_of kvs)(?q \<mapsto> v)"
    by (rule map_of_snoc)
  then have "bucket_map b db' (eventsBucketName k) = Some (map_of (kvs @ [(?q, v)]))"
    using Some by (simp add: db' bucket_map_def)
  from items_eq [OF this s] Some v show ?thesis by (simp add: pe_log_def)
qed

lemma other_views:
  assumes "bucket_map b db' = (bucket_map b db)(n := x)"
  shows "n \<noteq> eventsBucketName k \<Longrightarrow> pe_log b c db' k = pe_log b c db k"
    and "n \<noteq> eventMetaBucket \<Longrightarrow> pe_del b c db' = pe_del b c db"
    and "n \<noteq> sandboxConfigBucket \<Longrightarrow> pe_cfg b c db' = pe_cfg b c db"
    and "n \<noteq> execConfigBucketName k \<Longrightarrow> pe_exe b c db' k = pe_exe b c db k"
  by (rule pe_log_same, simp add: assms) (simp_all add: assms pe_del_def pe_cfg_def pe_exe_def fun_eq_iff)

lemma law_append:
  assumes "pe_inv b c db" and "next_in_log (pe_log b c db k) e" and "persistent_Append b c db k e = Inr db'"
  shows "pe_inv b c db' \<and> pe_log b c db' = (pe_log b c db)(k := pe_log b c db k @ [e])
    \<and> pe_del b c db' = pe_del b c db \<and> pe_cfg b c db' = pe_cfg b c db \<and> pe_exe b c db' = pe_exe b c db"
proof -
  from assms(3) obtain v where v: "co_unmarshal_event c v = Inr e"
    and db': "bucket_map b db' = (bucket_map b db)(eventsBucketName k \<mapsto>
      (case bucket_map b db (eventsBucketName k) of None \<Rightarrow> Map.empty | Some m \<Rightarrow> m)
        (sequence_key (ev_sequence e) \<mapsto> v))"
    by (rule append_bucket)
  note o = other_views [OF db']
  have "pe_log b c db' = (pe_log b c db)(k := pe_log b c db k @ [e])"
    using append_log [OF assms(1,2) v db'] o(1) by (auto simp: fun_eq_iff)
  moreover have "pe_inv b c db'"
    using assms(1) v unfolding pe_inv_def db'
    by (auto simp: good_event_def split: if_splits option.splits)
  moreover have "pe_exe b c db' = pe_exe b c db" using o(4) by (simp add: fun_eq_iff)
  ultimately show ?thesis using o(2,3) by simp
qed

subsection \<open>Reading\<close>

lemma law_load_events:
  assumes "pe_inv b c db" and "persistent_LoadEvents b c db k = Inr es"
  shows "es = pe_log b c db k"
proof -
  from assms(2) have d: "decode_bucket b db (eventsBucketName k)
      (\<lambda>(_, v). wrap_go [Lit ''unmarshal sandbox event for '', Lit k, Lit '': ''] (co_unmarshal_event c v)) = Inr es"
    unfolding persistent_LoadEvents_def by (rule view_Inr)
  show ?thesis
  proof (cases "bo_items b db (eventsBucketName k)")
    case None
    with d show ?thesis by (simp add: decode_bucket_Inr pe_log_def)
  next
    case (Some kvs)
    with d have "list_all2 (\<lambda>kv e. co_unmarshal_event c (snd kv) = Inr e) kvs es"
      by (simp add: decode_bucket_Inr case_prod_beta)
    then have "es = map (\<lambda>(_, v). projr (co_unmarshal_event c v)) kvs"
      by (induction rule: list_all2_induct) auto
    with Some show ?thesis by (simp add: pe_log_def)
  qed
qed

lemma law_max_sequence:
  assumes inv: "pe_inv b c db" and "persistent_MaxSequence b db k = Inr q"
  shows "q = (if pe_log b c db k = [] then 0 else ev_sequence (last (pe_log b c db k)))"
proof (cases "bo_items b db (eventsBucketName k)")
  case None
  with view_Inr [OF assms(2) [unfolded persistent_MaxSequence_def]] show ?thesis by (simp add: pe_log_def)
next
  case (Some kvs)
  note l = log_items [OF inv Some] and v = view_Inr [OF assms(2) [unfolded persistent_MaxSequence_def]]
  show ?thesis
  proof (cases "kvs = []")
    case True
    with l v Some show ?thesis by simp
  next
    case False
    with l have ne: "pe_log b c db k \<noteq> []" by auto
    have "length kvs = length (pe_log b c db k)" using l by (rule list_all2_lengthD)
    then have "fst (last kvs) = sequence_key (ev_sequence (last (pe_log b c db k)))"
      using l False ne by (auto simp: last_conv_nth list_all2_conv_all_nth case_prod_beta)
    with v Some False ne show ?thesis by simp
  qed
qed

subsection \<open>Deletion times and configurations\<close>

lemma law_mark_deleted:
  assumes inv: "pe_inv b c db" and t: "int64_time t" and "persistent_MarkDeleted b c db k t = Inr db'"
  shows "pe_inv b c db' \<and> pe_del b c db' = (pe_del b c db)(k \<mapsto> t) \<and> pe_log b c db' = pe_log b c db
    \<and> pe_cfg b c db' = pe_cfg b c db \<and> pe_exe b c db' = pe_exe b c db"
proof -
  from assms(3) obtain m where m: "bucket_map b db eventMetaBucket = Some m"
    and db': "bucket_map b db' = (bucket_map b db)(eventMetaBucket \<mapsto> m(k \<mapsto> co_value c (encodeInt64 t)))"
    unfolding persistent_MarkDeleted_def by (rule in_bucket_put)
  note o = other_views [OF db']
  have len: "length (encodeInt64 t) = 8" by (simp add: encodeInt64_def)
  have "pe_del b c db' = (pe_del b c db)(k \<mapsto> t)"
    using m decode_encode_int64 [OF t] by (simp add: pe_del_def db' bytes fun_eq_iff)
  moreover have "pe_inv b c db'"
    using inv m len unfolding pe_inv_def db' by (auto simp: bytes split: if_splits)
  moreover have "pe_log b c db' = pe_log b c db" "pe_exe b c db' = pe_exe b c db"
    using o(1,4) by (simp_all add: fun_eq_iff)
  ultimately show ?thesis using o(3) by simp
qed

lemma law_deleted_at:
  assumes "pe_inv b c db" and "persistent_DeletedAt b c db k = Inr d"
  shows "d = pe_del b c db k"
proof -
  from view_Inr [OF assms(2) [unfolded persistent_DeletedAt_def]]
  obtain kvs where i: "bo_items b db eventMetaBucket = Some kvs"
    and g: "(case bo_get b db eventMetaBucket k of None \<Rightarrow> Inr None
        | Some v \<Rightarrow> res_bind (decode_deleted_at c k v) (\<lambda>t. Inr (Some t))) = Inr d"
    by (auto simp: in_bucket_Inr)
  from i have m: "bucket_map b db eventMetaBucket = Some (map_of kvs)" by (simp add: bucket_map_def)
  with g get_bucket [OF m] show ?thesis
    by (auto simp: pe_del_def decode_deleted_at_def res_bind_eq_Inr split: option.splits if_splits)
qed

lemma law_save_config:
  assumes inv: "pe_inv b c db" and "persistent_SaveSandboxConfig b c db k sp = Inr db'"
  shows "pe_inv b c db' \<and> pe_cfg b c db' = (pe_cfg b c db)(k \<mapsto> sp) \<and> pe_log b c db' = pe_log b c db
    \<and> pe_del b c db' = pe_del b c db \<and> pe_exe b c db' = pe_exe b c db"
proof -
  from assms(2) obtain v where v: "co_marshal_spec c sp = Inr v"
    and ch: "bolt_change b (\<lambda>tx. in_bucket b tx sandboxConfigBucket (bo_put b tx sandboxConfigBucket k v)) db = Inr db'"
    by (auto simp: persistent_SaveSandboxConfig_def res_bind_eq_Inr)
  from ch obtain m where m: "bucket_map b db sandboxConfigBucket = Some m"
    and db': "bucket_map b db' = (bucket_map b db)(sandboxConfigBucket \<mapsto> m(k \<mapsto> v))"
    by (rule in_bucket_put)
  note o = other_views [OF db']
  have "pe_cfg b c db' = (pe_cfg b c db)(k \<mapsto> sp)"
    using m spec [OF v] by (simp add: pe_cfg_def db' fun_eq_iff)
  moreover have "pe_inv b c db'"
    using inv m spec [OF v] unfolding pe_inv_def db' by (auto split: if_splits)
  moreover have "pe_log b c db' = pe_log b c db" "pe_exe b c db' = pe_exe b c db"
    using o(1,4) by (simp_all add: fun_eq_iff)
  ultimately show ?thesis using o(2) by simp
qed

lemma law_load_config:
  assumes "pe_inv b c db" and "persistent_LoadSandboxConfig b c db k = Inr r"
  shows "r = pe_cfg b c db k"
proof -
  from view_Inr [OF assms(2) [unfolded persistent_LoadSandboxConfig_def]]
  obtain kvs where i: "bo_items b db sandboxConfigBucket = Some kvs"
    and g: "(case bo_get b db sandboxConfigBucket k of None \<Rightarrow> Inr None
        | Some v \<Rightarrow> res_bind (decode_spec c k v) (\<lambda>sp. Inr (Some sp))) = Inr r"
    by (auto simp: in_bucket_Inr)
  from i have m: "bucket_map b db sandboxConfigBucket = Some (map_of kvs)" by (simp add: bucket_map_def)
  with g get_bucket [OF m] show ?thesis
    by (auto simp: pe_cfg_def decode_spec_def res_bind_eq_Inr split: option.splits)
qed

lemma law_load_all_configs:
  assumes "pe_inv b c db" and "persistent_LoadAllSandboxConfigs b c db = Inr m"
  shows "gm_ok m \<and> gm_get m = pe_cfg b c db"
proof -
  from assms(2) have d: "decode_bucket b db sandboxConfigBucket
      (\<lambda>(k, v). res_bind (decode_spec c k v) (\<lambda>sp. Inr (k, sp))) = Inr m"
    unfolding persistent_LoadAllSandboxConfigs_def by (rule view_Inr)
  show ?thesis
  proof (cases "bo_items b db sandboxConfigBucket")
    case None
    with d show ?thesis by (auto simp: decode_bucket_Inr pe_cfg_def bucket_map_def fun_eq_iff)
  next
    case (Some kvs)
    with d have "list_all2 (\<lambda>kv y. \<exists>sp. co_unmarshal_spec c (snd kv) = Inr sp \<and> (fst kv, sp) = y) kvs m"
      by (simp add: decode_bucket_Inr case_prod_beta res_bind_eq_Inr decode_spec_def)
    then have "m = map (\<lambda>(k, v). (k, projr (co_unmarshal_spec c v))) kvs"
      by (induction rule: list_all2_induct) auto
    then have "map_of m = map_option (\<lambda>v. projr (co_unmarshal_spec c v)) \<circ> map_of kvs"
      and "map fst m = map fst kvs"
      by (simp only: map_of_map) (simp add: comp_def case_prod_beta \<open>m = _\<close>)
    with Some items_distinct [OF Some] show ?thesis
      by (simp add: gm_ok_def gm_get_def pe_cfg_def bucket_map_def fun_eq_iff)
  qed
qed

lemma law_delete_config:
  assumes inv: "pe_inv b c db" and "persistent_DeleteSandboxConfig b db k = Inr db'"
  shows "pe_inv b c db' \<and> pe_cfg b c db' = (pe_cfg b c db)(k := None) \<and> pe_log b c db' = pe_log b c db
    \<and> pe_del b c db' = pe_del b c db \<and> pe_exe b c db' = pe_exe b c db"
proof -
  from assms(2) obtain m where m: "bucket_map b db sandboxConfigBucket = Some m"
    and db': "bucket_map b db' = (bucket_map b db)(sandboxConfigBucket \<mapsto> m(k := None))"
    unfolding persistent_DeleteSandboxConfig_def by (rule in_bucket_delete)
  note o = other_views [OF db']
  have "pe_cfg b c db' = (pe_cfg b c db)(k := None)"
    using m by (simp add: pe_cfg_def db' fun_eq_iff)
  moreover have "pe_inv b c db'" using inv m unfolding pe_inv_def db' by (auto split: if_splits)
  moreover have "pe_log b c db' = pe_log b c db" "pe_exe b c db' = pe_exe b c db"
    using o(1,4) by (simp_all add: fun_eq_iff)
  ultimately show ?thesis using o(2) by simp
qed

subsection \<open>Exec configurations\<close>

lemma law_save_exec:
  assumes inv: "pe_inv b c db" and "persistent_SaveExecConfig b c db k req = Inr db'"
  shows "pe_inv b c db' \<and> pe_exe b c db' = (pe_exe b c db)(k := (pe_exe b c db k)(xr_exec_id req \<mapsto> req))
    \<and> pe_log b c db' = pe_log b c db \<and> pe_del b c db' = pe_del b c db \<and> pe_cfg b c db' = pe_cfg b c db"
proof -
  from assms(2) obtain v where v: "co_marshal_exec c req = Inr v"
    and ch: "bolt_change b (\<lambda>tx.
       res_bind (wrap_go [Lit ''create exec config bucket for '', Lit k, Lit '': ''] (bo_create b tx (execConfigBucketName k)))
         (\<lambda>tx1. bo_put b tx1 (execConfigBucketName k) (xr_exec_id req) v)) db = Inr db'"
    by (auto simp: persistent_SaveExecConfig_def res_bind_eq_Inr)
  from ch obtain tx1 db1 where "bo_create b db (execConfigBucketName k) = Inr tx1"
      and "bo_put b tx1 (execConfigBucketName k) (xr_exec_id req) v = Inr db1"
      and "bucket_map b db' = bucket_map b db1"
    by (rule change_Inr) (auto simp: res_bind_eq_Inr)
  with create_put have db': "bucket_map b db' = (bucket_map b db)(execConfigBucketName k \<mapsto>
      (case bucket_map b db (execConfigBucketName k) of None \<Rightarrow> Map.empty | Some m \<Rightarrow> m)(xr_exec_id req \<mapsto> v))"
    by metis
  note o = other_views [OF db']
  have "pe_exe b c db' k = (pe_exe b c db k)(xr_exec_id req \<mapsto> req)"
    using exec [OF v] by (auto simp: pe_exe_def db' fun_eq_iff split: option.splits)
  then have "pe_exe b c db' = (pe_exe b c db)(k := (pe_exe b c db k)(xr_exec_id req \<mapsto> req))"
    using o(4) by (simp add: fun_eq_iff)
  moreover have "pe_inv b c db'"
    using inv exec [OF v] unfolding pe_inv_def db' by (auto split: if_splits option.splits)
  moreover have "pe_log b c db' = pe_log b c db" using o(1) by (simp add: fun_eq_iff)
  ultimately show ?thesis using o(2,3) by simp
qed

lemma law_load_execs:
  assumes "pe_inv b c db" and "persistent_LoadExecConfigs b c db k = Inr reqs"
  shows "set reqs = ran (pe_exe b c db k)"
proof -
  from assms(2) have d: "decode_bucket b db (execConfigBucketName k)
      (\<lambda>(_, v). wrap_go [Lit ''unmarshal exec config for '', Lit k, Lit '': ''] (co_unmarshal_exec c v)) = Inr reqs"
    unfolding persistent_LoadExecConfigs_def by (rule view_Inr)
  show ?thesis
  proof (cases "bo_items b db (execConfigBucketName k)")
    case None
    with d show ?thesis by (auto simp: decode_bucket_Inr pe_exe_def bucket_map_def ran_def)
  next
    case (Some kvs)
    with d have "list_all2 (\<lambda>kv y. co_unmarshal_exec c (snd kv) = Inr y) kvs reqs"
      by (simp add: decode_bucket_Inr case_prod_beta)
    then have "reqs = map (\<lambda>kv. projr (co_unmarshal_exec c (snd kv))) kvs"
      by (induction rule: list_all2_induct) auto
    moreover have "pe_exe b c db k = map_option (\<lambda>v. projr (co_unmarshal_exec c v)) \<circ> map_of kvs"
      using Some by (simp add: pe_exe_def bucket_map_def fun_eq_iff)
    moreover have "ran (map_of kvs) = snd ` set kvs" by (rule ran_distinct [OF items_distinct [OF Some]])
    ultimately show ?thesis by (simp add: comp_def ran_map_option image_image)
  qed
qed

subsection \<open>Cleanup\<close>

lemma drop_bucket_Inr:
  assumes "drop_bucket b tx n what = Inr tx'"
  shows "bucket_map b tx' = (bucket_map b tx)(n := None)"
  using assms delete_bucket [of tx n tx'] delete_missing [of tx n]
  by (auto simp: drop_bucket_def fun_eq_iff split: delete_bucket_result.splits)

lemma drop_config_Inr:
  assumes "drop_config b tx k = Inr tx'"
  shows "bucket_map b tx' =
    (bucket_map b tx)(sandboxConfigBucket := map_option (\<lambda>m. m(k := None)) (bucket_map b tx sandboxConfigBucket))"
proof (cases "bo_items b tx sandboxConfigBucket")
  case None
  with assms show ?thesis by (auto simp: drop_config_def bucket_map_def fun_eq_iff)
next
  case (Some kvs)
  then have "bucket_map b tx sandboxConfigBucket = Some (map_of kvs)" by (simp add: bucket_map_def)
  from delete [OF this] Some assms show ?thesis by (simp add: drop_config_def bucket_map_def)
qed

text \<open>
  What a turn of the loop does to the content: for an expired sandbox its two buckets go and its
  configuration entry; nothing else changes.
\<close>

definition forget :: "string \<Rightarrow> (string \<Rightarrow> (string \<rightharpoonup> 'v) option) \<Rightarrow> string \<Rightarrow> (string \<rightharpoonup> 'v) option" where
  "forget k B =
     (let B1 = B(eventsBucketName k := None);
          B2 = B1(sandboxConfigBucket := map_option (\<lambda>m. m(k := None)) (B1 sandboxConfigBucket))
      in B2(execConfigBucketName k := None))"

definition due :: "time \<Rightarrow> duration \<Rightarrow> (string \<times> 'v) list \<Rightarrow> string list" where
  "due now ttl kvs = map fst (filter (\<lambda>(k, v). ttl \<le> now - the (decodeInt64 (co_bytes c v))) kvs)"

lemma cleanup_one_Inr:
  assumes "persistent_cleanup_one b c now ttl (k, v) (removed, tx) = Inr (removed', tx')"
  shows "removed' = removed @ due now ttl [(k, v)]
    \<and> bucket_map b tx' = fold forget (due now ttl [(k, v)]) (bucket_map b tx)"
proof -
  from assms obtain t where t: "decode_deleted_at c k v = Inr t"
    by (auto simp: persistent_cleanup_one_def res_bind_eq_Inr)
  then have d: "decodeInt64 (co_bytes c v) = Some t"
    by (auto simp: decode_deleted_at_def split: if_splits option.splits)
  show ?thesis
  proof (cases "now - t < ttl")
    case True
    with assms t d show ?thesis by (simp add: persistent_cleanup_one_def due_def)
  next
    case False
    with assms t obtain tx1 tx2 where
        tx1: "drop_bucket b tx (eventsBucketName k) [Lit ''delete events bucket for '', Lit k, Lit '': ''] = Inr tx1"
      and tx2: "drop_config b tx1 k = Inr tx2"
      and tx3: "drop_bucket b tx2 (execConfigBucketName k)
        [Lit ''delete exec config bucket for '', Lit k, Lit '': ''] = Inr tx'"
      and r: "removed' = removed @ [k]"
      by (auto simp: persistent_cleanup_one_def res_bind_eq_Inr)
    from False d have "due now ttl [(k, v)] = [k]" by (simp add: due_def)
    with r drop_bucket_Inr [OF tx1] drop_config_Inr [OF tx2] drop_bucket_Inr [OF tx3]
    show ?thesis by (simp add: forget_def)
  qed
qed

lemma cleanup_loop:
  "fold_result (persistent_cleanup_one b c now ttl) kvs (removed, tx) = Inr (removed', tx') \<Longrightarrow>
     removed' = removed @ due now ttl kvs \<and> bucket_map b tx' = fold forget (due now ttl kvs) (bucket_map b tx)"
proof (induction kvs arbitrary: removed tx)
  case Nil
  then show ?case by (simp add: due_def)
next
  case (Cons kv kvs)
  obtain k v where kv: "kv = (k, v)" by fastforce
  from Cons.prems obtain r1 tx1 where one: "persistent_cleanup_one b c now ttl (k, v) (removed, tx) = Inr (r1, tx1)"
    and rest: "fold_result (persistent_cleanup_one b c now ttl) kvs (r1, tx1) = Inr (removed', tx')"
    by (auto simp: kv res_bind_eq_Inr)
  have "due now ttl (kv # kvs) = due now ttl [(k, v)] @ due now ttl kvs" by (simp add: due_def kv)
  with cleanup_one_Inr [OF one] Cons.IH [OF rest] show ?case by simp
qed

lemma delete_meta_loop:
  "fold_result (\<lambda>k tx. wrap_go [Lit ''delete event metadata for '', Lit k, Lit '': ''] (bo_delete b tx eventMetaBucket k)) ks tx
      = Inr tx' \<Longrightarrow> bucket_map b tx eventMetaBucket = Some m \<Longrightarrow>
     bucket_map b tx' = (bucket_map b tx)(eventMetaBucket \<mapsto> (\<lambda>k. if k \<in> set ks then None else m k))"
proof (induction ks arbitrary: tx m)
  case Nil
  then show ?case by (simp add: fun_eq_iff)
next
  case (Cons k ks)
  then obtain tx1 where d: "bo_delete b tx eventMetaBucket k = Inr tx1"
    and rest: "fold_result (\<lambda>k tx. wrap_go [Lit ''delete event metadata for '', Lit k, Lit '': '']
      (bo_delete b tx eventMetaBucket k)) ks tx1 = Inr tx'"
    by (auto simp: res_bind_eq_Inr)
  from delete [OF Cons.prems(2) d] have "bucket_map b tx1 = (bucket_map b tx)(eventMetaBucket \<mapsto> m(k := None))" .
  with Cons.IH [OF rest, of "m(k := None)"] show ?case by (auto simp: fun_eq_iff)
qed

text \<open>The content after forgetting a list of sandboxes, bucket by bucket.\<close>

lemma fold_forget:
  "fold forget ks B (eventsBucketName j) = (if j \<in> set ks then None else B (eventsBucketName j))"
  "fold forget ks B (execConfigBucketName j) = (if j \<in> set ks then None else B (execConfigBucketName j))"
  "fold forget ks B eventMetaBucket = B eventMetaBucket"
  by (induction ks arbitrary: B) (auto simp: forget_def)

lemma fold_forget_config:
  "fold forget ks B sandboxConfigBucket =
     map_option (\<lambda>m k. if k \<in> set ks then None else m k) (B sandboxConfigBucket)"
proof (induction ks arbitrary: B)
  case Nil
  then show ?case by (cases "B sandboxConfigBucket") simp_all
next
  case (Cons k ks)
  then show ?case
    by (cases "B sandboxConfigBucket") (auto simp: forget_def fun_eq_iff)
qed

lemma cleanup_buckets:
  assumes "persistent_Cleanup b c db now ttl = Inr (removed, db')"
  obtains kvs where "bo_items b db eventMetaBucket = Some kvs" and "removed = sort (due now ttl kvs)"
    and "bucket_map b db' = (fold forget (due now ttl kvs) (bucket_map b db))
      (eventMetaBucket \<mapsto> (\<lambda>k. if k \<in> set (due now ttl kvs) then None else map_of kvs k))"
proof -
  let ?fn = "\<lambda>tx. case bo_items b tx eventMetaBucket of
      None \<Rightarrow> Inl (bucket_missing eventMetaBucket)
    | Some kvs \<Rightarrow>
        res_bind (fold_result (persistent_cleanup_one b c now ttl) kvs ([], tx)) (\<lambda>(removed, tx1).
        res_bind (fold_result (\<lambda>k tx. wrap_go [Lit ''delete event metadata for '', Lit k, Lit '': '']
                    (bo_delete b tx eventMetaBucket k)) removed tx1) (\<lambda>tx2. Inr (removed, tx2)))"
  from assms obtain r where u: "bolt_update b ?fn db = Inr (r, db')" and r: "removed = sort r"
    by (auto simp: persistent_Cleanup_def res_bind_eq_Inr)
  from u obtain db1 where f: "?fn db = Inr (r, db1)" and db': "bucket_map b db' = bucket_map b db1"
    by (rule update_Inr)
  from f obtain kvs tx1 where i: "bo_items b db eventMetaBucket = Some kvs"
    and l: "fold_result (persistent_cleanup_one b c now ttl) kvs ([], db) = Inr (r, tx1)"
    and d: "fold_result (\<lambda>k tx. wrap_go [Lit ''delete event metadata for '', Lit k, Lit '': '']
                    (bo_delete b tx eventMetaBucket k)) r tx1 = Inr db1"
    by (auto simp: res_bind_eq_Inr split: option.splits)
  from cleanup_loop [OF l] have rs: "r = due now ttl kvs"
    and m1: "bucket_map b tx1 = fold forget (due now ttl kvs) (bucket_map b db)" by simp_all
  have "bucket_map b tx1 eventMetaBucket = Some (map_of kvs)"
    using i by (simp add: m1 fold_forget) (simp add: bucket_map_def)
  from delete_meta_loop [OF d this] have "bucket_map b db1 = (fold forget (due now ttl kvs) (bucket_map b db))
      (eventMetaBucket \<mapsto> (\<lambda>k. if k \<in> set (due now ttl kvs) then None else map_of kvs k))"
    by (simp add: m1 rs)
  with that [OF i] r rs db' show ?thesis by simp
qed

lemma set_due:
  assumes "bo_items b db eventMetaBucket = Some kvs"
  shows "set (due now ttl kvs) = {k. \<exists>d. pe_del b c db k = Some d \<and> ttl \<le> now - d}"
proof -
  have "(k, v) \<in> set kvs \<longleftrightarrow> map_of kvs k = Some v" for k v
    using items_distinct [OF assms] by simp
  then show ?thesis
    using assms by (force simp: due_def pe_del_def bucket_map_def)
qed

lemma law_cleanup:
  assumes inv: "pe_inv b c db" and "persistent_Cleanup b c db now ttl = Inr (removed, db')"
  shows "pe_inv b c db' \<and> sorted removed
    \<and> set removed = {k. \<exists>d. pe_del b c db k = Some d \<and> ttl \<le> now - d}
    \<and> pe_del b c db' = (\<lambda>k. if k \<in> set removed then None else pe_del b c db k)
    \<and> pe_log b c db' = (\<lambda>k. if k \<in> set removed then [] else pe_log b c db k)
    \<and> pe_cfg b c db' = (\<lambda>k. if k \<in> set removed then None else pe_cfg b c db k)
    \<and> pe_exe b c db' = (\<lambda>k. if k \<in> set removed then Map.empty else pe_exe b c db k)"
proof -
  from assms(2) obtain kvs where i: "bo_items b db eventMetaBucket = Some kvs"
    and r: "removed = sort (due now ttl kvs)"
    and B: "bucket_map b db' = (fold forget (due now ttl kvs) (bucket_map b db))
      (eventMetaBucket \<mapsto> (\<lambda>k. if k \<in> set (due now ttl kvs) then None else map_of kvs k))"
    by (rule cleanup_buckets)
  have m: "bucket_map b db eventMetaBucket = Some (map_of kvs)" using i by (simp add: bucket_map_def)
  have sr: "set (due now ttl kvs) = set removed" by (simp add: r)
  have ev: "bucket_map b db' (eventsBucketName k) =
      (if k \<in> set removed then None else bucket_map b db (eventsBucketName k))" for k
    by (simp add: B fold_forget sr)
  have ex: "bucket_map b db' (execConfigBucketName k) =
      (if k \<in> set removed then None else bucket_map b db (execConfigBucketName k))" for k
    by (simp add: B fold_forget sr)
  have cf: "bucket_map b db' sandboxConfigBucket =
      map_option (\<lambda>m k. if k \<in> set removed then None else m k) (bucket_map b db sandboxConfigBucket)"
    by (simp add: B fold_forget_config sr)
  have mt: "bucket_map b db' eventMetaBucket = Some (\<lambda>k. if k \<in> set removed then None else map_of kvs k)"
    by (simp add: B sr)
  have log: "pe_log b c db' k = (if k \<in> set removed then [] else pe_log b c db k)" for k
  proof (cases "k \<in> set removed")
    case True
    with ev [of k] have "bo_items b db' (eventsBucketName k) = None" by (simp add: bucket_map_def)
    with True show ?thesis by (simp add: pe_log_def)
  next
    case False
    with ev [of k] pe_log_same [of db' k db] show ?thesis by simp
  qed
  have "pe_inv b c db'"
    using inv m unfolding pe_inv_def ev ex cf mt
    by (auto split: if_splits)
  moreover have "pe_del b c db' = (\<lambda>k. if k \<in> set removed then None else pe_del b c db k)"
    by (simp add: pe_del_def mt m fun_eq_iff)
  moreover have "pe_cfg b c db' = (\<lambda>k. if k \<in> set removed then None else pe_cfg b c db k)"
    by (cases "bucket_map b db sandboxConfigBucket") (simp_all add: pe_cfg_def cf fun_eq_iff)
  moreover have "pe_exe b c db' = (\<lambda>k. if k \<in> set removed then Map.empty else pe_exe b c db k)"
    by (simp add: pe_exe_def ex fun_eq_iff)
  ultimately show ?thesis using set_due [OF i, of now ttl] log by (simp add: sr fun_eq_iff) (simp add: r)
qed

end

lemma store_sel [simp]:
  "st_append (persistentEventStore b c) = persistent_Append b c"
  "st_load_events (persistentEventStore b c) = persistent_LoadEvents b c"
  "st_load_all_sandbox_ids (persistentEventStore b c) = persistent_LoadAllSandboxIDs b"
  "st_max_sequence (persistentEventStore b c) = persistent_MaxSequence b"
  "st_deleted_at (persistentEventStore b c) = persistent_DeletedAt b c"
  "st_mark_deleted (persistentEventStore b c) = persistent_MarkDeleted b c"
  "st_cleanup (persistentEventStore b c) = persistent_Cleanup b c"
  "st_save_sandbox_config (persistentEventStore b c) = persistent_SaveSandboxConfig b c"
  "st_load_sandbox_config (persistentEventStore b c) = persistent_LoadSandboxConfig b c"
  "st_load_all_sandbox_configs (persistentEventStore b c) = persistent_LoadAllSandboxConfigs b c"
  "st_delete_sandbox_config (persistentEventStore b c) = persistent_DeleteSandboxConfig b"
  "st_save_exec_config (persistentEventStore b c) = persistent_SaveExecConfig b c"
  "st_load_exec_configs (persistentEventStore b c) = persistent_LoadExecConfigs b c"
  by (simp_all add: persistentEventStore_def)

sublocale bolt_store \<subseteq> event_store "persistentEventStore b c" "pe_inv b c" "pe_log b c" "pe_del b c"
  "pe_cfg b c" "pe_exe b c"
proof (unfold_locales, goal_cases)
  case (1 st k e st')
  then show ?case unfolding store_sel by (rule law_append)
next
  case (2 st k es)
  then show ?case unfolding store_sel by (rule law_load_events)
next
  case (3 st k q)
  from law_max_sequence [OF 3(1) 3(3) [unfolded store_sel]] show ?case .
next
  case (4 st t k st')
  then show ?case unfolding store_sel by (rule law_mark_deleted)
next
  case (5 st k d)
  then show ?case unfolding store_sel by (rule law_deleted_at)
next
  case (6 st now ttl removed st')
  then show ?case unfolding store_sel by (rule law_cleanup)
next
  case (7 st k spec st')
  then show ?case unfolding store_sel by (rule law_save_config)
next
  case (8 st k c)
  then show ?case unfolding store_sel by (rule law_load_config)
next
  case (9 st m)
  then show ?case unfolding store_sel by (rule law_load_all_configs)
next
  case (10 st k st')
  then show ?case unfolding store_sel by (rule law_delete_config)
next
  case (11 st k req st')
  then show ?case unfolding store_sel by (rule law_save_exec)
next
  case (12 st k reqs)
  then show ?case unfolding store_sel by (rule law_load_execs)
qed

section \<open>The registry keeps its promises\<close>

lemma registry_sel [simp]:
  "ir_reserve_sandbox_id (persistentIDRegistry b c) = persistent_reserve b c sandboxIDBucket ErrSandboxIDAlreadyExists"
  "ir_reserve_exec_id (persistentIDRegistry b c) = persistent_reserve b c execIDBucket ErrExecIDAlreadyExists"
  "ir_release_sandbox_id (persistentIDRegistry b c) = persistent_release b sandboxIDBucket"
  "ir_release_exec_id (persistentIDRegistry b c) = persistent_release b execIDBucket"
  by (simp_all add: persistentIDRegistry_def)

context bolt_store
begin

lemma reserve_Inr:
  assumes "persistent_reserve b c n dup db k t = Inr db'"
  shows "k \<notin> reserved b n db \<and> reserved b n db' = insert k (reserved b n db)
    \<and> (\<forall>n'. n' \<noteq> n \<longrightarrow> reserved b n' db' = reserved b n' db)"
proof -
  from assms obtain db1 where i: "bo_items b db n \<noteq> None" and g: "bo_get b db n k = None"
    and p: "bo_put b db n k (co_value c (encodeInt64 t)) = Inr db1" and db': "bucket_map b db' = bucket_map b db1"
    unfolding persistent_reserve_def by (rule change_Inr) (auto simp: in_bucket_Inr split: if_splits)
  from i obtain m where m: "bucket_map b db n = Some m" by (auto simp: bucket_map_def)
  from get_bucket [OF m] g have "m k = None" by simp
  with m put [OF m p] db' show ?thesis by (auto simp: reserved_def)
qed

lemma release_Inr:
  assumes "persistent_release b n db k = Inr db'"
  shows "reserved b n db' = reserved b n db - {k} \<and> (\<forall>n'. n' \<noteq> n \<longrightarrow> reserved b n' db' = reserved b n' db)"
proof -
  from assms obtain m where "bucket_map b db n = Some m"
    and "bucket_map b db' = (bucket_map b db)(n \<mapsto> m(k := None))"
    unfolding persistent_release_def by (rule in_bucket_delete)
  then show ?thesis by (auto simp: reserved_def)
qed

lemma change_Inl:
  assumes "bolt_change b fn db = Inl err"
  shows "bo_open b db = Some err \<or> fn db = Inl err \<or> (\<exists>db1. bo_commit b db1 = Inl err)"
  using assms
  by (auto simp: bolt_change_def bolt_update_def no_result_def res_bind_def split: option.splits sum.splits)

lemma reserve_Inl:
  assumes "persistent_reserve b c n dup db k t = Inl err" and "err = ErrSandboxIDAlreadyExists \<or> err = ErrExecIDAlreadyExists"
  shows "err = dup \<and> k \<in> reserved b n db"
proof -
  from assms(2) have ne: "bo_open b db \<noteq> Some err" "bo_commit b db1 \<noteq> Inl err"
      "bo_put b db n k v \<noteq> Inl err" for db1 v
    using foreign_errors [of db err n k v] foreign_errors [of db1 err] by auto
  with change_Inl [OF assms(1) [unfolded persistent_reserve_def]]
  have "in_bucket b db n (if bo_get b db n k \<noteq> None then Inl dup
      else bo_put b db n k (co_value c (encodeInt64 t))) = Inl err" by blast
  moreover note ne(3) [of "co_value c (encodeInt64 t)"]
  ultimately obtain kvs where i: "bo_items b db n = Some kvs" and "bo_get b db n k \<noteq> None" and e: "err = dup"
    using assms(2) by (auto simp: in_bucket_def bucket_missing_def split: option.splits if_splits)
  from i have m: "bucket_map b db n = Some (map_of kvs)" by (simp add: bucket_map_def)
  with get_bucket [OF m] \<open>bo_get b db n k \<noteq> None\<close> e show ?thesis by (auto simp: reserved_def)
qed

end

sublocale bolt_store \<subseteq> id_registry "persistentIDRegistry b c" "reserved b sandboxIDBucket" "reserved b execIDBucket"
proof (unfold_locales, goal_cases)
  case (1 r k t r')
  with reserve_Inr show ?case by simp
next
  case (2 r k t r')
  with reserve_Inr show ?case by simp
next
  case (3 r k t)
  from reserve_Inl [OF this [unfolded registry_sel]] show ?case by simp
next
  case (4 r k t)
  show ?case
  proof
    assume "ir_reserve_sandbox_id (persistentIDRegistry b c) r k t = Inl ErrExecIDAlreadyExists"
    from reserve_Inl [OF this [unfolded registry_sel]] show False by simp
  qed
next
  case (5 r k t)
  from reserve_Inl [OF this [unfolded registry_sel]] show ?case by simp
next
  case (6 r k t)
  show ?case
  proof
    assume "ir_reserve_exec_id (persistentIDRegistry b c) r k t = Inl ErrSandboxIDAlreadyExists"
    from reserve_Inl [OF this [unfolded registry_sel]] show False by simp
  qed
next
  case (7 r k r')
  with release_Inr show ?case by simp
next
  case (8 r k r')
  with release_Inr show ?case by simp
qed

section \<open>Opening a database\<close>

context bolt_store
begin

lemma create_loop:
  "fold_result (create_bucket b) names db = Inr db' \<Longrightarrow>
     bucket_map b db' n = (if n \<in> set names \<and> bucket_map b db n = None then Some Map.empty else bucket_map b db n)"
proof (induction names arbitrary: db)
  case (Cons x names)
  then obtain db1 where c: "create_bucket b x db = Inr db1" and rest: "fold_result (create_bucket b) names db1 = Inr db'"
    by (auto simp: res_bind_eq_Inr)
  from c have x: "bo_create b db x = Inr db1" by (simp add: create_bucket_def)
  from create [OF x] Cons.IH [OF rest] show ?case by (auto split: if_splits)
qed simp

text \<open>A new file holds nothing; opening it again later keeps what it holds.\<close>

lemma open_keeps:
  assumes "openBoltDB b db = Inr db'"
  shows "pe_log b c db' = pe_log b c db \<and> pe_del b c db' = pe_del b c db \<and> pe_cfg b c db' = pe_cfg b c db
    \<and> pe_exe b c db' = pe_exe b c db \<and> (pe_inv b c db \<longrightarrow> pe_inv b c db')
    \<and> reserved b n db' = reserved b n db"
proof -
  let ?names = "[sandboxIDBucket, execIDBucket, eventMetaBucket, sandboxConfigBucket]"
  from assms obtain db1 where l: "fold_result (create_bucket b) ?names db = Inr db1"
    and db1: "bucket_map b db' = bucket_map b db1"
    unfolding openBoltDB_def by (rule change_Inr)
  have m: "bucket_map b db' n = (if n \<in> set ?names \<and> bucket_map b db n = None then Some Map.empty
      else bucket_map b db n)" for n
    unfolding db1 by (rule create_loop [OF l])
  have ev: "bucket_map b db' (eventsBucketName k) = bucket_map b db (eventsBucketName k)"
    and ex: "bucket_map b db' (execConfigBucketName k) = bucket_map b db (execConfigBucketName k)" for k
    by (simp_all add: m)
  have "pe_log b c db' = pe_log b c db" using pe_log_same [OF ev] by (simp add: fun_eq_iff)
  moreover have "pe_exe b c db' = pe_exe b c db" by (simp add: pe_exe_def ex fun_eq_iff)
  moreover have "pe_del b c db' = pe_del b c db" "pe_cfg b c db' = pe_cfg b c db"
    by (auto simp: pe_del_def pe_cfg_def m fun_eq_iff split: option.splits)
  moreover have "reserved b n db' = reserved b n db"
    by (auto simp: reserved_def m split: option.splits)
  moreover have "pe_inv b c db'" if "pe_inv b c db"
    using that unfolding pe_inv_def ev ex by (auto simp: m split: if_splits)
  ultimately show ?thesis by simp
qed

end

interpretation sorted_store: bolt_store sorted_bolt tagged_codec
  by (intro bolt_store.intro sorted_bolt.bolt_axioms tagged_codec.message_codec_axioms)

end
