(* ===== verification/Persistent_Props.thy ===== *)
theory Persistent_Props
  imports Persistent_Laws Run_Props
begin

text \<open>
  The persistent daemon: over every bbolt and every encoder that keep their promises the persistent
  store answers as the memory store does after the same history, and the invariants of the daemon's
  logs hold of the daemon that NewServiceWithPersistentIDStore builds.
\<close>

section \<open>Histories of a store\<close>

datatype store_op =
    OpAppend string sandbox_event
  | OpMarkDeleted string time
  | OpCleanup time duration
  | OpSaveSandboxConfig string create_spec
  | OpDeleteSandboxConfig string
  | OpSaveExecConfig string create_exec_request

fun store_step :: "'st event_store_ops \<Rightarrow> store_op \<Rightarrow> 'st \<Rightarrow> go_error + 'st" where
  "store_step ops (OpAppend k e) st = st_append ops st k e"
| "store_step ops (OpMarkDeleted k t) st = st_mark_deleted ops st k t"
| "store_step ops (OpCleanup now ttl) st = res_bind (st_cleanup ops st now ttl) (\<lambda>(_, st'). Inr st')"
| "store_step ops (OpSaveSandboxConfig k spec) st = st_save_sandbox_config ops st k spec"
| "store_step ops (OpDeleteSandboxConfig k) st = st_delete_sandbox_config ops st k"
| "store_step ops (OpSaveExecConfig k req) st = st_save_exec_config ops st k req"

text \<open>
  How the daemon uses a store: events of a sandbox come with growing sequence numbers, and times fit
  64 bits of nanoseconds.
\<close>

fun op_ok :: "memory_event_store \<Rightarrow> store_op \<Rightarrow> bool" where
  "op_ok m (OpAppend k e) \<longleftrightarrow> next_in_log (me_events_of m k) e"
| "op_ok m (OpMarkDeleted k t) \<longleftrightarrow> int64_time t"
| "op_ok m _ \<longleftrightarrow> True"

fun history_ok :: "memory_event_store \<Rightarrow> store_op list \<Rightarrow> bool" where
  "history_ok m [] \<longleftrightarrow> True"
| "history_ok m (x # xs) \<longleftrightarrow>
     op_ok m x \<and> (case store_step memoryEventStore x m of Inl _ \<Rightarrow> False | Inr m' \<Rightarrow> history_ok m' xs)"

text \<open>A store and a memory store hold the same.\<close>

definition holds_same ::
  "('st \<Rightarrow> string \<Rightarrow> sandbox_event list) \<Rightarrow> ('st \<Rightarrow> string \<Rightarrow> time option) \<Rightarrow> ('st \<Rightarrow> string \<Rightarrow> create_spec option)
     \<Rightarrow> ('st \<Rightarrow> string \<Rightarrow> string \<Rightarrow> create_exec_request option) \<Rightarrow> memory_event_store \<Rightarrow> 'st \<Rightarrow> bool" where
  "holds_same slog sdel scfg sexe m st \<longleftrightarrow>
     slog st = me_events_of m \<and> sdel st = gm_get (me_deleted_at m)
     \<and> scfg st = gm_get (me_sandbox_configs m) \<and> sexe st = (\<lambda>k. gm_get (me_execs_of m k))"

text \<open>The memory store refuses nothing, so its laws determine each step.\<close>

lemma memory_step_total: "\<exists>m'. store_step memoryEventStore x m = Inr m'"
  by (cases x) (auto simp: memory_store_defs memory_Cleanup_eq Let_def)

context event_store
begin

lemma step_holds_same:
  assumes st: "inv st" "me_inv m" "holds_same slog sdel scfg sexe m st" and ok: "op_ok m x"
    and s: "store_step ops x st = Inr st'" and m: "store_step memoryEventStore x m = Inr m'"
  shows "inv st' \<and> me_inv m' \<and> holds_same slog sdel scfg sexe m' st'"
proof (cases x)
  case (OpAppend k e)
  with s m ok have n: "next_in_log (me_events_of m k) e"
    and c: "st_append ops st k e = Inr st'" "st_append memoryEventStore m k e = Inr m'"
    by (simp_all only: store_step.simps op_ok.simps)
  with st(3) have n': "next_in_log (slog st k) e" by (simp only: holds_same_def)
  from append [OF st(1) n' c(1)] mem_store.append [OF st(2) n c(2)] st(3)
  show ?thesis by (simp only: holds_same_def simp_thms)
next
  case (OpMarkDeleted k t)
  with ok s m have t: "int64_time t" and c: "st_mark_deleted ops st k t = Inr st'"
      "st_mark_deleted memoryEventStore m k t = Inr m'"
    by simp_all
  from mark_deleted [OF st(1) t c(1)] mem_store.mark_deleted [OF st(2) t c(2)] st(3)
  show ?thesis by (simp only: holds_same_def simp_thms)
next
  case (OpCleanup now ttl)
  with s m obtain r r' where c: "st_cleanup ops st now ttl = Inr (r, st')"
    and mc: "st_cleanup memoryEventStore m now ttl = Inr (r', m')"
    by (auto simp only: store_step.simps res_bind_eq_Inr split: prod.splits)
  note a = cleanup [OF st(1) c] and ma = mem_store.cleanup [OF st(2) mc]
  from a ma st(3) have r: "set r' = set r" by (simp only: holds_same_def)
  from a ma [unfolded r] st(3) show ?thesis by (simp only: holds_same_def simp_thms)
next
  case (OpSaveSandboxConfig k spec)
  with s m have c: "st_save_sandbox_config ops st k spec = Inr st'"
      "st_save_sandbox_config memoryEventStore m k spec = Inr m'"
    by simp_all
  from save_sandbox_config [OF st(1) c(1)] mem_store.save_sandbox_config [OF st(2) c(2)] st(3)
  show ?thesis by (simp only: holds_same_def simp_thms)
next
  case (OpDeleteSandboxConfig k)
  with s m have c: "st_delete_sandbox_config ops st k = Inr st'"
      "st_delete_sandbox_config memoryEventStore m k = Inr m'"
    by simp_all
  from delete_sandbox_config [OF st(1) c(1)] mem_store.delete_sandbox_config [OF st(2) c(2)] st(3)
  show ?thesis by (simp only: holds_same_def simp_thms)
next
  case (OpSaveExecConfig k req)
  with s m have c: "st_save_exec_config ops st k req = Inr st'"
      "st_save_exec_config memoryEventStore m k req = Inr m'"
    by simp_all
  from save_exec_config [OF st(1) c(1)] mem_store.save_exec_config [OF st(2) c(2)] st(3)
  show ?thesis by (simp only: holds_same_def simp_thms)
qed

lemma history_holds_same:
  "fold_result (store_step ops) xs st = Inr st' \<Longrightarrow> inv st \<Longrightarrow> me_inv m \<Longrightarrow>
     holds_same slog sdel scfg sexe m st \<Longrightarrow> history_ok m xs \<Longrightarrow>
     \<exists>m'. fold_result (store_step memoryEventStore) xs m = Inr m' \<and> inv st' \<and> me_inv m'
       \<and> holds_same slog sdel scfg sexe m' st'"
proof (induction xs arbitrary: st m)
  case Nil
  then show ?case by simp
next
  case (Cons x xs)
  from Cons.prems(1) obtain st1 where s: "store_step ops x st = Inr st1"
    and rest: "fold_result (store_step ops) xs st1 = Inr st'"
    by (auto simp: res_bind_eq_Inr)
  obtain m1 where m: "store_step memoryEventStore x m = Inr m1" using memory_step_total by blast
  with Cons.prems(5) have ok: "op_ok m x" and h: "history_ok m1 xs" by simp_all
  from step_holds_same [OF Cons.prems(2-4) ok s m] Cons.IH [OF rest _ _ _ h] m show ?case by simp
qed

end

lemma history_ordered:
  "fold_result (store_step memoryEventStore) xs m = Inr m' \<Longrightarrow> me_inv m \<Longrightarrow> history_ok m xs \<Longrightarrow>
     \<forall>k. log_ordered (me_events_of m k) \<Longrightarrow> \<forall>k. log_ordered (me_events_of m' k)"
proof (induction xs arbitrary: m)
  case Nil
  then show ?case by simp
next
  case (Cons x xs)
  from Cons.prems(1) obtain m1 where s: "store_step memoryEventStore x m = Inr m1"
    and rest: "fold_result (store_step memoryEventStore) xs m1 = Inr m'"
    by (auto simp: res_bind_eq_Inr)
  with Cons.prems(3) have ok: "op_ok m x" and h: "history_ok m1 xs" by simp_all
  have i: "me_inv m1"
    using mem_store.step_holds_same [OF Cons.prems(2,2) _ ok s s] by (simp add: holds_same_def)
  have "log_ordered (me_events_of m1 k)" for k
  proof (cases "\<exists>j e. x = OpAppend j e")
    case True
    then obtain j e where x: "x = OpAppend j e" by blast
    with ok Cons.prems(4) have "log_ordered (me_events_of m j @ [e])" by (simp add: log_ordered_append)
    with s x Cons.prems(4) show ?thesis by (auto simp: memory_Append_def)
  next
    case False
    then have "me_events_of m1 k = me_events_of m k \<or> me_events_of m1 k = []"
      using s by (cases x) (auto simp: memory_store_defs memory_Cleanup_eq Let_def me_events_of_def res_bind_eq_Inr)
    with Cons.prems(4) show ?thesis by fastforce
  qed
  with Cons.IH [OF rest i h] show ?case by blast
qed

section \<open>Refinement\<close>

context bolt_store
begin

lemma fresh_database:
  assumes "\<forall>n. bo_items b db n = None" and "openBoltDB b db = Inr db0"
  shows "pe_inv b c db0 \<and> holds_same (pe_log b c) (pe_del b c) (pe_cfg b c) (pe_exe b c) newMemoryEventStore db0
    \<and> reserved b n db0 = {} \<and> pe_log b c db0 k = []"
proof -
  have "bucket_map b db n = None" for n using assms(1) by (simp add: bucket_map_def)
  then have "pe_inv b c db" "pe_log b c db = (\<lambda>_. [])" "pe_del b c db = (\<lambda>_. None)" "pe_cfg b c db = (\<lambda>_. None)"
    "pe_exe b c db = (\<lambda>_ _. None)" "reserved b n db = {}" for n
    using assms(1) by (simp_all add: pe_inv_def pe_log_def pe_del_def pe_cfg_def pe_exe_def reserved_def fun_eq_iff)
  with open_keeps [OF assms(2)] show ?thesis
    by (simp add: holds_same_def newMemoryEventStore_def me_events_of_def me_execs_of_def fun_eq_iff)
qed

lemma history_reads:
  assumes "\<forall>n. bo_items b db n = None" and "openBoltDB b db = Inr db0" and "history_ok newMemoryEventStore xs"
    and "fold_result (store_step (persistentEventStore b c)) xs db0 = Inr db'"
  obtains m where "fold_result (store_step memoryEventStore) xs newMemoryEventStore = Inr m"
    and "pe_inv b c db'" and "me_inv m" and "holds_same (pe_log b c) (pe_del b c) (pe_cfg b c) (pe_exe b c) m db'"
    and "\<And>k. log_ordered (me_events_of m k)"
proof -
  have i: "me_inv newMemoryEventStore" "me_events_of newMemoryEventStore k = []" for k
    by (rule memory_start)+
  from fresh_database [OF assms(1,2)] have f: "pe_inv b c db0"
    "holds_same (pe_log b c) (pe_del b c) (pe_cfg b c) (pe_exe b c) newMemoryEventStore db0" by blast+
  from history_holds_same [OF assms(4) f(1) i(1) f(2) assms(3)] obtain m where
    m: "fold_result (store_step memoryEventStore) xs newMemoryEventStore = Inr m" "pe_inv b c db'" "me_inv m"
      "holds_same (pe_log b c) (pe_del b c) (pe_cfg b c) (pe_exe b c) m db'" by blast
  from history_ordered [OF m(1) i(1) assms(3)] i(2) have "\<And>k. log_ordered (me_events_of m k)" by simp
  with that m show ?thesis by blast
qed

end

text \<open>
  C35. The persistent store refines the memory store.  Whatever bbolt and protobuf are, as long as they
  keep their documented promises: after any history of operations that succeeded on a database opened
  fresh, every read that succeeds answers what the memory store answers after the same history.
\<close>
theorem persistent_refines_memory:
  assumes "bolt_store b c" and "\<forall>n. bo_items b new_file n = None" and "openBoltDB b new_file = Inr db0"
    and "history_ok newMemoryEventStore xs"
    and "fold_result (store_step (persistentEventStore b c)) xs db0 = Inr db"
  shows "\<exists>m. fold_result (store_step memoryEventStore) xs newMemoryEventStore = Inr m
    \<and> (\<forall>k es. persistent_LoadEvents b c db k = Inr es \<longrightarrow> memory_LoadEvents m k = Inr es)
    \<and> (\<forall>k q. persistent_MaxSequence b db k = Inr q \<longrightarrow> memory_MaxSequence m k = Inr q)
    \<and> (\<forall>k d. persistent_DeletedAt b c db k = Inr d \<longrightarrow> memory_DeletedAt m k = Inr d)
    \<and> (\<forall>k sp. persistent_LoadSandboxConfig b c db k = Inr sp \<longrightarrow> memory_LoadSandboxConfig m k = Inr sp)
    \<and> (\<forall>ps. persistent_LoadAllSandboxConfigs b c db = Inr ps \<longrightarrow>
         (\<exists>ms. memory_LoadAllSandboxConfigs m = Inr ms \<and> gm_get ps = gm_get ms))
    \<and> (\<forall>k rs. persistent_LoadExecConfigs b c db k = Inr rs \<longrightarrow>
         (\<exists>ms. memory_LoadExecConfigs m k = Inr ms \<and> set rs = set ms))"
proof -
  note L = bolt_store.law_load_events [OF assms(1)] bolt_store.law_max_sequence [OF assms(1)]
    bolt_store.law_deleted_at [OF assms(1)] bolt_store.law_load_config [OF assms(1)]
    bolt_store.law_load_all_configs [OF assms(1)] bolt_store.law_load_execs [OF assms(1)]
  from bolt_store.history_reads [OF assms] obtain m where
    m: "fold_result (store_step memoryEventStore) xs newMemoryEventStore = Inr m" and i: "pe_inv b c db" "me_inv m"
      and h: "holds_same (pe_log b c) (pe_del b c) (pe_cfg b c) (pe_exe b c) m db"
      and o: "\<And>k. log_ordered (me_events_of m k)" by blast
  note H = h [unfolded holds_same_def]
  have ms: "memory_LoadAllSandboxConfigs m = Inr ms \<Longrightarrow> gm_get ms = gm_get (me_sandbox_configs m)" for ms
    using mem_store.load_all_sandbox_configs [OF i(2), of ms] by simp
  have mx: "memory_LoadExecConfigs m k = Inr ms \<Longrightarrow> set ms = ran (gm_get (me_execs_of m k))" for k ms
    using mem_store.load_exec_configs [OF i(2), of k ms] by simp
  have "\<forall>k es. persistent_LoadEvents b c db k = Inr es \<longrightarrow> memory_LoadEvents m k = Inr es"
    using L(1) [OF i(1)] H by (auto simp: memory_LoadEvents_def map_idI)
  moreover have "\<forall>k q. persistent_MaxSequence b db k = Inr q \<longrightarrow> memory_MaxSequence m k = Inr q"
  proof (intro allI impI)
    fix k q
    assume "persistent_MaxSequence b db k = Inr q"
    from L(2) [OF i(1) this] H show "memory_MaxSequence m k = Inr q"
      by (simp add: memory_MaxSequence_def Let_def last_conv_nth)
  qed
  moreover have "\<forall>k d. persistent_DeletedAt b c db k = Inr d \<longrightarrow> memory_DeletedAt m k = Inr d"
    using L(3) [OF i(1)] H by (auto simp: memory_DeletedAt_def)
  moreover have "\<forall>k sp. persistent_LoadSandboxConfig b c db k = Inr sp \<longrightarrow> memory_LoadSandboxConfig m k = Inr sp"
    using L(4) [OF i(1)] H by (auto simp: memory_LoadSandboxConfig_def)
  moreover have "\<forall>ps. persistent_LoadAllSandboxConfigs b c db = Inr ps \<longrightarrow>
         (\<exists>ms. memory_LoadAllSandboxConfigs m = Inr ms \<and> gm_get ps = gm_get ms)"
    using L(5) [OF i(1)] H ms by (metis memory_LoadAllSandboxConfigs_def)
  moreover have "\<forall>k rs. persistent_LoadExecConfigs b c db k = Inr rs \<longrightarrow>
         (\<exists>ms. memory_LoadExecConfigs m k = Inr ms \<and> set rs = set ms)"
    using L(6) [OF i(1)] H mx by (metis memory_LoadExecConfigs_def)
  ultimately show ?thesis using m by blast
qed

text \<open>A history on the instance: one sandbox is created and logs an event.\<close>

definition first_event :: sandbox_event where
  "first_event = \<lparr>ev_event_id = ''box-1-1'', ev_sequence = 1, ev_sandbox_id = ''box-1'', ev_event_type = SANDBOX_ACCEPTED,
     ev_occurred_at = 5, ev_replay = False, ev_snapshot = False, ev_sandbox_state = SANDBOX_STATE_PENDING,
     ev_details = NoDetails\<rparr>"

definition test_history :: "store_op list" where
  "test_history = [OpSaveSandboxConfig ''box-1'' empty_create_spec, OpAppend ''box-1'' first_event]"

definition test_database :: "go_error + (string, (string, stored) gomap) gomap" where
  "test_database = res_bind (openBoltDB sorted_bolt [])
     (fold_result (store_step (persistentEventStore sorted_bolt tagged_codec)) test_history)"

theorem persistent_refines_memory_witness:
  "\<exists>m. fold_result (store_step memoryEventStore) test_history newMemoryEventStore = Inr m
    \<and> memory_LoadEvents m ''box-1'' = Inr [first_event]"
proof -
  have "\<not> isl test_database" by code_simp
  then obtain db0 db where db0: "openBoltDB sorted_bolt ([] :: (string, (string, stored) gomap) gomap) = Inr db0"
    and db: "fold_result (store_step (persistentEventStore sorted_bolt tagged_codec)) test_history db0 = Inr db"
    and t: "test_database = Inr db"
    by (cases test_database) (auto simp: test_database_def res_bind_eq_Inr)
  have "res_bind test_database (\<lambda>db. persistent_LoadEvents sorted_bolt tagged_codec db ''box-1'') = Inr [first_event]"
    by code_simp
  then have l: "persistent_LoadEvents sorted_bolt tagged_codec db ''box-1'' = Inr [first_event]"
    unfolding t res_bind_Inr .
  have h: "history_ok newMemoryEventStore test_history" by code_simp
  have e: "\<forall>n. bo_items sorted_bolt ([] :: (string, (string, stored) gomap) gomap) n = None"
    by (simp add: sorted_bolt_def)
  from persistent_refines_memory [OF sorted_store.bolt_store_axioms e db0 h db] l show ?thesis by blast
qed

section \<open>The daemon over the persistent store\<close>

text \<open>
  \<^verbatim>\<open>NewServiceWithPersistentIDStore\<close> gives the store and the registry the same database.  They use
  different buckets of it, so the model lets each have its own copy.
\<close>

definition persistent_config ::
  "('db, 'v) bolt_ops \<Rightarrow> 'v codec \<Rightarrow> ('db, 'db) service_config \<Rightarrow> ('db, 'db) service_config" where
  "persistent_config b c base =
     base\<lparr>cfg_event_store := persistentEventStore b c, cfg_id_registry := persistentIDRegistry b c\<rparr>"

lemma persistent_config_simps [simp]:
  "cfg_event_store (persistent_config b c base) = persistentEventStore b c"
  "cfg_id_registry (persistent_config b c base) = persistentIDRegistry b c"
  by (simp_all add: persistent_config_def)

sublocale bolt_store \<subseteq> pers: daemon_model "persistent_config b c base" "pe_inv b c" "pe_log b c" "pe_del b c"
  "pe_cfg b c" "pe_exe b c" "reserved b sandboxIDBucket" "reserved b execIDBucket" for base
  unfolding daemon_model_def persistent_config_simps
  by (intro conjI event_store_axioms id_registry_axioms)

context bolt_store
begin

lemma run_facts:
  assumes "\<forall>n. bo_items b new_file n = None" and "openBoltDB b new_file = Inr db0"
    and "reachable (persistent_config b c base) db0 db0 d"
    and "gm_get (svc_boxes (dm_service d)) sid = Some rec"
  shows "rec_ok rec" and "length (sr_events rec) < 2 ^ 64" and "pe_inv b c (svc_store (dm_service d))"
    and "sid \<notin> set (dm_purging d) \<Longrightarrow> pe_log b c (svc_store (dm_service d)) sid = sr_events rec
      \<and> pe_cfg b c (svc_store (dm_service d)) sid = Some (sr_create_spec rec)"
    and "sid \<in> reserved b sandboxIDBucket (svc_registry (dm_service d))"
    and "\<And>k. k \<in> gm_keys (sr_execs rec) \<Longrightarrow> k \<in> reserved b execIDBucket (svc_registry (dm_service d))"
proof -
  note f = fresh_database [OF assms(1,2)]
  have inv: "pe_inv b c db0" and empty: "pe_log b c db0 k = []" for k using f by blast+
  note i = pers.reachable_inv [OF assms(3) inv empty, unfolded pers.svc_inv_def]
  note r = pers.reachable_record [OF assms(3) inv empty assms(4)]
  show "rec_ok rec" "pe_inv b c (svc_store (dm_service d))"
    "sid \<notin> set (dm_purging d) \<Longrightarrow> pe_log b c (svc_store (dm_service d)) sid = sr_events rec
      \<and> pe_cfg b c (svc_store (dm_service d)) sid = Some (sr_create_spec rec)"
    using r i by blast+
  show "length (sr_events rec) < 2 ^ 64"
    using reachable_bound [OF assms(3)] assms(4) unfolding log_bound_def by blast
  show "sid \<in> reserved b sandboxIDBucket (svc_registry (dm_service d))"
    using i assms(4) by (auto simp: ids_ok_def gm_get_Some_key subset_iff)
  fix k
  assume "k \<in> gm_keys (sr_execs rec)"
  with i assms(4) have "gm_get (svc_execs (dm_service d)) k = Some sid" unfolding index_ok_def by blast
  then have "k \<in> gm_keys (svc_execs (dm_service d))" by (auto simp: gm_get_Some_key)
  with i show "k \<in> reserved b execIDBucket (svc_registry (dm_service d))" unfolding index_ok_def by blast
qed

end

text \<open>
  The daemon over a database opened fresh, in every reachable state: the log of a sandbox is numbered
  from 1 without gaps; what the database holds of the sandbox, if it can be read, is exactly that log and
  the sandbox's specification; and the database refuses to hand out again its id or that of one of its
  execs.  So a crash at any moment loses nothing that a client has seen.
\<close>
theorem persistent_run_durable:
  assumes "bolt_store b c" and "\<forall>n. bo_items b new_file n = None" and "openBoltDB b new_file = Inr db0"
    and "reachable (persistent_config b c base) db0 db0 d"
    and "gm_get (svc_boxes (dm_service d)) sid = Some rec"
  shows "map ev_sequence (sr_events rec) = map (\<lambda>i. of_nat (Suc i)) [0..<length (sr_events rec)]
    \<and> (sid \<notin> set (dm_purging d) \<longrightarrow>
         (\<forall>es. persistent_LoadEvents b c (svc_store (dm_service d)) sid = Inr es \<longrightarrow> es = sr_events rec)
       \<and> (\<forall>sp. persistent_LoadSandboxConfig b c (svc_store (dm_service d)) sid = Inr sp \<longrightarrow>
            sp = Some (sr_create_spec rec)))
    \<and> isl (persistent_reserve b c sandboxIDBucket ErrSandboxIDAlreadyExists (svc_registry (dm_service d)) sid t)
    \<and> (\<forall>k \<in> gm_keys (sr_execs rec).
         isl (persistent_reserve b c execIDBucket ErrExecIDAlreadyExists (svc_registry (dm_service d)) k t))"
proof -
  note f = bolt_store.run_facts [OF assms]
  from f(1) f(2) have n: "map ev_sequence (sr_events rec) = map (\<lambda>i. of_nat (Suc i)) [0..<length (sr_events rec)]"
    using numbered_ordered by (auto simp: rec_ok_def log_ok_def numbered_def)
  have "isl (persistent_reserve b c bn dup (svc_registry (dm_service d)) k t)"
    if "k \<in> reserved b bn (svc_registry (dm_service d))" for bn dup k
    using bolt_store.reserve_Inr [OF assms(1), of bn dup "svc_registry (dm_service d)" k t] that
    by (cases "persistent_reserve b c bn dup (svc_registry (dm_service d)) k t") auto
  note res = this
  show ?thesis
  proof (intro conjI impI allI ballI)
    fix es
    assume "sid \<notin> set (dm_purging d)" and "persistent_LoadEvents b c (svc_store (dm_service d)) sid = Inr es"
    with bolt_store.law_load_events [OF assms(1) f(3)] f(4) show "es = sr_events rec" by simp
  next
    fix sp
    assume "sid \<notin> set (dm_purging d)"
      and "persistent_LoadSandboxConfig b c (svc_store (dm_service d)) sid = Inr sp"
    with bolt_store.law_load_config [OF assms(1) f(3)] f(4) show "sp = Some (sr_create_spec rec)" by simp
  qed (fact n, rule res, fact f(5), rule res, rule f(6))
qed

text \<open>On the instance: a sandbox created over a fresh database.\<close>

type_synonym listed_db = "(string, (string, stored) gomap) gomap"

definition fresh_db :: listed_db where
  "fresh_db = (case openBoltDB sorted_bolt [] of Inr db \<Rightarrow> db | Inl _ \<Rightarrow> [])"

abbreviation listed_base :: "(listed_db, listed_db) service_config" where
  "listed_base \<equiv> DefaultServiceConfig (persistentEventStore sorted_bolt tagged_codec)
     (persistentIDRegistry sorted_bolt tagged_codec)"

definition listed_run :: "(listed_db, listed_db) daemon" where
  "listed_run =
     (let cfg = persistent_config sorted_bolt tagged_codec listed_base; d = initial_daemon cfg fresh_db fresh_db in
      case CreateSandbox cfg no_host 100 [] sample_request (dm_service d) of
        Some (s, ts, r) \<Rightarrow> spawn s ts d | None \<Rightarrow> d)"

lemma listed_run_reachable:
  "reachable (persistent_config sorted_bolt tagged_codec listed_base) fresh_db fresh_db listed_run"
proof -
  let ?cfg = "persistent_config sorted_bolt tagged_codec listed_base"
  let ?d = "initial_daemon ?cfg fresh_db fresh_db"
  have b: "list_all (\<lambda>(k, rec). length (sr_events rec) < 100) (svc_boxes (dm_service listed_run))"
    by code_simp
  show ?thesis
  proof (cases "CreateSandbox ?cfg no_host 100 [] sample_request (dm_service ?d)")
    case None
    then show ?thesis by (simp add: listed_run_def Let_def reachable.init)
  next
    case (Some r)
    then obtain s ts x where c: "CreateSandbox ?cfg no_host 100 [] sample_request (dm_service ?d) = Some (s, ts, x)"
      by (cases r) auto
    then have l: "listed_run = spawn s ts ?d" by (simp add: listed_run_def Let_def)
    show ?thesis
      using reachable.step [OF reachable.init daemon_step.rpc_create [OF c]] log_bound_small [OF b]
      by (simp add: l)
  qed
qed

theorem persistent_run_durable_witness:
  "\<exists>rec. gm_get (svc_boxes (dm_service listed_run)) ''box-1'' = Some rec \<and> map ev_sequence (sr_events rec) = [1]"
proof -
  have o: "openBoltDB sorted_bolt ([] :: listed_db) = Inr fresh_db" by code_simp
  have e: "\<forall>n. bo_items sorted_bolt ([] :: listed_db) n = None" by (simp add: sorted_bolt_def)
  have "map_option (\<lambda>rec. length (sr_events rec)) (gm_get (svc_boxes (dm_service listed_run)) ''box-1'') = Some 1"
    by code_simp
  then obtain rec where r: "gm_get (svc_boxes (dm_service listed_run)) ''box-1'' = Some rec"
    and n: "length (sr_events rec) = 1" by auto
  from persistent_run_durable [OF sorted_store.bolt_store_axioms e o listed_run_reachable r] n r
  show ?thesis by simp
qed

section \<open>Keys\<close>

text \<open>
  Sequence numbers and times survive their 8-byte encoding, and the keys of a log sort bytewise as
  its sequence numbers do, over the whole range of \<^verbatim>\<open>uint64\<close>.
\<close>
theorem sequence_keys_faithful:
  "decodeUint64 (encodeUint64 q) = Some q
    \<and> (key_of_bytes (encodeUint64 p) < key_of_bytes (encodeUint64 q) \<longleftrightarrow> p < q)
    \<and> length (encodeUint64 q) = 8
    \<and> (- (2 ^ 63) \<le> t \<and> t < 2 ^ 63 \<longrightarrow> decodeInt64 (encodeInt64 t) = Some t)"
  using decode_encode_uint64 [of q] sequence_key_less [of p q] decode_encode_int64 [of t]
  by (simp add: sequence_key_def int64_time_def)

theorem sequence_keys_faithful_witness: "decodeInt64 (encodeInt64 (- 5)) = Some (- 5)"
  using sequence_keys_faithful [of 0 0 "- 5"] by simp

end
