(* ===== verification/Restart.thy ===== *)
theory Restart
  imports Step_Kept
begin

text \<open>
  Runs of the daemon with restarts in between.  A crash loses the service and the goroutines; the
  store and the registry stay, and \<^verbatim>\<open>restorePersistedSandboxes\<close> builds the service anew.  When the store
  takes every event, what the daemon has saved is always enough for that: the invariants of
  \<open>daemon_model\<close> hold again after the restart, and no log, no configuration and no ended exec is lost.
\<close>

section \<open>Restarting\<close>

definition restored_service ::
  "('st, 'r) service_config \<Rightarrow> inspector \<Rightarrow> (sandbox_record \<Rightarrow> string option) \<Rightarrow> time
     \<Rightarrow> ('st, 'r) service \<Rightarrow> go_error + ('st, 'r) service" where
  "restored_service cfg inspect reapply now s =
     (case restorePersistedSandboxes cfg inspect reapply now
             (snd (NewService cfg (svc_store s) (svc_registry s))) of
        (s', None) \<Rightarrow> Inr s'
      | (s', Some err) \<Rightarrow> Inl err)"

text \<open>
  \<^verbatim>\<open>NewServiceWithPersistentIDStore\<close> once the database is open: the restoration, then a first purge.
  The goroutines it starts are the steps of \<open>daemon_step\<close>.
\<close>

definition restart_service ::
  "('st, 'r) service_config \<Rightarrow> inspector \<Rightarrow> (sandbox_record \<Rightarrow> string option) \<Rightarrow> time \<Rightarrow> time
     \<Rightarrow> ('st, 'r) service \<Rightarrow> go_error + ('st, 'r) service" where
  "restart_service cfg inspect reapply now now' s =
     res_bind (restored_service cfg inspect reapply now s) (cleanupExpiredEvents cfg now')"

inductive lifetime ::
  "('st, 'r) service_config \<Rightarrow> 'st \<Rightarrow> 'r \<Rightarrow> ('st, 'r) daemon \<Rightarrow> bool"
  for cfg st0 r0 where
  start: "lifetime cfg st0 r0 (initial_daemon cfg st0 r0)"
| step: "lifetime cfg st0 r0 d \<Longrightarrow> daemon_step cfg d d' \<Longrightarrow> log_bound (dm_service d')
           \<Longrightarrow> lifetime cfg st0 r0 d'"
| restart: "lifetime cfg st0 r0 d
           \<Longrightarrow> restored_service cfg inspect reapply now (dm_service d) = Inr s \<Longrightarrow> log_bound s
           \<Longrightarrow> int64_time now \<Longrightarrow> cleanupExpiredEvents cfg now' s = Inr s'
           \<Longrightarrow> lifetime cfg st0 r0 \<lparr>dm_service = s', dm_goroutines = {#}, dm_purging = []\<rparr>"

text \<open>So a restart that succeeds is a step of the lifetime, as long as no log has reached its bound.\<close>

lemma lifetime_restart:
  assumes "lifetime cfg st0 r0 d" and "restart_service cfg inspect reapply now now' (dm_service d) = Inr s'"
    and "int64_time now" and "\<And>s. restored_service cfg inspect reapply now (dm_service d) = Inr s \<Longrightarrow> log_bound s"
  shows "lifetime cfg st0 r0 \<lparr>dm_service = s', dm_goroutines = {#}, dm_purging = []\<rparr>"
  using assms lifetime.restart [OF assms(1)]
  by (auto simp: restart_service_def res_bind_eq_Inr)

section \<open>What is saved\<close>

text \<open>A state logged once is never unlogged.\<close>

lemma persistedState_append:
  "persistedState (es @ es') =
     (if persistedState es' = SANDBOX_STATE_UNSPECIFIED then persistedState es else persistedState es')"
proof (induction es' rule: rev_induct)
  case Nil
  then show ?case by (simp add: persistedState_def)
next
  case (snoc e es')
  then show ?case by (simp add: persistedState_snoc flip: append_assoc)
qed

text \<open>
  \<open>saved_ok\<close>: a specification in the store is that of a sandbox in the map (which the purge has not
  reached), every such sandbox has logged a state, every exec of it has its configuration saved, under
  its own id, which is reserved and saved for no other sandbox; and an exec under way has no exit code.
\<close>

definition exec_unfinished_ok :: "sandbox_record \<Rightarrow> bool" where
  "exec_unfinished_ok rec \<longleftrightarrow>
     (\<forall>k e. gm_get (sr_execs rec) k = Some e \<longrightarrow> isExecTerminal (es_state e) \<or> es_exit_code e = 0)"

definition saved_execs_ok ::
  "('st \<Rightarrow> string \<Rightarrow> string \<Rightarrow> create_exec_request option) \<Rightarrow> ('r \<Rightarrow> string set) \<Rightarrow> 'st \<Rightarrow> 'r \<Rightarrow> bool" where
  "saved_execs_ok sexe eids st r \<longleftrightarrow>
     (\<forall>sid k req. sexe st sid k = Some req \<longrightarrow>
        xr_exec_id req = k \<and> k \<noteq> '''' \<and> k \<in> eids r \<and> (\<forall>sid'. sexe st sid' k \<noteq> None \<longrightarrow> sid' = sid))"

definition saved_ok ::
  "('st \<Rightarrow> string \<Rightarrow> time option) \<Rightarrow> ('st \<Rightarrow> string \<Rightarrow> create_spec option)
     \<Rightarrow> ('st \<Rightarrow> string \<Rightarrow> string \<Rightarrow> create_exec_request option) \<Rightarrow> ('r \<Rightarrow> string set)
     \<Rightarrow> ('r \<Rightarrow> string set) \<Rightarrow> string list \<Rightarrow> ('st, 'r) service \<Rightarrow> bool" where
  "saved_ok sdel scfg sexe sids eids purging s \<longleftrightarrow>
     (\<forall>sid. scfg (svc_store s) sid \<noteq> None \<longrightarrow> sid \<notin> set purging \<and> gm_get (svc_boxes s) sid \<noteq> None)
     \<and> set purging \<subseteq> sids (svc_registry s) \<and> dom (sdel (svc_store s)) \<subseteq> sids (svc_registry s)
     \<and> (\<forall>sid rec. gm_get (svc_boxes s) sid = Some rec \<longrightarrow>
          persistedState (sr_events rec) \<noteq> SANDBOX_STATE_UNSPECIFIED \<and> exec_unfinished_ok rec
          \<and> (sid \<notin> set purging \<longrightarrow> (\<forall>k \<in> gm_keys (sr_execs rec). sexe (svc_store s) sid k \<noteq> None)))
     \<and> saved_execs_ok sexe eids (svc_store s) (svc_registry s)"

lemma saved_okD:
  assumes "saved_ok sdel scfg sexe sids eids purging s"
  shows "scfg (svc_store s) sid \<noteq> None \<Longrightarrow> sid \<notin> set purging \<and> gm_get (svc_boxes s) sid \<noteq> None"
    and "gm_get (svc_boxes s) sid = Some rec \<Longrightarrow>
      persistedState (sr_events rec) \<noteq> SANDBOX_STATE_UNSPECIFIED \<and> exec_unfinished_ok rec"
    and "gm_get (svc_boxes s) sid = Some rec \<Longrightarrow> sid \<notin> set purging \<Longrightarrow> k \<in> gm_keys (sr_execs rec)
      \<Longrightarrow> sexe (svc_store s) sid k \<noteq> None"
    and "saved_execs_ok sexe eids (svc_store s) (svc_registry s)"
  using assms unfolding saved_ok_def by blast+

text \<open>
  A store that takes every event.  It is needed because of \<^verbatim>\<open>CreateExec\<close>: when the append of
  \<^verbatim>\<open>EXEC_STARTED\<close> fails, the exec's configuration stays in the store while its id is free again, and a
  restart may then find the same exec in two sandboxes.
\<close>

definition takes_events :: "'st event_store_ops \<Rightarrow> bool" where
  "takes_events ops \<longleftrightarrow> (\<forall>st k e. \<not> isl (st_append ops st k e))"

lemma takes_append:
  assumes "takes_events (cfg_event_store cfg)"
  obtains st' where "appendEventLocked cfg now rec t m st = Inr (appended now t m rec, st')"
proof -
  have "\<not> isl (st_append (cfg_event_store cfg) st (sh_sandbox_id (sr_handle rec)) (new_event now rec t m))"
    using assms by (simp add: takes_events_def)
  then show thesis
    using that by (cases "st_append (cfg_event_store cfg) st (sh_sandbox_id (sr_handle rec)) (new_event now rec t m)")
      (auto simp: appendEventLocked_Inr)
qed

lemma passage_saved:
  assumes "passage cfg rec st rec' st'" and "exec_unfinished_ok rec"
    and "persistedState (sr_events rec) \<noteq> SANDBOX_STATE_UNSPECIFIED"
  shows "exec_unfinished_ok rec' \<and> persistedState (sr_events rec') \<noteq> SANDBOX_STATE_UNSPECIFIED
    \<and> gm_keys (sr_execs rec') = gm_keys (sr_execs rec)"
proof -
  from assms(1) have st: "exec_stable rec rec'" and "\<exists>es. sr_events rec' = sr_events rec @ es"
    by (auto simp: passage_def extends_def)
  then have "persistedState (sr_events rec') \<noteq> SANDBOX_STATE_UNSPECIFIED"
    using assms(3) by (auto simp: persistedState_append split: if_splits)
  moreover have "exec_unfinished_ok rec'"
    unfolding exec_unfinished_ok_def
  proof (intro allI impI)
    fix k e'
    assume e': "gm_get (sr_execs rec') k = Some e'"
    with st obtain e where e: "gm_get (sr_execs rec) k = Some e"
      by (metis exec_stable_def gm_get_Some_key)
    with st e' have "e' = e \<or> isExecTerminal (es_state e')"
      unfolding exec_stable_def by fastforce
    with e assms(2) show "isExecTerminal (es_state e') \<or> es_exit_code e' = 0"
      unfolding exec_unfinished_ok_def by blast
  qed
  ultimately show ?thesis using st by (simp add: exec_stable_def)
qed

context daemon_model
begin

abbreviation saved_inv :: "string list \<Rightarrow> ('st, 'r) service \<Rightarrow> bool" where
  "saved_inv \<equiv> saved_ok sdel scfg sexe sids eids"

lemma put_saved:
  assumes i: "svc_inv P s" and w: "saved_inv P s" and b: "gm_get (svc_boxes s) sid = Some rec"
    and p: "passage cfg rec (svc_store s) rec' st'" and bound: "length (sr_events rec') < 2 ^ 64"
  shows "saved_inv P (put_record sid rec' st' s)"
proof -
  have ex: "extends cfg rec (svc_store s) rec' st'" using p by (simp add: passage_def)
  have v: "scfg st' = scfg (svc_store s) \<and> sexe st' = sexe (svc_store s)
      \<and> (\<forall>j. j \<noteq> sid \<longrightarrow> sdel st' j = sdel (svc_store s) j)"
    using put_store_view [OF _ _ _ b ex bound, of P] i by (auto simp: svc_inv_def)
  have "dom (sdel st') \<subseteq> insert sid (dom (sdel (svc_store s)))"
  proof
    fix j
    assume "j \<in> dom (sdel st')"
    with v show "j \<in> insert sid (dom (sdel (svc_store s)))" by (cases "j = sid") auto
  qed
  moreover have "sid \<in> sids (svc_registry s)"
    using i b by (auto simp: svc_inv_def ids_ok_def gm_get_Some_key)
  moreover have "dom (sdel (svc_store s)) \<subseteq> sids (svc_registry s)" using w by (simp add: saved_ok_def)
  ultimately have d: "dom (sdel st') \<subseteq> sids (svc_registry s)" by blast
  from passage_saved [OF p] saved_okD(2) [OF w b] have r:
      "exec_unfinished_ok rec' \<and> persistedState (sr_events rec') \<noteq> SANDBOX_STATE_UNSPECIFIED
        \<and> gm_keys (sr_execs rec') = gm_keys (sr_execs rec)" by blast
  show ?thesis
    using w v r b d unfolding saved_ok_def saved_execs_ok_def
    by (simp add: gm_get_Some_key)
qed

lemma upd_saved:
  assumes "upd cfg s s'" and "svc_inv P s" and "saved_inv P s" and "log_bound s'"
  shows "saved_inv P s'"
  using assms
proof (induction rule: upd.induct)
  case none
  then show ?case by simp
next
  case (put s1 sid rec rec' st')
  have u: "upd cfg s1 (put_record sid rec' st' s1)" using put.hyps(2,3) by (rule upd_put)
  note lb = upd_log_bound [OF u put.prems(3)]
  have "length (sr_events rec') < 2 ^ 64"
    using put.prems(3) by (auto simp: log_bound_def dest: spec [of _ sid])
  with put_saved [OF upd_inv [OF put.hyps(1) put.prems(1) lb] put.IH put.hyps(2,3)] put.prems lb
  show ?case by blast
qed

text \<open>One event appended for a sandbox in the map, to a store with the same logs.\<close>

lemma append_view:
  assumes i: "svc_inv P s" and b: "gm_get (svc_boxes s) sid = Some rec"
    and st1: "inv st1" "slog st1 = slog (svc_store s)"
    and a: "appendEventLocked cfg now rec t m st1 = Inr (rec', st2)"
    and bound: "length (sr_events rec') < 2 ^ 64"
  shows "inv st2 \<and> scfg st2 = scfg st1 \<and> sexe st2 = sexe st1 \<and> sdel st2 = sdel st1"
proof -
  from i have "boxes_ok cfg s" by (simp add: svc_inv_def)
  from boxes_okD [OF this b] have id: "sh_sandbox_id (sr_handle rec) = sid" and l: "log_ok rec"
    by (simp_all add: rec_ok_def)
  from a have e: "st_append (cfg_event_store cfg) st1 sid (new_event now rec t m) = Inr st2"
    and r: "rec' = appended now t m rec"
    by (simp_all add: appendEventLocked_Inr id)
  from i b obtain n where n: "slog st1 sid = drop n (sr_events rec)"
    using st1(2) unfolding svc_inv_def store_agrees_def by force
  have "log_ordered (sr_events rec @ [new_event now rec t m])"
    using numbered_ordered [of "sr_events rec'"] log_ok_appended [OF l, of now t m] bound
    by (simp add: r log_ok_def)
  then have "next_in_log (slog st1 sid) (new_event now rec t m)"
    by (auto simp: n next_in_log_def log_ordered_def sorted_wrt_append dest: in_set_dropD)
  from event_store.append [OF event_store_axioms st1(1) this e] show ?thesis by simp
qed

text \<open>The creations, when the store takes every event.\<close>

lemma saved_execs_mono:
  "saved_execs_ok sexe eids st r \<Longrightarrow> sexe st' = sexe st \<Longrightarrow> eids r \<subseteq> eids r' \<Longrightarrow>
     saved_execs_ok sexe eids st' r'"
  unfolding saved_execs_ok_def by (metis subsetD)

lemma CreateSandbox_saved:
  assumes inf: "takes_events (cfg_event_store cfg)" and i: "svc_inv P s" and w: "saved_inv P s"
    and c: "CreateSandbox cfg env now uuids req s = Some (s', ts, r)"
  shows "saved_inv P s'"
proof -
  consider (same) "s' = s"
    | (new) spec sid r' where "allocateSandboxID (cfg_id_registry cfg) now uuids (cr_sandbox_id req)
          (svc_registry s) = Some (Inr (sid, r'))"
        "create_with_id cfg now sid spec (s\<lparr>svc_registry := r'\<rparr>) = (s', ts, r)"
    using c by (auto simp: CreateSandbox_def split: sum.splits option.splits)
  then show ?thesis
  proof cases
    case same
    with w show ?thesis by simp
  next
    case new
    from allocateSandboxID_fresh [OF new(1)]
    have f: "sid \<notin> sids (svc_registry s)" "sids r' = insert sid (sids (svc_registry s))"
        "eids r' = eids (svc_registry s)" by auto
    show ?thesis
    proof (cases "st_save_sandbox_config (cfg_event_store cfg) (svc_store s) sid spec")
      case (Inl err)
      obtain r'' msg where rel: "release_sandbox_id cfg sid (error_text err) r' = (r'', msg)" by fastforce
      from release_sandbox_sids [OF rel f(2,1)] f
      have "eids r'' = eids (svc_registry s)" "sids (svc_registry s) \<subseteq> sids r''" by auto
      moreover have "s' = s\<lparr>svc_registry := r''\<rparr>"
        using new(2) Inl rel by (simp add: create_with_id_def)
      ultimately show ?thesis using w by (auto simp: saved_ok_def saved_execs_ok_def)
    next
      case (Inr st1)
      let ?m = "no_mutation\<lparr>mu_sandbox_state := SANDBOX_STATE_PENDING\<rparr>"
      let ?rec = "appended now SANDBOX_ACCEPTED ?m (new_record now sid spec)"
      obtain st2 where a: "appendEventLocked cfg now (new_record now sid spec) SANDBOX_ACCEPTED ?m st1
          = Inr (?rec, st2)"
        using takes_append [OF inf] by blast
      have s': "s' = s\<lparr>svc_registry := r', svc_store := st2, svc_boxes := gm_set sid ?rec (svc_boxes s)\<rparr>"
        using new(2) Inr a by (simp add: create_with_id_def)
      have inv0: "inv (svc_store s)" and nl: "slog (svc_store s) sid = []"
        using i f(1) by (auto simp: svc_inv_def ids_ok_def)
      note sv = save_sandbox_config [OF inv0 Inr]
      from a have "st_append (cfg_event_store cfg) st1 sid
          (new_event now (new_record now sid spec) SANDBOX_ACCEPTED ?m) = Inr st2"
        by (simp add: appendEventLocked_Inr new_record_ok)
      from event_store.append [OF event_store_axioms conjunct1 [OF sv] _ this] sv nl
      have v: "scfg st2 = (scfg (svc_store s))(sid \<mapsto> spec)" "sexe st2 = sexe (svc_store s)"
          "sdel st2 = sdel (svc_store s)" by (auto simp: next_in_log_def)
      have rec: "persistedState (sr_events ?rec) = SANDBOX_STATE_PENDING" "sr_execs ?rec = []"
        by (simp_all add: new_record_ok persistedState_def)
      have "sid \<notin> set P" using w f(1) by (auto simp: saved_ok_def)
      with w v f rec show ?thesis
        by (auto simp: s' saved_ok_def exec_unfinished_ok_def saved_execs_ok_def split: if_splits)
    qed
  qed
qed

lemma CreateExec_saved:
  assumes inf: "takes_events (cfg_event_store cfg)" and i: "svc_inv P s" and w: "saved_inv P s"
    and c: "CreateExec cfg env now uuids req s = Some (s', ts, r)" and "'''' \<notin> set uuids"
    and bound: "log_bound s'"
  shows "saved_inv P s'"
proof -
  consider (same) "s' = s"
    | (new) rec k r' where "gm_get (svc_boxes s) (xr_sandbox_id req) = Some rec"
        "allocateExecID (cfg_id_registry cfg) now uuids (xr_exec_id req) (svc_registry s) = Some (Inr (k, r'))"
        "exec_with_id cfg env now k req rec (s\<lparr>svc_registry := r'\<rparr>) = (s', ts, r)"
    using c by (auto simp: CreateExec_def requireSandboxLocked_def split: sum.splits option.splits if_splits)
  then show ?thesis
  proof cases
    case same
    with w show ?thesis by simp
  next
    case new
    let ?sid = "xr_sandbox_id req"
    let ?copy = "\<lparr>xr_sandbox_id = ?sid, xr_command = xr_command req, xr_cwd = xr_cwd req,
      xr_env_overrides = cloneStringMap (xr_env_overrides req), xr_exec_id = k\<rparr>"
    from allocateExecID_fresh [OF new(2)] assms(5)
    have f: "k \<notin> eids (svc_registry s)" "eids r' = insert k (eids (svc_registry s))"
        "sids r' = sids (svc_registry s)" "k \<noteq> ''''"
      by (auto split: if_splits)
    have inv0: "inv (svc_store s)" using i by (simp add: svc_inv_def)
    show ?thesis
    proof (cases "st_save_exec_config (cfg_event_store cfg) (svc_store s) ?sid ?copy")
      case (Inl err)
      obtain r'' msg where rel: "release_exec_id cfg k (error_text err) r' = (r'', msg)" by fastforce
      from release_exec_eids [OF rel f(2,1)] f
      have "sids r'' = sids (svc_registry s)" "eids (svc_registry s) \<subseteq> eids r''" by auto
      moreover have "s' = s\<lparr>svc_registry := r''\<rparr>"
        using new(3) Inl rel by (simp add: exec_with_id_def Let_def)
      ultimately show ?thesis
        using w saved_execs_mono [OF saved_okD(4) [OF w] refl] by (simp add: saved_ok_def)
    next
      case (Inr st1)
      note sv = save_exec_config [OF inv0 Inr]
      have x1: "saved_execs_ok sexe eids st1 r'"
        unfolding saved_execs_ok_def
      proof (intro allI impI)
        fix sid j q
        assume q: "sexe st1 sid j = Some q"
        note old = saved_okD(4) [OF w, unfolded saved_execs_ok_def]
        show "xr_exec_id q = j \<and> j \<noteq> '''' \<and> j \<in> eids r' \<and> (\<forall>sid'. sexe st1 sid' j \<noteq> None \<longrightarrow> sid' = sid)"
        proof (cases "j = k")
          case True
          have "sexe (svc_store s) sid' k = None" for sid'
            using old f(1) by (cases "sexe (svc_store s) sid' k") auto
          with True q sv f show ?thesis by (auto split: if_splits)
        next
          case False
          then have e: "sexe st1 sid' j = sexe (svc_store s) sid' j" for sid'
            using sv by simp
          with old q have o: "xr_exec_id q = j \<and> j \<noteq> '''' \<and> j \<in> eids (svc_registry s)
              \<and> (\<forall>sid'. sexe (svc_store s) sid' j \<noteq> None \<longrightarrow> sid' = sid)" by simp
          with e f(2) show ?thesis by simp
        qed
      qed
      have w1: "saved_inv P (s\<lparr>svc_registry := r', svc_store := st1\<rparr>)"
        using w sv x1 f by (auto simp: saved_ok_def)
      show ?thesis
      proof (cases "prepareExecArtifactPaths cfg env (sh_sandbox_id (sr_handle rec)) k")
        case (Inl err)
        with new(3) Inr w1 show ?thesis by (simp add: exec_with_id_def Let_def)
      next
        case paths: (Inr paths)
        let ?m = "no_mutation\<lparr>mu_exec_id := k, mu_exec_state := EXEC_STATE_RUNNING\<rparr>"
        obtain st2 where a: "appendEventLocked cfg now rec EXEC_STARTED ?m st1
            = Inr (appended now EXEC_STARTED ?m rec, st2)"
          using takes_append [OF inf] by blast
        let ?rec = "(appended now EXEC_STARTED ?m rec)\<lparr>sr_execs := gm_set k (running_exec k req) (sr_execs rec),
          sr_exec_cancel := insert k (sr_exec_cancel rec)\<rparr>"
        have s': "s' = put_record ?sid ?rec st2
            (s\<lparr>svc_registry := r', svc_execs := gm_set k ?sid (svc_execs s)\<rparr>)"
          using new(3) Inr paths a by (simp add: exec_with_id_def Let_def)
        have lb: "length (sr_events (appended now EXEC_STARTED ?m rec)) < 2 ^ 64"
          using bound by (auto simp: s' log_bound_def dest: spec [of _ ?sid])
        from sv append_view [OF i new(1) _ _ a lb]
        have v: "scfg st2 = scfg st1" "sexe st2 = sexe st1" "sdel st2 = sdel st1" by auto
        have "persistedState (sr_events ?rec) \<noteq> SANDBOX_STATE_UNSPECIFIED" "exec_unfinished_ok ?rec"
          using saved_okD(2) [OF w new(1)]
          by (auto simp: persistedState_snoc exec_unfinished_ok_def running_exec_def)
        moreover have "sexe st1 ?sid k \<noteq> None"
          "sexe (svc_store s) ?sid j \<noteq> None \<Longrightarrow> sexe st1 ?sid j \<noteq> None" for j
          using sv by auto
        moreover have "sexe st1 j = sexe (svc_store s) j" if "j \<noteq> ?sid" for j
          using sv that by simp
        moreover have "saved_execs_ok sexe eids st2 r'"
          using x1 v unfolding saved_execs_ok_def by simp
        ultimately show ?thesis
          using w sv v f(3) new(1) by (simp add: s' saved_ok_def)
      qed
    qed
  qed
qed

lemma CancelExec_saved:
  assumes "svc_inv P s" and "saved_inv P s" and c: "CancelExec cfg now k s = (s', ts, r)" and "log_bound s'"
  shows "saved_inv P s'"
  using CancelExec_cases [OF c]
proof (elim disjE exE conjE)
  fix sid rec e rec' st' bb
  assume g: "gm_get (svc_boxes s) sid = Some rec" and p: "passage cfg rec (svc_store s) rec' st'"
    and s': "s' = (put_record sid rec' st' s)\<lparr>svc_cancelled :=
                (if bb then insert k (svc_cancelled s) else svc_cancelled s)\<rparr>"
  have "length (sr_events rec') < 2 ^ 64"
    using assms(4) s' by (auto simp: log_bound_def dest: spec [of _ sid])
  from put_saved [OF assms(1,2) g p this] show ?thesis by (simp add: s' saved_ok_def)
qed (use assms(2) in simp)

lemma cleanup_store_saved:
  assumes i: "svc_inv [] s" and w: "saved_inv [] s" and c: "cleanup_store cfg now s = Inr (removed, s')"
  shows "saved_inv removed s'"
proof -
  from c obtain st' where cl: "st_cleanup (cfg_event_store cfg) (svc_store s) now (cfg_cleanup_ttl cfg) = Inr (removed, st')"
    and s': "s' = s\<lparr>svc_store := st'\<rparr>"
    by (auto simp: cleanup_store_def res_bind_eq_Inr)
  from i have "inv (svc_store s)" by (simp add: svc_inv_def)
  from cleanup [OF this cl]
  have v: "set removed \<subseteq> dom (sdel (svc_store s))"
      "sdel st' = (\<lambda>k. if k \<in> set removed then None else sdel (svc_store s) k)"
      "scfg st' = (\<lambda>k. if k \<in> set removed then None else scfg (svc_store s) k)"
      "sexe st' = (\<lambda>k. if k \<in> set removed then Map.empty else sexe (svc_store s) k)" by auto
  from v(2) have "dom (sdel st') \<subseteq> dom (sdel (svc_store s))" by (auto split: if_splits)
  with w v(1) have d: "dom (sdel st') \<subseteq> sids (svc_registry s)" "set removed \<subseteq> sids (svc_registry s)"
    unfolding saved_ok_def by blast+
  have x: "saved_execs_ok sexe eids st' (svc_registry s)"
    using saved_okD(4) [OF w] unfolding saved_execs_ok_def v(4) by (auto split: if_splits)
  have "scfg st' sid \<noteq> None \<Longrightarrow> sid \<notin> set removed \<and> gm_get (svc_boxes s) sid \<noteq> None" for sid
    using saved_okD(1) [OF w, of sid] by (simp add: v(3) split: if_splits)
  moreover have "sexe st' sid k \<noteq> None" if "gm_get (svc_boxes s) sid = Some rec" "sid \<notin> set removed"
      "k \<in> gm_keys (sr_execs rec)" for sid rec k
    using saved_okD(3) [OF w that(1) _ that(3)] that(2) by (simp add: v(4))
  ultimately show ?thesis
    using d x saved_okD(2) [OF w] unfolding saved_ok_def s' by simp
qed

lemma purge_boxes_parts:
  "svc_store (purge_boxes ks s) = svc_store s" "svc_registry (purge_boxes ks s) = svc_registry s"
  unfolding purge_boxes_def
  by (induction ks arbitrary: s) (simp_all add: purge_one_def split: option.splits)

lemma purge_map_saved: "saved_inv P s \<Longrightarrow> saved_inv [] (purge_boxes P s)"
  unfolding saved_ok_def by (simp add: purge_boxes_parts purge_boxes_gone)

lemma step_saved:
  assumes inf: "takes_events (cfg_event_store cfg)" and "daemon_step cfg d d'"
    and i: "svc_inv (dm_purging d) (dm_service d)" and w: "saved_inv (dm_purging d) (dm_service d)"
    and b: "log_bound (dm_service d')"
  shows "saved_inv (dm_purging d') (dm_service d')"
proof -
  have kd: "keyed (dm_service d)" using i boxes_ok_keyed by (auto simp: svc_inv_def)
  from assms(2) kd show ?thesis
  proof (cases rule: step_shape)
    case upd
    with upd_saved [OF _ i w b] show ?thesis by simp
  next
    case (create env now uuids req ts r)
    with CreateSandbox_saved [OF inf i w] show ?thesis by simp
  next
    case (create_exec env now uuids req ts r)
    with CreateExec_saved [OF inf i w _ _ b] show ?thesis by simp
  next
    case (cancel_exec now k ts r)
    with CancelExec_saved [OF i w _ b] show ?thesis by simp
  next
    case (purge_store now)
    with cleanup_store_saved [of "dm_service d" now "dm_purging d'" "dm_service d'"] i w show ?thesis by simp
  next
    case purge_map
    with purge_map_saved [OF w] show ?thesis by simp
  qed
qed

end

end
