(* ===== verification/Restart_Inv.thy ===== *)
theory Restart_Inv
  imports Restart
begin

text \<open>
  A restart from what is saved gives a service that satisfies the invariants again, and keeps every
  sandbox that was there with its log, its specification and its ended execs.
\<close>

section \<open>One record being restored\<close>

text \<open>The log as \<open>log_ok\<close> has it of a record.\<close>

definition log_good :: "string \<Rightarrow> sandbox_event list \<Rightarrow> bool" where
  "log_good sid es \<longleftrightarrow> numbered es
     \<and> (\<forall>e \<in> set es. ev_sandbox_id e = sid \<and> ev_event_id e = sid @ ''-'' @ show_seqno (ev_sequence e)
          \<and> \<not> ev_replay e \<and> \<not> ev_snapshot e)"

lemma log_ok_good: "log_ok rec \<Longrightarrow> log_good (sh_sandbox_id (sr_handle rec)) (sr_events rec)"
  by (simp add: log_ok_def log_good_def)

text \<open>
  \<open>restoring sid events ks rec\<close>: the record continues the log \<open>events\<close>; the execs \<open>ks\<close> are in the
  table, ended and as the log says; of the others, and of those that had ended, the log says what
  it said.
\<close>

definition restoring :: "string \<Rightarrow> sandbox_event list \<Rightarrow> string set \<Rightarrow> sandbox_record \<Rightarrow> bool" where
  "restoring sid events ks rec \<longleftrightarrow>
     log_ok rec \<and> static_ok rec \<and> sh_sandbox_id (sr_handle rec) = sid
     \<and> gm_ok (sr_execs rec) \<and> gm_keys (sr_execs rec) = ks
     \<and> (\<forall>k e. gm_get (sr_execs rec) k = Some e \<longrightarrow>
          isExecTerminal (es_state e) \<and> exec_entry_ok (sr_events rec) sid k (Some e))
     \<and> (\<forall>k. k \<notin> ks \<or> isExecTerminal (fst (resolveExecStateFromEvents events k)) \<longrightarrow>
          resolveExecStateFromEvents (sr_events rec) k = resolveExecStateFromEvents events k)"

definition restored_to ::
  "('st, 'r) service_config \<Rightarrow> string \<Rightarrow> create_spec \<Rightarrow> sandbox_event list \<Rightarrow> string set \<Rightarrow> 'st
     \<Rightarrow> sandbox_record \<Rightarrow> 'st \<Rightarrow> bool" where
  "restored_to cfg sid spec events ks st0 rec st \<longleftrightarrow>
     restoring sid events ks rec \<and> sr_create_spec rec = spec
     \<and> (\<exists>es. sr_events rec = events @ es \<and> store_runs (cfg_event_store cfg) sid st0 es st)"

lemma restored_toD:
  assumes "restored_to cfg sid spec events ks st0 rec st"
  shows "restoring sid events ks rec" "sr_create_spec rec = spec" "sh_sandbox_id (sr_handle rec) = sid"
    "\<exists>es. sr_events rec = events @ es \<and> store_runs (cfg_event_store cfg) sid st0 es st"
  using assms by (simp_all add: restored_to_def restoring_def)

lemma restored_first:
  assumes g: "log_good sid events" and "events \<noteq> []" and "q = ev_sequence (last events)"
  shows "restored_to cfg sid spec events {} st (restored_record sid spec events q b) st"
    and "synced (restored_record sid spec events q b)"
proof -
  from g have n: "numbered events" by (simp add: log_good_def)
  from numbered_nth [OF n, of "length events - 1"] assms(2)
  have l: "ev_sequence (last events) = of_nat (length events)"
    by (simp add: last_conv_nth)
  then have "ev_sequence (events ! (length events - Suc 0)) = of_nat (length events)"
    using assms(2) by (simp add: last_conv_nth)
  with g l have "log_ok (restored_record sid spec events q b)"
    by (simp add: log_ok_def log_good_def restored_record_def restored_handle_def assms(3) Let_def)
  moreover have "static_ok (restored_record sid spec events q b)"
    by (simp add: static_ok_def restored_record_def restored_handle_def Let_def)
  ultimately show "restored_to cfg sid spec events {} st (restored_record sid spec events q b) st"
    by (auto simp: restored_to_def restoring_def restored_record_def restored_handle_def Let_def
        intro: store_runs.nil)
  show "synced (restored_record sid spec events q b)"
    by (simp add: synced_def restored_record_def restored_handle_def Let_def)
qed

lemma restored_frame:
  assumes "restored_to cfg sid spec events ks st0 rec st" and "same_log_fields rec rec'"
    and "same_identity rec rec'" and "sr_execs rec' = sr_execs rec"
  shows "restored_to cfg sid spec events ks st0 rec' st"
  using assms
  by (simp add: restored_to_def restoring_def log_ok_def static_ok_def same_log_fields_def same_identity_def)

lemma restored_append:
  assumes r: "restored_to cfg sid spec events ks st0 rec st"
    and a: "appendEventLocked cfg now rec t m st = Inr (rec', st')" and m: "mu_exec_id m = ''''"
  shows "restored_to cfg sid spec events ks st0 rec' st'"
proof -
  from a restored_toD(3) [OF r] have r': "rec' = appended now t m rec"
    and s: "st_append (cfg_event_store cfg) st sid (new_event now rec t m) = Inr st'"
    by (simp_all add: appendEventLocked_Inr)
  have "restoring sid events ks rec'"
    using restored_toD(1) [OF r] log_ok_appended [of rec now t m]
    by (simp add: r' restoring_def static_ok_def resolve_snoc resolve_other [OF m])
  with restored_toD(2,4) [OF r] s show ?thesis
    by (fastforce simp: restored_to_def r' intro: store_runs.append)
qed

lemma restored_mark:
  assumes "restored_to cfg sid spec events ks st0 rec st" and "int64_time t"
    and "st_mark_deleted (cfg_event_store cfg) st sid t = Inr st'"
  shows "restored_to cfg sid spec events ks st0 rec st'"
  using assms unfolding restored_to_def by (blast intro: store_runs.mark)

lemma same_log_fields_refl [simp]: "same_log_fields rec rec"
  by (simp add: same_log_fields_def)

lemma recover_append_done:
  "recover_append cfg now t m what rec st = ((rec', st'), None) \<longleftrightarrow>
     appendEventLocked cfg now rec t m st = Inr (rec', st')"
  by (auto simp: recover_append_def split: sum.splits)

text \<open>Entering a state: its event, the state, and fields the invariants do not look at.\<close>

lemma restored_enter:
  assumes r: "restored_to cfg sid spec events ks st0 rec st"
    and a: "appendEventLocked cfg now rec t m st = Inr (rec1, st')" and m: "mu_exec_id m = ''''"
    and "mu_sandbox_state m = x" and "x \<noteq> SANDBOX_STATE_UNSPECIFIED"
    and f: "same_log_fields (set_state x rec1) rec'" "same_identity (set_state x rec1) rec'"
      "sr_execs rec' = sr_execs (set_state x rec1)" "rec_state rec' = x"
  shows "restored_to cfg sid spec events ks st0 rec' st' \<and> synced rec'"
proof -
  have "restored_to cfg sid spec events ks st0 (set_state x rec1) st'"
    by (rule restored_frame [OF restored_append [OF r a m]]) simp_all
  from restored_frame [OF this f(1-3)] have "restored_to cfg sid spec events ks st0 rec' st'" .
  moreover have "synced (set_state x rec1)"
    using assms(4,5) by (simp add: appendEventLocked_record [OF a] synced_set_state_appended)
  then have "synced rec'" using f(1,4) by (simp add: synced_def same_log_fields_def)
  ultimately show ?thesis by simp
qed

lemma set_primary_window_frame [simp]:
  "same_log_fields rec (set_primary_window w rec)" "same_identity rec (set_primary_window w rec)"
  "sr_execs (set_primary_window w rec) = sr_execs rec"
  "sr_handle (set_primary_window w rec) = sr_handle rec"
  "sr_events (set_primary_window w rec) = sr_events rec"
  by (simp_all add: set_primary_window_def same_log_fields_def same_identity_def split: option.splits)

lemma failed_mutation_simps [simp]:
  "mu_exec_id (failed_mutation c msg) = ''''"
  "mu_sandbox_state (failed_mutation c msg) = SANDBOX_STATE_FAILED"
  by (simp_all add: failed_mutation_def)

lemma reconcile_restored_to:
  assumes c: "reconcile_restored cfg inspect reapply now sid rec st = ((rec', st'), None)"
    and r: "restored_to cfg sid spec events ks st0 rec st" and s: "synced rec" and t: "int64_time now"
  shows "restored_to cfg sid spec events ks st0 rec' st' \<and> synced rec'"
proof (cases "rec_state rec")
  case SANDBOX_STATE_READY
  from c SANDBOX_STATE_READY have "(rec' = rec \<or> (\<exists>w. rec' = set_primary_window w rec)) \<and> st' = st
      \<or> (\<exists>rec1 msg. appendEventLocked cfg now rec SANDBOX_FAILED (failed_mutation containerNotRunning msg) st
            = Inr (rec1, st') \<and> rec' = set_state SANDBOX_STATE_FAILED rec1)"
    by (auto simp: reconcile_restored_def recover_append_done split: sum.splits if_splits option.splits prod.splits)
  then show ?thesis
  proof (elim disjE conjE exE)
    fix w
    assume "rec' = set_primary_window w rec" "st' = st"
    with restored_frame [OF r, of rec'] s show ?thesis by (simp add: synced_def)
  next
    fix rec1 msg
    assume a: "appendEventLocked cfg now rec SANDBOX_FAILED (failed_mutation containerNotRunning msg) st = Inr (rec1, st')"
      and "rec' = set_state SANDBOX_STATE_FAILED rec1"
    then show ?thesis by (intro restored_enter [OF r a]) simp_all
  qed (use r s in simp)
next
  case SANDBOX_STATE_STOPPED
  from c SANDBOX_STATE_STOPPED have "rec' = rec \<and> st' = st
      \<or> (\<exists>rec1 msg. appendEventLocked cfg now rec SANDBOX_FAILED (failed_mutation containerNotRunning msg) st
            = Inr (rec1, st') \<and> rec' = (set_state SANDBOX_STATE_FAILED rec1)\<lparr>sr_runtime_state := None\<rparr>)"
    by (auto simp: reconcile_restored_def recover_append_done split: sum.splits if_splits option.splits prod.splits)
  then show ?thesis
  proof (elim disjE conjE exE)
    fix rec1 msg
    assume a: "appendEventLocked cfg now rec SANDBOX_FAILED (failed_mutation containerNotRunning msg) st = Inr (rec1, st')"
      and "rec' = (set_state SANDBOX_STATE_FAILED rec1)\<lparr>sr_runtime_state := None\<rparr>"
    then show ?thesis
      by (intro restored_enter [OF r a]) (simp_all add: same_log_fields_def same_identity_def)
  qed (use r s in simp)
next
  case SANDBOX_STATE_PENDING
  from c SANDBOX_STATE_PENDING obtain rec1 code msg where
      a: "appendEventLocked cfg now rec SANDBOX_FAILED (failed_mutation code msg) st = Inr (rec1, st')"
    and "rec' = (set_state SANDBOX_STATE_FAILED rec1)\<lparr>sr_runtime_state := None\<rparr>"
    by (auto simp: reconcile_restored_def recover_append_done split: option.splits prod.splits)
  then show ?thesis
    by (intro restored_enter [OF r a]) (simp_all add: same_log_fields_def same_identity_def)
next
  case SANDBOX_STATE_DELETING
  from c SANDBOX_STATE_DELETING obtain rec1 st1 where
      a: "appendEventLocked cfg now rec SANDBOX_DELETED (no_mutation\<lparr>mu_reason := ''daemon_restart_cleanup'',
            mu_sandbox_state := SANDBOX_STATE_DELETED\<rparr>) st = Inr (rec1, st1)"
    and d: "st_mark_deleted (cfg_event_store cfg) st1 sid now = Inr st'"
    and rec': "rec' = (set_state SANDBOX_STATE_DELETED rec1)
            \<lparr>sr_deleted_at_recorded := True, sr_runtime_state := None\<rparr>"
    by (auto simp: reconcile_restored_def recover_append_done split: option.splits prod.splits sum.splits)
  have "restored_to cfg sid spec events ks st0 rec' st1 \<and> synced rec'"
    by (rule restored_enter [OF r a]) (simp_all add: rec' same_log_fields_def same_identity_def)
  with restored_mark [OF _ t d] show ?thesis by blast
next
  case SANDBOX_STATE_DELETED
  with c have "rec' = rec\<lparr>sr_runtime_state := None\<rparr> \<and> st' = st" by (simp add: reconcile_restored_def)
  with restored_frame [OF r, of rec'] s show ?thesis
    by (simp add: same_log_fields_def same_identity_def synced_def)
qed (use c r s in \<open>simp_all add: reconcile_restored_def\<close>)

section \<open>Its execs\<close>

lemma resolve_split: "\<exists>ecode. resolveExecStateFromEvents es k =
    (fst (resolveExecStateFromEvents es k), fst (snd (resolveExecStateFromEvents es k)), ecode,
     snd (snd (snd (resolveExecStateFromEvents es k))))"
  by (cases "resolveExecStateFromEvents es k") auto

lemma restore_exec_to:
  assumes c: "restore_exec cfg now sid events x ((rec, st), index) = (((rec', st'), index'), None)"
    and r: "restored_to cfg sid spec events ks st0 rec st" and s: "synced rec"
    and k: "xr_exec_id x \<noteq> ''''"
    and code: "isExecTerminal (fst (resolveExecStateFromEvents events (xr_exec_id x)))
                 \<or> fst (snd (resolveExecStateFromEvents events (xr_exec_id x))) = 0"
  shows "restored_to cfg sid spec events (insert (xr_exec_id x) ks) st0 rec' st' \<and> synced rec'
    \<and> index' = gm_set (xr_exec_id x) sid index"
proof -
  let ?k = "xr_exec_id x"
  note rs = restored_toD(1) [OF r, unfolded restoring_def]
  obtain state ec err msg where res: "resolveExecStateFromEvents events ?k = (state, ec, err, msg)"
    by (cases "resolveExecStateFromEvents events ?k") auto
  show ?thesis
  proof (cases "isExecTerminal state")
    case True
    define e where "e = \<lparr>es_exec_id = ?k, es_sandbox_id = sid, es_state = state,
      es_command = xr_command x, es_cwd = xr_cwd x, es_env_overrides = xr_env_overrides x,
      es_exit_code = ec, es_error = msg, es_last_event_sequence = 0\<rparr>"
    have "state \<noteq> EXEC_STATE_RUNNING" "state \<noteq> EXEC_STATE_UNSPECIFIED"
      using True by (auto simp: isExecTerminal_def)
    with c res have rec': "rec' = rec\<lparr>sr_execs := gm_set ?k e (sr_execs rec)\<rparr>"
      and st': "st' = st" "index' = gm_set ?k sid index"
      by (auto simp: restore_exec_def Let_def e_def)
    have "resolveExecStateFromEvents (sr_events rec) ?k = (state, ec, err, msg)"
      using rs res True by simp
    then have ok: "exec_entry_ok (sr_events rec) sid ?k (Some e)" using k by (simp add: e_def)
    have "restoring sid events (insert ?k ks) rec'"
      using rs ok True by (auto simp: rec' restoring_def log_ok_def static_ok_def e_def)
    with restored_toD(2,4) [OF r] s show ?thesis by (simp add: restored_to_def rec' st' synced_def)
  next
    case False
    let ?msg = "''exec was running when daemon restarted''"
    let ?m = "no_mutation\<lparr>mu_exec_id := ?k, mu_error_code := ''DAEMON_RESTARTED'',
      mu_error_message := ?msg, mu_exec_state := EXEC_STATE_FAILED\<rparr>"
    define e where "e = \<lparr>es_exec_id = ?k, es_sandbox_id = sid, es_state = EXEC_STATE_FAILED,
      es_command = xr_command x, es_cwd = xr_cwd x, es_env_overrides = xr_env_overrides x,
      es_exit_code = ec, es_error = ?msg, es_last_event_sequence = 0\<rparr>"
    have ru: "state = EXEC_STATE_RUNNING \<or> state = EXEC_STATE_UNSPECIFIED"
      using False by (cases state) (simp_all add: isExecTerminal_def)
    with c res obtain rec1 where a: "appendEventLocked cfg now rec EXEC_FAILED ?m st = Inr (rec1, st')"
      and rec1: "rec' = rec1\<lparr>sr_execs := gm_set ?k e (sr_execs rec1)\<rparr>"
      and index: "index' = gm_set ?k sid index"
      by (auto simp: restore_exec_def Let_def e_def split: sum.splits)
    have rec': "rec' = (appended now EXEC_FAILED ?m rec)\<lparr>sr_execs := gm_set ?k e (sr_execs rec)\<rparr>"
      by (simp add: rec1 appendEventLocked_record [OF a])
    have st': "st_append (cfg_event_store cfg) st sid (new_event now rec EXEC_FAILED ?m) = Inr st'"
      using a restored_toD(3) [OF r] by (simp add: appendEventLocked_Inr)
    have m0: "mu_exit_code ?m = 0" by (simp add: no_mutation_def)
    have step: "resolve_exec_step j (new_event now rec EXEC_FAILED ?m) acc =
        (if j = ?k then (EXEC_STATE_FAILED, 0, ''DAEMON_RESTARTED'', ?msg) else acc)" for j acc
      using resolve_step_exec [of ?m j now rec EXEC_FAILED] k m0 by (cases acc) auto
    have ec: "ec = 0" using code res False by simp
    have l: "log_ok rec'" using rs log_ok_appended [of rec now EXEC_FAILED ?m] by (simp add: rec' log_ok_def)
    have "restoring sid events (insert ?k ks) rec'"
      unfolding restoring_def
    proof (intro conjI allI impI)
      fix j f
      assume f: "gm_get (sr_execs rec') j = Some f"
      show "isExecTerminal (es_state f)"
        using f rs by (auto simp: rec' e_def isExecTerminal_def split: if_splits)
      show "exec_entry_ok (sr_events rec') sid j (Some f)"
      proof (cases "j = ?k")
        case True
        with f have "f = e" by (simp add: rec')
        with True k ec step show ?thesis by (simp add: rec' resolve_snoc e_def)
      next
        case False
        with f rs step show ?thesis by (simp add: rec' resolve_snoc)
      qed
    next
      fix j
      assume "j \<notin> insert ?k ks \<or> isExecTerminal (fst (resolveExecStateFromEvents events j))"
      with res False have "j \<noteq> ?k" and "j \<notin> ks \<or> isExecTerminal (fst (resolveExecStateFromEvents events j))"
        by auto
      with rs step show "resolveExecStateFromEvents (sr_events rec') j = resolveExecStateFromEvents events j"
        by (simp add: rec' resolve_snoc)
    qed (use l rs in \<open>simp_all add: rec' static_ok_def\<close>)
    moreover have "\<exists>es. sr_events rec' = events @ es \<and> store_runs (cfg_event_store cfg) sid st0 es st'"
      using restored_toD(4) [OF r] st' by (fastforce simp: rec' intro: store_runs.append)
    moreover have "synced rec'" using s by (simp add: rec' synced_def persistedState_snoc)
    ultimately show ?thesis using restored_toD(2) [OF r] index by (simp add: restored_to_def rec')
  qed
qed

lemma restore_execs_to:
  assumes "restore_execs cfg now sid events xs ((rec, st), index) = (((rec', st'), index'), None)"
    and "restored_to cfg sid spec events ks st0 rec st" and "synced rec"
    and "\<And>x. x \<in> set xs \<Longrightarrow> xr_exec_id x \<noteq> ''''
           \<and> (isExecTerminal (fst (resolveExecStateFromEvents events (xr_exec_id x)))
              \<or> fst (snd (resolveExecStateFromEvents events (xr_exec_id x))) = 0)"
  shows "restored_to cfg sid spec events (xr_exec_id ` set xs \<union> ks) st0 rec' st' \<and> synced rec'
    \<and> (\<forall>k. gm_get index' k = (if k \<in> xr_exec_id ` set xs then Some sid else gm_get index k))"
  using assms
proof (induction xs arbitrary: rec st index ks)
  case Nil
  then show ?case by simp
next
  case (Cons x xs)
  from Cons.prems(1) obtain rec1 st1 index1 where
      e: "restore_exec cfg now sid events x ((rec, st), index) = (((rec1, st1), index1), None)"
    and rest: "restore_execs cfg now sid events xs ((rec1, st1), index1) = (((rec', st'), index'), None)"
    by (auto split: prod.splits option.splits)
  from restore_exec_to [OF e Cons.prems(2,3)] Cons.prems(4) [of x]
  have h: "restored_to cfg sid spec events (insert (xr_exec_id x) ks) st0 rec1 st1" "synced rec1"
      "index1 = gm_set (xr_exec_id x) sid index" by auto
  from Cons.IH [OF rest h(1,2) Cons.prems(4)] h(3) show ?case by auto
qed

section \<open>All sandboxes\<close>

text \<open>
  What the store must hold of a sandbox for the restart: a numbered log that has a state, of a
  reserved id, and the configuration of each exec the log names; an exec the log leaves unfinished has
  no exit code there.
\<close>

definition restorable ::
  "(string \<Rightarrow> create_exec_request option) \<Rightarrow> string \<Rightarrow> sandbox_event list \<Rightarrow> bool" where
  "restorable configs sid events \<longleftrightarrow>
     log_good sid events \<and> persistedState events \<noteq> SANDBOX_STATE_UNSPECIFIED
     \<and> (\<forall>k. configs k = None \<longrightarrow>
          resolveExecStateFromEvents events k = (EXEC_STATE_UNSPECIFIED, 0, '''', ''''))
     \<and> (\<forall>k. isExecTerminal (fst (resolveExecStateFromEvents events k))
            \<or> fst (snd (resolveExecStateFromEvents events k)) = 0)"

lemma rec_ok_restorable:
  assumes "rec_ok rec" and "exec_unfinished_ok rec"
    and "persistedState (sr_events rec) \<noteq> SANDBOX_STATE_UNSPECIFIED"
    and "\<And>k. k \<in> gm_keys (sr_execs rec) \<Longrightarrow> configs k \<noteq> None"
  shows "restorable configs (sh_sandbox_id (sr_handle rec)) (sr_events rec)"
  unfolding restorable_def
proof (intro conjI allI impI)
  note x = assms(1) [unfolded rec_ok_def exec_ok_def]
  show "log_good (sh_sandbox_id (sr_handle rec)) (sr_events rec)" using x by (simp add: log_ok_good)
  show "persistedState (sr_events rec) \<noteq> SANDBOX_STATE_UNSPECIFIED" by (rule assms(3))
  fix k
  have e: "exec_entry_ok (sr_events rec) (sh_sandbox_id (sr_handle rec)) k (gm_get (sr_execs rec) k)"
    using x by simp
  show "resolveExecStateFromEvents (sr_events rec) k = (EXEC_STATE_UNSPECIFIED, 0, '''', '''')"
    if "configs k = None"
  proof -
    have "gm_get (sr_execs rec) k = None" using assms(4) [of k] that by (auto simp: gm_get_None)
    with e show ?thesis by simp
  qed
  show "isExecTerminal (fst (resolveExecStateFromEvents (sr_events rec) k))
      \<or> fst (snd (resolveExecStateFromEvents (sr_events rec) k)) = 0"
    using e assms(2) by (cases "gm_get (sr_execs rec) k") (fastforce simp: exec_unfinished_ok_def)+
qed

text \<open>All execs in the table: the record is as good as one that never saw a restart.\<close>

lemma restored_rec_ok:
  assumes "restoring sid events ks rec"
    and "\<And>k. k \<notin> ks \<Longrightarrow> resolveExecStateFromEvents events k = (EXEC_STATE_UNSPECIFIED, 0, '''', '''')"
  shows "rec_ok rec \<and> sh_sandbox_id (sr_handle rec) = sid \<and> exec_unfinished_ok rec"
proof -
  note r = assms(1) [unfolded restoring_def]
  have "exec_entry_ok (sr_events rec) sid k (gm_get (sr_execs rec) k)" for k
  proof (cases "gm_get (sr_execs rec) k")
    case None
    then have "k \<notin> ks" using r by (auto simp: gm_get_None)
    with None r assms(2) show ?thesis by simp
  next
    case (Some e)
    with r show ?thesis by simp
  qed
  with r show ?thesis by (simp add: rec_ok_def exec_ok_def exec_unfinished_ok_def)
qed

lemma restore_exec_grows:
  "restore_exec cfg now sid events x ((rec, st), index) = (((rec', st'), index'), None) \<Longrightarrow>
     length (sr_events rec) \<le> length (sr_events rec')"
  by (auto simp: restore_exec_def Let_def appendEventLocked_Inr split: prod.splits if_splits sum.splits)

lemma restore_execs_grows:
  "restore_execs cfg now sid events xs ((rec, st), index) = (((rec', st'), index'), None) \<Longrightarrow>
     length (sr_events rec) \<le> length (sr_events rec')"
proof (induction xs arbitrary: rec st index)
  case (Cons x xs)
  then obtain rec1 st1 index1 where
      e: "restore_exec cfg now sid events x ((rec, st), index) = (((rec1, st1), index1), None)"
    and rest: "restore_execs cfg now sid events xs ((rec1, st1), index1) = (((rec', st'), index'), None)"
    by (auto split: prod.splits option.splits)
  from restore_exec_grows [OF e] Cons.IH [OF rest] show ?case by simp
qed simp

text \<open>The parts of a restoration that succeeded for a sandbox with a state.\<close>

lemma restore_one_parts:
  assumes "restore_one cfg inspect reapply now sid spec s = (s', None)"
    and ld: "\<And>es. st_load_events (cfg_event_store cfg) (svc_store s) sid = Inr es \<Longrightarrow> es = ev"
    and ne: "ev \<noteq> []" "persistedState ev \<noteq> SANDBOX_STATE_UNSPECIFIED"
  obtains q dl rec1 st1 reqs rec st' index where
    "st_max_sequence (cfg_event_store cfg) (svc_store s) sid = Inr q"
    "reconcile_restored cfg inspect reapply now sid (restored_record sid spec ev q dl) (svc_store s)
       = ((rec1, st1), None)"
    "st_load_exec_configs (cfg_event_store cfg) st1 sid = Inr reqs"
    "restore_execs cfg now sid ev reqs ((rec1, st1), svc_execs s) = (((rec, st'), index), None)"
    "s' = put_record sid rec st' (s\<lparr>svc_execs := index\<rparr>)"
proof -
  note o = assms(1) [unfolded restore_one_def Let_def]
  from o obtain es where "st_load_events (cfg_event_store cfg) (svc_store s) sid = Inr es"
    by (cases "st_load_events (cfg_event_store cfg) (svc_store s) sid") simp_all
  with ld have l: "st_load_events (cfg_event_store cfg) (svc_store s) sid = Inr ev" by simp
  note o = o [unfolded l sum.case]
  from o ne obtain q where q: "st_max_sequence (cfg_event_store cfg) (svc_store s) sid = Inr q"
    by (cases "st_max_sequence (cfg_event_store cfg) (svc_store s) sid") simp_all
  from o ne q obtain dl where dl: "st_deleted_at (cfg_event_store cfg) (svc_store s) sid = Inr dl"
    by (cases "st_deleted_at (cfg_event_store cfg) (svc_store s) sid") simp_all
  obtain rec1 st1 err where rc: "reconcile_restored cfg inspect reapply now sid
      (restored_record sid spec ev q (dl \<noteq> None)) (svc_store s) = ((rec1, st1), err)"
    by (metis prod.exhaust)
  from o ne q dl rc have err: "err = None" by (cases err) simp_all
  from o ne q dl rc err obtain reqs where x: "st_load_exec_configs (cfg_event_store cfg) st1 sid = Inr reqs"
    by (cases "st_load_exec_configs (cfg_event_store cfg) st1 sid") simp_all
  obtain rec st' index e where xs: "restore_execs cfg now sid ev reqs ((rec1, st1), svc_execs s)
      = (((rec, st'), index), e)"
    by (metis prod.exhaust)
  from o ne q dl rc err x xs have "e = None" by (cases e) simp_all
  with o ne q dl rc err x xs that show thesis by simp
qed

context daemon_model
begin

text \<open>
  The service half restored: the sandboxes done are in order, and the store is as it was of the others
  and of all configurations.
\<close>

definition box_done :: "'st \<Rightarrow> string \<Rightarrow> sandbox_record \<Rightarrow> bool" where
  "box_done st0 sid rec \<longleftrightarrow>
     persistedState (sr_events rec) \<noteq> SANDBOX_STATE_UNSPECIFIED \<and> exec_unfinished_ok rec
     \<and> gm_keys (sr_execs rec) = dom (sexe st0 sid) \<and> (\<exists>es. sr_events rec = slog st0 sid @ es)
     \<and> (\<forall>k e. gm_get (sr_execs rec) k = Some e \<longrightarrow> isExecTerminal (es_state e))
     \<and> (\<forall>k. isExecTerminal (fst (resolveExecStateFromEvents (slog st0 sid) k)) \<longrightarrow>
          resolveExecStateFromEvents (sr_events rec) k = resolveExecStateFromEvents (slog st0 sid) k)"

definition half_restored :: "'st \<Rightarrow> 'r \<Rightarrow> ('st, 'r) service \<Rightarrow> bool" where
  "half_restored st0 r s \<longleftrightarrow>
     svc_inv [] s \<and> svc_registry s = r \<and> svc_cancelled s = {}
     \<and> scfg (svc_store s) = scfg st0 \<and> sexe (svc_store s) = sexe st0
     \<and> dom (sdel (svc_store s)) \<subseteq> sids r
     \<and> (\<forall>sid. gm_get (svc_boxes s) sid = None \<longrightarrow> slog (svc_store s) sid = slog st0 sid)
     \<and> (\<forall>sid rec. gm_get (svc_boxes s) sid = Some rec \<longrightarrow> box_done st0 sid rec)"

text \<open>The record of one sandbox and the store after it.\<close>

lemma restore_record:
  assumes i: "inv st" and g: "restorable (sexe st sid) sid (slog st sid)"
    and lb: "length (slog st sid) < 2 ^ 64" and x: "saved_execs_ok sexe eids st r" and t: "int64_time now"
    and rc: "reconcile_restored cfg inspect reapply now sid
       (restored_record sid spec (slog st sid) q b) st = ((rec1, st1), None)"
    and q: "st_max_sequence (cfg_event_store cfg) st sid = Inr q"
    and ld: "st_load_exec_configs (cfg_event_store cfg) st1 sid = Inr reqs"
    and xs: "restore_execs cfg now sid (slog st sid) reqs ((rec1, st1), index0) = (((rec, st'), index), None)"
    and bound: "length (sr_events rec) < 2 ^ 64"
  shows "box_done st sid rec \<and> rec_ok rec \<and> sh_sandbox_id (sr_handle rec) = sid \<and> synced rec
    \<and> sr_create_spec rec = spec
    \<and> inv st' \<and> slog st' = (slog st)(sid := sr_events rec) \<and> scfg st' = scfg st \<and> sexe st' = sexe st
    \<and> (\<forall>j. j \<noteq> sid \<longrightarrow> sdel st' j = sdel st j)
    \<and> (\<forall>k. gm_get index k = (if k \<in> gm_keys (sr_execs rec) then Some sid else gm_get index0 k))"
proof -
  let ?ev = "slog st sid"
  note gd = g [unfolded restorable_def]
  have ne: "?ev \<noteq> []" using gd by (auto simp: persistedState_def)
  have "log_ordered ?ev" using gd lb numbered_ordered by (simp add: log_good_def)
  with max_sequence [OF i _ q] ne have q': "q = ev_sequence (last ?ev)" by simp
  from reconcile_restored_to [OF rc restored_first(1) [OF _ ne q'] restored_first(2) [OF _ ne q'] t] gd
  have r1: "restored_to cfg sid spec ?ev {} st rec1 st1" "synced rec1" by auto
  from restored_toD [OF r1(1)] obtain es1 where es1: "sr_events rec1 = ?ev @ es1"
      "store_runs (cfg_event_store cfg) sid st es1 st1" and ok1: "restoring sid ?ev {} rec1" by auto
  have "length (sr_events rec1) < 2 ^ 64" using restore_execs_grows [OF xs] bound by simp
  with ok1 numbered_ordered have "log_ordered (?ev @ es1)"
    by (simp add: restoring_def log_ok_def es1(1) [symmetric])
  note v1 = store_runs_view [OF es1(2) i this]
  from load_exec_configs [OF conjunct1 [OF v1] ld] v1 have reqs: "set reqs = ran (sexe st sid)" by simp
  have ids: "xr_exec_id ` set reqs = dom (sexe st sid)"
  proof
    show "xr_exec_id ` set reqs \<subseteq> dom (sexe st sid)"
      using x by (auto simp: reqs ran_def saved_execs_ok_def)
    show "dom (sexe st sid) \<subseteq> xr_exec_id ` set reqs"
    proof
      fix k
      assume "k \<in> dom (sexe st sid)"
      then obtain req where req: "sexe st sid k = Some req" by blast
      with x have "xr_exec_id req = k" by (simp add: saved_execs_ok_def)
      with req show "k \<in> xr_exec_id ` set reqs" by (auto simp: reqs ran_def)
    qed
  qed
  have "xr_exec_id a \<noteq> '''' \<and> (isExecTerminal (fst (resolveExecStateFromEvents ?ev (xr_exec_id a)))
      \<or> fst (snd (resolveExecStateFromEvents ?ev (xr_exec_id a))) = 0)" if "a \<in> set reqs" for a
    using that x gd unfolding reqs ran_def saved_execs_ok_def by auto
  from restore_execs_to [OF xs r1 this]
  have r2: "restored_to cfg sid spec ?ev (dom (sexe st sid)) st rec st'" "synced rec"
    and ix: "\<forall>k. gm_get index k = (if k \<in> dom (sexe st sid) then Some sid else gm_get index0 k)"
    by (simp_all add: ids)
  from restored_toD [OF r2(1)] obtain es where es: "sr_events rec = ?ev @ es"
      "store_runs (cfg_event_store cfg) sid st es st'" and ok: "restoring sid ?ev (dom (sexe st sid)) rec"
      and spec: "sr_create_spec rec = spec" by auto
  from ok numbered_ordered bound have "log_ordered (?ev @ es)"
    by (simp add: restoring_def log_ok_def es(1) [symmetric])
  note v = store_runs_view [OF es(2) i this]
  have un: "k \<notin> dom (sexe st sid) \<Longrightarrow> resolveExecStateFromEvents ?ev k = (EXEC_STATE_UNSPECIFIED, 0, '''', '''')" for k
    using gd by auto
  from restored_rec_ok [OF ok un] have rk: "rec_ok rec" "sh_sandbox_id (sr_handle rec) = sid" "exec_unfinished_ok rec"
    by auto
  have ks: "gm_keys (sr_execs rec) = dom (sexe st sid)" using ok by (simp add: restoring_def)
  have "persistedState (sr_events rec) \<noteq> SANDBOX_STATE_UNSPECIFIED"
    using gd by (simp add: es(1) persistedState_append)
  then have "box_done st sid rec"
    using ok rk es(1) ks unfolding box_done_def restoring_def by blast
  with rk r2(2) spec v ix ks es(1) show ?thesis by simp
qed

lemma restore_one_half:
  assumes h: "half_restored st0 r s" and inf: "scfg st0 sid = Some spec" and id: "sid \<in> sids r"
    and b: "gm_get (svc_boxes s) sid = None"
    and g: "restorable (sexe st0 sid) sid (slog st0 sid)" and lb: "length (slog st0 sid) < 2 ^ 64"
    and x: "saved_execs_ok sexe eids st0 r" and t: "int64_time now"
    and o: "restore_one cfg inspect reapply now sid spec s = (s', None)" and bound: "log_bound s'"
  shows "half_restored st0 r s' \<and> (\<exists>rec. gm_get (svc_boxes s') = (gm_get (svc_boxes s))(sid \<mapsto> rec))"
proof -
  note hf = h [unfolded half_restored_def svc_inv_def]
  let ?st = "svc_store s"
  have i: "inv ?st" and same: "scfg ?st = scfg st0" "sexe ?st = sexe st0" "slog ?st sid = slog st0 sid"
    using hf b by auto
  have ne: "persistedState (slog ?st sid) \<noteq> SANDBOX_STATE_UNSPECIFIED" "slog ?st sid \<noteq> []"
    using g by (auto simp: same restorable_def persistedState_def)
  obtain q dl rec1 st1 reqs rec st' index where
      q: "st_max_sequence (cfg_event_store cfg) ?st sid = Inr q"
    and rc: "reconcile_restored cfg inspect reapply now sid
        (restored_record sid spec (slog ?st sid) q dl) ?st = ((rec1, st1), None)"
    and ld: "st_load_exec_configs (cfg_event_store cfg) st1 sid = Inr reqs"
    and xs: "restore_execs cfg now sid (slog ?st sid) reqs ((rec1, st1), svc_execs s) = (((rec, st'), index), None)"
    and s': "s' = put_record sid rec st' (s\<lparr>svc_execs := index\<rparr>)"
    by (rule restore_one_parts [OF o load_events [OF i] ne(2,1)])
  have x': "saved_execs_ok sexe eids ?st r" using x by (simp add: saved_execs_ok_def same)
  have lr: "length (sr_events rec) < 2 ^ 64"
    using bound by (auto simp: s' log_bound_def dest: spec [of _ sid])
  have g': "restorable (sexe ?st sid) sid (slog ?st sid)" "length (slog ?st sid) < 2 ^ 64"
    using g lb by (simp_all add: same)
  note R = restore_record [OF i g' x' t rc q ld xs lr]
  have bd: "box_done st0 sid rec" using R same by (simp add: box_done_def)
  have keys: "gm_keys (sr_execs rec) = dom (sexe st0 sid)" using bd by (simp add: box_done_def)
  have "boxes_ok cfg s'" using hf R by (auto simp: s' boxes_ok_def keyed_def)
  moreover have "store_agrees slog scfg [] s'"
    unfolding store_agrees_def
  proof (intro allI impI)
    fix k f
    assume f: "gm_get (svc_boxes s') k = Some f"
    show "\<exists>n \<le> length (sr_events f). slog (svc_store s') k = drop n (sr_events f)
        \<and> (k \<notin> set [] \<longrightarrow> n = 0 \<and> scfg (svc_store s') k = Some (sr_create_spec f))"
    proof (cases "k = sid")
      case True
      with f R inf same show ?thesis by (intro exI [of _ 0]) (simp add: s')
    next
      case False
      with f have "gm_get (svc_boxes s) k = Some f" by (simp add: s')
      with hf have "\<exists>n \<le> length (sr_events f). slog ?st k = drop n (sr_events f)
          \<and> (k \<notin> set [] \<longrightarrow> n = 0 \<and> scfg ?st k = Some (sr_create_spec f))"
        unfolding store_agrees_def by blast
      with False R show ?thesis by (simp add: s')
    qed
  qed
  moreover have "ids_ok slog sids s'"
    using hf R id by (auto simp: s' ids_ok_def)
  moreover have "index_ok eids s'"
    unfolding index_ok_def
  proof (intro conjI allI)
    have old: "gm_keys (sr_execs f) = dom (sexe st0 k)" if "gm_get (svc_boxes s) k = Some f" for k f
      using hf that by (simp add: box_done_def)
    have apart: "j \<in> dom (sexe st0 k) \<Longrightarrow> j \<in> dom (sexe st0 sid) \<Longrightarrow> k = sid" for j k
      using x unfolding saved_execs_ok_def by fastforce
    fix j k
    have ix: "gm_get (svc_execs s) j = Some k \<longleftrightarrow>
        (\<exists>f. gm_get (svc_boxes s) k = Some f \<and> j \<in> gm_keys (sr_execs f))"
      using hf by (simp add: index_ok_def)
    show "gm_get (svc_execs s') j = Some k \<longleftrightarrow>
        (\<exists>f. gm_get (svc_boxes s') k = Some f \<and> j \<in> gm_keys (sr_execs f))"
    proof (cases "k = sid")
      case True
      have "gm_get (svc_execs s) j \<noteq> Some sid" using ix b True by auto
      with True R keys show ?thesis by (simp add: s')
    next
      case False
      with apart [of j k] old have "j \<in> dom (sexe st0 sid) \<Longrightarrow>
          \<not> (\<exists>f. gm_get (svc_boxes s) k = Some f \<and> j \<in> gm_keys (sr_execs f))" by blast
      with False R keys ix show ?thesis by (simp add: s')
    qed
  next
    have "dom (sexe st0 sid) \<subseteq> eids r" using x unfolding saved_execs_ok_def by blast
    moreover have "gm_keys (svc_execs s) \<subseteq> eids r" using hf by (auto simp: index_ok_def)
    moreover have "k \<in> gm_keys index \<Longrightarrow> k \<in> dom (sexe st0 sid) \<or> k \<in> gm_keys (svc_execs s)" for k
      using R keys by (auto simp: gm_get_Some_key split: if_splits)
    ultimately have "gm_keys index \<subseteq> eids r" by blast
    then show "gm_keys (svc_execs s') \<subseteq> eids (svc_registry s')" using hf by (simp add: s')
  qed
  ultimately have "svc_inv [] s'" using R hf by (simp add: svc_inv_def s' cancelled_ok_def)
  moreover have "dom (sdel st') \<subseteq> sids r"
  proof
    fix j
    assume "j \<in> dom (sdel st')"
    with R hf id show "j \<in> sids r" by (cases "j = sid") (auto simp: domIff)
  qed
  ultimately have "half_restored st0 r s'"
    using hf R bd same by (simp add: half_restored_def s')
  moreover have "gm_get (svc_boxes s') = (gm_get (svc_boxes s))(sid \<mapsto> rec)" by (auto simp: s' fun_eq_iff)
  ultimately show ?thesis by blast
qed

text \<open>The loop over all configurations.\<close>

lemma restore_one_boxes:
  "restore_one cfg inspect reapply now sid spec s = (s', None) \<Longrightarrow> k \<noteq> sid \<Longrightarrow>
     gm_get (svc_boxes s') k = gm_get (svc_boxes s) k"
  unfolding restore_one_def Let_def
  by (auto split: sum.splits if_splits prod.splits option.splits)

lemma restore_all_boxes:
  "restore_all cfg inspect reapply now m s = (s', None) \<Longrightarrow> k \<notin> fst ` set m \<Longrightarrow>
     gm_get (svc_boxes s') k = gm_get (svc_boxes s) k"
proof (induction m arbitrary: s)
  case (Cons e m)
  obtain sid spec where e: "e = (sid, spec)" by (cases e)
  with Cons.prems obtain s1 where "restore_one cfg inspect reapply now sid spec s = (s1, None)"
      "restore_all cfg inspect reapply now m s1 = (s', None)"
    by (auto split: prod.splits option.splits)
  with Cons e restore_one_boxes show ?case by fastforce
qed simp

lemma restore_all_half:
  assumes "half_restored st0 r s" and "restore_all cfg inspect reapply now m s = (s', None)"
    and "distinct (map fst m)" and "\<And>k. k \<in> fst ` set m \<Longrightarrow> gm_get (svc_boxes s) k = None"
    and "\<And>k spec. (k, spec) \<in> set m \<Longrightarrow> scfg st0 k = Some spec \<and> k \<in> sids r
           \<and> restorable (sexe st0 k) k (slog st0 k) \<and> length (slog st0 k) < 2 ^ 64"
    and "saved_execs_ok sexe eids st0 r" and "int64_time now" and "log_bound s'"
  shows "half_restored st0 r s'
    \<and> (\<forall>k. gm_get (svc_boxes s') k \<noteq> None \<longleftrightarrow> k \<in> fst ` set m \<or> gm_get (svc_boxes s) k \<noteq> None)"
  using assms(1-5)
proof (induction m arbitrary: s)
  case Nil
  then show ?case by simp
next
  case (Cons e m)
  obtain sid spec where e: "e = (sid, spec)" by (cases e)
  with Cons.prems(2) obtain s1 where
      o: "restore_one cfg inspect reapply now sid spec s = (s1, None)"
    and rest: "restore_all cfg inspect reapply now m s1 = (s', None)"
    by (auto split: prod.splits option.splits)
  have nb: "gm_get (svc_boxes s) sid = None" and ok: "scfg st0 sid = Some spec" "sid \<in> sids r"
      "restorable (sexe st0 sid) sid (slog st0 sid)" "length (slog st0 sid) < 2 ^ 64"
    using Cons.prems(4,5) e by auto
  have nk: "sid \<notin> fst ` set m" "distinct (map fst m)" using Cons.prems(3) e by auto
  have "log_bound s1"
    unfolding log_bound_def
  proof (intro allI impI)
    fix k f
    assume f: "gm_get (svc_boxes s1) k = Some f"
    have "k \<notin> fst ` set m"
    proof
      assume k: "k \<in> fst ` set m"
      with nk have "k \<noteq> sid" by auto
      from restore_one_boxes [OF o this] f Cons.prems(4) [of k] k show False by simp
    qed
    from restore_all_boxes [OF rest this] f assms(8) show "length (sr_events f) < 2 ^ 64"
      by (simp add: log_bound_def)
  qed
  from restore_one_half [OF Cons.prems(1) ok(1,2) nb ok(3,4) assms(6,7) o this]
  obtain rec where h1: "half_restored st0 r s1" and b1: "gm_get (svc_boxes s1) = (gm_get (svc_boxes s))(sid \<mapsto> rec)"
    by blast
  have "gm_get (svc_boxes s1) k = None" if "k \<in> fst ` set m" for k
    using b1 that nk(1) Cons.prems(4) [of k] by (cases "k = sid") auto
  moreover have "scfg st0 k = Some spec \<and> k \<in> sids r \<and> restorable (sexe st0 k) k (slog st0 k)
      \<and> length (slog st0 k) < 2 ^ 64" if "(k, spec) \<in> set m" for k spec
    by (rule Cons.prems(5)) (use that in simp)
  ultimately have ih: "half_restored st0 r s'"
      "\<And>k. gm_get (svc_boxes s') k \<noteq> None \<longleftrightarrow> k \<in> fst ` set m \<or> gm_get (svc_boxes s1) k \<noteq> None"
    using Cons.IH [OF h1 rest nk(2)] by blast+
  have "gm_get (svc_boxes s') k \<noteq> None \<longleftrightarrow> k \<in> fst ` set (e # m) \<or> gm_get (svc_boxes s) k \<noteq> None" for k
    unfolding ih(2) b1 e by auto
  with ih(1) show ?case by blast
qed

text \<open>
  The restart: the invariants hold of the new service, and the sandboxes there are those that were
  there and not half purged, with their logs continued, their specification and ended execs kept and
  no exec running.
\<close>

definition restart_kept :: "string list \<Rightarrow> ('st, 'r) service \<Rightarrow> ('st, 'r) service \<Rightarrow> bool" where
  "restart_kept P s s' \<longleftrightarrow>
     (\<forall>sid. case gm_get (svc_boxes s') sid of
        None \<Rightarrow> gm_get (svc_boxes s) sid = None \<or> sid \<in> set P
      | Some rec' \<Rightarrow> (\<exists>rec. gm_get (svc_boxes s) sid = Some rec \<and> sid \<notin> set P
          \<and> sr_create_spec rec' = sr_create_spec rec \<and> box_done (svc_store s) sid rec'
          \<and> slog (svc_store s) sid = sr_events rec))"

lemma svc_inv_stored:
  "svc_inv P s \<Longrightarrow> gm_get (svc_boxes s) sid = Some rec \<Longrightarrow> sid \<notin> set P \<Longrightarrow>
     slog (svc_store s) sid = sr_events rec \<and> scfg (svc_store s) sid = Some (sr_create_spec rec)"
  unfolding svc_inv_def store_agrees_def by fastforce

lemma restart_inv:
  assumes i: "svc_inv P s" and w: "saved_inv P s" and lb: "log_bound s"
    and o: "restorePersistedSandboxes cfg inspect reapply now
              (snd (NewService cfg (svc_store s) (svc_registry s))) = (s', None)"
    and t: "int64_time now" and lb': "log_bound s'"
  shows "svc_inv [] s' \<and> saved_inv [] s' \<and> restart_kept P s s'"
proof -
  let ?st = "svc_store s" and ?r = "svc_registry s"
  let ?s0 = "snd (NewService cfg ?st ?r)"
  have s0: "svc_store ?s0 = ?st" "svc_registry ?s0 = ?r" "svc_boxes ?s0 = []" "svc_execs ?s0 = []"
      "svc_cancelled ?s0 = {}"
    by (simp_all add: NewService_def)
  have inv0: "inv ?st" using i by (simp add: svc_inv_def)
  from o obtain m where "st_load_all_sandbox_configs (cfg_event_store cfg) ?st = Inr m"
    and all: "restore_all cfg inspect reapply now m ?s0 = (s', None)"
    by (auto simp: restorePersistedSandboxes_def s0 split: sum.splits)
  from load_all_sandbox_configs [OF inv0 this(1)] have m: "gm_ok m" "gm_get m = scfg ?st" by auto
  then have dist: "distinct (map fst m)" by (simp add: gm_ok_def)
  have mem: "(k, spec) \<in> set m \<longleftrightarrow> scfg ?st k = Some spec" for k spec
    using gm_in_set_get [OF m(1)] m(2) gm_get_in_set [of m] by metis
  have there: "\<exists>rec. gm_get (svc_boxes s) k = Some rec \<and> k \<notin> set P \<and> slog ?st k = sr_events rec
      \<and> spec = sr_create_spec rec" if "scfg ?st k = Some spec" for k spec
  proof -
    from saved_okD(1) [OF w, of k] that obtain rec where b: "gm_get (svc_boxes s) k = Some rec" "k \<notin> set P" by auto
    with svc_inv_stored [OF i] have "slog ?st k = sr_events rec \<and> scfg ?st k = Some (sr_create_spec rec)"
      by blast
    with b that show ?thesis by auto
  qed
  have bx: "boxes_ok cfg s" using i by (simp add: svc_inv_def)
  have each: "scfg ?st k = Some spec \<and> k \<in> sids ?r \<and> restorable (sexe ?st k) k (slog ?st k)
      \<and> length (slog ?st k) < 2 ^ 64" if "(k, spec) \<in> set m" for k spec
  proof -
    from that mem have c: "scfg ?st k = Some spec" by simp
    from there [OF c] obtain rec where b: "gm_get (svc_boxes s) k = Some rec" "k \<notin> set P"
        "slog ?st k = sr_events rec" by blast
    have "restorable (sexe ?st k) (sh_sandbox_id (sr_handle rec)) (sr_events rec)"
      by (rule rec_ok_restorable) (use boxes_okD [OF bx b(1)] saved_okD(2,3) [OF w b(1)] b(2) in auto)
    moreover have "k \<in> sids ?r" using i b(1) by (auto simp: svc_inv_def ids_ok_def gm_get_Some_key)
    ultimately show ?thesis using c b boxes_okD [OF bx b(1)] lb by (simp add: log_bound_def)
  qed
  have "svc_inv [] ?s0" using initial_inv [OF inv0, of ?r] i by (simp add: svc_inv_def ids_ok_def)
  then have h0: "half_restored ?st ?r ?s0"
    using w by (simp add: half_restored_def s0 saved_ok_def)
  have "gm_get (svc_boxes ?s0) k = None" for k by (simp add: s0)
  from restore_all_half [OF h0 all dist this each saved_okD(4) [OF w] t lb']
  have h: "half_restored ?st ?r s'" and dom: "\<And>k. gm_get (svc_boxes s') k \<noteq> None \<longleftrightarrow> k \<in> fst ` set m"
    by (auto simp: s0)
  note hf = h [unfolded half_restored_def]
  have keys: "k \<in> fst ` set m \<longleftrightarrow> scfg ?st k \<noteq> None" for k
  proof
    assume "k \<in> fst ` set m"
    then obtain spec where "(k, spec) \<in> set m" by auto
    with mem show "scfg ?st k \<noteq> None" by simp
  next
    assume "scfg ?st k \<noteq> None"
    then obtain spec where "(k, spec) \<in> set m" using mem by auto
    then show "k \<in> fst ` set m" by force
  qed
  have "saved_inv [] s'"
    using hf dom keys saved_okD(4) [OF w]
    by (auto simp: saved_ok_def box_done_def saved_execs_ok_def)
  moreover have "restart_kept P s s'"
    unfolding restart_kept_def
  proof
    fix sid
    show "case gm_get (svc_boxes s') sid of
        None \<Rightarrow> gm_get (svc_boxes s) sid = None \<or> sid \<in> set P
      | Some rec' \<Rightarrow> (\<exists>rec. gm_get (svc_boxes s) sid = Some rec \<and> sid \<notin> set P
          \<and> sr_create_spec rec' = sr_create_spec rec \<and> box_done ?st sid rec' \<and> slog ?st sid = sr_events rec)"
    proof (cases "gm_get (svc_boxes s') sid")
      case None
      with dom keys have "scfg ?st sid = None" by blast
      with svc_inv_stored [OF i, of sid] have "gm_get (svc_boxes s) sid = None \<or> sid \<in> set P"
        by (cases "gm_get (svc_boxes s) sid"; cases "sid \<in> set P") simp_all
      with None show ?thesis by simp
    next
      case (Some rec')
      with dom keys obtain spec where c: "scfg ?st sid = Some spec" by fastforce
      from there [OF c] obtain rec where b: "gm_get (svc_boxes s) sid = Some rec" "sid \<notin> set P"
          "slog ?st sid = sr_events rec" "spec = sr_create_spec rec" by blast
      from svc_inv_stored [of "[]", OF _ Some] hf have "scfg (svc_store s') sid = Some (sr_create_spec rec')"
        by simp
      with hf c b Some show ?thesis by simp
    qed
  qed
  ultimately show ?thesis using hf by blast
qed

lemma restored_service_inv:
  assumes "svc_inv P s" and "saved_inv P s" and "log_bound s"
    and o: "restored_service cfg inspect reapply now s = Inr s'" and "int64_time now" and "log_bound s'"
  shows "svc_inv [] s' \<and> saved_inv [] s' \<and> restart_kept P s s'"
proof -
  from o have r: "restorePersistedSandboxes cfg inspect reapply now
      (snd (NewService cfg (svc_store s) (svc_registry s))) = (s', None)"
    by (auto simp: restored_service_def split: prod.splits option.splits)
  from restart_inv [OF assms(1-3) r assms(5,6)] show ?thesis .
qed

lemma first_purge_inv:
  assumes "svc_inv [] s" and "saved_inv [] s" and c: "cleanupExpiredEvents cfg now s = Inr s'"
  shows "svc_inv [] s' \<and> saved_inv [] s'"
proof -
  from c obtain removed s1 where s1: "cleanup_store cfg now s = Inr (removed, s1)"
    and s': "s' = purge_boxes removed s1"
    by (auto simp: cleanupExpiredEvents_def res_bind_eq_Inr)
  from cleanup_store_inv [OF assms(1) s1] cleanup_store_saved [OF assms(1,2) s1]
  show ?thesis unfolding s' by (blast intro: purge_map_inv purge_map_saved)
qed

lemma purge_boxes_bound: "log_bound s \<Longrightarrow> log_bound (purge_boxes ks s)"
  by (auto simp: log_bound_def purge_boxes_gone split: if_splits)

lemma first_purge_bound:
  assumes "log_bound s" and "cleanupExpiredEvents cfg now s = Inr s'"
  shows "log_bound s'"
proof -
  from assms(2) obtain removed st' where s': "s' = purge_boxes removed (s\<lparr>svc_store := st'\<rparr>)"
    by (auto simp: cleanupExpiredEvents_def cleanup_store_def res_bind_eq_Inr)
  from assms(1) have "log_bound (s\<lparr>svc_store := st'\<rparr>)" by (simp add: log_bound_def)
  then show ?thesis unfolding s' by (rule purge_boxes_bound)
qed

lemma lifetime_bound: "lifetime cfg st r d \<Longrightarrow> log_bound (dm_service d)"
proof (induction rule: lifetime.induct)
  case start
  show ?case by (simp add: initial_daemon_def NewService_def log_bound_def)
next
  case (restart d inspect reapply now s now' s')
  from first_purge_bound [OF restart.hyps(3,5)] show ?case by simp
qed

theorem lifetime_inv:
  assumes "lifetime cfg st0 r0 d" and inf: "takes_events (cfg_event_store cfg)" and "inv st0"
    and "\<And>k. slog st0 k = []" and "\<And>k. scfg st0 k = None" and "\<And>k. sexe st0 k = Map.empty"
    and "\<And>k. sdel st0 k = None"
  shows "svc_inv (dm_purging d) (dm_service d) \<and> saved_inv (dm_purging d) (dm_service d)"
  using assms(1)
proof (induction rule: lifetime.induct)
  case start
  from initial_inv [OF assms(3,4)] have "svc_inv [] (snd (NewService cfg st0 r0))" .
  moreover have "dom (sdel st0) = {}" using assms(7) by auto
  ultimately show ?case
    using assms(5-7) by (simp add: initial_daemon_def NewService_def saved_ok_def saved_execs_ok_def)
next
  case (step d d')
  from step_inv [OF step.hyps(2) _ step.hyps(3)] step_saved [OF inf step.hyps(2) _ _ step.hyps(3)] step.IH
  show ?case by blast
next
  case (restart d inspect reapply now s now' s')
  from restored_service_inv [OF _ _ lifetime_bound [OF restart.hyps(1)] restart.hyps(2,4,3)] restart.IH
  have "svc_inv [] s \<and> saved_inv [] s" by blast
  with first_purge_inv [OF _ _ restart.hyps(5)] show ?case by simp
qed

text \<open>What the execs of a sandbox are after a restart.\<close>

lemma restart_execs:
  assumes i: "svc_inv P s" and w: "saved_inv P s" and i': "svc_inv [] s'" and k: "restart_kept P s s'"
    and b: "gm_get (svc_boxes s) sid = Some rec" and nP: "sid \<notin> set P"
    and b': "gm_get (svc_boxes s') sid = Some rec'" and e: "gm_get (sr_execs rec) x = Some e"
  shows "\<exists>e'. gm_get (sr_execs rec') x = Some e' \<and> isExecTerminal (es_state e')
    \<and> (isExecTerminal (es_state e) \<longrightarrow>
         es_state e' = es_state e \<and> es_exit_code e' = es_exit_code e \<and> es_error e' = es_error e)"
proof -
  have bx: "boxes_ok cfg s" "boxes_ok cfg s'" using i i' by (simp_all add: svc_inv_def)
  from k b b' nP have bd: "box_done (svc_store s) sid rec'" and st: "slog (svc_store s) sid = sr_events rec"
    by (auto simp: restart_kept_def dest: spec [of _ sid])
  have "x \<in> gm_keys (sr_execs rec)" using e by (simp add: gm_get_Some_key)
  from saved_okD(3) [OF w b nP this] bd have "x \<in> gm_keys (sr_execs rec')" by (auto simp: box_done_def)
  then obtain e' where e': "gm_get (sr_execs rec') x = Some e'" by (auto simp: gm_get_Some_key)
  from exec_entryD [of rec, OF _ e] boxes_okD [OF bx(1) b]
  obtain c where r: "resolveExecStateFromEvents (sr_events rec) x = (es_state e, es_exit_code e, c, es_error e)"
    by auto
  from exec_entryD [of rec', OF _ e'] boxes_okD [OF bx(2) b']
  obtain c' where r': "resolveExecStateFromEvents (sr_events rec') x = (es_state e', es_exit_code e', c', es_error e')"
    by auto
  have "isExecTerminal (es_state e) \<Longrightarrow>
      resolveExecStateFromEvents (sr_events rec') x = resolveExecStateFromEvents (sr_events rec) x"
    using bd r by (simp add: box_done_def st)
  with r r' e' bd show ?thesis by (auto simp: box_done_def)
qed

end

end
