(* ===== verification/Life_Props.thy ===== *)
theory Life_Props
  imports Persistent_Props Restart_Inv
begin

text \<open>
  The persistent daemon over its whole life: any run, any number of crashes and restarts in between.
  The database is any that keeps the promises of bbolt and takes every event written to it.
\<close>

context bolt_store
begin

lemma model: "daemon_model (persistent_config b c base) (pe_inv b c) (pe_log b c) (pe_del b c)
    (pe_cfg b c) (pe_exe b c) (reserved b sandboxIDBucket) (reserved b execIDBucket)"
  unfolding daemon_model_def persistent_config_simps
  by (intro conjI event_store_axioms id_registry_axioms)

lemma life_inv:
  assumes "\<forall>n. bo_items b new_file n = None" and "openBoltDB b new_file = Inr db0"
    and "takes_events (persistentEventStore b c)" and "lifetime (persistent_config b c base) db0 db0 d"
  shows "pers.svc_inv base (dm_purging d) (dm_service d) \<and> pers.saved_inv (dm_purging d) (dm_service d)"
proof -
  note f = fresh_database [OF assms(1,2)]
  then have "pe_log b c db0 k = []" "pe_cfg b c db0 k = None" "pe_exe b c db0 k = Map.empty"
      "pe_del b c db0 k = None" for k
    by (auto simp: holds_same_def newMemoryEventStore_def me_events_of_def me_execs_of_def)
  with f pers.lifetime_inv [OF assms(4)] assms(3) show ?thesis by simp
qed

end



text \<open>On the instance: a sandbox is created, the daemon crashes, and the sandbox comes back failed.\<close>

lemma sorted_takes_events: "takes_events (persistentEventStore sorted_bolt tagged_codec)"
proof -
  have "eventsBucketName k \<noteq> ''''" "key_of_bytes (encodeUint64 q) \<noteq> ''''" for k q
    by (simp_all add: eventsBucketName_def key_of_bytes_def encodeUint64_def)
  then show ?thesis
    by (auto simp: takes_events_def persistentEventStore_def persistent_Append_def tagged_codec_def
        sorted_bolt_def bolt_change_def bolt_update_def no_result_def wrap_go_def res_bind_def split: option.splits)
qed

definition all_gone :: inspector where
  "all_gone k = Inr \<lparr>ins_exists = False, ins_running = False, ins_paused = False,
    ins_exit_code = 0, ins_oom_killed = False\<rparr>"

definition relisted :: "(listed_db, listed_db) service option" where
  "relisted = (case restored_service (persistent_config sorted_bolt tagged_codec listed_base) all_gone
     (\<lambda>_. None) 200 (dm_service listed_run) of Inr s \<Rightarrow> Some s | Inl _ \<Rightarrow> None)"

lemma relisted_Some:
  "relisted = Some s \<longleftrightarrow> restored_service (persistent_config sorted_bolt tagged_codec listed_base) all_gone
     (\<lambda>_. None) 200 (dm_service listed_run) = Inr s"
  by (auto simp: relisted_def split: sum.splits)

lemma listed_run_life:
  "lifetime (persistent_config sorted_bolt tagged_codec listed_base) fresh_db fresh_db listed_run"
  using listed_run_reachable by (induction rule: reachable.induct) (auto intro: lifetime.intros)

lemma relisted_facts:
  obtains s rec where "relisted = Some s" and "log_bound s"
    and "gm_get (svc_boxes s) ''box-1'' = Some rec" and "length (sr_events rec) = 2"
proof -
  have c: "map_option (\<lambda>s. list_all (\<lambda>(k, rec). length (sr_events rec) < 100) (svc_boxes s)
      \<and> map_option (\<lambda>rec. length (sr_events rec)) (gm_get (svc_boxes s) ''box-1'') = Some 2) relisted = Some True"
    by code_simp
  then show thesis using that by (auto intro: log_bound_small)
qed

lemma listed_open: "openBoltDB sorted_bolt ([] :: listed_db) = Inr fresh_db"
  by code_simp

lemma listed_empty: "\<forall>n. bo_items sorted_bolt ([] :: listed_db) n = None"
  by (simp add: sorted_bolt_def)



end
