(* ===== verification/Nftables.thy ===== *)
theory Nftables
  imports Event_Store
begin

text \<open>
  The host isolation rules of a sandbox network
  (\<^verbatim>\<open>internal/control/docker_runtime_nftables_linux.go\<close>, \<^verbatim>\<open>docker_runtime_nftables.go\<close>): the
  expression lists, the test whether a rule of a chain is one of them, and their insertion and removal.

  Outside the repository are the netfilter library and the kernel.  The library's expression types are
  a datatype with the fields the code reads or sets, its constants and \<^verbatim>\<open>NativeEndian\<close> the record
  \<open>nft_env\<close>, a connection the record \<open>nft_ops\<close>.
\<close>

section \<open>Expressions\<close>

datatype meta_key = MetaKeyIIFNAME | OtherMetaKey nat
datatype cmp_op = CmpOpEq | CmpOpNeq | OtherCmpOp nat
datatype payload_base = PayloadBaseNetworkHeader | OtherPayloadBase nat
datatype ct_key = CtKeySTATE | CtKeySTATUS | OtherCtKey nat
datatype verdict_kind = VerdictDrop | OtherVerdict int

datatype nft_expr =
    Meta meta_key "32 word"
  | Cmp cmp_op "32 word" "u8 list"
  | Payload "32 word" payload_base "32 word" "32 word"
  | Bitwise (bw_source: "32 word") (bw_dest: "32 word") (bw_len: "32 word") (bw_mask: "u8 list")
      (bw_xor: "u8 list")
  | Ct (ct_register: "32 word") (ct_key: ct_key) (ct_source: "32 word") (ct_direction: "32 word")
  | Fib (fib_register: "32 word") (fib_flag_daddr: bool) (fib_result_addrtype: bool)
  | Verdict verdict_kind
  | OtherExpr string

record nft_env =
  ne_put32 :: "32 word \<Rightarrow> u8 list"    \<comment> \<open>\<^verbatim>\<open>binaryutil.NativeEndian.PutUint32\<close>\<close>
  ne_ct_new :: "32 word"                \<comment> \<open>\<^verbatim>\<open>expr.CtStateBitNEW\<close>\<close>

definition rtnLocal :: "32 word" where "rtnLocal = 2"
definition ipsDstNAT :: "32 word" where "ipsDstNAT = push_bit 5 1"

text \<open>\<^verbatim>\<open>make([]byte, 16); copy(b, name+"\x00")\<close>\<close>

definition nftIfname :: "string \<Rightarrow> u8 list" where
  "nftIfname name =
     (let s = take 16 (map (\<lambda>ch. word_of_nat (of_char ch)) name @ [0])
      in s @ replicate (16 - length s) 0)"

text \<open>\<^verbatim>\<open>net.IPNet\<close>, with \<^verbatim>\<open>IP.Mask\<close> and \<^verbatim>\<open>IP.To4\<close> of Go's library; \<open>[]\<close> is a nil slice.\<close>

record ip_net =
  in_ip :: "u8 list"
  in_mask :: "u8 list"

definition v4_in_v6_prefix :: "u8 list" where
  "v4_in_v6_prefix = replicate 10 0 @ [0xff, 0xff]"

definition ip_mask :: "u8 list \<Rightarrow> u8 list \<Rightarrow> u8 list" where
  "ip_mask ip msk =
     (let m' = (if length msk = 16 \<and> length ip = 4 \<and> list_all (\<lambda>x. x = 0xff) (take 12 msk)
                   then drop 12 msk else msk);
          ip' = (if length m' = 4 \<and> length ip = 16 \<and> take 12 ip = v4_in_v6_prefix
                 then drop 12 ip else ip)
      in if length ip' \<noteq> length m' then [] else map2 (AND) ip' m')"

definition to4 :: "u8 list \<Rightarrow> u8 list" where
  "to4 ip =
     (if length ip = 4 then ip
      else if length ip = 16 \<and> take 12 ip = v4_in_v6_prefix then drop 12 ip
      else [])"

definition buildBridgeSubnetMatchExprs :: "string \<Rightarrow> ip_net \<Rightarrow> nft_expr list \<Rightarrow> nft_expr list" where
  "buildBridgeSubnetMatchExprs bridge subnet tail =
     (let networkIP = ip_mask (in_ip subnet) (in_mask subnet)
      in [Meta MetaKeyIIFNAME 1,
          Cmp CmpOpEq 1 (nftIfname bridge),
          Payload 1 PayloadBaseNetworkHeader 12 4,
          Bitwise 1 1 4 (in_mask subnet) [0, 0, 0, 0],
          Cmp CmpOpEq 1 (to4 networkIP)] @ tail)"

definition buildConntrackNewMatchExprs :: "nft_env \<Rightarrow> nft_expr list" where
  "buildConntrackNewMatchExprs env =
     [Ct 1 CtKeySTATE 0 0,
      Bitwise 1 1 4 (ne_put32 env (ne_ct_new env)) [0, 0, 0, 0],
      Cmp CmpOpNeq 1 (ne_put32 env 0)]"

definition buildHostIsolationExprs :: "nft_env \<Rightarrow> string \<Rightarrow> ip_net \<Rightarrow> nft_expr list" where
  "buildHostIsolationExprs env bridge subnet =
     buildBridgeSubnetMatchExprs bridge subnet
       (buildConntrackNewMatchExprs env @
        [Fib 1 True True, Cmp CmpOpEq 1 (ne_put32 env rtnLocal), Verdict VerdictDrop])"

definition buildDNATIsolationExprs :: "nft_env \<Rightarrow> string \<Rightarrow> ip_net \<Rightarrow> nft_expr list" where
  "buildDNATIsolationExprs env bridge subnet =
     buildBridgeSubnetMatchExprs bridge subnet
       (buildConntrackNewMatchExprs env @
        [Ct 1 CtKeySTATUS 0 0,
         Bitwise 1 1 4 (ne_put32 env ipsDstNAT) [0, 0, 0, 0],
         Cmp CmpOpNeq 1 (ne_put32 env 0),
         Verdict VerdictDrop])"

definition buildHostInputIsolationExprs :: "nft_env \<Rightarrow> string \<Rightarrow> ip_net \<Rightarrow> nft_expr list" where
  "buildHostInputIsolationExprs env bridge subnet =
     buildBridgeSubnetMatchExprs bridge subnet (buildConntrackNewMatchExprs env @ [Verdict VerdictDrop])"

definition expectedDockerUserIsolationRules :: "nft_env \<Rightarrow> string \<Rightarrow> ip_net \<Rightarrow> nft_expr list list" where
  "expectedDockerUserIsolationRules env bridge subnet =
     [buildHostIsolationExprs env bridge subnet, buildDNATIsolationExprs env bridge subnet]"

definition expectedInputIsolationRules :: "nft_env \<Rightarrow> string \<Rightarrow> ip_net \<Rightarrow> nft_expr list list" where
  "expectedInputIsolationRules env bridge subnet = [buildHostInputIsolationExprs env bridge subnet]"

definition expectedHostIsolationRules :: "nft_env \<Rightarrow> string \<Rightarrow> ip_net \<Rightarrow> nft_expr list list" where
  "expectedHostIsolationRules env bridge subnet =
     expectedDockerUserIsolationRules env bridge subnet @ expectedInputIsolationRules env bridge subnet"

section \<open>Matching\<close>

text \<open>One turn of the loop of \<^verbatim>\<open>matchesIsolationTail\<close>: the \<^verbatim>\<open>switch\<close> on the expected expression.\<close>

fun same_expr :: "nft_expr \<Rightarrow> nft_expr \<Rightarrow> bool" where
  "same_expr actual (Fib r d a) = (case actual of Fib r' d' a' \<Rightarrow> r' = r \<and> d' = d \<and> a' = a | _ \<Rightarrow> False)"
| "same_expr actual (Ct r k s d) =
     (case actual of Ct r' k' s' d' \<Rightarrow> r' = r \<and> k' = k \<and> s' = s \<and> d' = d | _ \<Rightarrow> False)"
| "same_expr actual (Bitwise s d l m x) =
     (case actual of Bitwise s' d' l' m' x' \<Rightarrow> s' = s \<and> d' = d \<and> l' = l \<and> m' = m \<and> x' = x | _ \<Rightarrow> False)"
| "same_expr actual (Cmp op r dat) =
     (case actual of Cmp op' r' dat' \<Rightarrow> op' = op \<and> r' = r \<and> dat' = dat | _ \<Rightarrow> False)"
| "same_expr actual (Verdict k) = (case actual of Verdict k' \<Rightarrow> k' = k | _ \<Rightarrow> False)"
| "same_expr actual _ = False"

definition matchesIsolationTail :: "nft_expr list \<Rightarrow> nft_expr list \<Rightarrow> bool" where
  "matchesIsolationTail actual expected \<longleftrightarrow>
     length actual = length expected \<and> list_all2 same_expr actual expected"

definition cmp_data :: "nft_expr \<Rightarrow> u8 list option" where
  "cmp_data e = (case e of Cmp _ _ dat \<Rightarrow> Some dat | _ \<Rightarrow> None)"

definition matchesIsolationRule :: "nft_expr list \<Rightarrow> nft_expr list \<Rightarrow> bool" where
  "matchesIsolationRule exprs expected =
     (if length exprs \<noteq> length expected then False
      else if length exprs < 5 then False
      else case (cmp_data (exprs ! 1), cmp_data (expected ! 1)) of
        (Some iface, Some expectedIface) \<Rightarrow>
          if iface \<noteq> expectedIface then False
          else (case (cmp_data (exprs ! 4), cmp_data (expected ! 4)) of
            (Some net, Some expectedNet) \<Rightarrow>
              if net \<noteq> expectedNet then False
              else matchesIsolationTail (drop 5 exprs) (drop 5 expected)
          | _ \<Rightarrow> False)
      | _ \<Rightarrow> False)"

definition matchesHostIsolationRule :: "nft_env \<Rightarrow> nft_expr list \<Rightarrow> string \<Rightarrow> ip_net \<Rightarrow> bool" where
  "matchesHostIsolationRule env exprs bridge subnet \<longleftrightarrow>
     list_ex (matchesIsolationRule exprs) (expectedHostIsolationRules env bridge subnet)"

section \<open>Chains\<close>

record nft_chain =
  nc_name :: string
  nc_table :: "string option"      \<comment> \<open>\<^verbatim>\<open>chain.Table.Name\<close>, when \<^verbatim>\<open>chain.Table\<close> is not nil\<close>

record nft_rule =
  nr_handle :: nat
  nr_exprs :: "nft_expr list"

text \<open>
  What a connection sends at \<^verbatim>\<open>Flush\<close>, in order.  \<open>no_listing\<close> and the other fields of \<open>nft_ops\<close> are
  the answers of the kernel \<open>'k\<close>; \<^verbatim>\<open>DelRule\<close> may refuse a rule before anything is sent.
\<close>

datatype nft_message =
    MsgAddChain nft_chain
  | MsgInsertRule nft_chain "nft_expr list"
  | MsgDelRule nft_chain nft_rule

record 'k nft_ops =
  no_new :: "'k \<Rightarrow> go_error option"
  no_chains :: "'k \<Rightarrow> go_error + nft_chain list"
  no_rules :: "'k \<Rightarrow> nft_chain \<Rightarrow> go_error + nft_rule list"
  no_del_rule :: "'k \<Rightarrow> nft_chain \<Rightarrow> nft_rule \<Rightarrow> go_error option"
  no_flush :: "'k \<Rightarrow> nft_message list \<Rightarrow> go_error + 'k"

definition findFilterChain :: "'k nft_ops \<Rightarrow> 'k \<Rightarrow> string \<Rightarrow> go_error + nft_chain" where
  "findFilterChain conn k name =
     (case no_chains conn k of
        Inl err \<Rightarrow> Inl (ErrText (Lit ''list nftables chains: '' # error_text err))
      | Inr cs \<Rightarrow>
          (case find (\<lambda>chain. nc_name chain = name \<and> nc_table chain = Some ''filter'') cs of
             Some chain \<Rightarrow> Inr chain
           | None \<Rightarrow> Inl (ErrText [Lit name, Lit '' chain not found in filter table''])))"

definition selectMissingIsolationRules :: "nft_rule list \<Rightarrow> nft_expr list list \<Rightarrow> nft_expr list list" where
  "selectMissingIsolationRules existingRules currentRules =
     filter (\<lambda>current. \<not> list_ex (\<lambda>rule. matchesIsolationRule (nr_exprs rule) current) existingRules)
       currentRules"

definition insertMissingIsolationRules ::
  "'k nft_ops \<Rightarrow> 'k \<Rightarrow> nft_chain \<Rightarrow> nft_expr list list \<Rightarrow> go_error + nft_message list" where
  "insertMissingIsolationRules conn k chain currentRules =
     (case no_rules conn k chain of
        Inl err \<Rightarrow>
          Inl (ErrText ([Lit ''get nftables rules from '', Lit (nc_name chain), Lit '': ''] @ error_text err))
      | Inr rules \<Rightarrow> Inr (map (MsgInsertRule chain) (selectMissingIsolationRules rules currentRules)))"

definition agboxInputChainName :: string where "agboxInputChainName = ''AGBOX-INPUT''"

definition applyInputIsolation ::
  "nft_env \<Rightarrow> 'k nft_ops \<Rightarrow> 'k \<Rightarrow> nft_chain \<Rightarrow> string \<Rightarrow> ip_net \<Rightarrow> go_error + nft_message list" where
  "applyInputIsolation env conn k dockerUserChain bridge subnet =
     (case findFilterChain conn k ''INPUT'' of
        Inr inputChain \<Rightarrow>
          insertMissingIsolationRules conn k inputChain (expectedInputIsolationRules env bridge subnet)
      | Inl _ \<Rightarrow>
          (case findFilterChain conn k agboxInputChainName of
             Inr agboxChain \<Rightarrow>
               insertMissingIsolationRules conn k agboxChain (expectedInputIsolationRules env bridge subnet)
           | Inl _ \<Rightarrow>
               let newChain = \<lparr>nc_name = agboxInputChainName, nc_table = nc_table dockerUserChain\<rparr>
               in Inr (MsgAddChain newChain #
                       map (MsgInsertRule newChain) (expectedInputIsolationRules env bridge subnet))))"

text \<open>
  The kernel afterwards and the error.  The number of inserted rules is the number of insertions among
  the messages; without any nothing is sent.
\<close>

definition is_insert :: "nft_message \<Rightarrow> bool" where
  "is_insert m = (case m of MsgInsertRule _ _ \<Rightarrow> True | _ \<Rightarrow> False)"

definition applyHostIsolation ::
  "nft_env \<Rightarrow> 'k nft_ops \<Rightarrow> string \<Rightarrow> ip_net \<Rightarrow> 'k \<Rightarrow> 'k \<times> go_error option" where
  "applyHostIsolation env conn bridge subnet k =
     (case no_new conn k of
        Some err \<Rightarrow> (k, Some (ErrText (Lit ''open nftables connection: '' # error_text err)))
      | None \<Rightarrow>
     (case findFilterChain conn k ''DOCKER-USER'' of
        Inl err \<Rightarrow> (k, Some err)
      | Inr dockerUserChain \<Rightarrow>
     (case insertMissingIsolationRules conn k dockerUserChain
             (expectedDockerUserIsolationRules env bridge subnet) of
        Inl err \<Rightarrow> (k, Some err)
      | Inr ms \<Rightarrow>
     (case applyInputIsolation env conn k dockerUserChain bridge subnet of
        Inl err \<Rightarrow> (k, Some err)
      | Inr ms' \<Rightarrow>
          if length (filter is_insert (ms @ ms')) = 0 then (k, None)
          else case no_flush conn k (ms @ ms') of
            Inl err \<Rightarrow>
              (k, Some (ErrText ([Lit ''flush nftables rules for bridge '', Lit bridge, Lit '': ''] @ error_text err)))
          | Inr k' \<Rightarrow> (k', None)))))"

definition selectIsolationRulesToRemove :: "nft_rule list \<Rightarrow> nft_expr list list \<Rightarrow> nft_rule list" where
  "selectIsolationRulesToRemove rules expectedRules =
     filter (\<lambda>rule. list_ex (matchesIsolationRule (nr_exprs rule)) expectedRules) rules"

text \<open>The deletions queued, and the error that stopped the loop.\<close>

fun queue_deletions ::
  "'k nft_ops \<Rightarrow> 'k \<Rightarrow> nft_chain \<Rightarrow> nft_rule list \<Rightarrow> nft_message list \<times> go_error option" where
  "queue_deletions conn k chain [] = ([], None)"
| "queue_deletions conn k chain (rule # rules) =
     (case no_del_rule conn k chain rule of
        Some err \<Rightarrow> ([], Some err)
      | None \<Rightarrow> (case queue_deletions conn k chain rules of (ms, e) \<Rightarrow> (MsgDelRule chain rule # ms, e)))"

definition removeIsolationRulesFromChain ::
  "'k nft_ops \<Rightarrow> 'k \<Rightarrow> nft_chain \<Rightarrow> nft_expr list list \<Rightarrow> nft_message list \<times> go_error option" where
  "removeIsolationRulesFromChain conn k chain expectedRules =
     (case no_rules conn k chain of
        Inl err \<Rightarrow>
          ([], Some (ErrText ([Lit ''get nftables rules from '', Lit (nc_name chain), Lit '': ''] @ error_text err)))
      | Inr rules \<Rightarrow> queue_deletions conn k chain (selectIsolationRulesToRemove rules expectedRules))"

text \<open>
  The loop over \<^verbatim>\<open>INPUT\<close> and \<^verbatim>\<open>AGBOX-INPUT\<close>; an error ends the function before \<^verbatim>\<open>Flush\<close>, so that
  nothing that was queued is sent.
\<close>

fun remove_from_chains ::
  "'k nft_ops \<Rightarrow> 'k \<Rightarrow> nft_expr list list \<Rightarrow> string list \<Rightarrow> nft_message list option" where
  "remove_from_chains conn k expected [] = Some []"
| "remove_from_chains conn k expected (name # names) =
     (case findFilterChain conn k name of
        Inl _ \<Rightarrow> remove_from_chains conn k expected names
      | Inr chain \<Rightarrow>
          (case removeIsolationRulesFromChain conn k chain expected of
             (_, Some _) \<Rightarrow> None
           | (ms, None) \<Rightarrow> map_option ((@) ms) (remove_from_chains conn k expected names)))"

definition removeHostIsolation :: "nft_env \<Rightarrow> 'k nft_ops \<Rightarrow> string \<Rightarrow> ip_net \<Rightarrow> 'k \<Rightarrow> 'k" where
  "removeHostIsolation env conn bridge subnet k =
     (case no_new conn k of
        Some _ \<Rightarrow> k
      | None \<Rightarrow>
          let dockerUser =
                (case findFilterChain conn k ''DOCKER-USER'' of
                   Inl _ \<Rightarrow> Some []
                 | Inr chain \<Rightarrow>
                     (case removeIsolationRulesFromChain conn k chain
                             (expectedDockerUserIsolationRules env bridge subnet) of
                        (_, Some _) \<Rightarrow> None
                      | (ms, None) \<Rightarrow> Some ms))
          in case dockerUser of
               None \<Rightarrow> k
             | Some ms \<Rightarrow>
                 (case remove_from_chains conn k (expectedInputIsolationRules env bridge subnet)
                         [''INPUT'', agboxInputChainName] of
                    None \<Rightarrow> k
                  | Some ms' \<Rightarrow>
                      if length (ms @ ms') = 0 then k
                      else case no_flush conn k (ms @ ms') of Inl _ \<Rightarrow> k | Inr k' \<Rightarrow> k'))"

section \<open>The network of a sandbox\<close>

text \<open>
  What \<^verbatim>\<open>NetworkInspect\<close> answers, as far as it is read; \<open>cidr\<close> is \<^verbatim>\<open>net.ParseCIDR\<close>.
\<close>

record network_inspect =
  ni_id :: string
  ni_ipam_subnets :: "string list"
  ni_options :: "(string, string) gomap"

definition extractNetworkIsolationParams ::
  "(string \<Rightarrow> go_error + ip_net) \<Rightarrow> network_inspect \<Rightarrow> go_error + string \<times> ip_net" where
  "extractNetworkIsolationParams cidr ni =
     (case ni_ipam_subnets ni of
        [] \<Rightarrow> Inl (ErrText [Lit ''network '', Lit (ni_id ni), Lit '' has no IPAM configuration''])
      | text # _ \<Rightarrow>
          (case cidr text of
             Inl err \<Rightarrow> Inl (ErrText ([Lit ''parse subnet '', Quoted text, Lit '': ''] @ error_text err))
           | Inr subnet \<Rightarrow>
               let bridge = (case gm_get (ni_options ni) ''com.docker.network.bridge.name'' of
                               None \<Rightarrow> '''' | Some b \<Rightarrow> b)
               in if bridge \<noteq> '''' then Inr (bridge, subnet)
                  else if length (ni_id ni) < 12
                  then Inl (ErrText [Lit ''network ID '', Quoted (ni_id ni), Lit '' is too short to derive bridge name''])
                  else Inr (''br-'' @ take 12 (ni_id ni), subnet)))"

end
