(* ===== verification/Docker_Engine.thy ===== *)
theory Docker_Engine
  imports Service_State Nftables Docker_Names
begin

text \<open>
  What the Docker backend asks of the Docker engine and of the netfilter connection, and the calls
  themselves (\<^verbatim>\<open>internal/control/docker_runtime_dockerapi.go\<close>).

  The engine is outside the repository and other programs use it too, so nothing is assumed of it: each
  answer is an arbitrary function of the calls made so far, a field of \<open>docker_engine\<close>.  A backend
  operation threads the list of calls made, in order; its theorems are about that list.

  While a sandbox is created its companion containers are started by goroutines of their own.  They are
  part of the threaded state (\<open>dx_starts\<close>): before every call of the main goroutine some of them, chosen by
  \<open>eg_turns\<close>, make their next call, so every interleaving is covered.
\<close>

section \<open>Requests\<close>

record docker_mount =
  dk_source :: string
  dk_target :: string
  dk_read_only :: bool

record docker_port_mapping =
  dp_container_port :: "32 word"
  dp_host_port :: "32 word"
  dp_protocol :: string

record docker_container_spec =
  dc_name :: string
  dc_image :: string
  dc_network_name :: string
  dc_network_alias :: string
  dc_labels :: "(string, string) gomap"
  dc_environment :: "(string, string) gomap"
  dc_healthcheck :: "healthcheck_config option"
  dc_mounts :: "docker_mount list"
  dc_ports :: "docker_port_mapping list"
  dc_workdir :: string
  dc_command :: "string list"
  dc_cpu_millicores :: int
  dc_memory_bytes :: int
  dc_disk_size_bytes :: int
  dc_gpus :: string
  dc_group_add :: "string list"

record docker_exec_spec =
  de_container_name :: string
  de_command :: "string list"
  de_workdir :: string
  de_environment :: "(string, string) gomap"
  de_user :: string
  de_log_dir :: string
  de_exec_id :: string

record deferred_copy =
  df_source_path :: string
  df_container_target :: string
  df_exclude_patterns :: "string list"

text \<open>\<^verbatim>\<open>container.HealthConfig\<close>; a field the code leaves unset is zero.\<close>

record container_health_config =
  hh_test :: "string list"
  hh_interval :: duration
  hh_timeout :: duration
  hh_start_period :: duration
  hh_start_interval :: duration
  hh_retries :: int

text \<open>
  \<^verbatim>\<open>container.Config\<close>, \<^verbatim>\<open>HostConfig\<close> and \<^verbatim>\<open>NetworkingConfig\<close> as \<^verbatim>\<open>dockerContainerCreate\<close> fills them.  Ports are
  texts of \<^verbatim>\<open>nat.Port\<close>; every bind mount has the type bind; \<open>gq_endpoints\<close> maps a network to the aliases.
\<close>

record container_request =
  gq_name :: string
  gq_image :: string
  gq_cmd :: "string list"
  gq_working_dir :: string
  gq_env :: "string list"
  gq_labels :: "(string, string) gomap"
  gq_healthcheck :: "container_health_config option"
  gq_exposed_ports :: "(string, unit) gomap"
  gq_init :: bool
  gq_mounts :: "docker_mount list"
  gq_port_bindings :: "(string, (string \<times> string) list) gomap"
  gq_group_add :: "string list"
  gq_extra_hosts :: "string list"
  gq_restart_policy :: string
  gq_nano_cpus :: int
  gq_memory :: int
  gq_storage_opt :: "(string, string) gomap"
  gq_device_requests :: "(string \<times> int \<times> string list list) list"
  gq_network_mode :: string
  gq_endpoints :: "(string, string list) gomap option"

record exec_request =
  xq_container_name :: string
  xq_attach :: bool
  xq_env :: "string list"
  xq_working_dir :: string
  xq_user :: string
  xq_cmd :: "string list"

section \<open>The engine\<close>

datatype engine_call =
    ImageInspect string
  | ImagePull string
  | NetworkCreate string "(string, string) gomap"
  | NetworkInspect string
  | NetworkRemove string
  | ContainerCreate container_request
  | CopyToContainer string deferred_copy
  | ContainerStart string
  | ContainerInspect string
  | ContainerStop string
  | ContainerRemove string
  | ExecCreate exec_request
  | ExecStart string
  | ExecAttach string
  | ExecInspect string
  | NftApply string ip_net
  | NftRemove string ip_net

record health_state =
  hs_status :: string
  hs_failing_streak :: int

record engine_container_state =
  cst_running :: bool
  cst_paused :: bool
  cst_exit_code :: int
  cst_oom_killed :: bool
  cst_health :: "health_state option"

text \<open>
  The companion goroutines: what is started, and how far it is.  A finished one has sent its status.
\<close>

datatype start_phase = StartCreate | StartStart | StartDone companion_container_status

record companion_start =
  ct_name :: string
  ct_spec :: docker_container_spec
  ct_phase :: start_phase

type_synonym calls = "engine_call list"

text \<open>
  \<open>eg_tar\<close> is \<^verbatim>\<open>buildCopyTar\<close>, which runs beside the copy.  \<open>eg_pull\<close> includes draining the reader,
  \<open>eg_attach\<close> reading the output to its end.  \<open>eg_polls\<close> is how often the clock is found before a
  deadline so many nanoseconds away; each turn of those loops sleeps 100 ms, so it is at most one more than
  the tenths of a second.  \<open>eg_cancelled\<close> is \<^verbatim>\<open>ctx.Err()\<close> and \<open>eg_error_string\<close> is \<^verbatim>\<open>err.Error()\<close>.
\<close>

record docker_engine =
  eg_image_inspect :: "calls \<Rightarrow> string \<Rightarrow> go_error option"
  eg_pull :: "calls \<Rightarrow> string \<Rightarrow> go_error option"
  eg_network_create :: "calls \<Rightarrow> string \<Rightarrow> go_error option"
  eg_network_inspect :: "calls \<Rightarrow> string \<Rightarrow> go_error + network_inspect"
  eg_network_remove :: "calls \<Rightarrow> string \<Rightarrow> go_error option"
  eg_container_create :: "calls \<Rightarrow> container_request \<Rightarrow> go_error option"
  eg_copy :: "calls \<Rightarrow> string \<Rightarrow> deferred_copy \<Rightarrow> go_error option"
  eg_tar :: "calls \<Rightarrow> deferred_copy \<Rightarrow> go_error option"
  eg_container_start :: "calls \<Rightarrow> string \<Rightarrow> go_error option"
  eg_container_inspect :: "calls \<Rightarrow> string \<Rightarrow> go_error + engine_container_state option"
  eg_container_stop :: "calls \<Rightarrow> string \<Rightarrow> go_error option"
  eg_container_remove :: "calls \<Rightarrow> string \<Rightarrow> go_error option"
  eg_exec_create :: "calls \<Rightarrow> exec_request \<Rightarrow> go_error + string"
  eg_exec_start :: "calls \<Rightarrow> string \<Rightarrow> go_error option"
  eg_exec_attach :: "calls \<Rightarrow> string \<Rightarrow> go_error option"
  eg_attach_read :: "calls \<Rightarrow> string \<Rightarrow> go_error option"
  eg_exec_inspect :: "calls \<Rightarrow> string \<Rightarrow> go_error + bool \<times> int"
  eg_nft_apply :: "calls \<Rightarrow> string \<Rightarrow> ip_net \<Rightarrow> go_error option"
  eg_cancelled :: "calls \<Rightarrow> go_error option"
  eg_polls :: "calls \<Rightarrow> duration \<Rightarrow> nat"
  eg_turns :: "calls \<Rightarrow> nat list"
  eg_is_not_found :: "go_error \<Rightarrow> bool"
  eg_error_string :: "go_error \<Rightarrow> string"
  eg_new_port :: "string \<Rightarrow> string \<Rightarrow> go_error + string"
  eg_parse_cidr :: "string \<Rightarrow> go_error + ip_net"

section \<open>Building the request\<close>

text \<open>\<^verbatim>\<open>int64\<close> arithmetic wraps.\<close>

definition int64 :: "int \<Rightarrow> int" where
  "int64 x = sint (word_of_int x :: 64 word)"

definition duration_or_zero :: "duration option \<Rightarrow> duration" where
  "duration_or_zero d = (case d of None \<Rightarrow> 0 | Some v \<Rightarrow> v)"

definition toContainerHealthConfig :: "healthcheck_config option \<Rightarrow> container_health_config option" where
  "toContainerHealthConfig healthcheck =
     map_option (\<lambda>h.
       \<lparr>hh_test = hc_test h, hh_interval = duration_or_zero (hc_interval h),
        hh_timeout = duration_or_zero (hc_timeout h),
        hh_start_period = duration_or_zero (hc_start_period h),
        hh_start_interval = duration_or_zero (hc_start_interval h),
        hh_retries = (if 0 < hc_retries h then uint (hc_retries h) else 0)\<rparr>) healthcheck"

text \<open>One turn of the loop of \<^verbatim>\<open>buildPortBindings\<close>.\<close>

type_synonym port_tables = "(string, unit) gomap \<times> (string, (string \<times> string) list) gomap"

definition bind_port :: "docker_engine \<Rightarrow> docker_port_mapping \<Rightarrow> port_tables \<Rightarrow> go_error + port_tables" where
  "bind_port eng p tables =
     (case tables of (exposedPorts, portBindings) \<Rightarrow>
        (case eg_new_port eng (dp_protocol p) (show_port (dp_container_port p)) of
           Inl err \<Rightarrow>
             Inl (ErrText ([Lit ''invalid port spec '', Lit (show_port (dp_container_port p)), Lit ''/'',
                            Lit (dp_protocol p), Lit '': ''] @ error_text err))
         | Inr natPort \<Rightarrow>
             Inr (gm_set natPort () exposedPorts,
                  gm_set natPort
                    ((case gm_get portBindings natPort of None \<Rightarrow> [] | Some bs \<Rightarrow> bs)
                       @ [(''127.0.0.1'', show_port (dp_host_port p))]) portBindings)))"

definition buildPortBindings :: "docker_engine \<Rightarrow> docker_port_mapping list \<Rightarrow> go_error + port_tables" where
  "buildPortBindings eng ports = fold_result (bind_port eng) ports ([], [])"

definition envMapToSlice :: "(string, string) gomap \<Rightarrow> string list" where
  "envMapToSlice environment = map (\<lambda>(key, val). key @ ''='' @ val) environment"

definition macOSBlockedHostAliases :: "string list" where
  "macOSBlockedHostAliases = [''host.docker.internal:0.0.0.0'', ''gateway.docker.internal:0.0.0.0'']"

text \<open>The request of \<^verbatim>\<open>dockerContainerCreate\<close>.\<close>

definition container_request_of :: "docker_engine \<Rightarrow> docker_container_spec \<Rightarrow> go_error + container_request" where
  "container_request_of eng spec =
     res_bind (buildPortBindings eng (dc_ports spec)) (\<lambda>(exposedPorts, portBindings).
       Inr \<lparr>gq_name = dc_name spec, gq_image = dc_image spec, gq_cmd = dc_command spec,
            gq_working_dir = dc_workdir spec, gq_env = envMapToSlice (dc_environment spec),
            gq_labels = dc_labels spec, gq_healthcheck = toContainerHealthConfig (dc_healthcheck spec),
            gq_exposed_ports = exposedPorts, gq_init = True, gq_mounts = dc_mounts spec,
            gq_port_bindings = portBindings, gq_group_add = dc_group_add spec,
            gq_extra_hosts = macOSBlockedHostAliases, gq_restart_policy = ''unless-stopped'',
            gq_nano_cpus = (if dc_cpu_millicores spec > 0 then int64 (dc_cpu_millicores spec * 1000000) else 0),
            gq_memory = (if dc_memory_bytes spec > 0 then dc_memory_bytes spec else 0),
            gq_storage_opt =
              (if dc_disk_size_bytes spec > 0 then [(''size'', show_int (dc_disk_size_bytes spec))] else []),
            gq_device_requests =
              (if dc_gpus spec = ''all'' then [(''nvidia'', - 1, [[''gpu'']])] else []),
            gq_network_mode = dc_network_name spec,
            gq_endpoints =
              (if dc_network_name spec \<noteq> ''''
               then Some [(dc_network_name spec,
                           if dc_network_alias spec \<noteq> '''' then [dc_network_alias spec] else [])]
               else None)\<rparr>)"

text \<open>
  \<^verbatim>\<open>translateDiskLimitError\<close>: the text of the status error it makes, where it makes one.
\<close>

definition translateDiskLimitError :: "docker_engine \<Rightarrow> go_error \<Rightarrow> go_error option" where
  "translateDiskLimitError eng err =
     (let msg = eg_error_string eng err
      in if \<not> str_contains msg ''storage-opt is supported only for overlay''
            \<and> \<not> str_contains msg ''inappropriate ioctl for device''
         then None
         else Some (ErrText ([Lit ''rpc error: code = FailedPrecondition desc = '',
                Lit ''disk_limit not supported by Docker runtime: ''] @ error_text err @
               [Lit ''. Prerequisites: overlay2 storage driver on XFS with prjquota mount option and ftype=1. '',
                Lit ''Run: docker info --format '', Lit [CHR 0x27], Lit ''{{.Driver}} {{.DockerRootDir}}'', Lit [CHR 0x27],
                Lit '' and findmnt -T <DockerRootDir> to diagnose.''])))"

definition port_text :: "docker_port_mapping \<Rightarrow> string" where
  "port_text p = show_port (dp_host_port p) @ ''->'' @ show_port (dp_container_port p) @ ''/'' @ dp_protocol p"

text \<open>What \<^verbatim>\<open>dockerContainerCreate\<close> makes of an error of the engine.\<close>

definition create_error :: "docker_engine \<Rightarrow> docker_container_spec \<Rightarrow> go_error \<Rightarrow> go_error" where
  "create_error eng spec err =
     (case translateDiskLimitError eng err of
        Some translated \<Rightarrow> translated
      | None \<Rightarrow>
          if dc_ports spec \<noteq> []
          then ErrText ([Lit ''failed to create container with port bindings ['',
                 Lit (join_with '', '' (map port_text (dc_ports spec))), Lit '']: ''] @ error_text err)
          else err)"

section \<open>Calls and the companions' turns\<close>

record docker_state =
  dx_calls :: calls
  dx_starts :: "companion_start list"

definition status_failed :: "docker_engine \<Rightarrow> string \<Rightarrow> go_error \<Rightarrow> start_phase" where
  "status_failed eng name err =
     StartDone \<lparr>ccs_name = name, ccs_ready = False, ccs_message = eg_error_string eng err\<rparr>"

text \<open>The next call of one companion goroutine.\<close>

definition start_step :: "docker_engine \<Rightarrow> calls \<Rightarrow> companion_start \<Rightarrow> calls \<times> companion_start" where
  "start_step eng h c =
     (case ct_phase c of
        StartCreate \<Rightarrow>
          (case container_request_of eng (ct_spec c) of
             Inl err \<Rightarrow> (h, c\<lparr>ct_phase := status_failed eng (ct_name c) err\<rparr>)
           | Inr req \<Rightarrow>
               (h @ [ContainerCreate req],
                case eg_container_create eng h req of
                  Some err \<Rightarrow> c\<lparr>ct_phase := status_failed eng (ct_name c) (create_error eng (ct_spec c) err)\<rparr>
                | None \<Rightarrow> c\<lparr>ct_phase := StartStart\<rparr>))
      | StartStart \<Rightarrow>
          (h @ [ContainerStart (dc_name (ct_spec c))],
           case eg_container_start eng h (dc_name (ct_spec c)) of
             Some err \<Rightarrow> c\<lparr>ct_phase := status_failed eng (ct_name c) err\<rparr>
           | None \<Rightarrow> c\<lparr>ct_phase := StartDone \<lparr>ccs_name = ct_name c, ccs_ready = True, ccs_message = ''''\<rparr>\<rparr>)
      | StartDone _ \<Rightarrow> (h, c))"

definition start_turn :: "docker_engine \<Rightarrow> nat \<Rightarrow> docker_state \<Rightarrow> docker_state" where
  "start_turn eng i dx =
     (if i < length (dx_starts dx)
      then (case start_step eng (dx_calls dx) (dx_starts dx ! i) of
              (h, c) \<Rightarrow> \<lparr>dx_calls = h, dx_starts = (dx_starts dx)[i := c]\<rparr>)
      else dx)"

definition start_turns :: "docker_engine \<Rightarrow> docker_state \<Rightarrow> docker_state" where
  "start_turns eng dx = fold (start_turn eng) (eg_turns eng (dx_calls dx)) dx"

text \<open>
  \<^verbatim>\<open>CancelAndWait\<close>: the goroutines may still make calls that were under way; the wait ends when none is
  left, so none makes a call afterwards.
\<close>

definition CancelAndWait :: "docker_engine \<Rightarrow> docker_state \<Rightarrow> docker_state" where
  "CancelAndWait eng dx = (start_turns eng dx)\<lparr>dx_starts := []\<rparr>"

type_synonym 'a dk = "docker_state \<Rightarrow> (go_error + 'a) \<times> docker_state"

definition dk_ret :: "'a \<Rightarrow> 'a dk" where
  "dk_ret x dx = (Inr x, dx)"

definition dk_fail :: "go_error \<Rightarrow> 'a dk" where
  "dk_fail err dx = (Inl err, dx)"

definition dk_bind :: "'a dk \<Rightarrow> ('a \<Rightarrow> 'b dk) \<Rightarrow> 'b dk" where
  "dk_bind m f dx = (case m dx of (Inl err, dx') \<Rightarrow> (Inl err, dx') | (Inr x, dx') \<Rightarrow> f x dx')"

definition dk_try :: "'a dk \<Rightarrow> (go_error + 'a) dk" where
  "dk_try m dx = (case m dx of (r, dx') \<Rightarrow> (Inr r, dx'))"

text \<open>The value of a pure part, and a check without a result.\<close>

definition dk_lift :: "go_error + 'a \<Rightarrow> 'a dk" where
  "dk_lift r dx = (r, dx)"

text \<open>One call: the companions' turns, then the answer, then the call is in the past.\<close>

definition dk_ask :: "docker_engine \<Rightarrow> engine_call \<Rightarrow> (calls \<Rightarrow> go_error + 'a) \<Rightarrow> 'a dk" where
  "dk_ask eng c answer dx =
     (let dx' = start_turns eng dx
      in (answer (dx_calls dx'), dx'\<lparr>dx_calls := dx_calls dx' @ [c]\<rparr>))"

definition as_result :: "go_error option \<Rightarrow> go_error + unit" where
  "as_result e = (case e of None \<Rightarrow> Inr () | Some err \<Rightarrow> Inl err)"

text \<open>A call whose \<^verbatim>\<open>NotFound\<close> error counts as success.\<close>

definition ignore_missing :: "docker_engine \<Rightarrow> go_error option \<Rightarrow> go_error option" where
  "ignore_missing eng e =
     (case e of None \<Rightarrow> None | Some err \<Rightarrow> if eg_is_not_found eng err then None else Some err)"

section \<open>The calls of the backend\<close>

definition ensureDockerImage :: "docker_engine \<Rightarrow> string \<Rightarrow> unit dk" where
  "ensureDockerImage eng imageRef =
     (if imageRef = '''' then dk_fail (ErrText [Lit ''sandbox image must be configured''])
      else dk_bind (dk_ask eng (ImageInspect imageRef) (\<lambda>h. Inr (eg_image_inspect eng h imageRef))) (\<lambda>e.
        case e of
          None \<Rightarrow> dk_ret ()
        | Some err \<Rightarrow>
            if \<not> eg_is_not_found eng err then dk_fail err
            else dk_ask eng (ImagePull imageRef) (\<lambda>h. as_result (eg_pull eng h imageRef))))"

definition dockerNetworkCreate :: "docker_engine \<Rightarrow> string \<Rightarrow> (string, string) gomap \<Rightarrow> unit dk" where
  "dockerNetworkCreate eng name labels =
     dk_ask eng (NetworkCreate name labels) (\<lambda>h. as_result (eg_network_create eng h name))"

definition dockerNetworkRemove :: "docker_engine \<Rightarrow> string \<Rightarrow> unit dk" where
  "dockerNetworkRemove eng name =
     (if name = '''' then dk_ret ()
      else dk_ask eng (NetworkRemove name)
             (\<lambda>h. as_result (ignore_missing eng (eg_network_remove eng h name))))"

definition dockerContainerCreate :: "docker_engine \<Rightarrow> docker_container_spec \<Rightarrow> unit dk" where
  "dockerContainerCreate eng spec =
     dk_bind (dk_lift (container_request_of eng spec)) (\<lambda>req.
       dk_ask eng (ContainerCreate req)
         (\<lambda>h. as_result (map_option (create_error eng spec) (eg_container_create eng h req))))"

definition dockerContainerStart :: "docker_engine \<Rightarrow> string \<Rightarrow> unit dk" where
  "dockerContainerStart eng name =
     dk_ask eng (ContainerStart name) (\<lambda>h. as_result (eg_container_start eng h name))"

definition dockerContainerState :: "docker_engine \<Rightarrow> string \<Rightarrow> engine_container_state dk" where
  "dockerContainerState eng name =
     dk_ask eng (ContainerInspect name) (\<lambda>h.
       case eg_container_inspect eng h name of
         Inl err \<Rightarrow> Inl err
       | Inr None \<Rightarrow> Inl (ErrText [Lit ''container '', Lit name, Lit '' does not expose structured state''])
       | Inr (Some st) \<Rightarrow> Inr st)"

definition dockerContainerMustExist :: "docker_engine \<Rightarrow> string \<Rightarrow> unit dk" where
  "dockerContainerMustExist eng name = dk_bind (dockerContainerState eng name) (\<lambda>_. dk_ret ())"

text \<open>The loop of \<^verbatim>\<open>dockerWaitContainerRunning\<close>, once per check that the deadline is ahead.\<close>

fun wait_running :: "docker_engine \<Rightarrow> string \<Rightarrow> nat \<Rightarrow> unit dk" where
  "wait_running eng name 0 =
     dk_fail (ErrText [Lit ''container '', Lit name, Lit '' did not become running''])"
| "wait_running eng name (Suc n) =
     dk_bind (dockerContainerState eng name) (\<lambda>state.
       if cst_running state then dk_ret () else wait_running eng name n)"

definition dockerWaitContainerRunning :: "docker_engine \<Rightarrow> string \<Rightarrow> duration \<Rightarrow> unit dk" where
  "dockerWaitContainerRunning eng name timeout dx =
     wait_running eng name (eg_polls eng (dx_calls dx) timeout) dx"

definition ten_seconds :: duration where "ten_seconds = 10 * 1000000000"

definition dockerContainerEnsureRunning :: "docker_engine \<Rightarrow> string \<Rightarrow> unit dk" where
  "dockerContainerEnsureRunning eng name =
     dk_bind (dockerContainerState eng name) (\<lambda>state.
       if cst_running state then dk_ret ()
       else dk_bind (dockerContainerStart eng name) (\<lambda>_.
              dockerWaitContainerRunning eng name ten_seconds))"

definition dockerContainerStop :: "docker_engine \<Rightarrow> string \<Rightarrow> unit dk" where
  "dockerContainerStop eng name =
     (if name = '''' then dk_ret ()
      else dk_bind (dk_try (dockerContainerState eng name)) (\<lambda>r.
        case r of
          Inl err \<Rightarrow> if eg_is_not_found eng err then dk_ret () else dk_fail err
        | Inr state \<Rightarrow>
            if \<not> cst_running state then dk_ret ()
            else dk_ask eng (ContainerStop name)
                   (\<lambda>h. as_result (ignore_missing eng (eg_container_stop eng h name)))))"

definition dockerContainerRemove :: "docker_engine \<Rightarrow> string \<Rightarrow> unit dk" where
  "dockerContainerRemove eng name =
     (if name = '''' then dk_ret ()
      else dk_ask eng (ContainerRemove name)
             (\<lambda>h. as_result (ignore_missing eng (eg_container_remove eng h name))))"

definition dockerCopyToContainer :: "docker_engine \<Rightarrow> string \<Rightarrow> deferred_copy \<Rightarrow> unit dk" where
  "dockerCopyToContainer eng containerName cp =
     dk_ask eng (CopyToContainer containerName cp) (\<lambda>h.
       case eg_copy eng h containerName cp of
         Some err \<Rightarrow>
           Inl (ErrText ([Lit ''copy to container '', Lit containerName, Lit '' at '',
                          Lit (df_container_target cp), Lit '': ''] @ error_text err))
       | None \<Rightarrow>
           (case eg_tar eng h cp of
              Some err \<Rightarrow>
                Inl (ErrText ([Lit ''build tar for '', Lit (df_source_path cp), Lit '': ''] @ error_text err))
            | None \<Rightarrow> Inr ()))"

end
