(* ===== verification/Docker_Backend.thy ===== *)
theory Docker_Backend
  imports Docker_Engine Service_Cleanup
begin

text \<open>
  The operations of \<^verbatim>\<open>dockerRuntimeBackend\<close> (\<^verbatim>\<open>internal/control/docker_runtime.go\<close>) with what they need of
  \<^verbatim>\<open>docker_runtime_materialize.go\<close>, \<^verbatim>\<open>docker_runtime_dockerapi.go\<close>, \<^verbatim>\<open>docker_runtime_nftables.go\<close> and
  \<^verbatim>\<open>docker_runtime_health.go\<close>, over the engine of \<^theory_text>\<open>Docker_Engine\<close>.

  Left out: the projection of macOS Keychain credentials, which only writes a file on the host and whose
  errors are logged, and the tar stream of a copy, which is the answer \<open>eg_tar\<close>.
\<close>

section \<open>The process and its host\<close>

text \<open>
  \<open>dh_stat\<close> is \<^verbatim>\<open>os.Stat\<close>, which follows links; \<open>dh_device\<close> is the stat of a device path: whether it is a
  device, and its group, or the type found in place of \<^verbatim>\<open>Stat_t\<close>.
\<close>

record docker_host =
  dh_env :: host_env
  dh_goos :: string
  dh_getenv :: "string \<Rightarrow> string"
  dh_stat :: "string \<Rightarrow> go_error + file_kind"
  dh_uid :: int
  dh_gid :: int
  dh_glob :: "string \<Rightarrow> go_error + string list"
  dh_device :: "string \<Rightarrow> go_error + bool \<times> (string + 32 word)"

record docker_backend =
  db_host :: docker_host
  db_engine :: docker_engine
  db_artifact_root :: string

section \<open>Mounts\<close>

definition simple_error :: "string \<Rightarrow> go_error" where
  "simple_error s = ErrText [Lit s]"

definition materialize_mount :: "host_env \<Rightarrow> mount_spec \<Rightarrow> go_error + docker_mount" where
  "materialize_mount env request =
     (if ms_source request = '''' then Inl (simple_error ''mount source is required'')
      else if ms_target request = '''' then Inl (simple_error ''mount target is required'')
      else if \<not> IsAbs (ms_target request)
      then Inl (ErrText [Lit ''mount target must be absolute: '', Lit (ms_target request)])
      else case he_lstat env (ms_source request) of
        Inl err \<Rightarrow> Inl err
      | Inr Symlink \<Rightarrow> Inl (ErrText [Lit ''mount source must not be a symlink: '', Lit (ms_source request)])
      | Inr OtherFile \<Rightarrow>
          Inl (ErrText [Lit ''mount source must be a file, directory, or unix socket: '', Lit (ms_source request)])
      | Inr _ \<Rightarrow>
          Inr \<lparr>dk_source = ms_source request, dk_target = ms_target request,
               dk_read_only = (\<not> ms_writable request)\<rparr>)"

definition materializeGenericMounts :: "host_env \<Rightarrow> mount_spec list \<Rightarrow> go_error + docker_mount list" where
  "materializeGenericMounts env requests = map_result (materialize_mount env) requests"

definition validate_generic_copy :: "host_env \<Rightarrow> copy_spec \<Rightarrow> go_error + deferred_copy" where
  "validate_generic_copy env request =
     (if cp_source request = '''' then Inl (simple_error ''copy source is required'')
      else if cp_target request = '''' then Inl (simple_error ''copy target is required'')
      else if \<not> IsAbs (cp_target request)
      then Inl (ErrText [Lit ''copy target must be absolute: '', Lit (cp_target request)])
      else case he_lstat env (cp_source request) of
        Inl err \<Rightarrow> Inl err
      | Inr Symlink \<Rightarrow> Inl (ErrText [Lit ''copy source must not be a symlink: '', Lit (cp_source request)])
      | Inr kind \<Rightarrow>
          if kind \<noteq> RegularFile \<and> kind \<noteq> Directory
          then Inl (ErrText [Lit ''copy source must be a file or directory: '', Lit (cp_source request)])
          else Inr \<lparr>df_source_path = cp_source request, df_container_target = cp_target request,
                    df_exclude_patterns = cp_exclude_patterns request\<rparr>)"

definition validateGenericCopies :: "host_env \<Rightarrow> copy_spec list \<Rightarrow> go_error + deferred_copy list" where
  "validateGenericCopies env requests = map_result (validate_generic_copy env) requests"

text \<open>The mounts of the requested tools, each once, in the order first met.\<close>

definition collect_tool :: "string \<Rightarrow> string list \<Rightarrow> go_error + string list" where
  "collect_tool resource entries =
     (case CapabilityByID resource of
        None \<Rightarrow> Inl (ErrText [Lit ''unknown builtin resource '', Quoted resource])
      | Some capability \<Rightarrow>
          Inr (fold (\<lambda>m es. if m \<in> set es then es else es @ [m]) (tc_mount_ids capability) entries))"

definition dockerDesktopSSHAgentSocket :: string where
  "dockerDesktopSSHAgentSocket = ''/run/host-services/ssh-auth.sock''"

definition resolveCapabilityMountSource :: "docker_host \<Rightarrow> capability_mount \<Rightarrow> go_error + string" where
  "resolveCapabilityMountSource host mnt =
     (if cm_id mnt = MountIDSSHAgent then
        (if dh_goos host = ''darwin'' then Inr dockerDesktopSSHAgentSocket
         else let socketPath = dh_getenv host ''SSH_AUTH_SOCK''
              in if socketPath = ''''
                 then Inl (simple_error ''SSH_AUTH_SOCK is required for ssh-agent tooling projection'')
                 else Abs (he_cwd (dh_env host)) socketPath)
      else if cm_id mnt = MountIDPulseAudio then
        (let runtimeDir = dh_getenv host ''XDG_RUNTIME_DIR'';
             runtimeDir = (if runtimeDir = '''' then ''/run/user/'' @ show_int (dh_uid host) else runtimeDir)
         in Inr (JoinPath [runtimeDir, ''pulse'', ''native'']))
      else expandHomePath (he_home (dh_env host)) (he_cwd (dh_env host)) (cm_default_host_path mnt))"

definition requireSocketPath :: "docker_host \<Rightarrow> string \<Rightarrow> go_error option" where
  "requireSocketPath host path =
     (case dh_stat host path of
        Inl err \<Rightarrow> Some err
      | Inr kind \<Rightarrow>
          if kind \<noteq> UnixSocket then Some (ErrText [Lit path, Lit '' is not a Unix socket'']) else None)"

definition materializeBuiltinToolPath :: "docker_host \<Rightarrow> string \<Rightarrow> bool \<Rightarrow> go_error + string \<times> bool" where
  "materializeBuiltinToolPath host sourcePath writable =
     (case dh_stat host sourcePath of Inl err \<Rightarrow> Inl err | Inr _ \<Rightarrow> Inr (sourcePath, \<not> writable))"

definition capabilityMountTarget :: "capability_mount \<Rightarrow> string \<Rightarrow> string" where
  "capabilityMountTarget mnt sourcePath =
     (if cm_container_target_mode mnt = CapabilityContainerTargetHostPath then sourcePath
      else cm_container_target mnt)"

definition addBuiltinMountEnvironment ::
  "capability_mount \<Rightarrow> string \<Rightarrow> (string, string) gomap \<Rightarrow> (string, string) gomap" where
  "addBuiltinMountEnvironment mnt target environment =
     (if cm_container_target_env_key mnt \<noteq> ''''
      then gm_set (cm_container_target_env_key mnt) target environment else environment)"

text \<open>The source and the read-only flag of one tool's mount, by its mode.\<close>

definition tool_mount_source :: "docker_host \<Rightarrow> capability_mount \<Rightarrow> go_error + string \<times> bool" where
  "tool_mount_source host mnt =
     res_bind (resolveCapabilityMountSource host mnt) (\<lambda>sourcePath.
       case cm_mode mnt of
         CapabilityModeSocket \<Rightarrow>
           if sourcePath = dockerDesktopSSHAgentSocket then Inr (sourcePath, False)
           else (case requireSocketPath host sourcePath of
                   Some err \<Rightarrow> Inl err
                 | None \<Rightarrow> Inr (sourcePath, False))
       | mode \<Rightarrow> materializeBuiltinToolPath host sourcePath (mode = CapabilityModeReadWrite))"

type_synonym tool_mounts = "docker_mount list \<times> (string, string) gomap"

definition materialize_entry :: "docker_host \<Rightarrow> string \<Rightarrow> tool_mounts \<Rightarrow> go_error + tool_mounts" where
  "materialize_entry host mountID acc =
     (case MountByID mountID of
        None \<Rightarrow> Inl (ErrText [Lit ''unknown capability mount '', Quoted mountID])
      | Some mnt \<Rightarrow>
          (case tool_mount_source host mnt of
             Inl err \<Rightarrow> if cm_optional mnt then Inr acc else Inl err
           | Inr (source, readOnly) \<Rightarrow>
               let target = capabilityMountTarget mnt source
               in Inr (fst acc @ [\<lparr>dk_source = source, dk_target = target, dk_read_only = readOnly\<rparr>],
                       addBuiltinMountEnvironment mnt target (snd acc))))"

definition materializeBuiltinTools :: "docker_host \<Rightarrow> string list \<Rightarrow> go_error + tool_mounts" where
  "materializeBuiltinTools host resources =
     res_bind (fold_result collect_tool resources []) (\<lambda>entries.
       fold_result (materialize_entry host) entries ([], []))"

definition unique_target ::
  "docker_mount \<Rightarrow> (string, string) gomap \<Rightarrow> go_error + (string, string) gomap" where
  "unique_target mnt targets =
     (if dk_target mnt = '''' then Inl (simple_error ''mount target is required'')
      else if \<not> IsAbs (dk_target mnt)
      then Inl (ErrText [Lit ''mount target must be absolute: '', Lit (dk_target mnt)])
      else case gm_get targets (dk_target mnt) of
        Some existingSource \<Rightarrow>
          Inl (ErrText [Lit ''conflicting mount target '', Lit (dk_target mnt), Lit '' for '',
                        Lit existingSource, Lit '' and '', Lit (dk_source mnt)])
      | None \<Rightarrow> Inr (gm_set (dk_target mnt) (dk_source mnt) targets))"

definition ensureUniqueMountTargets :: "docker_mount list \<Rightarrow> go_error + unit" where
  "ensureUniqueMountTargets mounts = res_bind (fold_result unique_target mounts []) (\<lambda>_. Inr ())"

section \<open>The environment, the command and the devices\<close>

definition hasMountedToolingTarget :: "docker_mount list \<Rightarrow> string \<Rightarrow> bool" where
  "hasMountedToolingTarget mounts target = list_ex (\<lambda>m. dk_target m = target) mounts"

definition primaryContainerEnvironment :: "docker_host \<Rightarrow> docker_mount list \<Rightarrow> (string, string) gomap" where
  "primaryContainerEnvironment host mounts =
     (let environment = [(''HOST_UID'', show_int (dh_uid host)), (''HOST_GID'', show_int (dh_gid host))];
          environment = (if hasMountedToolingTarget mounts ''/ssh-agent''
                         then gm_set ''SSH_AUTH_SOCK'' ''/ssh-agent'' environment else environment)
      in if hasMountedToolingTarget mounts ''/pulse-audio''
         then gm_set ''PULSE_SERVER'' ''unix:/pulse-audio'' environment else environment)"

definition primaryContainerCommand :: "string list \<Rightarrow> string list" where
  "primaryContainerCommand specCommand =
     (if length specCommand > 0 then specCommand
      else [''sh'', ''-lc'',
            ''trap '' @ [CHR 0x27] @ ''exit 0'' @ [CHR 0x27] @ '' TERM INT; while sleep 3600; do :; done''])"

definition gpuDeviceGroupGlobPatterns :: "string list" where
  "gpuDeviceGroupGlobPatterns = [''/dev/nvidia*'', ''/dev/dri/renderD*'']"

definition stat_device :: "docker_host \<Rightarrow> string \<Rightarrow> nat list \<Rightarrow> go_error + nat list" where
  "stat_device host path groupIDs =
     (case dh_device host path of
        Inl err \<Rightarrow> Inl (ErrText ([Lit ''stat GPU device '', Lit path, Lit '': ''] @ error_text err))
      | Inr (False, _) \<Rightarrow> Inr groupIDs
      | Inr (True, Inl typeName) \<Rightarrow>
          Inl (ErrText [Lit ''stat GPU device '', Lit path, Lit '': unsupported stat type '', Lit typeName])
      | Inr (True, Inr gid) \<Rightarrow> Inr (List.insert (unat gid) groupIDs))"

definition scan_pattern :: "docker_host \<Rightarrow> string \<Rightarrow> nat list \<Rightarrow> go_error + nat list" where
  "scan_pattern host pattern groupIDs =
     (case dh_glob host pattern of
        Inl err \<Rightarrow>
          Inl (ErrText ([Lit ''scan GPU device groups with pattern '', Quoted pattern, Lit '': ''] @ error_text err))
      | Inr paths \<Rightarrow> fold_result (stat_device host) paths groupIDs)"

definition discoverGPUDeviceGroups :: "docker_host \<Rightarrow> go_error + string list" where
  "discoverGPUDeviceGroups host =
     res_bind (fold_result (scan_pattern host) gpuDeviceGroupGlobPatterns []) (\<lambda>groupIDs.
       Inr (map show_nat (sort groupIDs)))"

section \<open>Host isolation of a network\<close>

definition applyNetworkHostIsolation :: "docker_backend \<Rightarrow> string \<Rightarrow> unit dk" where
  "applyNetworkHostIsolation be networkName =
     (let eng = db_engine be
      in if dh_goos (db_host be) \<noteq> ''linux'' then dk_ret ()
         else dk_bind (dk_ask eng (NetworkInspect networkName)
                (\<lambda>h. wrap_err [Lit ''inspect network '', Lit networkName, Lit '' for host isolation: '']
                       (eg_network_inspect eng h networkName))) (\<lambda>inspectResult.
              dk_bind (dk_lift (wrap_err [Lit ''extract isolation params for network '', Lit networkName, Lit '': '']
                (extractNetworkIsolationParams (eg_parse_cidr eng) inspectResult))) (\<lambda>(bridge, subnet).
              dk_ask eng (NftApply bridge subnet) (\<lambda>h. as_result (eg_nft_apply eng h bridge subnet)))))"

definition removeNetworkHostIsolation :: "docker_backend \<Rightarrow> string \<Rightarrow> unit dk" where
  "removeNetworkHostIsolation be networkName =
     (let eng = db_engine be
      in if dh_goos (db_host be) \<noteq> ''linux'' then dk_ret ()
         else dk_bind (dk_try (dk_ask eng (NetworkInspect networkName)
                (\<lambda>h. eg_network_inspect eng h networkName))) (\<lambda>r.
              case r of
                Inl _ \<Rightarrow> dk_ret ()
              | Inr inspectResult \<Rightarrow>
                  (case extractNetworkIsolationParams (eg_parse_cidr eng) inspectResult of
                     Inl _ \<Rightarrow> dk_ret ()
                   | Inr (bridge, subnet) \<Rightarrow> dk_ask eng (NftRemove bridge subnet) (\<lambda>_. Inr ()))))"

end
