(* ===== verification/Docker_Lifecycle.thy ===== *)
theory Docker_Lifecycle
  imports Docker_Backend
begin

text \<open>
  The operations the service calls: creating, resuming, stopping and deleting the containers of a sandbox,
  running a command, and inspecting (\<^verbatim>\<open>internal/control/docker_runtime.go\<close>, \<^verbatim>\<open>docker_runtime_health.go\<close>,
  \<^verbatim>\<open>dockerExec\<close> of \<^verbatim>\<open>docker_runtime_dockerapi.go\<close>).
\<close>

section \<open>Deletion\<close>

text \<open>\<^verbatim>\<open>errors.Join\<close>: the texts of the errors on lines of their own.\<close>

definition join_results :: "(go_error + unit) list \<Rightarrow> go_error + unit" where
  "join_results rs =
     (case [err. Inl err \<leftarrow> rs] of
        [] \<Rightarrow> Inr ()
      | err # errs \<Rightarrow> Inl (ErrText (foldl (\<lambda>t e. t @ [Lit [CHR 0x0A]] @ error_text e) (error_text err) errs)))"

fun dk_try_all :: "'a dk list \<Rightarrow> (go_error + 'a) list dk" where
  "dk_try_all [] = dk_ret []"
| "dk_try_all (m # ms) = dk_bind (dk_try m) (\<lambda>r. dk_bind (dk_try_all ms) (\<lambda>rs. dk_ret (r # rs)))"

definition remove_network :: "docker_backend \<Rightarrow> string \<Rightarrow> unit dk" where
  "remove_network be name =
     (if name \<noteq> ''''
      then dk_bind (dk_try (removeNetworkHostIsolation be name)) (\<lambda>_.
             dockerNetworkRemove (db_engine be) name)
      else dk_ret ())"

definition deleteRuntimeArtifacts :: "docker_backend \<Rightarrow> sandbox_runtime_state \<Rightarrow> unit dk" where
  "deleteRuntimeArtifacts be state =
     dk_bind (dk_try_all
       (dockerContainerRemove (db_engine be) (rs_primary_container_name state) #
        map (\<lambda>cc. dockerContainerRemove (db_engine be) (rc_container_name cc)) (rs_companion_containers state) @
        [remove_network be (rs_network_name state)]))
       (\<lambda>rs. dk_lift (join_results rs))"

definition DeleteSandbox_backend :: "docker_backend \<Rightarrow> sandbox_record \<Rightarrow> unit dk" where
  "DeleteSandbox_backend be rec dx =
     (case sr_runtime_state rec of
        None \<Rightarrow> (Inr (), dx)
      | Some state \<Rightarrow> deleteRuntimeArtifacts be state (CancelAndWait (db_engine be) dx))"

section \<open>Creation\<close>

definition execLogContainerDir :: string where "execLogContainerDir = ''/var/log/agents-sandbox/''"

record create_plan =
  pl_limits :: limits
  pl_mounts :: "docker_mount list"
  pl_tool_environment :: "(string, string) gomap"
  pl_copies :: "deferred_copy list"

text \<open>The part of \<^verbatim>\<open>CreateSandbox\<close> before \<^verbatim>\<open>cleanupRequired = true\<close>, which asks nothing of the engine.\<close>

definition plan_sandbox :: "docker_backend \<Rightarrow> sandbox_record \<Rightarrow> go_error + create_plan" where
  "plan_sandbox be rec =
     (let spec = sr_create_spec rec; host = db_host be; env = dh_env host
      in res_bind (buildLimits env spec) (\<lambda>limits.
         res_bind (materializeBuiltinTools host (cs_builtin_tools spec)) (\<lambda>(toolMounts, toolEnv).
         res_bind (materializeGenericMounts env (cs_mounts spec)) (\<lambda>genericMounts.
         res_bind (validateGenericCopies env (cs_copies spec)) (\<lambda>copies.
           let mounts = toolMounts @ genericMounts @
                 (if db_artifact_root be \<noteq> ''''
                  then [\<lparr>dk_source = JoinPath [db_artifact_root be, sh_sandbox_id (sr_handle rec)],
                         dk_target = execLogContainerDir, dk_read_only = False\<rparr>]
                  else [])
           in res_bind (ensureUniqueMountTargets mounts) (\<lambda>_.
                Inr \<lparr>pl_limits = limits, pl_mounts = mounts, pl_tool_environment = toolEnv,
                     pl_copies = copies\<rparr>))))))"

fun dk_each :: "('a \<Rightarrow> unit dk) \<Rightarrow> 'a list \<Rightarrow> unit dk" where
  "dk_each f [] = dk_ret ()"
| "dk_each f (x # xs) = dk_bind (f x) (\<lambda>_. dk_each f xs)"

text \<open>The images and the network, isolated from the host before any container is in it.\<close>

definition create_network_part :: "docker_backend \<Rightarrow> sandbox_record \<Rightarrow> unit dk" where
  "create_network_part be rec =
     (let eng = db_engine be; k = sh_sandbox_id (sr_handle rec)
      in dk_bind (ensureDockerImage eng (cs_image (sr_create_spec rec))) (\<lambda>_.
         dk_bind (dk_each (\<lambda>cc. ensureDockerImage eng (cc_image cc)) (sr_companion_containers rec)) (\<lambda>_.
         dk_bind (dockerNetworkCreate eng (dockerNetworkName k)
                   (SandboxLabels k ''default'' (sh_labels (sr_handle rec)))) (\<lambda>_.
         applyNetworkHostIsolation be (dockerNetworkName k)))))"

definition limit_of :: "(string, int) gomap \<Rightarrow> string \<Rightarrow> int" where
  "limit_of m k = (case gm_get m k of None \<Rightarrow> 0 | Some v \<Rightarrow> v)"

definition companion_spec ::
  "string \<Rightarrow> (string, string) gomap \<Rightarrow> limits \<Rightarrow> companion_container_spec \<Rightarrow> docker_container_spec" where
  "companion_spec k userLabels lim cc =
     \<lparr>dc_name = dockerCompanionContainerName k (cc_name cc), dc_image = cc_image cc,
      dc_network_name = dockerNetworkName k, dc_network_alias = cc_name cc,
      dc_labels = CompanionContainerLabels k (cc_name cc) userLabels, dc_environment = cc_envs cc,
      dc_healthcheck = cc_healthcheck cc, dc_mounts = [], dc_ports = [], dc_workdir = '''',
      dc_command = cc_command cc,
      dc_cpu_millicores = limit_of (li_companion_cpu_millicores lim) (cc_name cc),
      dc_memory_bytes = limit_of (li_companion_memory_bytes lim) (cc_name cc),
      dc_disk_size_bytes = limit_of (li_companion_disk_bytes lim) (cc_name cc),
      dc_gpus = '''', dc_group_add = []\<rparr>"

text \<open>The goroutines \<^verbatim>\<open>startCompanionContainersAsync\<close> starts, none of which has made a call yet.\<close>

definition startCompanionContainersAsync :: "sandbox_record \<Rightarrow> limits \<Rightarrow> docker_state \<Rightarrow> docker_state" where
  "startCompanionContainersAsync rec lim dx =
     dx\<lparr>dx_starts := map (\<lambda>cc.
        \<lparr>ct_name = cc_name cc,
         ct_spec = companion_spec (sh_sandbox_id (sr_handle rec)) (sh_labels (sr_handle rec)) lim cc,
         ct_phase = StartCreate\<rparr>) (sr_companion_containers rec)\<rparr>"

text \<open>The environment of the primary container: later sources override earlier ones.\<close>

definition primary_environment ::
  "docker_backend \<Rightarrow> sandbox_record \<Rightarrow> create_plan \<Rightarrow> string list \<Rightarrow> (string, string) gomap" where
  "primary_environment be rec plan gpuGroupAdd =
     (let primaryEnv = gm_merge (gm_merge (primaryContainerEnvironment (db_host be) (pl_mounts plan))
                         (pl_tool_environment plan)) (cs_envs (sr_create_spec rec));
          primaryEnv = gm_del supplementalGroupsEnv primaryEnv
      in if length gpuGroupAdd > 0
         then gm_set supplementalGroupsEnv (join_with '','' gpuGroupAdd) primaryEnv else primaryEnv)"

definition primary_spec ::
  "docker_backend \<Rightarrow> sandbox_record \<Rightarrow> create_plan \<Rightarrow> go_error + docker_container_spec" where
  "primary_spec be rec plan =
     (let spec = sr_create_spec rec; k = sh_sandbox_id (sr_handle rec)
      in res_bind (if cs_gpus spec = ''all'' then discoverGPUDeviceGroups (db_host be) else Inr []) (\<lambda>gpuGroupAdd.
         Inr \<lparr>dc_name = dockerPrimaryContainerName k, dc_image = cs_image spec,
              dc_network_name = dockerNetworkName k, dc_network_alias = '''',
              dc_labels = SandboxLabels k ''default'' (sh_labels (sr_handle rec)),
              dc_environment = primary_environment be rec plan gpuGroupAdd, dc_healthcheck = None,
              dc_mounts = pl_mounts plan,
              dc_ports = map (\<lambda>p. \<lparr>dp_container_port = pm_container_port p, dp_host_port = pm_host_port p,
                                    dp_protocol = portProtocolToString (pm_protocol p)\<rparr>) (cs_ports spec),
              dc_workdir = ''/workspace'', dc_command = primaryContainerCommand (cs_command spec),
              dc_cpu_millicores = li_cpu_millicores (pl_limits plan),
              dc_memory_bytes = li_memory_bytes (pl_limits plan),
              dc_disk_size_bytes = li_primary_disk_bytes (pl_limits plan),
              dc_gpus = cs_gpus spec, dc_group_add = gpuGroupAdd\<rparr>))"

definition create_primary_part :: "docker_backend \<Rightarrow> sandbox_record \<Rightarrow> create_plan \<Rightarrow> unit dk" where
  "create_primary_part be rec plan =
     (let eng = db_engine be; name = dockerPrimaryContainerName (sh_sandbox_id (sr_handle rec))
      in dk_bind (dk_lift (primary_spec be rec plan)) (\<lambda>spec.
         dk_bind (dockerContainerCreate eng spec) (\<lambda>_.
         dk_bind (dk_each (dockerCopyToContainer eng name) (pl_copies plan)) (\<lambda>_.
         dk_bind (dockerContainerStart eng name) (\<lambda>_.
         dockerWaitContainerRunning eng name ten_seconds)))))"

text \<open>The runtime state while the network is made, and once the companions are on their way.\<close>

definition state_before_companions :: "sandbox_record \<Rightarrow> sandbox_runtime_state" where
  "state_before_companions rec =
     (let k = sh_sandbox_id (sr_handle rec)
      in \<lparr>rs_network_name = dockerNetworkName k, rs_primary_container_name = dockerPrimaryContainerName k,
          rs_companion_containers = [], rs_primary_crashloop = fresh_crashloop\<rparr>)"

definition state_with_companions :: "sandbox_record \<Rightarrow> sandbox_runtime_state" where
  "state_with_companions rec =
     (state_before_companions rec)\<lparr>rs_companion_containers := map (\<lambda>cc.
        \<lparr>rc_name = cc_name cc,
         rc_container_name = dockerCompanionContainerName (sh_sandbox_id (sr_handle rec)) (cc_name cc),
         rc_crashloop = fresh_crashloop\<rparr>) (sr_companion_containers rec)\<rparr>"

text \<open>The deferred function; the error of the deletion is dropped.\<close>

definition cleanup_failed_create :: "docker_backend \<Rightarrow> sandbox_runtime_state \<Rightarrow> docker_state \<Rightarrow> docker_state" where
  "cleanup_failed_create be state dx =
     snd (deleteRuntimeArtifacts be state (CancelAndWait (db_engine be) dx))"

definition CreateSandbox_backend :: "docker_backend \<Rightarrow> sandbox_record \<Rightarrow> sandbox_runtime_state dk" where
  "CreateSandbox_backend be rec dx =
     (case plan_sandbox be rec of
        Inl err \<Rightarrow> (Inl err, dx)
      | Inr plan \<Rightarrow>
     (case create_network_part be rec dx of
        (Inl err, dx1) \<Rightarrow> (Inl err, cleanup_failed_create be (state_before_companions rec) dx1)
      | (Inr _, dx1) \<Rightarrow>
     (case create_primary_part be rec plan (startCompanionContainersAsync rec (pl_limits plan) dx1) of
        (Inl err, dx2) \<Rightarrow> (Inl err, cleanup_failed_create be (state_with_companions rec) dx2)
      | (Inr _, dx2) \<Rightarrow> (Inr (state_with_companions rec), dx2))))"

section \<open>Resume and stop\<close>

definition runtime_state_missing :: go_error where
  "runtime_state_missing = ErrText [Lit ''sandbox runtime state is missing'']"

text \<open>The loop of \<^verbatim>\<open>ResumeSandbox\<close> over the companions; an error is only part of the status.\<close>

fun resume_companions ::
  "docker_engine \<Rightarrow> string \<Rightarrow> companion_container_spec list \<Rightarrow> companion_container_status list dk" where
  "resume_companions eng k [] = dk_ret []"
| "resume_companions eng k (cc # ccs) =
     dk_bind (dk_try (dockerContainerEnsureRunning eng (dockerCompanionContainerName k (cc_name cc)))) (\<lambda>r.
     dk_bind (resume_companions eng k ccs) (\<lambda>statuses.
       dk_ret ((case r of
                  Inl err \<Rightarrow> \<lparr>ccs_name = cc_name cc, ccs_ready = False, ccs_message = eg_error_string eng err\<rparr>
                | Inr _ \<Rightarrow> \<lparr>ccs_name = cc_name cc, ccs_ready = True, ccs_message = ''''\<rparr>) # statuses)))"

definition ResumeSandbox_backend :: "docker_backend \<Rightarrow> sandbox_record \<Rightarrow> companion_container_status list dk" where
  "ResumeSandbox_backend be rec =
     (let eng = db_engine be
      in case sr_runtime_state rec of
           None \<Rightarrow> dk_fail runtime_state_missing
         | Some state \<Rightarrow>
             dk_bind (dockerContainerMustExist eng (rs_primary_container_name state)) (\<lambda>_.
             dk_bind (dk_each (\<lambda>cc. dockerContainerMustExist eng (rc_container_name cc))
                       (rs_companion_containers state)) (\<lambda>_.
             dk_bind (applyNetworkHostIsolation be (rs_network_name state)) (\<lambda>_.
             dk_bind (dockerContainerEnsureRunning eng (rs_primary_container_name state)) (\<lambda>_.
             resume_companions eng (sh_sandbox_id (sr_handle rec)) (sr_companion_containers rec))))))"

definition StopSandbox_backend :: "docker_backend \<Rightarrow> sandbox_record \<Rightarrow> unit dk" where
  "StopSandbox_backend be rec dx =
     (let eng = db_engine be
      in case sr_runtime_state rec of
           None \<Rightarrow> (Inl runtime_state_missing, dx)
         | Some state \<Rightarrow>
             dk_bind (dockerContainerStop eng (rs_primary_container_name state)) (\<lambda>_.
               dk_each (\<lambda>cc. dockerContainerStop eng (rc_container_name cc)) (rs_companion_containers state))
             (CancelAndWait eng dx))"

definition ReapplyNetworkIsolation :: "docker_backend \<Rightarrow> sandbox_record \<Rightarrow> unit dk" where
  "ReapplyNetworkIsolation be rec =
     (case sr_runtime_state rec of
        None \<Rightarrow> dk_ret ()
      | Some state \<Rightarrow>
          if rs_network_name state = '''' then dk_ret ()
          else applyNetworkHostIsolation be (rs_network_name state))"

definition InspectContainer :: "docker_backend \<Rightarrow> string \<Rightarrow> container_inspect_result dk" where
  "InspectContainer be containerName =
     (let eng = db_engine be
      in dk_ask eng (ContainerInspect containerName) (\<lambda>h.
        case eg_container_inspect eng h containerName of
          Inl err \<Rightarrow>
            if eg_is_not_found eng err
            then Inr \<lparr>ins_exists = False, ins_running = False, ins_paused = False, ins_exit_code = 0,
                      ins_oom_killed = False\<rparr>
            else Inl (ErrText ([Lit ''inspect container '', Lit containerName, Lit '': ''] @ error_text err))
        | Inr None \<Rightarrow>
            Inr \<lparr>ins_exists = True, ins_running = False, ins_paused = False, ins_exit_code = 0,
                 ins_oom_killed = False\<rparr>
        | Inr (Some st) \<Rightarrow>
            Inr \<lparr>ins_exists = True, ins_running = cst_running st, ins_paused = cst_paused st,
                 ins_exit_code = cst_exit_code st, ins_oom_killed = cst_oom_killed st\<rparr>))"

text \<open>What \<^verbatim>\<open>WatchContainerEvents\<close> makes of an event of the engine: its attributes and its action.\<close>

definition container_event_of :: "(string, string) gomap \<Rightarrow> string \<Rightarrow> container_event option" where
  "container_event_of attributes action =
     (let attr = (\<lambda>k. case gm_get attributes k of None \<Rightarrow> '''' | Some v \<Rightarrow> v)
      in if attr LabelSandboxID = '''' then None
         else Some \<lparr>ce_sandbox_id = attr LabelSandboxID, ce_container_name = attr ''name'', ce_action = action,
                    ce_is_companion = (attr LabelComponent = ''companion''),
                    ce_companion_name = attr LabelCompanionContainerName\<rparr>)"

end
