(* ===== verification/Docker_Exec.thy ===== *)
theory Docker_Exec
  imports Docker_Lifecycle
begin

text \<open>
  Commands run in a container and the wait for a companion to become healthy (\<^verbatim>\<open>RunExec\<close>, \<^verbatim>\<open>dockerExec\<close>,
  \<^verbatim>\<open>pollExecCompletion\<close>, \<^verbatim>\<open>docker_runtime_health.go\<close>).  The poll of an exec has no bound in the code, so
  it is a partial function: \<open>None\<close> is a poll that does not end.
\<close>

section \<open>Exec\<close>

text \<open>An exit code together with an error, as Go returns them.\<close>

type_synonym exec_outcome = "int \<times> go_error option"

definition int32 :: "int \<Rightarrow> int" where
  "int32 x = sint (word_of_int x :: 32 word)"

definition exit_outcome :: "int \<Rightarrow> exec_outcome" where
  "exit_outcome code =
     (let exitCode = int32 code
      in if exitCode \<noteq> 0
         then (exitCode, Some (ErrText [Lit ''docker exec failed: exit code '', Lit (show_int exitCode)]))
         else (exitCode, None))"

partial_function (option) pollExecCompletion ::
  "docker_engine \<Rightarrow> string \<Rightarrow> docker_state \<Rightarrow> (exec_outcome \<times> docker_state) option" where
  "pollExecCompletion eng k dx =
     (case dk_ask eng (ExecInspect k) (\<lambda>h. eg_exec_inspect eng h k) dx of
        (Inl err, dx') \<Rightarrow> Some ((- 1, Some err), dx')
      | (Inr (running, code), dx') \<Rightarrow>
          if \<not> running then Some (exit_outcome code, dx')
          else (case eg_cancelled eng (dx_calls dx') of
                  Some err \<Rightarrow> Some ((- 1, Some err), dx')
                | None \<Rightarrow> pollExecCompletion eng k dx'))"

text \<open>The command line in the container: its output goes to the log files when there is a log directory.\<close>

definition exec_command :: "docker_exec_spec \<Rightarrow> string list" where
  "exec_command spec =
     (if de_log_dir spec \<noteq> ''''
      then [''sh'', ''-c'',
            ''exec \"$@\" >'' @ JoinPath [de_log_dir spec, de_exec_id spec @ ''.stdout.log''] @
            '' 2>'' @ JoinPath [de_log_dir spec, de_exec_id spec @ ''.stderr.log''], ''--''] @ de_command spec
      else de_command spec)"

text \<open>The attached mode, after the exec was made.\<close>

definition attached_exec :: "docker_engine \<Rightarrow> string \<Rightarrow> docker_state \<Rightarrow> exec_outcome \<times> docker_state" where
  "attached_exec eng k dx =
     (case dk_ask eng (ExecAttach k) (\<lambda>h. as_result (eg_exec_attach eng h k)) dx of
        (Inl err, dx1) \<Rightarrow> ((0, Some err), dx1)
      | (Inr _, dx1) \<Rightarrow>
          (case eg_attach_read eng (dx_calls dx1) k of
             Some err \<Rightarrow>
               (case eg_cancelled eng (dx_calls dx1) of
                  Some ctxErr \<Rightarrow> ((- 1, Some ctxErr), dx1)
                | None \<Rightarrow> ((- 1, Some (ErrText (Lit ''read docker exec output: '' # error_text err))), dx1))
           | None \<Rightarrow>
               (case dk_ask eng (ExecInspect k) (\<lambda>h. eg_exec_inspect eng h k) dx1 of
                  (Inl err, dx2) \<Rightarrow> ((- 1, Some err), dx2)
                | (Inr (_, code), dx2) \<Rightarrow> (exit_outcome code, dx2))))"

definition dockerExec ::
  "docker_engine \<Rightarrow> docker_exec_spec \<Rightarrow> docker_state \<Rightarrow> (exec_outcome \<times> docker_state) option" where
  "dockerExec eng spec dx =
     (if de_command spec = [] then Some ((0, Some (simple_error ''exec command must not be empty'')), dx)
      else
        let req = \<lparr>xq_container_name = de_container_name spec, xq_attach = (de_log_dir spec = ''''),
                   xq_env = envMapToSlice (de_environment spec), xq_working_dir = de_workdir spec,
                   xq_user = de_user spec, xq_cmd = exec_command spec\<rparr>
        in case dk_ask eng (ExecCreate req) (\<lambda>h. eg_exec_create eng h req) dx of
             (Inl err, dx1) \<Rightarrow> Some ((0, Some err), dx1)
           | (Inr k, dx1) \<Rightarrow>
               if de_log_dir spec \<noteq> ''''
               then (case dk_ask eng (ExecStart k) (\<lambda>h. as_result (eg_exec_start eng h k)) dx1 of
                       (Inl err, dx2) \<Rightarrow> Some ((0, Some err), dx2)
                     | (Inr _, dx2) \<Rightarrow> pollExecCompletion eng k dx2)
               else Some (attached_exec eng k dx1))"

definition run_exec_spec :: "docker_backend \<Rightarrow> sandbox_record \<Rightarrow> sandbox_runtime_state \<Rightarrow> exec_status \<Rightarrow> docker_exec_spec" where
  "run_exec_spec be rec state execRecord =
     \<lparr>de_container_name = rs_primary_container_name state, de_command = es_command execRecord,
      de_workdir = es_cwd execRecord,
      de_environment = gm_merge (gm_merge [] (cs_envs (sr_create_spec rec))) (es_env_overrides execRecord),
      de_user = ''agbox'',
      de_log_dir = (if db_artifact_root be \<noteq> '''' then execLogContainerDir else ''''),
      de_exec_id = es_exec_id execRecord\<rparr>"

definition RunExec ::
  "docker_backend \<Rightarrow> sandbox_record \<Rightarrow> exec_status \<Rightarrow> docker_state \<Rightarrow> (exec_outcome \<times> docker_state) option" where
  "RunExec be rec execRecord dx =
     (let eng = db_engine be
      in case sr_runtime_state rec of
           None \<Rightarrow> Some ((0, Some runtime_state_missing), dx)
         | Some state \<Rightarrow>
             (case dk_bind (dockerContainerMustExist eng (rs_primary_container_name state))
                     (\<lambda>_. dockerContainerEnsureRunning eng (rs_primary_container_name state)) dx of
                (Inl err, dx') \<Rightarrow> Some ((0, Some err), dx')
              | (Inr _, dx') \<Rightarrow> dockerExec eng (run_exec_spec be rec state execRecord) dx'))"

section \<open>Health of a companion\<close>

text \<open>\<^verbatim>\<open>protoOrDefault\<close>: a missing or zero duration means the default.\<close>

definition protoOrDefault :: "duration option \<Rightarrow> duration \<Rightarrow> duration" where
  "protoOrDefault d defaultValue =
     (case d of None \<Rightarrow> defaultValue | Some v \<Rightarrow> if v = 0 then defaultValue else v)"

text \<open>
  The sums and the product are \<^verbatim>\<open>int64\<close> arithmetic, \<^verbatim>\<open>retries+1\<close> is \<^verbatim>\<open>uint32\<close> arithmetic; both wrap.
\<close>

definition companionContainerHealthWaitUpperBound :: "healthcheck_config \<Rightarrow> duration" where
  "companionContainerHealthWaitUpperBound healthcheck =
     (let startPeriod = protoOrDefault (hc_start_period healthcheck) 0;
          interval = protoOrDefault (hc_interval healthcheck) (30 * second);
          timeout = protoOrDefault (hc_timeout healthcheck) (30 * second);
          startIntervalDefault = (if startPeriod > 0 then 5 * second else 0);
          startInterval = protoOrDefault (hc_start_interval healthcheck) startIntervalDefault;
          retries = (if hc_retries healthcheck = 0 then 3 else hc_retries healthcheck);
          startupGraceCheckWindow = (if startPeriod > 0 then max startInterval timeout else 0);
          countedCheckWindow = max interval timeout;
          theoreticalUpperBound =
            int64 (int64 (startPeriod + startupGraceCheckWindow) + int64 (countedCheckWindow * uint (retries + 1)))
      in min theoreticalUpperBound (5 * minute))"

text \<open>
  The loop of \<^verbatim>\<open>dockerWaitCompanionContainerHealthy\<close>, once per tick; \<open>n\<close> ticks come before the deadline.
  The end of the last message, which the only caller drops, is left out.
\<close>

fun wait_healthy :: "docker_engine \<Rightarrow> string \<Rightarrow> nat \<Rightarrow> unit dk" where
  "wait_healthy eng name n dx =
     (case eg_cancelled eng (dx_calls dx) of
        Some err \<Rightarrow> (Inl err, dx)
      | None \<Rightarrow>
          dk_bind (dockerContainerState eng name) (\<lambda>state.
            if \<not> cst_running state
            then dk_fail (ErrText [Lit ''container '', Lit name, Lit '' is not running while waiting for health''])
            else case cst_health state of
              None \<Rightarrow>
                dk_fail (ErrText [Lit ''container '', Lit name, Lit '' does not expose structured health state''])
            | Some health \<Rightarrow>
                if to_lower (trim_space (hs_status health)) = ''healthy'' then dk_ret ()
                else case n of
                  0 \<Rightarrow> dk_fail (ErrText [Lit ''companion container '', Lit name, Lit '' did not become healthy within''])
                | Suc m \<Rightarrow> wait_healthy eng name m) dx)"

definition dockerWaitCompanionContainerHealthy ::
  "docker_engine \<Rightarrow> string \<Rightarrow> healthcheck_config option \<Rightarrow> unit dk" where
  "dockerWaitCompanionContainerHealthy eng name healthcheck dx =
     (case healthcheck of
        None \<Rightarrow> (Inl (ErrText [Lit ''companion container '', Lit name, Lit '' is missing healthcheck'']), dx)
      | Some h \<Rightarrow>
          wait_healthy eng name (eg_polls eng (dx_calls dx) (companionContainerHealthWaitUpperBound h)) dx)"

text \<open>
  The goroutine that runs the \<^verbatim>\<open>post_start_on_primary\<close> hooks of a companion once it is healthy: the first
  error ends it.  \<open>None\<close> is the case of an exec that never ends, which an attached one does.
\<close>

fun run_hooks ::
  "docker_engine \<Rightarrow> string \<Rightarrow> companion_container_spec \<Rightarrow> string list \<Rightarrow> docker_state \<Rightarrow> docker_state option" where
  "run_hooks eng primary cc [] dx = Some dx"
| "run_hooks eng primary cc (hook # hooks) dx =
     (case dockerExec eng
             \<lparr>de_container_name = primary, de_command = [''sh'', ''-lc'', hook], de_workdir = '''',
              de_environment = cc_envs cc, de_user = '''', de_log_dir = '''', de_exec_id = ''''\<rparr> dx of
        None \<Rightarrow> None
      | Some ((_, Some _), dx') \<Rightarrow> Some dx'
      | Some ((_, None), dx') \<Rightarrow> run_hooks eng primary cc hooks dx')"

definition post_start_hooks ::
  "docker_engine \<Rightarrow> string \<Rightarrow> string \<Rightarrow> companion_container_spec \<Rightarrow> docker_state \<Rightarrow> docker_state option" where
  "post_start_hooks eng primary ctrName cc dx =
     (if length (cc_post_start_on_primary cc) > 0 \<and> cc_healthcheck cc \<noteq> None
      then (case dockerWaitCompanionContainerHealthy eng ctrName (cc_healthcheck cc) dx of
              (Inl _, dx') \<Rightarrow> Some dx'
            | (Inr _, dx') \<Rightarrow> run_hooks eng primary cc (cc_post_start_on_primary cc) dx')
      else Some dx)"

end
