(* ===== verification/Docker_Trace.thy ===== *)
theory Docker_Trace
  imports Docker_Exec
begin

text \<open>
  The traces of the Docker backend: what each part can create, that a deletion asks for every removal, and
  the parts of a creation.  Whatever the engine answers and however the companions' goroutines interleave.
\<close>

section \<open>What a part of the backend can make\<close>

text \<open>A container or a network that a call asks for.\<close>

datatype made = Container string | Network string

fun makes :: "engine_call \<Rightarrow> made option" where
  "makes (ContainerCreate req) = Some (Container (gq_name req))"
| "makes (NetworkCreate name labels) = Some (Network name)"
| "makes _ = None"

definition within :: "made set \<Rightarrow> calls \<Rightarrow> bool" where
  "within M cs \<longleftrightarrow> (\<forall>c \<in> set cs. \<forall>x. makes c = Some x \<longrightarrow> x \<in> M)"

definition starts_in :: "made set \<Rightarrow> docker_state \<Rightarrow> bool" where
  "starts_in M dx \<longleftrightarrow> (\<forall>c \<in> set (dx_starts dx). Container (dc_name (ct_spec c)) \<in> M)"

definition extends_by :: "made set \<Rightarrow> docker_state \<Rightarrow> docker_state \<Rightarrow> bool" where
  "extends_by M dx dx' \<longleftrightarrow>
     (starts_in M dx \<longrightarrow> starts_in M dx' \<and> (\<exists>cs. dx_calls dx' = dx_calls dx @ cs \<and> within M cs))"

definition grows :: "made set \<Rightarrow> 'a dk \<Rightarrow> bool" where
  "grows M m \<longleftrightarrow> (\<forall>dx. extends_by M dx (snd (m dx)))"

named_theorems grows_intros

lemma within_simps [simp]:
  "within M []" "within M (c # cs) \<longleftrightarrow> (\<forall>x. makes c = Some x \<longrightarrow> x \<in> M) \<and> within M cs"
  "within M (cs @ ds) \<longleftrightarrow> within M cs \<and> within M ds"
  by (auto simp: within_def)

lemma within_mono: "within M cs \<Longrightarrow> M \<subseteq> M' \<Longrightarrow> within M' cs"
  by (auto simp: within_def)

lemma extends_by_refl [simp]: "extends_by M dx dx"
  by (auto simp: extends_by_def)

lemma extends_by_trans: "extends_by M a b \<Longrightarrow> extends_by M b c \<Longrightarrow> extends_by M a c"
  by (fastforce simp: extends_by_def)

lemma container_request_name:
  "container_request_of eng spec = Inr req \<Longrightarrow> gq_name req = dc_name spec"
  by (auto simp: container_request_of_def res_bind_eq_Inr)

lemma start_step_grows:
  assumes "start_step eng h c = (h', c')"
  shows "ct_spec c' = ct_spec c \<and> (\<exists>cs. h' = h @ cs \<and> within {Container (dc_name (ct_spec c))} cs)"
  using assms
  by (auto simp: start_step_def status_failed_def container_request_name
      split: start_phase.splits sum.splits option.splits)

lemma start_turn_extends: "extends_by M dx (start_turn eng i dx)"
proof (cases "i < length (dx_starts dx)")
  case True
  obtain h c where step: "start_step eng (dx_calls dx) (dx_starts dx ! i) = (h, c)" by fastforce
  note s = start_step_grows [OF step]
  show ?thesis
    unfolding extends_by_def
  proof
    assume "starts_in M dx"
    moreover from this True have own: "Container (dc_name (ct_spec (dx_starts dx ! i))) \<in> M"
      by (auto simp: starts_in_def)
    ultimately show "starts_in M (start_turn eng i dx) \<and>
        (\<exists>cs. dx_calls (start_turn eng i dx) = dx_calls dx @ cs \<and> within M cs)"
      using s step True within_mono [of _ _ M]
      by (auto simp: start_turn_def starts_in_def dest!: set_update_subset_insert [THEN subsetD])
  qed
next
  case False
  then show ?thesis by (simp add: start_turn_def)
qed

lemma start_turns_extends: "extends_by M dx (start_turns eng dx)"
proof -
  have "extends_by M dx (fold (start_turn eng) is dx)" for "is"
  proof (induction "is" arbitrary: dx)
    case Nil
    then show ?case by simp
  next
    case (Cons i "is")
    show ?case using extends_by_trans [OF start_turn_extends Cons.IH] by simp
  qed
  then show ?thesis by (simp add: start_turns_def)
qed

lemma start_turns_none [simp]: "dx_starts dx = [] \<Longrightarrow> start_turns eng dx = dx"
proof -
  assume none: "dx_starts dx = []"
  have "fold (start_turn eng) is dx = dx" for "is"
    by (induction "is") (simp_all add: start_turn_def none)
  then show ?thesis by (simp add: start_turns_def)
qed

lemma grows_basic [grows_intros]:
  "grows M (dk_ret x)" "grows M (dk_fail err)" "grows M (dk_lift r)"
  by (simp_all add: grows_def dk_ret_def dk_fail_def dk_lift_def)

lemma grows_bind [grows_intros]:
  assumes "grows M m" and "\<And>x. grows M (f x)"
  shows "grows M (dk_bind m f)"
  unfolding grows_def
proof
  fix dx
  obtain r dx1 where m: "m dx = (r, dx1)" by fastforce
  with assms(1) have one: "extends_by M dx dx1" by (metis grows_def snd_conv)
  show "extends_by M dx (snd (dk_bind m f dx))"
  proof (cases r)
    case (Inl err)
    then show ?thesis using one m by (simp add: dk_bind_def)
  next
    case (Inr x)
    have "extends_by M dx1 (snd (f x dx1))" using assms(2) by (simp add: grows_def)
    then show ?thesis using extends_by_trans [OF one] m Inr by (simp add: dk_bind_def)
  qed
qed

lemma grows_try [grows_intros]: "grows M m \<Longrightarrow> grows M (dk_try m)"
  by (simp add: grows_def dk_try_def case_prod_beta)

lemma grows_ask [grows_intros]:
  assumes "\<And>x. makes c = Some x \<Longrightarrow> x \<in> M"
  shows "grows M (dk_ask eng c answer)"
  unfolding grows_def
proof
  fix dx
  have "extends_by M (start_turns eng dx)
      ((start_turns eng dx)\<lparr>dx_calls := dx_calls (start_turns eng dx) @ [c]\<rparr>)"
    using assms by (auto simp: extends_by_def starts_in_def)
  from extends_by_trans [OF start_turns_extends this]
  show "extends_by M dx (snd (dk_ask eng c answer dx))" by (simp add: dk_ask_def Let_def)
qed

lemma grows_if [grows_intros]: "grows M a \<Longrightarrow> grows M b \<Longrightarrow> grows M (if c then a else b)"
  by simp

lemma grows_option [grows_intros]:
  "grows M a \<Longrightarrow> (\<And>x. grows M (f x)) \<Longrightarrow> grows M (case e of None \<Rightarrow> a | Some x \<Rightarrow> f x)"
  by (cases e) simp_all

lemma grows_sum [grows_intros]:
  "(\<And>x. grows M (f x)) \<Longrightarrow> (\<And>x. grows M (g x)) \<Longrightarrow> grows M (case e of Inl x \<Rightarrow> f x | Inr x \<Rightarrow> g x)"
  by (cases e) simp_all

lemma grows_prod [grows_intros]: "(\<And>x y. grows M (f x y)) \<Longrightarrow> grows M (case e of (x, y) \<Rightarrow> f x y)"
  by (cases e) simp

lemma grows_each [grows_intros]: "(\<And>x. x \<in> set xs \<Longrightarrow> grows M (f x)) \<Longrightarrow> grows M (dk_each f xs)"
  by (induction xs) (auto intro!: grows_intros)

lemma grows_try_all [grows_intros]: "(\<And>m. m \<in> set ms \<Longrightarrow> grows M m) \<Longrightarrow> grows M (dk_try_all ms)"
  by (induction ms) (auto intro!: grows_intros)

lemma grows_state [grows_intros]: "grows M (dockerContainerState eng name)"
  unfolding dockerContainerState_def by (intro grows_intros) simp

lemma grows_wait_running [grows_intros]: "grows M (wait_running eng name n)"
  by (induction n) (auto intro!: grows_intros)

lemma grows_wait [grows_intros]: "grows M (dockerWaitContainerRunning eng name timeout)"
proof -
  have "extends_by M dx (snd (wait_running eng name n dx))" for n dx
    using grows_wait_running by (simp add: grows_def)
  then show ?thesis by (simp add: grows_def dockerWaitContainerRunning_def)
qed

lemma grows_calls [grows_intros]:
  "grows M (ensureDockerImage eng ref)" "grows M (dockerNetworkRemove eng name)"
  "grows M (dockerContainerStart eng name)" "grows M (dockerContainerRemove eng name)"
  "grows M (dockerCopyToContainer eng name cp)"
  unfolding ensureDockerImage_def dockerNetworkRemove_def dockerContainerStart_def dockerContainerRemove_def
    dockerCopyToContainer_def
  by (intro grows_intros; simp)+

lemma grows_isolation [grows_intros]:
  "grows M (applyNetworkHostIsolation be name)" "grows M (removeNetworkHostIsolation be name)"
  unfolding applyNetworkHostIsolation_def removeNetworkHostIsolation_def Let_def
  by (intro grows_intros; simp)+

lemma grows_network_create:
  "Network name \<in> M \<Longrightarrow> grows M (dockerNetworkCreate eng name labels)"
  unfolding dockerNetworkCreate_def by (intro grows_intros) auto

lemma grows_container_create:
  assumes "Container (dc_name spec) \<in> M"
  shows "grows M (dockerContainerCreate eng spec)"
proof (cases "container_request_of eng spec")
  case (Inl err)
  then show ?thesis by (simp add: dockerContainerCreate_def grows_def dk_bind_def dk_lift_def)
next
  case (Inr req)
  have "grows M (dk_ask eng (ContainerCreate req)
      (\<lambda>h. as_result (map_option (create_error eng spec) (eg_container_create eng h req))))"
    by (rule grows_ask) (use assms container_request_name [OF Inr] in auto)
  then show ?thesis using Inr by (simp add: dockerContainerCreate_def grows_def dk_bind_def dk_lift_def)
qed

section \<open>Deletion\<close>

text \<open>
  Once no companion goroutine is left a call is the next one.  What a removal answered, and that every
  removal of a list of calls succeeded or found nothing to remove.
\<close>

definition removal_answer :: "docker_engine \<Rightarrow> calls \<Rightarrow> engine_call \<Rightarrow> go_error option" where
  "removal_answer eng h c =
     (case c of
        ContainerRemove name \<Rightarrow> ignore_missing eng (eg_container_remove eng h name)
      | NetworkRemove name \<Rightarrow> ignore_missing eng (eg_network_remove eng h name)
      | _ \<Rightarrow> None)"

fun all_removed :: "docker_engine \<Rightarrow> calls \<Rightarrow> calls \<Rightarrow> bool" where
  "all_removed eng h [] \<longleftrightarrow> True"
| "all_removed eng h (c # cs) \<longleftrightarrow> removal_answer eng h c = None \<and> all_removed eng (h @ [c]) cs"

lemma all_removed_append [simp]:
  "all_removed eng h (cs @ ds) \<longleftrightarrow> all_removed eng h cs \<and> all_removed eng (h @ cs) ds"
  by (induction cs arbitrary: h) auto

text \<open>A removing part: alone, it only adds calls \<open>C\<close> to the trace and succeeds exactly when they all did.\<close>

definition removes :: "docker_engine \<Rightarrow> engine_call set \<Rightarrow> 'a dk \<Rightarrow> bool" where
  "removes eng C m \<longleftrightarrow>
     (\<forall>dx. dx_starts dx = [] \<longrightarrow>
        (\<exists>r cs. m dx = (r, \<lparr>dx_calls = dx_calls dx @ cs, dx_starts = []\<rparr>) \<and> within {} cs \<and> C \<subseteq> set cs
           \<and> (all_removed eng (dx_calls dx) cs \<longleftrightarrow> \<not> isl r)))"

lemma removesD:
  assumes "removes eng C m"
  obtains r cs where "m \<lparr>dx_calls = h, dx_starts = []\<rparr> = (r, \<lparr>dx_calls = h @ cs, dx_starts = []\<rparr>)"
    "within {} cs" "C \<subseteq> set cs" "all_removed eng h cs \<longleftrightarrow> \<not> isl r"
  using assms [unfolded removes_def, rule_format, of "\<lparr>dx_calls = h, dx_starts = []\<rparr>"] by auto

lemma ask_alone:
  "dx_starts dx = [] \<Longrightarrow>
     dk_ask eng c answer dx = (answer (dx_calls dx), \<lparr>dx_calls = dx_calls dx @ [c], dx_starts = []\<rparr>)"
  by (cases dx) (simp add: dk_ask_def Let_def)

lemma as_result_isl [simp]: "isl (as_result e) \<longleftrightarrow> e \<noteq> None"
  by (cases e) (simp_all add: as_result_def)

lemma removes_container:
  "name \<noteq> '''' \<Longrightarrow> removes eng {ContainerRemove name} (dockerContainerRemove eng name)"
  unfolding removes_def dockerContainerRemove_def by (auto simp: ask_alone removal_answer_def)

lemma removes_network_alone:
  "name \<noteq> '''' \<Longrightarrow> removes eng {NetworkRemove name} (dockerNetworkRemove eng name)"
  unfolding removes_def dockerNetworkRemove_def by (auto simp: ask_alone removal_answer_def)

text \<open>Taking the rules of a network away cannot fail.\<close>

lemma removeNetworkHostIsolation_alone:
  assumes "dx_starts dx = []"
  shows "\<exists>cs. removeNetworkHostIsolation be name dx = (Inr (), \<lparr>dx_calls = dx_calls dx @ cs, dx_starts = []\<rparr>)
    \<and> within {} cs \<and> all_removed eng (dx_calls dx) cs"
proof (cases "dh_goos (db_host be) = ''linux''")
  case False
  then show ?thesis
    using assms by (intro exI [of _ "[]"]) (cases dx, simp add: removeNetworkHostIsolation_def Let_def dk_ret_def)
next
  case linux: True
  show ?thesis
  proof (cases "\<exists>ni b s. eg_network_inspect (db_engine be) (dx_calls dx) name = Inr ni
      \<and> extractNetworkIsolationParams (eg_parse_cidr (db_engine be)) ni = Inr (b, s)")
    case True
    then obtain ni b s where "eg_network_inspect (db_engine be) (dx_calls dx) name = Inr ni"
      "extractNetworkIsolationParams (eg_parse_cidr (db_engine be)) ni = Inr (b, s)" by blast
    then show ?thesis
      using assms linux by (intro exI [of _ "[NetworkInspect name, NftRemove b s]"])
        (simp add: removeNetworkHostIsolation_def Let_def dk_bind_def dk_try_def ask_alone removal_answer_def)
  next
    case False
    then show ?thesis
      using assms linux by (intro exI [of _ "[NetworkInspect name]"])
        (auto simp: removeNetworkHostIsolation_def Let_def dk_bind_def dk_try_def dk_ret_def ask_alone
          removal_answer_def split: sum.splits prod.splits)
  qed
qed

lemma removes_remove_network:
  assumes "name \<noteq> ''''"
  shows "removes (db_engine be) {NetworkRemove name} (remove_network be name)"
  unfolding removes_def
proof (intro allI impI)
  fix dx :: docker_state
  assume none: "dx_starts dx = []"
  obtain cs where cs: "removeNetworkHostIsolation be name dx = (Inr (), \<lparr>dx_calls = dx_calls dx @ cs, dx_starts = []\<rparr>)"
      "within {} cs" "all_removed (db_engine be) (dx_calls dx) cs"
    using removeNetworkHostIsolation_alone [OF none] by blast
  obtain r ds where ds: "dockerNetworkRemove (db_engine be) name \<lparr>dx_calls = dx_calls dx @ cs, dx_starts = []\<rparr>
        = (r, \<lparr>dx_calls = (dx_calls dx @ cs) @ ds, dx_starts = []\<rparr>)" "within {} ds" "{NetworkRemove name} \<subseteq> set ds"
      "all_removed (db_engine be) (dx_calls dx @ cs) ds \<longleftrightarrow> \<not> isl r"
    using removesD [OF removes_network_alone [OF assms, of "db_engine be"], of "dx_calls dx @ cs"] by metis
  have "remove_network be name dx = (r, \<lparr>dx_calls = dx_calls dx @ cs @ ds, dx_starts = []\<rparr>)"
    using assms cs(1) ds(1) by (simp add: remove_network_def dk_bind_def dk_try_def)
  then show "\<exists>r cs. remove_network be name dx = (r, \<lparr>dx_calls = dx_calls dx @ cs, dx_starts = []\<rparr>) \<and> within {} cs
      \<and> {NetworkRemove name} \<subseteq> set cs \<and> (all_removed (db_engine be) (dx_calls dx) cs \<longleftrightarrow> \<not> isl r)"
    using cs ds by - (rule exI [of _ r], rule exI [of _ "cs @ ds"], auto)
qed

lemma removes_try_all:
  assumes "list_all2 (removes eng) Cs ms"
  shows "\<exists>rs cs. dk_try_all ms \<lparr>dx_calls = h, dx_starts = []\<rparr> = (Inr rs, \<lparr>dx_calls = h @ cs, dx_starts = []\<rparr>)
    \<and> within {} cs \<and> \<Union> (set Cs) \<subseteq> set cs \<and> (all_removed eng h cs \<longleftrightarrow> \<not> list_ex isl rs)"
  using assms
proof (induction Cs ms arbitrary: h rule: list_all2_induct)
  case Nil
  show ?case by (auto simp: dk_ret_def)
next
  case (Cons C Cs m ms)
  from Cons.hyps(1) obtain r cs where one: "m \<lparr>dx_calls = h, dx_starts = []\<rparr> = (r, \<lparr>dx_calls = h @ cs, dx_starts = []\<rparr>)"
      "within {} cs" "C \<subseteq> set cs" "all_removed eng h cs \<longleftrightarrow> \<not> isl r"
    by (rule removesD)
  obtain rs ds where rest: "dk_try_all ms \<lparr>dx_calls = h @ cs, dx_starts = []\<rparr>
        = (Inr rs, \<lparr>dx_calls = (h @ cs) @ ds, dx_starts = []\<rparr>)" "within {} ds" "\<Union> (set Cs) \<subseteq> set ds"
      "all_removed eng (h @ cs) ds \<longleftrightarrow> \<not> list_ex isl rs"
    using Cons.IH [of "h @ cs"] by blast
  have "dk_try_all (m # ms) \<lparr>dx_calls = h, dx_starts = []\<rparr>
      = (Inr (r # rs), \<lparr>dx_calls = h @ cs @ ds, dx_starts = []\<rparr>)"
    using one(1) rest(1) by (simp add: dk_bind_def dk_try_def dk_ret_def)
  then show ?case
    using one rest by - (rule exI [of _ "r # rs"], rule exI [of _ "cs @ ds"], auto)
qed

lemma join_results_isl: "isl (join_results rs) \<longleftrightarrow> list_ex isl rs"
  by (induction rs) (auto simp: join_results_def split: sum.splits list.splits)

definition removal_of :: "made \<Rightarrow> engine_call" where
  "removal_of x = (case x of Container name \<Rightarrow> ContainerRemove name | Network name \<Rightarrow> NetworkRemove name)"

definition made_by :: "sandbox_runtime_state \<Rightarrow> made set" where
  "made_by state =
     insert (Network (rs_network_name state)) (insert (Container (rs_primary_container_name state))
       (Container ` rc_container_name ` set (rs_companion_containers state)))"

definition named :: "sandbox_runtime_state \<Rightarrow> bool" where
  "named state \<longleftrightarrow>
     rs_network_name state \<noteq> '''' \<and> rs_primary_container_name state \<noteq> ''''
     \<and> (\<forall>cc \<in> set (rs_companion_containers state). rc_container_name cc \<noteq> '''')"

lemma delete_removes:
  assumes "named state"
  shows "\<exists>r cs. deleteRuntimeArtifacts be state \<lparr>dx_calls = h, dx_starts = []\<rparr>
      = (r, \<lparr>dx_calls = h @ cs, dx_starts = []\<rparr>)
    \<and> within {} cs \<and> removal_of ` made_by state \<subseteq> set cs \<and> (all_removed (db_engine be) h cs \<longleftrightarrow> \<not> isl r)"
proof -
  let ?ms = "dockerContainerRemove (db_engine be) (rs_primary_container_name state) #
        map (\<lambda>cc. dockerContainerRemove (db_engine be) (rc_container_name cc)) (rs_companion_containers state) @
        [remove_network be (rs_network_name state)]"
  let ?Cs = "{ContainerRemove (rs_primary_container_name state)} #
        map (\<lambda>cc. {ContainerRemove (rc_container_name cc)}) (rs_companion_containers state) @
        [{NetworkRemove (rs_network_name state)}]"
  have "list_all2 (removes (db_engine be)) ?Cs ?ms"
    using assms unfolding named_def
    by (auto simp: list_all2_append list.rel_map intro!: removes_container removes_remove_network list.rel_refl_strong)
  from removes_try_all [OF this, of h] obtain rs cs where
    cs: "dk_try_all ?ms \<lparr>dx_calls = h, dx_starts = []\<rparr> = (Inr rs, \<lparr>dx_calls = h @ cs, dx_starts = []\<rparr>)"
      "within {} cs" "\<Union> (set ?Cs) \<subseteq> set cs" "all_removed (db_engine be) h cs \<longleftrightarrow> \<not> list_ex isl rs"
    by blast
  have "deleteRuntimeArtifacts be state \<lparr>dx_calls = h, dx_starts = []\<rparr>
      = (join_results rs, \<lparr>dx_calls = h @ cs, dx_starts = []\<rparr>)"
    unfolding deleteRuntimeArtifacts_def using cs(1) by (simp add: dk_bind_def dk_lift_def)
  moreover have "removal_of ` made_by state \<subseteq> set cs"
    using cs(3) by (auto simp: made_by_def removal_of_def)
  ultimately show ?thesis using cs by (auto simp: join_results_isl)
qed

section \<open>Creation\<close>

lemma grows_network_part:
  "Network (dockerNetworkName (sh_sandbox_id (sr_handle rec))) \<in> M \<Longrightarrow> grows M (create_network_part be rec)"
  unfolding create_network_part_def Let_def by (intro grows_intros grows_network_create) auto

lemma primary_spec_name:
  "primary_spec be rec plan = Inr spec \<Longrightarrow> dc_name spec = dockerPrimaryContainerName (sh_sandbox_id (sr_handle rec))"
  by (auto simp: primary_spec_def Let_def res_bind_eq_Inr)

lemma bind_lift:
  "dk_bind (dk_lift r) f dx = (case r of Inl err \<Rightarrow> (Inl err, dx) | Inr x \<Rightarrow> f x dx)"
  by (simp add: dk_bind_def dk_lift_def split: sum.splits)

lemma grows_primary_part:
  assumes "Container (dockerPrimaryContainerName (sh_sandbox_id (sr_handle rec))) \<in> M"
  shows "grows M (create_primary_part be rec plan)"
proof (cases "primary_spec be rec plan")
  case (Inl err)
  then show ?thesis by (simp add: create_primary_part_def Let_def bind_lift grows_def)
next
  case (Inr spec)
  let ?name = "dockerPrimaryContainerName (sh_sandbox_id (sr_handle rec))"
  have "grows M (dk_bind (dockerContainerCreate (db_engine be) spec) (\<lambda>_.
      dk_bind (dk_each (dockerCopyToContainer (db_engine be) ?name) (pl_copies plan)) (\<lambda>_.
      dk_bind (dockerContainerStart (db_engine be) ?name) (\<lambda>_.
      dockerWaitContainerRunning (db_engine be) ?name ten_seconds))))"
    by (intro grows_intros grows_container_create) (simp add: assms primary_spec_name [OF Inr])
  then show ?thesis using Inr by (simp add: create_primary_part_def Let_def bind_lift grows_def)
qed

lemma extends_alone:
  assumes "extends_by M dx dx'" and "dx_starts dx = []"
  obtains cs where "dx_calls dx' = dx_calls dx @ cs" "within M cs" "starts_in M dx'"
  using assms by (auto simp: extends_by_def starts_in_def)

text \<open>The part up to the isolation starts no goroutine.\<close>

lemma network_part_alone:
  assumes "create_network_part be rec dx = (r, dx1)" and "dx_starts dx = []"
  obtains cs where "dx1 = \<lparr>dx_calls = dx_calls dx @ cs, dx_starts = []\<rparr>"
    "within {Network (dockerNetworkName (sh_sandbox_id (sr_handle rec)))} cs"
proof -
  let ?N = "Network (dockerNetworkName (sh_sandbox_id (sr_handle rec)))"
  have "extends_by {?N} dx dx1"
    using grows_network_part [of rec "{?N}" be] assms(1) by (metis grows_def insertI1 snd_conv)
  from extends_alone [OF this assms(2)] obtain cs
    where "dx_calls dx1 = dx_calls dx @ cs" "within {?N} cs" "starts_in {?N} dx1" .
  moreover from this(3) have "dx_starts dx1 = []"
    by (cases "dx_starts dx1") (auto simp: starts_in_def)
  ultimately show ?thesis using that by (cases dx1) simp
qed

lemma cleanup_removes:
  assumes "named state" and "starts_in M dx"
  shows "\<exists>bs cs. cleanup_failed_create be state dx = \<lparr>dx_calls = dx_calls dx @ bs @ cs, dx_starts = []\<rparr>
    \<and> within M bs \<and> within {} cs \<and> removal_of ` made_by state \<subseteq> set cs"
proof -
  have "extends_by M dx (start_turns (db_engine be) dx)" by (rule start_turns_extends)
  then obtain bs where bs: "dx_calls (start_turns (db_engine be) dx) = dx_calls dx @ bs" "within M bs"
    using assms(2) by (auto simp: extends_by_def)
  have waited: "CancelAndWait (db_engine be) dx = \<lparr>dx_calls = dx_calls dx @ bs, dx_starts = []\<rparr>"
    using bs(1) by (cases "start_turns (db_engine be) dx") (simp add: CancelAndWait_def)
  obtain r cs where "deleteRuntimeArtifacts be state \<lparr>dx_calls = dx_calls dx @ bs, dx_starts = []\<rparr>
      = (r, \<lparr>dx_calls = (dx_calls dx @ bs) @ cs, dx_starts = []\<rparr>)"
      "within {} cs" "removal_of ` made_by state \<subseteq> set cs"
    using delete_removes [OF assms(1), of be "dx_calls dx @ bs"] by blast
  then show ?thesis
    using bs waited by - (rule exI [of _ bs], rule exI [of _ cs], simp add: cleanup_failed_create_def)
qed

lemma docker_names_nonempty [simp]:
  "dockerNetworkName k \<noteq> ''''" "dockerPrimaryContainerName k \<noteq> ''''" "dockerCompanionContainerName k n \<noteq> ''''"
  by (simp_all add: dockerNetworkName_def dockerPrimaryContainerName_def dockerCompanionContainerName_def)

lemma states_named: "named (state_before_companions rec)" "named (state_with_companions rec)"
  by (auto simp: named_def state_before_companions_def state_with_companions_def Let_def)

lemma made_by_states:
  "made_by (state_before_companions rec) =
     {Network (dockerNetworkName (sh_sandbox_id (sr_handle rec))),
      Container (dockerPrimaryContainerName (sh_sandbox_id (sr_handle rec)))}"
  "made_by (state_with_companions rec) =
     insert (Network (dockerNetworkName (sh_sandbox_id (sr_handle rec))))
      (insert (Container (dockerPrimaryContainerName (sh_sandbox_id (sr_handle rec))))
       ((\<lambda>cc. Container (dockerCompanionContainerName (sh_sandbox_id (sr_handle rec)) (cc_name cc)))
          ` set (sr_companion_containers rec)))"
  by (auto simp: made_by_def state_before_companions_def state_with_companions_def Let_def image_image)

lemma companions_own:
  "starts_in (made_by (state_with_companions rec)) (startCompanionContainersAsync rec lim dx)"
  by (auto simp: starts_in_def startCompanionContainersAsync_def companion_spec_def made_by_states)

text \<open>The parts of a creation whose plan succeeded, in one place.\<close>

lemma CreateSandbox_parts:
  assumes "CreateSandbox_backend be rec dx = (r, dx')" and "dx_starts dx = []"
    and "plan_sandbox be rec = Inr plan"
  obtains
    (no_network) err cs where "create_network_part be rec dx = (Inl err, \<lparr>dx_calls = dx_calls dx @ cs, dx_starts = []\<rparr>)"
      "within {Network (dockerNetworkName (sh_sandbox_id (sr_handle rec)))} cs" "r = Inl err"
      "dx' = cleanup_failed_create be (state_before_companions rec) \<lparr>dx_calls = dx_calls dx @ cs, dx_starts = []\<rparr>"
  | (network) cs r2 dx2 ds where "create_network_part be rec dx = (Inr (), \<lparr>dx_calls = dx_calls dx @ cs, dx_starts = []\<rparr>)"
      "within {Network (dockerNetworkName (sh_sandbox_id (sr_handle rec)))} cs"
      "create_primary_part be rec plan (startCompanionContainersAsync rec (pl_limits plan)
         \<lparr>dx_calls = dx_calls dx @ cs, dx_starts = []\<rparr>) = (r2, dx2)"
      "dx_calls dx2 = (dx_calls dx @ cs) @ ds" "within (made_by (state_with_companions rec)) ds"
      "starts_in (made_by (state_with_companions rec)) dx2"
      "(r, dx') = (case r2 of
          Inl err \<Rightarrow> (Inl err, cleanup_failed_create be (state_with_companions rec) dx2)
        | Inr _ \<Rightarrow> (Inr (state_with_companions rec), dx2))"
proof -
  obtain r1 dx1 where one: "create_network_part be rec dx = (r1, dx1)" by fastforce
  from network_part_alone [OF one assms(2)] obtain cs where cs:
    "dx1 = \<lparr>dx_calls = dx_calls dx @ cs, dx_starts = []\<rparr>"
    "within {Network (dockerNetworkName (sh_sandbox_id (sr_handle rec)))} cs" .
  show thesis
  proof (cases r1)
    case (Inl err)
    show thesis by (rule no_network) (use assms one cs Inl in \<open>auto simp: CreateSandbox_backend_def\<close>)
  next
    case (Inr u)
    let ?dx = "startCompanionContainersAsync rec (pl_limits plan) dx1"
    let ?M = "made_by (state_with_companions rec)"
    obtain r2 dx2 where two: "create_primary_part be rec plan ?dx = (r2, dx2)" by fastforce
    have "grows ?M (create_primary_part be rec plan)"
      by (rule grows_primary_part) (simp add: made_by_states)
    then have "extends_by ?M ?dx dx2" using two by (metis grows_def snd_conv)
    with companions_own [of rec "pl_limits plan" dx1] obtain ds
      where ds: "dx_calls dx2 = dx_calls ?dx @ ds" "within ?M ds" "starts_in ?M dx2"
      by (auto simp: extends_by_def)
    show thesis
      by (rule network [of cs r2 dx2 ds]) (use assms one two cs ds Inr in
        \<open>auto simp: CreateSandbox_backend_def startCompanionContainersAsync_def split: sum.splits\<close>)
  qed
qed

section \<open>Isolation\<close>

lemma bind_Inr:
  "dk_bind m f dx = (Inr y, dx') \<longleftrightarrow> (\<exists>x dx1. m dx = (Inr x, dx1) \<and> f x dx1 = (Inr y, dx'))"
  by (auto simp: dk_bind_def split: prod.splits sum.splits)

lemma wrap_err_Inr [simp]: "wrap_err m r = Inr x \<longleftrightarrow> r = Inr x"
  by (auto simp: wrap_err_def split: sum.splits)

lemma as_result_Inr [simp]: "as_result e = Inr u \<longleftrightarrow> e = None"
  by (cases e) (simp_all add: as_result_def)

lemma isolation_alone:
  assumes "applyNetworkHostIsolation be name dx = (Inr u, dx1)" and "dx_starts dx = []"
    and "dh_goos (db_host be) = ''linux''"
  obtains ni bridge subnet where "dx_calls dx1 = dx_calls dx @ [NetworkInspect name, NftApply bridge subnet]"
    "eg_network_inspect (db_engine be) (dx_calls dx) name = Inr ni"
    "extractNetworkIsolationParams (eg_parse_cidr (db_engine be)) ni = Inr (bridge, subnet)"
    "eg_nft_apply (db_engine be) (dx_calls dx @ [NetworkInspect name]) bridge subnet = None"
proof -
  from assms obtain ni where ni: "eg_network_inspect (db_engine be) (dx_calls dx) name = Inr ni"
    by (auto simp: applyNetworkHostIsolation_def Let_def bind_Inr ask_alone)
  moreover from assms ni obtain bridge subnet where
    "extractNetworkIsolationParams (eg_parse_cidr (db_engine be)) ni = Inr (bridge, subnet)"
    by (cases "extractNetworkIsolationParams (eg_parse_cidr (db_engine be)) ni")
      (auto simp: applyNetworkHostIsolation_def Let_def bind_Inr bind_lift ask_alone wrap_err_def)
  ultimately show ?thesis using assms that
    by (auto simp: applyNetworkHostIsolation_def Let_def bind_Inr bind_lift ask_alone wrap_err_def)
qed

lemma network_part_isolates:
  assumes "create_network_part be rec dx = (Inr u, dx1)" and "dx_starts dx = []"
    and "dh_goos (db_host be) = ''linux''"
  defines "name \<equiv> dockerNetworkName (sh_sandbox_id (sr_handle rec))"
  obtains pre ni bridge subnet where
    "dx_calls dx1 = dx_calls dx @ pre @ [NetworkInspect name, NftApply bridge subnet]"
    "eg_network_inspect (db_engine be) (dx_calls dx @ pre) name = Inr ni"
    "extractNetworkIsolationParams (eg_parse_cidr (db_engine be)) ni = Inr (bridge, subnet)"
    "eg_nft_apply (db_engine be) (dx_calls dx @ pre @ [NetworkInspect name]) bridge subnet = None"
proof -
  let ?M = "{Network name}"
  obtain a b c where parts: "ensureDockerImage (db_engine be) (cs_image (sr_create_spec rec)) dx = (Inr (), a)"
    "dk_each (\<lambda>cc. ensureDockerImage (db_engine be) (cc_image cc)) (sr_companion_containers rec) a = (Inr (), b)"
    "dockerNetworkCreate (db_engine be) name (SandboxLabels (sh_sandbox_id (sr_handle rec)) ''default''
       (sh_labels (sr_handle rec))) b = (Inr (), c)"
    "applyNetworkHostIsolation be name c = (Inr u, dx1)"
    using assms(1) unfolding create_network_part_def Let_def name_def by (auto simp: bind_Inr)
  have "grows ?M (ensureDockerImage (db_engine be) (cs_image (sr_create_spec rec)))"
    "grows ?M (dk_each (\<lambda>cc. ensureDockerImage (db_engine be) (cc_image cc)) (sr_companion_containers rec))"
    "grows ?M (dockerNetworkCreate (db_engine be) name (SandboxLabels (sh_sandbox_id (sr_handle rec)) ''default''
       (sh_labels (sr_handle rec))))"
    by (intro grows_intros grows_network_create; simp)+
  then have "extends_by ?M dx a" "extends_by ?M a b" "extends_by ?M b c"
    using parts by (metis grows_def snd_conv)+
  then have "extends_by ?M dx c" using extends_by_trans by blast
  from extends_alone [OF this assms(2)] obtain pre
    where pre: "dx_calls c = dx_calls dx @ pre" "starts_in ?M c" .
  then have "dx_starts c = []" by (cases "dx_starts c") (auto simp: starts_in_def)
  from isolation_alone [OF parts(4) this assms(3)] obtain ni bridge subnet where
    "dx_calls dx1 = dx_calls c @ [NetworkInspect name, NftApply bridge subnet]"
    "eg_network_inspect (db_engine be) (dx_calls c) name = Inr ni"
    "extractNetworkIsolationParams (eg_parse_cidr (db_engine be)) ni = Inr (bridge, subnet)"
    "eg_nft_apply (db_engine be) (dx_calls c @ [NetworkInspect name]) bridge subnet = None" .
  with pre(1) show ?thesis by (intro that [of pre bridge subnet ni]) simp_all
qed

lemma split_after:
  assumes "cs @ rest = p @ x # q" and "x \<notin> set cs"
  obtains p' where "p = cs @ p'"
proof -
  from assms(1) obtain us where "cs = p @ us \<and> us @ rest = x # q \<or> cs @ us = p"
    by (auto simp: append_eq_append_conv2)
  with assms(2) show ?thesis using that by (cases us) auto
qed

lemma within_network [simp]: "within {Network n} cs \<Longrightarrow> ContainerCreate req \<notin> set cs"
  by (auto simp: within_def)

section \<open>The primary container\<close>

lemma unique_targets:
  assumes "fold_result unique_target mounts targets = Inr targets'"
  shows "distinct (map dk_target mounts) \<and> (\<forall>m \<in> set mounts. IsAbs (dk_target m) \<and> dk_target m \<notin> gm_keys targets)"
  using assms
proof (induction mounts arbitrary: targets)
  case Nil
  then show ?case by simp
next
  case (Cons m ms)
  then obtain t where "unique_target m targets = Inr t" "fold_result unique_target ms t = Inr targets'"
    by (auto simp: res_bind_eq_Inr)
  note t = this
  from t(1) have "IsAbs (dk_target m)" "dk_target m \<notin> gm_keys targets"
    "t = gm_set (dk_target m) (dk_source m) targets"
    by (auto simp: unique_target_def gm_get_None split: if_splits option.splits)
  then show ?case using Cons.IH [OF t(2)] by auto
qed

lemma in_gm_set_update: "(a, b) \<in> set (gm_set k v m) \<Longrightarrow> (a, b) = (k, v) \<or> (a, b) \<in> set m"
  unfolding gm_set_def by (induction m) (auto split: if_splits)

lemma loopback_bindings:
  assumes "buildPortBindings eng ports = Inr (exposed, bindings)" and "(port, bs) \<in> set bindings" and "b \<in> set bs"
  shows "fst b = ''127.0.0.1''"
proof -
  let ?P = "\<lambda>t. \<forall>(port, bs) \<in> set (snd t). \<forall>b \<in> set bs. fst b = ''127.0.0.1''"
  have "?P (exposed, bindings)"
  proof (rule fold_result_invariant [where P = ?P])
    show "fold_result (bind_port eng) ports ([], []) = Inr (exposed, bindings)"
      using assms(1) by (simp add: buildPortBindings_def)
  next
    fix p s s'
    assume inv: "?P s" and step: "bind_port eng p s = Inr s'"
    obtain ex bd where s: "s = (ex, bd)" by fastforce
    from step s obtain np where s': "snd s' = gm_set np ((case gm_get bd np of None \<Rightarrow> [] | Some bs \<Rightarrow> bs)
        @ [(''127.0.0.1'', show_port (dp_host_port p))]) bd"
      by (auto simp: bind_port_def split: sum.splits)
    have old: "\<forall>b \<in> set (case gm_get bd np of None \<Rightarrow> [] | Some bs \<Rightarrow> bs). fst b = ''127.0.0.1''"
      using inv s gm_get_in_set [of bd np] by (fastforce split: option.splits)
    show "?P s'"
      using inv s s' old by (fastforce dest!: in_gm_set_update)
  qed simp
  with assms show ?thesis by fastforce
qed

lemma calls_append:
  assumes "grows UNIV m" and "m dx = (r, dx')"
  shows "\<exists>cs. dx_calls dx' = dx_calls dx @ cs"
  using assms(1) [unfolded grows_def extends_by_def, rule_format, of dx] assms(2)
  by (auto simp: starts_in_def)

text \<open>An accepted call is in the trace, behind the companions' turns, and was answered without an error.\<close>

lemma ask_accepted:
  assumes "dk_ask eng c answer dx = (Inr x, dx')"
  obtains cs where "dx_calls dx' = (dx_calls dx @ cs) @ [c]" "answer (dx_calls dx @ cs) = Inr x"
proof -
  obtain cs where "dx_calls (start_turns eng dx) = dx_calls dx @ cs"
    using start_turns_extends [of UNIV dx eng] by (auto simp: extends_by_def starts_in_def)
  then show ?thesis using assms that by (auto simp: dk_ask_def Let_def)
qed

lemma waited_running:
  assumes "wait_running eng name n dx = (Inr u, dx')"
  shows "\<exists>h st. dx_calls dx' = h @ [ContainerInspect name] \<and> eg_container_inspect eng h name = Inr (Some st)
    \<and> cst_running st"
  using assms
proof (induction n arbitrary: dx)
  case 0
  then show ?case by (simp add: dk_fail_def)
next
  case (Suc n)
  then obtain st dx1 where one: "dockerContainerState eng name dx = (Inr st, dx1)"
    "(if cst_running st then dk_ret () else wait_running eng name n) dx1 = (Inr u, dx')"
    by (auto simp: bind_Inr)
  from one(1) show ?case unfolding dockerContainerState_def
  proof (rule ask_accepted)
    fix cs
    assume "dx_calls dx1 = (dx_calls dx @ cs) @ [ContainerInspect name]"
      "(case eg_container_inspect eng (dx_calls dx @ cs) name of
          Inl err \<Rightarrow> Inl err
        | Inr None \<Rightarrow> Inl (ErrText [Lit ''container '', Lit name, Lit '' does not expose structured state''])
        | Inr (Some st) \<Rightarrow> Inr st) = Inr st"
    then show ?thesis using one(2) Suc.IH
      by (cases "cst_running st") (auto simp: dk_ret_def split: sum.splits option.splits)
  qed
qed

lemma created_primary:
  assumes "create_primary_part be rec plan dx = (Inr u, dx')"
  defines "name \<equiv> dockerPrimaryContainerName (sh_sandbox_id (sr_handle rec))"
  obtains spec req p q h st where "primary_spec be rec plan = Inr spec"
    "container_request_of (db_engine be) spec = Inr req" "dx_calls dx' = p @ ContainerCreate req # q"
    "eg_container_create (db_engine be) p req = None" "ContainerStart name \<in> set q"
    "dx_calls dx' = h @ [ContainerInspect name]"
    "eg_container_inspect (db_engine be) h name = Inr (Some st)" "cst_running st"
proof -
  obtain spec a b c where parts: "primary_spec be rec plan = Inr spec"
    "dockerContainerCreate (db_engine be) spec dx = (Inr (), a)"
    "dk_each (dockerCopyToContainer (db_engine be) name) (pl_copies plan) a = (Inr (), b)"
    "dockerContainerStart (db_engine be) name b = (Inr (), c)"
    "dockerWaitContainerRunning (db_engine be) name ten_seconds c = (Inr u, dx')"
    using assms(1) unfolding create_primary_part_def Let_def name_def
    by (auto simp: bind_lift bind_Inr split: sum.splits)
  from parts(2) obtain req where req: "container_request_of (db_engine be) spec = Inr req"
    "dk_ask (db_engine be) (ContainerCreate req)
       (\<lambda>h. as_result (map_option (create_error (db_engine be) spec) (eg_container_create (db_engine be) h req))) dx
       = (Inr (), a)"
    by (auto simp: dockerContainerCreate_def bind_lift split: sum.splits)
  from req(2) obtain cs1 where one: "dx_calls a = (dx_calls dx @ cs1) @ [ContainerCreate req]"
    "eg_container_create (db_engine be) (dx_calls dx @ cs1) req = None"
    by (rule ask_accepted) simp
  have "grows UNIV (dk_each (dockerCopyToContainer (db_engine be) name) (pl_copies plan))"
    "grows UNIV (dockerWaitContainerRunning (db_engine be) name ten_seconds)"
    by (intro grows_intros)+
  with parts(3,5) obtain cs2 cs4 where two: "dx_calls b = dx_calls a @ cs2" and four: "dx_calls dx' = dx_calls c @ cs4"
    using calls_append by meson
  from parts(4) obtain cs3 where three: "dx_calls c = (dx_calls b @ cs3) @ [ContainerStart name]"
    unfolding dockerContainerStart_def by (rule ask_accepted)
  from parts(5) have "wait_running (db_engine be) name
      (eg_polls (db_engine be) (dx_calls c) ten_seconds) c = (Inr u, dx')"
    by (simp add: dockerWaitContainerRunning_def)
  from waited_running [OF this] obtain h st where
    "dx_calls dx' = h @ [ContainerInspect name]" "eg_container_inspect (db_engine be) h name = Inr (Some st)"
    "cst_running st" by blast
  with parts(1) req(1) one two three four show ?thesis
    by (intro that [of spec req "dx_calls dx @ cs1" "cs2 @ cs3 @ ContainerStart name # cs4" h st]) auto
qed

lemma user_env_kept:
  assumes "gm_get (cs_envs (sr_create_spec rec)) k = Some v" and "k \<noteq> supplementalGroupsEnv"
    and "gm_ok (cs_envs (sr_create_spec rec))"
  shows "k @ ''='' @ v \<in> set (envMapToSlice (primary_environment be rec plan groups))"
proof -
  have "gm_get (primary_environment be rec plan groups) k = Some v"
    using assms by (simp add: primary_environment_def Let_def gm_get_merge)
  then have "(k, v) \<in> set (primary_environment be rec plan groups)" by (rule gm_get_in_set)
  then show ?thesis by (force simp: envMapToSlice_def)
qed

end
