(* ===== verification/Docker_Props.thy ===== *)
theory Docker_Props
  imports Docker_Trace
begin

text \<open>
  Properties of the Docker backend: a failed creation leaves nothing behind, containers come into a
  network only once it is isolated from the host, what the primary container is made of, and deletion.
\<close>

section \<open>An engine to test with\<close>

definition test_network :: network_inspect where
  "test_network = \<lparr>ni_id = ''0123456789abcdef'', ni_ipam_subnets = [''172.18.0.0/16''], ni_options = []\<rparr>"

definition calm_engine :: docker_engine where
  "calm_engine =
     \<lparr>eg_image_inspect = (\<lambda>_ _. None), eg_pull = (\<lambda>_ _. None), eg_network_create = (\<lambda>_ _. None),
      eg_network_inspect = (\<lambda>_ _. Inr test_network), eg_network_remove = (\<lambda>_ _. None),
      eg_container_create = (\<lambda>_ _. None), eg_copy = (\<lambda>_ _ _. None), eg_tar = (\<lambda>_ _. None),
      eg_container_start = (\<lambda>_ _. None),
      eg_container_inspect = (\<lambda>_ _. Inr (Some \<lparr>cst_running = True, cst_paused = False, cst_exit_code = 0,
        cst_oom_killed = False, cst_health = None\<rparr>)),
      eg_container_stop = (\<lambda>_ _. None), eg_container_remove = (\<lambda>_ _. None),
      eg_exec_create = (\<lambda>_ _. Inr ''e''), eg_exec_start = (\<lambda>_ _. None), eg_exec_attach = (\<lambda>_ _. None),
      eg_attach_read = (\<lambda>_ _. None), eg_exec_inspect = (\<lambda>_ _. Inr (False, 0)),
      eg_nft_apply = (\<lambda>_ _ _. None), eg_cancelled = (\<lambda>_. None), eg_polls = (\<lambda>_ _. Suc 0),
      eg_turns = (\<lambda>_. []), eg_is_not_found = (\<lambda>_. False), eg_error_string = (\<lambda>_. ''error''),
      eg_new_port = (\<lambda>proto port. Inr (port @ ''/'' @ proto)),
      eg_parse_cidr = (\<lambda>_. Inr \<lparr>in_ip = [172, 18, 0, 0], in_mask = [255, 255, 0, 0]\<rparr>)\<rparr>"

lemma calm_engine_sel [simp]:
  "eg_image_inspect calm_engine = (\<lambda>_ _. None)"
  "eg_pull calm_engine = (\<lambda>_ _. None)"
  "eg_network_create calm_engine = (\<lambda>_ _. None)"
  "eg_network_inspect calm_engine = (\<lambda>_ _. Inr test_network)"
  "eg_network_remove calm_engine = (\<lambda>_ _. None)"
  "eg_container_create calm_engine = (\<lambda>_ _. None)"
  "eg_copy calm_engine = (\<lambda>_ _ _. None)"
  "eg_tar calm_engine = (\<lambda>_ _. None)"
  "eg_container_start calm_engine = (\<lambda>_ _. None)"
  "eg_container_inspect calm_engine = (\<lambda>_ _. Inr (Some \<lparr>cst_running = True, cst_paused = False, cst_exit_code = 0, cst_oom_killed = False, cst_health = None\<rparr>))"
  "eg_container_stop calm_engine = (\<lambda>_ _. None)"
  "eg_container_remove calm_engine = (\<lambda>_ _. None)"
  "eg_exec_create calm_engine = (\<lambda>_ _. Inr ''e'')"
  "eg_exec_start calm_engine = (\<lambda>_ _. None)"
  "eg_exec_attach calm_engine = (\<lambda>_ _. None)"
  "eg_attach_read calm_engine = (\<lambda>_ _. None)"
  "eg_exec_inspect calm_engine = (\<lambda>_ _. Inr (False, 0))"
  "eg_nft_apply calm_engine = (\<lambda>_ _ _. None)"
  "eg_cancelled calm_engine = (\<lambda>_. None)"
  "eg_polls calm_engine = (\<lambda>_ _. Suc 0)"
  "eg_turns calm_engine = (\<lambda>_. [])"
  "eg_is_not_found calm_engine = (\<lambda>_. False)"
  "eg_error_string calm_engine = (\<lambda>_. ''error'')"
  "eg_new_port calm_engine = (\<lambda>proto port. Inr (port @ ''/'' @ proto))"
  "eg_parse_cidr calm_engine = (\<lambda>_. Inr \<lparr>in_ip = [172, 18, 0, 0], in_mask = [255, 255, 0, 0]\<rparr>)"
  by (simp_all add: calm_engine_def)

definition test_host :: docker_host where
  "test_host = \<lparr>dh_env = no_host, dh_goos = ''linux'', dh_getenv = (\<lambda>_. ''''),
     dh_stat = (\<lambda>_. Inr Directory), dh_uid = 1000, dh_gid = 1000, dh_glob = (\<lambda>_. Inr []),
     dh_device = (\<lambda>_. Inr (False, Inr 0))\<rparr>"

definition test_backend :: "docker_engine \<Rightarrow> docker_backend" where
  "test_backend eng = \<lparr>db_host = test_host, db_engine = eng, db_artifact_root = ''''\<rparr>"

definition test_companion :: companion_container_spec where
  "test_companion = \<lparr>cc_name = ''db'', cc_image = ''db-image'', cc_envs = [], cc_healthcheck = None,
     cc_post_start_on_primary = [], cc_command = [], cc_cpu_limit = '''', cc_memory_limit = '''',
     cc_disk_limit = ''''\<rparr>"

definition test_record :: "companion_container_spec list \<Rightarrow> create_spec \<Rightarrow> sandbox_record" where
  "test_record ccs spec =
     \<lparr>sr_handle = \<lparr>sh_sandbox_id = ''s'', sh_state = SANDBOX_STATE_PENDING, sh_last_event_sequence = 0,
        sh_companion_containers = ccs, sh_labels = [], sh_created_at = None, sh_image = cs_image spec,
        sh_error_code = '''', sh_error_message = '''', sh_state_changed_at = None\<rparr>,
      sr_create_spec = spec, sr_companion_containers = ccs, sr_runtime_state = None, sr_events = [],
      sr_execs = [], sr_exec_cancel = {}, sr_next_sequence = 1, sr_last_terminal_run_finished_at = None,
      sr_deleted_at_recorded = False\<rparr>"

abbreviation "idle_state \<equiv> \<lparr>dx_calls = [], dx_starts = []\<rparr>"

definition plain_spec :: create_spec where
  "plain_spec = empty_create_spec\<lparr>cs_image := ''image'', cs_envs := [(''MODE'', ''test'')]\<rparr>"

text \<open>Evaluation: the state after each call is simplified before the next one.\<close>

lemma eval_ask:
  "start_turns eng dx = \<lparr>dx_calls = h, dx_starts = ss\<rparr> \<Longrightarrow>
     dk_ask eng c answer dx = (answer h, \<lparr>dx_calls = h @ [c], dx_starts = ss\<rparr>)"
  by (simp add: dk_ask_def)

lemma eval_bind:
  "m dx = (Inr x, dx') \<Longrightarrow> dk_bind m f dx = f x dx'"
  "m dx = (Inl err, dx') \<Longrightarrow> dk_bind m f dx = (Inl err, dx')"
  by (simp_all add: dk_bind_def)

lemma eval_try: "m dx = (r, dx') \<Longrightarrow> dk_try m dx = (Inr r, dx')"
  by (simp add: dk_try_def)

lemmas eval_calls = eval_ask eval_bind eval_try dk_ret_def dk_fail_def dk_lift_def as_result_def
  start_turns_def start_turn_def start_step_def ignore_missing_def

lemmas eval_names = dockerNetworkName_def dockerPrimaryContainerName_def dockerCompanionContainerName_def
  sanitizeRuntimeName_def sanitize_char_def

lemmas eval_test = test_backend_def test_host_def test_companion_def test_record_def plain_spec_def
  empty_create_spec_def test_network_def

lemmas eval_plan = plan_sandbox_def buildLimits_def ParseCPU_def ParseMemoryOrDisk_def companion_limits_def
  materializeBuiltinTools_def materializeGenericMounts_def validateGenericCopies_def ensureUniqueMountTargets_def

lemmas eval_network = create_network_part_def ensureDockerImage_def dockerNetworkCreate_def
  applyNetworkHostIsolation_def wrap_err_def extractNetworkIsolationParams_def

section \<open>Properties\<close>


definition failing_engine :: docker_engine where
  "failing_engine =
     calm_engine\<lparr>eg_container_start := (\<lambda>_ n. if n = ''agbox-primary-s'' then Some ErrSandboxIDAlreadyExists else None),
       eg_turns := (\<lambda>h. if length h = 6 then [0] else [])\<rparr>"

lemma failing_run:
  "\<exists>dx'. CreateSandbox_backend (test_backend failing_engine) (test_record [test_companion] plain_spec) idle_state
      = (Inl ErrSandboxIDAlreadyExists, dx')
    \<and> Some (Container ''agbox-cc-s-db'') \<in> set (map makes (dx_calls dx'))"
proof -
  let ?be = "test_backend failing_engine" and ?rec = "test_record [test_companion] plain_spec"
  obtain plan where plan: "plan_sandbox ?be ?rec = Inr plan" "pl_copies plan = []"
    by (simp add: eval_plan eval_test Let_def)
  obtain h where net: "create_network_part ?be ?rec idle_state = (Inr (), \<lparr>dx_calls = h, dx_starts = []\<rparr>)"
    "length h = 5"
    by (simp add: eval_network eval_test Let_def failing_engine_def eval_calls)
  obtain spec where spec: "primary_spec ?be ?rec plan = Inr spec" "dc_ports spec = []"
    by (simp add: primary_spec_def eval_test Let_def)
  then have name: "dc_name spec = ''agbox-primary-s''"
    using primary_spec_name [OF spec(1)] by (simp add: eval_test eval_names)
  obtain req where req: "container_request_of failing_engine spec = Inr req"
    using spec(2) by (simp add: container_request_of_def buildPortBindings_def)
  let ?cspec = "companion_spec ''s'' [] (pl_limits plan) test_companion"
  obtain creq where creq: "container_request_of failing_engine ?cspec = Inr creq"
    by (simp add: container_request_of_def buildPortBindings_def companion_spec_def)
  have cname: "gq_name creq = ''agbox-cc-s-db''"
    using container_request_name [OF creq] by (simp add: companion_spec_def eval_names eval_test)
  let ?c = "\<lambda>phase. \<lparr>ct_name = ''db'', ct_spec = ?cspec, ct_phase = phase\<rparr>"
  have start: "startCompanionContainersAsync ?rec (pl_limits plan) \<lparr>dx_calls = h, dx_starts = []\<rparr>
      = \<lparr>dx_calls = h, dx_starts = [?c StartCreate]\<rparr>"
    by (simp add: startCompanionContainersAsync_def test_record_def test_companion_def plain_spec_def empty_create_spec_def)
  have sel: "eg_turns failing_engine = (\<lambda>h. if length h = 6 then [0] else [])"
    "eg_container_create failing_engine = (\<lambda>_ _. None)"
    "eg_container_start failing_engine
       = (\<lambda>_ n. if n = ''agbox-primary-s'' then Some ErrSandboxIDAlreadyExists else None)"
    by (simp_all add: failing_engine_def)
  have made: "dockerContainerCreate failing_engine spec \<lparr>dx_calls = h, dx_starts = [?c StartCreate]\<rparr>
      = (Inr (), \<lparr>dx_calls = h @ [ContainerCreate req], dx_starts = [?c StartCreate]\<rparr>)"
    by (simp add: dockerContainerCreate_def req eval_calls sel net(2))
  have failed: "dockerContainerStart failing_engine ''agbox-primary-s''
        \<lparr>dx_calls = h @ [ContainerCreate req], dx_starts = [?c StartCreate]\<rparr>
      = (Inl ErrSandboxIDAlreadyExists, \<lparr>dx_calls = h @ [ContainerCreate req, ContainerCreate creq,
            ContainerStart ''agbox-primary-s''], dx_starts = [?c StartStart]\<rparr>)"
    by (simp add: dockerContainerStart_def eval_calls sel net(2) creq)
  have part: "create_primary_part ?be ?rec plan \<lparr>dx_calls = h, dx_starts = [?c StartCreate]\<rparr>
      = (Inl ErrSandboxIDAlreadyExists, \<lparr>dx_calls = h @ [ContainerCreate req, ContainerCreate creq,
            ContainerStart ''agbox-primary-s''], dx_starts = [?c StartStart]\<rparr>)"
    using spec(1) plan(2) made failed
    by (simp add: create_primary_part_def bind_lift eval_bind dk_ret_def Let_def test_backend_def test_record_def eval_names)
  let ?dx = "\<lparr>dx_calls = h @ [ContainerCreate req, ContainerCreate creq,
            ContainerStart ''agbox-primary-s''], dx_starts = [?c StartStart]\<rparr>"
  have "starts_in UNIV ?dx" by (simp add: starts_in_def)
  from cleanup_removes [OF states_named(2) [of ?rec] this, of ?be] obtain bs cs where
    "cleanup_failed_create ?be (state_with_companions ?rec) ?dx = \<lparr>dx_calls = dx_calls ?dx @ bs @ cs, dx_starts = []\<rparr>"
    by blast
  then show ?thesis
    using cname by (simp add: CreateSandbox_backend_def plan net(1) start part)
qed


text \<open>
  C19. On Linux no container is made in a network before the network is isolated from the host: every
  container a creation asks for comes after the netfilter connection accepted the rules of the bridge
  and the subnet that inspecting the sandbox's own network gave.
\<close>
theorem isolated_before_containers:
  assumes "CreateSandbox_backend be rec dx = (r, dx')" and "dx_starts dx = []"
    and "dh_goos (db_host be) = ''linux''"
    and "dx_calls dx' = dx_calls dx @ p @ ContainerCreate req # q"
  shows "\<exists>p1 p2 h ni bridge subnet. p = p1 @ NftApply bridge subnet # p2
    \<and> eg_nft_apply (db_engine be) (dx_calls dx @ p1) bridge subnet = None
    \<and> eg_network_inspect (db_engine be) h (dockerNetworkName (sh_sandbox_id (sr_handle rec))) = Inr ni
    \<and> extractNetworkIsolationParams (eg_parse_cidr (db_engine be)) ni = Inr (bridge, subnet)"
proof (cases "plan_sandbox be rec")
  case (Inl e)
  then show ?thesis using assms by (auto simp: CreateSandbox_backend_def)
next
  case (Inr plan)
  from assms(1,2) Inr show ?thesis
  proof (cases rule: CreateSandbox_parts)
    case (no_network e cs)
    let ?N = "Network (dockerNetworkName (sh_sandbox_id (sr_handle rec)))"
    have "starts_in {?N} \<lparr>dx_calls = dx_calls dx @ cs, dx_starts = []\<rparr>" by (simp add: starts_in_def)
    from cleanup_removes [OF states_named(1) [of rec] this, of be] obtain bs cs' where
      "dx' = \<lparr>dx_calls = dx_calls dx @ cs @ bs @ cs', dx_starts = []\<rparr>" "within {?N} bs" "within {} cs'"
      unfolding no_network(4) by auto
    moreover from this assms(4) have "cs @ bs @ cs' = p @ ContainerCreate req # q" by simp
    ultimately have "within {?N} (p @ ContainerCreate req # q)"
      using no_network(2) within_mono [of "{}" cs' "{?N}"] by (metis empty_subsetI within_simps(3))
    then show ?thesis by simp
  next
    case (network cs r2 dx2 ds)
    obtain rest where rest: "dx_calls dx' = dx_calls dx @ cs @ rest"
    proof (cases r2)
      case (Inl e)
      obtain bs cs' where "cleanup_failed_create be (state_with_companions rec) dx2
          = \<lparr>dx_calls = dx_calls dx2 @ bs @ cs', dx_starts = []\<rparr>"
        using cleanup_removes [OF states_named(2) [of rec] network(6), of be] by blast
      with network Inl that show ?thesis by auto
    qed (use network that in auto)
    then have "cs @ rest = p @ ContainerCreate req # q" using assms(4) by simp
    from split_after [OF this within_network [OF network(2)]] obtain p' where p: "p = cs @ p'" .
    from network_part_isolates [OF network(1) assms(2,3)] obtain pre ni bridge subnet where
      iso: "dx_calls \<lparr>dx_calls = dx_calls dx @ cs, dx_starts = []\<rparr> = dx_calls dx @ pre @
         [NetworkInspect (dockerNetworkName (sh_sandbox_id (sr_handle rec))), NftApply bridge subnet]"
      "eg_network_inspect (db_engine be) (dx_calls dx @ pre)
         (dockerNetworkName (sh_sandbox_id (sr_handle rec))) = Inr ni"
      "extractNetworkIsolationParams (eg_parse_cidr (db_engine be)) ni = Inr (bridge, subnet)"
      "eg_nft_apply (db_engine be) (dx_calls dx @ pre @
         [NetworkInspect (dockerNetworkName (sh_sandbox_id (sr_handle rec)))]) bridge subnet = None" .
    let ?n = "NetworkInspect (dockerNetworkName (sh_sandbox_id (sr_handle rec)))"
    from iso(1) p have "p = (pre @ [?n]) @ NftApply bridge subnet # p'" by simp
    with iso(2-4) show ?thesis by - (rule exI [of _ "pre @ [?n]"], auto)
  qed
qed

theorem isolated_before_containers_witness:
  "\<exists>r dx' p q req bridge subnet.
     CreateSandbox_backend (test_backend failing_engine) (test_record [test_companion] plain_spec) idle_state = (r, dx')
     \<and> dx_calls dx' = p @ ContainerCreate req # q \<and> NftApply bridge subnet \<in> set p"
proof -
  obtain dx' where run: "CreateSandbox_backend (test_backend failing_engine) (test_record [test_companion] plain_spec)
      idle_state = (Inl ErrSandboxIDAlreadyExists, dx')"
    and made: "Some (Container ''agbox-cc-s-db'') \<in> set (map makes (dx_calls dx'))"
    using failing_run by blast
  from made obtain c where c: "c \<in> set (dx_calls dx')" "makes c = Some (Container ''agbox-cc-s-db'')" by auto
  from c(2) obtain req where "c = ContainerCreate req" by (cases c) auto
  with c(1) obtain p q where trace: "dx_calls dx' = p @ ContainerCreate req # q" by (meson split_list)
  have "dh_goos (db_host (test_backend failing_engine)) = ''linux''"
    by (simp add: test_backend_def test_host_def)
  from isolated_before_containers [OF run _ this, of p req q] trace
  obtain p1 p2 bridge subnet where "p = p1 @ NftApply bridge subnet # p2" by auto
  with run trace show ?thesis by (metis in_set_conv_decomp)
qed

text \<open>
  What a successful creation made: the primary container was accepted with the sandbox's name in the
  sandbox's network, its mount targets are absolute and no two are the same, its ports are published on
  the loopback address only, every environment variable the user gave is there with the user's value but
  the one reserved for the daemon; afterwards it was started and last seen running.
\<close>
theorem primary_container_made:
  assumes "CreateSandbox_backend be rec dx = (Inr state, dx')" and "dx_starts dx = []"
    and "gm_ok (cs_envs (sr_create_spec rec))"
  shows "\<exists>p req q h st. state = state_with_companions rec \<and> dx_calls dx' = p @ ContainerCreate req # q
    \<and> eg_container_create (db_engine be) p req = None
    \<and> gq_name req = rs_primary_container_name state \<and> gq_network_mode req = rs_network_name state
    \<and> distinct (map dk_target (gq_mounts req)) \<and> (\<forall>m \<in> set (gq_mounts req). IsAbs (dk_target m))
    \<and> (\<forall>(port, bs) \<in> set (gq_port_bindings req). \<forall>b \<in> set bs. fst b = ''127.0.0.1'')
    \<and> (\<forall>k v. gm_get (cs_envs (sr_create_spec rec)) k = Some v \<and> k \<noteq> supplementalGroupsEnv
          \<longrightarrow> k @ ''='' @ v \<in> set (gq_env req))
    \<and> ContainerStart (rs_primary_container_name state) \<in> set q
    \<and> dx_calls dx' = h @ [ContainerInspect (rs_primary_container_name state)]
    \<and> eg_container_inspect (db_engine be) h (rs_primary_container_name state) = Inr (Some st) \<and> cst_running st"
proof -
  obtain plan where plan: "plan_sandbox be rec = Inr plan"
    using assms(1) by (auto simp: CreateSandbox_backend_def split: sum.splits)
  from assms(1,2) plan obtain dx1 where state: "state = state_with_companions rec"
    and part: "create_primary_part be rec plan dx1 = (Inr (), dx')"
    by (auto elim!: CreateSandbox_parts split: sum.splits)
  obtain targets where "fold_result unique_target (pl_mounts plan) [] = Inr targets"
    using plan by (auto simp: plan_sandbox_def Let_def res_bind_eq_Inr ensureUniqueMountTargets_def split: if_splits)
  note mounts = unique_targets [OF this]
  have names: "rs_primary_container_name state = dockerPrimaryContainerName (sh_sandbox_id (sr_handle rec))"
    "rs_network_name state = dockerNetworkName (sh_sandbox_id (sr_handle rec))"
    by (simp_all add: state state_with_companions_def state_before_companions_def Let_def)
  from part show ?thesis
  proof (rule created_primary)
    fix spec req p q h st
    assume made: "primary_spec be rec plan = Inr spec" "container_request_of (db_engine be) spec = Inr req"
      "dx_calls dx' = p @ ContainerCreate req # q" "eg_container_create (db_engine be) p req = None"
      "ContainerStart (dockerPrimaryContainerName (sh_sandbox_id (sr_handle rec))) \<in> set q"
      "dx_calls dx' = h @ [ContainerInspect (dockerPrimaryContainerName (sh_sandbox_id (sr_handle rec)))]"
      "eg_container_inspect (db_engine be) h (dockerPrimaryContainerName (sh_sandbox_id (sr_handle rec))) = Inr (Some st)"
      "cst_running st"
    from made(1) obtain groups where spec: "dc_mounts spec = pl_mounts plan"
      "dc_environment spec = primary_environment be rec plan groups"
      "dc_network_name spec = dockerNetworkName (sh_sandbox_id (sr_handle rec))"
      by (auto simp: primary_spec_def Let_def res_bind_eq_Inr)
    from made(2) obtain exposed where req: "gq_mounts req = dc_mounts spec"
      "gq_env req = envMapToSlice (dc_environment spec)" "gq_network_mode req = dc_network_name spec"
      "buildPortBindings (db_engine be) (dc_ports spec) = Inr (exposed, gq_port_bindings req)"
      by (auto simp: container_request_of_def res_bind_eq_Inr)
    have env: "\<forall>k v. gm_get (cs_envs (sr_create_spec rec)) k = Some v \<and> k \<noteq> supplementalGroupsEnv
          \<longrightarrow> k @ ''='' @ v \<in> set (gq_env req)"
      using user_env_kept [OF _ _ assms(3)] req spec by simp
    have ports: "\<forall>(port, bs) \<in> set (gq_port_bindings req). \<forall>b \<in> set bs. fst b = ''127.0.0.1''"
      using loopback_bindings [OF req(4)] by blast
    show ?thesis
      unfolding names using state made env ports mounts req spec container_request_name [OF made(2)]
        primary_spec_name [OF made(1)] 
      by - (rule exI [of _ p], rule exI [of _ req], rule exI [of _ q], rule exI [of _ h], rule exI [of _ st], auto)
  qed
qed

lemma calm_run:
  "\<exists>dx'. CreateSandbox_backend (test_backend calm_engine) (test_record [] plain_spec) idle_state
      = (Inr (state_with_companions (test_record [] plain_spec)), dx')"
proof -
  let ?be = "test_backend calm_engine" and ?rec = "test_record [] plain_spec"
  obtain plan where plan: "plan_sandbox ?be ?rec = Inr plan" "pl_copies plan = []"
    by (simp add: eval_plan eval_test Let_def)
  obtain h where net: "create_network_part ?be ?rec idle_state = (Inr (), \<lparr>dx_calls = h, dx_starts = []\<rparr>)"
    by (simp add: eval_network eval_test Let_def eval_calls)
  obtain spec where spec: "primary_spec ?be ?rec plan = Inr spec" "dc_ports spec = []"
    by (simp add: primary_spec_def eval_test Let_def)
  obtain req where req: "container_request_of calm_engine spec = Inr req"
    using spec(2) by (simp add: container_request_of_def buildPortBindings_def)
  have start: "startCompanionContainersAsync ?rec (pl_limits plan) \<lparr>dx_calls = h, dx_starts = []\<rparr>
      = \<lparr>dx_calls = h, dx_starts = []\<rparr>"
    by (simp add: startCompanionContainersAsync_def test_record_def)
  have "\<exists>dx'. create_primary_part ?be ?rec plan \<lparr>dx_calls = h, dx_starts = []\<rparr> = (Inr (), dx')"
    using spec(1) plan(2)
    by (simp add: create_primary_part_def bind_lift eval_calls Let_def test_backend_def dockerContainerCreate_def req
        dockerContainerStart_def dockerWaitContainerRunning_def dockerContainerState_def)
  then show ?thesis by (auto simp: CreateSandbox_backend_def plan net(1) start)
qed

theorem primary_container_made_witness:
  "\<exists>dx' req. CreateSandbox_backend (test_backend calm_engine) (test_record [] plain_spec) idle_state
      = (Inr (state_with_companions (test_record [] plain_spec)), dx')
    \<and> ContainerCreate req \<in> set (dx_calls dx') \<and> ''MODE=test'' \<in> set (gq_env req)"
proof -
  obtain dx' where run: "CreateSandbox_backend (test_backend calm_engine) (test_record [] plain_spec) idle_state
      = (Inr (state_with_companions (test_record [] plain_spec)), dx')"
    using calm_run by blast
  have envs: "cs_envs (sr_create_spec (test_record [] plain_spec)) = [(''MODE'', ''test'')]"
    by (simp add: test_record_def plain_spec_def empty_create_spec_def)
  have "gm_ok (cs_envs (sr_create_spec (test_record [] plain_spec)))" by (simp add: envs gm_ok_def)
  from primary_container_made [OF run _ this] obtain p req q where made:
    "dx_calls dx' = p @ ContainerCreate req # q"
    "\<forall>k v. gm_get (cs_envs (sr_create_spec (test_record [] plain_spec))) k = Some v \<and> k \<noteq> supplementalGroupsEnv
          \<longrightarrow> k @ ''='' @ v \<in> set (gq_env req)" by auto
  from made(2) [rule_format, of "''MODE''" "''test''"] have "''MODE=test'' \<in> set (gq_env req)"
    by (simp add: envs)
  moreover have "ContainerCreate req \<in> set (dx_calls dx')" by (simp add: made(1))
  ultimately show ?thesis using run by blast
qed

text \<open>
  C37. A deletion asks for the removal of every container of the sandbox and of its network whatever fails
  on the way, after the goroutines of its companions have ended, and reports success exactly when every
  removal succeeded or found nothing.
\<close>
theorem delete_attempts_everything:
  assumes "DeleteSandbox_backend be rec dx = (r, dx')" and "sr_runtime_state rec = Some state" and "named state"
  shows "\<exists>before after. dx_calls dx' = dx_calls dx @ before @ after \<and> (\<forall>c \<in> set after. makes c = None)
    \<and> removal_of ` made_by state \<subseteq> set after \<and> dx_starts dx' = []
    \<and> (r = Inr () \<longleftrightarrow> all_removed (db_engine be) (dx_calls dx @ before) after)"
proof -
  obtain bs where bs: "dx_calls (start_turns (db_engine be) dx) = dx_calls dx @ bs"
    using start_turns_extends [of UNIV dx "db_engine be"] by (auto simp: extends_by_def starts_in_def)
  then have waited: "CancelAndWait (db_engine be) dx = \<lparr>dx_calls = dx_calls dx @ bs, dx_starts = []\<rparr>"
    by (cases "start_turns (db_engine be) dx") (simp add: CancelAndWait_def)
  from delete_removes [OF assms(3), of be "dx_calls dx @ bs"] assms(1,2) waited obtain cs where
    "dx' = \<lparr>dx_calls = (dx_calls dx @ bs) @ cs, dx_starts = []\<rparr>" "within {} cs"
    "removal_of ` made_by state \<subseteq> set cs" "all_removed (db_engine be) (dx_calls dx @ bs) cs \<longleftrightarrow> \<not> isl r"
    by (auto simp: DeleteSandbox_backend_def)
  moreover have "r = Inr () \<longleftrightarrow> \<not> isl r" by (cases r) auto
  ultimately show ?thesis
    by - (rule exI [of _ bs], rule exI [of _ cs], auto simp: within_def)
qed

theorem delete_attempts_everything_witness:
  "\<exists>r dx'. DeleteSandbox_backend (test_backend failing_engine)
      ((test_record [test_companion] plain_spec)\<lparr>sr_runtime_state :=
        Some (state_with_companions (test_record [test_companion] plain_spec))\<rparr>) idle_state = (r, dx')
    \<and> ContainerRemove ''agbox-cc-s-db'' \<in> set (dx_calls dx')"
proof -
  let ?state = "state_with_companions (test_record [test_companion] plain_spec)"
  let ?rec = "(test_record [test_companion] plain_spec)\<lparr>sr_runtime_state := Some ?state\<rparr>"
  obtain r dx' where run: "DeleteSandbox_backend (test_backend failing_engine) ?rec idle_state = (r, dx')" by fastforce
  have "sr_runtime_state ?rec = Some ?state" by simp
  from delete_attempts_everything [OF run this states_named(2)] have
    "removal_of ` made_by ?state \<subseteq> set (dx_calls dx')" by auto
  moreover have "Container ''agbox-cc-s-db'' \<in> made_by ?state"
    by (simp add: made_by_states test_record_def test_companion_def eval_names)
  ultimately have "removal_of (Container ''agbox-cc-s-db'') \<in> set (dx_calls dx')" by blast
  with run show ?thesis by (simp add: removal_of_def)
qed

section \<open>Waiting for health\<close>

definition plain_sum :: "healthcheck_config \<Rightarrow> duration" where
  "plain_sum h =
     (let startPeriod = protoOrDefault (hc_start_period h) 0;
          timeout = protoOrDefault (hc_timeout h) (30 * second);
          retries = (if hc_retries h = 0 then 3 else uint (hc_retries h))
      in startPeriod
         + (if startPeriod > 0 then max (protoOrDefault (hc_start_interval h) (5 * second)) timeout else 0)
         + max (protoOrDefault (hc_interval h) (30 * second)) timeout * (retries + 1))"

text \<open>Durations below a day, at most 10,000 retries.\<close>

definition moderate :: "healthcheck_config \<Rightarrow> bool" where
  "moderate h \<longleftrightarrow>
     (\<forall>d \<in> {hc_start_period h, hc_interval h, hc_timeout h, hc_start_interval h}.
        case d of None \<Rightarrow> True | Some v \<Rightarrow> 0 \<le> v \<and> v < 24 * hour)
     \<and> hc_retries h \<le> 10000"

definition endless_retries :: healthcheck_config where
  "endless_retries = \<lparr>hc_test = [''CMD'', ''true''], hc_interval = Some (30 * second), hc_timeout = Some (30 * second),
     hc_retries = 4294967295, hc_start_period = None, hc_start_interval = None\<rparr>"

lemma int64_id: "- 9223372036854775808 \<le> x \<Longrightarrow> x < 9223372036854775808 \<Longrightarrow> int64 x = x"
  by (simp add: int64_def signed_of_int signed_take_bit_int_eq_self)

lemma moderate_duration:
  "(case d of None \<Rightarrow> True | Some v \<Rightarrow> 0 \<le> v \<and> v < 24 * hour) \<Longrightarrow> 0 \<le> e \<Longrightarrow> e < 24 * hour \<Longrightarrow>
     0 \<le> protoOrDefault d e \<and> protoOrDefault d e < 24 * hour"
  by (auto simp: protoOrDefault_def split: option.splits)

lemma retries_next:
  fixes r :: "32 word"
  assumes "r \<le> 10000"
  shows "uint (r + 1) = uint r + 1 \<and> 0 \<le> uint r \<and> uint r \<le> 10000"
  using assms by (simp add: uint_word_ariths word_le_def)

lemma health_sum_exact:
  assumes "0 \<le> a" "a < 24 * hour" "0 \<le> g" "g < 24 * hour" "0 \<le> c" "c < 24 * hour" "0 \<le> n" "n \<le> 10001"
  shows "int64 (int64 (a + g) + int64 (c * n)) = a + g + c * n"
proof -
  have "c * n \<le> (24 * hour) * 10001" using assms by (intro mult_mono) auto
  moreover have "0 \<le> c * n" using assms by simp
  ultimately have cn: "0 \<le> c * n" "c * n \<le> 24 * hour * 10001" by blast+
  have "int64 (a + g) = a + g" by (rule int64_id) (use assms in linarith)+
  moreover have "int64 (c * n) = c * n" by (rule int64_id) (use cn in linarith)+
  moreover have "int64 (a + g + c * n) = a + g + c * n" by (rule int64_id) (use assms cn in linarith)+
  ultimately show ?thesis by simp
qed

text \<open>
  The wait for a companion's health is never longer than five minutes.  For durations below a day and
  at most 10,000 retries it is the smaller of five minutes and what the healthcheck itself may take, so no
  intermediate sum or product overflows; but the greatest number of retries makes the counter wrap and the
  companion gets no time at all.
\<close>
theorem health_wait_bound:
  "companionContainerHealthWaitUpperBound h \<le> 5 * minute
   \<and> (moderate h \<longrightarrow> companionContainerHealthWaitUpperBound h = min (plain_sum h) (5 * minute))
   \<and> companionContainerHealthWaitUpperBound endless_retries = 0"
proof (intro conjI impI)
  show "companionContainerHealthWaitUpperBound h \<le> 5 * minute"
    by (simp add: companionContainerHealthWaitUpperBound_def Let_def)
  show "companionContainerHealthWaitUpperBound endless_retries = 0"
    by (simp add: companionContainerHealthWaitUpperBound_def endless_retries_def protoOrDefault_def Let_def int64_def)
  assume "moderate h"
  show "companionContainerHealthWaitUpperBound h = min (plain_sum h) (5 * minute)"
  proof -
    let ?sp = "protoOrDefault (hc_start_period h) 0" and ?iv = "protoOrDefault (hc_interval h) (30 * second)"
      and ?to = "protoOrDefault (hc_timeout h) (30 * second)" and ?si = "protoOrDefault (hc_start_interval h) (5 * second)"
    let ?r = "if hc_retries h = 0 then 3 else hc_retries h"
    have bounds: "0 \<le> ?sp \<and> ?sp < 24 * hour" "0 \<le> ?iv \<and> ?iv < 24 * hour" "0 \<le> ?to \<and> ?to < 24 * hour"
      "0 \<le> ?si \<and> ?si < 24 * hour"
      using \<open>moderate h\<close> by (intro moderate_duration; simp add: moderate_def)+
    have r: "uint (?r + 1) = uint ?r + 1 \<and> 0 \<le> uint ?r \<and> uint ?r \<le> 10000"
      using \<open>moderate h\<close> by (intro retries_next) (simp add: moderate_def)
    have "int64 (int64 (?sp + (if ?sp > 0 then max ?si ?to else 0)) + int64 (max ?iv ?to * (uint ?r + 1)))
        = ?sp + (if ?sp > 0 then max ?si ?to else 0) + max ?iv ?to * (uint ?r + 1)"
      using bounds r by (intro health_sum_exact) auto
    moreover have "(if hc_retries h = 0 then 3 else uint (hc_retries h)) = uint ?r" by simp
    ultimately show ?thesis
      unfolding companionContainerHealthWaitUpperBound_def plain_sum_def Let_def using r by (cases "?sp > 0") auto
  qed
qed

theorem health_wait_bound_witness:
  "companionContainerHealthWaitUpperBound (endless_retries\<lparr>hc_retries := 2\<rparr>) = 90 * second"
proof -
  let ?h = "endless_retries\<lparr>hc_retries := 2\<rparr>"
  have "moderate ?h" by (simp add: moderate_def endless_retries_def)
  with health_wait_bound [of ?h] have "companionContainerHealthWaitUpperBound ?h = min (plain_sum ?h) (5 * minute)" by blast
  moreover have "plain_sum ?h = 90 * second"
    by (simp add: plain_sum_def endless_retries_def protoOrDefault_def Let_def)
  ultimately show ?thesis by simp
qed

end
