(* ===== verification/Nftables_Props.thy ===== *)
theory Nftables_Props
  imports Nftables
begin

text \<open>
  Properties of the host isolation rules: what an installed rule is recognised by, and what applying and
  removing the rules of a network sends to the kernel, whatever the kernel lists.
\<close>

section \<open>Interface names\<close>

definition char_byte :: "char \<Rightarrow> u8" where
  "char_byte ch = word_of_nat (of_char ch)"

lemma char_byte_inj: "char_byte a = char_byte b \<longleftrightarrow> a = b"
proof
  assume "char_byte a = char_byte b"
  then have "unat (char_byte a) = unat (char_byte b)" by simp
  moreover have "unat (char_byte c) = of_char c" for c :: char
    by (simp add: char_byte_def unat_of_nat)
  ultimately show "a = b" by simp
qed simp

lemma char_byte_zero: "char_byte c = 0 \<longleftrightarrow> c = CHR 0x00"
  using char_byte_inj [of c "CHR 0x00"] by (simp add: char_byte_def)

text \<open>A name the kernel accepts: at most 15 bytes, none of them NUL.\<close>

definition interface_name :: "string \<Rightarrow> bool" where
  "interface_name name \<longleftrightarrow> length name < 16 \<and> CHR 0x00 \<notin> set name"

lemma nftIfname_inj:
  assumes "interface_name a" and "interface_name b"
  shows "nftIfname a = nftIfname b \<longleftrightarrow> a = b"
proof
  assume eq: "nftIfname a = nftIfname b"
  have name: "takeWhile (\<lambda>w. w \<noteq> 0) (nftIfname n) = map char_byte n" if "interface_name n" for n
  proof -
    have "nftIfname n = map char_byte n @ 0 # replicate (15 - length n) 0"
      using that by (simp add: nftIfname_def interface_name_def char_byte_def [abs_def] take_Cons' Let_def)
    moreover have "takeWhile (\<lambda>w. w \<noteq> 0) (xs @ 0 # ys) = xs" if "\<forall>w \<in> set xs. w \<noteq> 0" for xs ys :: "u8 list"
      using that by (induction xs) auto
    moreover have "\<forall>w \<in> set (map char_byte n). w \<noteq> 0"
      using that by (auto simp: interface_name_def char_byte_zero)
    ultimately show ?thesis by metis
  qed
  from eq name assms have "map char_byte a = map char_byte b" by metis
  then show "a = b" by (simp add: map_injective inj_def char_byte_inj)
qed simp

section \<open>Recognising a rule\<close>

lemma same_expr_iff:
  "same_expr a e \<longleftrightarrow> a = e \<and> (case e of Meta _ _ \<Rightarrow> False | Payload _ _ _ _ \<Rightarrow> False | OtherExpr _ \<Rightarrow> False | _ \<Rightarrow> True)"
  by (cases "(a, e)" rule: same_expr.cases) (auto split: nft_expr.splits)

lemma list_all2_same:
  "list_all2 same_expr xs ys \<longleftrightarrow>
     xs = ys \<and> (\<forall>e \<in> set ys. case e of Meta _ _ \<Rightarrow> False | Payload _ _ _ _ \<Rightarrow> False | OtherExpr _ \<Rightarrow> False | _ \<Rightarrow> True)"
  by (induction xs ys rule: list_induct2') (auto simp: same_expr_iff)

definition network_of :: "ip_net \<Rightarrow> u8 list" where
  "network_of subnet = to4 (ip_mask (in_ip subnet) (in_mask subnet))"

lemma expected_shape:
  assumes "r \<in> set (expectedHostIsolationRules env bridge subnet)"
  shows "length r \<ge> 5 \<and> cmp_data (r ! 1) = Some (nftIfname bridge) \<and> cmp_data (r ! 4) = Some (network_of subnet)
    \<and> (\<forall>e \<in> set (drop 5 r). case e of Meta _ _ \<Rightarrow> False | Payload _ _ _ _ \<Rightarrow> False | OtherExpr _ \<Rightarrow> False | _ \<Rightarrow> True)"
  using assms
  by (auto simp: expectedHostIsolationRules_def expectedDockerUserIsolationRules_def expectedInputIsolationRules_def
      buildHostIsolationExprs_def buildDNATIsolationExprs_def buildHostInputIsolationExprs_def
      buildBridgeSubnetMatchExprs_def buildConntrackNewMatchExprs_def cmp_data_def network_of_def Let_def)

lemma matchesIsolationRule_iff:
  "matchesIsolationRule r e \<longleftrightarrow>
     length r = length e \<and> 5 \<le> length r
     \<and> (\<exists>iface. cmp_data (r ! 1) = Some iface \<and> cmp_data (e ! 1) = Some iface)
     \<and> (\<exists>net. cmp_data (r ! 4) = Some net \<and> cmp_data (e ! 4) = Some net)
     \<and> list_all2 same_expr (drop 5 r) (drop 5 e)"
  by (auto simp: matchesIsolationRule_def matchesIsolationTail_def split: option.splits)

text \<open>
  An installed rule is recognised by the bridge, the network address and the kind of rule, and a rule
  the daemon made is always recognised as itself; the mask is not compared, so that the rule of 10.0.0.0/24
  is taken for the rule of 10.0.0.0/16 on the same bridge.
\<close>
theorem isolation_rule_recognised:
  assumes "r \<in> set (expectedHostIsolationRules env bridge subnet)"
    and "r' \<in> set (expectedHostIsolationRules env bridge' subnet')"
    and "interface_name bridge" and "interface_name bridge'"
  shows "(matchesIsolationRule r r' \<longleftrightarrow>
      bridge = bridge' \<and> network_of subnet = network_of subnet' \<and> drop 5 r = drop 5 r')
    \<and> matchesIsolationRule r r
    \<and> list_all2 matchesIsolationRule
        (expectedHostIsolationRules env ''br-0'' \<lparr>in_ip = [10, 0, 0, 0], in_mask = [255, 255, 255, 0]\<rparr>)
        (expectedHostIsolationRules env ''br-0'' \<lparr>in_ip = [10, 0, 0, 0], in_mask = [255, 255, 0, 0]\<rparr>)"
proof (intro conjI)
  note a = expected_shape [OF assms(1)] and b = expected_shape [OF assms(2)]
  show "matchesIsolationRule r r"
    using a by (auto simp: matchesIsolationRule_iff list_all2_same)
  show "matchesIsolationRule r r' \<longleftrightarrow>
      bridge = bridge' \<and> network_of subnet = network_of subnet' \<and> drop 5 r = drop 5 r'"
  proof
    assume "matchesIsolationRule r r'"
    then show "bridge = bridge' \<and> network_of subnet = network_of subnet' \<and> drop 5 r = drop 5 r'"
      using a b nftIfname_inj [OF assms(3,4)] by (auto simp: matchesIsolationRule_iff list_all2_same)
  next
    assume same: "bridge = bridge' \<and> network_of subnet = network_of subnet' \<and> drop 5 r = drop 5 r'"
    then have "length (drop 5 r) = length (drop 5 r')" by simp
    then have "length r = length r'" using a [THEN conjunct1] b [THEN conjunct1] by simp
    then show "matchesIsolationRule r r'"
      using a b same by (auto simp: matchesIsolationRule_iff list_all2_same)
  qed
  let ?narrow = "\<lparr>in_ip = [10, 0, 0, 0], in_mask = [255, 255, 255, 0]\<rparr>"
    and ?wide = "\<lparr>in_ip = [10, 0, 0, 0], in_mask = [255, 255, 0, 0]\<rparr>"
  have "network_of ?narrow = network_of ?wide" by (simp add: network_of_def ip_mask_def to4_def)
  then show "list_all2 matchesIsolationRule (expectedHostIsolationRules env ''br-0'' ?narrow)
      (expectedHostIsolationRules env ''br-0'' ?wide)"
    by (simp add: matchesIsolationRule_iff list_all2_same expectedHostIsolationRules_def
        expectedDockerUserIsolationRules_def expectedInputIsolationRules_def buildHostIsolationExprs_def
        buildDNATIsolationExprs_def buildHostInputIsolationExprs_def buildBridgeSubnetMatchExprs_def
        buildConntrackNewMatchExprs_def cmp_data_def network_of_def Let_def)
qed

theorem isolation_rule_recognised_witness:
  "\<not> matchesIsolationRule
      (buildHostInputIsolationExprs \<lparr>ne_put32 = (\<lambda>w. [word_of_int (uint w), 0, 0, 0]), ne_ct_new = 8\<rparr> ''br-a'' \<lparr>in_ip = [10, 0, 0, 0], in_mask = [255, 0, 0, 0]\<rparr>)
      (buildHostInputIsolationExprs \<lparr>ne_put32 = (\<lambda>w. [word_of_int (uint w), 0, 0, 0]), ne_ct_new = 8\<rparr> ''br-b'' \<lparr>in_ip = [10, 0, 0, 0], in_mask = [255, 0, 0, 0]\<rparr>)"
proof -
  let ?env = "\<lparr>ne_put32 = (\<lambda>w. [word_of_int (uint w), 0, 0, 0]), ne_ct_new = 8\<rparr>"
    and ?net = "\<lparr>in_ip = [10, 0, 0, 0], in_mask = [255, 0, 0, 0]\<rparr>"
  have "buildHostInputIsolationExprs ?env ''br-a'' ?net \<in> set (expectedHostIsolationRules ?env ''br-a'' ?net)"
    "buildHostInputIsolationExprs ?env ''br-b'' ?net \<in> set (expectedHostIsolationRules ?env ''br-b'' ?net)"
    "interface_name ''br-a''" "interface_name ''br-b''"
    by (simp_all add: expectedHostIsolationRules_def expectedInputIsolationRules_def interface_name_def)
  from isolation_rule_recognised [OF this] show ?thesis by simp
qed

section \<open>Applying and removing\<close>

text \<open>
  What netfilter promises of a connection: a listing is what is there, and a flush performs the messages in
  order: an inserted rule becomes the first of its chain under a fresh handle, a deletion takes the rule of
  that handle away.  \<open>cs k\<close> are the chains and \<open>rs k c\<close> the rules of a chain.
\<close>

definition message_effect :: "nft_chain \<Rightarrow> nft_message \<Rightarrow> nft_rule list \<Rightarrow> nft_rule list \<Rightarrow> bool" where
  "message_effect c m before after =
     (case m of
        MsgAddChain _ \<Rightarrow> after = before
      | MsgInsertRule c' exprs \<Rightarrow>
          if c' = c then \<exists>h. h \<notin> nr_handle ` set before \<and> after = \<lparr>nr_handle = h, nr_exprs = exprs\<rparr> # before
          else after = before
      | MsgDelRule c' rule \<Rightarrow>
          if c' = c then after = filter (\<lambda>r. nr_handle r \<noteq> nr_handle rule) before else after = before)"

fun messages_effect :: "nft_chain \<Rightarrow> nft_message list \<Rightarrow> nft_rule list \<Rightarrow> nft_rule list \<Rightarrow> bool" where
  "messages_effect c [] before after \<longleftrightarrow> after = before"
| "messages_effect c (m # ms) before after \<longleftrightarrow>
     (\<exists>mid. message_effect c m before mid \<and> messages_effect c ms mid after)"

locale netfilter =
  fixes conn :: "'k nft_ops"
    and cs :: "'k \<Rightarrow> nft_chain list"
    and rs :: "'k \<Rightarrow> nft_chain \<Rightarrow> nft_rule list"
  assumes lists_chains: "no_chains conn k = Inr xs \<Longrightarrow> xs = cs k"
    and lists_rules: "no_rules conn k c = Inr ys \<Longrightarrow> ys = rs k c"
    and flushes: "no_flush conn k ms = Inr k' \<Longrightarrow> messages_effect c ms (rs k c) (rs k' c)"

lemma messages_effect_append:
  "messages_effect c (ms @ ns) before after \<longleftrightarrow>
     (\<exists>mid. messages_effect c ms before mid \<and> messages_effect c ns mid after)"
  by (induction ms arbitrary: before) auto

lemma inserts_effect:
  assumes "messages_effect c ms before after" and "\<And>m. m \<in> set ms \<Longrightarrow> \<not> (\<exists>c r. m = MsgDelRule c r)"
  shows "\<exists>new. after = new @ before \<and> nr_exprs ` set new = {e. MsgInsertRule c e \<in> set ms}"
  using assms
proof (induction ms arbitrary: before)
  case Nil
  then show ?case by simp
next
  case (Cons m ms)
  then obtain mid where mid: "message_effect c m before mid" "messages_effect c ms mid after" by auto
  from Cons.IH [OF mid(2)] Cons.prems(2) obtain new
    where new: "after = new @ mid" "nr_exprs ` set new = {e. MsgInsertRule c e \<in> set ms}" by auto
  show ?case
  proof (cases "\<exists>e. m = MsgInsertRule c e")
    case True
    then obtain e h where "m = MsgInsertRule c e" "mid = \<lparr>nr_handle = h, nr_exprs = e\<rparr> # before"
      using mid(1) by (auto simp: message_effect_def)
    with new show ?thesis by (intro exI [of _ "new @ [\<lparr>nr_handle = h, nr_exprs = e\<rparr>]"]) auto
  next
    case False
    then have "mid = before"
      using mid(1) Cons.prems(2) [of m] by (auto simp: message_effect_def split: nft_message.splits if_splits)
    with new False show ?thesis by (intro exI [of _ new]) auto
  qed
qed

lemma deletions_effect:
  assumes "messages_effect c ms before after" and "\<And>m. m \<in> set ms \<Longrightarrow> \<exists>c r. m = MsgDelRule c r"
  shows "after = filter (\<lambda>r. \<forall>rule. MsgDelRule c rule \<in> set ms \<longrightarrow> nr_handle r \<noteq> nr_handle rule) before"
  using assms
proof (induction ms arbitrary: before)
  case Nil
  then show ?case by simp
next
  case (Cons m ms)
  then obtain mid c' r' where mid: "message_effect c m before mid" "messages_effect c ms mid after"
    and m: "m = MsgDelRule c' r'" by fastforce
  have both: "(\<forall>rule. MsgDelRule c rule \<in> set (m # ms) \<longrightarrow> nr_handle r \<noteq> nr_handle rule) \<longleftrightarrow>
      (c' = c \<longrightarrow> nr_handle r \<noteq> nr_handle r') \<and> (\<forall>rule. MsgDelRule c rule \<in> set ms \<longrightarrow> nr_handle r \<noteq> nr_handle rule)" for r
    by (auto simp: m)
  have "after = filter (\<lambda>r. \<forall>rule. MsgDelRule c rule \<in> set ms \<longrightarrow> nr_handle r \<noteq> nr_handle rule) mid"
    by (rule Cons.IH [OF mid(2)]) (use Cons.prems(2) in auto)
  then show ?case
    unfolding both using mid(1) m by (cases "c' = c") (simp_all add: message_effect_def)
qed

lemma insert_messages:
  assumes "insertMissingIsolationRules conn k c es = Inr ms" and "no_rules conn k c = Inr xs"
  shows "ms = map (MsgInsertRule c) (filter (\<lambda>e. \<not> list_ex (\<lambda>r. matchesIsolationRule (nr_exprs r) e) xs) es)"
  using assms by (simp add: insertMissingIsolationRules_def selectMissingIsolationRules_def)

definition present :: "nft_rule list \<Rightarrow> nft_expr list \<Rightarrow> bool" where
  "present rules e \<longleftrightarrow> (\<exists>r \<in> set rules. matchesIsolationRule (nr_exprs r) e)"

lemma expected_matches_itself:
  "e \<in> set (expectedHostIsolationRules env bridge subnet) \<Longrightarrow> matchesIsolationRule e e"
  using expected_shape [of e env bridge subnet] by (auto simp: matchesIsolationRule_iff list_all2_same)

lemma findFilterChain_Inr:
  "findFilterChain conn k name = Inr c \<Longrightarrow>
     \<exists>xs. no_chains conn k = Inr xs \<and> c \<in> set xs \<and> nc_name c = name \<and> nc_table c = Some ''filter''"
  by (auto simp: findFilterChain_def find_Some_iff split: sum.splits option.splits)

lemma inserted_present:
  assumes "insertMissingIsolationRules conn k c es = Inr ms" and "no_rules conn k c = Inr before"
    and "set ms \<subseteq> set sent" and "messages_effect c sent before after"
    and "\<And>m. m \<in> set sent \<Longrightarrow> \<not> (\<exists>c r. m = MsgDelRule c r)"
    and "e \<in> set es" and "matchesIsolationRule e e"
  shows "present after e"
proof -
  from inserts_effect [OF assms(4,5)] obtain new where
    new: "after = new @ before" "nr_exprs ` set new = {e. MsgInsertRule c e \<in> set sent}" by blast
  show ?thesis
  proof (cases "list_ex (\<lambda>r. matchesIsolationRule (nr_exprs r) e) before")
    case True
    then show ?thesis using new by (auto simp: present_def list_ex_iff)
  next
    case False
    then have "MsgInsertRule c e \<in> set ms" using insert_messages [OF assms(1,2)] assms(6) by auto
    with assms(3) have "e \<in> nr_exprs ` set new" unfolding new(2) by auto
    then obtain r where "r \<in> set new" "nr_exprs r = e" by auto
    with new assms(7) show ?thesis by (auto simp: present_def)
  qed
qed

lemma insert_messages_shape:
  assumes "insertMissingIsolationRules conn k c es = Inr ms"
  shows "set ms \<subseteq> MsgInsertRule c ` set es \<and> (\<exists>ys. no_rules conn k c = Inr ys)"
  using assms by (auto simp: insertMissingIsolationRules_def selectMissingIsolationRules_def split: sum.splits)

text \<open>
  The input side: the chain the rule goes to, which is there already or added in the same flush.
\<close>

lemma applyInput_cases:
  assumes "applyInputIsolation env conn k du bridge subnet = Inr ms"
  obtains (there) c where "insertMissingIsolationRules conn k c (expectedInputIsolationRules env bridge subnet) = Inr ms"
      "nc_name c \<in> {''INPUT'', agboxInputChainName}"
  | (added) c where "ms = MsgAddChain c # map (MsgInsertRule c) (expectedInputIsolationRules env bridge subnet)"
      "nc_name c = agboxInputChainName"
proof (cases "findFilterChain conn k ''INPUT''")
  case (Inr c)
  then show ?thesis
    using assms there [of c] by (auto simp: applyInputIsolation_def dest!: findFilterChain_Inr)
next
  case no_input: (Inl err)
  show ?thesis
  proof (cases "findFilterChain conn k agboxInputChainName")
    case (Inr c)
    then show ?thesis
      using assms no_input there [of c] by (auto simp: applyInputIsolation_def dest!: findFilterChain_Inr)
  next
    case (Inl err')
    then show ?thesis
      using assms no_input added [of "\<lparr>nc_name = agboxInputChainName, nc_table = nc_table du\<rparr>"]
      by (auto simp: applyInputIsolation_def Let_def)
  qed
qed

text \<open>What a removal takes away from a chain.\<close>

definition doomed :: "nft_env \<Rightarrow> 'k nft_ops \<Rightarrow> 'k \<Rightarrow> string \<Rightarrow> ip_net \<Rightarrow> nft_chain \<Rightarrow> nft_rule \<Rightarrow> bool" where
  "doomed env conn k bridge subnet c r \<longleftrightarrow>
     findFilterChain conn k ''DOCKER-USER'' = Inr c
       \<and> list_ex (matchesIsolationRule (nr_exprs r)) (expectedDockerUserIsolationRules env bridge subnet)
     \<or> (findFilterChain conn k ''INPUT'' = Inr c \<or> findFilterChain conn k agboxInputChainName = Inr c)
       \<and> list_ex (matchesIsolationRule (nr_exprs r)) (expectedInputIsolationRules env bridge subnet)"

context netfilter
begin

lemma applied:
  assumes "applyHostIsolation env conn bridge subnet k = (k', None)"
  shows "(\<exists>c \<in> set (cs k). nc_name c = ''DOCKER-USER''
        \<and> (\<forall>e \<in> set (expectedDockerUserIsolationRules env bridge subnet). present (rs k' c) e))
    \<and> (\<exists>c. nc_name c \<in> {''INPUT'', agboxInputChainName}
        \<and> (\<forall>e \<in> set (expectedInputIsolationRules env bridge subnet). present (rs k' c) e))
    \<and> (\<forall>c. \<exists>new. rs k' c = new @ rs k c
        \<and> (\<forall>r \<in> set new. nr_exprs r \<in> set (expectedHostIsolationRules env bridge subnet)))"
proof -
  let ?du = "expectedDockerUserIsolationRules env bridge subnet"
    and ?in = "expectedInputIsolationRules env bridge subnet"
  from assms obtain du ms ms' where parts: "findFilterChain conn k ''DOCKER-USER'' = Inr du"
    "insertMissingIsolationRules conn k du ?du = Inr ms" "applyInputIsolation env conn k du bridge subnet = Inr ms'"
    "if length (filter is_insert (ms @ ms')) = 0 then k' = k else no_flush conn k (ms @ ms') = Inr k'"
    by (auto simp: applyHostIsolation_def split: option.splits sum.splits if_splits)
  have du: "du \<in> set (cs k)" "nc_name du = ''DOCKER-USER''"
    using findFilterChain_Inr [OF parts(1)] lists_chains by auto
  have ms: "set ms \<subseteq> MsgInsertRule du ` set ?du" using insert_messages_shape [OF parts(2)] by blast
  have ms': "m \<in> set ms' \<Longrightarrow> (\<exists>c. m = MsgAddChain c) \<or> (\<exists>c e. m = MsgInsertRule c e \<and> e \<in> set ?in)" for m
    using parts(3) by (cases rule: applyInput_cases) (auto dest!: insert_messages_shape)
  have added: "\<exists>m \<in> set ms'. is_insert m" if "\<exists>c. MsgAddChain c \<in> set ms'"
    using parts(3) that
    by (cases rule: applyInput_cases)
      (auto dest: insert_messages_shape simp: expectedInputIsolationRules_def is_insert_def)
  have effect: "messages_effect c (ms @ ms') (rs k c) (rs k' c)" for c
  proof (cases "length (filter is_insert (ms @ ms')) = 0")
    case True
    then have none: "\<forall>m \<in> set (ms @ ms'). \<not> is_insert m" by (auto simp: filter_empty_conv)
    have "m \<notin> set (ms @ ms')" for m
    proof
      assume m: "m \<in> set (ms @ ms')"
      with ms ms' [of m] consider "\<exists>c e. m = MsgInsertRule c e" | "\<exists>c. MsgAddChain c \<in> set ms'" by auto
      then show False
      proof cases
        case 1
        then have "is_insert m" by (auto simp: is_insert_def)
        with none m show ?thesis by blast
      next
        case 2
        with added none show ?thesis by auto
      qed
    qed
    then have "ms @ ms' = []" by (metis list.set_intros(1) neq_Nil_conv)
    then show ?thesis using parts(4) True by simp
  next
    case False
    then show ?thesis using parts(4) flushes by simp
  qed
  have no_del: "\<not> (\<exists>c r. m = MsgDelRule c r)" if "m \<in> set (ms @ ms')" for m
    using that ms ms' by auto
  have self: "matchesIsolationRule e e" if "e \<in> set ?du \<union> set ?in" for e
    using that expected_matches_itself [of e env bridge subnet] by (auto simp: expectedHostIsolationRules_def)
  have "\<forall>e \<in> set ?du. present (rs k' du) e"
  proof
    fix e assume "e \<in> set ?du"
    obtain ys where "no_rules conn k du = Inr ys" using insert_messages_shape [OF parts(2)] by blast
    with lists_rules [OF this] show "present (rs k' du) e"
      by (intro inserted_present [OF parts(2) _ _ effect no_del \<open>e \<in> set ?du\<close> self]) (use \<open>e \<in> set ?du\<close> in auto)
  qed
  moreover have "\<exists>c. nc_name c \<in> {''INPUT'', agboxInputChainName} \<and> (\<forall>e \<in> set ?in. present (rs k' c) e)"
    using parts(3)
  proof (cases rule: applyInput_cases)
    case (there c)
    obtain ys where "no_rules conn k c = Inr ys" using insert_messages_shape [OF there(1)] by blast
    with lists_rules [OF this] there(2) show ?thesis
      by (intro exI [of _ c]) (auto intro!: inserted_present [OF there(1) _ _ effect no_del _ self])
  next
    case (added c)
    from inserts_effect [OF effect no_del, of c] obtain new where
      "rs k' c = new @ rs k c" "nr_exprs ` set new = {e. MsgInsertRule c e \<in> set (ms @ ms')}" by blast
    moreover have "MsgInsertRule c e \<in> set ms'" if "e \<in> set ?in" for e using added(1) that by simp
    moreover have "present (new @ rs k c) e" if "e \<in> set ?in" "e \<in> nr_exprs ` set new" for e
      using that self by (auto simp: present_def)
    ultimately have "\<forall>e \<in> set ?in. present (rs k' c) e" by auto
    with added(2) show ?thesis by blast
  qed
  moreover have "\<exists>new. rs k' c = new @ rs k c
      \<and> (\<forall>r \<in> set new. nr_exprs r \<in> set (expectedHostIsolationRules env bridge subnet))" for c
  proof -
    from inserts_effect [OF effect no_del, of c] obtain new where
      new: "rs k' c = new @ rs k c" "nr_exprs ` set new = {e. MsgInsertRule c e \<in> set (ms @ ms')}" by blast
    have "e \<in> set ?du \<union> set ?in" if "MsgInsertRule c e \<in> set (ms @ ms')" for e using that ms ms' by auto
    with new show ?thesis by (auto simp: expectedHostIsolationRules_def)
  qed
  ultimately show ?thesis using du by blast
qed

lemma removed:
  assumes "no_new conn k = None" and "\<And>c. \<exists>ys. no_rules conn k c = Inr ys" and "\<And>c r. no_del_rule conn k c r = None"
    and "\<And>ms. \<exists>k'. no_flush conn k ms = Inr k'" and "distinct (map nr_handle (rs k c))"
  shows "rs (removeHostIsolation env conn bridge subnet k) c
    = filter (\<lambda>r. \<not> doomed env conn k bridge subnet c r) (rs k c)"
proof -
  let ?du = "expectedDockerUserIsolationRules env bridge subnet"
    and ?in = "expectedInputIsolationRules env bridge subnet"
  have listed: "no_rules conn k c = Inr (rs k c)" for c using assms(2) lists_rules by metis
  have queue: "queue_deletions conn k c xs = (map (MsgDelRule c) xs, None)" for c xs
    by (induction xs) (simp_all add: assms(3))
  have chain: "removeIsolationRulesFromChain conn k c es
      = (map (MsgDelRule c) (selectIsolationRulesToRemove (rs k c) es), None)" for c es
    by (simp add: removeIsolationRulesFromChain_def listed queue)
  define ms where "ms = (case findFilterChain conn k ''DOCKER-USER'' of Inl _ \<Rightarrow> []
    | Inr c \<Rightarrow> map (MsgDelRule c) (selectIsolationRulesToRemove (rs k c) ?du))"
  define in_of where "in_of = (\<lambda>name. case findFilterChain conn k name of Inl _ \<Rightarrow> []
    | Inr c \<Rightarrow> map (MsgDelRule c) (selectIsolationRulesToRemove (rs k c) ?in))"
  have inputs: "remove_from_chains conn k ?in names = Some (concat (map in_of names))" for names
    by (induction names) (simp_all add: chain in_of_def split: sum.splits)
  let ?all = "ms @ in_of ''INPUT'' @ in_of agboxInputChainName"
  define k' where "k' = removeHostIsolation env conn bridge subnet k"
  have "if ?all = [] then k' = k else no_flush conn k ?all = Inr k'"
    using assms(1) assms(4) [of ?all] inputs [of "[''INPUT'', agboxInputChainName]"]
    unfolding k'_def removeHostIsolation_def
    by (auto simp: chain ms_def Let_def split: sum.splits)
  then have effect: "messages_effect c ?all (rs k c) (rs k' c)"
    using flushes by (cases "?all = []") auto
  have doom: "MsgDelRule c r \<in> set ?all \<longleftrightarrow> r \<in> set (rs k c) \<and> doomed env conn k bridge subnet c r" for r
    by (auto simp: ms_def in_of_def doomed_def selectIsolationRulesToRemove_def split: sum.splits)
  have "rs k' c = filter (\<lambda>r. \<forall>rule. MsgDelRule c rule \<in> set ?all \<longrightarrow> nr_handle r \<noteq> nr_handle rule) (rs k c)"
    by (rule deletions_effect [OF effect]) (auto simp: ms_def in_of_def split: sum.splits)
  also have "\<dots> = filter (\<lambda>r. \<not> doomed env conn k bridge subnet c r) (rs k c)"
    unfolding doom using assms(5) by (intro filter_cong) (auto simp: distinct_map inj_on_def)
  finally show ?thesis by (simp add: k'_def)
qed

end

section \<open>A table of chains\<close>

type_synonym chain_table = "(nft_chain, nft_rule list) gomap"

definition table_rules :: "chain_table \<Rightarrow> nft_chain \<Rightarrow> nft_rule list" where
  "table_rules k c = (case gm_get k c of None \<Rightarrow> [] | Some xs \<Rightarrow> xs)"

fun table_message :: "nft_message \<Rightarrow> chain_table \<Rightarrow> chain_table" where
  "table_message (MsgAddChain c) k = (if gm_get k c = None then gm_set c [] k else k)"
| "table_message (MsgInsertRule c e) k =
     gm_set c (\<lparr>nr_handle = Suc (sum_list (map nr_handle (table_rules k c))), nr_exprs = e\<rparr> # table_rules k c) k"
| "table_message (MsgDelRule c r) k =
     gm_set c (filter (\<lambda>r'. nr_handle r' \<noteq> nr_handle r) (table_rules k c)) k"

definition table_ops :: "chain_table nft_ops" where
  "table_ops = \<lparr>no_new = (\<lambda>_. None), no_chains = (\<lambda>k. Inr (map fst k)), no_rules = (\<lambda>k c. Inr (table_rules k c)),
     no_del_rule = (\<lambda>_ _ _. None), no_flush = (\<lambda>k ms. Inr (fold table_message ms k))\<rparr>"

lemma table_message_effect: "message_effect c m (table_rules k c) (table_rules (table_message m k) c)"
proof (cases m)
  case (MsgInsertRule c' e)
  have "nr_handle r < Suc (sum_list (map nr_handle xs))" if "r \<in> set xs" for r :: nft_rule and xs
    using that member_le_sum_list [of "nr_handle r" "map nr_handle xs"] by simp
  then have fresh: "Suc (sum_list (map nr_handle xs)) \<notin> nr_handle ` set xs" for xs :: "nft_rule list" by fastforce
  show ?thesis
  proof (cases "c' = c")
    case True
    then have "table_rules (table_message m k) c = \<lparr>nr_handle = Suc (sum_list (map nr_handle (table_rules k c))),
        nr_exprs = e\<rparr> # table_rules k c"
      using MsgInsertRule by (simp add: table_rules_def)
    then show ?thesis using MsgInsertRule True fresh [of "table_rules k c"] by (simp add: message_effect_def)
  qed (simp add: MsgInsertRule message_effect_def table_rules_def)
qed (auto simp: message_effect_def table_rules_def split: option.splits)

interpretation table: netfilter table_ops "map fst" table_rules
proof
  fix k k' :: chain_table and ms c
  assume "no_flush table_ops k ms = Inr k'"
  then have k': "k' = fold table_message ms k" by (simp add: table_ops_def)
  have "messages_effect c ms (table_rules k c) (table_rules (fold table_message ms k) c)" for k
    by (induction ms arbitrary: k) (auto intro: table_message_effect)
  then show "messages_effect c ms (table_rules k c) (table_rules k' c)" by (simp add: k')
qed (simp_all add: table_ops_def)

definition small_endian :: nft_env where
  "small_endian = \<lparr>ne_put32 = (\<lambda>w. [word_of_int (uint w), 0, 0, 0]), ne_ct_new = 8\<rparr>"

definition docker_user :: nft_chain where
  "docker_user = \<lparr>nc_name = ''DOCKER-USER'', nc_table = Some ''filter''\<rparr>"

definition test_subnet :: ip_net where
  "test_subnet = \<lparr>in_ip = [10, 0, 0, 0], in_mask = [255, 0, 0, 0]\<rparr>"

lemma table_never_fails:
  "gm_get k docker_user \<noteq> None \<Longrightarrow> \<exists>k'. applyHostIsolation env table_ops bridge subnet k = (k', None)"
proof -
  assume "gm_get k docker_user \<noteq> None"
  then have "docker_user \<in> set (map fst k)"
    using gm_get_None [of k docker_user] by (simp add: gm_keys_def)
  moreover have "nc_name docker_user = ''DOCKER-USER'' \<and> nc_table docker_user = Some ''filter''"
    by (simp add: docker_user_def)
  ultimately have "find (\<lambda>c. nc_name c = ''DOCKER-USER'' \<and> nc_table c = Some ''filter'') (map fst k) \<noteq> None"
    unfolding find_None_iff by blast
  then obtain c where "findFilterChain table_ops k ''DOCKER-USER'' = Inr c"
    by (auto simp: findFilterChain_def table_ops_def)
  moreover have inserts: "\<exists>ms. insertMissingIsolationRules table_ops k c es = Inr ms" for c es
    by (simp add: insertMissingIsolationRules_def table_ops_def)
  moreover obtain ms where "insertMissingIsolationRules table_ops k c (expectedDockerUserIsolationRules env bridge subnet) = Inr ms"
    using inserts by blast
  moreover have "\<exists>ms'. applyInputIsolation env table_ops k c bridge subnet = Inr ms'"
    using inserts by (auto simp: applyInputIsolation_def Let_def split: sum.splits)
  moreover have "no_new table_ops k = None" "no_flush table_ops k ms = Inr (fold table_message ms k)" for ms
    by (simp_all add: table_ops_def)
  ultimately show ?thesis by (auto simp: applyHostIsolation_def)
qed



text \<open>
  Removing the rules of a network takes exactly the rules that are recognised as rules of this network
  out of the chains the daemon writes to, and leaves every other rule of every chain, in its order.
\<close>
theorem isolation_removed:
  assumes "netfilter conn cs rs" and "no_new conn k = None" and "\<And>c. \<exists>ys. no_rules conn k c = Inr ys"
    and "\<And>c r. no_del_rule conn k c r = None" and "\<And>ms. \<exists>k'. no_flush conn k ms = Inr k'"
    and "distinct (map nr_handle (rs k c))"
  shows "rs (removeHostIsolation env conn bridge subnet k) c
    = filter (\<lambda>r. \<not> doomed env conn k bridge subnet c r) (rs k c)"
  by (rule netfilter.removed [OF assms])

theorem isolation_removed_witness:
  "table_rules (removeHostIsolation small_endian table_ops ''br-0'' test_subnet
       [(docker_user, [\<lparr>nr_handle = 1, nr_exprs = buildHostIsolationExprs small_endian ''br-0'' test_subnet\<rparr>,
                       \<lparr>nr_handle = 2, nr_exprs = [Verdict VerdictDrop]\<rparr>])]) docker_user
     = [\<lparr>nr_handle = 2, nr_exprs = [Verdict VerdictDrop]\<rparr>]"
proof -
  let ?e = "buildHostIsolationExprs small_endian ''br-0'' test_subnet"
  let ?k = "[(docker_user, [\<lparr>nr_handle = 1, nr_exprs = ?e\<rparr>, \<lparr>nr_handle = 2, nr_exprs = [Verdict VerdictDrop]\<rparr>])]"
  have own: "matchesIsolationRule ?e ?e"
    by (rule expected_matches_itself [of _ small_endian "''br-0''" test_subnet])
      (simp add: expectedHostIsolationRules_def expectedDockerUserIsolationRules_def)
  have other: "\<not> matchesIsolationRule [Verdict VerdictDrop] e" for e by (simp add: matchesIsolationRule_iff)
  have "findFilterChain table_ops ?k ''DOCKER-USER'' = Inr docker_user"
    by (simp add: findFilterChain_def table_ops_def docker_user_def)
  then have "doomed small_endian table_ops ?k ''br-0'' test_subnet docker_user \<lparr>nr_handle = 1, nr_exprs = ?e\<rparr>"
    using own by (simp add: doomed_def expectedDockerUserIsolationRules_def)
  moreover have "\<not> doomed small_endian table_ops ?k ''br-0'' test_subnet docker_user
      \<lparr>nr_handle = 2, nr_exprs = [Verdict VerdictDrop]\<rparr>"
    by (simp add: doomed_def other list_ex_iff)
  moreover have rules: "table_rules ?k docker_user
      = [\<lparr>nr_handle = 1, nr_exprs = ?e\<rparr>, \<lparr>nr_handle = 2, nr_exprs = [Verdict VerdictDrop]\<rparr>]"
    by (simp add: table_rules_def)
  moreover have "table_rules (removeHostIsolation small_endian table_ops ''br-0'' test_subnet ?k) docker_user
      = filter (\<lambda>r. \<not> doomed small_endian table_ops ?k ''br-0'' test_subnet docker_user r) (table_rules ?k docker_user)"
    by (rule isolation_removed [OF table.netfilter_axioms]) (simp_all add: table_ops_def table_rules_def)
  ultimately show ?thesis by simp
qed

end
