(* ===== verification/Go_Match.thy ===== *)
theory Go_Match
  imports Go_Path
begin

text \<open>
  \<^verbatim>\<open>filepath.Match\<close> and \<^verbatim>\<open>filepath.Base\<close> of Go's standard library on Unix, which decide what the
  exclude patterns of a copy leave out.  A pattern is matched chunk by chunk, a chunk being what stands
  between two stars; \<^verbatim>\<open>?\<close> and character classes read one rune, so the decoding of UTF-8 is written out.
  A malformed pattern is \<open>None\<close>.
\<close>

section \<open>Runes\<close>

abbreviation RuneError :: nat where "RuneError \<equiv> 0xFFFD"

text \<open>Size of the encoding a first byte announces, and the range its second byte must be in.\<close>

definition rune_lead :: "nat \<Rightarrow> (nat \<times> nat \<times> nat) option" where
  "rune_lead b =
     (if b < 0x80 then Some (1, 0, 0)
      else if b < 0xC2 then None
      else if b < 0xE0 then Some (2, 0x80, 0xBF)
      else if b = 0xE0 then Some (3, 0xA0, 0xBF)
      else if b = 0xED then Some (3, 0x80, 0x9F)
      else if b < 0xF0 then Some (3, 0x80, 0xBF)
      else if b = 0xF0 then Some (4, 0x90, 0xBF)
      else if b < 0xF4 then Some (4, 0x80, 0xBF)
      else if b = 0xF4 then Some (4, 0x80, 0x8F)
      else None)"

text \<open>\<^verbatim>\<open>utf8.DecodeRuneInString\<close>: the rune and how many bytes it takes\<close>

definition decode_rune :: "string \<Rightarrow> nat \<times> nat" where
  "decode_rune s =
     (case s of
        [] \<Rightarrow> (RuneError, 0)
      | c # cs \<Rightarrow>
          (case rune_lead (of_char c) of
             None \<Rightarrow> (RuneError, 1)
           | Some (n, lo, hi) \<Rightarrow>
               let bs = map (of_char :: char \<Rightarrow> nat) (take (n - 1) cs)
               in if n = 1 then (of_char c, 1)
                  else if length bs = n - 1 \<and> lo \<le> hd bs \<and> hd bs \<le> hi
                    \<and> list_all (\<lambda>b. 0x80 \<le> b \<and> b \<le> 0xBF) (tl bs)
                  then (foldl (\<lambda>a b. a * 64 + (b - 0x80)) (of_char c mod 2 ^ (7 - n)) bs, n)
                  else (RuneError, 1)))"

lemma decode_rune_size: "s \<noteq> [] \<Longrightarrow> 0 < snd (decode_rune s)"
  by (auto simp: decode_rune_def rune_lead_def Let_def split: list.splits)

section \<open>Chunks\<close>

text \<open>The chunk before the next star outside a class, and the rest.\<close>

fun scan_chunk :: "bool \<Rightarrow> string \<Rightarrow> string \<times> string" where
  "scan_chunk inrange [] = ([], [])"
| "scan_chunk inrange [c] = (if c = CHR ''*'' \<and> \<not> inrange then ([], [c]) else ([c], []))"
| "scan_chunk inrange (c # d # ds) =
     (if c = CHR 0x5C then (let (a, r) = scan_chunk inrange ds in (c # d # a, r))
      else if c = CHR ''*'' \<and> \<not> inrange then ([], c # d # ds)
      else (let (a, r) = scan_chunk (if c = CHR ''['' then True else if c = CHR '']'' then False else inrange)
                           (d # ds)
            in (c # a, r)))"

definition scanChunk :: "string \<Rightarrow> bool \<times> string \<times> string" where
  "scanChunk pattern =
     (let p = dropWhile (\<lambda>c. c = CHR ''*'') pattern; (a, r) = scan_chunk False p
      in (p \<noteq> pattern, a, r))"

definition getEsc :: "string \<Rightarrow> (nat \<times> string) option" where
  "getEsc chunk =
     (case chunk of
        [] \<Rightarrow> None
      | c # cs \<Rightarrow>
          if c = CHR ''-'' \<or> c = CHR '']'' then None
          else (let chunk' = (if c = CHR 0x5C then cs else chunk); (r, n) = decode_rune chunk';
                    rest = drop n chunk'
                in if chunk' = [] \<or> r = RuneError \<and> n = 1 \<or> rest = [] then None else Some (r, rest)))"

lemma getEsc_shorter: "getEsc chunk = Some (r, rest) \<Longrightarrow> length rest < length chunk"
proof -
  assume g: "getEsc chunk = Some (r, rest)"
  then obtain c cs where c: "chunk = c # cs" by (auto simp: getEsc_def split: list.splits)
  define chunk' where "chunk' = (if c = CHR 0x5C then cs else chunk)"
  from g have r: "rest = drop (snd (decode_rune chunk')) chunk'" and ne: "chunk' \<noteq> []"
    by (auto simp: getEsc_def c chunk'_def Let_def split: if_splits prod.splits)
  from decode_rune_size [OF ne] ne have "length rest < length chunk'" by (simp add: r)
  moreover have "length chunk' \<le> length chunk" by (simp add: chunk'_def c)
  ultimately show ?thesis by simp
qed

text \<open>The ranges of a class, up to its closing bracket: whether \<open>r\<close> is in one of them, and the rest.\<close>

function match_class :: "nat \<Rightarrow> bool \<Rightarrow> string \<Rightarrow> bool \<Rightarrow> (bool \<times> string) option" where
  "match_class r first chunk m =
     (if chunk \<noteq> [] \<and> hd chunk = CHR '']'' \<and> \<not> first then Some (m, tl chunk)
      else case getEsc chunk of
        None \<Rightarrow> None
      | Some (lo, c1) \<Rightarrow>
          (if hd c1 = CHR ''-'' then
             (case getEsc (tl c1) of
                None \<Rightarrow> None
              | Some (hi, c2) \<Rightarrow> match_class r False c2 (m \<or> lo \<le> r \<and> r \<le> hi))
           else match_class r False c1 (m \<or> lo \<le> r \<and> r \<le> lo)))"
  by pat_completeness auto
termination
  by (relation "measure (\<lambda>(_, _, chunk, _). length chunk)") (fastforce dest: getEsc_shorter)+

declare match_class.simps [simp del]

lemma match_class_shorter:
  "match_class r first chunk m = Some (b, rest) \<Longrightarrow> length rest < length chunk"
proof (induction r first chunk m rule: match_class.induct)
  case (1 r first chunk m)
  show ?case
  proof (cases "chunk \<noteq> [] \<and> hd chunk = CHR '']'' \<and> \<not> first")
    case True
    with 1(3) show ?thesis by (cases chunk) (simp_all add: match_class.simps)
  next
    case False
    with 1(3) obtain lo c1 where g: "getEsc chunk = Some (lo, c1)"
      by (subst (asm) match_class.simps) (auto split: option.splits)
    show ?thesis
    proof (cases "hd c1 = CHR ''-''")
      case True
      with 1(3) False g obtain hi c2 where g2: "getEsc (tl c1) = Some (hi, c2)"
        by (subst (asm) match_class.simps) (auto split: option.splits)
      with 1(3) False g True have "match_class r False c2 (m \<or> lo \<le> r \<and> r \<le> hi) = Some (b, rest)"
        by (subst (asm) match_class.simps) simp
      from 1(1) [OF False g refl True g2 refl this] getEsc_shorter [OF g] getEsc_shorter [OF g2]
      show ?thesis by simp
    next
      case no: False
      with 1(3) False g have "match_class r False c1 (m \<or> lo \<le> r \<and> r \<le> lo) = Some (b, rest)"
        by (subst (asm) match_class.simps) simp
      from 1(2) [OF False g refl no this] getEsc_shorter [OF g] show ?thesis by simp
    qed
  qed
qed

text \<open>
  \<^verbatim>\<open>matchChunk\<close>: \<open>None\<close> for a malformed chunk, \<open>Some None\<close> when it does not match, otherwise what is
  left of the string.  After a mismatch the chunk is only checked.
\<close>

function matchChunk :: "bool \<Rightarrow> string \<Rightarrow> string \<Rightarrow> string option option" where
  "matchChunk failed [] s = Some (if failed then None else Some s)"
| "matchChunk failed (c # cs) s =
     (let failed = failed \<or> s = []
      in if c = CHR ''['' then
           (let (r, n) = (if failed then (0, 0) else decode_rune s);
                negated = (cs \<noteq> [] \<and> hd cs = CHR ''^'')
            in case match_class r True (if negated then tl cs else cs) False of
                 None \<Rightarrow> None
               | Some (m, rest) \<Rightarrow> matchChunk (failed \<or> m = negated) rest (drop n s))
         else if c = CHR ''?'' then
           matchChunk (failed \<or> hd s = slash) cs (if failed then s else drop (snd (decode_rune s)) s)
         else if c = CHR 0x5C \<and> cs = [] then None
         else (let escaped = (c = CHR 0x5C); d = (if escaped then hd cs else c)
               in matchChunk (failed \<or> d \<noteq> hd s) (if escaped then tl cs else cs)
                    (if failed then s else tl s)))"
  by pat_completeness auto
termination
proof (relation "measure (\<lambda>(_, chunk, _). length chunk)", goal_cases)
  case (2 failed c cs s b d r n negated x m rest)
  then have "length rest < length (if negated then tl cs else cs)" by (blast dest: match_class_shorter)
  then show ?case by (auto split: if_splits)
qed auto

declare matchChunk.simps(2) [simp del]

section \<open>Match\<close>

text \<open>The positions a star can end at: it crosses no slash.\<close>

fun star_search :: "string \<Rightarrow> bool \<Rightarrow> string \<Rightarrow> string option option" where
  "star_search chunk final [] = Some None"
| "star_search chunk final (c # cs) =
     (if c = slash then Some None
      else case matchChunk False chunk cs of
        None \<Rightarrow> None
      | Some None \<Rightarrow> star_search chunk final cs
      | Some (Some t) \<Rightarrow> if final \<and> t \<noteq> [] then star_search chunk final cs else Some (Some t))"

lemma scan_chunk_split: "scan_chunk b p = (a, r) \<Longrightarrow> p = a @ r"
  by (induction b p arbitrary: a r rule: scan_chunk.induct) (auto simp: Let_def split: if_splits prod.splits)

lemma scan_chunk_some: "scan_chunk False p = (a, r) \<Longrightarrow> p \<noteq> [] \<Longrightarrow> hd p \<noteq> CHR ''*'' \<Longrightarrow> a \<noteq> []"
  by (induction "False" p rule: scan_chunk.induct) (auto simp: Let_def split: if_splits prod.splits)

lemma scanChunk_shorter:
  assumes "scanChunk pattern = (star, chunk, rest)" and "pattern \<noteq> []"
  shows "length rest < length pattern"
proof -
  define p where "p = dropWhile (\<lambda>c. c = CHR ''*'') pattern"
  from assms(1) have s: "scan_chunk False p = (chunk, rest)"
    by (auto simp: scanChunk_def p_def Let_def split: prod.splits)
  from scan_chunk_split [OF s] have l: "length p = length chunk + length rest" by simp
  have le: "length p \<le> length pattern" by (simp add: p_def length_dropWhile_le)
  show ?thesis
  proof (cases "p = pattern")
    case True
    with assms(2) have "hd p \<noteq> CHR ''*''" using hd_dropWhile [of "\<lambda>c. c = CHR ''*''" pattern]
      by (fastforce simp: p_def)
    with scan_chunk_some [OF s] assms(2) True l show ?thesis by fastforce
  next
    case False
    then have "length p \<noteq> length pattern"
      using suffix_dropWhile [of "\<lambda>c. c = CHR ''*''" pattern] unfolding p_def
      by (metis suffix_length_less suffix_order.le_less less_irrefl)
    with le l show ?thesis by simp
  qed
qed

text \<open>
  \<^verbatim>\<open>filepath.Match\<close>.  (Recent versions of Go go on to check the rest of the pattern before answering
  false, which makes some answers an error instead; the callers here treat both alike.)
\<close>

function Match :: "string \<Rightarrow> string \<Rightarrow> bool option" where
  "Match pattern name =
     (if pattern = [] then Some (name = [])
      else case scanChunk pattern of (star, chunk, rest) \<Rightarrow>
        if star \<and> chunk = [] then Some (slash \<notin> set name)
        else case matchChunk False chunk name of
          None \<Rightarrow> None
        | Some m \<Rightarrow>
            if m \<noteq> None \<and> (m = Some [] \<or> rest \<noteq> []) then Match rest (the m)
            else if star then
              (case star_search chunk (rest = []) name of
                 None \<Rightarrow> None
               | Some None \<Rightarrow> Some False
               | Some (Some t) \<Rightarrow> Match rest t)
            else Some False)"
  by pat_completeness auto
termination
  by (relation "measure (\<lambda>(pattern, _). length pattern)") (auto dest!: scanChunk_shorter [OF sym])

declare Match.simps [simp del]

text \<open>\<^verbatim>\<open>filepath.Base\<close>\<close>

definition Base :: "string \<Rightarrow> string" where
  "Base path =
     (if path = '''' then ''.''
      else let p = rev (dropWhile (\<lambda>c. c = slash) (rev path));
               b = rev (takeWhile (\<lambda>c. c \<noteq> slash) (rev p))
           in if b = '''' then [slash] else b)"

section \<open>Literal patterns\<close>

text \<open>A pattern without special characters matches itself and nothing else.\<close>

definition literal_pattern :: "string \<Rightarrow> bool" where
  "literal_pattern p \<longleftrightarrow> set p \<inter> {CHR ''*'', CHR ''?'', CHR ''['', CHR 0x5C} = {}"

lemma scan_literal: "literal_pattern p \<Longrightarrow> scan_chunk b p = (p, [])"
  by (induction b p rule: scan_chunk.induct) (auto simp: literal_pattern_def Let_def)

lemma chunk_literal:
  "literal_pattern p \<Longrightarrow> matchChunk failed p s =
     Some (if \<not> failed \<and> prefix p s then Some (drop (length p) s) else None)"
proof (induction p arbitrary: failed s)
  case Nil
  then show ?case by simp
next
  case (Cons c p)
  then have c: "c \<noteq> CHR ''['' \<and> c \<noteq> CHR ''?'' \<and> c \<noteq> CHR 0x5C" and p: "literal_pattern p"
    by (auto simp: literal_pattern_def)
  have "matchChunk failed (c # p) s =
      matchChunk (failed \<or> s = [] \<or> c \<noteq> hd s) p (if failed \<or> s = [] then s else tl s)"
    using c by (simp add: matchChunk.simps(2) Let_def)
  then show ?case using Cons.IH [OF p] by (cases s) auto
qed

theorem literal_matches_itself: "literal_pattern p \<Longrightarrow> Match p n = Some (n = p)"
proof (cases "p = []")
  case True
  then show ?thesis by (simp add: Match.simps)
next
  case False
  assume l: "literal_pattern p"
  with False have "dropWhile (\<lambda>c. c = CHR ''*'') p = p"
    by (cases p) (auto simp: literal_pattern_def)
  with scan_literal [OF l] have "scanChunk p = (False, p, [])" by (simp add: scanChunk_def)
  moreover have "prefix p n \<and> drop (length p) n = [] \<longleftrightarrow> n = p" by (auto simp: prefix_def)
  ultimately show ?thesis using False chunk_literal [OF l, of False n]
    by (subst Match.simps) (auto simp: Match.simps [of "[]"])
qed

end
