(* ===== verification/Copy_Tree.thy ===== *)
theory Copy_Tree
  imports Host_Env Go_Match
begin

text \<open>
  The archive of a directory tree that is copied into a container
  (\<^verbatim>\<open>internal/control/docker_runtime_copy.go\<close>), and the check of a workspace tree
  (\<^verbatim>\<open>internal/runtime/docker/projections.go\<close>).

  The tree is what \<^verbatim>\<open>os.Lstat\<close> and \<^verbatim>\<open>os.ReadDir\<close> say of it while it is walked, the entries of a directory
  in the order \<^verbatim>\<open>ReadDir\<close> lists them.  Opening a file for reading is an answer of the host: it may fail,
  its content may differ in length from what was said before, and it may never return (a FIFO nobody
  writes to).  The stream the archive is written to may refuse a write, depending on all that went before.
\<close>

section \<open>Trees\<close>

datatype fs_node =
    FsFile (fs_size: nat)
  | FsDir (fs_read_error: "go_error option") (fs_entries: "(string \<times> fs_node) list")
  | FsLink (fs_target: string)
  | FsFifo
  | FsDevice
  | FsSocket

fun is_dir :: "fs_node \<Rightarrow> bool" where
  "is_dir (FsDir _ _) \<longleftrightarrow> True"
| "is_dir _ \<longleftrightarrow> False"

text \<open>\<^verbatim>\<open>ResolveLinkTarget\<close> of a link at \<open>path\<close> whose text is \<open>target\<close>: it works on the text alone.\<close>

definition ResolveLinkTarget :: "go_error + string \<Rightarrow> string \<Rightarrow> string \<Rightarrow> go_error + string" where
  "ResolveLinkTarget cwd path target =
     (if IsAbs target then Abs cwd target else Abs cwd (JoinPath [Dir path, target]))"

section \<open>Exclude patterns and ignored paths\<close>

definition matchesExcludePattern :: "string \<Rightarrow> string list \<Rightarrow> bool" where
  "matchesExcludePattern relativePath patterns =
     list_ex (\<lambda>pattern. pattern \<noteq> '''' \<and>
       (Match pattern relativePath = Some True \<or> Match pattern (Base relativePath) = Some True)) patterns"

text \<open>
  The archive as it is written: headers and the bytes after them.
\<close>

datatype tar_type = TypeReg | TypeDir | TypeSymlink | TypeFifo | TypeDevice

record tar_header =
  th_name :: string
  th_type :: tar_type
  th_linkname :: string
  th_size :: nat

datatype tar_item = Header tar_header | Body string

text \<open>
  The host and the libraries: \<open>cx_open\<close> is opening and reading a path (\<open>None\<close>: it does not return),
  \<open>cx_write\<close> the stream's answer to the next write, \<open>cx_ignore\<close> is \<^verbatim>\<open>ignore.CompileIgnoreFile\<close> followed by
  \<^verbatim>\<open>MatchesPath\<close>.
\<close>

record copy_host =
  cx_cwd :: "go_error + string"
  cx_open :: "string \<Rightarrow> (go_error + string) option"
  cx_write :: "tar_item list \<Rightarrow> tar_item \<Rightarrow> go_error option"
  cx_ignore :: "string \<Rightarrow> go_error + (string \<Rightarrow> bool)"

definition loadGitignore :: "copy_host \<Rightarrow> string \<Rightarrow> (string \<Rightarrow> bool) option" where
  "loadGitignore cx sourceRoot =
     (case cx_ignore cx (JoinPath [sourceRoot, ''.gitignore'']) of
        Inl _ \<Rightarrow> None
      | Inr gi \<Rightarrow> Some gi)"

definition ignored :: "(string \<Rightarrow> bool) option \<Rightarrow> string \<Rightarrow> bool" where
  "ignored gi path = (case gi of None \<Rightarrow> False | Some f \<Rightarrow> f path)"

text \<open>A link whose target lies outside the root; one that cannot be resolved is passed over.\<close>

definition external_link :: "go_error + string \<Rightarrow> string \<Rightarrow> string \<Rightarrow> fs_node \<Rightarrow> bool" where
  "external_link cwd rootAbs path node =
     (case node of
        FsLink target \<Rightarrow>
          (case ResolveLinkTarget cwd path target of
             Inl _ \<Rightarrow> False
           | Inr resolved \<Rightarrow> \<not> pathWithinRoot rootAbs resolved)
      | _ \<Rightarrow> False)"

fun dirContainsExternalSymlink :: "go_error + string \<Rightarrow> string \<Rightarrow> string \<Rightarrow> fs_node \<Rightarrow> bool"
  and entriesContainExternalSymlink ::
    "go_error + string \<Rightarrow> string \<Rightarrow> string \<Rightarrow> (string \<times> fs_node) list \<Rightarrow> bool" where
  "dirContainsExternalSymlink cwd rootAbs dir (FsDir None entries) =
     entriesContainExternalSymlink cwd rootAbs dir entries"
| "dirContainsExternalSymlink cwd rootAbs dir _ = False"
| "entriesContainExternalSymlink cwd rootAbs dir [] = False"
| "entriesContainExternalSymlink cwd rootAbs dir ((name, node) # rest) =
     (external_link cwd rootAbs (JoinPath [dir, name]) node
      \<or> dirContainsExternalSymlink cwd rootAbs (JoinPath [dir, name]) node
      \<or> entriesContainExternalSymlink cwd rootAbs dir rest)"

section \<open>The archive writer\<close>

text \<open>
  \<^verbatim>\<open>archive/tar\<close>'s writer: what has been written, and how many bytes of the last header's body are still
  owed.  A header (and the end of the archive) may not come before they are paid, a body may not exceed them.
\<close>

record tar_state =
  ts_items :: "tar_item list"
  ts_owed :: nat

datatype walk_end = WalkOk | WalkSkipDir | WalkErr go_error | WalkHangs

type_synonym 'a walk = "tar_state \<Rightarrow> tar_state \<times> 'a"

definition tar_put :: "copy_host \<Rightarrow> tar_item \<Rightarrow> nat \<Rightarrow> walk_end walk" where
  "tar_put cx item owed st =
     (case cx_write cx (ts_items st) item of
        Some err \<Rightarrow> (st, WalkErr err)
      | None \<Rightarrow> (st\<lparr>ts_items := ts_items st @ [item], ts_owed := owed\<rparr>, WalkOk))"

definition missed_writing :: "nat \<Rightarrow> go_error" where
  "missed_writing n = ErrText [Lit ''archive/tar: missed writing '', Lit (show_nat n), Lit '' bytes'']"

definition WriteHeader :: "copy_host \<Rightarrow> tar_header \<Rightarrow> walk_end walk" where
  "WriteHeader cx hdr st =
     (if 0 < ts_owed st then (st, WalkErr (missed_writing (ts_owed st)))
      else tar_put cx (Header hdr) (th_size hdr) st)"

definition write_body :: "copy_host \<Rightarrow> string \<Rightarrow> walk_end walk" where
  "write_body cx bytes st =
     (if ts_owed st < length bytes then (st, WalkErr (ErrText [Lit ''archive/tar: write too long'']))
      else if bytes = [] then (st, WalkOk)
      else tar_put cx (Body bytes) (ts_owed st - length bytes) st)"

definition tar_close :: "tar_state \<Rightarrow> go_error option" where
  "tar_close st = (if 0 < ts_owed st then Some (missed_writing (ts_owed st)) else None)"

text \<open>\<^verbatim>\<open>tar.FileInfoHeader\<close> with the name the caller sets afterwards\<close>

definition FileInfoHeader :: "fs_node \<Rightarrow> string \<Rightarrow> string \<Rightarrow> go_error + tar_header" where
  "FileInfoHeader node link name =
     (case node of
        FsFile bytes \<Rightarrow> Inr \<lparr>th_name = name, th_type = TypeReg, th_linkname = '''', th_size = bytes\<rparr>
      | FsDir _ _ \<Rightarrow> Inr \<lparr>th_name = name, th_type = TypeDir, th_linkname = '''', th_size = 0\<rparr>
      | FsLink _ \<Rightarrow> Inr \<lparr>th_name = name, th_type = TypeSymlink, th_linkname = link, th_size = 0\<rparr>
      | FsFifo \<Rightarrow> Inr \<lparr>th_name = name, th_type = TypeFifo, th_linkname = '''', th_size = 0\<rparr>
      | FsDevice \<Rightarrow> Inr \<lparr>th_name = name, th_type = TypeDevice, th_linkname = '''', th_size = 0\<rparr>
      | FsSocket \<Rightarrow> Inl (ErrText [Lit ''archive/tar: sockets not supported'']))"

definition writeTarFile :: "copy_host \<Rightarrow> string \<Rightarrow> string \<Rightarrow> fs_node \<Rightarrow> walk_end walk" where
  "writeTarFile cx sourcePath archiveName node st =
     (case FileInfoHeader node '''' archiveName of
        Inl err \<Rightarrow> (st, WalkErr err)
      | Inr hdr \<Rightarrow>
          (case WriteHeader cx hdr st of
             (st, WalkOk) \<Rightarrow>
               (case cx_open cx sourcePath of
                  None \<Rightarrow> (st, WalkHangs)
                | Some (Inl err) \<Rightarrow> (st, WalkErr err)
                | Some (Inr bytes) \<Rightarrow> write_body cx bytes st)
           | r \<Rightarrow> r))"

definition external_link_error :: "string \<Rightarrow> go_error" where
  "external_link_error path = ErrText [Lit ''copy source contains external symlink: '', Lit path]"

definition writeTarSymlink ::
  "copy_host \<Rightarrow> string \<Rightarrow> string \<Rightarrow> string \<Rightarrow> (string \<Rightarrow> bool) option \<Rightarrow> string \<Rightarrow> walk_end walk" where
  "writeTarSymlink cx sourcePath archiveName sourceRootAbs gi linkTarget st =
     (case ResolveLinkTarget (cx_cwd cx) sourcePath linkTarget of
        Inl err \<Rightarrow> (st, WalkErr err)
      | Inr resolvedTarget \<Rightarrow>
          if \<not> pathWithinRoot sourceRootAbs resolvedTarget then
            (if ignored gi archiveName then (st, WalkOk)
             else (st, WalkErr (external_link_error sourcePath)))
          else case FileInfoHeader (FsLink linkTarget) linkTarget archiveName of
            Inl err \<Rightarrow> (st, WalkErr err)
          | Inr hdr \<Rightarrow> WriteHeader cx hdr st)"

section \<open>The walk\<close>

text \<open>What the walk keeps: the root as given and absolute, the patterns, the compiled \<^verbatim>\<open>.gitignore\<close>.\<close>

record copy_job =
  cj_root :: string
  cj_root_abs :: string
  cj_patterns :: "string list"
  cj_ignore :: "(string \<Rightarrow> bool) option"

text \<open>The function \<^verbatim>\<open>buildCopyTar\<close> gives to \<^verbatim>\<open>filepath.WalkDir\<close>.\<close>

definition copy_visit :: "copy_host \<Rightarrow> copy_job \<Rightarrow> string \<Rightarrow> fs_node \<Rightarrow> walk_end walk" where
  "copy_visit cx job currentPath entry st =
     (case Rel (cj_root job) currentPath of
        Inl err \<Rightarrow> (st, WalkErr err)
      | Inr relPath \<Rightarrow>
          if relPath = dot then (st, WalkOk)
          else if matchesExcludePattern relPath (cj_patterns job) then
            (st, if is_dir entry then WalkSkipDir else WalkOk)
          else if is_dir entry \<and> ignored (cj_ignore job) (relPath @ [slash])
            \<and> dirContainsExternalSymlink (cx_cwd cx) (cj_root_abs job) currentPath entry
          then (st, WalkSkipDir)
          else case entry of
            FsLink target \<Rightarrow>
              writeTarSymlink cx currentPath relPath (cj_root_abs job) (cj_ignore job) target st
          | FsDir _ _ \<Rightarrow>
              (case FileInfoHeader entry '''' (relPath @ [slash]) of
                 Inl err \<Rightarrow> (st, WalkErr err)
               | Inr hdr \<Rightarrow> WriteHeader cx hdr st)
          | _ \<Rightarrow> writeTarFile cx currentPath relPath entry st)"

text \<open>
  \<^verbatim>\<open>filepath.WalkDir\<close>: the function first sees the directory, then its entries; it sees the directory again
  with the error when it cannot be listed, and returns that error.
\<close>

fun walk_node :: "(string \<Rightarrow> fs_node \<Rightarrow> walk_end walk) \<Rightarrow> string \<Rightarrow> fs_node \<Rightarrow> walk_end walk"
  and walk_entries ::
    "(string \<Rightarrow> fs_node \<Rightarrow> walk_end walk) \<Rightarrow> string \<Rightarrow> (string \<times> fs_node) list \<Rightarrow> walk_end walk" where
  "walk_node visit path (FsDir readErr entries) st =
     (case visit path (FsDir readErr entries) st of
        (st, WalkOk) \<Rightarrow>
          (case readErr of
             Some err \<Rightarrow> (st, WalkErr err)
           | None \<Rightarrow> walk_entries visit path entries st)
      | (st, WalkSkipDir) \<Rightarrow> (st, WalkOk)
      | r \<Rightarrow> r)"
| "walk_node visit path node st = visit path node st"
| "walk_entries visit path [] st = (st, WalkOk)"
| "walk_entries visit path ((name, node) # rest) st =
     (case walk_node visit (JoinPath [path, name]) node st of
        (st, WalkOk) \<Rightarrow> walk_entries visit path rest st
      | (st, WalkSkipDir) \<Rightarrow> (st, WalkOk)
      | r \<Rightarrow> r)"

definition WalkDir :: "(string \<Rightarrow> fs_node \<Rightarrow> walk_end walk) \<Rightarrow> string \<Rightarrow> fs_node \<Rightarrow> walk_end walk" where
  "WalkDir visit root node st =
     (case walk_node visit root node st of
        (st, WalkSkipDir) \<Rightarrow> (st, WalkOk)
      | r \<Rightarrow> r)"

text \<open>How a copy ends; \<open>CopyHangs\<close> when a file could not be opened for ever.\<close>

datatype copy_end = CopyOk | CopyErr go_error | CopyHangs

text \<open>\<^verbatim>\<open>closeAll\<close>: the error of the walk first, then that of closing the archive.\<close>

definition closeAll :: "tar_state \<times> walk_end \<Rightarrow> tar_item list \<times> copy_end" where
  "closeAll r =
     (case r of
        (st, WalkErr err) \<Rightarrow> (ts_items st, CopyErr err)
      | (st, WalkHangs) \<Rightarrow> (ts_items st, CopyHangs)
      | (st, _) \<Rightarrow>
          (ts_items st, case tar_close st of Some err \<Rightarrow> CopyErr err | None \<Rightarrow> CopyOk))"

definition empty_tar :: tar_state where
  "empty_tar = \<lparr>ts_items = [], ts_owed = 0\<rparr>"

text \<open>\<open>source\<close> is \<^verbatim>\<open>os.Lstat\<close> of the root with the tree below it.\<close>

definition buildCopyTar ::
  "copy_host \<Rightarrow> string \<Rightarrow> go_error + fs_node \<Rightarrow> string list \<Rightarrow> tar_item list \<times> copy_end" where
  "buildCopyTar cx sourceRoot source excludePatterns =
     (case Abs (cx_cwd cx) sourceRoot of
        Inl err \<Rightarrow> closeAll (empty_tar, WalkErr err)
      | Inr rootAbs \<Rightarrow>
          (case source of
             Inl err \<Rightarrow> closeAll (empty_tar, WalkErr err)
           | Inr node \<Rightarrow>
               if \<not> is_dir node then closeAll (writeTarFile cx sourceRoot (Base sourceRoot) node empty_tar)
               else
                 let job = \<lparr>cj_root = sourceRoot, cj_root_abs = rootAbs, cj_patterns = excludePatterns,
                            cj_ignore = loadGitignore cx sourceRoot\<rparr>
                 in closeAll (WalkDir (copy_visit cx job) sourceRoot node empty_tar)))"

section \<open>Workspace trees\<close>

definition ErrArtifactPathEscapesRoot :: go_error where
  "ErrArtifactPathEscapesRoot = ErrText [Lit ''artifact path escapes configured root'']"

text \<open>\<open>stat\<close> is \<^verbatim>\<open>os.Stat\<close>, which follows links.\<close>

definition workspace_visit ::
  "go_error + string \<Rightarrow> (string \<Rightarrow> go_error option) \<Rightarrow> string \<Rightarrow> string \<Rightarrow> fs_node \<Rightarrow> walk_end walk" where
  "workspace_visit cwd stat rootAbs path entry st =
     (st, case entry of
        FsLink target \<Rightarrow>
          (case ResolveLinkTarget cwd path target of
             Inl err \<Rightarrow> WalkErr err
           | Inr targetPath \<Rightarrow>
               if \<not> pathWithinRoot rootAbs targetPath then WalkErr ErrArtifactPathEscapesRoot
               else case stat targetPath of Some err \<Rightarrow> WalkErr err | None \<Rightarrow> WalkOk)
      | _ \<Rightarrow> WalkOk)"

definition ValidateWorkspaceTree ::
  "go_error + string \<Rightarrow> (string \<Rightarrow> go_error option) \<Rightarrow> string \<Rightarrow> go_error + fs_node \<Rightarrow> copy_end" where
  "ValidateWorkspaceTree cwd stat projectRoot source =
     (case Abs cwd projectRoot of
        Inl err \<Rightarrow> CopyErr err
      | Inr rootAbs \<Rightarrow>
          (case source of
             Inl err \<Rightarrow> CopyErr err
           | Inr node \<Rightarrow>
               snd (closeAll (WalkDir (workspace_visit cwd stat rootAbs) rootAbs node empty_tar))))"

end
