(* ===== verification/Copy_Props.thy ===== *)
theory Copy_Props
  imports Copy_Tree Path_Laws
begin

text \<open>
  What a copy into a container archives.  A \<open>trail\<close> is a node of the tree with the nodes above it; the trails
  of a tree are listed in the order of the walk.  On that list the archive is a filter: a trail is left out
  when it, or a directory on it, is excluded, or is an ignored directory with an external link.
\<close>

section \<open>Trails\<close>

type_synonym trail = "(string \<times> fs_node) list"

fun trails :: "trail \<Rightarrow> fs_node \<Rightarrow> trail list"
  and trails_in :: "trail \<Rightarrow> (string \<times> fs_node) list \<Rightarrow> trail list" where
  "trails t (FsDir _ entries) = trails_in t entries"
| "trails t _ = []"
| "trails_in t [] = []"
| "trails_in t ((name, node) # rest) =
     (t @ [(name, node)]) # trails (t @ [(name, node)]) node @ trails_in t rest"

definition trail_node :: "trail \<Rightarrow> fs_node" where
  "trail_node t = snd (last t)"

definition rel_name :: "trail \<Rightarrow> string" where
  "rel_name t = join_with [slash] (map fst t)"

definition host_path :: "string \<Rightarrow> trail \<Rightarrow> string" where
  "host_path root t = foldl (\<lambda>p e. JoinPath [p, fst e]) root t"

fun names_ok :: "fs_node \<Rightarrow> bool" and entries_ok :: "(string \<times> fs_node) list \<Rightarrow> bool" where
  "names_ok (FsDir _ entries) \<longleftrightarrow> entries_ok entries"
| "names_ok _ \<longleftrightarrow> True"
| "entries_ok [] \<longleftrightarrow> True"
| "entries_ok ((name, node) # rest) \<longleftrightarrow> plain_component name \<and> names_ok node \<and> entries_ok rest"

definition trail_ok :: "trail \<Rightarrow> bool" where
  "trail_ok t \<longleftrightarrow> (\<forall>e \<in> set t. plain_component (fst e) \<and> names_ok (snd e))"

lemma trail_ok_snoc [simp]:
  "trail_ok (t @ [(n, x)]) \<longleftrightarrow> trail_ok t \<and> plain_component n \<and> names_ok x"
  by (auto simp: trail_ok_def)

lemma entries_ok_iff: "entries_ok es \<longleftrightarrow> (\<forall>(n, x) \<in> set es. plain_component n \<and> names_ok x)"
  by (induction es) auto

lemma trails_extend:
  "u \<in> set (trails t x) \<Longrightarrow> \<exists>v. v \<noteq> [] \<and> u = t @ v"
  "u \<in> set (trails_in t es) \<Longrightarrow> \<exists>v. v \<noteq> [] \<and> u = t @ v"
  by (induction t x and t es arbitrary: u and u rule: trails_trails_in.induct) fastforce+

lemma trails_ok:
  "u \<in> set (trails t x) \<Longrightarrow> trail_ok t \<Longrightarrow> names_ok x \<Longrightarrow> trail_ok u"
  "u \<in> set (trails_in t es) \<Longrightarrow> trail_ok t \<Longrightarrow> entries_ok es \<Longrightarrow> trail_ok u"
  by (induction t x and t es arbitrary: u and u rule: trails_trails_in.induct) auto

section \<open>Paths of trails\<close>

lemma host_path_simps [simp]:
  "host_path root [] = root"
  "host_path root (t @ [(n, x)]) = JoinPath [host_path root t, n]"
  by (simp_all add: host_path_def)

lemma host_path_abs:
  assumes "IsAbs root" and "trail_ok t"
  shows "IsAbs (host_path root t) \<and> components (host_path root t) = components root @ map fst t
    \<and> (t \<noteq> [] \<longrightarrow> host_path root t = render_path True (components root @ map fst t))"
  using assms(2)
proof (induction t rule: rev_induct)
  case Nil
  then show ?case using assms(1) by simp
next
  case (snoc e t)
  obtain n x where e: "e = (n, x)" by (cases e)
  from snoc have ih: "IsAbs (host_path root t)" "components (host_path root t) = components root @ map fst t"
    and n: "plain_component n" by (auto simp: e)
  have "host_path root (t @ [e]) = render_path True (components root @ map fst t @ [n])"
    using Join_plain [OF ih(1), of "[n]"] n ih(2) by (simp add: e)
  moreover have "\<forall>c \<in> set (components root @ map fst t @ [n]). plain_component c"
    using snoc.prems components_abs_plain [OF assms(1)] by (auto simp: e trail_ok_def)
  ultimately show ?case by (simp add: components_render e)
qed

lemma Rel_host_path:
  assumes "IsAbs root" and "trail_ok t"
  shows "Rel root (host_path root t) = Inr (if t = [] then dot else rel_name t)"
  using host_path_abs [OF assms] Rel_below [of root "host_path root t" "map fst t"] assms
  by (cases "t = []") (auto simp: rel_name_def Rel_def)

lemma plain_not_dot:
  assumes "trail_ok t" and "t \<noteq> []"
  shows "rel_name t \<noteq> dot" "rel_name t \<noteq> []"
proof -
  let ?cs = "map fst t"
  have ns: "\<forall>c \<in> set ?cs. slash \<notin> set c" and p: "\<forall>c \<in> set ?cs. plain_component c"
    using assms(1) by (auto simp: trail_ok_def plain_component_def)
  have s: "split_char slash (rel_name t) = ?cs"
    using split_join [OF _ ns] assms(2) by (simp add: rel_name_def)
  show "rel_name t \<noteq> dot"
  proof
    assume "rel_name t = dot"
    with s have "?cs = [dot]" by (simp add: dot_def)
    with p show False by (auto simp: plain_component_def)
  qed
  show "rel_name t \<noteq> []"
  proof
    assume "rel_name t = []"
    with s have "?cs = [[]]" by simp
    with p show False by (auto simp: plain_component_def)
  qed
qed

lemma join_host_path:
  assumes "IsAbs root" and "trail_ok t" and "t \<noteq> []"
  shows "JoinPath [root, rel_name t] = host_path root t"
  using Join_plain [OF assms(1), of "map fst t"] host_path_abs [OF assms(1,2)] assms
  by (auto simp: rel_name_def trail_ok_def)

section \<open>What is archived\<close>

text \<open>A trail that ends the walk below it, and the trails no part of which does.\<close>

definition cut :: "copy_host \<Rightarrow> copy_job \<Rightarrow> trail \<Rightarrow> bool" where
  "cut cx job t \<longleftrightarrow> t \<noteq> []
     \<and> (matchesExcludePattern (rel_name t) (cj_patterns job)
        \<or> is_dir (trail_node t) \<and> ignored (cj_ignore job) (rel_name t @ [slash])
          \<and> dirContainsExternalSymlink (cx_cwd cx) (cj_root_abs job) (host_path (cj_root job) t) (trail_node t))"

definition kept :: "copy_host \<Rightarrow> copy_job \<Rightarrow> trail \<Rightarrow> bool" where
  "kept cx job t \<longleftrightarrow> (\<forall>p \<in> set (prefixes t). \<not> cut cx job p)"

definition outside :: "copy_host \<Rightarrow> copy_job \<Rightarrow> trail \<Rightarrow> bool" where
  "outside cx job t \<longleftrightarrow>
     external_link (cx_cwd cx) (cj_root_abs job) (host_path (cj_root job) t) (trail_node t)"

definition link_text :: "fs_node \<Rightarrow> string" where
  "link_text x = (case x of FsLink target \<Rightarrow> target | _ \<Rightarrow> '''')"

definition header_of :: "trail \<Rightarrow> go_error + tar_header" where
  "header_of t = FileInfoHeader (trail_node t) (link_text (trail_node t))
     (if is_dir (trail_node t) then rel_name t @ [slash] else rel_name t)"

fun headers :: "tar_item list \<Rightarrow> tar_header list" where
  "headers [] = []"
| "headers (Header h # items) = h # headers items"
| "headers (Body _ # items) = headers items"

lemma headers_append [simp]: "headers (xs @ ys) = headers xs @ headers ys"
  by (induction xs rule: headers.induct) auto

text \<open>No prefix of the trail from length \<open>k\<close> on is cut; the walk at depth \<open>k\<close> has passed the others.\<close>

definition uncut :: "copy_host \<Rightarrow> copy_job \<Rightarrow> nat \<Rightarrow> trail \<Rightarrow> bool" where
  "uncut cx job k t \<longleftrightarrow> (\<forall>i. k \<le> i \<and> i \<le> length t \<longrightarrow> \<not> cut cx job (take i t))"

lemma kept_uncut: "kept cx job t \<longleftrightarrow> uncut cx job 1 t"
proof -
  have "set (prefixes t) = (\<lambda>i. take i t) ` {..length t}"
  proof
    show "set (prefixes t) \<subseteq> (\<lambda>i. take i t) ` {..length t}"
    proof
      fix p
      assume "p \<in> set (prefixes t)"
      then obtain zs where "t = p @ zs" by (auto simp: prefix_def)
      then show "p \<in> (\<lambda>i. take i t) ` {..length t}" by (intro image_eqI [of _ _ "length p"]) simp_all
    qed
    show "(\<lambda>i. take i t) ` {..length t} \<subseteq> set (prefixes t)"
      by (auto simp: take_is_prefix)
  qed
  then have "kept cx job t \<longleftrightarrow> (\<forall>i. i \<le> length t \<longrightarrow> \<not> cut cx job (take i t))"
    by (auto simp: kept_def)
  also have "\<dots> \<longleftrightarrow> uncut cx job 1 t"
  proof -
    have "\<not> cut cx job (take 0 t)" by (simp add: cut_def)
    then have "\<not> cut cx job (take i t)" if "uncut cx job 1 t" "i \<le> length t" for i
      using that by (cases i) (simp_all add: uncut_def)
    then show ?thesis by (auto simp: uncut_def)
  qed
  finally show ?thesis .
qed

lemma uncut_self: "uncut cx job (length t) t \<longleftrightarrow> \<not> cut cx job t"
  by (auto simp: uncut_def)

lemma uncut_below:
  assumes "u = t @ v"
  shows "uncut cx job (length t) u \<longleftrightarrow> \<not> cut cx job t \<and> uncut cx job (Suc (length t)) u"
proof -
  have u: "take (length t) u = t" "length t \<le> length u" using assms by simp_all
  have "(\<forall>i. k \<le> i \<and> i \<le> n \<longrightarrow> P i) \<longleftrightarrow> P k \<and> (\<forall>i. Suc k \<le> i \<and> i \<le> n \<longrightarrow> P i)"
    if "k \<le> n" for k n and P :: "nat \<Rightarrow> bool"
    using that by (metis Suc_leD le_antisym not_less_eq_eq order_refl)
  from this [OF u(2)] show ?thesis by (simp add: uncut_def u(1))
qed

text \<open>What the walk at depth \<open>k\<close> adds for the trails \<open>ts\<close>, and that no external link stops it.\<close>

definition added :: "copy_host \<Rightarrow> copy_job \<Rightarrow> nat \<Rightarrow> trail list \<Rightarrow> (go_error + tar_header) list" where
  "added cx job k ts = map header_of (filter (\<lambda>u. uncut cx job k u \<and> \<not> outside cx job u) ts)"

definition no_stop :: "copy_host \<Rightarrow> copy_job \<Rightarrow> nat \<Rightarrow> trail list \<Rightarrow> bool" where
  "no_stop cx job k ts \<longleftrightarrow>
     (\<forall>u \<in> set ts. uncut cx job k u \<longrightarrow> outside cx job u \<longrightarrow> ignored (cj_ignore job) (rel_name u))"

lemma added_append [simp]: "added cx job k (xs @ ys) = added cx job k xs @ added cx job k ys"
  by (simp add: added_def)

lemma no_stop_append [simp]: "no_stop cx job k (xs @ ys) \<longleftrightarrow> no_stop cx job k xs \<and> no_stop cx job k ys"
  by (auto simp: no_stop_def)

lemma below_cut:
  assumes "\<And>u. u \<in> set ts \<Longrightarrow> \<exists>v. u = t @ v" and "cut cx job t"
  shows "added cx job (length t) ts = [] \<and> no_stop cx job (length t) ts"
  using assms uncut_below by (fastforce simp: added_def no_stop_def filter_empty_conv)

lemma below_uncut:
  assumes "\<And>u. u \<in> set ts \<Longrightarrow> \<exists>v. u = t @ v" and "\<not> cut cx job t"
  shows "added cx job (length t) ts = added cx job (Suc (length t)) ts
    \<and> no_stop cx job (length t) ts = no_stop cx job (Suc (length t)) ts"
proof -
  have "uncut cx job (length t) u = uncut cx job (Suc (length t)) u" if "u \<in> set ts" for u
    using assms(1) [OF that] assms(2) uncut_below by blast
  then show ?thesis by (auto simp: added_def no_stop_def cong: filter_cong)
qed

text \<open>A job on an absolute root.\<close>

definition job_ok :: "copy_job \<Rightarrow> bool" where
  "job_ok job \<longleftrightarrow> IsAbs (cj_root job) \<and> cj_root_abs job = Clean (cj_root job)"

abbreviation "hdrs st \<equiv> map Inr (headers (ts_items st))"

lemma WriteHeader_ok:
  "WriteHeader cx hdr st = (st', WalkOk) \<Longrightarrow> hdrs st' = hdrs st @ [Inr hdr]"
  by (auto simp: WriteHeader_def tar_put_def split: if_splits option.splits)

lemma WriteHeader_end: "WriteHeader cx hdr st = (st', r) \<Longrightarrow> r \<noteq> WalkSkipDir"
  by (auto simp: WriteHeader_def tar_put_def split: if_splits option.splits)

lemma write_body_ok: "write_body cx bytes st = (st', WalkOk) \<Longrightarrow> hdrs st' = hdrs st"
  by (auto simp: write_body_def tar_put_def split: if_splits option.splits)

lemma write_body_end: "write_body cx bytes st = (st', r) \<Longrightarrow> r \<noteq> WalkSkipDir"
  by (auto simp: write_body_def tar_put_def split: if_splits option.splits)

lemma writeTarFile_ok:
  assumes "writeTarFile cx p n x st = (st', r)"
  shows "r \<noteq> WalkSkipDir" and "r = WalkOk \<Longrightarrow> hdrs st' = hdrs st @ [FileInfoHeader x '''' n]"
proof -
  from assms show "r \<noteq> WalkSkipDir"
    by (auto simp: writeTarFile_def split: sum.splits prod.splits walk_end.splits option.splits
        dest: WriteHeader_end write_body_end)
  assume "r = WalkOk"
  with assms obtain h st1 bytes where "FileInfoHeader x '''' n = Inr h" "WriteHeader cx h st = (st1, WalkOk)"
    "write_body cx bytes st1 = (st', WalkOk)"
    by (auto simp: writeTarFile_def split: sum.splits prod.splits walk_end.splits option.splits)
  with WriteHeader_ok write_body_ok show "hdrs st' = hdrs st @ [FileInfoHeader x '''' n]" by metis
qed

lemma writeTarSymlink_ok:
  assumes "writeTarSymlink cx p n ra gi target st = (st', r)"
  shows "r \<noteq> WalkSkipDir"
    and "r = WalkOk \<Longrightarrow> (if external_link (cx_cwd cx) ra p (FsLink target) then hdrs st' = hdrs st \<and> ignored gi n
           else hdrs st' = hdrs st @ [FileInfoHeader (FsLink target) target n])"
  using assms
  by (auto simp: writeTarSymlink_def external_link_def FileInfoHeader_def
      split: sum.splits if_splits dest: WriteHeader_end WriteHeader_ok)

lemma visit_ok:
  assumes job: "job_ok job" and t: "trail_ok t" "t \<noteq> []" and x: "trail_node t = x"
    and v: "copy_visit cx job (host_path (cj_root job) t) x st = (st', r)"
  shows "if cut cx job t then st' = st \<and> r = (if is_dir x then WalkSkipDir else WalkOk)
    else r \<noteq> WalkSkipDir \<and> (r = WalkOk \<longrightarrow>
      hdrs st' = hdrs st @ added cx job (length t) [t] \<and> no_stop cx job (length t) [t])"
proof -
  have rel: "Rel (cj_root job) (host_path (cj_root job) t) = Inr (rel_name t)"
    using Rel_host_path [OF _ t(1), of "cj_root job"] job t(2) by (simp add: job_ok_def)
  show ?thesis
  proof (cases "cut cx job t")
    case True
    with v show ?thesis
      by (auto simp: copy_visit_def rel cut_def x plain_not_dot [OF t] split: if_splits)
  next
    case False
    then have a: "added cx job (length t) [t] = (if outside cx job t then [] else [header_of t])"
      and n: "no_stop cx job (length t) [t] \<longleftrightarrow>
        (outside cx job t \<longrightarrow> ignored (cj_ignore job) (rel_name t))"
      by (simp_all add: added_def no_stop_def uncut_self)
    have v': "(case x of
            FsLink target \<Rightarrow>
              writeTarSymlink cx (host_path (cj_root job) t) (rel_name t) (cj_root_abs job) (cj_ignore job) target st
          | FsDir _ _ \<Rightarrow>
              (case FileInfoHeader x '''' (rel_name t @ [slash]) of
                 Inl err \<Rightarrow> (st, WalkErr err)
               | Inr hdr \<Rightarrow> WriteHeader cx hdr st)
          | _ \<Rightarrow> writeTarFile cx (host_path (cj_root job) t) (rel_name t) x st) = (st', r)"
    proof -
      have "rel_name t \<noteq> dot" "\<not> matchesExcludePattern (rel_name t) (cj_patterns job)"
        "\<not> (is_dir x \<and> ignored (cj_ignore job) (rel_name t @ [slash])
           \<and> dirContainsExternalSymlink (cx_cwd cx) (cj_root_abs job) (host_path (cj_root job) t) x)"
        using False t(2) plain_not_dot [OF t] by (simp_all add: cut_def x)
      with v show ?thesis by (simp only: copy_visit_def rel sum.case if_False)
    qed
    have o: "outside cx job t \<longleftrightarrow> external_link (cx_cwd cx) (cj_root_abs job) (host_path (cj_root job) t) x"
      by (simp add: outside_def x)
    have nolink: "\<not> outside cx job t" if "\<forall>tgt. x \<noteq> FsLink tgt"
      using that by (cases x) (simp_all add: o external_link_def)
    have plainly: ?thesis if "writeTarFile cx (host_path (cj_root job) t) (rel_name t) x st = (st', r)"
      and "\<not> is_dir x" and "\<forall>tgt. x \<noteq> FsLink tgt"
    proof -
      have "header_of t = FileInfoHeader x '''' (rel_name t)"
        using that(2,3) by (cases x) (simp_all add: header_of_def x link_text_def)
      with writeTarFile_ok [OF that(1)] nolink [OF that(3)] False show ?thesis by (simp add: a n)
    qed
    show ?thesis
    proof (cases x)
      case (FsLink target)
      with v' have "writeTarSymlink cx (host_path (cj_root job) t) (rel_name t) (cj_root_abs job)
          (cj_ignore job) target st = (st', r)" by simp
      from writeTarSymlink_ok [OF this] False show ?thesis
        by (auto simp: a n o FsLink header_of_def x link_text_def split: if_splits)
    next
      case (FsDir e es)
      with v' have "WriteHeader cx \<lparr>th_name = rel_name t @ [slash], th_type = TypeDir, th_linkname = '''', th_size = 0\<rparr> st
          = (st', r)" by (simp add: FileInfoHeader_def)
      then show ?thesis using False nolink
        by (auto simp: a n FsDir header_of_def x FileInfoHeader_def dest: WriteHeader_end WriteHeader_ok)
    qed (use v' plainly in simp_all)
  qed
qed

lemma leaf_archives:
  assumes job: "job_ok job" and t: "trail_ok t" "t \<noteq> []" and x: "trail_node t = x" "\<not> is_dir x"
    and v: "copy_visit cx job (host_path (cj_root job) t) x st = (st', r)"
  shows "r \<noteq> WalkSkipDir \<and> (r = WalkOk \<longrightarrow>
    hdrs st' = hdrs st @ added cx job (length t) [t] \<and> no_stop cx job (length t) [t])"
  using visit_ok [OF job t x(1) v] below_cut [of "[t]" t cx job] x(2) by (auto split: if_splits)

lemma walk_archives:
  assumes job: "job_ok job"
  shows "t \<noteq> [] \<Longrightarrow> trail_ok t \<Longrightarrow> names_ok x \<Longrightarrow> trail_node t = x
      \<Longrightarrow> walk_node (copy_visit cx job) (host_path (cj_root job) t) x st = (st', r)
      \<Longrightarrow> r \<noteq> WalkSkipDir \<and> (r = WalkOk \<longrightarrow>
        hdrs st' = hdrs st @ added cx job (length t) (t # trails t x) \<and> no_stop cx job (length t) (t # trails t x))"
    and "trail_ok t \<Longrightarrow> entries_ok es
      \<Longrightarrow> walk_entries (copy_visit cx job) (host_path (cj_root job) t) es st = (st', r)
      \<Longrightarrow> r \<noteq> WalkSkipDir \<and> (r = WalkOk \<longrightarrow>
        hdrs st' = hdrs st @ added cx job (Suc (length t)) (trails_in t es)
        \<and> no_stop cx job (Suc (length t)) (trails_in t es))"
proof (induction t x and t es arbitrary: st st' r and st st' r rule: trails_trails_in.induct)
  case (1 t e es)
  let ?x = "FsDir e es" and ?p = "host_path (cj_root job) t"
  obtain s1 r1 where v: "copy_visit cx job ?p ?x st = (s1, r1)" by fastforce
  note vis = visit_ok [OF job 1(3,2) 1(5) v]
  have ext: "\<And>u. u \<in> set (t # trails t ?x) \<Longrightarrow> \<exists>v. u = t @ v"
    using trails_extend(1) [of _ t ?x] by fastforce
  have cons: "added cx job k (t # us) = added cx job k [t] @ added cx job k us"
    "no_stop cx job k (t # us) \<longleftrightarrow> no_stop cx job k [t] \<and> no_stop cx job k us" for k us
    by (auto simp: added_def no_stop_def)
  show ?case
  proof (cases "cut cx job t")
    case True
    with vis have "s1 = st" "r1 = WalkSkipDir" by simp_all
    with 1(6) v below_cut [of "t # trails t ?x", OF ext True] show ?thesis by auto
  next
    case False
    have ext': "\<And>u. u \<in> set (trails_in t es) \<Longrightarrow> \<exists>v. u = t @ v" using ext by simp
    show ?thesis
    proof (cases "r1 = WalkOk \<and> e = None")
      case True
      with 1(6) v have w: "walk_entries (copy_visit cx job) ?p es s1 = (st', r)" by simp
      from 1(1) [OF 1(3) _ w] 1(4) vis True False below_uncut [of "trails_in t es", OF ext' False]
      show ?thesis by (simp add: cons [of _ "trails_in t es"])
    next
      case no: False
      with 1(6) v vis False show ?thesis
        by (auto split: walk_end.splits option.splits)
    qed
  qed
next
  case (4 t n x es)
  let ?t = "t @ [(n, x)]"
  from 4(4) have ok: "plain_component n" "names_ok x" "entries_ok es" by simp_all
  obtain s1 r1 where w: "walk_node (copy_visit cx job) (host_path (cj_root job) ?t) x st = (s1, r1)"
    by fastforce
  have "trail_ok ?t" using 4(3) ok by simp
  from 4(1) [OF _ this ok(2) _ w] have h: "r1 \<noteq> WalkSkipDir"
      "r1 = WalkOk \<Longrightarrow> hdrs s1 = hdrs st @ added cx job (Suc (length t)) (?t # trails ?t x)
         \<and> no_stop cx job (Suc (length t)) (?t # trails ?t x)"
    by (simp_all add: trail_node_def)
  have cons: "trails_in t ((n, x) # es) = (?t # trails ?t x) @ trails_in t es" by simp
  show ?case
  proof (cases "r1 = WalkOk")
    case True
    with w 4(5) have "walk_entries (copy_visit cx job) (host_path (cj_root job) t) es s1 = (st', r)" by simp
    from 4(2) [OF 4(3) ok(3) this] h(2) [OF True]
    show ?thesis unfolding cons added_append no_stop_append by simp
  next
    case False
    with w 4(5) h(1) show ?thesis by (auto split: walk_end.splits)
  qed
qed ((simp only: walk_node.simps trails.simps, (rule leaf_archives [OF job]; simp))+,
    simp add: added_def no_stop_def)

section \<open>What stops a copy\<close>

text \<open>
  Everything kept can be read as the walk expects: directories can be listed, files hold as many bytes as
  their size says, there is no socket, and opening a FIFO or a device returns nothing at once.
\<close>

definition readable :: "copy_host \<Rightarrow> copy_job \<Rightarrow> trail \<Rightarrow> bool" where
  "readable cx job t =
     (let opened = cx_open cx (host_path (cj_root job) t)
      in case trail_node t of
           FsFile n \<Rightarrow> (case opened of Some (Inr bytes) \<Rightarrow> length bytes = n | _ \<Rightarrow> False)
         | FsDir e _ \<Rightarrow> e = None
         | FsLink _ \<Rightarrow> True
         | FsSocket \<Rightarrow> False
         | _ \<Rightarrow> opened = Some (Inr []))"

definition stopper :: "copy_host \<Rightarrow> copy_job \<Rightarrow> nat \<Rightarrow> trail \<Rightarrow> bool" where
  "stopper cx job k t \<longleftrightarrow> uncut cx job k t \<and> outside cx job t \<and> \<not> ignored (cj_ignore job) (rel_name t)"

text \<open>The walk over \<open>ts\<close> ends well, or at the first of them that stops it.\<close>

definition stops_at ::
  "copy_host \<Rightarrow> copy_job \<Rightarrow> nat \<Rightarrow> trail list \<Rightarrow> tar_state \<times> walk_end \<Rightarrow> bool" where
  "stops_at cx job k ts out =
     (case filter (stopper cx job k) ts of
        [] \<Rightarrow> snd out = WalkOk \<and> ts_owed (fst out) = 0
      | t # _ \<Rightarrow> snd out = WalkErr (external_link_error (host_path (cj_root job) t)))"

lemma stops_at_Nil: "filter (stopper cx job k) ts = [] \<Longrightarrow>
    stops_at cx job k ts (st, r) \<longleftrightarrow> r = WalkOk \<and> ts_owed st = 0"
  by (simp add: stops_at_def)

lemma stops_at_append:
  "stops_at cx job k us (st, r) \<Longrightarrow> filter (stopper cx job k) us \<noteq> [] \<Longrightarrow> stops_at cx job k (us @ ts) (st', r)"
  "filter (stopper cx job k) us = [] \<Longrightarrow> stops_at cx job k ts out \<Longrightarrow> stops_at cx job k (us @ ts) out"
  by (auto simp: stops_at_def split: list.splits)

lemma resolve_abs:
  assumes "IsAbs p" and "Clean p = p"
  shows "\<exists>q. ResolveLinkTarget cwd p target = Inr q \<and> IsAbs q"
proof (cases "IsAbs target")
  case True
  then show ?thesis by (simp add: ResolveLinkTarget_def Abs_def IsAbs_Clean)
next
  case False
  from IsAbs_Dir [OF assms(1)] assms(2) have "IsAbs (Dir p)" by simp
  then have d: "IsAbs (Dir p)" "Dir p \<noteq> []" by (auto simp: IsAbs_def)
  then have "IsAbs (JoinPath [Dir p, target])"
    by (cases "target = []") (simp_all add: JoinPath_root IsAbs_Clean join_with_def)
  then show ?thesis using False by (simp add: ResolveLinkTarget_def Abs_def IsAbs_Clean)
qed

lemma host_path_clean:
  assumes "IsAbs root" and "trail_ok t" and "t \<noteq> []"
  shows "Clean (host_path root t) = host_path root t"
proof -
  note h = host_path_abs [OF assms(1,2)]
  have "Clean (host_path root t) = render_path True (components root @ map fst t)"
    using h by (simp only: Clean_def)
  then show ?thesis using h assms(3) by simp
qed

definition calm :: "copy_host \<Rightarrow> copy_job \<Rightarrow> bool" where
  "calm cx job \<longleftrightarrow> (\<forall>items item. cx_write cx items item = None) \<and> job_ok job"

lemma header_written:
  "calm cx job \<Longrightarrow> ts_owed st = 0 \<Longrightarrow> WriteHeader cx hdr st =
     (st\<lparr>ts_items := ts_items st @ [Header hdr], ts_owed := th_size hdr\<rparr>, WalkOk)"
  by (simp add: WriteHeader_def tar_put_def calm_def)

lemma file_written:
  assumes c: "calm cx job" and "ts_owed st = 0" and "readable cx job t" and "trail_node t = x" and "\<not> is_dir x"
    and "\<forall>tgt. x \<noteq> FsLink tgt"
  shows "\<exists>st'. writeTarFile cx (host_path (cj_root job) t) n x st = (st', WalkOk) \<and> ts_owed st' = 0"
  using assms
  by (cases x)
    (auto simp: writeTarFile_def FileInfoHeader_def header_written [OF c] write_body_def tar_put_def
        c [unfolded calm_def] readable_def Let_def split: option.splits sum.splits)

lemma visit_stops:
  assumes cm: "calm cx job" and t: "trail_ok t" "t \<noteq> []" and x: "trail_node t = x" and o: "ts_owed st = 0"
    and nc: "\<not> cut cx job t" and rd: "readable cx job t"
  shows "stops_at cx job (length t) [t] (copy_visit cx job (host_path (cj_root job) t) x st)"
proof -
  let ?p = "host_path (cj_root job) t"
  have root: "IsAbs (cj_root job)" using cm by (simp add: calm_def job_ok_def)
  have rel: "Rel (cj_root job) ?p = Inr (rel_name t)"
    using Rel_host_path [OF root t(1)] t(2) by simp
  have v: "copy_visit cx job ?p x st = (case x of
            FsLink target \<Rightarrow> writeTarSymlink cx ?p (rel_name t) (cj_root_abs job) (cj_ignore job) target st
          | FsDir _ _ \<Rightarrow>
              (case FileInfoHeader x '''' (rel_name t @ [slash]) of
                 Inl err \<Rightarrow> (st, WalkErr err)
               | Inr hdr \<Rightarrow> WriteHeader cx hdr st)
          | _ \<Rightarrow> writeTarFile cx ?p (rel_name t) x st)"
  proof -
    have "rel_name t \<noteq> dot" "\<not> matchesExcludePattern (rel_name t) (cj_patterns job)"
      "\<not> (is_dir x \<and> ignored (cj_ignore job) (rel_name t @ [slash])
         \<and> dirContainsExternalSymlink (cx_cwd cx) (cj_root_abs job) ?p x)"
      using nc t(2) plain_not_dot [OF t] by (simp_all add: cut_def x)
    then show ?thesis by (simp only: copy_visit_def rel sum.case if_False)
  qed
  have s: "filter (stopper cx job (length t)) [t] =
      (if outside cx job t \<and> \<not> ignored (cj_ignore job) (rel_name t) then [t] else [])"
    by (simp add: stopper_def uncut_self nc)
  have "stops_at cx job (length t) [t] (case x of
            FsLink target \<Rightarrow> writeTarSymlink cx ?p (rel_name t) (cj_root_abs job) (cj_ignore job) target st
          | FsDir _ _ \<Rightarrow>
              (case FileInfoHeader x '''' (rel_name t @ [slash]) of
                 Inl err \<Rightarrow> (st, WalkErr err)
               | Inr hdr \<Rightarrow> WriteHeader cx hdr st)
          | _ \<Rightarrow> writeTarFile cx ?p (rel_name t) x st)"
  proof (cases x)
    case (FsLink target)
    from resolve_abs [OF conjunct1 [OF host_path_abs [OF root t(1)]] host_path_clean [OF root t]]
    obtain q where q: "ResolveLinkTarget (cx_cwd cx) ?p target = Inr q" by blast
    have "outside cx job t \<longleftrightarrow> \<not> pathWithinRoot (cj_root_abs job) q"
      by (simp add: outside_def x FsLink external_link_def q)
    with s show ?thesis
      by (auto simp: FsLink writeTarSymlink_def q stops_at_def FileInfoHeader_def header_written [OF cm o] o)
  next
    case (FsDir e es)
    then have "\<not> outside cx job t" by (simp add: outside_def x external_link_def)
    with s show ?thesis
      by (simp add: FsDir stops_at_def FileInfoHeader_def header_written [OF cm o])
  qed (use file_written [OF cm o rd x, of "rel_name t"] s in
      \<open>auto simp: stops_at_def outside_def x external_link_def\<close>)
  then show ?thesis by (simp only: v)
qed

lemma cut_visit:
  assumes cm: "calm cx job" and t: "trail_ok t" "t \<noteq> []" and x: "trail_node t = x" and c: "cut cx job t"
  shows "copy_visit cx job (host_path (cj_root job) t) x st = (st, if is_dir x then WalkSkipDir else WalkOk)"
proof -
  obtain st' r where v: "copy_visit cx job (host_path (cj_root job) t) x st = (st', r)" by fastforce
  with visit_ok [OF _ t x v] cm c show ?thesis by (simp add: calm_def)
qed

lemma stoppers_below:
  assumes "\<And>u. u \<in> set ts \<Longrightarrow> \<exists>v. u = t @ v"
  shows "filter (stopper cx job (length t)) ts = (if cut cx job t then [] else filter (stopper cx job (Suc (length t))) ts)"
proof -
  have "stopper cx job (length t) u \<longleftrightarrow> \<not> cut cx job t \<and> stopper cx job (Suc (length t)) u" if "u \<in> set ts" for u
    using assms [OF that] uncut_below by (auto simp: stopper_def)
  then show ?thesis by (auto cong: filter_cong)
qed

lemma leaf_stops:
  assumes cm: "calm cx job" and t: "t \<noteq> []" "trail_ok t" and x: "trail_node t = x" "\<not> is_dir x"
    and o: "ts_owed st = 0" and rd: "uncut cx job (length t) t \<longrightarrow> readable cx job t"
  shows "stops_at cx job (length t) [t] (copy_visit cx job (host_path (cj_root job) t) x st)"
proof (cases "cut cx job t")
  case True
  with cut_visit [OF cm t(2,1) x(1) True] o x(2) stoppers_below [of "[t]" t] show ?thesis
    by (simp add: stops_at_def)
next
  case False
  with visit_stops [OF cm t(2,1) x(1) o False] rd show ?thesis by (simp add: uncut_self)
qed

lemma walk_stops:
  assumes cm: "calm cx job"
  shows   "t \<noteq> [] \<Longrightarrow> trail_ok t \<Longrightarrow> names_ok x \<Longrightarrow> trail_node t = x \<Longrightarrow> ts_owed st = 0
     \<Longrightarrow> \<forall>u \<in> set (t # trails t x). uncut cx job (length t) u \<longrightarrow> readable cx job u
     \<Longrightarrow> stops_at cx job (length t) (t # trails t x)
           (walk_node (copy_visit cx job) (host_path (cj_root job) t) x st)"
  and "trail_ok t \<Longrightarrow> entries_ok es \<Longrightarrow> ts_owed st = 0
     \<Longrightarrow> \<forall>u \<in> set (trails_in t es). uncut cx job (Suc (length t)) u \<longrightarrow> readable cx job u
     \<Longrightarrow> stops_at cx job (Suc (length t)) (trails_in t es)
           (walk_entries (copy_visit cx job) (host_path (cj_root job) t) es st)"
proof (induction t x and t es arbitrary: st and st rule: trails_trails_in.induct)
  case (1 t e es)
  let ?x = "FsDir e es" and ?p = "host_path (cj_root job) t"
  have ext: "\<And>u. u \<in> set (trails_in t es) \<Longrightarrow> \<exists>v. u = t @ v"
    using trails_extend(2) [of _ t es] by fastforce
  then have ext': "\<And>u. u \<in> set (t # trails_in t es) \<Longrightarrow> \<exists>v. u = t @ v" by auto
  show ?case
  proof (cases "cut cx job t")
    case True
    with cut_visit [OF cm 1(3,2,5) True] 1(6) stoppers_below [of "t # trails_in t es" t cx job, OF ext'] show ?thesis by (simp add: stops_at_def)
  next
    case False
    with 1(7) have rd: "readable cx job t" by (simp add: uncut_self)
    then have e: "e = None" by (simp add: readable_def 1(5) Let_def)
    obtain s1 r1 where v: "copy_visit cx job ?p ?x st = (s1, r1)" by fastforce
    from visit_stops [OF cm 1(3,2,5,6) False rd] v have s1: "stops_at cx job (length t) [t] (s1, r1)" by simp
    have "outside cx job t = False" by (simp add: outside_def 1(5) external_link_def)
    then have n: "filter (stopper cx job (length t)) [t] = []" by (simp add: stopper_def)
    with s1 have ok: "r1 = WalkOk" "ts_owed s1 = 0" by (simp_all add: stops_at_Nil)
    have "\<forall>u \<in> set (trails_in t es). uncut cx job (Suc (length t)) u \<longrightarrow> readable cx job u"
      using 1(7) uncut_below ext False by (metis list.set_intros(2) trails.simps(1))
    from 1(1) [OF 1(3) _ ok(2) this] 1(4)
    have "stops_at cx job (Suc (length t)) (trails_in t es) (walk_entries (copy_visit cx job) ?p es s1)" by simp
    then have "stops_at cx job (length t) (trails_in t es) (walk_entries (copy_visit cx job) ?p es s1)"
      using stoppers_below [OF ext] False by (simp add: stops_at_def)
    from stops_at_append(2) [OF n this] show ?thesis by (simp add: v [unfolded e] ok(1) e)
  qed
next
  case (4 t n x es)
  let ?t = "t @ [(n, x)]"
  from 4(4) have ok: "plain_component n" "names_ok x" "entries_ok es" by simp_all
  obtain s1 r1 where w: "walk_node (copy_visit cx job) (host_path (cj_root job) ?t) x st = (s1, r1)"
    by fastforce
  have "trail_ok ?t" using 4(3) ok by simp
  from 4(1) [OF _ this ok(2) _ 4(5)] 4(6) w
  have h: "stops_at cx job (Suc (length t)) (?t # trails ?t x) (s1, r1)" by (simp add: trail_node_def)
  have cons: "trails_in t ((n, x) # es) = (?t # trails ?t x) @ trails_in t es" by simp
  show ?case
  proof (cases "filter (stopper cx job (Suc (length t))) (?t # trails ?t x) = []")
    case True
    with h have ok1: "r1 = WalkOk" "ts_owed s1 = 0" by (simp_all add: stops_at_Nil)
    from 4(2) [OF 4(3) ok(3) ok1(2)] 4(6)
    have "stops_at cx job (Suc (length t)) (trails_in t es)
        (walk_entries (copy_visit cx job) (host_path (cj_root job) t) es s1)" by simp
    from stops_at_append(2) [OF True this] w ok1 show ?thesis unfolding cons by simp
  next
    case False
    with h obtain err where r1: "r1 = WalkErr err" by (auto simp: stops_at_def split: list.splits)
    from stops_at_append(1) [OF h False] w r1 show ?thesis unfolding cons by simp
  qed
qed ((simp only: walk_node.simps trails.simps, (rule leaf_stops [OF cm]; simp))+,
    simp add: stops_at_def)

section \<open>The copy\<close>

definition copy_job_of :: "copy_host \<Rightarrow> string \<Rightarrow> string list \<Rightarrow> copy_job" where
  "copy_job_of cx root patterns =
     \<lparr>cj_root = root, cj_root_abs = Clean root, cj_patterns = patterns, cj_ignore = loadGitignore cx root\<rparr>"

lemma copy_job_of_simps [simp]:
  "cj_root (copy_job_of cx root patterns) = root"
  "cj_root_abs (copy_job_of cx root patterns) = Clean root"
  "cj_patterns (copy_job_of cx root patterns) = patterns"
  "cj_ignore (copy_job_of cx root patterns) = loadGitignore cx root"
  by (simp_all add: copy_job_of_def)

lemma copy_job_of_ok: "IsAbs root \<Longrightarrow> job_ok (copy_job_of cx root patterns)"
  by (simp add: job_ok_def copy_job_of_def)

lemma buildCopyTar_dir:
  assumes "IsAbs root"
  shows "buildCopyTar cx root (Inr (FsDir None es)) patterns =
     closeAll (walk_entries (copy_visit cx (copy_job_of cx root patterns)) root es empty_tar)"
proof -
  let ?job = "copy_job_of cx root patterns"
  have "copy_visit cx ?job root (FsDir None es) st = (st, WalkOk)" for st
    by (simp add: copy_visit_def Rel_def)
  moreover have "walk_entries v p es st = (st', r) \<Longrightarrow> r \<noteq> WalkSkipDir" for v p st st' r
    by (induction es arbitrary: st) (auto split: prod.splits walk_end.splits)
  ultimately have "WalkDir (copy_visit cx ?job) root (FsDir None es) st = walk_entries (copy_visit cx ?job) root es st" for st
    by (cases "walk_entries (copy_visit cx ?job) root es st") (auto simp: WalkDir_def split: walk_end.splits)
  with assms show ?thesis by (simp add: buildCopyTar_def Abs_def copy_job_of_def)
qed

text \<open>
  C24. A copy that succeeds archives exactly what it should: one header for each node below the root, in the
  order of the walk (so a directory comes before what is in it), except what is excluded by a pattern, below
  an excluded directory, or in an ignored directory that holds an external link; links that point out of
  the tree are left out, and only where \<^verbatim>\<open>.gitignore\<close> covers them.
\<close>
theorem copy_archive_exact:
  assumes "IsAbs root" and "entries_ok es"
    and "buildCopyTar cx root (Inr (FsDir None es)) patterns = (items, CopyOk)"
  shows "map Inr (headers items) =
      map header_of (filter (\<lambda>t. kept cx (copy_job_of cx root patterns) t \<and> \<not> outside cx (copy_job_of cx root patterns) t)
        (trails [] (FsDir None es)))
    \<and> (\<forall>t \<in> set (trails [] (FsDir None es)).
        kept cx (copy_job_of cx root patterns) t \<and> outside cx (copy_job_of cx root patterns) t
          \<longrightarrow> ignored (loadGitignore cx root) (rel_name t))"
proof -
  let ?job = "copy_job_of cx root patterns"
  obtain st r where w: "walk_entries (copy_visit cx ?job) root es empty_tar = (st, r)" by fastforce
  with assms(3) have r: "r = WalkOk \<or> r = WalkSkipDir" and i: "items = ts_items st"
    by (auto simp: buildCopyTar_dir [OF assms(1)] closeAll_def split: walk_end.splits)
  have root: "host_path (cj_root ?job) [] = root" by simp
  have "trail_ok []" by (simp add: trail_ok_def)
  from walk_archives(2) [OF copy_job_of_ok [OF assms(1), of cx patterns] this assms(2), of cx empty_tar st r] w r
  have "map Inr (headers (ts_items st)) = added cx ?job 1 (trails_in [] es)" "no_stop cx ?job 1 (trails_in [] es)"
    by (auto simp: empty_tar_def)
  then show ?thesis
    by (simp add: i added_def no_stop_def kept_uncut)
qed

text \<open>
  When everything kept can be read and the stream takes every write, the copy succeeds unless a kept link
  points out of the tree and \<^verbatim>\<open>.gitignore\<close> does not cover it; then it fails with an error that names the first
  such link of the walk.
\<close>
theorem copy_refuses_exactly:
  assumes "IsAbs root" and "entries_ok es" and "\<forall>items item. cx_write cx items item = None"
    and "\<forall>t \<in> set (trails [] (FsDir None es)). kept cx (copy_job_of cx root patterns) t
           \<longrightarrow> readable cx (copy_job_of cx root patterns) t"
  shows "snd (buildCopyTar cx root (Inr (FsDir None es)) patterns) =
    (case filter (\<lambda>t. kept cx (copy_job_of cx root patterns) t \<and> outside cx (copy_job_of cx root patterns) t
            \<and> \<not> ignored (loadGitignore cx root) (rel_name t)) (trails [] (FsDir None es)) of
       [] \<Rightarrow> CopyOk
     | t # _ \<Rightarrow> CopyErr (external_link_error (host_path root t)))"
proof -
  let ?job = "copy_job_of cx root patterns"
  have root: "host_path (cj_root ?job) [] = root" by simp
  have cm: "calm cx ?job" using assms(1,3) by (simp add: calm_def copy_job_of_ok)
  have "trail_ok []" by (simp add: trail_ok_def)
  from walk_stops(2) [OF cm this assms(2), of empty_tar] assms(4)
  have "stops_at cx ?job 1 (trails_in [] es) (walk_entries (copy_visit cx ?job) root es empty_tar)"
    by (simp add: empty_tar_def kept_uncut root)
  moreover have "stopper cx ?job 1 = (\<lambda>t. kept cx ?job t \<and> outside cx ?job t
      \<and> \<not> ignored (loadGitignore cx root) (rel_name t))"
    by (simp add: fun_eq_iff stopper_def kept_uncut)
  ultimately show ?thesis
    by (cases "walk_entries (copy_visit cx ?job) root es empty_tar")
      (auto simp: buildCopyTar_dir [OF assms(1)] closeAll_def stops_at_def tar_close_def
        split: list.splits)
qed

section \<open>Links stay inside\<close>

lemma walk_preserves:
  assumes v: "\<And>t x st st' r. trail_ok t \<Longrightarrow> t \<noteq> [] \<Longrightarrow> trail_node t = x \<Longrightarrow> visit (host_path root t) x st = (st', r)
      \<Longrightarrow> P st \<Longrightarrow> P st'"
  shows "trail_ok t \<Longrightarrow> t \<noteq> [] \<Longrightarrow> names_ok x \<Longrightarrow> trail_node t = x \<Longrightarrow> walk_node visit (host_path root t) x st = (st', r)
      \<Longrightarrow> P st \<Longrightarrow> P st'"
    and "trail_ok t \<Longrightarrow> entries_ok es \<Longrightarrow> walk_entries visit (host_path root t) es st = (st', r) \<Longrightarrow> P st \<Longrightarrow> P st'"
proof (induction t x and t es arbitrary: st st' r and st st' r rule: trails_trails_in.induct)
  case (1 t e es)
  obtain s1 r1 where w: "visit (host_path root t) (FsDir e es) st = (s1, r1)" by fastforce
  from v [OF 1(2,3,5) w 1(7)] have "P s1" .
  with 1(1) [OF 1(2)] 1(4,6) w show ?case
    by (auto split: walk_end.splits option.splits)
next
  case (4 t n x es)
  let ?t = "t @ [(n, x)]"
  obtain s1 r1 where w: "walk_node visit (host_path root ?t) x st = (s1, r1)" by fastforce
  from 4(1) [OF _ _ _ _ w 4(6)] 4(3,4) have "P s1" by (simp add: trail_node_def)
  with 4(2) [OF 4(3)] 4(4,5) w show ?case by (auto split: walk_end.splits)
qed (use v in \<open>auto\<close>)

definition link_inside :: "copy_host \<Rightarrow> string \<Rightarrow> tar_header \<Rightarrow> bool" where
  "link_inside cx root h \<longleftrightarrow>
     (case ResolveLinkTarget (cx_cwd cx) (JoinPath [root, th_name h]) (th_linkname h) of
        Inl _ \<Rightarrow> False
      | Inr resolved \<Rightarrow> prefix (components root) (components resolved))"

lemma WriteHeader_headers:
  "WriteHeader cx hdr st = (st', r) \<Longrightarrow> set (headers (ts_items st')) \<subseteq> insert hdr (set (headers (ts_items st)))"
  by (auto simp: WriteHeader_def tar_put_def split: if_splits option.splits)

lemma write_body_headers: "write_body cx b st = (st', r) \<Longrightarrow> headers (ts_items st') = headers (ts_items st)"
  by (auto simp: write_body_def tar_put_def split: if_splits option.splits)

lemma writeTarFile_headers:
  assumes "writeTarFile cx p n x st = (st', r)" and "\<forall>tgt. x \<noteq> FsLink tgt"
    and "h \<in> set (headers (ts_items st'))" and "th_type h = TypeSymlink"
  shows "h \<in> set (headers (ts_items st))"
proof (cases "FileInfoHeader x '''' n")
  case (Inl err)
  with assms show ?thesis by (simp add: writeTarFile_def)
next
  case (Inr hdr)
  with assms(2) have hd: "th_type hdr \<noteq> TypeSymlink" by (cases x) (auto simp: FileInfoHeader_def)
  obtain s1 r1 where w: "WriteHeader cx hdr st = (s1, r1)" by fastforce
  from assms(1) w Inr have "headers (ts_items st') = headers (ts_items s1)"
    by (auto simp: writeTarFile_def split: walk_end.splits option.splits sum.splits dest: write_body_headers)
  with WriteHeader_headers [OF w] assms(3,4) hd show ?thesis by auto
qed

text \<open>
  C25. However a copy of a directory ends, complete, refused half way or cut off by the stream, every symbolic
  link that went into the archive resolves, by its text, to a path inside the copied tree.
\<close>
theorem copy_links_inside:
  assumes "IsAbs root" and "entries_ok es"
    and "buildCopyTar cx root (Inr (FsDir None es)) patterns = (items, e)"
    and "h \<in> set (headers items)" and "th_type h = TypeSymlink"
  shows "link_inside cx root h"
proof -
  let ?job = "copy_job_of cx root patterns"
  let ?P = "\<lambda>st. \<forall>h \<in> set (headers (ts_items st)). th_type h = TypeSymlink \<longrightarrow> link_inside cx root h"
  have root: "host_path (cj_root ?job) [] = root" by simp
  have visit: "?P st'" if t: "trail_ok t" "t \<noteq> []" "trail_node t = x"
    and v: "copy_visit cx ?job (host_path root t) x st = (st', r)" and P: "?P st" for t x st st' r
  proof -
    let ?p = "host_path root t"
    have rel: "Rel root ?p = Inr (rel_name t)"
      using Rel_host_path [OF assms(1) t(1)] t(2) by simp
    consider "st' = st"
      | tgt where "x = FsLink tgt" "writeTarSymlink cx ?p (rel_name t) (Clean root) (cj_ignore ?job) tgt st = (st', r)"
      | "WriteHeader cx \<lparr>th_name = rel_name t @ [slash], th_type = TypeDir, th_linkname = '''', th_size = 0\<rparr> st = (st', r)"
      | "\<forall>tgt. x \<noteq> FsLink tgt" "writeTarFile cx ?p (rel_name t) x st = (st', r)"
      using v by (cases x)
        (auto simp: copy_visit_def rel FileInfoHeader_def split: if_splits)
    then show ?thesis
    proof cases
      case 2
      obtain q where q: "ResolveLinkTarget (cx_cwd cx) ?p tgt = Inr q" "IsAbs q"
        using resolve_abs host_path_abs [OF assms(1) t(1)] host_path_clean [OF assms(1) t(1,2)] by blast
      have "prefix (components root) (components q)" if "pathWithinRoot (Clean root) q"
        using that pathWithinRoot_iff [OF IsAbs_Clean [OF assms(1)] q(2)] by (simp add: components_Clean assms(1))
      then have "link_inside cx root \<lparr>th_name = rel_name t, th_type = TypeSymlink, th_linkname = tgt, th_size = 0\<rparr>"
        if "pathWithinRoot (Clean root) q"
        using that by (simp add: link_inside_def join_host_path [OF assms(1) t(1,2)] q(1) del: JoinPath.simps)
      with 2(2) P show ?thesis
        by (auto simp: writeTarSymlink_def q FileInfoHeader_def split: if_splits dest!: WriteHeader_headers)
    next
      case 3
      with WriteHeader_headers [OF 3] P show ?thesis by auto
    next
      case 4
      with writeTarFile_headers [OF 4(2,1)] P show ?thesis by blast
    qed (use P in simp)
  qed
  obtain st r where w: "walk_entries (copy_visit cx ?job) (host_path root []) es empty_tar = (st, r)" by fastforce
  have "trail_ok []" by (simp add: trail_ok_def)
  have "?P st"
    by (rule walk_preserves(2) [OF _ \<open>trail_ok []\<close> assms(2) w, where P = ?P])
      (rule visit, simp_all add: empty_tar_def)
  moreover have "items = ts_items st"
    using w assms(3) by (auto simp: buildCopyTar_dir [OF assms(1)] closeAll_def split: walk_end.splits)
  ultimately show ?thesis using assms(4,5) by simp
qed

section \<open>Concrete copies\<close>

text \<open>
  A host that reads one byte from every file, and whose \<^verbatim>\<open>.gitignore\<close> covers the directory \<^verbatim>\<open>gen\<close>; a source
  tree with a history, generated files with a link out of the tree, a link inside and a file.
\<close>

definition sample_copy_host :: copy_host where
  "sample_copy_host = \<lparr>cx_cwd = Inr ''/'', cx_open = (\<lambda>p. Some (Inr (if p = ''/w/fifo'' then [] else ''x''))),
     cx_write = (\<lambda>_ _. None), cx_ignore = (\<lambda>_. Inr (\<lambda>p. p = ''gen/''))\<rparr>"

definition sample_tree :: "(string \<times> fs_node) list" where
  "sample_tree =
     [(''.git'', FsDir None [(''config'', FsFile 1)]),
      (''gen'', FsDir None [(''out'', FsLink ''/etc'')]),
      (''lib'', FsLink ''main/lib''),
      (''main'', FsDir None [(''a.go'', FsFile 1), (''lib'', FsDir None [])])]"

lemma sample_copy_runs:
  "buildCopyTar sample_copy_host ''/w'' (Inr (FsDir None sample_tree)) [''.git''] =
     ([Header \<lparr>th_name = ''lib'', th_type = TypeSymlink, th_linkname = ''main/lib'', th_size = 0\<rparr>,
       Header \<lparr>th_name = ''main/'', th_type = TypeDir, th_linkname = '''', th_size = 0\<rparr>,
       Header \<lparr>th_name = ''main/a.go'', th_type = TypeReg, th_linkname = '''', th_size = 1\<rparr>, Body ''x'',
       Header \<lparr>th_name = ''main/lib/'', th_type = TypeDir, th_linkname = '''', th_size = 0\<rparr>], CopyOk)"
  by code_simp

lemma sample_tree_ok: "IsAbs ''/w''" "entries_ok sample_tree"
  by code_simp+

theorem copy_archive_exact_witness:
  "map header_of (filter (\<lambda>t. kept sample_copy_host (copy_job_of sample_copy_host ''/w'' [''.git'']) t
      \<and> \<not> outside sample_copy_host (copy_job_of sample_copy_host ''/w'' [''.git'']) t)
      (trails [] (FsDir None sample_tree))) =
   [Inr \<lparr>th_name = ''lib'', th_type = TypeSymlink, th_linkname = ''main/lib'', th_size = 0\<rparr>,
    Inr \<lparr>th_name = ''main/'', th_type = TypeDir, th_linkname = '''', th_size = 0\<rparr>,
    Inr \<lparr>th_name = ''main/a.go'', th_type = TypeReg, th_linkname = '''', th_size = 1\<rparr>,
    Inr \<lparr>th_name = ''main/lib/'', th_type = TypeDir, th_linkname = '''', th_size = 0\<rparr>]"
  using copy_archive_exact [OF sample_tree_ok sample_copy_runs] by simp

theorem copy_links_inside_witness:
  "link_inside sample_copy_host ''/w''
     \<lparr>th_name = ''lib'', th_type = TypeSymlink, th_linkname = ''main/lib'', th_size = 0\<rparr>"
  by (rule copy_links_inside [OF sample_tree_ok sample_copy_runs]) simp_all

theorem copy_refuses_exactly_witness:
  "snd (buildCopyTar sample_copy_host ''/w''
      (Inr (FsDir None [(''a'', FsDir None [(''up'', FsLink ''../../etc'')]), (''b'', FsLink ''/etc'')])) []) =
    CopyErr (external_link_error ''/w/a/up'')"
proof -
  let ?es = "[(''a'', FsDir None [(''up'', FsLink ''../../etc'')]), (''b'', FsLink ''/etc'')]"
  have e: "entries_ok ?es" by code_simp
  have w: "\<forall>items item. cx_write sample_copy_host items item = None"
    by (simp add: sample_copy_host_def)
  have rd: "\<forall>t \<in> set (trails [] (FsDir None ?es)).
      kept sample_copy_host (copy_job_of sample_copy_host ''/w'' []) t
        \<longrightarrow> readable sample_copy_host (copy_job_of sample_copy_host ''/w'' []) t"
    by (simp add: readable_def trail_node_def)
  have "map (host_path ''/w'') (filter (\<lambda>t. kept sample_copy_host (copy_job_of sample_copy_host ''/w'' []) t
      \<and> outside sample_copy_host (copy_job_of sample_copy_host ''/w'' []) t
      \<and> \<not> ignored (loadGitignore sample_copy_host ''/w'') (rel_name t)) (trails [] (FsDir None ?es)))
      = [''/w/a/up'', ''/w/b'']"
    by code_simp
  then obtain t ts where f: "filter (\<lambda>t. kept sample_copy_host (copy_job_of sample_copy_host ''/w'' []) t
      \<and> outside sample_copy_host (copy_job_of sample_copy_host ''/w'' []) t
      \<and> \<not> ignored (loadGitignore sample_copy_host ''/w'') (rel_name t)) (trails [] (FsDir None ?es)) = t # ts"
    and h: "host_path ''/w'' t = ''/w/a/up''"
    by (elim map_eq_Cons_conv [THEN iffD1, THEN exE] exE conjE) simp
  from copy_refuses_exactly [OF sample_tree_ok(1) e w rd] show ?thesis
    unfolding f list.case h .
qed

text \<open>A FIFO below the source keeps the copy from ending when nobody writes to it.\<close>

lemma copy_waits_for_fifo:
  assumes "cx_open cx ''/w/fifo'' = None" and "\<forall>items item. cx_write cx items item = None"
    and "cx_ignore cx ''/w/.gitignore'' = Inl err"
  shows "snd (buildCopyTar cx ''/w'' (Inr (FsDir None [(''fifo'', FsFifo)])) []) = CopyHangs"
proof -
  have p: "JoinPath [''/w'', ''fifo''] = ''/w/fifo''" "Rel ''/w'' ''/w/fifo'' = Inr ''fifo''" "IsAbs ''/w''"
    by code_simp+
  then show ?thesis
    using assms
    by (simp add: buildCopyTar_dir copy_visit_def matchesExcludePattern_def writeTarFile_def FileInfoHeader_def
        WriteHeader_def tar_put_def empty_tar_def closeAll_def dot_def del: JoinPath.simps)
qed

text \<open>
  Where a link really leads, for comparison: \<open>real_path\<close> follows the components of a path from a directory of
  the tree, links included, and is \<open>None\<close> when they climb above the root.
\<close>

fun node_at :: "fs_node \<Rightarrow> string list \<Rightarrow> fs_node option" where
  "node_at x [] = Some x"
| "node_at x (n # ns) =
     (case x of
        FsDir _ es \<Rightarrow> (case map_of es n of None \<Rightarrow> None | Some y \<Rightarrow> node_at y ns)
      | _ \<Rightarrow> None)"

fun real_path :: "nat \<Rightarrow> fs_node \<Rightarrow> string list \<Rightarrow> string list \<Rightarrow> string list option" where
  "real_path fuel root pos [] = Some pos"
| "real_path 0 root pos (c # cs) = Some pos"
| "real_path (Suc fuel) root pos (c # cs) =
     (if c = dotdot then (if pos = [] then None else real_path fuel root (butlast pos) cs)
      else if c = dot \<or> c = [] then real_path fuel root pos cs
      else case node_at root (pos @ [c]) of
        Some (FsLink target) \<Rightarrow> real_path fuel root pos (split_char slash target @ cs)
      | _ \<Rightarrow> real_path fuel root (pos @ [c]) cs)"

text \<open>
  The check goes by the text of a link: \<^verbatim>\<open>here/../secret\<close> counts as \<^verbatim>\<open>secret\<close> in the tree, but where \<^verbatim>\<open>here\<close> is
  a link to the root itself the path leads above it.
\<close>

lemma link_text_is_not_its_target:
  "snd (buildCopyTar sample_copy_host ''/w''
      (Inr (FsDir None [(''here'', FsLink ''.''), (''out'', FsLink ''here/../secret'')])) []) = CopyOk"
  "real_path 10 (FsDir None [(''here'', FsLink ''.''), (''out'', FsLink ''here/../secret'')]) [] [''out''] = None"
  by code_simp+

text \<open>A literal pattern excludes the nodes of that name or that path, and nothing else by itself.\<close>

lemma literal_excludes:
  "literal_pattern p \<Longrightarrow> p \<noteq> '''' \<Longrightarrow> matchesExcludePattern rel [p] \<longleftrightarrow> rel = p \<or> Base rel = p"
  by (auto simp: matchesExcludePattern_def literal_matches_itself)

end
