(* ===== verification/Artifact_Path.thy ===== *)
theory Artifact_Path
  imports Validation Copy_Tree
begin

text \<open>
  \<^verbatim>\<open>PrepareExecOutputPath\<close> of \<^verbatim>\<open>internal/runtime/docker/artifacts.go\<close>: the file an exec writes to, made below a
  root and refused when it is a link.  (The daemon itself uses the variant in \<open>Validation\<close>.)
\<close>

text \<open>
  What it asks of the host beside \<^typ>\<open>host_env\<close>: the number of hard links of a file, whether an error means
  that the file does not exist, and creating it exclusively (opening and closing).
\<close>

record artifact_host =
  ah_env :: host_env
  ah_nlink :: "string \<Rightarrow> nat"
  ah_not_exist :: "go_error \<Rightarrow> bool"
  ah_create_new :: "string \<Rightarrow> go_error option"

definition ErrArtifactPathUsesSymlink :: go_error where
  "ErrArtifactPathUsesSymlink = ErrText [Lit ''artifact path uses symlink boundary'']"

definition ErrArtifactPathUsesHardlink :: go_error where
  "ErrArtifactPathUsesHardlink = ErrText [Lit ''artifact path uses hardlink boundary'']"

definition usesHardlink :: "artifact_host \<Rightarrow> string \<Rightarrow> bool" where
  "usesHardlink ah path \<longleftrightarrow> 1 < ah_nlink ah path"

definition PrepareExecOutputPath ::
  "artifact_host \<Rightarrow> string \<Rightarrow> string \<Rightarrow> (string, string) gomap \<Rightarrow> go_error + string" where
  "PrepareExecOutputPath ah root template fieldMap =
     (let env = ah_env ah in
     res_bind (expandArtifactTemplate template fieldMap) (\<lambda>relativePath.
     if IsAbs relativePath then Inl ErrArtifactPathEscapesRoot
     else
       let cleanRelative = Clean relativePath in
       if cleanRelative = ''.'' \<or> cleanRelative = '''' \<or> HasPrefix cleanRelative ''..''
       then Inl ErrArtifactPathEscapesRoot
       else
         res_bind (Abs (he_cwd env) root) (\<lambda>rootAbs.
         res_bind (check_go (he_mkdir_all env rootAbs)) (\<lambda>_.
         let targetPath = JoinPath [rootAbs, cleanRelative];
             parentPath = Dir targetPath in
         res_bind (check_go (he_mkdir_all env parentPath)) (\<lambda>_.
         res_bind (he_eval_symlinks env parentPath) (\<lambda>parentRealPath.
           if \<not> pathWithinRoot rootAbs parentRealPath then Inl ErrArtifactPathEscapesRoot
           else case he_lstat env targetPath of
             Inr kind \<Rightarrow>
               if kind = Symlink then Inl ErrArtifactPathUsesSymlink
               else if usesHardlink ah targetPath then Inl ErrArtifactPathUsesHardlink
               else Inr targetPath
           | Inl err \<Rightarrow>
               if \<not> ah_not_exist ah err then Inl err
               else res_bind (check_go (ah_create_new ah targetPath)) (\<lambda>_. Inr targetPath)))))))"

text \<open>A path it returns is in the root, its directory too once links are resolved, and it is no link.\<close>

lemma PrepareExecOutputPath_inside:
  assumes "PrepareExecOutputPath ah root template fieldMap = Inr p"
  shows "\<exists>rootAbs parentReal. Abs (he_cwd (ah_env ah)) root = Inr rootAbs
    \<and> he_eval_symlinks (ah_env ah) (Dir p) = Inr parentReal \<and> pathWithinRoot rootAbs parentReal
    \<and> he_lstat (ah_env ah) p \<noteq> Inr Symlink
    \<and> (\<forall>kind. he_lstat (ah_env ah) p = Inr kind \<longrightarrow> ah_nlink ah p \<le> 1)"
  using assms
  by (auto simp: PrepareExecOutputPath_def res_bind_eq_Inr Let_def usesHardlink_def
      split: if_splits sum.splits)

end
