(* ===== verification/Client_Types.thy ===== *)
theory Client_Types
  imports Status_Errors Clone Go_Path
begin

text \<open>
  The public types of the Go client and their conversions from and to the messages
  (\<^verbatim>\<open>sdk/go/client/types.go\<close>).  The public enums are casts of the messages' enums and keep their type here;
  \<^verbatim>\<open>MountSpec\<close> and \<^verbatim>\<open>CopySpec\<close> have the fields of the messages and share their records.  Copying a slice or a
  map is the identity on values.
\<close>

section \<open>Public types\<close>

record ping_info =
  pi_version :: string
  pi_daemon :: string

record client_healthcheck =
  kh_test :: "string list"
  kh_interval :: "duration option"
  kh_timeout :: "duration option"
  kh_retries :: "32 word option"
  kh_start_period :: "duration option"
  kh_start_interval :: "duration option"

text \<open>\<^verbatim>\<open>Command\<close> is a slice that may be nil, which the options tell from an empty one.\<close>

record client_companion =
  kc_name :: string
  kc_image :: string
  kc_envs :: "(string, string) gomap"
  kc_healthcheck :: "client_healthcheck option"
  kc_command :: "string list option"
  kc_post_start_on_primary :: "string list"
  kc_cpu_limit :: string
  kc_memory_limit :: string
  kc_disk_limit :: string

record client_port =
  kp_container_port :: "32 word"
  kp_host_port :: "32 word"
  kp_protocol :: string

text \<open>The zero \<^verbatim>\<open>time.Time\<close> of a handle without creation time is \<open>None\<close>.\<close>

record client_handle =
  kb_sandbox_id :: string
  kb_state :: sandbox_state
  kb_last_event_sequence :: seqno
  kb_companion_containers :: "client_companion list"
  kb_labels :: "(string, string) gomap"
  kb_created_at :: "time option"
  kb_image :: string
  kb_error_code :: "string option"
  kb_error_message :: "string option"
  kb_state_changed_at :: "time option"

record client_exec =
  kx_exec_id :: string
  kx_sandbox_id :: string
  kx_state :: exec_state
  kx_command :: "string list"
  kx_cwd :: string
  kx_env_overrides :: "(string, string) gomap"
  kx_exit_code :: "int option"
  kx_error :: "string option"
  kx_last_event_sequence :: seqno
  kx_stdout_log_path :: "string option"
  kx_stderr_log_path :: "string option"

datatype client_details =
    NoClientDetails
  | PhaseOf "string option" "string option" "string option" "string option"
  | ExecOf (ko_exec_id: string) "int option" "exec_state option" "string option" "string option"
  | CompanionOf string "string option" "string option"

record client_event =
  ke_event_id :: string
  ke_sequence :: seqno
  ke_sandbox_id :: string
  ke_event_type :: event_type
  ke_occurred_at :: time
  ke_replay :: bool
  ke_snapshot :: bool
  ke_sandbox_state :: "sandbox_state option"
  ke_details :: client_details

text \<open>An event as it comes off the wire: the message, and whether \<^verbatim>\<open>occurred_at\<close> was set.\<close>

record wire_event =
  we_event :: sandbox_event
  we_dated :: bool

section \<open>Pointers\<close>

definition IsTerminal :: "exec_state \<Rightarrow> bool" where
  "IsTerminal s \<longleftrightarrow> s = EXEC_STATE_FINISHED \<or> s = EXEC_STATE_FAILED \<or> s = EXEC_STATE_CANCELLED"

definition sdkCloneStringMap :: "(string, string) gomap \<Rightarrow> (string, string) gomap" where
  "sdkCloneStringMap values = (if length values = 0 then [] else values)"

definition emptyStringPtr :: "string \<Rightarrow> string option" where
  "emptyStringPtr v = (if v = '''' then None else Some v)"

definition sandboxStatePtr :: "sandbox_state \<Rightarrow> sandbox_state option" where
  "sandboxStatePtr state = (if state = SANDBOX_STATE_UNSPECIFIED then None else Some state)"

definition execStatePtr :: "exec_state \<Rightarrow> exec_state option" where
  "execStatePtr state = (if state = EXEC_STATE_UNSPECIFIED then None else Some state)"

definition zeroUint32Ptr :: "32 word \<Rightarrow> 32 word option" where
  "zeroUint32Ptr v = (if v = 0 then None else Some v)"

definition valueOrZero :: "32 word option \<Rightarrow> 32 word" where
  "valueOrZero v = (case v of None \<Rightarrow> 0 | Some x \<Rightarrow> x)"

definition valueOrEmpty :: "string option \<Rightarrow> string" where
  "valueOrEmpty v = (case v of None \<Rightarrow> '''' | Some x \<Rightarrow> x)"

definition fallbackID :: "string \<Rightarrow> string" where
  "fallbackID v = (if v = '''' then ''<unknown>'' else v)"

text \<open>\<^verbatim>\<open>durationpb.Duration.AsDuration\<close>, which saturates\<close>

definition AsDuration :: "duration \<Rightarrow> duration" where
  "AsDuration d = max (- (2 ^ 63)) (min (2 ^ 63 - 1) d)"

section \<open>From messages\<close>

definition toPingInfo :: "string \<times> string \<Rightarrow> ping_info" where
  "toPingInfo response = (case response of (version, daemon) \<Rightarrow> \<lparr>pi_version = version, pi_daemon = daemon\<rparr>)"

definition toHealthcheck :: "healthcheck_config option \<Rightarrow> client_healthcheck option" where
  "toHealthcheck config =
     (case config of
        None \<Rightarrow> None
      | Some c \<Rightarrow>
          Some \<lparr>kh_test = hc_test c,
                kh_interval = map_option AsDuration (hc_interval c),
                kh_timeout = map_option AsDuration (hc_timeout c),
                kh_retries = zeroUint32Ptr (hc_retries c),
                kh_start_period = map_option AsDuration (hc_start_period c),
                kh_start_interval = map_option AsDuration (hc_start_interval c)\<rparr>)"

definition toCompanionContainer :: "companion_container_spec \<Rightarrow> client_companion" where
  "toCompanionContainer spec =
     \<lparr>kc_name = cc_name spec, kc_image = cc_image spec, kc_envs = sdkCloneStringMap (cc_envs spec),
      kc_healthcheck = toHealthcheck (cc_healthcheck spec),
      kc_command = (if cc_command spec = [] then None else Some (cc_command spec)),
      kc_post_start_on_primary = cc_post_start_on_primary spec,
      kc_cpu_limit = cc_cpu_limit spec, kc_memory_limit = cc_memory_limit spec,
      kc_disk_limit = cc_disk_limit spec\<rparr>"

definition toCompanionContainers :: "companion_container_spec list \<Rightarrow> client_companion list" where
  "toCompanionContainers specs = map toCompanionContainer specs"

definition local_error :: "string \<Rightarrow> go_error" where
  "local_error m = ErrText [Lit m]"

definition toSandboxHandle :: "sandbox_handle option \<Rightarrow> go_error + client_handle" where
  "toSandboxHandle handle =
     (case handle of
        None \<Rightarrow> Inl (local_error ''sandbox handle is required'')
      | Some h \<Rightarrow>
          Inr \<lparr>kb_sandbox_id = sh_sandbox_id h, kb_state = sh_state h,
               kb_last_event_sequence = sh_last_event_sequence h,
               kb_companion_containers = toCompanionContainers (sh_companion_containers h),
               kb_labels = sdkCloneStringMap (sh_labels h), kb_created_at = sh_created_at h,
               kb_image = sh_image h, kb_error_code = emptyStringPtr (sh_error_code h),
               kb_error_message = emptyStringPtr (sh_error_message h),
               kb_state_changed_at = sh_state_changed_at h\<rparr>)"

definition toExecHandle :: "exec_status \<Rightarrow> client_exec" where
  "toExecHandle e =
     \<lparr>kx_exec_id = es_exec_id e, kx_sandbox_id = es_sandbox_id e, kx_state = es_state e,
      kx_command = es_command e, kx_cwd = es_cwd e,
      kx_env_overrides = sdkCloneStringMap (es_env_overrides e),
      kx_exit_code = (if IsTerminal (es_state e) then Some (es_exit_code e) else None),
      kx_error = emptyStringPtr (es_error e), kx_last_event_sequence = es_last_event_sequence e,
      kx_stdout_log_path = None, kx_stderr_log_path = None\<rparr>"

record exec_snapshot =
  xn_handle :: client_exec
  xn_last_event_sequence :: seqno

definition toExecSnapshot :: "exec_status option \<Rightarrow> go_error + exec_snapshot" where
  "toExecSnapshot response =
     (case response of
        None \<Rightarrow> Inl (local_error ''get exec response is missing exec'')
      | Some e \<Rightarrow>
          let handle = toExecHandle e
          in if kx_last_event_sequence handle = 0 then
               Inl (ErrText [Lit ''get exec response for exec '', Lit (kx_exec_id handle),
                             Lit '' is missing last_event_sequence''])
             else Inr \<lparr>xn_handle = handle, xn_last_event_sequence = kx_last_event_sequence handle\<rparr>)"

definition toClientDetails :: "event_type \<Rightarrow> event_details \<Rightarrow> client_details" where
  "toClientDetails kind d =
     (case d of
        NoDetails \<Rightarrow> NoClientDetails
      | SandboxPhase phase code msg reason \<Rightarrow>
          PhaseOf (emptyStringPtr phase) (emptyStringPtr code) (emptyStringPtr msg) (emptyStringPtr reason)
      | ExecDetails k exitCode st code msg \<Rightarrow>
          ExecOf k (if kind = EXEC_FINISHED \<or> exitCode \<noteq> 0 then Some exitCode else None) (execStatePtr st)
            (emptyStringPtr code) (emptyStringPtr msg)
      | CompanionDetails name code msg \<Rightarrow> CompanionOf name (emptyStringPtr code) (emptyStringPtr msg))"

definition toSandboxEvent :: "wire_event option \<Rightarrow> go_error + client_event" where
  "toSandboxEvent event =
     (case event of
        None \<Rightarrow> Inl (local_error ''sandbox event is required'')
      | Some w \<Rightarrow>
          let e = we_event w
          in if \<not> we_dated w then
               Inl (ErrText [Lit ''sandbox event '', Lit (fallbackID (ev_event_id e)),
                             Lit '' is missing occurred_at''])
             else
               Inr \<lparr>ke_event_id = ev_event_id e, ke_sequence = ev_sequence e,
                    ke_sandbox_id = ev_sandbox_id e, ke_event_type = ev_event_type e,
                    ke_occurred_at = ev_occurred_at e, ke_replay = ev_replay e,
                    ke_snapshot = ev_snapshot e,
                    ke_sandbox_state = sandboxStatePtr (ev_sandbox_state e),
                    ke_details = toClientDetails (ev_event_type e) (ev_details e)\<rparr>)"

section \<open>To messages\<close>

definition toProtoMount :: "mount_spec \<Rightarrow> mount_spec" where
  "toProtoMount spec = \<lparr>ms_source = ms_source spec, ms_target = ms_target spec, ms_writable = ms_writable spec\<rparr>"

definition toProtoCopy :: "copy_spec \<Rightarrow> copy_spec" where
  "toProtoCopy spec =
     \<lparr>cp_source = cp_source spec, cp_target = cp_target spec, cp_exclude_patterns = cp_exclude_patterns spec\<rparr>"

definition toProtoPortProtocol :: "string \<Rightarrow> go_error + port_protocol" where
  "toProtoPortProtocol protocol =
     (let p = to_lower (trim_space protocol)
      in if p = '''' \<or> p = ''tcp'' then Inr PORT_PROTOCOL_TCP
         else if p = ''udp'' then Inr PORT_PROTOCOL_UDP
         else if p = ''sctp'' then Inr PORT_PROTOCOL_SCTP
         else Inl (ErrText [Lit ''unsupported port protocol '', Quoted protocol,
                            Lit ''; must be tcp, udp, or sctp'']))"

definition toProtoPortMapping :: "client_port \<Rightarrow> go_error + port_mapping" where
  "toProtoPortMapping spec =
     res_bind (toProtoPortProtocol (kp_protocol spec)) (\<lambda>proto.
       Inr \<lparr>pm_container_port = kp_container_port spec, pm_host_port = kp_host_port spec, pm_protocol = proto\<rparr>)"

definition toProtoHealthcheck :: "client_healthcheck option \<Rightarrow> healthcheck_config option" where
  "toProtoHealthcheck config =
     (case config of
        None \<Rightarrow> None
      | Some c \<Rightarrow>
          Some \<lparr>hc_test = kh_test c, hc_interval = kh_interval c, hc_timeout = kh_timeout c,
                hc_retries = valueOrZero (kh_retries c), hc_start_period = kh_start_period c,
                hc_start_interval = kh_start_interval c\<rparr>)"

definition toProtoCompanionContainer :: "client_companion \<Rightarrow> companion_container_spec" where
  "toProtoCompanionContainer spec =
     \<lparr>cc_name = kc_name spec, cc_image = kc_image spec, cc_envs = sdkCloneStringMap (kc_envs spec),
      cc_healthcheck = toProtoHealthcheck (kc_healthcheck spec),
      cc_post_start_on_primary = kc_post_start_on_primary spec,
      cc_command = (case kc_command spec of None \<Rightarrow> [] | Some c \<Rightarrow> c),
      cc_cpu_limit = kc_cpu_limit spec, cc_memory_limit = kc_memory_limit spec,
      cc_disk_limit = kc_disk_limit spec\<rparr>"

definition toProtoMounts :: "mount_spec list \<Rightarrow> mount_spec list" where
  "toProtoMounts mounts = map toProtoMount mounts"

definition toProtoCopies :: "copy_spec list \<Rightarrow> copy_spec list" where
  "toProtoCopies copies = map toProtoCopy copies"

fun toProtoPortMappings :: "client_port list \<Rightarrow> go_error + port_mapping list" where
  "toProtoPortMappings [] = Inr []"
| "toProtoPortMappings (p # ps) =
     res_bind (toProtoPortMapping p) (\<lambda>pm. res_bind (toProtoPortMappings ps) (\<lambda>pms. Inr (pm # pms)))"

definition toProtoCompanionContainers :: "client_companion list \<Rightarrow> companion_container_spec list" where
  "toProtoCompanionContainers containers = map toProtoCompanionContainer containers"

section \<open>Laws\<close>

lemma sdkCloneStringMap_id [simp]: "sdkCloneStringMap m = m"
  by (simp add: sdkCloneStringMap_def)

lemma toProtoMounts_id [simp]: "toProtoMounts ms = ms"
  by (simp add: toProtoMounts_def toProtoMount_def map_idI)

lemma toProtoCopies_id [simp]: "toProtoCopies cs = cs"
  by (simp add: toProtoCopies_def toProtoCopy_def map_idI)

lemma emptyStringPtr_inverse [simp]: "valueOrEmpty (emptyStringPtr v) = v"
  by (simp add: emptyStringPtr_def valueOrEmpty_def)

lemma zeroUint32Ptr_inverse [simp]: "valueOrZero (zeroUint32Ptr v) = v"
  by (simp add: zeroUint32Ptr_def valueOrZero_def)

lemma emptyStringPtr_inj [simp]: "emptyStringPtr a = emptyStringPtr b \<longleftrightarrow> a = b"
  by (auto simp: emptyStringPtr_def)

lemma sandboxStatePtr_inj [simp]: "sandboxStatePtr a = sandboxStatePtr b \<longleftrightarrow> a = b"
  by (auto simp: sandboxStatePtr_def)

lemma execStatePtr_inj [simp]: "execStatePtr a = execStatePtr b \<longleftrightarrow> a = b"
  by (auto simp: execStatePtr_def)

text \<open>A duration of 64 bits is read as it was sent.\<close>

definition short_duration :: "duration \<Rightarrow> bool" where
  "short_duration d \<longleftrightarrow> - (2 ^ 63) \<le> d \<and> d < 2 ^ 63"

lemma AsDuration_id [simp]: "short_duration d \<Longrightarrow> AsDuration d = d"
  by (simp add: AsDuration_def short_duration_def)

definition short_healthcheck :: "healthcheck_config \<Rightarrow> bool" where
  "short_healthcheck h \<longleftrightarrow>
     list_all (\<lambda>d. pred_option short_duration d)
       [hc_interval h, hc_timeout h, hc_start_period h, hc_start_interval h]"

definition short_companion :: "companion_container_spec \<Rightarrow> bool" where
  "short_companion c \<longleftrightarrow> pred_option short_healthcheck (cc_healthcheck c)"

lemma map_option_short: "pred_option short_duration d \<Longrightarrow> map_option AsDuration d = d"
  by (cases d) auto

lemma healthcheck_back:
  "pred_option short_healthcheck h \<Longrightarrow> toProtoHealthcheck (toHealthcheck h) = h"
  by (cases h) (auto simp: toProtoHealthcheck_def toHealthcheck_def short_healthcheck_def map_option_short)

lemma companion_back: "short_companion c \<Longrightarrow> toProtoCompanionContainer (toCompanionContainer c) = c"
  by (cases c) (auto simp: toProtoCompanionContainer_def toCompanionContainer_def healthcheck_back short_companion_def)

lemma companions_back:
  "list_all short_companion cs \<Longrightarrow> toProtoCompanionContainers (toCompanionContainers cs) = cs"
  by (simp add: toProtoCompanionContainers_def toCompanionContainers_def companion_back list_all_iff map_idI)

lemma toProtoPortMappings_Inr:
  "toProtoPortMappings ps = Inr pms \<longleftrightarrow> list_all2 (\<lambda>p pm. toProtoPortMapping p = Inr pm) ps pms"
  by (induction ps arbitrary: pms) (auto simp: res_bind_eq_Inr list_all2_Cons1)

end
