(* ===== verification/Client_Options.thy ===== *)
theory Client_Options
  imports Client_Types
begin

text \<open>
  The options of the Go client (\<^verbatim>\<open>sdk/go/client/options.go\<close>).  An option is a value that changes a record of
  options, in the order given; an option that sets a field replaces what an earlier one set.
\<close>

section \<open>Options of a client\<close>

record client_config =
  cf_timeout :: duration
  cf_stream_timeout :: duration
  cf_stream_timeout_set :: bool
  cf_operation_timeout :: duration
  cf_socket_path :: string
  cf_socket_path_set :: bool

datatype new_option =
    OptTimeout duration
  | OptStreamTimeout duration
  | OptOperationTimeout duration
  | OptSocketPath string

definition WithTimeout :: "duration \<Rightarrow> client_config \<Rightarrow> client_config" where
  "WithTimeout timeout opts = opts\<lparr>cf_timeout := timeout\<rparr>"

definition WithStreamTimeout :: "duration \<Rightarrow> client_config \<Rightarrow> client_config" where
  "WithStreamTimeout timeout opts = opts\<lparr>cf_stream_timeout := timeout, cf_stream_timeout_set := True\<rparr>"

definition WithOperationTimeout :: "duration \<Rightarrow> client_config \<Rightarrow> client_config" where
  "WithOperationTimeout timeout opts = opts\<lparr>cf_operation_timeout := timeout\<rparr>"

definition WithSocketPath :: "string \<Rightarrow> client_config \<Rightarrow> client_config" where
  "WithSocketPath socketPath opts = opts\<lparr>cf_socket_path := socketPath, cf_socket_path_set := True\<rparr>"

fun apply_new_option :: "new_option \<Rightarrow> client_config \<Rightarrow> client_config" where
  "apply_new_option (OptTimeout t) = WithTimeout t"
| "apply_new_option (OptStreamTimeout t) = WithStreamTimeout t"
| "apply_new_option (OptOperationTimeout t) = WithOperationTimeout t"
| "apply_new_option (OptSocketPath p) = WithSocketPath p"

section \<open>Creating a sandbox\<close>

record create_sandbox_options =
  co_image :: "string option"
  co_config_yaml :: string
  co_sandbox_id :: "string option"
  co_mounts :: "mount_spec list"
  co_copies :: "copy_spec list"
  co_ports :: "client_port list"
  co_builtin_tools :: "string list"
  co_command :: "string list"
  co_companions :: "client_companion list"
  co_labels :: "(string, string) gomap"
  co_envs :: "(string, string) gomap"
  co_idle_ttl :: "duration option"
  co_cpu_limit :: "string option"
  co_memory_limit :: "string option"
  co_primary_disk_limit :: "string option"
  co_gpus :: "string option"
  co_wait :: bool

definition defaultCreateSandboxOptions :: create_sandbox_options where
  "defaultCreateSandboxOptions =
     \<lparr>co_image = None, co_config_yaml = '''', co_sandbox_id = None, co_mounts = [], co_copies = [], co_ports = [],
      co_builtin_tools = [], co_command = [], co_companions = [], co_labels = [], co_envs = [],
      co_idle_ttl = None, co_cpu_limit = None, co_memory_limit = None, co_primary_disk_limit = None,
      co_gpus = None, co_wait = True\<rparr>"

type_synonym create_change = "create_sandbox_options \<Rightarrow> go_error + create_sandbox_options"

definition WithImage :: "string \<Rightarrow> create_change" where
  "WithImage v opts =
     (if v = '''' then Inl (local_error ''image must not be empty'') else Inr (opts\<lparr>co_image := Some v\<rparr>))"

definition WithConfigYAML :: "string \<Rightarrow> create_change" where
  "WithConfigYAML o' opts =
     (if length o' = 0 then Inl (local_error ''config_yaml must not be empty'')
      else Inr (opts\<lparr>co_config_yaml := o'\<rparr>))"

definition WithWait :: "bool \<Rightarrow> create_change" where
  "WithWait b opts = Inr (opts\<lparr>co_wait := b\<rparr>)"

definition WithSandboxID :: "string \<Rightarrow> create_change" where
  "WithSandboxID v opts =
     (if v = '''' then Inl (local_error ''sandbox_id must not be empty'') else Inr (opts\<lparr>co_sandbox_id := Some v\<rparr>))"

definition WithMounts :: "mount_spec list \<Rightarrow> create_change" where
  "WithMounts ms opts = Inr (opts\<lparr>co_mounts := ms\<rparr>)"

definition WithCopies :: "copy_spec list \<Rightarrow> create_change" where
  "WithCopies cs opts = Inr (opts\<lparr>co_copies := cs\<rparr>)"

definition WithPorts :: "client_port list \<Rightarrow> create_change" where
  "WithPorts ps opts = Inr (opts\<lparr>co_ports := ps\<rparr>)"

text \<open>The first empty element of a command, by its index.\<close>

fun empty_element :: "nat \<Rightarrow> string list \<Rightarrow> nat option" where
  "empty_element i [] = None"
| "empty_element i (element # rest) = (if element = '''' then Some i else empty_element (Suc i) rest)"

definition WithCommand :: "string list \<Rightarrow> create_change" where
  "WithCommand command opts =
     (if length command = 0 then
        Inl (local_error ''command: empty array is not allowed, omit WithCommand to use the default'')
      else case empty_element 0 command of
        Some i \<Rightarrow>
          Inl (ErrText [Lit ''command['', Lit (show_nat i), Lit '']: empty string element is not allowed''])
      | None \<Rightarrow> Inr (opts\<lparr>co_command := command\<rparr>))"

definition WithBuiltinTools :: "string list \<Rightarrow> create_change" where
  "WithBuiltinTools tools opts = Inr (opts\<lparr>co_builtin_tools := tools\<rparr>)"

definition companion_command_error :: "client_companion \<Rightarrow> go_error option" where
  "companion_command_error companion =
     (case kc_command companion of
        None \<Rightarrow> None
      | Some c \<Rightarrow>
          if length c = 0 then
            Some (ErrText [Lit ''companion_containers['', Quoted (kc_name companion),
              Lit ''].command: empty array is not allowed, omit the field to use the default image CMD''])
          else case empty_element 0 c of
            None \<Rightarrow> None
          | Some i \<Rightarrow>
              Some (ErrText [Lit ''companion_containers['', Quoted (kc_name companion), Lit ''].command['',
                             Lit (show_nat i), Lit '']: empty string entry is not allowed'']))"

definition WithCompanionContainers :: "client_companion list \<Rightarrow> create_change" where
  "WithCompanionContainers cs opts =
     (case first_error companion_command_error cs of
        Some err \<Rightarrow> Inl err
      | None \<Rightarrow> Inr (opts\<lparr>co_companions := cs\<rparr>))"

definition WithEnvs :: "(string, string) gomap \<Rightarrow> create_change" where
  "WithEnvs envs opts = Inr (opts\<lparr>co_envs := sdkCloneStringMap envs\<rparr>)"

definition WithLabels :: "(string, string) gomap \<Rightarrow> create_change" where
  "WithLabels labels opts = Inr (opts\<lparr>co_labels := sdkCloneStringMap labels\<rparr>)"

definition WithIdleTTL :: "duration \<Rightarrow> create_change" where
  "WithIdleTTL d opts =
     (if d < 0 then Inl (local_error ''idle_ttl must not be negative'') else Inr (opts\<lparr>co_idle_ttl := Some d\<rparr>))"

definition WithCPULimit :: "string \<Rightarrow> create_change" where
  "WithCPULimit v opts = Inr (opts\<lparr>co_cpu_limit := Some v\<rparr>)"

definition WithMemoryLimit :: "string \<Rightarrow> create_change" where
  "WithMemoryLimit v opts = Inr (opts\<lparr>co_memory_limit := Some v\<rparr>)"

definition WithPrimaryDiskLimit :: "string \<Rightarrow> create_change" where
  "WithPrimaryDiskLimit v opts = Inr (opts\<lparr>co_primary_disk_limit := Some v\<rparr>)"

definition WithGPUs :: "string \<Rightarrow> create_change" where
  "WithGPUs v opts = Inr (opts\<lparr>co_gpus := Some v\<rparr>)"

datatype create_option =
    OptImage string
  | OptConfigYAML string
  | OptCreateWait bool
  | OptSandboxID string
  | OptMounts "mount_spec list"
  | OptCopies "copy_spec list"
  | OptPorts "client_port list"
  | OptCommand "string list"
  | OptBuiltinTools "string list"
  | OptCompanions "client_companion list"
  | OptEnvs "(string, string) gomap"
  | OptLabels "(string, string) gomap"
  | OptIdleTTL duration
  | OptCPULimit string
  | OptMemoryLimit string
  | OptDiskLimit string
  | OptGPUs string

fun applyCreateSandbox :: "create_option \<Rightarrow> create_change" where
  "applyCreateSandbox (OptImage v) = WithImage v"
| "applyCreateSandbox (OptConfigYAML v) = WithConfigYAML v"
| "applyCreateSandbox (OptCreateWait b) = WithWait b"
| "applyCreateSandbox (OptSandboxID v) = WithSandboxID v"
| "applyCreateSandbox (OptMounts ms) = WithMounts ms"
| "applyCreateSandbox (OptCopies cs) = WithCopies cs"
| "applyCreateSandbox (OptPorts ps) = WithPorts ps"
| "applyCreateSandbox (OptCommand c) = WithCommand c"
| "applyCreateSandbox (OptBuiltinTools ts) = WithBuiltinTools ts"
| "applyCreateSandbox (OptCompanions cs) = WithCompanionContainers cs"
| "applyCreateSandbox (OptEnvs m) = WithEnvs m"
| "applyCreateSandbox (OptLabels m) = WithLabels m"
| "applyCreateSandbox (OptIdleTTL d) = WithIdleTTL d"
| "applyCreateSandbox (OptCPULimit v) = WithCPULimit v"
| "applyCreateSandbox (OptMemoryLimit v) = WithMemoryLimit v"
| "applyCreateSandbox (OptDiskLimit v) = WithPrimaryDiskLimit v"
| "applyCreateSandbox (OptGPUs v) = WithGPUs v"

section \<open>Listing, waiting, execs and subscriptions\<close>

record list_options =
  lo_include_deleted :: bool
  lo_label_selector :: "(string, string) gomap"

datatype list_option = OptIncludeDeleted bool | OptLabelSelector "(string, string) gomap"

definition defaultListSandboxesOptions :: list_options where
  "defaultListSandboxesOptions = \<lparr>lo_include_deleted = False, lo_label_selector = []\<rparr>"

fun applyListSandboxes :: "list_option \<Rightarrow> list_options \<Rightarrow> list_options" where
  "applyListSandboxes (OptIncludeDeleted b) opts = opts\<lparr>lo_include_deleted := b\<rparr>"
| "applyListSandboxes (OptLabelSelector m) opts = opts\<lparr>lo_label_selector := sdkCloneStringMap m\<rparr>"

text \<open>The only wait option is \<^verbatim>\<open>WithWait\<close>, and the only one of \<^verbatim>\<open>ListActiveExecs\<close> a sandbox id.\<close>

definition applyWait :: "bool \<Rightarrow> bool \<Rightarrow> bool" where
  "applyWait o' wait = o'"

definition defaultWaitOptions :: bool where
  "defaultWaitOptions = True"

definition applyListActiveExecs :: "string \<Rightarrow> string option \<Rightarrow> string option" where
  "applyListActiveExecs v sandboxID = Some v"

record create_exec_options =
  xo_exec_id :: "string option"
  xo_cwd :: string
  xo_env_overrides :: "(string, string) gomap"
  xo_wait :: bool

definition defaultCreateExecOptions :: create_exec_options where
  "defaultCreateExecOptions = \<lparr>xo_exec_id = None, xo_cwd = ''/workspace'', xo_env_overrides = [], xo_wait = False\<rparr>"

definition WithExecID :: "string \<Rightarrow> create_exec_options \<Rightarrow> go_error + create_exec_options" where
  "WithExecID v opts =
     (if v = '''' then Inl (local_error ''exec_id must not be empty'') else Inr (opts\<lparr>xo_exec_id := Some v\<rparr>))"

definition WithCwd :: "string \<Rightarrow> create_exec_options \<Rightarrow> go_error + create_exec_options" where
  "WithCwd cwd opts = Inr (opts\<lparr>xo_cwd := cwd\<rparr>)"

definition WithEnvOverrides :: "(string, string) gomap \<Rightarrow> create_exec_options \<Rightarrow> go_error + create_exec_options" where
  "WithEnvOverrides m opts = Inr (opts\<lparr>xo_env_overrides := sdkCloneStringMap m\<rparr>)"

datatype exec_option =
    OptExecID string
  | OptCwd string
  | OptEnvOverrides "(string, string) gomap"
  | OptExecWait bool

fun applyCreateExec :: "exec_option \<Rightarrow> create_exec_options \<Rightarrow> go_error + create_exec_options" where
  "applyCreateExec (OptExecID v) opts = WithExecID v opts"
| "applyCreateExec (OptCwd cwd) opts = WithCwd cwd opts"
| "applyCreateExec (OptEnvOverrides m) opts = WithEnvOverrides m opts"
| "applyCreateExec (OptExecWait b) opts = Inr (opts\<lparr>xo_wait := b\<rparr>)"

record run_options =
  ro_cwd :: string
  ro_env_overrides :: "(string, string) gomap"

datatype run_option = RunCwd string | RunEnvOverrides "(string, string) gomap"

definition defaultRunOptions :: run_options where
  "defaultRunOptions = \<lparr>ro_cwd = ''/workspace'', ro_env_overrides = []\<rparr>"

fun applyRun :: "run_option \<Rightarrow> run_options \<Rightarrow> run_options" where
  "applyRun (RunCwd cwd) opts = opts\<lparr>ro_cwd := cwd\<rparr>"
| "applyRun (RunEnvOverrides m) opts = opts\<lparr>ro_env_overrides := sdkCloneStringMap m\<rparr>"

record subscribe_options =
  so_from_sequence :: seqno
  so_include_current_snapshot :: bool

datatype subscribe_option = OptFromSequence seqno | OptIncludeCurrentSnapshot bool

definition defaultSubscribeOptions :: subscribe_options where
  "defaultSubscribeOptions = \<lparr>so_from_sequence = 0, so_include_current_snapshot = False\<rparr>"

fun applySubscribe :: "subscribe_option \<Rightarrow> subscribe_options \<Rightarrow> go_error + subscribe_options" where
  "applySubscribe (OptFromSequence q) opts = Inr (opts\<lparr>so_from_sequence := q\<rparr>)"
| "applySubscribe (OptIncludeCurrentSnapshot b) opts = Inr (opts\<lparr>so_include_current_snapshot := b\<rparr>)"

section \<open>The request of a creation\<close>

text \<open>The options applied in their order, and the request \<^verbatim>\<open>Client.CreateSandbox\<close> sends for them.\<close>

definition create_options :: "create_option list \<Rightarrow> go_error + create_sandbox_options" where
  "create_options opts = fold_result applyCreateSandbox opts defaultCreateSandboxOptions"

definition set_if :: "'a option \<Rightarrow> ('a \<Rightarrow> 's \<Rightarrow> 's) \<Rightarrow> 's \<Rightarrow> 's" where
  "set_if v f s = (case v of None \<Rightarrow> s | Some x \<Rightarrow> f x s)"

definition create_spec_of :: "create_sandbox_options \<Rightarrow> port_mapping list \<Rightarrow> create_spec" where
  "create_spec_of options protoPorts =
     (let spec = empty_create_spec
           \<lparr>cs_image := (case co_image options of None \<Rightarrow> '''' | Some v \<Rightarrow> v),
            cs_mounts := toProtoMounts (co_mounts options),
            cs_copies := toProtoCopies (co_copies options),
            cs_ports := protoPorts,
            cs_builtin_tools := co_builtin_tools options,
            cs_command := co_command options,
            cs_companion_containers := toProtoCompanionContainers (co_companions options),
            cs_labels := sdkCloneStringMap (co_labels options),
            cs_envs := sdkCloneStringMap (co_envs options)\<rparr>;
          spec = set_if (co_idle_ttl options) (\<lambda>d s. s\<lparr>cs_idle_ttl := Some d\<rparr>) spec;
          spec = set_if (co_cpu_limit options) (\<lambda>v s. s\<lparr>cs_cpu_limit := v\<rparr>) spec;
          spec = set_if (co_memory_limit options) (\<lambda>v s. s\<lparr>cs_memory_limit := v\<rparr>) spec;
          spec = set_if (co_primary_disk_limit options) (\<lambda>v s. s\<lparr>cs_disk_limit := v\<rparr>) spec
      in set_if (co_gpus options) (\<lambda>v s. s\<lparr>cs_gpus := v\<rparr>) spec)"

definition create_request :: "create_sandbox_options \<Rightarrow> go_error + create_sandbox_request" where
  "create_request options =
     (if co_image options = None \<and> length (co_config_yaml options) = 0 then
        Inl (local_error ''at least one of WithImage or WithConfigYAML must be provided'')
      else
        res_bind (toProtoPortMappings (co_ports options)) (\<lambda>protoPorts.
          Inr \<lparr>cr_create_spec = Some (create_spec_of options protoPorts),
               cr_sandbox_id = valueOrEmpty (co_sandbox_id options),
               cr_config_yaml = co_config_yaml options\<rparr>))"

end
