(* ===== verification/Client_Calls.thy ===== *)
theory Client_Calls
  imports Client_Options
begin

text \<open>
  The Go client: the raw client's calls (\<^verbatim>\<open>sdk/go/rawclient/client.go\<close>, \<^verbatim>\<open>stream.go\<close>), the operations of the public
  client (\<^verbatim>\<open>sdk/go/client/client.go\<close>) and its two waits (\<^verbatim>\<open>wait.go\<close>).

  The daemon at the other end is a record of answers, each free to depend on every call made before and on
  the time limit of the call.  An operation is a function of the calls made so far; it adds its own, each with
  its limit.  A stream is what the client receives from it until it ends: the events, how receiving failed
  (\<open>None\<close> for the end of the stream), and the error of the context at that moment, if it is over by then.  The
  consuming goroutine may drop items once its context is over, so the list of a stream whose context is over
  is any prefix of what was sent (an error item lost in that way is reported as the end of the context).
\<close>

section \<open>Calls\<close>

text \<open>How long a call may take: no limit, the deadline of the caller's context, or a time of its own.\<close>

datatype time_limit = Unlimited | CallerDeadline | OwnTimeout duration

datatype rpc =
    PingCall
  | CreateSandboxCall create_sandbox_request
  | GetSandboxCall string
  | ListSandboxesCall list_sandboxes_request
  | ResumeSandboxCall string
  | StopSandboxCall string
  | DeleteSandboxCall string
  | DeleteSandboxesCall "(string, string) gomap"
  | SubscribeCall string seqno bool
  | CreateExecCall create_exec_request
  | CancelExecCall string
  | GetExecCall string
  | ListActiveExecsCall "string option"

type_synonym call_log = "(rpc \<times> time_limit) list"

record event_feed =
  fd_events :: "wire_event option list"
  fd_recv_error :: "call_error option"
  fd_ctx_error :: "err_msg option"

record remote_daemon =
  rd_ping :: "call_log \<Rightarrow> time_limit \<Rightarrow> call_error + (string \<times> string)"
  rd_create_sandbox :: "call_log \<Rightarrow> time_limit \<Rightarrow> create_sandbox_request \<Rightarrow> call_error + sandbox_handle option"
  rd_get_sandbox :: "call_log \<Rightarrow> time_limit \<Rightarrow> string \<Rightarrow> call_error + sandbox_handle option"
  rd_list_sandboxes :: "call_log \<Rightarrow> time_limit \<Rightarrow> list_sandboxes_request \<Rightarrow> call_error + sandbox_handle list"
  rd_accept :: "call_log \<Rightarrow> time_limit \<Rightarrow> rpc \<Rightarrow> call_error + unit"
  rd_delete_sandboxes :: "call_log \<Rightarrow> time_limit \<Rightarrow> (string, string) gomap \<Rightarrow> call_error + delete_sandboxes_response"
  rd_dial :: "call_log \<Rightarrow> go_error option"
  rd_subscribe :: "call_log \<Rightarrow> time_limit \<Rightarrow> string \<Rightarrow> seqno \<Rightarrow> bool \<Rightarrow> call_error + event_feed"
  rd_create_exec :: "call_log \<Rightarrow> time_limit \<Rightarrow> create_exec_request \<Rightarrow> call_error + create_exec_response"
  rd_get_exec :: "call_log \<Rightarrow> time_limit \<Rightarrow> string \<Rightarrow> call_error + exec_status option"
  rd_list_active_execs :: "call_log \<Rightarrow> time_limit \<Rightarrow> string option \<Rightarrow> call_error + exec_status list"

text \<open>What an operation fails with: an error of the raw client, or one the client makes itself.\<close>

datatype sdk_error = RpcFailed client_error | LocalFailed err_msg

type_synonym 'a sdk = "call_log \<Rightarrow> (sdk_error + 'a) \<times> call_log"

definition sdk_ret :: "'a \<Rightarrow> 'a sdk" where
  "sdk_ret x h = (Inr x, h)"

definition sdk_fail :: "sdk_error \<Rightarrow> 'a sdk" where
  "sdk_fail e h = (Inl e, h)"

definition sdk_bind :: "'a sdk \<Rightarrow> ('a \<Rightarrow> 'b sdk) \<Rightarrow> 'b sdk" where
  "sdk_bind m f h = (case m h of (Inl e, h') \<Rightarrow> (Inl e, h') | (Inr x, h') \<Rightarrow> f x h')"

definition sdk_local :: "go_error + 'a \<Rightarrow> 'a sdk" where
  "sdk_local r h = (case r of Inl err \<Rightarrow> (Inl (LocalFailed (error_text err)), h) | Inr x \<Rightarrow> (Inr x, h))"

section \<open>The raw client\<close>

text \<open>\<^verbatim>\<open>withTimeout\<close>, of a context with or without a deadline\<close>

definition withTimeout :: "bool \<Rightarrow> duration \<Rightarrow> time_limit" where
  "withTimeout hasDeadline timeout =
     (if timeout \<le> 0 then (if hasDeadline then CallerDeadline else Unlimited)
      else if hasDeadline then CallerDeadline
      else OwnTimeout timeout)"

definition callWithTimeoutUnary ::
  "bool \<Rightarrow> duration \<Rightarrow> rpc \<Rightarrow> (call_log \<Rightarrow> time_limit \<Rightarrow> call_error + 'a) \<Rightarrow> 'a sdk" where
  "callWithTimeoutUnary hasDeadline timeout call answer h =
     (let limit = withTimeout hasDeadline timeout
      in (case answer h limit of
            Inl err \<Rightarrow> Inl (RpcFailed (translateRPCError err))
          | Inr response \<Rightarrow> Inr response,
          h @ [(call, limit)]))"

text \<open>
  A raw client is its timeout.  Each method makes one call; \<open>dl\<close> says whether its context has a deadline.
\<close>

definition raw_Ping :: "remote_daemon \<Rightarrow> bool \<Rightarrow> duration \<Rightarrow> (string \<times> string) sdk" where
  "raw_Ping rd dl t = callWithTimeoutUnary dl t PingCall (rd_ping rd)"

definition raw_CreateSandbox ::
  "remote_daemon \<Rightarrow> bool \<Rightarrow> duration \<Rightarrow> create_sandbox_request \<Rightarrow> sandbox_handle option sdk" where
  "raw_CreateSandbox rd dl t request =
     callWithTimeoutUnary dl t (CreateSandboxCall request) (\<lambda>h l. rd_create_sandbox rd h l request)"

definition raw_GetSandbox :: "remote_daemon \<Rightarrow> bool \<Rightarrow> duration \<Rightarrow> string \<Rightarrow> sandbox_handle option sdk" where
  "raw_GetSandbox rd dl t sandboxID =
     callWithTimeoutUnary dl t (GetSandboxCall sandboxID) (\<lambda>h l. rd_get_sandbox rd h l sandboxID)"

definition raw_ListSandboxes ::
  "remote_daemon \<Rightarrow> bool \<Rightarrow> duration \<Rightarrow> list_sandboxes_request option \<Rightarrow> sandbox_handle list sdk" where
  "raw_ListSandboxes rd dl t request =
     (let request = (case request of
            None \<Rightarrow> \<lparr>ls_include_deleted = False, ls_label_selector = []\<rparr>
          | Some r \<Rightarrow> r)
      in callWithTimeoutUnary dl t (ListSandboxesCall request) (\<lambda>h l. rd_list_sandboxes rd h l request))"

definition raw_ResumeSandbox :: "remote_daemon \<Rightarrow> bool \<Rightarrow> duration \<Rightarrow> string \<Rightarrow> unit sdk" where
  "raw_ResumeSandbox rd dl t sandboxID =
     callWithTimeoutUnary dl t (ResumeSandboxCall sandboxID) (\<lambda>h l. rd_accept rd h l (ResumeSandboxCall sandboxID))"

definition raw_StopSandbox :: "remote_daemon \<Rightarrow> bool \<Rightarrow> duration \<Rightarrow> string \<Rightarrow> unit sdk" where
  "raw_StopSandbox rd dl t sandboxID =
     callWithTimeoutUnary dl t (StopSandboxCall sandboxID) (\<lambda>h l. rd_accept rd h l (StopSandboxCall sandboxID))"

definition raw_DeleteSandbox :: "remote_daemon \<Rightarrow> bool \<Rightarrow> duration \<Rightarrow> string \<Rightarrow> unit sdk" where
  "raw_DeleteSandbox rd dl t sandboxID =
     callWithTimeoutUnary dl t (DeleteSandboxCall sandboxID) (\<lambda>h l. rd_accept rd h l (DeleteSandboxCall sandboxID))"

definition raw_DeleteSandboxes ::
  "remote_daemon \<Rightarrow> bool \<Rightarrow> duration \<Rightarrow> (string, string) gomap \<Rightarrow> delete_sandboxes_response sdk" where
  "raw_DeleteSandboxes rd dl t selector =
     callWithTimeoutUnary dl t (DeleteSandboxesCall selector) (\<lambda>h l. rd_delete_sandboxes rd h l selector)"

definition raw_Subscribe ::
  "remote_daemon \<Rightarrow> bool \<Rightarrow> duration \<Rightarrow> string \<Rightarrow> seqno \<Rightarrow> bool \<Rightarrow> event_feed sdk" where
  "raw_Subscribe rd dl t sandboxID fromSequence snapshot =
     callWithTimeoutUnary dl t (SubscribeCall sandboxID fromSequence snapshot)
       (\<lambda>h l. rd_subscribe rd h l sandboxID fromSequence snapshot)"

definition raw_CreateExec ::
  "remote_daemon \<Rightarrow> bool \<Rightarrow> duration \<Rightarrow> create_exec_request \<Rightarrow> create_exec_response sdk" where
  "raw_CreateExec rd dl t request =
     callWithTimeoutUnary dl t (CreateExecCall request) (\<lambda>h l. rd_create_exec rd h l request)"

definition raw_CancelExec :: "remote_daemon \<Rightarrow> bool \<Rightarrow> duration \<Rightarrow> string \<Rightarrow> unit sdk" where
  "raw_CancelExec rd dl t execID =
     callWithTimeoutUnary dl t (CancelExecCall execID) (\<lambda>h l. rd_accept rd h l (CancelExecCall execID))"

definition raw_GetExec :: "remote_daemon \<Rightarrow> bool \<Rightarrow> duration \<Rightarrow> string \<Rightarrow> exec_status option sdk" where
  "raw_GetExec rd dl t execID =
     callWithTimeoutUnary dl t (GetExecCall execID) (\<lambda>h l. rd_get_exec rd h l execID)"

definition raw_ListActiveExecs :: "remote_daemon \<Rightarrow> bool \<Rightarrow> duration \<Rightarrow> string \<Rightarrow> exec_status list sdk" where
  "raw_ListActiveExecs rd dl t sandboxID =
     (let filter' = (if sandboxID \<noteq> '''' then Some sandboxID else None)
      in callWithTimeoutUnary dl t (ListActiveExecsCall filter') (\<lambda>h l. rd_list_active_execs rd h l filter'))"

text \<open>\<^verbatim>\<open>NewSandboxClientError\<close> without a cause, and \<^verbatim>\<open>NewExecNotRunningError\<close>\<close>

definition NewSandboxClientError :: "err_msg \<Rightarrow> sdk_error" where
  "NewSandboxClientError message = LocalFailed (if msg_empty message then [Lit ''RPC failed.''] else message)"

definition NewExecNotRunningError :: "string \<Rightarrow> client_error \<Rightarrow> sdk_error" where
  "NewExecNotRunningError execID cause =
     RpcFailed \<lparr>ce_kind = ExecNotRunningError execID,
                ce_message = [Lit ''Exec '', Lit execID, Lit '' is not running.''], ce_cause = ce_cause cause\<rparr>"

section \<open>The client\<close>

record sdk_client =
  sc_timeout :: duration
  sc_socket_path :: string
  sc_stream_timeout :: duration
  sc_operation_timeout :: duration

abbreviation defaultOperationTimeout :: duration where
  "defaultOperationTimeout \<equiv> 60 * second"

text \<open>
  \<^verbatim>\<open>New\<close>: \<open>default_path\<close> is \<^verbatim>\<open>rawclient.DefaultSocketPath\<close>, \<open>dial\<close> the outcome of making the connection, which
  opens lazily.
\<close>

definition New :: "go_error + string \<Rightarrow> go_error option \<Rightarrow> new_option list \<Rightarrow> go_error + sdk_client" where
  "New default_path dial opts =
     (let config = fold apply_new_option opts
            \<lparr>cf_timeout = 5 * second, cf_stream_timeout = 0, cf_stream_timeout_set = False,
             cf_operation_timeout = defaultOperationTimeout, cf_socket_path = '''', cf_socket_path_set = False\<rparr>
      in res_bind (if cf_socket_path_set config then Inr (cf_socket_path config) else default_path) (\<lambda>socketPath.
           let streamTimeout = (if cf_stream_timeout_set config then cf_stream_timeout config else cf_timeout config)
           in case dial of
                Some err \<Rightarrow> Inl err
              | None \<Rightarrow>
                  Inr \<lparr>sc_timeout = cf_timeout config, sc_socket_path = socketPath,
                       sc_stream_timeout = streamTimeout, sc_operation_timeout = cf_operation_timeout config\<rparr>))"

definition sdk_Ping :: "remote_daemon \<Rightarrow> sdk_client \<Rightarrow> bool \<Rightarrow> ping_info sdk" where
  "sdk_Ping rd c dl = sdk_bind (raw_Ping rd dl (sc_timeout c)) (\<lambda>r. sdk_ret (toPingInfo r))"

definition sdk_GetSandbox :: "remote_daemon \<Rightarrow> sdk_client \<Rightarrow> bool \<Rightarrow> string \<Rightarrow> client_handle sdk" where
  "sdk_GetSandbox rd c dl sandboxID =
     sdk_bind (raw_GetSandbox rd dl (sc_timeout c) sandboxID) (\<lambda>r. sdk_local (toSandboxHandle r))"

definition getExecSnapshot :: "remote_daemon \<Rightarrow> sdk_client \<Rightarrow> bool \<Rightarrow> string \<Rightarrow> exec_snapshot sdk" where
  "getExecSnapshot rd c dl execID =
     sdk_bind (raw_GetExec rd dl (sc_timeout c) execID) (\<lambda>r. sdk_local (toExecSnapshot r))"

section \<open>Subscriptions\<close>

datatype event_or_error = EventItem client_event | ErrorItem sdk_error

text \<open>What \<^verbatim>\<open>sandboxEventStream.Recv\<close> makes of a receiving error; \<open>None\<close> is \<^verbatim>\<open>io.EOF\<close>.\<close>

definition stream_Recv_error :: "call_error option \<Rightarrow> sdk_error option" where
  "stream_Recv_error err = map_option (\<lambda>e. RpcFailed (translateRPCError e)) err"

text \<open>The items \<^verbatim>\<open>consumeSandboxEvents\<close> sends for an open stream.\<close>

fun feed_items :: "wire_event option list \<Rightarrow> call_error option \<Rightarrow> err_msg option \<Rightarrow> event_or_error list" where
  "feed_items [] recvErr ctxErr =
     (case ctxErr of
        Some _ \<Rightarrow> []
      | None \<Rightarrow> (case stream_Recv_error recvErr of None \<Rightarrow> [] | Some err \<Rightarrow> [ErrorItem err]))"
| "feed_items (event # rest) recvErr ctxErr =
     (case toSandboxEvent event of
        Inl err \<Rightarrow> [ErrorItem (LocalFailed (error_text err))]
      | Inr converted \<Rightarrow> EventItem converted # feed_items rest recvErr ctxErr)"

text \<open>The items, and the error of the context once they are consumed.\<close>

definition consumeSandboxEvents ::
  "remote_daemon \<Rightarrow> sdk_client \<Rightarrow> bool \<Rightarrow> string \<Rightarrow> seqno \<Rightarrow> bool \<Rightarrow> (event_or_error list \<times> err_msg option) sdk" where
  "consumeSandboxEvents rd c dl sandboxID fromSequence snapshot h =
     (case rd_dial rd h of
        Some err \<Rightarrow> (Inr ([ErrorItem (LocalFailed (error_text err))], None), h)
      | None \<Rightarrow>
          (case raw_Subscribe rd dl (sc_stream_timeout c) sandboxID fromSequence snapshot h of
             (Inl err, h) \<Rightarrow> (Inr ([ErrorItem err], None), h)
           | (Inr feed, h) \<Rightarrow>
               (Inr (feed_items (fd_events feed) (fd_recv_error feed) (fd_ctx_error feed), fd_ctx_error feed), h)))"

definition SubscribeSandboxEvents ::
  "remote_daemon \<Rightarrow> sdk_client \<Rightarrow> bool \<Rightarrow> string \<Rightarrow> subscribe_option list
     \<Rightarrow> (event_or_error list \<times> err_msg option) sdk" where
  "SubscribeSandboxEvents rd c dl sandboxID opts =
     (case fold_result applySubscribe opts defaultSubscribeOptions of
        Inl err \<Rightarrow> sdk_ret ([ErrorItem (LocalFailed (error_text err))], None)
      | Inr options \<Rightarrow>
          consumeSandboxEvents rd c dl sandboxID (so_from_sequence options) (so_include_current_snapshot options))"

section \<open>Waiting\<close>

text \<open>\<^verbatim>\<open>withOperationTimeout\<close>: whether the context of a wait has a deadline\<close>

definition withOperationTimeout :: "sdk_client \<Rightarrow> bool \<Rightarrow> bool" where
  "withOperationTimeout c dl \<longleftrightarrow> dl \<or> 0 < sc_operation_timeout c"

definition raiseForFailedSandbox :: "client_handle \<Rightarrow> string \<Rightarrow> sdk_error option" where
  "raiseForFailedSandbox handle operationName =
     (if kb_state handle = SANDBOX_STATE_FAILED then
        Some (NewSandboxClientError [Lit operationName, Lit '' observed sandbox '', Lit (kb_sandbox_id handle),
                                     Lit '' in FAILED state''])
      else None)"

text \<open>The loop over the items; \<open>None\<close> when they run out.\<close>

fun wait_sandbox_loop ::
  "remote_daemon \<Rightarrow> sdk_client \<Rightarrow> bool \<Rightarrow> string \<Rightarrow> seqno \<Rightarrow> sandbox_state \<Rightarrow> string
     \<Rightarrow> event_or_error list \<Rightarrow> client_handle option sdk" where
  "wait_sandbox_loop rd c dl sandboxID baselineSequence targetState operationName [] = sdk_ret None"
| "wait_sandbox_loop rd c dl sandboxID baselineSequence targetState operationName (ErrorItem err # items) =
     sdk_fail err"
| "wait_sandbox_loop rd c dl sandboxID baselineSequence targetState operationName (EventItem event # items) =
     (if ke_sequence event \<le> baselineSequence then
        wait_sandbox_loop rd c dl sandboxID baselineSequence targetState operationName items
      else
        sdk_bind (sdk_GetSandbox rd c dl sandboxID) (\<lambda>current.
          if kb_state current = targetState then sdk_ret (Some current)
          else case raiseForFailedSandbox current operationName of
            Some err \<Rightarrow> sdk_fail err
          | None \<Rightarrow> wait_sandbox_loop rd c dl sandboxID baselineSequence targetState operationName items))"

definition show_state :: "sandbox_state \<Rightarrow> string" where
  "show_state s = show_nat (case s of
     SANDBOX_STATE_UNSPECIFIED \<Rightarrow> 0 | SANDBOX_STATE_PENDING \<Rightarrow> 1 | SANDBOX_STATE_READY \<Rightarrow> 2
   | SANDBOX_STATE_FAILED \<Rightarrow> 3 | SANDBOX_STATE_STOPPED \<Rightarrow> 4 | SANDBOX_STATE_DELETING \<Rightarrow> 5
   | SANDBOX_STATE_DELETED \<Rightarrow> 6)"

definition waitForSandboxState ::
  "remote_daemon \<Rightarrow> sdk_client \<Rightarrow> bool \<Rightarrow> string \<Rightarrow> client_handle \<Rightarrow> sandbox_state \<Rightarrow> string \<Rightarrow> client_handle sdk" where
  "waitForSandboxState rd c dl sandboxID baseline targetState operationName =
     (if kb_state baseline = targetState then sdk_ret baseline
      else case raiseForFailedSandbox baseline operationName of
        Some err \<Rightarrow> sdk_fail err
      | None \<Rightarrow>
          (let baselineSequence = kb_last_event_sequence baseline; waitDl = withOperationTimeout c dl
           in sdk_bind (SubscribeSandboxEvents rd c waitDl sandboxID [OptFromSequence baselineSequence]) (\<lambda>(items, ctxErr).
              sdk_bind (wait_sandbox_loop rd c waitDl sandboxID baselineSequence targetState operationName items) (\<lambda>r.
                case r of
                  Some current \<Rightarrow> sdk_ret current
                | None \<Rightarrow>
                    (case ctxErr of
                       Some err \<Rightarrow>
                         sdk_fail (LocalFailed ([Lit operationName, Lit '' timed out while waiting for sandbox '',
                           Lit sandboxID, Lit '' to reach '', Lit (show_state targetState), Lit '': ''] @ err))
                     | None \<Rightarrow>
                         sdk_fail (NewSandboxClientError [Lit operationName, Lit '' ended before sandbox '',
                           Lit sandboxID, Lit '' reached '', Lit (show_state targetState)]))))))"

fun wait_exec_loop ::
  "remote_daemon \<Rightarrow> sdk_client \<Rightarrow> bool \<Rightarrow> string \<Rightarrow> seqno \<Rightarrow> event_or_error list \<Rightarrow> client_exec option sdk" where
  "wait_exec_loop rd c dl execID baselineSequence [] = sdk_ret None"
| "wait_exec_loop rd c dl execID baselineSequence (ErrorItem err # items) = sdk_fail err"
| "wait_exec_loop rd c dl execID baselineSequence (EventItem event # items) =
     (if ke_sequence event \<le> baselineSequence
        \<or> (case ke_details event of ExecOf k _ _ _ _ \<Rightarrow> k \<noteq> execID | _ \<Rightarrow> True)
      then wait_exec_loop rd c dl execID baselineSequence items
      else
        sdk_bind (getExecSnapshot rd c dl execID) (\<lambda>current.
          if IsTerminal (kx_state (xn_handle current)) then sdk_ret (Some (xn_handle current))
          else wait_exec_loop rd c dl execID baselineSequence items))"

definition waitForExecTerminal ::
  "remote_daemon \<Rightarrow> sdk_client \<Rightarrow> bool \<Rightarrow> string \<Rightarrow> string \<Rightarrow> exec_snapshot \<Rightarrow> string \<Rightarrow> client_exec sdk" where
  "waitForExecTerminal rd c dl execID sandboxID baseline operationName =
     (if IsTerminal (kx_state (xn_handle baseline)) then sdk_ret (xn_handle baseline)
      else
        (let baselineSequence = xn_last_event_sequence baseline; waitDl = withOperationTimeout c dl
         in sdk_bind (SubscribeSandboxEvents rd c waitDl sandboxID [OptFromSequence baselineSequence]) (\<lambda>(items, ctxErr).
            sdk_bind (wait_exec_loop rd c waitDl execID baselineSequence items) (\<lambda>r.
              case r of
                Some current \<Rightarrow> sdk_ret current
              | None \<Rightarrow>
                  (case ctxErr of
                     Some err \<Rightarrow>
                       sdk_fail (LocalFailed ([Lit operationName, Lit '' timed out while waiting for exec '',
                         Lit execID, Lit '' to become terminal: ''] @ err))
                   | None \<Rightarrow>
                       sdk_fail (NewSandboxClientError [Lit operationName, Lit '' event stream ended before exec '',
                         Lit execID, Lit '' reached a terminal state'']))))))"

section \<open>Operations\<close>

definition sdk_CreateSandbox ::
  "remote_daemon \<Rightarrow> sdk_client \<Rightarrow> bool \<Rightarrow> create_option list \<Rightarrow> client_handle sdk" where
  "sdk_CreateSandbox rd c dl opts =
     sdk_bind (sdk_local (create_options opts)) (\<lambda>options.
     sdk_bind (sdk_local (create_request options)) (\<lambda>request.
     sdk_bind (raw_CreateSandbox rd dl (sc_timeout c) request) (\<lambda>response.
     sdk_bind (sdk_local (toSandboxHandle response)) (\<lambda>current.
       if \<not> co_wait options then sdk_ret current
       else waitForSandboxState rd c dl (kb_sandbox_id current) current SANDBOX_STATE_READY ''create_sandbox''))))"

definition sdk_ListSandboxes ::
  "remote_daemon \<Rightarrow> sdk_client \<Rightarrow> bool \<Rightarrow> list_option list \<Rightarrow> client_handle list sdk" where
  "sdk_ListSandboxes rd c dl opts =
     (let options = fold applyListSandboxes opts defaultListSandboxesOptions
      in sdk_bind (raw_ListSandboxes rd dl (sc_timeout c)
             (Some \<lparr>ls_include_deleted = lo_include_deleted options,
                    ls_label_selector = sdkCloneStringMap (lo_label_selector options)\<rparr>)) (\<lambda>response.
           sdk_local (fold_result (\<lambda>h hs. res_bind (toSandboxHandle (Some h)) (\<lambda>c. Inr (hs @ [c]))) response [])))"

text \<open>Resuming, stopping and deleting one sandbox differ in the call, the target and the name.\<close>

definition change_sandbox ::
  "remote_daemon \<Rightarrow> sdk_client \<Rightarrow> bool \<Rightarrow> unit sdk \<Rightarrow> string \<Rightarrow> sandbox_state \<Rightarrow> string \<Rightarrow> bool list
     \<Rightarrow> client_handle sdk" where
  "change_sandbox rd c dl call sandboxID target operationName opts =
     (let wait = fold applyWait opts defaultWaitOptions
      in sdk_bind call (\<lambda>_.
         sdk_bind (sdk_GetSandbox rd c dl sandboxID) (\<lambda>current.
           if \<not> wait then sdk_ret current
           else waitForSandboxState rd c dl sandboxID current target operationName)))"

definition sdk_ResumeSandbox ::
  "remote_daemon \<Rightarrow> sdk_client \<Rightarrow> bool \<Rightarrow> string \<Rightarrow> bool list \<Rightarrow> client_handle sdk" where
  "sdk_ResumeSandbox rd c dl sandboxID opts =
     change_sandbox rd c dl (raw_ResumeSandbox rd dl (sc_timeout c) sandboxID) sandboxID
       SANDBOX_STATE_READY ''resume_sandbox'' opts"

definition sdk_StopSandbox ::
  "remote_daemon \<Rightarrow> sdk_client \<Rightarrow> bool \<Rightarrow> string \<Rightarrow> bool list \<Rightarrow> client_handle sdk" where
  "sdk_StopSandbox rd c dl sandboxID opts =
     change_sandbox rd c dl (raw_StopSandbox rd dl (sc_timeout c) sandboxID) sandboxID
       SANDBOX_STATE_STOPPED ''stop_sandbox'' opts"

definition sdk_DeleteSandbox ::
  "remote_daemon \<Rightarrow> sdk_client \<Rightarrow> bool \<Rightarrow> string \<Rightarrow> bool list \<Rightarrow> client_handle sdk" where
  "sdk_DeleteSandbox rd c dl sandboxID opts =
     change_sandbox rd c dl (raw_DeleteSandbox rd dl (sc_timeout c) sandboxID) sandboxID
       SANDBOX_STATE_DELETED ''delete_sandbox'' opts"

text \<open>
  One of the goroutines of \<^verbatim>\<open>DeleteSandboxes\<close>.  They run beside each other, so each has a daemon of its own
  (whatever the others make it answer), and \<open>order\<close> is the order in which they end.
\<close>

definition delete_waiter ::
  "(string \<Rightarrow> remote_daemon) \<Rightarrow> sdk_client \<Rightarrow> bool \<Rightarrow> call_log \<Rightarrow> string \<Rightarrow> sdk_error option" where
  "delete_waiter rds c dl h sandboxID =
     (case sdk_bind (sdk_GetSandbox (rds sandboxID) c dl sandboxID) (\<lambda>current.
             waitForSandboxState (rds sandboxID) c dl sandboxID current SANDBOX_STATE_DELETED ''delete_sandboxes'') h of
        (Inl err, _) \<Rightarrow> Some err
      | (Inr _, _) \<Rightarrow> None)"

definition sdk_DeleteSandboxes ::
  "remote_daemon \<Rightarrow> (string \<Rightarrow> remote_daemon) \<Rightarrow> (string list \<Rightarrow> string list) \<Rightarrow> sdk_client \<Rightarrow> bool
     \<Rightarrow> (string, string) gomap \<Rightarrow> bool list \<Rightarrow> delete_sandboxes_response sdk" where
  "sdk_DeleteSandboxes rd rds order c dl labelSelector opts =
     (let wait = fold applyWait opts defaultWaitOptions
      in sdk_bind (raw_DeleteSandboxes rd dl (sc_timeout c) (sdkCloneStringMap labelSelector)) (\<lambda>result.
           if \<not> wait \<or> length (ds_deleted_sandbox_ids result) = 0 then sdk_ret result
           else (\<lambda>h. case first_error (delete_waiter rds c dl h) (order (ds_deleted_sandbox_ids result)) of
                   Some err \<Rightarrow> (Inl err, h)
                 | None \<Rightarrow> (Inr result, h))))"

definition sdk_CreateExec ::
  "remote_daemon \<Rightarrow> sdk_client \<Rightarrow> bool \<Rightarrow> string \<Rightarrow> string list \<Rightarrow> exec_option list \<Rightarrow> client_exec sdk" where
  "sdk_CreateExec rd c dl sandboxID command opts =
     sdk_bind (sdk_local (fold_result applyCreateExec opts defaultCreateExecOptions)) (\<lambda>options.
     sdk_bind (raw_CreateExec rd dl (sc_timeout c)
         \<lparr>xr_sandbox_id = sandboxID, xr_command = command, xr_cwd = xo_cwd options,
          xr_env_overrides = sdkCloneStringMap (xo_env_overrides options),
          xr_exec_id = valueOrEmpty (xo_exec_id options)\<rparr>) (\<lambda>response.
     let logged = (\<lambda>e. e\<lparr>kx_stdout_log_path := emptyStringPtr (xs_stdout_log_path response),
                         kx_stderr_log_path := emptyStringPtr (xs_stderr_log_path response)\<rparr>) in
     sdk_bind (getExecSnapshot rd c dl (xs_exec_id response)) (\<lambda>current.
       if \<not> xo_wait options then sdk_ret (logged (xn_handle current))
       else
         sdk_bind (waitForExecTerminal rd c dl (xs_exec_id response) sandboxID current ''create_exec'') (\<lambda>handle.
           sdk_ret (logged handle)))))"

definition sdk_Run ::
  "remote_daemon \<Rightarrow> sdk_client \<Rightarrow> bool \<Rightarrow> string \<Rightarrow> string list \<Rightarrow> run_option list \<Rightarrow> client_exec sdk" where
  "sdk_Run rd c dl sandboxID command opts =
     (let options = fold applyRun opts defaultRunOptions
      in sdk_CreateExec rd c dl sandboxID command
           [OptCwd (ro_cwd options), OptEnvOverrides (ro_env_overrides options), OptExecWait True])"

definition sdk_CancelExec ::
  "remote_daemon \<Rightarrow> sdk_client \<Rightarrow> bool \<Rightarrow> string \<Rightarrow> bool list \<Rightarrow> client_exec sdk" where
  "sdk_CancelExec rd c dl execID opts =
     (let wait = fold applyWait opts defaultWaitOptions
      in sdk_bind (\<lambda>h. case raw_CancelExec rd dl (sc_timeout c) execID h of
             (Inl (RpcFailed e), h) \<Rightarrow>
               (Inl (if ce_kind e = SandboxInvalidStateError then NewExecNotRunningError execID e else RpcFailed e), h)
           | r \<Rightarrow> r) (\<lambda>_.
         sdk_bind (getExecSnapshot rd c dl execID) (\<lambda>current.
           if \<not> wait then sdk_ret (xn_handle current)
           else waitForExecTerminal rd c dl execID (kx_sandbox_id (xn_handle current)) current ''cancel_exec'')))"

definition sdk_GetExec :: "remote_daemon \<Rightarrow> sdk_client \<Rightarrow> bool \<Rightarrow> string \<Rightarrow> client_exec sdk" where
  "sdk_GetExec rd c dl execID =
     sdk_bind (getExecSnapshot rd c dl execID) (\<lambda>snapshot. sdk_ret (xn_handle snapshot))"

definition sdk_ListActiveExecs ::
  "remote_daemon \<Rightarrow> sdk_client \<Rightarrow> bool \<Rightarrow> string list \<Rightarrow> client_exec list sdk" where
  "sdk_ListActiveExecs rd c dl opts =
     (let sandboxID = (case fold applyListActiveExecs opts None of None \<Rightarrow> '''' | Some s \<Rightarrow> s)
      in sdk_bind (raw_ListActiveExecs rd dl (sc_timeout c) sandboxID) (\<lambda>response. sdk_ret (map toExecHandle response)))"

end
