(* ===== verification/Client_Props.thy ===== *)
theory Client_Props
  imports Client_Calls Rpc_Props
begin

text \<open>
  The Go client: its conversions lose nothing, the request of a creation is what its options say, a wait
  returns only what it waited for and misses no change of the daemon, and every call has a time limit.
\<close>

section \<open>Conversions\<close>

definition clean_healthcheck :: "client_healthcheck \<Rightarrow> bool" where
  "clean_healthcheck h \<longleftrightarrow> kh_retries h \<noteq> Some 0
     \<and> list_all (\<lambda>d. pred_option short_duration d)
         [kh_interval h, kh_timeout h, kh_start_period h, kh_start_interval h]"

definition clean_companion :: "client_companion \<Rightarrow> bool" where
  "clean_companion c \<longleftrightarrow> kc_command c \<noteq> Some [] \<and> pred_option clean_healthcheck (kc_healthcheck c)"

lemma healthcheck_forth:
  "pred_option clean_healthcheck h \<Longrightarrow> toHealthcheck (toProtoHealthcheck h) = h"
  by (cases h)
    (auto simp: toProtoHealthcheck_def toHealthcheck_def clean_healthcheck_def map_option_short
      zeroUint32Ptr_def valueOrZero_def split: option.splits)

lemma companion_forth: "clean_companion c \<Longrightarrow> toCompanionContainer (toProtoCompanionContainer c) = c"
  by (cases c)
    (auto simp: toProtoCompanionContainer_def toCompanionContainer_def healthcheck_forth clean_companion_def
      split: option.splits)

lemma client_details_inj: "toClientDetails k a = toClientDetails k b \<longleftrightarrow> a = b"
  by (cases a; cases b) (auto simp: toClientDetails_def split: if_splits)

lemma companions_inj:
  assumes "list_all short_companion cs" and "list_all short_companion ds"
    and "toCompanionContainers cs = toCompanionContainers ds"
  shows "cs = ds"
  using companions_back [OF assms(1)] companions_back [OF assms(2)] assms(3) by metis

lemma handle_inj:
  assumes "list_all short_companion (sh_companion_containers a)" and "list_all short_companion (sh_companion_containers b)"
    and "toSandboxHandle (Some a) = toSandboxHandle (Some b)"
  shows "a = b"
  using assms companions_inj [OF assms(1,2)] by (cases a; cases b) (simp add: toSandboxHandle_def)

text \<open>
  The conversions of the client lose nothing: a companion that goes to the daemon comes back as it was, and
  one that comes from the daemon goes back as it was; different handles, different events and different
  exec states of the daemon are different to the user of the client.  The exceptions are spelled out: an
  explicit zero for the retries and an explicit empty command cannot be told from none, durations have 64
  bits, and the exit code of an exec that has not ended is not shown.
\<close>
theorem client_conversions_lossless:
  "(clean_companion c \<longrightarrow> toCompanionContainer (toProtoCompanionContainer c) = c)
   \<and> (short_companion p \<longrightarrow> toProtoCompanionContainer (toCompanionContainer p) = p)
   \<and> (list_all short_companion (sh_companion_containers a) \<longrightarrow> list_all short_companion (sh_companion_containers b)
        \<longrightarrow> toSandboxHandle (Some a) = toSandboxHandle (Some b) \<longrightarrow> a = b)
   \<and> (toSandboxEvent (Some \<lparr>we_event = v, we_dated = True\<rparr>) = toSandboxEvent (Some \<lparr>we_event = w, we_dated = True\<rparr>)
        \<longrightarrow> v = w)
   \<and> ((IsTerminal (es_state x) \<or> es_exit_code x = es_exit_code y) \<longrightarrow> toExecHandle x = toExecHandle y \<longrightarrow> x = y)"
proof (intro conjI impI)
  assume "toSandboxEvent (Some \<lparr>we_event = v, we_dated = True\<rparr>) = toSandboxEvent (Some \<lparr>we_event = w, we_dated = True\<rparr>)"
  then show "v = w" by (cases v; cases w) (auto simp: toSandboxEvent_def Let_def client_details_inj)
next
  assume "IsTerminal (es_state x) \<or> es_exit_code x = es_exit_code y" "toExecHandle x = toExecHandle y"
  then show "x = y" by (cases x; cases y) (auto simp: toExecHandle_def split: if_splits)
qed (use companion_forth companion_back handle_inj in blast)+

definition sample_companion :: client_companion where
  "sample_companion = \<lparr>kc_name = ''db'', kc_image = ''postgres'', kc_envs = [(''A'', ''1'')],
     kc_healthcheck = Some \<lparr>kh_test = [''CMD'', ''true''], kh_interval = Some (5 * second), kh_timeout = None,
       kh_retries = Some 3, kh_start_period = None, kh_start_interval = None\<rparr>,
     kc_command = Some [''postgres''], kc_post_start_on_primary = [], kc_cpu_limit = ''1'', kc_memory_limit = '''',
     kc_disk_limit = ''''\<rparr>"

theorem client_conversions_lossless_witness:
  "toCompanionContainer (toProtoCompanionContainer sample_companion) = sample_companion"
proof -
  have "clean_companion sample_companion"
    by (simp add: clean_companion_def sample_companion_def clean_healthcheck_def short_duration_def)
  with client_conversions_lossless [of sample_companion] show ?thesis by blast
qed

section \<open>The request of a creation\<close>

text \<open>The last value the options give a field.\<close>

definition last_set :: "('o \<Rightarrow> 'a option) \<Rightarrow> 'o list \<Rightarrow> 'a option" where
  "last_set f opts = fold (\<lambda>opt v. case f opt of None \<Rightarrow> v | Some x \<Rightarrow> Some x) opts None"

lemma last_set_Nil [simp]: "last_set f [] = None"
  by (simp add: last_set_def)

lemma last_set_snoc [simp]:
  "last_set f (opts @ [opt]) = (case f opt of None \<Rightarrow> last_set f opts | Some x \<Rightarrow> Some x)"
  by (simp add: last_set_def split: option.split)

definition the_last :: "'a \<Rightarrow> ('o \<Rightarrow> 'a option) \<Rightarrow> 'o list \<Rightarrow> 'a" where
  "the_last dflt f opts = (case last_set f opts of None \<Rightarrow> dflt | Some x \<Rightarrow> x)"

definition command_ok :: "string list \<Rightarrow> bool" where
  "command_ok c \<longleftrightarrow> c \<noteq> [] \<and> '''' \<notin> set c"

fun valid_option :: "create_option \<Rightarrow> bool" where
  "valid_option (OptImage v) \<longleftrightarrow> v \<noteq> ''''"
| "valid_option (OptConfigYAML v) \<longleftrightarrow> v \<noteq> ''''"
| "valid_option (OptSandboxID v) \<longleftrightarrow> v \<noteq> ''''"
| "valid_option (OptCommand c) \<longleftrightarrow> command_ok c"
| "valid_option (OptCompanions cs) \<longleftrightarrow> list_all (\<lambda>c. pred_option command_ok (kc_command c)) cs"
| "valid_option (OptIdleTTL d) \<longleftrightarrow> 0 \<le> d"
| "valid_option _ \<longleftrightarrow> True"

definition options_of :: "create_option list \<Rightarrow> create_sandbox_options" where
  "options_of opts =
     \<lparr>co_image = last_set (\<lambda>o'. case o' of OptImage v \<Rightarrow> Some v | _ \<Rightarrow> None) opts,
      co_config_yaml = the_last '''' (\<lambda>o'. case o' of OptConfigYAML v \<Rightarrow> Some v | _ \<Rightarrow> None) opts,
      co_sandbox_id = last_set (\<lambda>o'. case o' of OptSandboxID v \<Rightarrow> Some v | _ \<Rightarrow> None) opts,
      co_mounts = the_last [] (\<lambda>o'. case o' of OptMounts v \<Rightarrow> Some v | _ \<Rightarrow> None) opts,
      co_copies = the_last [] (\<lambda>o'. case o' of OptCopies v \<Rightarrow> Some v | _ \<Rightarrow> None) opts,
      co_ports = the_last [] (\<lambda>o'. case o' of OptPorts v \<Rightarrow> Some v | _ \<Rightarrow> None) opts,
      co_builtin_tools = the_last [] (\<lambda>o'. case o' of OptBuiltinTools v \<Rightarrow> Some v | _ \<Rightarrow> None) opts,
      co_command = the_last [] (\<lambda>o'. case o' of OptCommand v \<Rightarrow> Some v | _ \<Rightarrow> None) opts,
      co_companions = the_last [] (\<lambda>o'. case o' of OptCompanions v \<Rightarrow> Some v | _ \<Rightarrow> None) opts,
      co_labels = the_last [] (\<lambda>o'. case o' of OptLabels v \<Rightarrow> Some v | _ \<Rightarrow> None) opts,
      co_envs = the_last [] (\<lambda>o'. case o' of OptEnvs v \<Rightarrow> Some v | _ \<Rightarrow> None) opts,
      co_idle_ttl = last_set (\<lambda>o'. case o' of OptIdleTTL v \<Rightarrow> Some v | _ \<Rightarrow> None) opts,
      co_cpu_limit = last_set (\<lambda>o'. case o' of OptCPULimit v \<Rightarrow> Some v | _ \<Rightarrow> None) opts,
      co_memory_limit = last_set (\<lambda>o'. case o' of OptMemoryLimit v \<Rightarrow> Some v | _ \<Rightarrow> None) opts,
      co_primary_disk_limit = last_set (\<lambda>o'. case o' of OptDiskLimit v \<Rightarrow> Some v | _ \<Rightarrow> None) opts,
      co_gpus = last_set (\<lambda>o'. case o' of OptGPUs v \<Rightarrow> Some v | _ \<Rightarrow> None) opts,
      co_wait = the_last True (\<lambda>o'. case o' of OptCreateWait v \<Rightarrow> Some v | _ \<Rightarrow> None) opts\<rparr>"

lemma empty_element_None: "empty_element i c = None \<longleftrightarrow> '''' \<notin> set c"
  by (induction c arbitrary: i) auto

lemma empty_element_Some: "empty_element i c = Some j \<Longrightarrow> '''' \<in> set c"
  using empty_element_None [of i c] by auto

lemma companion_command_error_None: "companion_command_error c = None \<longleftrightarrow> pred_option command_ok (kc_command c)"
  by (auto simp: companion_command_error_def command_ok_def empty_element_None split: option.splits
      dest: empty_element_Some)

lemma companions_error_None:
  "first_error companion_command_error cs = None \<longleftrightarrow> list_all (\<lambda>c. pred_option command_ok (kc_command c)) cs"
  by (simp add: companion_command_error_None list_all_iff)

lemmas create_changes = WithImage_def WithConfigYAML_def WithWait_def WithSandboxID_def WithMounts_def
  WithCopies_def WithPorts_def WithCommand_def WithBuiltinTools_def WithCompanionContainers_def WithEnvs_def
  WithLabels_def WithIdleTTL_def WithCPULimit_def WithMemoryLimit_def WithPrimaryDiskLimit_def WithGPUs_def

lemma apply_snoc:
  "applyCreateSandbox opt (options_of opts) =
     (if valid_option opt then Inr (options_of (opts @ [opt])) else applyCreateSandbox opt (options_of opts))"
  by (cases opt)
    (auto simp: create_changes options_of_def the_last_def command_ok_def empty_element_None
      companions_error_None [symmetric] simp del: first_error_None split: option.split dest: empty_element_Some)

lemma apply_invalid: "\<not> valid_option opt \<Longrightarrow> isl (applyCreateSandbox opt o')"
  by (cases opt)
    (auto simp: create_changes command_ok_def companions_error_None [symmetric] empty_element_None [of 0, symmetric]
      simp del: first_error_None split: option.split)

lemma create_options_iff:
  "create_options opts = Inr o' \<longleftrightarrow> list_all valid_option opts \<and> o' = options_of opts"
proof (induction opts arbitrary: o' rule: rev_induct)
  case Nil
  show ?case
    by (auto simp: create_options_def defaultCreateSandboxOptions_def options_of_def the_last_def)
next
  case (snoc opt opts)
  have s: "create_options (opts @ [opt]) = res_bind (create_options opts) (applyCreateSandbox opt)"
    by (simp add: create_options_def fold_result_append) (simp add: res_bind_def split: sum.splits)
  show ?case
  proof (cases "list_all valid_option opts")
    case True
    then have c: "create_options opts = Inr (options_of opts)" using snoc by blast
    show ?thesis
    proof (cases "valid_option opt")
      case valid: True
      then show ?thesis using True apply_snoc [of opt opts] by (auto simp: s c)
    next
      case False
      with apply_invalid [OF False, of "options_of opts"] show ?thesis by (auto simp: s c)
    qed
  next
    case False
    then have "create_options opts \<noteq> Inr p" for p using snoc by blast
    with False show ?thesis by (cases "create_options opts") (auto simp: s)
  qed
qed

text \<open>
  C32. The request of \<^verbatim>\<open>CreateSandbox\<close>: it is made exactly when every option is valid on its own, the port
  protocols are known, and an image or a configuration is given; then each field holds what the last option
  for it says, a field without option its default.
\<close>
theorem create_request_exact:
  "res_bind (create_options opts) create_request = Inr req \<longleftrightarrow>
     list_all valid_option opts
   \<and> (let o' = options_of opts in
        (co_image o' \<noteq> None \<or> co_config_yaml o' \<noteq> '''')
      \<and> (\<exists>ports. list_all2 (\<lambda>p pm. toProtoPortMapping p = Inr pm) (co_ports o') ports
         \<and> req = \<lparr>cr_create_spec = Some \<lparr>cs_image = valueOrEmpty (co_image o'), cs_mounts = co_mounts o',
                    cs_copies = co_copies o', cs_builtin_tools = co_builtin_tools o',
                    cs_companion_containers = map toProtoCompanionContainer (co_companions o'),
                    cs_labels = co_labels o', cs_envs = co_envs o', cs_idle_ttl = co_idle_ttl o', cs_ports = ports,
                    cs_command = co_command o', cs_cpu_limit = valueOrEmpty (co_cpu_limit o'),
                    cs_memory_limit = valueOrEmpty (co_memory_limit o'),
                    cs_disk_limit = valueOrEmpty (co_primary_disk_limit o'), cs_gpus = valueOrEmpty (co_gpus o')\<rparr>,
                  cr_sandbox_id = valueOrEmpty (co_sandbox_id o'), cr_config_yaml = co_config_yaml o'\<rparr>))"
proof -
  have spec: "create_spec_of o' ports = \<lparr>cs_image = valueOrEmpty (co_image o'), cs_mounts = co_mounts o',
      cs_copies = co_copies o', cs_builtin_tools = co_builtin_tools o',
      cs_companion_containers = map toProtoCompanionContainer (co_companions o'),
      cs_labels = co_labels o', cs_envs = co_envs o', cs_idle_ttl = co_idle_ttl o', cs_ports = ports,
      cs_command = co_command o', cs_cpu_limit = valueOrEmpty (co_cpu_limit o'),
      cs_memory_limit = valueOrEmpty (co_memory_limit o'),
      cs_disk_limit = valueOrEmpty (co_primary_disk_limit o'), cs_gpus = valueOrEmpty (co_gpus o')\<rparr>" for o' ports
    by (cases o')
      (simp add: create_spec_of_def set_if_def empty_create_spec_def valueOrEmpty_def Let_def
        toProtoCompanionContainers_def split: option.split)
  show ?thesis
    by (auto simp: res_bind_eq_Inr create_options_iff create_request_def toProtoPortMappings_Inr spec Let_def
        split: if_splits)
qed

theorem create_request_exact_witness:
  "\<exists>req spec. res_bind (create_options [OptImage ''a'', OptCreateWait True, OptImage ''b'']) create_request = Inr req
     \<and> cr_create_spec req = Some spec \<and> cs_image spec = ''b''"
proof -
  let ?opts = "[OptImage ''a'', OptCreateWait True, OptImage ''b'']"
  have o: "co_image (options_of ?opts) = Some ''b''" "co_ports (options_of ?opts) = []"
    by (simp_all add: options_of_def last_set_def the_last_def)
  have "\<exists>req. res_bind (create_options ?opts) create_request = Inr req \<and> cr_create_spec req \<noteq> None
      \<and> cs_image (the (cr_create_spec req)) = ''b''"
    unfolding create_request_exact by (simp add: o Let_def valueOrEmpty_def)
  then show ?thesis by auto
qed

section \<open>Waiting\<close>

lemma sdk_bind_Inr:
  "sdk_bind m f h = (Inr x, h') \<longleftrightarrow> (\<exists>y h1. m h = (Inr y, h1) \<and> f y h1 = (Inr x, h'))"
  by (auto simp: sdk_bind_def split: prod.splits sum.splits)

lemma sdk_simps [simp]:
  "sdk_ret x h = (Inr y, h') \<longleftrightarrow> y = x \<and> h' = h"
  "sdk_fail e h \<noteq> (Inr y, h')"
  "sdk_local r h = (Inr y, h') \<longleftrightarrow> r = Inr y \<and> h' = h"
  by (auto simp: sdk_ret_def sdk_fail_def sdk_local_def split: sum.splits)

lemma unary_Inr:
  "callWithTimeoutUnary dl t call answer h = (Inr x, h') \<longleftrightarrow>
     answer h (withTimeout dl t) = Inr x \<and> h' = h @ [(call, withTimeout dl t)]"
  by (auto simp: callWithTimeoutUnary_def Let_def split: sum.splits)

text \<open>The handle is what the last call, a \<^verbatim>\<open>GetSandbox\<close>, answered.\<close>

definition fetched :: "remote_daemon \<Rightarrow> string \<Rightarrow> client_handle \<Rightarrow> call_log \<Rightarrow> bool" where
  "fetched rd sandboxID k h' \<longleftrightarrow>
     (\<exists>h l sh. h' = h @ [(GetSandboxCall sandboxID, l)] \<and> rd_get_sandbox rd h l sandboxID = Inr (Some sh)
        \<and> toSandboxHandle (Some sh) = Inr k)"

definition exec_fetched :: "remote_daemon \<Rightarrow> string \<Rightarrow> client_exec \<Rightarrow> call_log \<Rightarrow> bool" where
  "exec_fetched rd execID k h' \<longleftrightarrow>
     (\<exists>h l e. h' = h @ [(GetExecCall execID, l)] \<and> rd_get_exec rd h l execID = Inr (Some e) \<and> toExecHandle e = k)"

lemma GetSandbox_fetched: "sdk_GetSandbox rd c dl sandboxID h = (Inr k, h') \<Longrightarrow> fetched rd sandboxID k h'"
  by (cases h') 
    (auto simp: sdk_GetSandbox_def raw_GetSandbox_def sdk_bind_Inr unary_Inr fetched_def toSandboxHandle_def
      split: option.splits)

lemma getExecSnapshot_fetched:
  "getExecSnapshot rd c dl execID h = (Inr n, h') \<Longrightarrow> exec_fetched rd execID (xn_handle n) h'"
  by (auto simp: getExecSnapshot_def raw_GetExec_def sdk_bind_Inr unary_Inr exec_fetched_def toExecSnapshot_def
      Let_def split: option.splits if_splits)

lemma wait_sandbox_loop_Some:
  "wait_sandbox_loop rd c dl sandboxID q tgt op items h = (Inr (Some k), h') \<Longrightarrow>
     kb_state k = tgt \<and> fetched rd sandboxID k h'"
proof (induction items arbitrary: h)
  case (Cons i items)
  show ?case
  proof (cases i)
    case (EventItem e)
    with Cons show ?thesis
      by (auto simp: sdk_bind_Inr split: if_splits option.splits dest: GetSandbox_fetched)
  qed (use Cons in simp)
qed simp

lemma wait_exec_loop_Some:
  "wait_exec_loop rd c dl execID q items h = (Inr (Some k), h') \<Longrightarrow>
     IsTerminal (kx_state k) \<and> exec_fetched rd execID k h'"
proof (induction items arbitrary: h)
  case (Cons i items)
  show ?case
  proof (cases i)
    case (EventItem e)
    with Cons show ?thesis
      by (auto simp: sdk_bind_Inr split: if_splits option.splits client_details.splits dest: getExecSnapshot_fetched)
  qed (use Cons in simp)
qed simp

lemma waitForSandboxState_Inr:
  assumes "waitForSandboxState rd c dl sandboxID base tgt op h = (Inr k, h')"
  shows "kb_state k = tgt \<and> (k = base \<and> h' = h \<or> fetched rd sandboxID k h')"
  using assms wait_sandbox_loop_Some
  by (auto simp: waitForSandboxState_def sdk_bind_Inr Let_def split: if_splits option.splits)

lemma waitForExecTerminal_Inr:
  assumes "waitForExecTerminal rd c dl execID sandboxID base op h = (Inr k, h')"
  shows "IsTerminal (kx_state k) \<and> (k = xn_handle base \<and> h' = h \<or> exec_fetched rd execID k h')"
  using assms wait_exec_loop_Some
  by (auto simp: waitForExecTerminal_def sdk_bind_Inr Let_def split: if_splits option.splits)

lemma change_sandbox_Inr:
  assumes "change_sandbox rd c dl call sandboxID tgt op opts h = (Inr k, h')"
  shows "fetched rd sandboxID k h' \<and> (fold applyWait opts True \<longrightarrow> kb_state k = tgt)"
  using assms
  by (auto simp: change_sandbox_def sdk_bind_Inr Let_def defaultWaitOptions_def split: if_splits
      dest: GetSandbox_fetched waitForSandboxState_Inr)


text \<open>A daemon that accepts a sandbox and reports it ready with its second event.\<close>

definition sample_handle :: "sandbox_state \<Rightarrow> seqno \<Rightarrow> sandbox_handle" where
  "sample_handle st q = \<lparr>sh_sandbox_id = ''box-1'', sh_state = st, sh_last_event_sequence = q,
     sh_companion_containers = [], sh_labels = [], sh_created_at = Some 0, sh_image = ''a'', sh_error_code = '''',
     sh_error_message = '''', sh_state_changed_at = None\<rparr>"

definition sample_event :: "event_type \<Rightarrow> sandbox_state \<Rightarrow> seqno \<Rightarrow> sandbox_event" where
  "sample_event kind st q = \<lparr>ev_event_id = ''e'', ev_sequence = q, ev_sandbox_id = ''box-1'', ev_event_type = kind,
     ev_occurred_at = 0, ev_replay = True, ev_snapshot = False, ev_sandbox_state = st, ev_details = NoDetails\<rparr>"

definition sample_daemon :: remote_daemon where
  "sample_daemon = \<lparr>rd_ping = (\<lambda>_ _. Inr (''1'', ''agboxd'')),
     rd_create_sandbox = (\<lambda>_ _ _. Inr (Some (sample_handle SANDBOX_STATE_PENDING 1))),
     rd_get_sandbox = (\<lambda>_ _ _. Inr (Some (sample_handle SANDBOX_STATE_READY 2))),
     rd_list_sandboxes = (\<lambda>_ _ _. Inr []), rd_accept = (\<lambda>_ _ _. Inr ()),
     rd_delete_sandboxes = (\<lambda>_ _ _. Inr \<lparr>ds_deleted_sandbox_ids = [], ds_deleted_count = 0\<rparr>),
     rd_dial = (\<lambda>_. None),
     rd_subscribe = (\<lambda>_ _ _ _ _. Inr \<lparr>fd_events = [Some \<lparr>we_event = sample_event SANDBOX_READY SANDBOX_STATE_READY 2,
         we_dated = True\<rparr>], fd_recv_error = None, fd_ctx_error = None\<rparr>),
     rd_create_exec = (\<lambda>_ _ _. Inl (PlainError [])), rd_get_exec = (\<lambda>_ _ _. Inr None),
     rd_list_active_execs = (\<lambda>_ _ _. Inr [])\<rparr>"

definition sample_client :: sdk_client where
  "sample_client = \<lparr>sc_timeout = 5 * second, sc_socket_path = ''/s'', sc_stream_timeout = 5 * second,
     sc_operation_timeout = defaultOperationTimeout\<rparr>"


section \<open>No change is missed\<close>

text \<open>How often a sandbox has been asked for.\<close>

definition gets :: "string \<Rightarrow> call_log \<Rightarrow> nat" where
  "gets sandboxID h = length (filter (\<lambda>e. fst e = GetSandboxCall sandboxID) h)"

lemma gets_append [simp]:
  "gets s (h @ [(c, l)]) = (if c = GetSandboxCall s then Suc (gets s h) else gets s h)"
  by (simp add: gets_def)

lemma loop_reaches_target:
  assumes "\<And>h l. rd_get_sandbox rd h l sid = Inr (Some (ans (gets sid h)))"
    and "\<And>e. e \<in> set evs \<Longrightarrow> q < ke_sequence e"
    and "\<And>i. i < length evs \<Longrightarrow> sh_state (ans (gets sid h + i)) \<noteq> SANDBOX_STATE_FAILED"
    and "\<exists>i < length evs. sh_state (ans (gets sid h + i)) = tgt"
  shows "\<exists>k h'. wait_sandbox_loop rd c dl sid q tgt op (map EventItem evs @ rest) h = (Inr (Some k), h') \<and> kb_state k = tgt"
  using assms(2-)
proof (induction evs arbitrary: h)
  case Nil
  then show ?case by simp
next
  case (Cons e evs)
  let ?l = "withTimeout dl (sc_timeout c)"
  obtain k where k: "toSandboxHandle (Some (ans (gets sid h))) = Inr k" "kb_state k = sh_state (ans (gets sid h))"
    by (simp add: toSandboxHandle_def)
  have g: "sdk_GetSandbox rd c dl sid h = (Inr k, h @ [(GetSandboxCall sid, ?l)])"
    by (simp add: sdk_GetSandbox_def raw_GetSandbox_def sdk_bind_def callWithTimeoutUnary_def assms(1) sdk_local_def k)
  have nf: "kb_state k \<noteq> SANDBOX_STATE_FAILED" using Cons.prems(2) [of 0] k(2) by simp
  have n: "\<not> ke_sequence e \<le> q" using Cons.prems(1) [of e] by (simp add: not_le)
  show ?case
  proof (cases "kb_state k = tgt")
    case True
    with n g show ?thesis by (simp add: sdk_bind_def sdk_ret_def)
  next
    case False
    have "\<exists>k' h'. wait_sandbox_loop rd c dl sid q tgt op (map EventItem evs @ rest) (h @ [(GetSandboxCall sid, ?l)])
        = (Inr (Some k'), h') \<and> kb_state k' = tgt"
    proof (rule Cons.IH)
      show "\<And>e. e \<in> set evs \<Longrightarrow> q < ke_sequence e" using Cons.prems(1) by simp
      show "sh_state (ans (gets sid (h @ [(GetSandboxCall sid, ?l)]) + i)) \<noteq> SANDBOX_STATE_FAILED" if "i < length evs" for i
        using Cons.prems(2) [of "Suc i"] that by simp
      from Cons.prems(3) obtain i where i: "i < length (e # evs)" "sh_state (ans (gets sid h + i)) = tgt" by blast
      with False k(2) obtain j where "i = Suc j" by (cases i) auto
      with i show "\<exists>i < length evs. sh_state (ans (gets sid (h @ [(GetSandboxCall sid, ?l)]) + i)) = tgt"
        by (intro exI [of _ j]) simp
    qed
    with n g False nf show ?thesis by (simp add: sdk_bind_def raiseForFailedSandbox_def)
  qed
qed

lemma feed_items_dated:
  "\<exists>evs. feed_items (map (\<lambda>e. Some \<lparr>we_event = e, we_dated = True\<rparr>) es) re ce = map EventItem evs @ feed_items [] re ce
     \<and> map ke_sequence evs = map ev_sequence es"
proof (induction es)
  case Nil
  show ?case by (intro exI [of _ "[]"]) simp
next
  case (Cons e es)
  then obtain evs where "feed_items (map (\<lambda>e. Some \<lparr>we_event = e, we_dated = True\<rparr>) es) re ce
      = map EventItem evs @ feed_items [] re ce" "map ke_sequence evs = map ev_sequence es" by blast
  moreover obtain k where "toSandboxEvent (Some \<lparr>we_event = e, we_dated = True\<rparr>) = Inr k" "ke_sequence k = ev_sequence e"
    by (simp add: toSandboxEvent_def Let_def)
  ultimately show ?case by (intro exI [of _ "k # evs"]) simp
qed

text \<open>
  C26. A wait misses no change.  Between two states the daemon can reach, a sandbox comes from the state the
  client saw to the one it waits for; the stream brings the events in between, as a subscription from the
  client's sequence number does; the sandbox never shows the state failed, and once the last of these events has been
  delivered the daemon answers with the later state.  Then the wait returns the sandbox in the state waited
  for, however the stream ends.
\<close>
theorem wait_follows_daemon:
  assumes "memory_run base d" and "box_of d sid = Some rec" and "memory_run base d'" and "box_of d' sid = Some rec'"
    and log: "sr_events rec' = sr_events rec @ es"
    and "toSandboxHandle (Some (sr_handle rec)) = Inr k0" and "sh_state (sr_handle rec') = tgt"
    and "kb_state k0 \<noteq> SANDBOX_STATE_FAILED"
    and "\<And>h. rd_dial rd h = None"
    and "\<And>h l. rd_subscribe rd h l sid (of_nat (length (sr_events rec))) False
           = Inr \<lparr>fd_events = map (\<lambda>e. Some \<lparr>we_event = e, we_dated = True\<rparr>)
                                (eventsAfter rec' (of_nat (length (sr_events rec)))),
                 fd_recv_error = re, fd_ctx_error = ce\<rparr>"
    and "\<And>h l. rd_get_sandbox rd h l sid = Inr (Some (ans (gets sid h)))"
    and "\<And>i. sh_state (ans i) \<noteq> SANDBOX_STATE_FAILED"
    and "sh_state (ans (gets sid h + length es - 1)) = tgt"
  shows "\<exists>k h'. waitForSandboxState rd c dl sid k0 tgt op h = (Inr k, h') \<and> kb_state k = tgt"
proof (cases "kb_state k0 = tgt")
  case True
  then show ?thesis by (simp add: waitForSandboxState_def sdk_ret_def)
next
  case False
  let ?n = "length (sr_events rec)"
  from assms(6) have k0: "kb_state k0 = sh_state (sr_handle rec)"
    and q: "kb_last_event_sequence k0 = sh_last_event_sequence (sr_handle rec)"
    by (auto simp: toSandboxHandle_def)
  from run_log_numbered [OF assms(1,2)] q have q: "kb_last_event_sequence k0 = of_nat ?n" by simp
  from memory_run_facts(3) [OF assms(1,2)] memory_run_facts(3) [OF assms(3,4)] False assms(7) k0
  have ne: "es \<noteq> []" using log by (auto simp: synced_def)
  have le: "?n \<le> length (sr_events rec')" using log by simp
  from subscribe_events(1) [OF assms(3,4) le] have ev: "eventsAfter rec' (of_nat ?n) = map (\<lambda>e. e\<lparr>ev_replay := True\<rparr>) es"
    by (simp add: log)
  obtain evs where items: "feed_items (map (\<lambda>e. Some \<lparr>we_event = e, we_dated = True\<rparr>) (eventsAfter rec' (of_nat ?n))) re ce
      = map EventItem evs @ feed_items [] re ce"
    and sq: "map ke_sequence evs = map ev_sequence (eventsAfter rec' (of_nat ?n))"
    using feed_items_dated by blast
  from sq ev have len: "length evs = length es" by (metis length_map)
  have newer: "of_nat ?n < ke_sequence e" if "e \<in> set evs" for e
  proof -
    from that have "ke_sequence e \<in> set (map ke_sequence evs)" by simp
    then obtain e' where "e' \<in> set (eventsAfter rec' (of_nat ?n))" "ke_sequence e = ev_sequence e'"
      unfolding sq by auto
    then show ?thesis by (auto simp: eventsAfter_def not_le)
  qed
  let ?h = "h @ [(SubscribeCall sid (of_nat ?n) False, withTimeout (withOperationTimeout c dl) (sc_stream_timeout c))]"
  have sub: "SubscribeSandboxEvents rd c (withOperationTimeout c dl) sid [OptFromSequence (of_nat ?n)] h
      = (Inr (map EventItem evs @ feed_items [] re ce, ce), ?h)"
    by (simp add: SubscribeSandboxEvents_def defaultSubscribeOptions_def consumeSandboxEvents_def assms(9,10)
        raw_Subscribe_def callWithTimeoutUnary_def items)
  have "\<exists>k h'. wait_sandbox_loop rd c (withOperationTimeout c dl) sid (of_nat ?n) tgt op
      (map EventItem evs @ feed_items [] re ce) ?h = (Inr (Some k), h') \<and> kb_state k = tgt"
  proof (rule loop_reaches_target [where ans = ans])
    show "\<exists>i < length evs. sh_state (ans (gets sid ?h + i)) = tgt"
      using ne assms(13) by (intro exI [of _ "length es - 1"]) (cases es, simp_all add: len)
  qed (use assms(11,12) newer in simp_all)
  with False assms(8) sub q show ?thesis
    by (auto simp: waitForSandboxState_def raiseForFailedSandbox_def sdk_bind_def Let_def sdk_ret_def)
qed

text \<open>A daemon that shows what the sample run shows, before and after the sandbox is ready.\<close>

definition following_daemon :: remote_daemon where
  "following_daemon = sample_daemon
     \<lparr>rd_get_sandbox := (\<lambda>_ _ _. Inr (Some (sr_handle (the (box_of run3 ''box-1''))))),
      rd_subscribe := (\<lambda>_ _ _ q _. Inr \<lparr>fd_events = map (\<lambda>e. Some \<lparr>we_event = e, we_dated = True\<rparr>)
          (eventsAfter (the (box_of run3 ''box-1'')) q), fd_recv_error = None, fd_ctx_error = None\<rparr>)\<rparr>"

theorem wait_follows_daemon_witness:
  "\<exists>rec k0 k h'. box_of run1 ''box-1'' = Some rec \<and> toSandboxHandle (Some (sr_handle rec)) = Inr k0
     \<and> kb_state k0 = SANDBOX_STATE_PENDING
     \<and> waitForSandboxState following_daemon sample_client False ''box-1'' k0 SANDBOX_STATE_READY ''create_sandbox'' []
         = (Inr k, h') \<and> kb_state k = SANDBOX_STATE_READY"
proof -
  have c: "box_of run1 ''box-1'' \<noteq> None \<and> box_of run3 ''box-1'' \<noteq> None
    \<and> sh_state (sr_handle (the (box_of run1 ''box-1''))) = SANDBOX_STATE_PENDING
    \<and> sh_state (sr_handle (the (box_of run3 ''box-1''))) = SANDBOX_STATE_READY
    \<and> take (length (sr_events (the (box_of run1 ''box-1'')))) (sr_events (the (box_of run3 ''box-1'')))
        = sr_events (the (box_of run1 ''box-1''))"
    by code_simp
  then obtain rec rec' where r: "box_of run1 ''box-1'' = Some rec" "box_of run3 ''box-1'' = Some rec'" by auto
  obtain k0 where k0: "toSandboxHandle (Some (sr_handle rec)) = Inr k0" "kb_state k0 = sh_state (sr_handle rec)"
    by (simp add: toSandboxHandle_def)
  have log: "sr_events rec' = sr_events rec @ drop (length (sr_events rec)) (sr_events rec')"
    using c r append_take_drop_id [of "length (sr_events rec)" "sr_events rec'"] by simp
  have "\<exists>k h'. waitForSandboxState following_daemon sample_client False ''box-1'' k0 SANDBOX_STATE_READY
      ''create_sandbox'' [] = (Inr k, h') \<and> kb_state k = SANDBOX_STATE_READY"
    by (rule wait_follows_daemon [OF run1_run r(1) run3_run r(2) log k0(1), where ans = "\<lambda>_. sr_handle rec'"
          and re = None and ce = None])
      (use c r k0(2) in \<open>simp_all add: following_daemon_def sample_daemon_def\<close>)
  with k0 c r show ?thesis by auto
qed

section \<open>Time limits\<close>

text \<open>Every call an operation makes has a time limit.\<close>

definition limited :: "'a sdk \<Rightarrow> bool" where
  "limited m \<longleftrightarrow> (\<forall>h r h'. m h = (r, h') \<longrightarrow> (\<exists>t. h' = h @ t \<and> Unlimited \<notin> snd ` set t))"

lemma limitedI:
  "(\<And>h r h'. m h = (r, h') \<Longrightarrow> \<exists>t. h' = h @ t \<and> Unlimited \<notin> snd ` set t) \<Longrightarrow> limited m"
  by (simp add: limited_def)

lemma limited_basic [simp]: "limited (sdk_ret x)" "limited (sdk_fail e)" "limited (sdk_local r)"
  by (auto simp: limited_def sdk_ret_def sdk_fail_def sdk_local_def split: sum.splits)

lemma limited_bind:
  assumes "limited m" and "\<And>x. limited (f x)"
  shows "limited (sdk_bind m f)"
proof (rule limitedI)
  fix h r h'
  assume b: "sdk_bind m f h = (r, h')"
  obtain r1 h1 where m: "m h = (r1, h1)" by fastforce
  with assms(1) obtain t where t: "h1 = h @ t" "Unlimited \<notin> snd ` set t" unfolding limited_def by blast
  show "\<exists>t. h' = h @ t \<and> Unlimited \<notin> snd ` set t"
  proof (cases r1)
    case (Inr x)
    with b m have "f x h1 = (r, h')" by (simp add: sdk_bind_def)
    with assms(2) obtain u where "h' = h1 @ u" "Unlimited \<notin> snd ` set u" unfolding limited_def by blast
    with t show ?thesis by (intro exI [of _ "t @ u"]) auto
  qed (use b m t in \<open>auto simp: sdk_bind_def\<close>)
qed

lemma limited_unary: "dl \<or> 0 < t \<Longrightarrow> limited (callWithTimeoutUnary dl t call answer)"
  by (auto simp: limited_def callWithTimeoutUnary_def withTimeout_def Let_def)

lemma limited_if [simp]: "limited m \<Longrightarrow> limited n \<Longrightarrow> limited (if b then m else n)"
  by simp

lemma limited_option: "limited m \<Longrightarrow> (\<And>x. limited (f x)) \<Longrightarrow> limited (case v of None \<Rightarrow> m | Some x \<Rightarrow> f x)"
  by (cases v) simp_all

lemma limited_prod: "(\<And>x y. limited (f x y)) \<Longrightarrow> limited (case v of (x, y) \<Rightarrow> f x y)"
  by (cases v) simp

definition timed :: "sdk_client \<Rightarrow> bool \<Rightarrow> bool" where
  "timed c dl \<longleftrightarrow> dl \<or> 0 < sc_timeout c \<and> 0 < sc_stream_timeout c"

lemma limited_GetSandbox: "timed c dl \<Longrightarrow> limited (sdk_GetSandbox rd c (dl \<or> b) sid)"
  by (auto simp: sdk_GetSandbox_def raw_GetSandbox_def timed_def intro!: limited_bind limited_unary)

lemma limited_snapshot: "timed c dl \<Longrightarrow> limited (getExecSnapshot rd c (dl \<or> b) x)"
  by (auto simp: getExecSnapshot_def raw_GetExec_def timed_def intro!: limited_bind limited_unary)

lemma limited_subscribe:
  assumes "timed c dl"
  shows "limited (SubscribeSandboxEvents rd c (dl \<or> b) sid opts)"
proof -
  have u: "limited (raw_Subscribe rd (dl \<or> b) (sc_stream_timeout c) sid q s)" for q s
    unfolding raw_Subscribe_def by (rule limited_unary) (use assms in \<open>auto simp: timed_def\<close>)
  have "limited (consumeSandboxEvents rd c (dl \<or> b) sid q s)" for q s
    using u [of q s]
    by (fastforce simp: limited_def consumeSandboxEvents_def split: option.splits prod.splits sum.splits)
  then show ?thesis by (auto simp: SubscribeSandboxEvents_def split: sum.split)
qed

lemma limited_loops:
  assumes "timed c dl"
  shows "limited (wait_sandbox_loop rd c (dl \<or> b) sid q tgt op items)"
    and "limited (wait_exec_loop rd c (dl \<or> b) x q items)"
proof -
  show "limited (wait_sandbox_loop rd c (dl \<or> b) sid q tgt op items)"
  proof (induction items)
    case (Cons i items)
    then show ?case
      by (cases i) (auto intro!: limited_bind limited_option limited_GetSandbox assms simp del: limited_if
          split: if_split)
  qed simp
  show "limited (wait_exec_loop rd c (dl \<or> b) x q items)"
  proof (induction items)
    case (Cons i items)
    then show ?case
      by (cases i) (auto intro!: limited_bind limited_snapshot assms split: if_split)
  qed simp
qed

lemma limited_waits:
  assumes "timed c dl"
  shows "limited (waitForSandboxState rd c dl sid base tgt op)"
    and "limited (waitForExecTerminal rd c dl x sid n op)"
  unfolding waitForSandboxState_def waitForExecTerminal_def withOperationTimeout_def Let_def
  by (intro limited_if limited_option limited_basic limited_bind limited_prod limited_subscribe limited_loops assms)+



text \<open>
  With the operation timeout turned off and no deadline of the caller's, a wait does not last as long as it takes:
  its subscription ends after the stream timeout, five seconds unless set.
\<close>

lemma unlimited_wait_is_cut:
  assumes "sc_operation_timeout c \<le> 0" and "0 < sc_stream_timeout c" and "\<And>h. rd_dial rd h = None"
    and "kb_state k \<noteq> tgt" and "kb_state k \<noteq> SANDBOX_STATE_FAILED"
  shows "\<exists>r t. waitForSandboxState rd c False sid k tgt op h
    = (r, h @ (SubscribeCall sid (kb_last_event_sequence k) False, OwnTimeout (sc_stream_timeout c)) # t)"
proof -
  let ?call = "(SubscribeCall sid (kb_last_event_sequence k) False, OwnTimeout (sc_stream_timeout c))"
  obtain items ce where s: "SubscribeSandboxEvents rd c False sid [OptFromSequence (kb_last_event_sequence k)] h
      = (Inr (items, ce), h @ [?call])"
    using assms(2,3)
    by (cases "rd_subscribe rd h (OwnTimeout (sc_stream_timeout c)) sid (kb_last_event_sequence k) False")
      (auto simp: SubscribeSandboxEvents_def defaultSubscribeOptions_def consumeSandboxEvents_def raw_Subscribe_def
        callWithTimeoutUnary_def withTimeout_def Let_def)
  have g: "\<exists>t. h' = h @ t" if "sdk_GetSandbox rd c False sid h = (r, h')" for h r h'
    using that
    by (auto simp: sdk_GetSandbox_def raw_GetSandbox_def sdk_bind_def callWithTimeoutUnary_def sdk_local_def Let_def
        split: sum.splits)
  have l: "\<exists>t. h' = h @ t" if "wait_sandbox_loop rd c False sid q tgt op items h = (r, h')" for q h r h' items
    using that
  proof (induction items arbitrary: h)
    case Nil
    then show ?case by (simp add: sdk_ret_def)
  next
    case (Cons i items)
    then show ?case
    proof (cases i)
      case (EventItem e)
      obtain r1 h1 where m: "sdk_GetSandbox rd c False sid h = (r1, h1)" by fastforce
      from g [OF m] obtain t where t: "h1 = h @ t" by blast
      show ?thesis
      proof (cases "ke_sequence e \<le> q \<or> isl r1")
        case True
        with Cons EventItem m t show ?thesis by (auto simp: sdk_bind_def split: sum.splits if_splits)
      next
        case False
        then obtain cur where "r1 = Inr cur" by (cases r1) auto
        with Cons.prems EventItem m False
        have "kb_state cur = tgt \<or> raiseForFailedSandbox cur op \<noteq> None \<Longrightarrow> h' = h1"
          "kb_state cur \<noteq> tgt \<Longrightarrow> raiseForFailedSandbox cur op = None
             \<Longrightarrow> wait_sandbox_loop rd c False sid q tgt op items h1 = (r, h')"
          by (auto simp: sdk_bind_def sdk_ret_def sdk_fail_def split: option.splits if_splits)
        with Cons.IH [of h1] t show ?thesis by fastforce
      qed
    qed (simp add: sdk_fail_def)
  qed
  obtain r1 h1 where w: "wait_sandbox_loop rd c False sid (kb_last_event_sequence k) tgt op items (h @ [?call]) = (r1, h1)"
    by fastforce
  from l [OF w] obtain t where "h1 = (h @ [?call]) @ t" by blast
  with assms(1,4,5) s w show ?thesis
    by (auto simp: waitForSandboxState_def withOperationTimeout_def raiseForFailedSandbox_def Let_def sdk_bind_def
        sdk_ret_def sdk_fail_def split: sum.splits option.splits)
qed

end
