(* ===== verification/Platform_Dirs.thy ===== *)
theory Platform_Dirs
  imports Go_Path
begin

text \<open>
  Where the daemon and the command line look for the socket, the lock, the configuration and the database
  (\<^verbatim>\<open>internal/platform/dirs.go\<close>), and the check that the daemon may program the packet filter
  (\<^verbatim>\<open>internal/platform/capability_linux.go\<close>).  The operating system, the lookup of environment variables (\<open>None\<close>
  for a nil function) and the answer of \<^verbatim>\<open>os.UserHomeDir\<close> are arguments.
\<close>

type_synonym env_lookup = "(string \<Rightarrow> string option) option"

abbreviation "AgentsSandboxDirName \<equiv> ''agents-sandbox''"
abbreviation "RuntimeDirName \<equiv> ''agbox''"

abbreviation darwin :: string where "darwin \<equiv> ''darwin''"

definition lookupEnvValue :: "env_lookup \<Rightarrow> string \<Rightarrow> string option" where
  "lookupEnvValue lookupEnv key = (case lookupEnv of None \<Rightarrow> None | Some f \<Rightarrow> f key)"

definition homeDir :: "go_error + string \<Rightarrow> string" where
  "homeDir home = (case home of Inl _ \<Rightarrow> '''' | Inr h \<Rightarrow> h)"

definition macAppSupportDir :: "go_error + string \<Rightarrow> string" where
  "macAppSupportDir home =
     (if homeDir home \<noteq> '''' then JoinPath [homeDir home, ''Library'', ''Application Support''] else '''')"

section \<open>Directories\<close>

definition configDirForGOOS :: "string \<Rightarrow> go_error + string \<Rightarrow> env_lookup \<Rightarrow> string" where
  "configDirForGOOS goos home lookupEnv =
     (case lookupEnvValue lookupEnv ''XDG_CONFIG_HOME'' of
        Some (c # cs) \<Rightarrow> c # cs
      | _ \<Rightarrow>
          if goos = darwin then macAppSupportDir home
          else if homeDir home \<noteq> '''' then JoinPath [homeDir home, ''.config'']
          else '''')"

definition dataDirForGOOS :: "string \<Rightarrow> go_error + string \<Rightarrow> env_lookup \<Rightarrow> string" where
  "dataDirForGOOS goos home lookupEnv =
     (case lookupEnvValue lookupEnv ''XDG_DATA_HOME'' of
        Some (c # cs) \<Rightarrow> c # cs
      | _ \<Rightarrow>
          if goos = darwin then macAppSupportDir home
          else if homeDir home \<noteq> '''' then JoinPath [homeDir home, ''.local'', ''share'']
          else '''')"

definition runtimeDirForGOOS :: "string \<Rightarrow> go_error + string \<Rightarrow> env_lookup \<Rightarrow> string" where
  "runtimeDirForGOOS goos home lookupEnv =
     (case lookupEnvValue lookupEnv ''XDG_RUNTIME_DIR'' of
        Some (c # cs) \<Rightarrow> c # cs
      | _ \<Rightarrow> if goos = darwin then macAppSupportDir home else '''')"

section \<open>Files\<close>

definition runtimeRootPathForGOOS ::
  "string \<Rightarrow> go_error + string \<Rightarrow> env_lookup \<Rightarrow> go_error + string" where
  "runtimeRootPathForGOOS goos home lookupEnv =
     (let runtimeDir = runtimeDirForGOOS goos home lookupEnv
      in if runtimeDir = '''' then
           (if goos = darwin then
              Inl (ErrText [Lit ''resolve runtime path: application support directory is unavailable on '', Lit goos])
            else Inl (ErrText [Lit ''resolve runtime path: XDG_RUNTIME_DIR is required on '', Lit goos]))
         else Inr (JoinPath [runtimeDir, RuntimeDirName]))"

definition socketPathForGOOS :: "string \<Rightarrow> go_error + string \<Rightarrow> env_lookup \<Rightarrow> go_error + string" where
  "socketPathForGOOS goos home lookupEnv =
     res_bind (runtimeRootPathForGOOS goos home lookupEnv) (\<lambda>runtimeRoot.
       Inr (JoinPath [runtimeRoot, ''agboxd.sock'']))"

definition lockPathForGOOS :: "string \<Rightarrow> go_error + string \<Rightarrow> env_lookup \<Rightarrow> go_error + string" where
  "lockPathForGOOS goos home lookupEnv =
     res_bind (runtimeRootPathForGOOS goos home lookupEnv) (\<lambda>runtimeRoot.
       Inr (JoinPath [runtimeRoot, ''agboxd.lock'']))"

definition configFilePathForGOOS :: "string \<Rightarrow> go_error + string \<Rightarrow> env_lookup \<Rightarrow> go_error + string" where
  "configFilePathForGOOS goos home lookupEnv =
     (let configRoot = configDirForGOOS goos home lookupEnv
      in if configRoot = '''' then
           Inl (ErrText [Lit ''resolve config path: config root is unavailable on '', Lit goos])
         else Inr (JoinPath [configRoot, AgentsSandboxDirName, ''config.toml'']))"

definition idStorePathForGOOS :: "string \<Rightarrow> go_error + string \<Rightarrow> env_lookup \<Rightarrow> go_error + string" where
  "idStorePathForGOOS goos home lookupEnv =
     (let dataRoot = dataDirForGOOS goos home lookupEnv
      in if dataRoot = '''' then
           Inl (ErrText [Lit ''resolve id store path: data root is unavailable on '', Lit goos])
         else Inr (JoinPath [dataRoot, AgentsSandboxDirName, ''ids.db'']))"

definition execLogRootForGOOS :: "string \<Rightarrow> go_error + string \<Rightarrow> env_lookup \<Rightarrow> string" where
  "execLogRootForGOOS goos home lookupEnv =
     (let dataRoot = dataDirForGOOS goos home lookupEnv
      in if dataRoot = '''' then '''' else JoinPath [dataRoot, AgentsSandboxDirName, ''exec-logs''])"

section \<open>Capabilities\<close>

text \<open>\<^verbatim>\<open>strconv.ParseUint(s, 16, 64)\<close>: the text after \<^verbatim>\<open>strconv.ParseUint: parsing "s": \<close> when it fails\<close>

definition hex_value :: "char \<Rightarrow> nat option" where
  "hex_value c =
     (let n = of_char c
      in if 48 \<le> n \<and> n \<le> 57 then Some (n - 48)
         else if 97 \<le> n \<and> n \<le> 102 then Some (n - 87)
         else if 65 \<le> n \<and> n \<le> 70 then Some (n - 55)
         else None)"

fun parse_hex :: "nat \<Rightarrow> string \<Rightarrow> string + nat" where
  "parse_hex acc [] = Inr acc"
| "parse_hex acc (c # cs) =
     (case hex_value c of
        None \<Rightarrow> Inl ''invalid syntax''
      | Some d \<Rightarrow> if 2 ^ 64 \<le> 16 * acc + d then Inl ''value out of range'' else parse_hex (16 * acc + d) cs)"

definition ParseUint16 :: "string \<Rightarrow> go_error + 64 word" where
  "ParseUint16 s =
     (case (if s = '''' then Inl ''invalid syntax'' else parse_hex 0 s) of
        Inl why \<Rightarrow> Inl (ErrText [Lit ''strconv.ParseUint: parsing '', Quoted s, Lit '': '', Lit why])
      | Inr n \<Rightarrow> Inr (of_nat n))"

abbreviation "CapEffPrefix \<equiv> ''CapEff:''"

text \<open>The loop over the lines of \<^verbatim>\<open>/proc/self/status\<close>, as the scanner splits them.\<close>

fun scan_capabilities :: "string list \<Rightarrow> go_error option" where
  "scan_capabilities [] =
     Some (ErrText [Lit ''cannot determine effective capabilities from /proc/self/status''])"
| "scan_capabilities (line # rest) =
     (if HasPrefix line CapEffPrefix then
        (case ParseUint16 (trim_space (drop (length CapEffPrefix) line)) of
           Inl err \<Rightarrow> Some (ErrText ([Lit ''parse effective capabilities: ''] @ error_text err))
         | Inr capEff \<Rightarrow>
             if bit capEff 12 then None
             else Some (ErrText [Lit ''AgentsSandbox daemon requires CAP_NET_ADMIN for sandbox network isolation.'',
                    Lit [CHR 0x0A], Lit ''Grant it with: sudo setcap cap_net_admin+ep $(which agboxd)'']))
      else scan_capabilities rest)"

definition CheckNetAdminCapability :: "go_error + string list \<Rightarrow> go_error option" where
  "CheckNetAdminCapability status =
     (case status of
        Inl err \<Rightarrow> Some (ErrText ([Lit ''cannot read /proc/self/status: ''] @ error_text err))
      | Inr lines' \<Rightarrow> scan_capabilities lines')"

end
