(* ===== verification/Cli_World.thy ===== *)
theory Cli_World
  imports Client_Calls Platform_Dirs Profile
begin

text \<open>
  The command line's surroundings (\<^verbatim>\<open>cmd/agbox\<close>): its errors and exit codes (\<^verbatim>\<open>cli_result.go\<close>), what it can do
  to the world, and the loop of a wait.

  A command is a function from what it has done so far (the calls to the daemon, what it printed, the child
  process it runs) to its outcome and the same, longer.  It \<open>Returned\<close>, it \<open>Failed\<close>, or it is \<open>Waiting\<close> for
  something that does not happen.  A wait is a Go \<^verbatim>\<open>select\<close> in a loop; which of its channels are ready, and in
  which order it takes them, is the list of \<open>picks\<close> the environment gives it.  The list ends where nothing
  happens any more.
\<close>

section \<open>Errors and exit codes\<close>

abbreviation "exitCodeSuccess \<equiv> (0 :: int)"
abbreviation "exitCodeRuntimeError \<equiv> (1 :: int)"
abbreviation "exitCodeUsageError \<equiv> (2 :: int)"

datatype command_error =
    CliError (cx_exit_code: int) (cx_err: "err_msg option") (cx_silent: bool)
  | OtherError err_msg

definition usageErrorf :: "err_msg \<Rightarrow> command_error" where
  "usageErrorf msg = CliError exitCodeUsageError (Some msg) False"

definition runtimeErrorf :: "err_msg \<Rightarrow> command_error" where
  "runtimeErrorf msg = CliError exitCodeRuntimeError (Some msg) False"

definition exitCodeError :: "int \<Rightarrow> command_error" where
  "exitCodeError code = CliError code None True"

fun command_text :: "command_error \<Rightarrow> err_msg" where
  "command_text (CliError _ (Some msg) _) = msg"
| "command_text (CliError _ None _) = []"
| "command_text (OtherError msg) = msg"

definition exitCodeForError :: "command_error option \<Rightarrow> int" where
  "exitCodeForError err =
     (case err of
        None \<Rightarrow> exitCodeSuccess
      | Some (CliError code _ _) \<Rightarrow> code
      | Some (OtherError _) \<Rightarrow> exitCodeRuntimeError)"

definition shouldPrintError :: "command_error \<Rightarrow> bool" where
  "shouldPrintError err =
     (case err of CliError _ e silent \<Rightarrow> \<not> silent \<and> e \<noteq> None | OtherError _ \<Rightarrow> True)"

section \<open>Commands\<close>

datatype os_signal = Interrupt | SIGTERM | SIGHUP | OtherSignal

datatype child_act = ChildStart "string list" | ChildSignal os_signal | ChildKill

text \<open>How a child process ended: well, with an exit code (\<open>-1\<close> when a signal ended it), or waiting for it failed.\<close>

datatype child_end = ChildOk | ChildExit int err_msg | ChildError err_msg

record cli_world =
  cw_calls :: call_log
  cw_out :: "err_msg list"
  cw_err :: "err_msg list"
  cw_child :: "child_act list"

definition fresh_world :: cli_world where
  "fresh_world = \<lparr>cw_calls = [], cw_out = [], cw_err = [], cw_child = []\<rparr>"

datatype 'a outcome = Returned 'a | Failed command_error | Waiting

type_synonym 'a cli = "cli_world \<Rightarrow> 'a outcome \<times> cli_world"

definition cli_ret :: "'a \<Rightarrow> 'a cli" where
  "cli_ret x w = (Returned x, w)"

definition cli_fail :: "command_error \<Rightarrow> 'a cli" where
  "cli_fail err w = (Failed err, w)"

definition cli_wait :: "'a cli" where
  "cli_wait w = (Waiting, w)"

definition cli_bind :: "'a cli \<Rightarrow> ('a \<Rightarrow> 'b cli) \<Rightarrow> 'b cli" where
  "cli_bind m f w =
     (case m w of
        (Returned x, w') \<Rightarrow> f x w'
      | (Failed err, w') \<Rightarrow> (Failed err, w')
      | (Waiting, w') \<Rightarrow> (Waiting, w'))"

abbreviation cli_then :: "unit cli \<Rightarrow> 'b cli \<Rightarrow> 'b cli" where
  "cli_then m k \<equiv> cli_bind m (\<lambda>_. k)"

text \<open>\<^verbatim>\<open>defer\<close>: when the body returns, well or not, the clean-up runs and what the body returned stands.\<close>

definition cli_defer :: "'a cli \<Rightarrow> unit cli \<Rightarrow> 'a cli" where
  "cli_defer body cleanup w =
     (case body w of
        (Waiting, w') \<Rightarrow> (Waiting, w')
      | (r, w') \<Rightarrow> (case cleanup w' of (Waiting, w'') \<Rightarrow> (Waiting, w'') | (_, w'') \<Rightarrow> (r, w'')))"

text \<open>The same for the failures only.\<close>

definition cli_on_failure :: "'a cli \<Rightarrow> unit cli \<Rightarrow> 'a cli" where
  "cli_on_failure body cleanup w =
     (case body w of
        (Failed err, w') \<Rightarrow> (case cleanup w' of (Waiting, w'') \<Rightarrow> (Waiting, w'') | (_, w'') \<Rightarrow> (Failed err, w''))
      | r \<Rightarrow> r)"

text \<open>A look at the surroundings, which may depend on all that happened.\<close>

definition cli_look :: "(cli_world \<Rightarrow> 'a) \<Rightarrow> 'a cli" where
  "cli_look f w = (Returned (f w), w)"

definition print_out :: "err_msg \<Rightarrow> unit cli" where
  "print_out s w = (Returned (), w\<lparr>cw_out := cw_out w @ [s]\<rparr>)"

definition print_err :: "err_msg \<Rightarrow> unit cli" where
  "print_err s w = (Returned (), w\<lparr>cw_err := cw_err w @ [s]\<rparr>)"

abbreviation newline :: fragment where "newline \<equiv> Lit [CHR 0x0A]"

fun sdk_text :: "sdk_error \<Rightarrow> err_msg" where
  "sdk_text (RpcFailed err) = ce_message err"
| "sdk_text (LocalFailed msg) = msg"

text \<open>A call to the daemon, with its error as a value or as the command's own.\<close>

definition cli_rpc :: "'a sdk \<Rightarrow> (sdk_error + 'a) cli" where
  "cli_rpc m w = (case m (cw_calls w) of (r, h) \<Rightarrow> (Returned r, w\<lparr>cw_calls := h\<rparr>))"

definition cli_call :: "string \<Rightarrow> 'a sdk \<Rightarrow> 'a cli" where
  "cli_call what m =
     cli_bind (cli_rpc m) (\<lambda>r.
       case r of
         Inl err \<Rightarrow> cli_fail (runtimeErrorf ([Lit what, Lit '': ''] @ sdk_text err))
       | Inr x \<Rightarrow> cli_ret x)"

section \<open>The surroundings\<close>

text \<open>
  What a \<^verbatim>\<open>select\<close> takes next: a result from the pump of an event stream, a signal, the end of the context, a
  timer, or the end of the child process.
\<close>

datatype pick = FromStream | FromSigint | FromSigterm | FromSignal "os_signal option" | FromContext err_msg
  | FromTimer | FromChild

datatype stat_answer = StatOk | StatNotExist err_msg | StatError err_msg

record cli_env =
  ve_goos :: string
  ve_home :: "go_error + string"
  ve_cwd :: "go_error + string"
  ve_lookup :: env_lookup
  ve_daemon :: remote_daemon
  ve_dial :: "string \<Rightarrow> go_error option"               \<comment> \<open>\<^verbatim>\<open>rawclient.New\<close>\<close>
  ve_picks :: "cli_world \<Rightarrow> pick list"
  ve_pending :: "cli_world \<Rightarrow> os_signal option"        \<comment> \<open>a signal that has arrived already\<close>
  ve_elapsed :: "cli_world \<Rightarrow> string"                  \<comment> \<open>seconds since a wait began, as printed by \<^verbatim>\<open>%.1f\<close>\<close>
  ve_stdin_tty :: bool
  ve_scanln :: "go_error + string"                       \<comment> \<open>\<^verbatim>\<open>fmt.Fscanln\<close> of standard input\<close>
  ve_stat :: "string \<Rightarrow> stat_answer"
  ve_eval_symlinks :: "string \<Rightarrow> go_error + string"
  ve_read_file :: "string \<Rightarrow> go_error + string"
  ve_getenv :: "string \<Rightarrow> string"
  ve_docker_output :: "cli_world \<Rightarrow> string list \<Rightarrow> (err_msg \<times> string) + string"
  ve_child_start :: "cli_world \<Rightarrow> string list \<Rightarrow> err_msg option"
  ve_child_wait :: "cli_world \<Rightarrow> child_end option"     \<comment> \<open>\<^verbatim>\<open>cmd.Wait\<close>; \<open>None\<close> if the child does not end\<close>
  ve_child_grace :: "cli_world \<Rightarrow> child_end option"    \<comment> \<open>the same within the grace period\<close>
  ve_random :: "nat \<Rightarrow> 8 word list"
  ve_parse_duration :: "string \<Rightarrow> go_error + duration"
  ve_yaml_image :: "string \<Rightarrow> go_error + string"       \<comment> \<open>the \<^verbatim>\<open>image\<close> of a YAML text\<close>
  ve_json_profiles :: "string \<Rightarrow> go_error + nat"       \<comment> \<open>how many \<^verbatim>\<open>profiles\<close> a JSON text has\<close>
  ve_json_token :: "string \<Rightarrow> go_error + string"       \<comment> \<open>the \<^verbatim>\<open>gateway.auth.token\<close> of a JSON text\<close>

abbreviation "streaming_timeout \<equiv> (0 :: duration)"

section \<open>Event streams\<close>

datatype stream_result = ResultEvent "wire_event option" | ResultError err_msg

text \<open>\<^verbatim>\<open>pumpSandboxEvents\<close> and \<^verbatim>\<open>pumpExecEvents\<close>: every event, then the error that ended the stream; then the channel is closed.\<close>

definition pump_results :: "event_feed \<Rightarrow> stream_result list" where
  "pump_results feed =
     map ResultEvent (fd_events feed)
     @ [ResultError (case stream_Recv_error (fd_recv_error feed) of None \<Rightarrow> [Lit ''EOF''] | Some err \<Rightarrow> sdk_text err)]"

definition event_state :: "wire_event option \<Rightarrow> sandbox_state" where
  "event_state e = (case e of None \<Rightarrow> SANDBOX_STATE_UNSPECIFIED | Some v \<Rightarrow> ev_sandbox_state (we_event v))"

text \<open>What the loop sees of a pick; the stream may have a result left or be closed.\<close>

datatype choice = GotResult stream_result | GotClosed | GotSigint | GotSigterm | GotSignal "os_signal option"
  | GotContext err_msg | GotTimer | GotChild

fun take_pick :: "pick \<Rightarrow> stream_result list \<Rightarrow> choice \<times> stream_result list" where
  "take_pick FromStream [] = (GotClosed, [])"
| "take_pick FromStream (r # rs) = (GotResult r, rs)"
| "take_pick FromSigint rs = (GotSigint, rs)"
| "take_pick FromSigterm rs = (GotSigterm, rs)"
| "take_pick (FromSignal s) rs = (GotSignal s, rs)"
| "take_pick (FromContext e) rs = (GotContext e, rs)"
| "take_pick FromTimer rs = (GotTimer, rs)"
| "take_pick FromChild rs = (GotChild, rs)"

text \<open>
  The loop: one turn either keeps the loop going with a new state or ends it.  A turn that does not have the
  channel of a pick keeps the state as it is.
\<close>

fun select_loop :: "('s \<Rightarrow> choice \<Rightarrow> ('s + 'a) cli) \<Rightarrow> 's \<Rightarrow> stream_result list \<Rightarrow> pick list \<Rightarrow> 'a cli" where
  "select_loop body s results [] = cli_wait"
| "select_loop body s results (p # ps) =
     (let (c, results') = take_pick p results
      in cli_bind (body s c) (\<lambda>r.
           case r of Inl s' \<Rightarrow> select_loop body s' results' ps | Inr x \<Rightarrow> cli_ret x))"

abbreviation stay :: "'s \<Rightarrow> ('s + 'a) cli" where "stay s \<equiv> cli_ret (Inl s)"
abbreviation leave :: "'a \<Rightarrow> ('s + 'a) cli" where "leave x \<equiv> cli_ret (Inr x)"

definition run_select ::
  "cli_env \<Rightarrow> ('s \<Rightarrow> choice \<Rightarrow> ('s + 'a) cli) \<Rightarrow> 's \<Rightarrow> event_feed \<Rightarrow> 'a cli" where
  "run_select env body s feed = cli_bind (cli_look (ve_picks env)) (select_loop body s (pump_results feed))"

section \<open>Getters\<close>

text \<open>The generated getters answer for a message that is absent.\<close>

definition zero_handle :: sandbox_handle where
  "zero_handle = \<lparr>sh_sandbox_id = '''', sh_state = SANDBOX_STATE_UNSPECIFIED, sh_last_event_sequence = 0,
     sh_companion_containers = [], sh_labels = [], sh_created_at = None, sh_image = '''', sh_error_code = '''',
     sh_error_message = '''', sh_state_changed_at = None\<rparr>"

definition get_handle :: "sandbox_handle option \<Rightarrow> sandbox_handle" where
  "get_handle h = (case h of None \<Rightarrow> zero_handle | Some s \<Rightarrow> s)"

end
