(* ===== verification/Go_Conv.thy ===== *)
theory Go_Conv
  imports Go_Match
begin

text \<open>
  What the command line and the daemon's start-up use of \<^verbatim>\<open>strings\<close>, \<^verbatim>\<open>strconv\<close>, \<^verbatim>\<open>os\<close> and \<^verbatim>\<open>encoding/json\<close>:
  splitting, numbers, the expansion of variables, and strings as JSON.
\<close>

section \<open>Numbers\<close>

text \<open>The digits as a \<^verbatim>\<open>uint64\<close>; a failure is the text \<^verbatim>\<open>strconv\<close> ends its error with.\<close>

fun parse_decimal :: "nat \<Rightarrow> string \<Rightarrow> string + nat" where
  "parse_decimal acc [] = Inr acc"
| "parse_decimal acc (c # cs) =
     (case digit_value c of
        None \<Rightarrow> Inl ''invalid syntax''
      | Some d \<Rightarrow> if 2 ^ 64 \<le> 10 * acc + d then Inl ''value out of range'' else parse_decimal (10 * acc + d) cs)"

definition unsigned_part :: "string \<Rightarrow> bool \<times> string" where
  "unsigned_part s =
     (case s of
        [] \<Rightarrow> (False, [])
      | c # cs \<Rightarrow> if c = CHR ''-'' then (True, cs) else if c = CHR ''+'' then (False, cs) else (False, s))"

text \<open>\<^verbatim>\<open>strconv.Atoi\<close>, with its 64-bit \<^verbatim>\<open>int\<close>\<close>

definition Atoi :: "string \<Rightarrow> go_error + int" where
  "Atoi s =
     (let (neg, ds) = unsigned_part s;
          fail = (\<lambda>why. Inl (ErrText [Lit ''strconv.Atoi: parsing '', Quoted s, Lit '': '', Lit why]))
      in case (if ds = '''' then Inl ''invalid syntax'' else parse_decimal 0 ds) of
           Inl why \<Rightarrow> fail why
         | Inr n \<Rightarrow>
             if \<not> neg \<and> 2 ^ 63 \<le> n \<or> neg \<and> 2 ^ 63 < n then fail ''value out of range''
             else Inr (if neg then - int n else int n))"

definition show_decimal :: "int \<Rightarrow> string" where
  "show_decimal i = (if i < 0 then CHR ''-'' # show_nat (nat (- i)) else show_nat (nat i))"

lemma parse_decimal_digits:
  "parse_digits acc s = Some n \<Longrightarrow> n < 2 ^ 64 \<Longrightarrow> parse_decimal acc s = Inr n"
proof (induction s arbitrary: acc)
  case Nil
  then show ?case by simp
next
  case (Cons c cs)
  then obtain d where d: "digit_value c = Some d" "parse_digits (10 * acc + d) cs = Some n"
    by (auto split: option.splits)
  have mono: "parse_digits a t = Some m \<Longrightarrow> a \<le> m" for a t m
    by (induction t arbitrary: a) (fastforce split: option.splits)+
  from mono [OF d(2)] Cons.prems(2) d Cons.IH [OF d(2) Cons.prems(2)] show ?case by simp
qed

lemma not_sign: "digit_value c \<noteq> None \<Longrightarrow> c \<noteq> CHR ''-'' \<and> c \<noteq> CHR ''+''"
  by (auto simp: digit_value_def)

lemma Atoi_show_nat: "n < 2 ^ 63 \<Longrightarrow> Atoi (show_nat n) = Inr (int n)"
proof -
  assume n: "n < 2 ^ 63"
  obtain c cs where s: "show_nat n = c # cs" by (cases "show_nat n") auto
  then have "digit_value c \<noteq> None" using show_nat_digits [of c n] by simp
  then have "unsigned_part (show_nat n) = (False, show_nat n)"
    using not_sign [of c] by (auto simp: unsigned_part_def s)
  moreover have "parse_decimal 0 (show_nat n) = Inr n"
    using n parse_show_nat by (intro parse_decimal_digits) auto
  ultimately show ?thesis using n by (simp add: Atoi_def)
qed

section \<open>Splitting\<close>

text \<open>\<^verbatim>\<open>strings.Cut\<close> at a separator of one byte\<close>

fun Cut :: "char \<Rightarrow> string \<Rightarrow> (string \<times> string) option" where
  "Cut sep [] = None"
| "Cut sep (c # cs) =
     (if c = sep then Some ([], cs) else map_option (\<lambda>(a, b). (c # a, b)) (Cut sep cs))"

lemma Cut_Some: "Cut sep s = Some (a, b) \<longleftrightarrow> s = a @ sep # b \<and> sep \<notin> set a"
proof (induction s arbitrary: a)
  case Nil
  then show ?case by simp
next
  case (Cons c cs)
  then show ?case by (cases a) (auto simp: split: if_splits)
qed

lemma Cut_None: "Cut sep s = None \<longleftrightarrow> sep \<notin> set s"
  by (induction s) auto

text \<open>\<^verbatim>\<open>strings.Fields\<close>: the words between runs of white space\<close>

definition space_front :: "string \<Rightarrow> nat option" where
  "space_front s = map_option length (find (\<lambda>e. prefix e s) space_encodings)"

function fields_from :: "string \<Rightarrow> string \<Rightarrow> string list" where
  "fields_from word s =
     (case s of
        [] \<Rightarrow> (if word = [] then [] else [word])
      | c # cs \<Rightarrow>
          (case space_front s of
             Some n \<Rightarrow> (if word = [] then [] else [word]) @ fields_from [] (drop (n - 1) cs)
           | None \<Rightarrow>
               let n = snd (decode_rune s) in fields_from (word @ take n s) (drop (n - 1) cs)))"
  by pat_completeness auto
termination
  by (relation "measure (\<lambda>(_, s). length s)") auto

declare fields_from.simps [simp del]

definition Fields :: "string \<Rightarrow> string list" where
  "Fields s = fields_from [] s"

lemma fields_from_nonempty: "w \<in> set (fields_from word s) \<Longrightarrow> w \<noteq> []"
proof (induction word s rule: fields_from.induct)
  case (1 word s)
  note eq = fields_from.simps [of word s]
  show ?case
  proof (cases s)
    case Nil
    with "1.prems" eq show ?thesis by (auto split: if_splits)
  next
    case (Cons c cs)
    show ?thesis
    proof (cases "space_front s")
      case None
      with eq Cons have "fields_from word s
          = fields_from (word @ take (snd (decode_rune s)) s) (drop (snd (decode_rune s) - 1) cs)"
        by (simp add: Let_def)
      with "1.prems" "1.IH"(1) [OF Cons None refl] show ?thesis by simp
    next
      case (Some n)
      with eq Cons have "fields_from word s
          = (if word = [] then [] else [word]) @ fields_from [] (drop (n - 1) cs)" by simp
      with "1.prems" "1.IH"(2) [OF Cons Some] show ?thesis by (auto split: if_splits)
    qed
  qed
qed

lemma Fields_nonempty: "w \<in> set (Fields s) \<Longrightarrow> w \<noteq> []"
  by (auto simp: Fields_def dest: fields_from_nonempty)

text \<open>\<^verbatim>\<open>strings.TrimRight\<close> of single bytes\<close>

definition TrimRight :: "char set \<Rightarrow> string \<Rightarrow> string" where
  "TrimRight cutset s = rev (dropWhile (\<lambda>c. c \<in> cutset) (rev s))"

section \<open>Case\<close>

text \<open>
  \<^verbatim>\<open>strings.ToUpper\<close> as far as it can give an ASCII name: the letters, and the two other runes whose upper
  case is a letter (dotless i and long s); every other rune stays outside ASCII.
\<close>

definition upper_char :: "char \<Rightarrow> char" where
  "upper_char c = (if CHR ''a'' \<le> c \<and> c \<le> CHR ''z'' then char_of (of_char c - 32 :: nat) else c)"

fun to_upper :: "string \<Rightarrow> string" where
  "to_upper (c # d # s) =
     (if c = CHR 0xC4 \<and> d = CHR 0xB1 then CHR ''I'' # to_upper s
      else if c = CHR 0xC5 \<and> d = CHR 0xBF then CHR ''S'' # to_upper s
      else upper_char c # to_upper (d # s))"
| "to_upper s = map upper_char s"

section \<open>Variables\<close>

definition isShellSpecialVar :: "char \<Rightarrow> bool" where
  "isShellSpecialVar c \<longleftrightarrow> c \<in> set ''*#$@!?-0123456789''"

definition isAlphaNum :: "char \<Rightarrow> bool" where
  "isAlphaNum c \<longleftrightarrow>
     (let n = of_char c :: nat
      in c = CHR ''_'' \<or> n \<in> {48..57} \<or> n \<in> {97..122} \<or> n \<in> {65..90})"

text \<open>\<^verbatim>\<open>getShellName\<close> of what follows a dollar sign: the name and how many bytes it takes\<close>

definition getShellName :: "string \<Rightarrow> string \<times> nat" where
  "getShellName s =
     (case s of
        [] \<Rightarrow> ([], 0)
      | c # cs \<Rightarrow>
          if c = CHR ''{'' then
            (case cs of
               a # CHR ''}'' # _ \<Rightarrow> if isShellSpecialVar a then ([a], 3) else
                 (case Cut (CHR ''}'') cs of
                    None \<Rightarrow> ([], 1)
                  | Some (name, _) \<Rightarrow> if name = [] then ([], 2) else (name, length name + 2))
             | _ \<Rightarrow>
                 (case Cut (CHR ''}'') cs of
                    None \<Rightarrow> ([], 1)
                  | Some (name, _) \<Rightarrow> if name = [] then ([], 2) else (name, length name + 2)))
          else if isShellSpecialVar c then ([c], 1)
          else (let name = takeWhile isAlphaNum s in (name, length name)))"

text \<open>\<^verbatim>\<open>os.Expand\<close>\<close>

function Expand :: "(string \<Rightarrow> string) \<Rightarrow> string \<Rightarrow> string" where
  "Expand mapping s =
     (case s of
        [] \<Rightarrow> []
      | c # cs \<Rightarrow>
          if c = CHR ''$'' \<and> cs \<noteq> [] then
            (let (name, w) = getShellName cs
             in (if name = [] then (if 0 < w then [] else [c]) else mapping name) @ Expand mapping (drop w cs))
          else c # Expand mapping cs)"
  by pat_completeness auto
termination
  by (relation "measure (\<lambda>(_, s). length s)") auto

declare Expand.simps [simp del]

section \<open>Strings as JSON\<close>

abbreviation backslash :: char where "backslash \<equiv> CHR 0x5C"

definition hex_digit :: "nat \<Rightarrow> char" where
  "hex_digit d = (if d < 10 then char_of (48 + d) else char_of (87 + d))"

definition hex_byte :: "nat \<Rightarrow> string" where
  "hex_byte b = [hex_digit (b div 16), hex_digit (b mod 16)]"

text \<open>One rune of \<^verbatim>\<open>json.Marshal\<close>: \<^verbatim>\<open>HTML\<close> characters, control characters, the separators and bad bytes are escaped.\<close>

definition json_rune :: "string \<Rightarrow> nat \<Rightarrow> nat \<Rightarrow> string" where
  "json_rune s r n =
     (if r = RuneError \<and> n = 1 then backslash # ''ufffd''
      else if r = 0x22 \<or> r = 0x5C then [backslash, char_of r]
      else if r = 8 then [backslash, CHR ''b''] else if r = 12 then [backslash, CHR ''f''] else if r = 10 then [backslash, CHR ''n'']
      else if r = 13 then [backslash, CHR ''r''] else if r = 9 then [backslash, CHR ''t'']
      else if r < 0x20 \<or> r = 0x3C \<or> r = 0x3E \<or> r = 0x26 then backslash # ''u00'' @ hex_byte r
      else if r = 0x2028 \<or> r = 0x2029 then backslash # ''u202'' @ [hex_digit (r mod 16)]
      else take n s)"

function json_chars :: "string \<Rightarrow> string" where
  "json_chars s =
     (case s of
        [] \<Rightarrow> []
      | c # cs \<Rightarrow> (let (r, n) = decode_rune s in json_rune s r n @ json_chars (drop (n - 1) cs)))"
  by pat_completeness auto
termination
  by (relation "measure length") auto

declare json_chars.simps [simp del]

definition json_string :: "string \<Rightarrow> string" where
  "json_string s = [CHR 0x22] @ json_chars s @ [CHR 0x22]"

text \<open>\<^verbatim>\<open>utf8.RuneCount\<close>\<close>

function RuneCount :: "string \<Rightarrow> nat" where
  "RuneCount s = (case s of [] \<Rightarrow> 0 | c # cs \<Rightarrow> 1 + RuneCount (drop (snd (decode_rune s) - 1) cs))"
  by pat_completeness auto
termination
  by (relation "measure length") auto

declare RuneCount.simps [simp del]

end
