(* ===== verification/Cli_Flags.thy ===== *)
theory Cli_Flags
  imports Cli_World Go_Conv
begin

text \<open>
  The values of flags (\<^verbatim>\<open>cmd/agbox/cmd_agent.go\<close>, \<^verbatim>\<open>cmd_sandbox.go\<close>): labels and environment variables as
  assignments, mounts, ports and copies with their colons, and the workspace.  cobra, which splits the command
  line into flags, is not in the repository; what it hands over is the argument of these functions.
\<close>

section \<open>Assignments\<close>

definition parseKeyValueAssignment :: "string \<Rightarrow> string \<Rightarrow> command_error + (string \<times> string)" where
  "parseKeyValueAssignment raw flagName =
     (case Cut (CHR ''='') raw of
        None \<Rightarrow> Inl (usageErrorf [Lit flagName, Lit '' must be in key=value form''])
      | Some (key, v) \<Rightarrow> Inr (key, v))"

definition parseLabelAssignment :: "string \<Rightarrow> command_error + (string \<times> string)" where
  "parseLabelAssignment raw = parseKeyValueAssignment raw ''--label''"

definition parse_assignments ::
  "(string \<Rightarrow> command_error + (string \<times> string)) \<Rightarrow> string list \<Rightarrow> command_error + (string, string) gomap" where
  "parse_assignments parse raws =
     fold_result (\<lambda>raw m. res_bind (parse raw) (\<lambda>(key, v). Inr (gm_set key v m))) raws []"

definition parseLabels :: "string list \<Rightarrow> command_error + (string, string) gomap" where
  "parseLabels labels = parse_assignments parseLabelAssignment labels"

text \<open>The label loop of an agent session also refuses an empty key.\<close>

definition session_label :: "string \<Rightarrow> command_error + (string \<times> string)" where
  "session_label raw =
     res_bind (parseLabelAssignment raw) (\<lambda>(key, v).
       if key = '''' then Inl (usageErrorf [Lit ''--label key must not be empty'']) else Inr (key, v))"

section \<open>Mounts, ports and copies\<close>

definition flag_error :: "string \<Rightarrow> string \<Rightarrow> err_msg \<Rightarrow> command_error" where
  "flag_error flag s msg = usageErrorf ([Lit flag, Lit '' '', Quoted s, Lit '': ''] @ msg)"

definition parseMountFlag :: "string \<Rightarrow> command_error + mount_spec" where
  "parseMountFlag s =
     (let err = flag_error ''--mount'' s; empty = err [Lit ''source and target must be non-empty'']
      in case split_char (CHR '':'') s of
           [src, tgt] \<Rightarrow>
             if src = '''' \<or> tgt = '''' then Inl empty
             else Inr \<lparr>ms_source = src, ms_target = tgt, ms_writable = False\<rparr>
         | [src, tgt, suffix'] \<Rightarrow>
             if src = '''' \<or> tgt = '''' then Inl empty
             else if suffix' \<noteq> ''writable'' then
               Inl (err [Lit ''only the literal suffix \":writable\" is supported (got '', Quoted suffix',
                         Lit ''); omit the suffix for read-only''])
             else Inr \<lparr>ms_source = src, ms_target = tgt, ms_writable = True\<rparr>
         | _ \<Rightarrow> Inl (err [Lit ''must be host:container or host:container:writable'']))"

definition parsePortNumber :: "string \<Rightarrow> string \<Rightarrow> string \<Rightarrow> command_error + int" where
  "parsePortNumber raw role full =
     (case Atoi raw of
        Inl _ \<Rightarrow> Inl (flag_error role full [Quoted raw, Lit '' is not an integer''])
      | Inr n \<Rightarrow>
          if n < 1 \<or> 65535 < n then Inl (flag_error role full [Lit (show_decimal n), Lit '' is out of range (1..65535)''])
          else Inr n)"

definition port_protocol_of :: "string \<Rightarrow> port_protocol option" where
  "port_protocol_of s =
     (let p = to_lower s
      in if p = ''tcp'' then Some PORT_PROTOCOL_TCP
         else if p = ''udp'' then Some PORT_PROTOCOL_UDP
         else if p = ''sctp'' then Some PORT_PROTOCOL_SCTP
         else None)"

definition parsePortFlag :: "string \<Rightarrow> command_error + port_mapping" where
  "parsePortFlag s =
     (let err = flag_error ''--port'' s
      in if s = '''' then Inl (usageErrorf [Lit ''--port: value must not be empty''])
         else
           res_bind (case Cut slash s of
                       None \<Rightarrow> Inr (s, ''tcp'')
                     | Some (hostContainer, protoStr) \<Rightarrow>
                         if protoStr = '''' then Inl (err [Lit ''protocol must not be empty after '', Lit [CHR 0x27, slash, CHR 0x27]])
                         else Inr (hostContainer, protoStr)) (\<lambda>(hostContainer, protoStr).
           case split_char (CHR '':'') hostContainer of
             [host, container] \<Rightarrow>
               if host = '''' \<or> container = '''' then Inl (err [Lit ''must be host:container[/proto]''])
               else
                 res_bind (parsePortNumber host ''--port host_port'' s) (\<lambda>hostPort.
                 res_bind (parsePortNumber container ''--port container_port'' s) (\<lambda>containerPort.
                 case port_protocol_of protoStr of
                   None \<Rightarrow> Inl (err [Lit ''unsupported protocol '', Quoted protoStr, Lit ''; must be tcp, udp, or sctp''])
                 | Some proto \<Rightarrow>
                     Inr \<lparr>pm_container_port = of_int containerPort, pm_host_port = of_int hostPort,
                          pm_protocol = proto\<rparr>))
           | _ \<Rightarrow> Inl (err [Lit ''must be host:container[/proto]''])))"

definition parseCopyFlag :: "string \<Rightarrow> command_error + copy_spec" where
  "parseCopyFlag s =
     (case Cut (CHR '':'') s of
        None \<Rightarrow> Inl (flag_error ''--copy'' s [Lit ''must be host:container''])
      | Some (source, target) \<Rightarrow>
          if source = '''' \<or> target = '''' then
            Inl (flag_error ''--copy'' s [Lit ''source and target must be non-empty''])
          else Inr \<lparr>cp_source = source, cp_target = target, cp_exclude_patterns = []\<rparr>)"

fun parse_each :: "(string \<Rightarrow> 'e + 'a) \<Rightarrow> string list \<Rightarrow> 'e + 'a list" where
  "parse_each parse [] = Inr []"
| "parse_each parse (raw # raws) =
     res_bind (parse raw) (\<lambda>x. res_bind (parse_each parse raws) (\<lambda>xs. Inr (x # xs)))"

section \<open>Tools\<close>

definition dedupe_one :: "string \<Rightarrow> string set \<times> string list \<Rightarrow> string set \<times> string list" where
  "dedupe_one s acc = (case acc of (seen, out) \<Rightarrow> if s \<in> seen then acc else (insert s seen, out @ [s]))"

definition dedupePreserveOrder :: "string list \<Rightarrow> string list" where
  "dedupePreserveOrder in' = (if in' = [] then [] else snd (fold dedupe_one in' ({}, [])))"

section \<open>The workspace\<close>

definition workspace_error :: "string \<Rightarrow> go_error \<Rightarrow> command_error" where
  "workspace_error workspace err =
     usageErrorf ([Lit ''--workspace path '', Quoted workspace, Lit '': ''] @ error_text err)"

definition validateWorkspacePath :: "cli_env \<Rightarrow> string \<Rightarrow> command_error + string" where
  "validateWorkspacePath env workspace =
     (case Abs (ve_cwd env) workspace of
        Inl err \<Rightarrow> Inl (workspace_error workspace err)
      | Inr absWorkspace \<Rightarrow>
     (case ve_eval_symlinks env absWorkspace of
        Inl err \<Rightarrow> Inl (workspace_error workspace err)
      | Inr realWorkspace \<Rightarrow>
          if realWorkspace = [slash] then
            Inl (usageErrorf [Lit ''--workspace rejects root directory: copying the entire filesystem is not allowed; please specify a project directory instead''])
          else
     (case ve_home env of
        Inl err \<Rightarrow> Inl (usageErrorf ([Lit ''--workspace: cannot determine home directory: ''] @ error_text err))
      | Inr homeDir' \<Rightarrow>
     (case ve_eval_symlinks env homeDir' of
        Inl err \<Rightarrow> Inl (usageErrorf ([Lit ''--workspace: cannot resolve home directory: ''] @ error_text err))
      | Inr realHome \<Rightarrow>
          if realWorkspace = realHome then
            Inl (usageErrorf [Lit ''--workspace rejects home directory: copying the entire home directory is not allowed; please specify a project directory instead''])
          else Inr realWorkspace))))"

end
