(* ===== verification/Cli_Format.thy ===== *)
theory Cli_Format
  imports Api_Types Go_Conv
begin

text \<open>
  What the command line prints of sandboxes and execs (\<^verbatim>\<open>cmd/agbox/format.go\<close>, \<^verbatim>\<open>labelsToPairs\<close> of
  \<^verbatim>\<open>cmd_sandbox.go\<close>).  The tables go through Go's \<^verbatim>\<open>text/tabwriter\<close>: a column is the cells at one place in a run
  of consecutive lines that have a cell there with a tab behind it, and is as wide as its widest cell and two
  blanks.  Protobuf strings are valid UTF-8, so the byte \<^verbatim>\<open>0xFF\<close>, special to \<^verbatim>\<open>tabwriter\<close>, does not occur.
\<close>

section \<open>State names\<close>

fun sandbox_state_name :: "sandbox_state \<Rightarrow> string" where
  "sandbox_state_name SANDBOX_STATE_UNSPECIFIED = ''SANDBOX_STATE_UNSPECIFIED''"
| "sandbox_state_name SANDBOX_STATE_PENDING = ''SANDBOX_STATE_PENDING''"
| "sandbox_state_name SANDBOX_STATE_READY = ''SANDBOX_STATE_READY''"
| "sandbox_state_name SANDBOX_STATE_FAILED = ''SANDBOX_STATE_FAILED''"
| "sandbox_state_name SANDBOX_STATE_STOPPED = ''SANDBOX_STATE_STOPPED''"
| "sandbox_state_name SANDBOX_STATE_DELETING = ''SANDBOX_STATE_DELETING''"
| "sandbox_state_name SANDBOX_STATE_DELETED = ''SANDBOX_STATE_DELETED''"

fun exec_state_name :: "exec_state \<Rightarrow> string" where
  "exec_state_name EXEC_STATE_UNSPECIFIED = ''EXEC_STATE_UNSPECIFIED''"
| "exec_state_name EXEC_STATE_RUNNING = ''EXEC_STATE_RUNNING''"
| "exec_state_name EXEC_STATE_FINISHED = ''EXEC_STATE_FINISHED''"
| "exec_state_name EXEC_STATE_FAILED = ''EXEC_STATE_FAILED''"
| "exec_state_name EXEC_STATE_CANCELLED = ''EXEC_STATE_CANCELLED''"

definition human_name :: "string \<Rightarrow> string \<Rightarrow> string" where
  "human_name pre name =
     (let name = (if HasPrefix name pre then drop (length pre) name else name)
      in if name = '''' then name else to_upper (take 1 name) @ to_lower (drop 1 name))"

definition humanStateName :: "sandbox_state \<Rightarrow> string" where
  "humanStateName state = human_name ''SANDBOX_STATE_'' (sandbox_state_name state)"

definition humanExecStateName :: "exec_state \<Rightarrow> string" where
  "humanExecStateName state = human_name ''EXEC_STATE_'' (exec_state_name state)"

section \<open>Times\<close>

text \<open>The clock, and what truncating a duration's \<^verbatim>\<open>float64\<close> count of seconds, minutes, hours and days gives.\<close>

record clock =
  ck_now :: time
  ck_seconds :: "duration \<Rightarrow> int"
  ck_minutes :: "duration \<Rightarrow> int"
  ck_hours :: "duration \<Rightarrow> int"
  ck_days :: "duration \<Rightarrow> int"

definition zero_time :: time where
  "zero_time = - 62135596800 * second"

definition Since :: "clock \<Rightarrow> time \<Rightarrow> duration" where
  "Since ck t = max (- (2 ^ 63)) (min (2 ^ 63 - 1) (ck_now ck - t))"

definition relativeAge :: "clock \<Rightarrow> time \<Rightarrow> string" where
  "relativeAge ck t =
     (if t = zero_time then ''''
      else let d = Since ck t
           in if d < minute then show_decimal (ck_seconds ck d) @ ''s''
              else if d < hour then show_decimal (ck_minutes ck d) @ ''m''
              else if d < 24 * hour then show_decimal (ck_hours ck d) @ ''h''
              else show_decimal (ck_days ck d) @ ''d'')"

definition relativeTime :: "clock \<Rightarrow> time \<Rightarrow> string" where
  "relativeTime ck t =
     (if t = zero_time then ''''
      else let d = Since ck t
           in if d < minute then show_decimal (ck_seconds ck d) @ ''s ago''
              else if d < hour then show_decimal (ck_minutes ck d) @ ''m ago''
              else if d < 24 * hour then show_decimal (ck_hours ck d) @ ''h ago''
              else show_decimal (ck_days ck d) @ ''d ago'')"

text \<open>The date of a day counted from 1970, in years that begin in March so that the leap day is the last.\<close>

definition civil_date :: "int \<Rightarrow> int \<times> int \<times> int" where
  "civil_date days =
     (let z = days + 719468;
          era = z div 146097;
          doe = z mod 146097;
          yoe = (doe - doe div 1460 + doe div 36524 - doe div 146096) div 365;
          doy = doe - (365 * yoe + yoe div 4 - yoe div 100);
          mp = (5 * doy + 2) div 153;
          d = doy - (153 * mp + 2) div 5 + 1;
          m = (if mp < 10 then mp + 3 else mp - 9)
      in (yoe + era * 400 + (if m \<le> 2 then 1 else 0), m, d))"

definition show_padded :: "nat \<Rightarrow> int \<Rightarrow> string" where
  "show_padded width i =
     (let ds = show_nat (nat \<bar>i\<bar>)
      in (if i < 0 then ''-'' else '''') @ replicate (width - length ds) (CHR ''0'') @ ds)"

text \<open>\<^verbatim>\<open>UTC().Format("2006-01-02T15:04:05Z")\<close>\<close>

definition format_utc :: "time \<Rightarrow> string" where
  "format_utc t =
     (let s = t div second;
          (y, m, d) = civil_date (s div 86400);
          r = s mod 86400
      in show_padded 4 y @ ''-'' @ show_padded 2 m @ ''-'' @ show_padded 2 d @ ''T''
         @ show_padded 2 (r div 3600) @ '':'' @ show_padded 2 (r mod 3600 div 60) @ '':''
         @ show_padded 2 (r mod 60) @ ''Z'')"

section \<open>Tables\<close>

abbreviation tab_char :: char where "tab_char \<equiv> CHR 0x09"
abbreviation newline_char :: char where "newline_char \<equiv> CHR 0x0A"
abbreviation vertical_tab :: char where "vertical_tab \<equiv> CHR 0x0B"
abbreviation form_feed :: char where "form_feed \<equiv> CHR 0x0C"

definition has_column :: "nat \<Rightarrow> string list \<Rightarrow> bool" where
  "has_column j line \<longleftrightarrow> Suc j < length line"

definition column_run :: "string list list \<Rightarrow> nat \<Rightarrow> nat \<Rightarrow> string list list" where
  "column_run rows i j =
     takeWhile (has_column j) (rev (take i rows)) @ takeWhile (has_column j) (drop i rows)"

definition column_width :: "string list list \<Rightarrow> nat \<Rightarrow> nat \<Rightarrow> nat" where
  "column_width rows i j = foldr (\<lambda>row. max (RuneCount (row ! j) + 2)) (column_run rows i j) 0"

definition table_cell :: "string list list \<Rightarrow> nat \<Rightarrow> nat \<Rightarrow> string" where
  "table_cell rows i j =
     (let cell = rows ! i ! j
      in if has_column j (rows ! i)
         then cell @ replicate (column_width rows i j - RuneCount cell) (CHR '' '') else cell)"

definition table_line :: "string list list \<Rightarrow> nat \<Rightarrow> string" where
  "table_line rows i = concat (map (table_cell rows i) [0..<length (rows ! i)]) @ [newline_char]"

definition table_section :: "string list list \<Rightarrow> string" where
  "table_section rows = concat (map (table_line rows) [0..<length rows])"

definition cells_of :: "string \<Rightarrow> string list" where
  "cells_of line = split_char tab_char (map (\<lambda>c. if c = vertical_tab then tab_char else c) line)"

text \<open>The writer's output for a text that ends with a line: a form feed ends the line and all columns.\<close>

definition tabwriter :: "string \<Rightarrow> string" where
  "tabwriter text =
     (let sections = map (split_char newline_char) (split_char form_feed text)
      in concat (map (\<lambda>rows. table_section (map cells_of rows)) (butlast sections @ [butlast (last sections)])))"

section \<open>Labels\<close>

definition labelsToPairs :: "(string, string) gomap \<Rightarrow> string list" where
  "labelsToPairs labels =
     map (\<lambda>key. key @ ''='' @ (case gm_get labels key of None \<Rightarrow> '''' | Some v \<Rightarrow> v)) (sort (map fst labels))"

definition formatStringMapJSON :: "(string, string) gomap \<Rightarrow> string" where
  "formatStringMapJSON values =
     (if values = [] then ''{}''
      else ''{'' @ join_with '','' (map (\<lambda>key. json_string key @ '':''
             @ json_string (case gm_get values key of None \<Rightarrow> '''' | Some v \<Rightarrow> v)) (sort (map fst values))) @ ''}'')"

section \<open>Sandboxes and execs\<close>

definition sandbox_row :: "clock \<Rightarrow> sandbox_handle \<Rightarrow> string list" where
  "sandbox_row ck handle =
     [sh_sandbox_id handle,
      (case sh_created_at handle of None \<Rightarrow> '''' | Some ts \<Rightarrow> relativeTime ck ts),
      humanStateName (sh_state handle)
        @ (case sh_state_changed_at handle of None \<Rightarrow> '''' | Some ts \<Rightarrow> '' '' @ relativeAge ck ts),
      join_with '','' (labelsToPairs (sh_labels handle)),
      sh_error_message handle]"

definition text_row :: "string list \<Rightarrow> string" where
  "text_row cells = join_with [tab_char] cells @ [newline_char]"

definition formatSandboxListTable :: "clock \<Rightarrow> sandbox_handle list \<Rightarrow> string" where
  "formatSandboxListTable ck handles =
     tabwriter (concat (map text_row
       ([''SANDBOX ID'', ''CREATED'', ''STATUS'', ''LABELS'', ''ERROR''] # map (sandbox_row ck) handles)))"

definition field_line :: "string \<Rightarrow> string \<Rightarrow> string" where
  "field_line name v = name @ ''='' @ v @ [newline_char]"

definition formatSandboxHandleText :: "sandbox_handle \<Rightarrow> string" where
  "formatSandboxHandleText handle =
     (let createdAt = (case sh_created_at handle of None \<Rightarrow> '''' | Some ts \<Rightarrow> format_utc ts)
      in field_line ''sandbox_id'' (sh_sandbox_id handle)
         @ field_line ''state'' (humanStateName (sh_state handle))
         @ field_line ''image'' (sh_image handle)
         @ field_line ''created_at'' createdAt
         @ (if sh_labels handle \<noteq> [] then field_line ''labels'' (formatStringMapJSON (sh_labels handle)) else '''')
         @ (if sh_error_code handle \<noteq> '''' then
              field_line ''error_code'' (sh_error_code handle)
              @ field_line ''error_message'' (sh_error_message handle) else ''''))"

definition isTerminalExecState :: "exec_state \<Rightarrow> bool" where
  "isTerminalExecState state \<longleftrightarrow> state \<in> {EXEC_STATE_FINISHED, EXEC_STATE_FAILED, EXEC_STATE_CANCELLED}"

definition formatExecStatusText :: "exec_status \<Rightarrow> string" where
  "formatExecStatusText status =
     field_line ''exec_id'' (es_exec_id status)
     @ field_line ''sandbox_id'' (es_sandbox_id status)
     @ field_line ''state'' (humanExecStateName (es_state status))
     @ field_line ''command'' (join_with '' '' (es_command status))
     @ (if es_cwd status \<noteq> '''' then field_line ''cwd'' (es_cwd status) else '''')
     @ (if isTerminalExecState (es_state status) then field_line ''exit_code'' (show_decimal (es_exit_code status)) else '''')
     @ (if es_error status \<noteq> '''' then field_line ''error'' (es_error status) else '''')"

definition exec_row :: "exec_status \<Rightarrow> string list" where
  "exec_row e =
     [es_exec_id e, es_sandbox_id e, humanExecStateName (es_state e), join_with '' '' (es_command e)]"

definition formatExecListTable :: "exec_status list \<Rightarrow> string" where
  "formatExecListTable execs =
     tabwriter (concat (map text_row ([''EXEC ID'', ''SANDBOX ID'', ''STATE'', ''COMMAND''] # map exec_row execs)))"

end
