(* ===== verification/Cli_Sandbox.thy ===== *)
theory Cli_Sandbox
  imports Cli_World Cli_Format
begin

text \<open>
  The commands \<^verbatim>\<open>agbox sandbox ...\<close> once their flags are read (\<^verbatim>\<open>cmd/agbox/sandbox.go\<close>), and the waits of a session
  (\<^verbatim>\<open>waitForSandboxReady\<close> and \<^verbatim>\<open>deleteAndWait\<close> of \<^verbatim>\<open>agent_session.go\<close>).  \<open>rc\<close> is the raw client, which is its
  timeout.  \<^verbatim>\<open>writeProtoJSON\<close> is a parameter of what prints JSON.
\<close>

section \<open>Names and errors\<close>

text \<open>\<^verbatim>\<open>strings.NewReplacer\<close> with pairs of single bytes replaces byte by byte.\<close>

definition sanitizeContainerName :: "string \<Rightarrow> string" where
  "sanitizeContainerName s =
     map (\<lambda>c. if c = slash \<or> c = backslash \<or> c = CHR '':'' \<or> c = CHR '' '' \<or> c = CHR ''.'' then CHR ''-'' else c) s"

definition primaryContainerName :: "string \<Rightarrow> string" where
  "primaryContainerName sandboxID = ''agbox-primary-'' @ sanitizeContainerName sandboxID"

definition sandboxErrorDetail :: "sandbox_handle \<Rightarrow> err_msg" where
  "sandboxErrorDetail sandbox =
     (if sh_error_message sandbox \<noteq> '''' then [Lit (sh_error_message sandbox)]
      else if sh_error_code sandbox \<noteq> '''' then [Lit (sh_error_code sandbox)]
      else [Lit ''unknown error''])"

definition failed_text :: "string \<Rightarrow> err_msg \<Rightarrow> err_msg" where
  "failed_text sandboxID detail = [Lit ''sandbox '', Lit sandboxID, Lit '' failed: ''] @ detail"

definition sandboxFailedError :: "cli_env \<Rightarrow> duration \<Rightarrow> string \<Rightarrow> command_error cli" where
  "sandboxFailedError env rc sandboxID =
     cli_bind (cli_rpc (raw_GetSandbox (ve_daemon env) False rc sandboxID)) (\<lambda>r.
       cli_ret (case r of
         Inl err \<Rightarrow> runtimeErrorf ([Lit ''sandbox '', Lit sandboxID, Lit '' failed (could not fetch details: '']
                      @ sdk_text err @ [Lit '')''])
       | Inr h \<Rightarrow> runtimeErrorf (failed_text sandboxID (sandboxErrorDetail (get_handle h)))))"

section \<open>Waiting for a state\<close>

datatype state_verdict = KeepWaiting | Reached

text \<open>A classifier may ask for the detail of a failure, which may be a call of its own.\<close>

type_synonym state_classifier = "sandbox_state \<Rightarrow> string \<Rightarrow> err_msg cli \<Rightarrow> state_verdict cli"

definition classifyDeleted :: state_classifier where
  "classifyDeleted state sandboxID detail =
     (if state = SANDBOX_STATE_DELETED then cli_ret Reached else cli_ret KeepWaiting)"

definition classify_failed :: "string \<Rightarrow> err_msg cli \<Rightarrow> state_verdict cli" where
  "classify_failed sandboxID detail = cli_bind detail (\<lambda>msg. cli_fail (runtimeErrorf (failed_text sandboxID msg)))"

definition classifyStopped :: state_classifier where
  "classifyStopped state sandboxID detail =
     (if state = SANDBOX_STATE_STOPPED then cli_ret Reached
      else if state = SANDBOX_STATE_FAILED then classify_failed sandboxID detail
      else if state = SANDBOX_STATE_DELETED then
        cli_fail (runtimeErrorf [Lit ''sandbox '', Lit sandboxID, Lit '' was deleted while waiting for stop''])
      else cli_ret KeepWaiting)"

definition classifyResumed :: state_classifier where
  "classifyResumed state sandboxID detail =
     (if state = SANDBOX_STATE_READY then cli_ret Reached
      else if state = SANDBOX_STATE_FAILED then classify_failed sandboxID detail
      else if state = SANDBOX_STATE_DELETED then
        cli_fail (runtimeErrorf [Lit ''sandbox '', Lit sandboxID, Lit '' was deleted while waiting for resume''])
      else cli_ret KeepWaiting)"

text \<open>The detail of a failure seen in an event: the sandbox is asked for afresh.\<close>

definition fetched_detail :: "cli_env \<Rightarrow> duration \<Rightarrow> string \<Rightarrow> err_msg cli" where
  "fetched_detail env rc sandboxID =
     cli_bind (cli_rpc (raw_GetSandbox (ve_daemon env) False rc sandboxID)) (\<lambda>r.
       cli_ret (case r of
         Inl err \<Rightarrow> [Lit ''could not fetch details: ''] @ sdk_text err
       | Inr h \<Rightarrow> sandboxErrorDetail (get_handle h)))"

definition state_turn ::
  "cli_env \<Rightarrow> duration \<Rightarrow> string \<Rightarrow> state_classifier \<Rightarrow> unit \<Rightarrow> choice \<Rightarrow> (unit + unit) cli" where
  "state_turn env rc sandboxID classify s c =
     (case c of
        GotClosed \<Rightarrow> cli_fail (runtimeErrorf [Lit ''sandbox event stream closed unexpectedly''])
      | GotResult (ResultError err) \<Rightarrow> cli_fail (runtimeErrorf ([Lit ''wait for sandbox state: ''] @ err))
      | GotResult (ResultEvent event) \<Rightarrow>
          cli_bind (classify (event_state event) sandboxID (fetched_detail env rc sandboxID)) (\<lambda>verdict.
            if verdict = Reached then leave () else stay s)
      | GotContext err \<Rightarrow> cli_fail (runtimeErrorf ([Lit ''wait for sandbox state: ''] @ err))
      | _ \<Rightarrow> stay s)"

definition cli_waitForSandboxState ::
  "cli_env \<Rightarrow> duration \<Rightarrow> string \<Rightarrow> state_classifier \<Rightarrow> unit cli" where
  "cli_waitForSandboxState env rc sandboxID classify =
     cli_bind (cli_call ''get sandbox'' (raw_GetSandbox (ve_daemon env) False rc sandboxID)) (\<lambda>h.
     let sandbox = get_handle h
     in cli_bind (classify (sh_state sandbox) sandboxID (cli_ret (sandboxErrorDetail sandbox))) (\<lambda>verdict.
        if verdict = Reached then cli_ret ()
        else
          cli_bind (cli_call ''subscribe sandbox events''
            (raw_Subscribe (ve_daemon env) False rc sandboxID (sh_last_event_sequence sandbox) False)) (\<lambda>feed.
          run_select env (state_turn env rc sandboxID classify) () feed)))"

section \<open>Waiting for a session's sandbox\<close>

definition not_ready_error :: "string \<Rightarrow> sandbox_state \<Rightarrow> command_error" where
  "not_ready_error sandboxID state =
     runtimeErrorf [Lit ''sandbox '', Lit sandboxID, Lit '' entered '', Lit (humanStateName state), Lit '' state before ready'']"

text \<open>\<open>signals\<close>: whether the caller passed channels for signals\<close>

definition ready_turn :: "cli_env \<Rightarrow> duration \<Rightarrow> string \<Rightarrow> bool \<Rightarrow> unit \<Rightarrow> choice \<Rightarrow> (unit + unit) cli" where
  "ready_turn env rc sandboxID signals s c =
     (case c of
        GotSigint \<Rightarrow> if signals then cli_fail (exitCodeError 130) else stay s
      | GotSigterm \<Rightarrow> if signals then cli_fail (exitCodeError 143) else stay s
      | GotClosed \<Rightarrow> cli_fail (runtimeErrorf [Lit ''sandbox event stream closed unexpectedly''])
      | GotResult (ResultError err) \<Rightarrow> cli_fail (runtimeErrorf ([Lit ''wait for sandbox ready: ''] @ err))
      | GotResult (ResultEvent event) \<Rightarrow>
          (let state = event_state event
           in if state = SANDBOX_STATE_READY then leave ()
              else if state = SANDBOX_STATE_FAILED then cli_bind (sandboxFailedError env rc sandboxID) cli_fail
              else if state \<in> {SANDBOX_STATE_STOPPED, SANDBOX_STATE_DELETED}
              then cli_fail (not_ready_error sandboxID state)
              else stay s)
      | GotContext err \<Rightarrow> cli_fail (runtimeErrorf ([Lit ''wait for sandbox ready: ''] @ err))
      | _ \<Rightarrow> stay s)"

definition waitForSandboxReady :: "cli_env \<Rightarrow> duration \<Rightarrow> string \<Rightarrow> seqno \<Rightarrow> bool \<Rightarrow> unit cli" where
  "waitForSandboxReady env rc sandboxID lastEventSeq signals =
     cli_bind (cli_call ''get sandbox'' (raw_GetSandbox (ve_daemon env) False rc sandboxID)) (\<lambda>h.
     let sandbox = get_handle h; state = sh_state sandbox
     in if state = SANDBOX_STATE_READY then cli_ret ()
        else if state = SANDBOX_STATE_FAILED
        then cli_fail (runtimeErrorf (failed_text sandboxID (sandboxErrorDetail sandbox)))
        else if state \<in> {SANDBOX_STATE_STOPPED, SANDBOX_STATE_DELETED} then cli_fail (not_ready_error sandboxID state)
        else
          (let cursorSeq = (if sh_last_event_sequence sandbox < lastEventSeq then lastEventSeq
                            else sh_last_event_sequence sandbox)
           in cli_bind (cli_call ''subscribe sandbox events''
                (raw_Subscribe (ve_daemon env) False rc sandboxID cursorSeq False)) (\<lambda>feed.
              run_select env (ready_turn env rc sandboxID signals) () feed)))"

definition warning :: "err_msg \<Rightarrow> err_msg" where
  "warning msg = [Lit ''warning: ''] @ msg @ [newline]"

definition cleanup_turn :: "string \<Rightarrow> unit \<Rightarrow> choice \<Rightarrow> (unit + unit) cli" where
  "cleanup_turn sandboxID s c =
     (let note = (\<lambda>msg. cli_then (print_err msg) (leave ()))
      in case c of
        GotClosed \<Rightarrow> note (warning [Lit ''sandbox event stream closed before sandbox '', Lit sandboxID, Lit '' was deleted''])
      | GotResult (ResultError err) \<Rightarrow>
          note (warning ([Lit ''sandbox cleanup event error '', Lit sandboxID, Lit '': ''] @ err))
      | GotResult (ResultEvent event) \<Rightarrow>
          (let state = event_state event
           in if state = SANDBOX_STATE_DELETED then note [Lit ''Sandbox '', Lit sandboxID, Lit '' cleaned up.'', newline]
              else if state = SANDBOX_STATE_FAILED
              then note (warning [Lit ''sandbox '', Lit sandboxID, Lit '' failed during cleanup''])
              else stay s)
      | GotTimer \<Rightarrow> note (warning [Lit ''timed out waiting for sandbox '', Lit sandboxID, Lit '' to be deleted''])
      | _ \<Rightarrow> stay s)"

definition deleteAndWait :: "cli_env \<Rightarrow> duration \<Rightarrow> string \<Rightarrow> unit cli" where
  "deleteAndWait env rc sandboxID =
     cli_bind (cli_rpc (raw_DeleteSandbox (ve_daemon env) False rc sandboxID)) (\<lambda>r.
     case r of
       Inl err \<Rightarrow> print_err (warning ([Lit ''delete sandbox '', Lit sandboxID, Lit '': ''] @ sdk_text err))
     | Inr () \<Rightarrow>
     cli_bind (cli_rpc (raw_GetSandbox (ve_daemon env) False rc sandboxID)) (\<lambda>r.
     case r of
       Inl err \<Rightarrow> print_err (warning ([Lit ''get sandbox after delete '', Lit sandboxID, Lit '': ''] @ sdk_text err))
     | Inr h \<Rightarrow>
     (let sandbox = get_handle h
      in if sh_state sandbox = SANDBOX_STATE_DELETED
         then print_err [Lit ''Sandbox '', Lit sandboxID, Lit '' cleaned up.'', newline]
         else if sh_state sandbox = SANDBOX_STATE_FAILED
         then print_err (warning [Lit ''sandbox '', Lit sandboxID, Lit '' failed to clean up''])
         else
     cli_bind (cli_rpc (raw_Subscribe (ve_daemon env) False rc sandboxID (sh_last_event_sequence sandbox) False)) (\<lambda>r.
     case r of
       Inl err \<Rightarrow>
         print_err (warning ([Lit ''subscribe sandbox events for cleanup '', Lit sandboxID, Lit '': ''] @ sdk_text err))
     | Inr feed \<Rightarrow> run_select env (cleanup_turn sandboxID) () feed))))"

section \<open>The commands\<close>

datatype printed_message = CreatedMessage "sandbox_handle option" | ListMessage "sandbox_handle list"
  | SandboxMessage "sandbox_handle option" | ExecMessage "exec_status option" | ExecsMessage "exec_status list"

type_synonym json_writer = "printed_message \<Rightarrow> go_error + string"

definition print_json :: "json_writer \<Rightarrow> string \<Rightarrow> printed_message \<Rightarrow> unit cli" where
  "print_json wr what msg =
     (case wr msg of
        Inl err \<Rightarrow> cli_fail (runtimeErrorf ([Lit ''format '', Lit what, Lit '' response: ''] @ error_text err))
      | Inr data \<Rightarrow> print_out [Lit data, newline])"

definition print_elapsed :: "cli_env \<Rightarrow> err_msg \<Rightarrow> err_msg \<Rightarrow> unit cli" where
  "print_elapsed env before after =
     cli_bind (cli_look (ve_elapsed env)) (\<lambda>elapsed. print_err (before @ [Lit elapsed] @ after))"

text \<open>Waiting with a line that is left open: a failure closes it.\<close>

definition announced_wait :: "err_msg \<Rightarrow> unit cli \<Rightarrow> unit cli" where
  "announced_wait msg m = cli_then (print_err msg) (cli_on_failure m (print_err [newline]))"

record sandbox_create_args =
  ca_image :: string
  ca_labels :: "(string, string) gomap"
  ca_idle_ttl :: "duration option"
  ca_json :: bool
  ca_config_yaml :: string
  ca_sandbox_id :: string

definition runSandboxCreate ::
  "cli_env \<Rightarrow> json_writer \<Rightarrow> duration \<Rightarrow> sandbox_create_args \<Rightarrow> unit cli" where
  "runSandboxCreate env wr rc parsed =
     (let createSpec = empty_create_spec\<lparr>cs_image := ca_image parsed, cs_labels := ca_labels parsed,
            cs_idle_ttl := ca_idle_ttl parsed\<rparr>
      in cli_bind (cli_call ''create sandbox'' (raw_CreateSandbox (ve_daemon env) False rc
            \<lparr>cr_create_spec = Some createSpec, cr_sandbox_id = ca_sandbox_id parsed,
             cr_config_yaml = ca_config_yaml parsed\<rparr>)) (\<lambda>response.
         let sandbox = get_handle response; sandboxID = sh_sandbox_id sandbox
         in if ca_json parsed then print_json wr ''create sandbox'' (CreatedMessage response)
            else
              cli_then (announced_wait [Lit ''Waiting for sandbox '', Lit sandboxID, Lit '' to be ready...'']
                (waitForSandboxReady env rc sandboxID (sh_last_event_sequence sandbox) False))
              (cli_then (print_elapsed env [newline, Lit ''Sandbox ready in ''] [Lit ''s.'', newline])
              (cli_then (print_err [Lit ''  Open a shell:       docker exec -it --user agbox '',
                 Lit (primaryContainerName sandboxID), Lit '' bash'', newline])
              (print_err [Lit ''  Delete sandbox:     agbox sandbox delete '', Lit sandboxID, newline])))))"

definition runSandboxList ::
  "cli_env \<Rightarrow> json_writer \<Rightarrow> clock \<Rightarrow> duration \<Rightarrow> bool \<Rightarrow> (string, string) gomap \<Rightarrow> bool \<Rightarrow> unit cli" where
  "runSandboxList env wr ck rc includeDeleted labels json =
     cli_bind (cli_call ''list sandboxes'' (raw_ListSandboxes (ve_daemon env) False rc
        (Some \<lparr>ls_include_deleted = includeDeleted, ls_label_selector = labels\<rparr>))) (\<lambda>response.
     if json then print_json wr ''list sandboxes'' (ListMessage response)
     else print_out [Lit (formatSandboxListTable ck response)])"

definition runSandboxGet :: "cli_env \<Rightarrow> json_writer \<Rightarrow> duration \<Rightarrow> string \<Rightarrow> bool \<Rightarrow> unit cli" where
  "runSandboxGet env wr rc sandboxID json =
     cli_bind (cli_call ''get sandbox'' (raw_GetSandbox (ve_daemon env) False rc sandboxID)) (\<lambda>response.
     if json then print_json wr ''get sandbox'' (SandboxMessage response)
     else print_out [Lit (formatSandboxHandleText (get_handle response))])"

definition deleteSingleSandbox :: "cli_env \<Rightarrow> duration \<Rightarrow> string \<Rightarrow> unit cli" where
  "deleteSingleSandbox env rc sandboxID =
     cli_then (cli_call ''delete sandbox'' (raw_DeleteSandbox (ve_daemon env) False rc sandboxID))
     (cli_then (print_err [Lit ''Waiting for sandbox '', Lit sandboxID, Lit '' to be deleted...'', newline])
     (cli_then (cli_waitForSandboxState env rc sandboxID classifyDeleted)
     (print_elapsed env [Lit ''Sandbox deleted in ''] [Lit ''s.'', newline])))"

fun wait_all_deleted :: "cli_env \<Rightarrow> duration \<Rightarrow> string list \<Rightarrow> unit cli" where
  "wait_all_deleted env rc [] = cli_ret ()"
| "wait_all_deleted env rc (sandboxID # ids) =
     cli_then (cli_waitForSandboxState env rc sandboxID classifyDeleted) (wait_all_deleted env rc ids)"

definition deleteSandboxesByLabel :: "cli_env \<Rightarrow> duration \<Rightarrow> (string, string) gomap \<Rightarrow> unit cli" where
  "deleteSandboxesByLabel env rc labels =
     cli_bind (cli_call ''delete sandboxes'' (raw_DeleteSandboxes (ve_daemon env) False rc labels)) (\<lambda>response.
     let ids = ds_deleted_sandbox_ids response; n = Lit (show_nat (length ids))
     in if ids = [] then print_err [Lit ''No sandboxes matched the label selector.'', newline]
        else
          cli_then (print_err [Lit ''Waiting for '', n, Lit '' sandbox(es) to be deleted...'', newline])
          (cli_then (wait_all_deleted env rc ids)
          (print_elapsed env [n, Lit '' sandbox(es) deleted in ''] [Lit ''s.'', newline])))"

definition runSandboxDelete ::
  "cli_env \<Rightarrow> duration \<Rightarrow> string \<Rightarrow> (string, string) gomap \<Rightarrow> unit cli" where
  "runSandboxDelete env rc sandboxID labels =
     (if sandboxID \<noteq> '''' \<and> labels \<noteq> [] then
        cli_fail (usageErrorf [Lit ''sandbox delete <sandbox_id> and --label are mutually exclusive''])
      else if sandboxID = '''' \<and> labels = [] then
        cli_fail (usageErrorf [Lit ''sandbox delete requires <sandbox_id> or at least one --label''])
      else if sandboxID \<noteq> '''' then deleteSingleSandbox env rc sandboxID
      else deleteSandboxesByLabel env rc labels)"

definition runSandboxStop :: "cli_env \<Rightarrow> duration \<Rightarrow> string \<Rightarrow> unit cli" where
  "runSandboxStop env rc sandboxID =
     cli_then (cli_call ''stop sandbox'' (raw_StopSandbox (ve_daemon env) False rc sandboxID))
     (cli_then (announced_wait [Lit ''Waiting for sandbox '', Lit sandboxID, Lit '' to be stopped...'']
        (cli_waitForSandboxState env rc sandboxID classifyStopped))
     (print_elapsed env [newline, Lit ''Sandbox stopped in ''] [Lit ''s.'', newline]))"

definition runSandboxResume :: "cli_env \<Rightarrow> duration \<Rightarrow> string \<Rightarrow> unit cli" where
  "runSandboxResume env rc sandboxID =
     cli_then (cli_call ''resume sandbox'' (raw_ResumeSandbox (ve_daemon env) False rc sandboxID))
     (cli_then (announced_wait [Lit ''Waiting for sandbox '', Lit sandboxID, Lit '' to be resumed...'']
        (cli_waitForSandboxState env rc sandboxID classifyResumed))
     (print_elapsed env [newline, Lit ''Sandbox resumed in ''] [Lit ''s.'', newline]))"

end
