(* ===== verification/Cli_Exec.thy ===== *)
theory Cli_Exec
  imports Cli_Sandbox
begin

text \<open>
  The commands \<^verbatim>\<open>agbox exec ...\<close> (\<^verbatim>\<open>cmd/agbox/exec.go\<close>, \<^verbatim>\<open>sandbox_exec.go\<close>): running a command with the signals of the
  terminal passed on as a cancellation, and the exit code the command line ends with.
\<close>

section \<open>States and exit codes\<close>

definition requireExecStatus :: "exec_status option \<Rightarrow> string \<Rightarrow> err_msg + exec_status" where
  "requireExecStatus response execID =
     (case response of
        None \<Rightarrow> Inl [Lit ''exec '', Lit execID, Lit '' is missing from GetExec response'']
      | Some e \<Rightarrow> Inr e)"

definition execExitCode :: "exec_state \<Rightarrow> int \<Rightarrow> int \<Rightarrow> int" where
  "execExitCode state exitCode signalCode =
     (if signalCode \<noteq> 0 then signalCode
      else if state = EXEC_STATE_FINISHED then exitCode
      else if state = EXEC_STATE_FAILED then (if exitCode \<noteq> 0 then exitCode else 125)
      else 125)"

definition exitCodeForSignal :: "os_signal \<Rightarrow> int" where
  "exitCodeForSignal sig = (if sig = Interrupt then 130 else if sig = SIGTERM then 143 else 125)"

definition peekExecSignal :: "cli_env \<Rightarrow> cli_world \<Rightarrow> int option" where
  "peekExecSignal env w = map_option exitCodeForSignal (ve_pending env w)"

text \<open>\<^verbatim>\<open>GetExec\<close> and the check of its response, as every wait does it.\<close>

definition get_exec :: "cli_env \<Rightarrow> duration \<Rightarrow> string \<Rightarrow> string \<Rightarrow> exec_status cli" where
  "get_exec env rc what execID =
     cli_bind (cli_call what (raw_GetExec (ve_daemon env) False rc execID)) (\<lambda>response.
     case requireExecStatus response execID of
       Inl msg \<Rightarrow> cli_fail (runtimeErrorf ([Lit what, Lit '': ''] @ msg))
     | Inr status \<Rightarrow> cli_ret status)"

definition is_already_terminal :: "sdk_error \<Rightarrow> bool" where
  "is_already_terminal err =
     (case err of
        RpcFailed e \<Rightarrow> (case ce_kind e of ExecAlreadyTerminalError _ \<Rightarrow> True | _ \<Rightarrow> False)
      | LocalFailed _ \<Rightarrow> False)"

text \<open>\<^verbatim>\<open>cancelExec\<close>: with a second of its own, whatever became of the command's context\<close>

definition cancelExec :: "cli_env \<Rightarrow> duration \<Rightarrow> string \<Rightarrow> (sdk_error + unit) cli" where
  "cancelExec env rc execID = cli_rpc (raw_CancelExec (ve_daemon env) True rc execID)"

section \<open>Running a command\<close>

record sandbox_exec_args =
  xa_sandbox_id :: string
  xa_cwd :: string
  xa_env_overrides :: "(string, string) gomap"
  xa_command :: "string list"

text \<open>
  The loop's state: whether the signal channel is still looked at, the exit code of a signal, and whether that
  signal cancelled the exec.
\<close>

record exec_watch =
  ew_watching :: bool
  ew_signal_code :: int
  ew_overrides :: bool

definition exec_turn :: "cli_env \<Rightarrow> duration \<Rightarrow> string \<Rightarrow> exec_watch \<Rightarrow> choice \<Rightarrow> (exec_watch + unit) cli" where
  "exec_turn env rc execID s c =
     (case c of
        GotSignal sig \<Rightarrow>
          if \<not> ew_watching s then stay s
          else
            (let s = s\<lparr>ew_watching := False\<rparr>
             in case sig of
                  None \<Rightarrow> stay s
                | Some sig \<Rightarrow>
                    (let s = s\<lparr>ew_signal_code := exitCodeForSignal sig\<rparr>
                     in cli_bind (cancelExec env rc execID) (\<lambda>r.
                        case r of
                          Inl err \<Rightarrow>
                            if is_already_terminal err then stay s
                            else cli_fail (runtimeErrorf ([Lit ''cancel exec: ''] @ sdk_text err))
                        | Inr () \<Rightarrow> stay (s\<lparr>ew_overrides := True\<rparr>))))
      | GotClosed \<Rightarrow> cli_fail (runtimeErrorf [Lit ''exec event stream ended unexpectedly''])
      | GotResult (ResultError err) \<Rightarrow> cli_fail (runtimeErrorf ([Lit ''wait exec events: ''] @ err))
      | GotResult (ResultEvent _) \<Rightarrow>
          cli_bind (get_exec env rc ''get exec'' execID) (\<lambda>current.
          if isTerminalExecState (es_state current) then
            (if ew_overrides s then cli_fail (exitCodeError (ew_signal_code s))
             else cli_fail (exitCodeError (execExitCode (es_state current) (es_exit_code current) 0)))
          else stay s)
      | GotContext err \<Rightarrow> cli_fail (runtimeErrorf ([Lit ''wait exec: ''] @ err))
      | _ \<Rightarrow> stay s)"

text \<open>The exec had ended before it was looked at: a signal that arrived by then still cancels it.\<close>

definition ended_early :: "cli_env \<Rightarrow> duration \<Rightarrow> string \<Rightarrow> exec_status \<Rightarrow> unit cli" where
  "ended_early env rc execID baseline =
     (let finish = cli_fail (exitCodeError (execExitCode (es_state baseline) (es_exit_code baseline) 0))
      in cli_bind (cli_look (peekExecSignal env)) (\<lambda>sig.
          case sig of
            None \<Rightarrow> finish
          | Some signalCode \<Rightarrow>
              cli_bind (cancelExec env rc execID) (\<lambda>r.
              case r of
                Inl err \<Rightarrow>
                  if is_already_terminal err then finish
                  else cli_fail (runtimeErrorf ([Lit ''cancel exec: ''] @ sdk_text err))
              | Inr () \<Rightarrow> cli_fail (exitCodeError signalCode))))"

definition runSandboxExecWithSignals :: "cli_env \<Rightarrow> duration \<Rightarrow> sandbox_exec_args \<Rightarrow> unit cli" where
  "runSandboxExecWithSignals env rc parsed =
     (let request = \<lparr>xr_sandbox_id = xa_sandbox_id parsed, xr_command = xa_command parsed,
            xr_cwd = (if xa_cwd parsed \<noteq> '''' then xa_cwd parsed else ''''),
            xr_env_overrides = xa_env_overrides parsed, xr_exec_id = ''''\<rparr>
      in cli_bind (cli_call ''create exec'' (raw_CreateExec (ve_daemon env) False rc request)) (\<lambda>created.
         let execID = xs_exec_id created
         in cli_bind (get_exec env rc ''get exec baseline'' execID) (\<lambda>baseline.
            if isTerminalExecState (es_state baseline) then ended_early env rc execID baseline
            else
              cli_bind (cli_call ''subscribe sandbox events''
                (raw_Subscribe (ve_daemon env) False rc (es_sandbox_id baseline) (es_last_event_sequence baseline) False))
              (\<lambda>feed. run_select env (exec_turn env rc execID)
                 \<lparr>ew_watching = True, ew_signal_code = 0, ew_overrides = False\<rparr> feed))))"

text \<open>\<^verbatim>\<open>platform.SocketPath\<close> and \<^verbatim>\<open>rawclient.New\<close>, as every command begins; \<open>limit\<close> is the raw client's timeout.\<close>

definition connect_daemon :: "cli_env \<Rightarrow> duration \<Rightarrow> duration cli" where
  "connect_daemon env limit =
     (case socketPathForGOOS (ve_goos env) (ve_home env) (ve_lookup env) of
        Inl err \<Rightarrow> cli_fail (runtimeErrorf ([Lit ''resolve daemon socket: ''] @ error_text err))
      | Inr socketPath \<Rightarrow>
          (case ve_dial env socketPath of
             Some err \<Rightarrow> cli_fail (runtimeErrorf ([Lit ''connect daemon: ''] @ error_text err))
           | None \<Rightarrow> cli_ret limit))"

definition runSandboxExec :: "cli_env \<Rightarrow> sandbox_exec_args \<Rightarrow> unit cli" where
  "runSandboxExec env parsed =
     cli_bind (connect_daemon env streaming_timeout) (\<lambda>rc. runSandboxExecWithSignals env rc parsed)"

section \<open>Reading and cancelling\<close>

definition runExecGet :: "cli_env \<Rightarrow> json_writer \<Rightarrow> duration \<Rightarrow> string \<Rightarrow> bool \<Rightarrow> unit cli" where
  "runExecGet env wr rc execID json =
     cli_bind (get_exec env rc ''get exec'' execID) (\<lambda>execStatus.
     if json then print_json wr ''get exec'' (ExecMessage (Some execStatus))
     else print_out [Lit (formatExecStatusText execStatus)])"

definition terminal_turn :: "cli_env \<Rightarrow> duration \<Rightarrow> string \<Rightarrow> unit \<Rightarrow> choice \<Rightarrow> (unit + unit) cli" where
  "terminal_turn env rc execID s c =
     (case c of
        GotClosed \<Rightarrow> cli_fail (runtimeErrorf [Lit ''exec event stream closed unexpectedly''])
      | GotResult (ResultError err) \<Rightarrow> cli_fail (runtimeErrorf ([Lit ''wait for exec terminal: ''] @ err))
      | GotResult (ResultEvent _) \<Rightarrow>
          cli_bind (get_exec env rc ''get exec'' execID) (\<lambda>execStatus.
          if isTerminalExecState (es_state execStatus) then leave () else stay s)
      | GotContext err \<Rightarrow> cli_fail (runtimeErrorf ([Lit ''wait for exec terminal: ''] @ err))
      | _ \<Rightarrow> stay s)"

definition cli_waitForExecTerminal ::
  "cli_env \<Rightarrow> duration \<Rightarrow> string \<Rightarrow> string \<Rightarrow> seqno \<Rightarrow> unit cli" where
  "cli_waitForExecTerminal env rc execID sandboxID fromSequence =
     cli_bind (cli_call ''subscribe sandbox events''
       (raw_Subscribe (ve_daemon env) False rc sandboxID fromSequence False)) (\<lambda>feed.
     run_select env (terminal_turn env rc execID) () feed)"

definition runExecCancel :: "cli_env \<Rightarrow> duration \<Rightarrow> string \<Rightarrow> unit cli" where
  "runExecCancel env rc execID =
     cli_bind (cli_rpc (raw_CancelExec (ve_daemon env) False rc execID)) (\<lambda>r.
     case r of
       Inl err \<Rightarrow>
         if is_already_terminal err then cli_ret ()
         else cli_fail (runtimeErrorf ([Lit ''cancel exec: ''] @ sdk_text err))
     | Inr () \<Rightarrow>
     cli_bind (get_exec env rc ''get exec after cancel'' execID) (\<lambda>execStatus.
     if isTerminalExecState (es_state execStatus) then cli_ret ()
     else
       cli_then (announced_wait [Lit ''Waiting for exec '', Lit execID, Lit '' to be cancelled...'']
         (cli_waitForExecTerminal env rc execID (es_sandbox_id execStatus) (es_last_event_sequence execStatus)))
       (print_elapsed env [newline, Lit ''Exec cancelled in ''] [Lit ''s.'', newline])))"

definition runExecList :: "cli_env \<Rightarrow> json_writer \<Rightarrow> duration \<Rightarrow> string \<Rightarrow> bool \<Rightarrow> unit cli" where
  "runExecList env wr rc sandboxID json =
     cli_bind (cli_call ''list active execs'' (raw_ListActiveExecs (ve_daemon env) False rc sandboxID)) (\<lambda>response.
     if json then print_json wr ''list active execs'' (ExecsMessage response)
     else print_out [Lit (formatExecListTable response)])"

end
