(* ===== verification/Cli_Agents.thy ===== *)
theory Cli_Agents
  imports Cli_Flags Cli_Exec
begin

text \<open>
  The agents the command line knows (\<^verbatim>\<open>cmd/agbox/agent_types.go\<close>, \<^verbatim>\<open>openclaw.go\<close>, \<^verbatim>\<open>paseo.go\<close>) and how the flags of a
  session become its arguments (\<^verbatim>\<open>resolveAgentSessionArgs\<close> of \<^verbatim>\<open>cmd_agent.go\<close>).
\<close>

datatype agent_mode = AgentModeInteractive | AgentModeLongRunning

record agent_session_args =
  sa_agent_type :: string
  sa_command :: "string list"
  sa_mode :: agent_mode
  sa_workspace :: string
  sa_builtin_tools :: "string list"
  sa_envs :: "(string, string) gomap"
  sa_cpu_limit :: string
  sa_memory_limit :: string
  sa_disk_limit :: string
  sa_gpus :: string
  sa_sandbox_id :: string
  sa_config_yaml :: string
  sa_image :: string
  sa_ready_message :: "(cli_env \<Rightarrow> string \<Rightarrow> string \<Rightarrow> err_msg) option"
  sa_user_mounts :: "mount_spec list"
  sa_user_ports :: "port_mapping list"
  sa_user_copies :: "copy_spec list"
  sa_user_labels :: "(string, string) gomap"

definition no_session_args :: agent_session_args where
  "no_session_args = \<lparr>sa_agent_type = '''', sa_command = [], sa_mode = AgentModeInteractive, sa_workspace = '''',
     sa_builtin_tools = [], sa_envs = [], sa_cpu_limit = '''', sa_memory_limit = '''', sa_disk_limit = '''',
     sa_gpus = '''', sa_sandbox_id = '''', sa_config_yaml = '''', sa_image = '''', sa_ready_message = None,
     sa_user_mounts = [], sa_user_ports = [], sa_user_copies = [], sa_user_labels = []\<rparr>"

section \<open>Random suffixes\<close>

definition randomHexSuffix :: "cli_env \<Rightarrow> nat \<Rightarrow> string" where
  "randomHexSuffix env n = concat (map (\<lambda>b. hex_byte (unat b)) (ve_random env n))"

definition openclawSandboxIDGen :: "cli_env \<Rightarrow> string" where
  "openclawSandboxIDGen env = ''openclaw-'' @ randomHexSuffix env 3"

definition paseoSandboxIDGen :: "cli_env \<Rightarrow> string" where
  "paseoSandboxIDGen env = ''paseo-'' @ randomHexSuffix env 3"

section \<open>openclaw\<close>

definition text_lines :: "string list \<Rightarrow> string" where
  "text_lines ls = concat (map (\<lambda>l. l @ [newline_char]) ls)"

definition quoted :: "string \<Rightarrow> string" where
  "quoted s = [CHR 0x22] @ s @ [CHR 0x22]"

definition openclawConfigYaml :: string where
  "openclawConfigYaml = text_lines
     [''image: ghcr.io/agents-sandbox/openclaw-runtime:latest'', ''command:'', ''  - openclaw'', ''  - gateway'',
      ''  - run'', ''  - '' @ quoted ''--port'', ''  - '' @ quoted ''18789'', ''  - '' @ quoted ''--bind'', ''  - lan'',
      ''mounts:'', ''  - source: '' @ quoted ''~/.openclaw'', ''    target: '' @ quoted ''~/.openclaw'',
      ''    writable: true'', ''ports:'', ''  - host_port: 18789'', ''    container_port: 18789'', ''envs:'',
      ''  OPENCLAW_STATE_DIR: '' @ quoted ''/home/agbox/.openclaw'',
      ''  OPENCLAW_CONFIG_PATH: '' @ quoted ''/home/agbox/.openclaw/config/openclaw.json'']"

definition openclawAuthGuide :: string where
  "openclawAuthGuide = text_lines
     [''OpenClaw LLM auth not found. Complete authentication on the host first:'',
      ''  Codex OAuth:      OPENCLAW_STATE_DIR=~/.openclaw openclaw models auth login --provider openai-codex'',
      ''  API Key:          OPENCLAW_STATE_DIR=~/.openclaw openclaw models auth add --provider openai --api-key <key>'',
      ''  GitHub Copilot:   OPENCLAW_STATE_DIR=~/.openclaw openclaw models auth login-github-copilot'']"

definition openclaw_refused :: "err_msg \<Rightarrow> 'a cli" where
  "openclaw_refused msg = cli_then (print_err [Lit openclawAuthGuide]) (cli_fail (OtherError msg))"

definition openclawPreFlightWithHome :: "cli_env \<Rightarrow> string \<Rightarrow> unit cli" where
  "openclawPreFlightWithHome env home =
     (let authPath = JoinPath [home, ''.openclaw'', ''agents'', ''main'', ''agent'', ''auth-profiles.json'']
      in case ve_read_file env authPath of
           Inl err \<Rightarrow> openclaw_refused ([Lit ''openclaw auth profiles not found: ''] @ error_text err)
         | Inr authData \<Rightarrow>
             (case ve_json_profiles env authData of
                Inl err \<Rightarrow> openclaw_refused ([Lit ''openclaw auth profiles invalid JSON: ''] @ error_text err)
              | Inr n \<Rightarrow> if n = 0 then openclaw_refused [Lit ''openclaw auth profiles are empty''] else cli_ret ()))"

text \<open>A check before the session; it may change the arguments.\<close>

type_synonym pre_flight = "cli_env \<Rightarrow> agent_session_args \<Rightarrow> agent_session_args cli"

definition openclawPreFlight :: pre_flight where
  "openclawPreFlight env parsed =
     (case ve_home env of
        Inl err \<Rightarrow> cli_fail (OtherError ([Lit ''resolve home directory: ''] @ error_text err))
      | Inr home \<Rightarrow> cli_then (openclawPreFlightWithHome env home) (cli_ret parsed))"

definition readOpenclawGatewayToken :: "cli_env \<Rightarrow> string" where
  "readOpenclawGatewayToken env =
     (case ve_home env of
        Inl _ \<Rightarrow> ''''
      | Inr home \<Rightarrow>
          (case ve_read_file env (JoinPath [home, ''.openclaw'', ''config'', ''openclaw.json'']) of
             Inl _ \<Rightarrow> ''''
           | Inr data \<Rightarrow> (case ve_json_token env data of Inl _ \<Rightarrow> '''' | Inr token \<Rightarrow> token)))"

definition openclawReadyMessage :: "cli_env \<Rightarrow> string \<Rightarrow> string \<Rightarrow> err_msg" where
  "openclawReadyMessage env sandboxID containerName =
     (let token = readOpenclawGatewayToken env;
          gatewayURL = ''http://localhost:18789'' @ (if token \<noteq> '''' then ''/#token='' @ token else '''')
      in [Lit (text_lines
        ['''', ''OpenClaw gateway is running.'', ''  Gateway:    '' @ gatewayURL, ''  Sandbox ID: '' @ sandboxID, '''',
         ''Note: gateway may take a few seconds to accept traffic after sandbox READY.'',
         ''curl '' @ gatewayURL @ '' until it responds if you need to block.'', '''', ''Manage:'',
         ''  agbox sandbox stop '' @ sandboxID @ ''      # stop gateway'',
         ''  agbox sandbox resume '' @ sandboxID @ ''    # restart container (gateway primary command restarts with it)'',
         ''  agbox sandbox delete '' @ sandboxID @ '' && agbox openclaw'',
         ''  agbox sandbox delete '' @ sandboxID @ ''    # delete sandbox'',
         ''  agbox exec list '' @ sandboxID @ ''         # list running execs''])])"

section \<open>paseo\<close>

definition paseoConfigYaml :: string where
  "paseoConfigYaml = text_lines
     [''image: ghcr.io/agents-sandbox/paseo-runtime:latest'', ''command:'', ''  - /usr/local/bin/paseo'', ''  - daemon'',
      ''  - start'', ''  - '' @ quoted ''--listen'', ''  - '' @ quoted ''0.0.0.0:6767'', ''  - '' @ quoted ''--hostnames'',
      ''  - '' @ quoted ''true'', ''  - '' @ quoted ''--foreground'', ''envs:'',
      ''  PASEO_DICTATION_ENABLED: '' @ quoted ''0'', ''  PASEO_VOICE_MODE_ENABLED: '' @ quoted ''0'',
      ''  OPENCODE_DISABLE_EXTERNAL_SKILLS: '' @ quoted ''1'']"

definition expandHostPath :: "cli_env \<Rightarrow> string \<Rightarrow> string \<Rightarrow> string" where
  "expandHostPath env p home =
     (if p = '''' then ''''
      else if HasPrefix p ''~/'' then home @ drop 1 p
      else if p = ''~'' then home
      else Expand (ve_getenv env) p)"

text \<open>The first required mount of a tool that the host lacks, by its path as declared.\<close>

fun missing_mount :: "cli_env \<Rightarrow> string \<Rightarrow> string list \<Rightarrow> string" where
  "missing_mount env home [] = ''''"
| "missing_mount env home (mid # mids) =
     (let m = MountByID mid;
          opt = (case m of None \<Rightarrow> False | Some m \<Rightarrow> cm_optional m);
          default_path = (case m of None \<Rightarrow> '''' | Some m \<Rightarrow> cm_default_host_path m);
          hostPath = expandHostPath env default_path home
      in if opt then missing_mount env home mids
         else if hostPath = '''' then default_path
         else case ve_stat env hostPath of
           StatOk \<Rightarrow> missing_mount env home mids
         | _ \<Rightarrow> default_path)"

definition paseo_keeps :: "cli_env \<Rightarrow> string \<Rightarrow> string \<Rightarrow> bool" where
  "paseo_keeps env home tool =
     (case CapabilityByID tool of None \<Rightarrow> True | Some cap \<Rightarrow> missing_mount env home (tc_mount_ids cap) = '''')"

definition paseo_skips :: "cli_env \<Rightarrow> string \<Rightarrow> string \<Rightarrow> err_msg" where
  "paseo_skips env home tool =
     [Lit ''paseo: skipping builtin tool '', Quoted tool, Lit '': required host path '',
      Quoted (case CapabilityByID tool of None \<Rightarrow> '''' | Some cap \<Rightarrow> missing_mount env home (tc_mount_ids cap)),
      Lit '' not found'', newline]"

fun print_skipped :: "cli_env \<Rightarrow> string \<Rightarrow> string list \<Rightarrow> unit cli" where
  "print_skipped env home [] = cli_ret ()"
| "print_skipped env home (tool # tools) =
     cli_then (if paseo_keeps env home tool then cli_ret () else print_err (paseo_skips env home tool))
       (print_skipped env home tools)"

definition paseoPreFlightWithHome :: "cli_env \<Rightarrow> agent_session_args \<Rightarrow> string \<Rightarrow> agent_session_args cli" where
  "paseoPreFlightWithHome env parsed home =
     cli_then (print_skipped env home (sa_builtin_tools parsed))
       (cli_ret (parsed\<lparr>sa_builtin_tools := filter (paseo_keeps env home) (sa_builtin_tools parsed)\<rparr>))"

definition paseoPreFlight :: pre_flight where
  "paseoPreFlight env parsed =
     (case ve_home env of
        Inl err \<Rightarrow> cli_fail (OtherError ([Lit ''resolve home directory: ''] @ error_text err))
      | Inr home \<Rightarrow> paseoPreFlightWithHome env parsed home)"

definition paseoReadyMessageFactory ::
  "string list \<Rightarrow> string \<Rightarrow> cli_env \<Rightarrow> string \<Rightarrow> string \<Rightarrow> err_msg" where
  "paseoReadyMessageFactory activeTools pairURL env sandboxID containerName =
     (let trimmed = TrimRight {CHR '' '', tab_char, CHR 0x0D, newline_char} pairURL;
          toolsLine = (if activeTools \<noteq> [] then join_with '', '' activeTools else ''(none)'');
          pairBlock = replace_all trimmed [newline_char] ([newline_char] @ ''    '')
      in [Lit (text_lines
        ['''', ''Paseo daemon is running.'', ''  Pair URL: '' @ pairBlock, ''  Active builtin tools: '' @ toolsLine,
         ''  Get URL again: agbox paseo url '' @ sandboxID, '''', ''Manage:'',
         ''  agbox sandbox stop '' @ sandboxID @ ''      # stop sandbox'',
         ''  agbox sandbox resume '' @ sandboxID @ ''    # restart container (primary command restarts with it)'',
         ''  agbox sandbox delete '' @ sandboxID @ ''    # delete sandbox'',
         ''  agbox exec list '' @ sandboxID @ ''         # list running execs''])])"

section \<open>The types\<close>

record agent_type_def =
  td_mode :: agent_mode
  td_command :: "string list"
  td_builtin_tools :: "string list"
  td_copy_workspace :: bool
  td_confirm_git :: bool
  td_config_yaml :: string
  td_sandbox_id_gen :: "(cli_env \<Rightarrow> string) option"
  td_pre_flight :: "pre_flight option"
  td_ready_message :: "(cli_env \<Rightarrow> string \<Rightarrow> string \<Rightarrow> err_msg) option"

definition coding_agent :: "string list \<Rightarrow> string list \<Rightarrow> agent_type_def" where
  "coding_agent command tools = \<lparr>td_mode = AgentModeInteractive, td_command = command, td_builtin_tools = tools,
     td_copy_workspace = True, td_confirm_git = True, td_config_yaml = '''', td_sandbox_id_gen = None,
     td_pre_flight = None, td_ready_message = None\<rparr>"

definition agentTypeDefs :: "(string, agent_type_def) gomap" where
  "agentTypeDefs =
     [(''claude'', coding_agent [''claude'', ''--dangerously-skip-permissions'']
        [''claude'', ''git'', ''uv'', ''npm'', ''apt'']),
      (''codex'', coding_agent [''codex'', ''--dangerously-bypass-approvals-and-sandbox'']
        [''codex'', ''git'', ''uv'', ''npm'', ''apt'']),
      (''openclaw'', \<lparr>td_mode = AgentModeLongRunning, td_command = [],
        td_builtin_tools = [''git'', ''npm'', ''uv'', ''apt''], td_copy_workspace = False, td_confirm_git = False,
        td_config_yaml = openclawConfigYaml, td_sandbox_id_gen = Some openclawSandboxIDGen,
        td_pre_flight = Some openclawPreFlight, td_ready_message = Some openclawReadyMessage\<rparr>),
      (''paseo'', \<lparr>td_mode = AgentModeLongRunning, td_command = [],
        td_builtin_tools = [''claude'', ''codex'', ''npm'', ''uv'', ''apt'', ''opencode''],
        td_copy_workspace = False, td_confirm_git = False, td_config_yaml = paseoConfigYaml,
        td_sandbox_id_gen = Some paseoSandboxIDGen, td_pre_flight = Some paseoPreFlight,
        td_ready_message = None\<rparr>)]"

section \<open>The arguments of a session\<close>

record session_flags =
  fv_raw_command :: string
  fv_mode :: string
  fv_workspace :: string
  fv_builtin_tools :: "string list"
  fv_envs :: "string list"
  fv_cpu_limit :: string
  fv_memory_limit :: string
  fv_disk_limit :: string
  fv_gpus :: string
  fv_sandbox_id :: string
  fv_mounts :: "string list"
  fv_ports :: "string list"
  fv_copies :: "string list"
  fv_labels :: "string list"
  fv_mode_overridden :: bool
  fv_workspace_overridden :: bool

definition command_words :: "string \<Rightarrow> command_error + string list" where
  "command_words raw =
     (if Fields raw = [] then Inl (usageErrorf [Lit ''--command must not be empty'']) else Inr (Fields raw))"

text \<open>The agent's type, command and tools; \<open>None\<close> for a custom command.\<close>

definition resolve_agent ::
  "session_flags \<Rightarrow> string \<Rightarrow> command_error + (agent_type_def option \<times> string list \<times> string list)" where
  "resolve_agent v agentType =
     (if agentType \<noteq> '''' then
        (case gm_get agentTypeDefs agentType of
           None \<Rightarrow> Inl (usageErrorf [Lit ''unknown agent type '', Quoted agentType])
         | Some typeDef \<Rightarrow>
             Inr (Some typeDef, td_command typeDef, dedupePreserveOrder (td_builtin_tools typeDef @ fv_builtin_tools v)))
      else if fv_raw_command v \<noteq> '''' then
        res_bind (command_words (fv_raw_command v)) (\<lambda>command.
          Inr (None, command, dedupePreserveOrder (fv_builtin_tools v)))
      else Inl (usageErrorf [Lit ''agbox agent requires --command; for pre-registered agents use agbox claude / agbox codex / agbox openclaw / agbox paseo'']))"

definition resolve_mode :: "session_flags \<Rightarrow> agent_type_def option \<Rightarrow> command_error + agent_mode" where
  "resolve_mode v typeDef =
     (if fv_mode_overridden v then
        (if fv_mode v = ''interactive'' then Inr AgentModeInteractive
         else if fv_mode v = ''long-running'' then Inr AgentModeLongRunning
         else Inl (usageErrorf [Lit ''--mode must be '', Quoted ''interactive'', Lit '' or '', Quoted ''long-running'']))
      else case typeDef of Some td \<Rightarrow> Inr (td_mode td) | None \<Rightarrow> Inr AgentModeInteractive)"

definition resolve_workspace :: "cli_env \<Rightarrow> session_flags \<Rightarrow> agent_type_def option \<Rightarrow> command_error + string" where
  "resolve_workspace env v typeDef =
     (if fv_workspace_overridden v then
        (if fv_workspace v = '''' then Inl (usageErrorf [Lit ''--workspace must not be empty''])
         else validateWorkspacePath env (fv_workspace v))
      else if (case typeDef of Some td \<Rightarrow> td_copy_workspace td | None \<Rightarrow> False) then
        (case ve_cwd env of
           Inl err \<Rightarrow>
             Inl (usageErrorf ([Lit ''--workspace: cannot determine current directory: ''] @ error_text err))
         | Inr cwd \<Rightarrow> validateWorkspacePath env cwd)
      else Inr '''')"

definition resolve_image :: "cli_env \<Rightarrow> agent_type_def option \<Rightarrow> string" where
  "resolve_image env typeDef =
     (case typeDef of
        Some td \<Rightarrow>
          if td_config_yaml td \<noteq> '''' then
            (case ve_yaml_image env (td_config_yaml td) of
               Inr (c # cs) \<Rightarrow> ''''
             | _ \<Rightarrow> ''ghcr.io/agents-sandbox/coding-runtime:latest'')
          else ''ghcr.io/agents-sandbox/coding-runtime:latest''
      | None \<Rightarrow> ''ghcr.io/agents-sandbox/coding-runtime:latest'')"

definition resolveAgentSessionArgs ::
  "cli_env \<Rightarrow> session_flags \<Rightarrow> string \<Rightarrow> command_error + agent_session_args" where
  "resolveAgentSessionArgs env v agentType =
     res_bind (resolve_agent v agentType) (\<lambda>(typeDef, command, tools).
     res_bind (resolve_mode v typeDef) (\<lambda>mode.
     res_bind (if typeDef \<noteq> None \<and> fv_raw_command v \<noteq> '''' then command_words (fv_raw_command v)
               else Inr command) (\<lambda>command.
     res_bind (resolve_workspace env v typeDef) (\<lambda>workspace.
     res_bind (parse_assignments (\<lambda>raw. parseKeyValueAssignment raw ''--env'') (fv_envs v)) (\<lambda>envs.
     if fv_gpus v \<noteq> '''' \<and> fv_gpus v \<noteq> ''all'' then
       Inl (usageErrorf [Lit ''--gpus: unsupported value '', Quoted (fv_gpus v),
         Lit ''; currently only empty or \"all\" are supported''])
     else
     res_bind (parse_each parseMountFlag (fv_mounts v)) (\<lambda>mounts.
     res_bind (parse_each parsePortFlag (fv_ports v)) (\<lambda>ports.
     res_bind (parse_each parseCopyFlag (fv_copies v)) (\<lambda>copies.
     res_bind (parse_assignments session_label (fv_labels v)) (\<lambda>labels.
     Inr \<lparr>sa_agent_type = (if typeDef \<noteq> None then agentType else ''''), sa_command = command, sa_mode = mode,
          sa_workspace = workspace, sa_builtin_tools = tools, sa_envs = envs, sa_cpu_limit = fv_cpu_limit v,
          sa_memory_limit = fv_memory_limit v, sa_disk_limit = fv_disk_limit v, sa_gpus = fv_gpus v,
          sa_sandbox_id = (if fv_sandbox_id v \<noteq> '''' then fv_sandbox_id v
             else case typeDef of
               Some td \<Rightarrow> (case td_sandbox_id_gen td of Some gen \<Rightarrow> gen env | None \<Rightarrow> '''')
             | None \<Rightarrow> ''''),
          sa_config_yaml = (case typeDef of Some td \<Rightarrow> td_config_yaml td | None \<Rightarrow> ''''),
          sa_image = resolve_image env typeDef,
          sa_ready_message = (case typeDef of Some td \<Rightarrow> td_ready_message td | None \<Rightarrow> None),
          sa_user_mounts = mounts, sa_user_ports = ports, sa_user_copies = copies,
          sa_user_labels = labels\<rparr>)))))))))"

end
