(* ===== verification/Cli_Session.thy ===== *)
theory Cli_Session
  imports Cli_Agents
begin

text \<open>
  A session (\<^verbatim>\<open>cmd/agbox/agent_session.go\<close>): the sandbox is created, waited for, and either attached to the
  terminal and deleted when the agent ends, or left running.  \<^verbatim>\<open>defer\<close> is \<open>cli_defer\<close>; where a flag decides
  whether the deferred clean-up does anything, the part before the flag is set is under \<open>cli_on_failure\<close> and the
  part after it is not.  The pairing URL of paseo (\<^verbatim>\<open>fetchPaseoPairURL\<close>, \<^verbatim>\<open>cmd_paseo_url.go\<close>) is here too.
\<close>

section \<open>The request\<close>

abbreviation "agentSessionIdleTTL \<equiv> 10 * 24 * hour"

definition buildAgentCreateSpec ::
  "agent_session_args \<Rightarrow> string \<Rightarrow> duration \<Rightarrow> string list \<Rightarrow> create_spec" where
  "buildAgentCreateSpec parsed agentLabel idleTTL command =
     (let copies = (if sa_workspace parsed \<noteq> ''''
            then [\<lparr>cp_source = sa_workspace parsed, cp_target = ''/workspace'', cp_exclude_patterns = []\<rparr>] else [])
            @ sa_user_copies parsed;
          labels = gm_merge [(''created-by'', ''agbox-cli''), (''agent-type'', agentLabel)] (sa_user_labels parsed)
      in \<lparr>cs_image = sa_image parsed, cs_mounts = sa_user_mounts parsed, cs_copies = copies,
          cs_builtin_tools = sa_builtin_tools parsed, cs_companion_containers = [], cs_labels = labels,
          cs_envs = sa_envs parsed, cs_idle_ttl = Some idleTTL, cs_ports = sa_user_ports parsed,
          cs_command = command, cs_cpu_limit = sa_cpu_limit parsed, cs_memory_limit = sa_memory_limit parsed,
          cs_disk_limit = sa_disk_limit parsed, cs_gpus = sa_gpus parsed\<rparr>)"

definition session_request :: "agent_session_args \<Rightarrow> string \<Rightarrow> duration \<Rightarrow> string list \<Rightarrow> create_sandbox_request" where
  "session_request parsed agentLabel idleTTL command =
     \<lparr>cr_create_spec = Some (buildAgentCreateSpec parsed agentLabel idleTTL command),
      cr_sandbox_id = sa_sandbox_id parsed, cr_config_yaml = sa_config_yaml parsed\<rparr>"

section \<open>The login shell\<close>

definition probe_script :: string where
  "probe_script = ''u='' @ quoted ''$1'' @ ''; while ! awk -F: -v u='' @ quoted ''$u'' @ '' '' @ [CHR 0x27]
     @ ''$1==u {found=1; exit} END {exit !found}'' @ [CHR 0x27]
     @ '' /etc/passwd; do sleep 0.01; done; awk -F: -v u='' @ quoted ''$u'' @ '' '' @ [CHR 0x27]
     @ ''$1==u {print $7; exit}'' @ [CHR 0x27] @ '' /etc/passwd''"

definition resolveContainerLoginShell :: "cli_env \<Rightarrow> string \<Rightarrow> string \<Rightarrow> string cli" where
  "resolveContainerLoginShell env containerName user =
     (let pre = [Lit ''probe login shell in '', Lit containerName, Lit '': '']
      in cli_bind (cli_look (\<lambda>w. ve_docker_output env w
            [''docker'', ''exec'', containerName, ''sh'', ''-c'', probe_script, ''_probe'', user])) (\<lambda>output.
          case output of
            Inl (err, stderr) \<Rightarrow>
              cli_fail (OtherError (pre @ err @ (if trim_space stderr \<noteq> ''''
                then [Lit '' ('', Lit (trim_space stderr), Lit '')''] else [])))
          | Inr out \<Rightarrow>
              (let shell = trim_space out
               in if shell = '''' then
                    cli_fail (OtherError (pre @ [Lit ''user '', Quoted user, Lit '' has no shell entry in /etc/passwd'']))
                  else cli_ret shell)))"

definition waitReadyAndPrintShellHint :: "cli_env \<Rightarrow> duration \<Rightarrow> string \<Rightarrow> seqno \<Rightarrow> bool \<Rightarrow> string cli" where
  "waitReadyAndPrintShellHint env rc sandboxID lastEventSeq signals =
     (let containerName = primaryContainerName sandboxID
      in cli_then (announced_wait [Lit ''Waiting for sandbox to be ready...'']
           (waitForSandboxReady env rc sandboxID lastEventSeq signals))
         (cli_then (print_elapsed env [Lit ''     [''] [Lit ''s]'', newline])
         (cli_bind (resolveContainerLoginShell env containerName ''agbox'') (\<lambda>loginShell.
          cli_then (print_err [Lit ''  Shell: docker exec -it --user agbox '', Lit containerName, Lit '' '',
             Lit loginShell, newline])
          (cli_ret containerName)))))"

section \<open>The agent's process\<close>

definition exitCodeFromCmdErr :: "child_end \<Rightarrow> int \<Rightarrow> command_error option" where
  "exitCodeFromCmdErr err signalCode =
     (let otherwise = (\<lambda>msg. if signalCode \<noteq> 0 then Some (exitCodeError signalCode)
            else Some (runtimeErrorf ([Lit ''docker exec: ''] @ msg)))
      in case err of
           ChildOk \<Rightarrow> if signalCode \<noteq> 0 then Some (exitCodeError signalCode) else None
         | ChildExit code msg \<Rightarrow>
             if code = -1 \<and> signalCode \<noteq> 0 then Some (exitCodeError signalCode)
             else if 0 \<le> code then Some (exitCodeError code)
             else otherwise msg
         | ChildError msg \<Rightarrow> otherwise msg)"

definition cli_result :: "command_error option \<Rightarrow> unit cli" where
  "cli_result r = (case r of None \<Rightarrow> cli_ret () | Some err \<Rightarrow> cli_fail err)"

definition child_note :: "child_act \<Rightarrow> unit cli" where
  "child_note a w = (Returned (), w\<lparr>cw_child := cw_child w @ [a]\<rparr>)"

text \<open>\<^verbatim>\<open><-waitCh\<close>\<close>

definition child_wait :: "cli_env \<Rightarrow> child_end cli" where
  "child_wait env =
     cli_bind (cli_look (ve_child_wait env)) (\<lambda>e. case e of None \<Rightarrow> cli_wait | Some e \<Rightarrow> cli_ret e)"

definition attached_turn :: "cli_env \<Rightarrow> unit \<Rightarrow> choice \<Rightarrow> (unit + unit) cli" where
  "attached_turn env s c =
     (case c of
        GotSigint \<Rightarrow> cli_bind (child_wait env) (\<lambda>e. cli_then (cli_result (exitCodeFromCmdErr e 130)) (leave ()))
      | GotSigterm \<Rightarrow>
          cli_then (child_note (ChildSignal SIGTERM)) (cli_bind (cli_look (ve_child_grace env)) (\<lambda>ended.
            case ended of
              Some e \<Rightarrow> cli_then (cli_result (exitCodeFromCmdErr e 143)) (leave ())
            | None \<Rightarrow>
                cli_then (child_note ChildKill) (cli_bind (child_wait env) (\<lambda>_. cli_fail (exitCodeError 143)))))
      | GotChild \<Rightarrow> cli_bind (child_wait env) (\<lambda>e. cli_then (cli_result (exitCodeFromCmdErr e 0)) (leave ()))
      | _ \<Rightarrow> stay s)"

definition attach_agent :: "cli_env \<Rightarrow> string \<Rightarrow> string list \<Rightarrow> unit cli" where
  "attach_agent env containerName command =
     (let dockerArgs = [''docker'', ''exec'', ''-it'', ''--user'', ''agbox'', containerName] @ command
      in cli_bind (cli_look (\<lambda>w. ve_child_start env w dockerArgs)) (\<lambda>started.
          case started of
            Some err \<Rightarrow> cli_fail (runtimeErrorf ([Lit ''start docker exec: ''] @ err))
          | None \<Rightarrow>
              cli_then (child_note (ChildStart dockerArgs))
                (cli_bind (cli_look (ve_picks env)) (select_loop (attached_turn env) () []))))"

section \<open>Interactive sessions\<close>

definition confirmWorkspaceCopy :: "cli_env \<Rightarrow> string \<Rightarrow> unit cli" where
  "confirmWorkspaceCopy env path =
     cli_then (print_err [Lit path, Lit '' is not a Git repository. It will be copied into the sandbox as your workspace.'',
       newline, Lit ''Proceed? [y/N] ''])
     (if ve_scanln env \<in> {Inr ''y'', Inr ''Y''} then cli_ret () else cli_fail (exitCodeError 1))"

definition confirm_git :: "cli_env \<Rightarrow> agent_session_args \<Rightarrow> unit cli" where
  "confirm_git env parsed =
     (if sa_workspace parsed \<noteq> ''''
         \<and> (case gm_get agentTypeDefs (sa_agent_type parsed) of Some td \<Rightarrow> td_confirm_git td | None \<Rightarrow> False)
         \<and> (case ve_stat env (JoinPath [sa_workspace parsed, ''.git'']) of StatNotExist _ \<Rightarrow> True | _ \<Rightarrow> False)
      then confirmWorkspaceCopy env (sa_workspace parsed) else cli_ret ())"

text \<open>The look at the signal channels between creating the sandbox and waiting for it.\<close>

definition early_signal :: "cli_env \<Rightarrow> unit cli" where
  "early_signal env =
     cli_bind (cli_look (ve_pending env)) (\<lambda>pending.
      case pending of
        None \<Rightarrow> cli_ret ()
      | Some sig \<Rightarrow>
          if sig = Interrupt then cli_fail (exitCodeError 130)
          else if sig \<in> {SIGTERM, SIGHUP} then cli_fail (exitCodeError 143)
          else cli_ret ())"

definition interactive_body ::
  "cli_env \<Rightarrow> duration \<Rightarrow> agent_session_args \<Rightarrow> string \<Rightarrow> seqno \<Rightarrow> unit cli" where
  "interactive_body env rc parsed sandboxID lastEventSeq =
     cli_then (early_signal env)
     (cli_bind (waitReadyAndPrintShellHint env rc sandboxID lastEventSeq True) (\<lambda>containerName.
      attach_agent env containerName (sa_command parsed)))"

definition escape_char :: char where "escape_char = CHR 0x1B"

definition interactive_cleanup :: "cli_env \<Rightarrow> duration \<Rightarrow> string \<Rightarrow> unit cli" where
  "interactive_cleanup env rc sandboxID =
     cli_then (print_err [Lit ([escape_char] @ ''[9999B''), newline, Lit ''Cleaning up sandbox '', Lit sandboxID,
       Lit ''...'', newline])
     (deleteAndWait env rc sandboxID)"

definition runInteractiveSession :: "cli_env \<Rightarrow> duration \<Rightarrow> agent_session_args \<Rightarrow> string \<Rightarrow> unit cli" where
  "runInteractiveSession env rc parsed agentLabel =
     (if \<not> ve_stdin_tty env then
        cli_fail (usageErrorf [Lit ''stdin is not a TTY; agbox agent requires an interactive terminal''])
      else
        cli_then (confirm_git env parsed)
        (cli_bind (cli_call ''create sandbox'' (raw_CreateSandbox (ve_daemon env) False rc
           (session_request parsed agentLabel agentSessionIdleTTL []))) (\<lambda>response.
         let sandbox = get_handle response; sandboxID = sh_sandbox_id sandbox
         in cli_defer (interactive_body env rc parsed sandboxID (sh_last_event_sequence sandbox))
              (interactive_cleanup env rc sandboxID))))"

section \<open>The pairing URL of paseo\<close>

definition execDoneResult :: "exec_status \<Rightarrow> command_error option" where
  "execDoneResult status =
     (case es_state status of
        EXEC_STATE_FINISHED \<Rightarrow>
          if es_exit_code status = 0 then None
          else Some (runtimeErrorf [Lit ''exec finished with exit_code='', Lit (show_decimal (es_exit_code status))])
      | EXEC_STATE_FAILED \<Rightarrow>
          Some (runtimeErrorf ([Lit ''exec failed (exit_code='', Lit (show_decimal (es_exit_code status)), Lit '')'']
            @ (if es_error status \<noteq> '''' then [Lit '': '', Lit (es_error status)] else [])))
      | EXEC_STATE_CANCELLED \<Rightarrow> Some (runtimeErrorf [Lit ''exec cancelled''])
      | st \<Rightarrow> Some (runtimeErrorf [Lit ''exec in unexpected state: '', Lit (exec_state_name st)]))"

definition done_turn :: "cli_env \<Rightarrow> duration \<Rightarrow> string \<Rightarrow> unit \<Rightarrow> choice \<Rightarrow> (unit + unit) cli" where
  "done_turn env rc execID s c =
     (case c of
        GotClosed \<Rightarrow> cli_fail (runtimeErrorf [Lit ''exec event stream closed; check with: agbox exec get '', Lit execID])
      | GotResult (ResultError err) \<Rightarrow> cli_fail (runtimeErrorf ([Lit ''wait exec events: ''] @ err))
      | GotResult (ResultEvent _) \<Rightarrow>
          cli_bind (get_exec env rc ''get exec'' execID) (\<lambda>current.
          if isTerminalExecState (es_state current) then cli_then (cli_result (execDoneResult current)) (leave ())
          else stay s)
      | GotContext err \<Rightarrow> cli_fail (runtimeErrorf ([Lit ''wait exec: ''] @ err))
      | _ \<Rightarrow> stay s)"

definition waitForExecDone :: "cli_env \<Rightarrow> duration \<Rightarrow> string \<Rightarrow> string \<Rightarrow> unit cli" where
  "waitForExecDone env rc execID sandboxID =
     cli_bind (get_exec env rc ''get exec'' execID) (\<lambda>baseline.
     if isTerminalExecState (es_state baseline) then cli_result (execDoneResult baseline)
     else
       cli_bind (cli_call ''subscribe sandbox events''
         (raw_Subscribe (ve_daemon env) False rc sandboxID (es_last_event_sequence baseline) False)) (\<lambda>feed.
       run_select env (done_turn env rc execID) () feed))"

text \<open>On failure the exec's error log is shown first.\<close>

definition show_exec_log :: "cli_env \<Rightarrow> string \<Rightarrow> unit cli" where
  "show_exec_log env stderrLogPath =
     (if stderrLogPath = '''' then cli_ret ()
      else case ve_read_file env stderrLogPath of
        Inr (c # cs) \<Rightarrow> print_err [Lit (c # cs)]
      | _ \<Rightarrow> cli_ret ())"

definition fetchPaseoPairURL :: "cli_env \<Rightarrow> duration \<Rightarrow> string \<Rightarrow> string cli" where
  "fetchPaseoPairURL env rc sandboxID =
     cli_bind (cli_call ''create exec'' (raw_CreateExec (ve_daemon env) False rc
        \<lparr>xr_sandbox_id = sandboxID, xr_command = [''/usr/local/bin/paseo'', ''daemon'', ''pair''], xr_cwd = '''',
         xr_env_overrides = [], xr_exec_id = ''''\<rparr>)) (\<lambda>created.
     cli_then (cli_on_failure (waitForExecDone env rc (xs_exec_id created) sandboxID)
       (show_exec_log env (xs_stderr_log_path created)))
     (if xs_stdout_log_path created = '''' then cli_ret ''''
      else case ve_read_file env (xs_stdout_log_path created) of
        Inl err \<Rightarrow> cli_fail (runtimeErrorf ([Lit ''read stdout log: ''] @ error_text err))
      | Inr logData \<Rightarrow> cli_ret logData))"

definition runPaseoURL :: "cli_env \<Rightarrow> duration \<Rightarrow> string \<Rightarrow> unit cli" where
  "runPaseoURL env rc sandboxID =
     cli_bind (fetchPaseoPairURL env rc sandboxID) (\<lambda>urlOutput.
     if urlOutput \<noteq> '''' then print_out [Lit urlOutput] else cli_ret ())"

section \<open>Long-running sessions\<close>

definition detached_part ::
  "cli_env \<Rightarrow> duration \<Rightarrow> agent_session_args \<Rightarrow> string \<Rightarrow> string \<Rightarrow> unit cli" where
  "detached_part env rc parsed sandboxID containerName =
     cli_bind (if sa_agent_type parsed = ''paseo'' then
                 cli_bind (fetchPaseoPairURL env rc sandboxID) (\<lambda>pairURL.
                   cli_ret (parsed\<lparr>sa_ready_message :=
                     Some (paseoReadyMessageFactory (sa_builtin_tools parsed) pairURL)\<rparr>))
               else cli_ret parsed) (\<lambda>parsed.
     cli_then (case sa_ready_message parsed of
                 Some message \<Rightarrow> print_err (message env sandboxID containerName)
               | None \<Rightarrow> cli_ret ())
     (print_out [Lit sandboxID, newline]))"

definition detach_cleanup :: "cli_env \<Rightarrow> duration \<Rightarrow> string \<Rightarrow> unit cli" where
  "detach_cleanup env rc sandboxID =
     cli_then (print_err [newline, Lit ''Cleaning up sandbox '', Lit sandboxID, Lit ''...'', newline])
     (deleteAndWait env rc sandboxID)"

definition runLongRunningSession :: "cli_env \<Rightarrow> duration \<Rightarrow> agent_session_args \<Rightarrow> string \<Rightarrow> unit cli" where
  "runLongRunningSession env rc parsed agentLabel =
     cli_bind (cli_call ''create sandbox'' (raw_CreateSandbox (ve_daemon env) False rc
       (session_request parsed agentLabel 0 (sa_command parsed)))) (\<lambda>response.
     let sandbox = get_handle response; sandboxID = sh_sandbox_id sandbox
     in cli_bind (cli_on_failure
          (cli_then (early_signal env)
            (waitReadyAndPrintShellHint env rc sandboxID (sh_last_event_sequence sandbox) True))
          (detach_cleanup env rc sandboxID)) (\<lambda>containerName.
        detached_part env rc parsed sandboxID containerName))"

section \<open>A session\<close>

definition runAgentSession :: "cli_env \<Rightarrow> agent_session_args \<Rightarrow> unit cli" where
  "runAgentSession env parsed =
     cli_bind (case gm_get agentTypeDefs (sa_agent_type parsed) of
                 Some td \<Rightarrow> (case td_pre_flight td of Some check \<Rightarrow> check env parsed | None \<Rightarrow> cli_ret parsed)
               | None \<Rightarrow> cli_ret parsed) (\<lambda>parsed.
     cli_then (if sa_workspace parsed \<noteq> '''' then
                 (case ve_stat env (sa_workspace parsed) of
                    StatOk \<Rightarrow> cli_ret ()
                  | StatNotExist err \<Rightarrow>
                      cli_fail (usageErrorf ([Lit ''--workspace path '', Quoted (sa_workspace parsed), Lit '': ''] @ err))
                  | StatError err \<Rightarrow>
                      cli_fail (usageErrorf ([Lit ''--workspace path '', Quoted (sa_workspace parsed), Lit '': ''] @ err)))
               else cli_ret ())
     (let agentLabel = (if sa_agent_type parsed = '''' then hd (sa_command parsed) else sa_agent_type parsed)
      in cli_bind (connect_daemon env streaming_timeout) (\<lambda>rc.
         case sa_mode parsed of
           AgentModeLongRunning \<Rightarrow> runLongRunningSession env rc parsed agentLabel
         | AgentModeInteractive \<Rightarrow> runInteractiveSession env rc parsed agentLabel)))"

end
