(* ===== verification/Cli_Commands.thy ===== *)
theory Cli_Commands
  imports Cli_Session
begin

text \<open>
  The commands as cobra runs them (\<^verbatim>\<open>cmd/agbox/cmd_sandbox.go\<close>, \<^verbatim>\<open>cmd_exec.go\<close>, \<^verbatim>\<open>cmd_agent.go\<close>,
  \<^verbatim>\<open>cmd_paseo_url.go\<close>, \<^verbatim>\<open>cmd_version.go\<close>) and the exit code of the process (\<^verbatim>\<open>root.go\<close>).  cobra is not in the
  repository: an invocation is the command it found with the values of its flags, or the error it found in
  the command line.
\<close>

text \<open>The timeout of a raw client made without options.\<close>

abbreviation "defaultTimeout \<equiv> 5 * second"

datatype invocation =
    RootInvoked
  | VersionInvoked
  | SandboxInvoked
  | SandboxCreateInvoked (ic_image: string) (ic_image_changed: bool) (ic_labels: "string list") (ic_idle_ttl: string)
      (ic_json: bool) (ic_yaml_file: string) (ic_sandbox_id: string)
  | SandboxListInvoked bool "string list" bool
  | SandboxGetInvoked string bool
  | SandboxDeleteInvoked "string list" "string list"
  | SandboxStopInvoked string
  | SandboxResumeInvoked string
  | ExecInvoked
  | ExecRunInvoked "string list" int string "string list"
  | ExecGetInvoked string bool
  | ExecCancelInvoked string
  | ExecListInvoked "string list" bool
  | SessionInvoked string session_flags
  | PaseoURLInvoked string
  | CommandLineError err_msg string   \<comment> \<open>cobra's error, and the usage of the command it found\<close>

section \<open>Sandboxes\<close>

definition lift_result :: "command_error + 'a \<Rightarrow> 'a cli" where
  "lift_result r = (case r of Inl err \<Rightarrow> cli_fail err | Inr x \<Rightarrow> cli_ret x)"

definition parse_idle_ttl :: "cli_env \<Rightarrow> string \<Rightarrow> command_error + duration option" where
  "parse_idle_ttl env s =
     (if s = '''' then Inr None
      else case ve_parse_duration env s of
        Inl err \<Rightarrow> Inl (usageErrorf ([Lit ''--idle-ttl: invalid duration '', Quoted s, Lit '': ''] @ error_text err))
      | Inr d \<Rightarrow> if d < 0 then Inl (usageErrorf [Lit ''--idle-ttl must not be negative'']) else Inr (Some d))"

definition sandbox_create_command ::
  "cli_env \<Rightarrow> json_writer \<Rightarrow> string \<Rightarrow> bool \<Rightarrow> string list \<Rightarrow> string \<Rightarrow> bool \<Rightarrow> string \<Rightarrow> string \<Rightarrow> unit cli" where
  "sandbox_create_command env wr image' imageChanged labels idleTTL json yamlFile sandboxID =
     cli_bind (lift_result (parseLabels labels)) (\<lambda>labelMap.
     cli_bind (if yamlFile \<noteq> '''' then
                 (case ve_read_file env yamlFile of
                    Inl err \<Rightarrow>
                      cli_fail (runtimeErrorf ([Lit ''read yaml file '', Lit yamlFile, Lit '': ''] @ error_text err))
                  | Inr data \<Rightarrow> cli_ret (data, if imageChanged then image' else ''''))
               else cli_ret ('''', image')) (\<lambda>(configYAML, image').
     cli_bind (lift_result (parse_idle_ttl env idleTTL)) (\<lambda>ttl.
     cli_bind (connect_daemon env streaming_timeout) (\<lambda>rc.
       runSandboxCreate env wr rc \<lparr>ca_image = image', ca_labels = labelMap, ca_idle_ttl = ttl, ca_json = json,
         ca_config_yaml = configYAML, ca_sandbox_id = sandboxID\<rparr>))))"

definition sandbox_list_command ::
  "cli_env \<Rightarrow> json_writer \<Rightarrow> clock \<Rightarrow> bool \<Rightarrow> string list \<Rightarrow> bool \<Rightarrow> unit cli" where
  "sandbox_list_command env wr ck includeDeleted labels json =
     cli_bind (lift_result (parseLabels labels)) (\<lambda>labelMap.
     cli_bind (connect_daemon env defaultTimeout) (\<lambda>rc.
       runSandboxList env wr ck rc includeDeleted labelMap json))"

definition sandbox_get_command :: "cli_env \<Rightarrow> json_writer \<Rightarrow> string \<Rightarrow> bool \<Rightarrow> unit cli" where
  "sandbox_get_command env wr sandboxID json =
     cli_bind (connect_daemon env defaultTimeout) (\<lambda>rc. runSandboxGet env wr rc sandboxID json)"

definition sandbox_delete_command :: "cli_env \<Rightarrow> string list \<Rightarrow> string list \<Rightarrow> unit cli" where
  "sandbox_delete_command env args labels =
     cli_bind (lift_result (parseLabels labels)) (\<lambda>labelMap.
     cli_bind (connect_daemon env streaming_timeout) (\<lambda>rc.
       runSandboxDelete env rc (case args of [] \<Rightarrow> '''' | a # _ \<Rightarrow> a) labelMap))"

definition sandbox_stop_command :: "cli_env \<Rightarrow> string \<Rightarrow> unit cli" where
  "sandbox_stop_command env sandboxID =
     cli_bind (connect_daemon env streaming_timeout) (\<lambda>rc. runSandboxStop env rc sandboxID)"

definition sandbox_resume_command :: "cli_env \<Rightarrow> string \<Rightarrow> unit cli" where
  "sandbox_resume_command env sandboxID =
     cli_bind (connect_daemon env streaming_timeout) (\<lambda>rc. runSandboxResume env rc sandboxID)"

section \<open>Execs\<close>

text \<open>\<open>dash\<close> is \<^verbatim>\<open>ArgsLenAtDash\<close>: how many arguments stand before \<^verbatim>\<open>--\<close>, negative without one.\<close>

definition exec_run_command :: "cli_env \<Rightarrow> string list \<Rightarrow> int \<Rightarrow> string \<Rightarrow> string list \<Rightarrow> unit cli" where
  "exec_run_command env args dash cwd envOverrides =
     (let usage = cli_fail (usageErrorf [Lit ''exec run requires <sandbox_id> -- <command> [args...]''])
      in if dash < 0 then cli_fail (usageErrorf [Lit ''exec run requires -- <command> [args...]''])
         else
           (let beforeDash = take (nat dash) args; afterDash = drop (nat dash) args
            in case beforeDash of
                 [sandboxID] \<Rightarrow>
                   if afterDash = [] then usage
                   else
                     cli_bind (lift_result (parse_assignments (\<lambda>raw. parseKeyValueAssignment raw ''--env-overrides'')
                       envOverrides)) (\<lambda>envMap.
                     runSandboxExec env \<lparr>xa_sandbox_id = sandboxID, xa_cwd = cwd, xa_env_overrides = envMap,
                       xa_command = afterDash\<rparr>)
               | _ \<Rightarrow> usage))"

definition exec_get_command :: "cli_env \<Rightarrow> json_writer \<Rightarrow> string \<Rightarrow> bool \<Rightarrow> unit cli" where
  "exec_get_command env wr execID json =
     cli_bind (connect_daemon env defaultTimeout) (\<lambda>rc. runExecGet env wr rc execID json)"

definition exec_cancel_command :: "cli_env \<Rightarrow> string \<Rightarrow> unit cli" where
  "exec_cancel_command env execID =
     cli_bind (connect_daemon env streaming_timeout) (\<lambda>rc. runExecCancel env rc execID)"

definition exec_list_command :: "cli_env \<Rightarrow> json_writer \<Rightarrow> string list \<Rightarrow> bool \<Rightarrow> unit cli" where
  "exec_list_command env wr args json =
     cli_bind (connect_daemon env defaultTimeout) (\<lambda>rc.
       runExecList env wr rc (case args of [] \<Rightarrow> '''' | a # _ \<Rightarrow> a) json)"

section \<open>Sessions and the version\<close>

definition session_command :: "cli_env \<Rightarrow> string \<Rightarrow> session_flags \<Rightarrow> unit cli" where
  "session_command env agentType v =
     cli_bind (lift_result (resolveAgentSessionArgs env v agentType)) (runAgentSession env)"

definition paseo_url_command :: "cli_env \<Rightarrow> string \<Rightarrow> unit cli" where
  "paseo_url_command env sandboxID =
     cli_bind (connect_daemon env streaming_timeout) (\<lambda>rc. runPaseoURL env rc sandboxID)"

text \<open>The version of the daemon is asked for; every failure on the way prints the same.\<close>

definition version_command :: "cli_env \<Rightarrow> string \<Rightarrow> unit cli" where
  "version_command env version =
     cli_then (print_out [Lit ''agbox: '', Lit version, newline])
     (let unavailable = print_out [Lit ''agboxd: unavailable'', newline]
      in case socketPathForGOOS (ve_goos env) (ve_home env) (ve_lookup env) of
           Inl _ \<Rightarrow> unavailable
         | Inr socketPath \<Rightarrow>
             (case ve_dial env socketPath of
                Some _ \<Rightarrow> unavailable
              | None \<Rightarrow>
                  cli_bind (cli_rpc (raw_Ping (ve_daemon env) False defaultTimeout)) (\<lambda>r.
                  case r of
                    Inl _ \<Rightarrow> unavailable
                  | Inr (v, _) \<Rightarrow> print_out [Lit ''agboxd: '', Lit v, newline])))"

section \<open>The process\<close>

definition run_command :: "cli_env \<Rightarrow> json_writer \<Rightarrow> clock \<Rightarrow> string \<Rightarrow> invocation \<Rightarrow> unit cli" where
  "run_command env wr ck version call =
     (case call of
        RootInvoked \<Rightarrow>
          cli_then (print_out [Lit ''agbox '', Lit version, newline])
          (print_out [Lit (''Run '' @ quoted ''agbox --help'' @ '' for usage information.''), newline])
      | VersionInvoked \<Rightarrow> version_command env version
      | SandboxInvoked \<Rightarrow>
          cli_fail (usageErrorf [Lit ''sandbox command requires a subcommand'', newline,
            Lit ''available subcommands: create, list, get, delete, stop, resume''])
      | SandboxCreateInvoked i c labels ttl json yaml sid \<Rightarrow> sandbox_create_command env wr i c labels ttl json yaml sid
      | SandboxListInvoked deleted labels json \<Rightarrow> sandbox_list_command env wr ck deleted labels json
      | SandboxGetInvoked sid json \<Rightarrow> sandbox_get_command env wr sid json
      | SandboxDeleteInvoked args labels \<Rightarrow> sandbox_delete_command env args labels
      | SandboxStopInvoked sid \<Rightarrow> sandbox_stop_command env sid
      | SandboxResumeInvoked sid \<Rightarrow> sandbox_resume_command env sid
      | ExecInvoked \<Rightarrow>
          cli_fail (usageErrorf [Lit ''exec command requires a subcommand'', newline,
            Lit ''available subcommands: run, get, cancel, list''])
      | ExecRunInvoked args dash cwd overrides \<Rightarrow> exec_run_command env args dash cwd overrides
      | ExecGetInvoked eid json \<Rightarrow> exec_get_command env wr eid json
      | ExecCancelInvoked eid \<Rightarrow> exec_cancel_command env eid
      | ExecListInvoked args json \<Rightarrow> exec_list_command env wr args json
      | SessionInvoked agentType v \<Rightarrow> session_command env agentType v
      | PaseoURLInvoked sid \<Rightarrow> paseo_url_command env sid
      | CommandLineError err _ \<Rightarrow> cli_fail (OtherError err))"

text \<open>\<open>usage\<close> is the usage text of the command cobra finds for the arguments.\<close>

definition finish_run :: "string \<Rightarrow> unit outcome \<times> cli_world \<Rightarrow> int option \<times> cli_world" where
  "finish_run usage r =
     (case r of
        (Waiting, w) \<Rightarrow> (None, w)
      | (Returned (), w) \<Rightarrow> (Some exitCodeSuccess, w)
      | (Failed (OtherError msg), w) \<Rightarrow>
          (Some exitCodeUsageError,
           w\<lparr>cw_err := cw_err w @ [[Lit ''Error: ''] @ msg @ [newline], [newline], [Lit usage]]\<rparr>)
      | (Failed err, w) \<Rightarrow>
          (Some (exitCodeForError (Some err)),
           if shouldPrintError err then w\<lparr>cw_err := cw_err w @ [command_text err @ [newline]]\<rparr> else w))"

definition run_cli ::
  "cli_env \<Rightarrow> json_writer \<Rightarrow> clock \<Rightarrow> string \<Rightarrow> string \<Rightarrow> invocation \<Rightarrow> int option \<times> cli_world" where
  "run_cli env wr ck version usage call = finish_run usage (run_command env wr ck version call fresh_world)"

end
