(* ===== verification/Cli_Laws.thy ===== *)
theory Cli_Laws
  imports Cli_Commands
begin

text \<open>
  How commands are reasoned about: what a sequence of steps returns, which calls a part can make
  (\<open>makes_only\<close>), an induction for the loops of waits, and what the daemon has told a command (\<open>told\<close>).
\<close>

section \<open>Outcomes\<close>

named_theorems cli_outcome \<open>when a step has a given outcome\<close>

lemma cli_bind_outcome [cli_outcome]:
  "cli_bind m f w = (Returned y, w') \<longleftrightarrow> (\<exists>x v. m w = (Returned x, v) \<and> f x v = (Returned y, w'))"
  "cli_bind m f w = (Failed e, w') \<longleftrightarrow> m w = (Failed e, w') \<or> (\<exists>x v. m w = (Returned x, v) \<and> f x v = (Failed e, w'))"
  "cli_bind m f w = (Waiting, w') \<longleftrightarrow> m w = (Waiting, w') \<or> (\<exists>x v. m w = (Returned x, v) \<and> f x v = (Waiting, w'))"
  by (auto simp: cli_bind_def split: outcome.splits prod.splits)

lemma cli_basic_outcome [cli_outcome]:
  "cli_ret x w = (r, w') \<longleftrightarrow> r = Returned x \<and> w' = w"
  "cli_fail e w = (r', w') \<longleftrightarrow> r' = Failed e \<and> w' = w"
  "cli_wait w = (r'', w') \<longleftrightarrow> r'' = Waiting \<and> w' = w"
  "cli_look f w = (r3, w') \<longleftrightarrow> r3 = Returned (f w) \<and> w' = w"
  "print_out s w = (q, w') \<longleftrightarrow> q = Returned () \<and> w' = w\<lparr>cw_out := cw_out w @ [s]\<rparr>"
  "print_err s w = (q, w') \<longleftrightarrow> q = Returned () \<and> w' = w\<lparr>cw_err := cw_err w @ [s]\<rparr>"
  by (auto simp: cli_ret_def cli_fail_def cli_wait_def cli_look_def print_out_def print_err_def)

lemma cli_rpc_outcome [cli_outcome]:
  "cli_rpc m w = (r, w') \<longleftrightarrow> (\<exists>x h. m (cw_calls w) = (x, h) \<and> r = Returned x \<and> w' = w\<lparr>cw_calls := h\<rparr>)"
  by (auto simp: cli_rpc_def split: prod.splits)

lemma cli_call_outcome [cli_outcome]:
  "cli_call what m w = (Returned x, w') \<longleftrightarrow> (\<exists>h. m (cw_calls w) = (Inr x, h) \<and> w' = w\<lparr>cw_calls := h\<rparr>)"
  "cli_call what m w = (Failed e, w') \<longleftrightarrow> (\<exists>err h. m (cw_calls w) = (Inl err, h) \<and> w' = w\<lparr>cw_calls := h\<rparr>
     \<and> e = runtimeErrorf ([Lit what, Lit '': ''] @ sdk_text err))"
  "cli_call what m w \<noteq> (Waiting, w')"
  by (cases "m (cw_calls w)"; cases "fst (m (cw_calls w))";
      auto simp: cli_call_def cli_rpc_def cli_bind_def cli_ret_def cli_fail_def)+

lemma cli_on_failure_outcome [cli_outcome]:
  "cli_on_failure m k w = (Returned x, w') \<longleftrightarrow> m w = (Returned x, w')"
  by (auto simp: cli_on_failure_def split: outcome.splits prod.splits)

lemma unary_outcome:
  "callWithTimeoutUnary dl t call answer h = (r, h') \<longleftrightarrow> h' = h @ [(call, withTimeout dl t)]
     \<and> r = (case answer h (withTimeout dl t) of Inl err \<Rightarrow> Inl (RpcFailed (translateRPCError err)) | Inr x \<Rightarrow> Inr x)"
  by (auto simp: callWithTimeoutUnary_def Let_def)

lemmas raw_calls = raw_Ping_def raw_CreateSandbox_def raw_GetSandbox_def raw_ListSandboxes_def raw_ResumeSandbox_def
  raw_StopSandbox_def raw_DeleteSandbox_def raw_DeleteSandboxes_def raw_Subscribe_def raw_CreateExec_def
  raw_CancelExec_def raw_GetExec_def raw_ListActiveExecs_def

section \<open>What a part can do\<close>

text \<open>The calls are among \<open>R\<close>, and the child process is left alone unless \<open>ch\<close>.\<close>

definition makes_only :: "rpc set \<Rightarrow> bool \<Rightarrow> 'a cli \<Rightarrow> bool" where
  "makes_only R ch m \<longleftrightarrow>
     (\<forall>w. (\<exists>new. cw_calls (snd (m w)) = cw_calls w @ new \<and> fst ` set new \<subseteq> R)
        \<and> (\<not> ch \<longrightarrow> cw_child (snd (m w)) = cw_child w))"

named_theorems makes_only_intros

lemma makes_only_mono: "makes_only R ch m \<Longrightarrow> R \<subseteq> S \<Longrightarrow> makes_only S ch m"
  unfolding makes_only_def by (meson subset_trans)

lemma makes_onlyD:
  assumes "makes_only R ch m" and "m w = (r, w')"
  obtains new where "cw_calls w' = cw_calls w @ new" and "fst ` set new \<subseteq> R"
    and "\<not> ch \<longrightarrow> cw_child w' = cw_child w"
  using assms unfolding makes_only_def by (metis snd_conv)

lemma makes_only_basic [makes_only_intros]:
  "makes_only R ch (cli_ret x)" "makes_only R ch (cli_fail e)" "makes_only R ch cli_wait"
  "makes_only R ch (print_out s)" "makes_only R ch (print_err s)" "makes_only R ch (cli_look f)"
  by (simp_all add: makes_only_def cli_ret_def cli_fail_def cli_wait_def print_out_def print_err_def cli_look_def)

lemma makes_only_bind [makes_only_intros]:
  assumes "makes_only R ch m" and "\<And>x. makes_only R ch (f x)"
  shows "makes_only R ch (cli_bind m f)"
  unfolding makes_only_def
proof
  fix w
  obtain r v where m: "m w = (r, v)" by fastforce
  from assms(1) m obtain n1 where one: "cw_calls v = cw_calls w @ n1" "fst ` set n1 \<subseteq> R"
      "\<not> ch \<longrightarrow> cw_child v = cw_child w" by (rule makes_onlyD)
  show "(\<exists>new. cw_calls (snd (cli_bind m f w)) = cw_calls w @ new \<and> fst ` set new \<subseteq> R)
      \<and> (\<not> ch \<longrightarrow> cw_child (snd (cli_bind m f w)) = cw_child w)"
  proof (cases r)
    case (Returned x)
    obtain r2 v2 where f: "f x v = (r2, v2)" by fastforce
    from assms(2) [of x] f obtain n2 where "cw_calls v2 = cw_calls v @ n2" "fst ` set n2 \<subseteq> R"
        "\<not> ch \<longrightarrow> cw_child v2 = cw_child v" by (rule makes_onlyD)
    with one m f Returned show ?thesis by (auto simp: cli_bind_def intro!: exI [of _ "n1 @ n2"])
  qed (use one m in \<open>auto simp: cli_bind_def\<close>)
qed

lemma makes_only_cases [makes_only_intros]:
  "makes_only R ch a \<Longrightarrow> makes_only R ch b \<Longrightarrow> makes_only R ch (if c then a else b)"
  "makes_only R ch a \<Longrightarrow> (\<And>x. makes_only R ch (f x)) \<Longrightarrow> makes_only R ch (case e of None \<Rightarrow> a | Some x \<Rightarrow> f x)"
  "(\<And>x. makes_only R ch (g x)) \<Longrightarrow> (\<And>x. makes_only R ch (k x)) \<Longrightarrow>
     makes_only R ch (case e2 of Inl x \<Rightarrow> g x | Inr x \<Rightarrow> k x)"
  by (cases c; cases e; cases e2; simp)+

lemma makes_only_unit [makes_only_intros]: "makes_only R ch a \<Longrightarrow> makes_only R ch (case_unit a u)"
  by (cases u) (simp only: unit.case)

lemma makes_only_unary [makes_only_intros]:
  "call \<in> R \<Longrightarrow> makes_only R ch (cli_rpc (callWithTimeoutUnary dl t call answer))"
  by (auto simp: makes_only_def cli_rpc_def callWithTimeoutUnary_def Let_def)

lemma makes_only_call [makes_only_intros]:
  "makes_only R ch (cli_rpc m) \<Longrightarrow> makes_only R ch (cli_call what m)"
  unfolding cli_call_def by (intro makes_only_intros)

lemma makes_only_on_failure [makes_only_intros]:
  assumes "makes_only R ch m" and "makes_only R ch k"
  shows "makes_only R ch (cli_on_failure m k)"
  unfolding makes_only_def
proof
  fix w
  obtain r v where m: "m w = (r, v)" by fastforce
  obtain r2 v2 where k: "k v = (r2, v2)" by fastforce
  from assms(1) m obtain n1 where one: "cw_calls v = cw_calls w @ n1" "fst ` set n1 \<subseteq> R"
      "\<not> ch \<longrightarrow> cw_child v = cw_child w" by (rule makes_onlyD)
  from assms(2) k obtain n2 where two: "cw_calls v2 = cw_calls v @ n2" "fst ` set n2 \<subseteq> R"
      "\<not> ch \<longrightarrow> cw_child v2 = cw_child v" by (rule makes_onlyD)
  show "(\<exists>new. cw_calls (snd (cli_on_failure m k w)) = cw_calls w @ new \<and> fst ` set new \<subseteq> R)
      \<and> (\<not> ch \<longrightarrow> cw_child (snd (cli_on_failure m k w)) = cw_child w)"
  proof (cases r)
    case (Failed e)
    with one two m k show ?thesis
      by (cases r2) (auto simp: cli_on_failure_def intro!: exI [of _ "n1 @ n2"])
  qed (use one m in \<open>auto simp: cli_on_failure_def\<close>)
qed

lemma makes_only_print_elapsed [makes_only_intros]: "makes_only R ch (print_elapsed env a b)"
  unfolding print_elapsed_def by (intro makes_only_intros)

lemma makes_only_announced [makes_only_intros]:
  "makes_only R ch m \<Longrightarrow> makes_only R ch (announced_wait msg m)"
  unfolding announced_wait_def by (intro makes_only_intros)

lemma makes_only_select:
  assumes "\<And>s c. makes_only R ch (body s c)"
  shows "makes_only R ch (select_loop body s results ps)"
proof (induction ps arbitrary: s results)
  case (Cons p ps)
  obtain c rs where t: "take_pick p results = (c, rs)" by fastforce
  show ?case by (simp add: t) (intro makes_only_intros assms Cons)
qed (simp add: makes_only_intros)

lemma makes_only_run_select [makes_only_intros]:
  "(\<And>s c. makes_only R ch (body s c)) \<Longrightarrow> makes_only R ch (run_select env body s feed)"
  unfolding run_select_def by (intro makes_only_intros makes_only_select)

section \<open>Loops\<close>

lemma run_select_eq: "run_select env body s feed w = select_loop body s (pump_results feed) (ve_picks env w) w"
  by (simp add: run_select_def cli_bind_def cli_look_def)

lemma select_loop_rule:
  assumes "select_loop body s results ps w = (r, w')" and "I s w" and "set results \<subseteq> RS"
    and stays: "\<And>s c v s' v'. I s v \<Longrightarrow> (\<And>x. c = GotResult x \<Longrightarrow> x \<in> RS) \<Longrightarrow>
       body s c v = (Returned (Inl s'), v') \<Longrightarrow> I s' v'"
    and leaves: "\<And>s c v x v'. I s v \<Longrightarrow> (\<And>x. c = GotResult x \<Longrightarrow> x \<in> RS) \<Longrightarrow>
       body s c v = (Returned (Inr x), v') \<Longrightarrow> Q (Returned x) v'"
    and fails: "\<And>s c v e v'. I s v \<Longrightarrow> (\<And>x. c = GotResult x \<Longrightarrow> x \<in> RS) \<Longrightarrow>
       body s c v = (Failed e, v') \<Longrightarrow> Q (Failed e) v'"
    and waits: "\<And>s c v v'. I s v \<Longrightarrow> v' = v \<or> body s c v = (Waiting, v') \<Longrightarrow> Q Waiting v'"
  shows "Q r w'"
  using assms(1-3)
proof (induction ps arbitrary: s results w)
  case Nil
  then show ?case using waits by (auto simp: cli_outcome)
next
  case (Cons p ps)
  obtain c rs where t: "take_pick p results = (c, rs)" by fastforce
  from t Cons.prems(3) have in': "x \<in> RS" if "c = GotResult x" for x
    using that by (cases p; cases results) auto
  from t Cons.prems(3) have rs: "set rs \<subseteq> RS" by (cases p; cases results) auto
  from Cons.prems(1) t have run: "cli_bind (body s c) (\<lambda>r. case r of
      Inl s' \<Rightarrow> select_loop body s' rs ps | Inr x \<Rightarrow> cli_ret x) w = (r, w')" by simp
  obtain q v where b: "body s c w = (q, v)" by fastforce
  show ?case
  proof (cases q)
    case (Returned y)
    show ?thesis
    proof (cases y)
      case (Inl s')
      with run b Returned have "select_loop body s' rs ps v = (r, w')" by (simp add: cli_bind_def)
      moreover from stays [OF Cons.prems(2) in'] b Returned Inl have "I s' v" by blast
      ultimately show ?thesis using Cons.IH rs by blast
    next
      case (Inr x)
      with run b Returned have "r = Returned x" "v = w'" by (auto simp: cli_bind_def cli_ret_def)
      with leaves [OF Cons.prems(2) in'] b Returned Inr show ?thesis by blast
    qed
  next
    case (Failed e)
    with run b have "r = Failed e" "v = w'" by (auto simp: cli_bind_def)
    with fails [OF Cons.prems(2) in'] b Failed show ?thesis by blast
  next
    case Waiting
    with run b have "r = Waiting" "v = w'" by (auto simp: cli_bind_def)
    with waits [OF Cons.prems(2)] b Waiting show ?thesis by blast
  qed
qed

section \<open>What the daemon has told\<close>

text \<open>In the calls made after \<open>start\<close>, the state was in a sandbox fetched or in an event of a subscription.\<close>

definition told :: "remote_daemon \<Rightarrow> call_log \<Rightarrow> string \<Rightarrow> sandbox_state \<Rightarrow> call_log \<Rightarrow> bool" where
  "told rd start sandboxID state calls \<longleftrightarrow>
     (\<exists>h l hs sb. calls = start @ h @ (GetSandboxCall sandboxID, l) # hs
        \<and> rd_get_sandbox rd (start @ h) l sandboxID = Inr sb \<and> sh_state (get_handle sb) = state)
     \<or> (\<exists>h l hs q feed. calls = start @ h @ (SubscribeCall sandboxID q False, l) # hs
        \<and> rd_subscribe rd (start @ h) l sandboxID q False = Inr feed \<and> state \<in> event_state ` set (fd_events feed))"

lemma told_append: "told rd start sandboxID state calls \<Longrightarrow> told rd start sandboxID state (calls @ new)"
  unfolding told_def by (metis append.assoc append_Cons)

lemma told_later: "told rd (start @ later) sandboxID state calls \<Longrightarrow> told rd start sandboxID state calls"
  unfolding told_def by (metis append.assoc)

lemma told_by_get:
  "rd_get_sandbox rd start l sandboxID = Inr sb \<Longrightarrow> sh_state (get_handle sb) = state \<Longrightarrow>
     told rd start sandboxID state (start @ [(GetSandboxCall sandboxID, l)])"
  unfolding told_def by (metis append_Nil2 append_self_conv append_Nil)

lemma told_by_event:
  "rd_subscribe rd start l sandboxID q False = Inr feed \<Longrightarrow> state \<in> event_state ` set (fd_events feed) \<Longrightarrow>
     told rd start sandboxID state (start @ [(SubscribeCall sandboxID q False, l)])"
  unfolding told_def by (metis append_Nil2 append_self_conv append_Nil)

lemma result_event: "ResultEvent e \<in> set (pump_results feed) \<Longrightarrow> e \<in> set (fd_events feed)"
  by (auto simp: pump_results_def)

end
