(* ===== verification/Cli_Sample.thy ===== *)
theory Cli_Sample
  imports Cli_Laws Client_Props
begin

text \<open>
  A concrete daemon and concrete surroundings, at which the properties of the command line are applied.
\<close>

definition deletion_asked :: "call_log \<Rightarrow> bool" where
  "deletion_asked calls \<longleftrightarrow> list_ex (\<lambda>(call, _). case call of DeleteSandboxCall _ \<Rightarrow> True | _ \<Rightarrow> False) calls"

definition stop_asked :: "call_log \<Rightarrow> bool" where
  "stop_asked calls \<longleftrightarrow> list_ex (\<lambda>(call, _). case call of StopSandboxCall _ \<Rightarrow> True | _ \<Rightarrow> False) calls"

definition sample_exec_status :: exec_status where
  "sample_exec_status = \<lparr>es_exec_id = ''exec-1'', es_sandbox_id = ''box-1'', es_state = EXEC_STATE_FINISHED,
     es_command = [''make''], es_cwd = '''', es_env_overrides = [], es_exit_code = 3, es_error = '''',
     es_last_event_sequence = 4\<rparr>"

text \<open>It does what it is asked at once: a sandbox it made is ready, then stopped or deleted, and an exec has ended with code 3.\<close>

definition prompt_daemon :: remote_daemon where
  "prompt_daemon = sample_daemon\<lparr>
     rd_get_sandbox := (\<lambda>calls _ _. Inr (Some (sample_handle
       (if deletion_asked calls then SANDBOX_STATE_DELETED
        else if stop_asked calls then SANDBOX_STATE_STOPPED
        else SANDBOX_STATE_READY) 2))),
     rd_create_exec := (\<lambda>_ _ _. Inr \<lparr>xs_exec_id = ''exec-1'', xs_stdout_log_path = ''/l'', xs_stderr_log_path = ''''\<rparr>),
     rd_get_exec := (\<lambda>_ _ _. Inr (Some sample_exec_status))\<rparr>"

text \<open>It accepts a deletion, and the sandbox it then reports has failed.\<close>

definition stuck_daemon :: remote_daemon where
  "stuck_daemon = sample_daemon\<lparr>
     rd_get_sandbox := (\<lambda>_ _ _. Inr (Some (sample_handle SANDBOX_STATE_FAILED 5))),
     rd_subscribe := (\<lambda>_ _ _ _ _. Inr \<lparr>fd_events = [Some \<lparr>we_event = sample_event SANDBOX_FAILED SANDBOX_STATE_FAILED 6,
         we_dated = True\<rparr>], fd_recv_error = None, fd_ctx_error = None\<rparr>)\<rparr>"

text \<open>A terminal at which nothing happens but events and the end of the agent.\<close>

definition sample_env :: "remote_daemon \<Rightarrow> cli_env" where
  "sample_env rd = \<lparr>ve_goos = ''linux'', ve_home = Inr ''/home/u'', ve_cwd = Inr ''/src'',
     ve_lookup = Some (\<lambda>key. if key = ''XDG_RUNTIME_DIR'' then Some ''/run/u'' else None), ve_daemon = rd,
     ve_dial = (\<lambda>_. None), ve_picks = (\<lambda>w. if cw_child w = [] then [FromStream] else [FromChild]),
     ve_pending = (\<lambda>_. None), ve_elapsed = (\<lambda>_. ''0.1''), ve_stdin_tty = True, ve_scanln = Inr ''y'',
     ve_stat = (\<lambda>_. StatOk), ve_eval_symlinks = Inr, ve_read_file = (\<lambda>_. Inr ''paseo://pair''),
     ve_getenv = (\<lambda>_. ''''), ve_docker_output = (\<lambda>_ _. Inr ''/bin/bash''), ve_child_start = (\<lambda>_ _. None),
     ve_child_wait = (\<lambda>_. Some ChildOk), ve_child_grace = (\<lambda>_. None), ve_random = (\<lambda>_. []),
     ve_parse_duration = (\<lambda>_. Inr hour), ve_yaml_image = (\<lambda>_. Inr ''a''), ve_json_profiles = (\<lambda>_. Inr 0),
     ve_json_token = (\<lambda>_. Inr '''')\<rparr>"

definition sample_session :: agent_session_args where
  "sample_session = no_session_args\<lparr>sa_command := [''bash''], sa_image := ''a''\<rparr>"

definition sample_run :: sandbox_exec_args where
  "sample_run = \<lparr>xa_sandbox_id = ''box-1'', xa_cwd = '''', xa_env_overrides = [], xa_command = [''make'']\<rparr>"

lemma sample_facts [simp]:
  "ve_daemon (sample_env rd) = rd" "cw_calls fresh_world = []" "cw_child fresh_world = []"
  "rd_create_sandbox prompt_daemon calls l request = Inr (Some (sample_handle SANDBOX_STATE_PENDING 1))"
  "rd_create_exec prompt_daemon calls l x = Inr \<lparr>xs_exec_id = ''exec-1'', xs_stdout_log_path = ''/l'', xs_stderr_log_path = ''''\<rparr>"
  "sh_sandbox_id (get_handle (Some (sample_handle st q))) = ''box-1''"
  "ve_pending (sample_env rd) w = None" "ve_elapsed (sample_env rd) w = ''0.1''" "ve_stdin_tty (sample_env rd)"
  "ve_child_start (sample_env rd) w args = None" "ve_child_wait (sample_env rd) w = Some ChildOk"
  "sa_agent_type sample_session = ''''" "sa_ready_message sample_session = None" "sa_workspace sample_session = ''''"
  by (simp_all add: sample_env_def fresh_world_def prompt_daemon_def sample_daemon_def get_handle_def sample_handle_def
      sample_session_def no_session_args_def)

end
