(* ===== verification/Cli_Props.thy ===== *)
theory Cli_Props
  imports Cli_Sample Docker_Names
begin

text \<open>
  Properties of the command line: a command that waits and succeeds has been told the state it waited for, a
  session deletes what it created unless it means to leave it, an exec's exit code is passed on, and what the
  flags become.
\<close>

section \<open>The parts of the waits\<close>

definition reads :: "string \<Rightarrow> rpc set" where
  "reads sandboxID = insert (GetSandboxCall sandboxID) (range (\<lambda>q. SubscribeCall sandboxID q False))"

lemma makes_only_get [makes_only_intros]:
  "GetSandboxCall sandboxID \<in> R \<Longrightarrow> makes_only R ch (cli_rpc (raw_GetSandbox rd dl rc sandboxID))"
  "(\<And>q. SubscribeCall sandboxID q False \<in> R) \<Longrightarrow>
     makes_only R ch (cli_rpc (raw_Subscribe rd dl rc sandboxID q False))"
  "DeleteSandboxCall sandboxID \<in> R \<Longrightarrow> makes_only R ch (cli_rpc (raw_DeleteSandbox rd dl rc sandboxID))"
  unfolding raw_calls by (intro makes_only_intros; simp)+

lemma reads_simps [simp]: "GetSandboxCall sandboxID \<in> reads sandboxID" "SubscribeCall sandboxID q False \<in> reads sandboxID"
  by (auto simp: reads_def)

lemma makes_only_details [makes_only_intros]:
  "makes_only (reads sandboxID) ch (fetched_detail env rc sandboxID)"
  "makes_only (reads sandboxID) ch (sandboxFailedError env rc sandboxID)"
  unfolding fetched_detail_def sandboxFailedError_def by (intro makes_only_intros reads_simps)+

lemma makes_only_classify [makes_only_intros]:
  assumes "makes_only R ch detail"
  shows "makes_only R ch (classifyDeleted state sandboxID detail)" "makes_only R ch (classifyStopped state sandboxID detail)"
    "makes_only R ch (classifyResumed state sandboxID detail)"
  unfolding classifyDeleted_def classifyStopped_def classifyResumed_def classify_failed_def
  by (intro makes_only_intros assms)+

definition sane_classifier :: "state_classifier \<Rightarrow> sandbox_state \<Rightarrow> bool" where
  "sane_classifier classify tgt \<longleftrightarrow>
     (\<forall>state sandboxID detail v v'. classify state sandboxID detail v = (Returned Reached, v') \<longrightarrow> state = tgt \<and> v' = v)
   \<and> (\<forall>R ch state sandboxID detail. makes_only R ch detail \<longrightarrow> makes_only R ch (classify state sandboxID detail))"

lemma sane_classifiers:
  "sane_classifier classifyDeleted SANDBOX_STATE_DELETED" "sane_classifier classifyStopped SANDBOX_STATE_STOPPED"
  "sane_classifier classifyResumed SANDBOX_STATE_READY"
  by (auto simp: sane_classifier_def intro: makes_only_classify)
    (auto simp: classifyDeleted_def classifyStopped_def classifyResumed_def classify_failed_def cli_outcome split: if_splits)

lemma sane_makes_only:
  "sane_classifier classify tgt \<Longrightarrow> makes_only R ch detail \<Longrightarrow> makes_only R ch (classify state sandboxID detail)"
  by (simp add: sane_classifier_def)

lemma sane_Reached:
  "sane_classifier classify tgt \<Longrightarrow> classify state sandboxID detail v = (Returned Reached, v') \<Longrightarrow> state = tgt \<and> v' = v"
  by (simp add: sane_classifier_def)

lemma makes_only_turn:
  assumes "sane_classifier classify tgt"
  shows "makes_only (reads sandboxID) ch (state_turn env rc sandboxID classify s c)"
  unfolding state_turn_def
  by (auto split: choice.splits stream_result.splits intro!: makes_only_intros sane_makes_only [OF assms])

lemma makes_only_ready_turn: "makes_only (reads sandboxID) ch (ready_turn env rc sandboxID signals s c)"
  unfolding ready_turn_def Let_def by (auto split: choice.splits stream_result.splits intro!: makes_only_intros)

lemma makes_only_cleanup_turn: "makes_only (reads sandboxID) ch (cleanup_turn sandboxID s c)"
  unfolding cleanup_turn_def Let_def by (auto split: choice.splits stream_result.splits intro!: makes_only_intros)

lemma makes_only_ready [makes_only_intros]:
  "makes_only (reads sandboxID) ch (waitForSandboxReady env rc sandboxID q signals)"
  unfolding waitForSandboxReady_def Let_def
  by (intro makes_only_intros makes_only_ready_turn reads_simps)

lemma makes_only_wait_state:
  assumes "sane_classifier classify tgt"
  shows "makes_only (reads sandboxID) ch (cli_waitForSandboxState env rc sandboxID classify)"
  unfolding cli_waitForSandboxState_def Let_def
  by (intro makes_only_intros sane_makes_only [OF assms] makes_only_turn [OF assms] reads_simps)

section \<open>Waits end in the state waited for\<close>

text \<open>A loop over the events of a subscription whose turns only read keeps the subscription in the calls.\<close>

lemma run_select_told:
  assumes "run_select env body s feed w = (Returned x, w')"
    and "rd_subscribe rd h l sandboxID q False = Inr feed" and "cw_calls w = h @ [(SubscribeCall sandboxID q False, l)]"
    and only: "\<And>s c. makes_only R ch (body s c)"
    and leave: "\<And>s c v x v'. (\<And>r. c = GotResult r \<Longrightarrow> r \<in> set (pump_results feed)) \<Longrightarrow>
       body s c v = (Returned (Inr x), v') \<Longrightarrow> v' = v \<and> state \<in> event_state ` set (fd_events feed)"
  shows "told rd h sandboxID state (cw_calls w')"
proof -
  let ?I = "\<lambda>_ v. \<exists>new. cw_calls v = cw_calls w @ new"
  have "Returned x = (Returned x :: 'a outcome) \<longrightarrow> told rd h sandboxID state (cw_calls w')"
  proof (rule select_loop_rule [OF assms(1) [unfolded run_select_eq], where I = ?I and RS = "set (pump_results feed)"
        and Q = "\<lambda>r v. r = Returned x \<longrightarrow> told rd h sandboxID state (cw_calls v)"])
    fix s c v s' v'
    assume "?I s v" "body s c v = (Returned (Inl s'), v')"
    then show "?I s' v'" by (metis append.assoc makes_onlyD only)
  next
    fix s c v y v'
    assume "?I s v" and c: "\<And>r. c = GotResult r \<Longrightarrow> r \<in> set (pump_results feed)" "body s c v = (Returned (Inr y), v')"
    with leave [OF c] told_append [OF told_by_event [OF assms(2)]] show "Returned y = Returned x \<longrightarrow> told rd h sandboxID state (cw_calls v')"
      by (auto simp: assms(3))
  qed auto
  then show ?thesis by simp
qed

lemma subscribed_Returned:
  assumes "cli_bind (cli_call what (raw_Subscribe rd dl rc sandboxID q b)) (run_select env body s) w = (Returned x, w')"
  obtains feed l where "rd_subscribe rd (cw_calls w) l sandboxID q b = Inr feed"
    and "run_select env body s feed (w\<lparr>cw_calls := cw_calls w @ [(SubscribeCall sandboxID q b, l)]\<rparr>) = (Returned x, w')"
  using assms by (auto simp: cli_outcome raw_Subscribe_def unary_outcome split: sum.splits)

lemma wait_state_told:
  assumes "cli_waitForSandboxState env rc sandboxID classify w = (Returned x, w')" and sane: "sane_classifier classify tgt"
  shows "told (ve_daemon env) (cw_calls w) sandboxID tgt (cw_calls w')"
proof -
  let ?rd = "ve_daemon env"
  let ?rest = "\<lambda>h verdict. if verdict = Reached then cli_ret ()
    else cli_bind (cli_call ''subscribe sandbox events''
        (raw_Subscribe ?rd False rc sandboxID (sh_last_event_sequence (get_handle h)) False))
      (run_select env (state_turn env rc sandboxID classify) ())"
  from assms(1) obtain h hs verdict v2 where get: "raw_GetSandbox ?rd False rc sandboxID (cw_calls w) = (Inr h, hs)"
    and cl: "classify (sh_state (get_handle h)) sandboxID (cli_ret (sandboxErrorDetail (get_handle h)))
        (w\<lparr>cw_calls := hs\<rparr>) = (Returned verdict, v2)"
    and rest: "?rest h verdict v2 = (Returned x, w')"
    unfolding cli_waitForSandboxState_def cli_outcome Let_def by blast
  show ?thesis
  proof (cases "verdict = Reached")
    case True
    with cl sane_Reached [OF sane] have "sh_state (get_handle h) = tgt" "v2 = w\<lparr>cw_calls := hs\<rparr>" by blast+
    with True rest get show ?thesis
      by (auto simp: cli_outcome raw_GetSandbox_def unary_outcome split: sum.splits intro!: told_by_get)
  next
    case False
    with rest have "cli_bind (cli_call ''subscribe sandbox events''
        (raw_Subscribe ?rd False rc sandboxID (sh_last_event_sequence (get_handle h)) False))
      (run_select env (state_turn env rc sandboxID classify) ()) v2 = (Returned x, w')" by simp
    then obtain feed l where s: "rd_subscribe ?rd (cw_calls v2) l sandboxID (sh_last_event_sequence (get_handle h)) False = Inr feed"
      and loop: "run_select env (state_turn env rc sandboxID classify) () feed
        (v2\<lparr>cw_calls := cw_calls v2 @ [(SubscribeCall sandboxID (sh_last_event_sequence (get_handle h)) False, l)]\<rparr>)
        = (Returned x, w')"
      by (rule subscribed_Returned)
    have "told ?rd (cw_calls v2) sandboxID tgt (cw_calls w')"
    proof (rule run_select_told [OF loop s _ makes_only_turn [OF sane]])
      fix s c y v v'
      assume c: "\<And>r. c = GotResult r \<Longrightarrow> r \<in> set (pump_results feed)"
        and "state_turn env rc sandboxID classify s c v = (Returned (Inr y), v')"
      then show "v' = v \<and> tgt \<in> event_state ` set (fd_events feed)"
        by (auto simp: state_turn_def cli_outcome split: choice.splits stream_result.splits if_splits
            dest!: sane_Reached [OF sane] result_event)
    qed simp
    moreover have "makes_only UNIV True (classify (sh_state (get_handle h)) sandboxID
        (cli_ret (sandboxErrorDetail (get_handle h))))"
      by (intro sane_makes_only [OF sane] makes_only_intros)
    from this cl obtain new where "cw_calls v2 = hs @ new" by (rule makes_onlyD) simp
    moreover from get obtain l where "hs = cw_calls w @ [(GetSandboxCall sandboxID, l)]"
      by (auto simp: raw_GetSandbox_def unary_outcome)
    ultimately show ?thesis by (metis append.assoc told_later)
  qed
qed

lemma wait_ready_told:
  assumes "waitForSandboxReady env rc sandboxID lastSeq signals w = (Returned x, w')"
  shows "told (ve_daemon env) (cw_calls w) sandboxID SANDBOX_STATE_READY (cw_calls w')"
proof -
  let ?rd = "ve_daemon env"
  from assms obtain h hs where get: "raw_GetSandbox ?rd False rc sandboxID (cw_calls w) = (Inr h, hs)"
    and rest: "(let sandbox = get_handle h; state = sh_state sandbox
     in if state = SANDBOX_STATE_READY then cli_ret ()
        else if state = SANDBOX_STATE_FAILED
        then cli_fail (runtimeErrorf (failed_text sandboxID (sandboxErrorDetail sandbox)))
        else if state \<in> {SANDBOX_STATE_STOPPED, SANDBOX_STATE_DELETED} then cli_fail (not_ready_error sandboxID state)
        else
          (let cursorSeq = (if sh_last_event_sequence sandbox < lastSeq then lastSeq else sh_last_event_sequence sandbox)
           in cli_bind (cli_call ''subscribe sandbox events''
                (raw_Subscribe (ve_daemon env) False rc sandboxID cursorSeq False))
              (run_select env (ready_turn env rc sandboxID signals) ()))) (w\<lparr>cw_calls := hs\<rparr>) = (Returned x, w')"
    unfolding waitForSandboxReady_def cli_outcome by blast
  show ?thesis
  proof (cases "sh_state (get_handle h) = SANDBOX_STATE_READY")
    case True
    with get rest show ?thesis
      by (auto simp: cli_outcome raw_GetSandbox_def unary_outcome Let_def split: sum.splits intro!: told_by_get)
  next
    case False
    with rest obtain q where "cli_bind (cli_call ''subscribe sandbox events''
        (raw_Subscribe ?rd False rc sandboxID q False)) (run_select env (ready_turn env rc sandboxID signals) ())
        (w\<lparr>cw_calls := hs\<rparr>) = (Returned x, w')"
      by (auto simp: Let_def cli_basic_outcome split: if_splits)
    then obtain feed l where s: "rd_subscribe ?rd hs l sandboxID q False = Inr feed"
      and loop: "run_select env (ready_turn env rc sandboxID signals) () feed
        (w\<lparr>cw_calls := hs @ [(SubscribeCall sandboxID q False, l)]\<rparr>) = (Returned x, w')"
      by (auto elim!: subscribed_Returned)
    have "told ?rd hs sandboxID SANDBOX_STATE_READY (cw_calls w')"
    proof (rule run_select_told [OF loop s _ makes_only_ready_turn])
      fix s c y v v'
      assume "\<And>r. c = GotResult r \<Longrightarrow> r \<in> set (pump_results feed)"
        and "ready_turn env rc sandboxID signals s c v = (Returned (Inr y), v')"
      then show "v' = v \<and> SANDBOX_STATE_READY \<in> event_state ` set (fd_events feed)"
        by (auto simp: ready_turn_def cli_outcome Let_def split: choice.splits stream_result.splits if_splits
            dest!: result_event) (metis image_eqI)
    qed simp
    moreover from get obtain l where "hs = cw_calls w @ [(GetSandboxCall sandboxID, l)]"
      by (auto simp: raw_GetSandbox_def unary_outcome)
    ultimately show ?thesis by (auto dest: told_later)
  qed
qed

lemma announced_Returned: "announced_wait msg m w = (Returned x, w') \<longleftrightarrow> m (w\<lparr>cw_err := cw_err w @ [msg]\<rparr>) = (Returned x, w')"
  by (auto simp: announced_wait_def cli_outcome)

lemma elapsed_calls: "print_elapsed env a b w = (r, w') \<Longrightarrow> cw_calls w' = cw_calls w \<and> cw_child w' = cw_child w"
  by (auto simp: print_elapsed_def cli_bind_def cli_look_def print_err_def)

lemma wait_all_told:
  "wait_all_deleted env rc ids w = (Returned x, w') \<Longrightarrow> i \<in> set ids \<Longrightarrow>
     told (ve_daemon env) (cw_calls w) i SANDBOX_STATE_DELETED (cw_calls w')"
proof (induction ids arbitrary: w)
  case (Cons j ids)
  from Cons.prems(1) obtain v y where one: "cli_waitForSandboxState env rc j classifyDeleted w = (Returned y, v)"
      "wait_all_deleted env rc ids v = (Returned x, w')" by (auto simp: cli_outcome)
  have "makes_only UNIV True (wait_all_deleted env rc ids)"
  proof (induction ids)
    case (Cons a as)
    have "makes_only UNIV True (cli_waitForSandboxState env rc a classifyDeleted)"
      by (rule makes_only_mono [OF makes_only_wait_state [OF sane_classifiers(1)] subset_UNIV])
    with Cons show ?case by (simp add: makes_only_intros)
  qed (simp add: makes_only_intros)
  from this one(2) obtain new where "cw_calls w' = cw_calls v @ new" by (rule makes_onlyD)
  with wait_state_told [OF one(1) sane_classifiers(1)]
  have j: "told (ve_daemon env) (cw_calls w) j SANDBOX_STATE_DELETED (cw_calls w')"
    by (simp add: told_append)
  from makes_only_wait_state [OF sane_classifiers(1)] one(1) obtain mid where "cw_calls v = cw_calls w @ mid"
    by (rule makes_onlyD)
  with Cons.IH [OF one(2)] Cons.prems(2) j show ?case by (auto intro: told_later)
qed simp

text \<open>
  C28. A command that waits and succeeds has been told by the daemon that the sandbox is in the state it waited
  for: \<^verbatim>\<open>stop\<close> stopped, \<^verbatim>\<open>resume\<close> ready, \<^verbatim>\<open>create\<close> (unless asked for JSON) ready, \<^verbatim>\<open>delete\<close> deleted, and a deletion
  by labels has been told so of every sandbox the daemon reported.
\<close>
theorem commands_end_in_state:
  "(runSandboxStop env rc sandboxID w = (Returned (), w') \<longrightarrow>
      told (ve_daemon env) (cw_calls w) sandboxID SANDBOX_STATE_STOPPED (cw_calls w'))
   \<and> (runSandboxResume env rc sandboxID w = (Returned (), w') \<longrightarrow>
      told (ve_daemon env) (cw_calls w) sandboxID SANDBOX_STATE_READY (cw_calls w'))
   \<and> (runSandboxDelete env rc sandboxID labels w = (Returned (), w') \<longrightarrow>
        (if sandboxID \<noteq> '''' then told (ve_daemon env) (cw_calls w) sandboxID SANDBOX_STATE_DELETED (cw_calls w')
         else \<exists>l response. rd_delete_sandboxes (ve_daemon env) (cw_calls w) l labels = Inr response
            \<and> (\<forall>i \<in> set (ds_deleted_sandbox_ids response). told (ve_daemon env) (cw_calls w) i SANDBOX_STATE_DELETED (cw_calls w'))))
   \<and> (runSandboxCreate env wr rc args w = (Returned (), w') \<longrightarrow> \<not> ca_json args \<longrightarrow>
        (\<exists>l request sb. rd_create_sandbox (ve_daemon env) (cw_calls w) l request = Inr sb
           \<and> told (ve_daemon env) (cw_calls w) (sh_sandbox_id (get_handle sb)) SANDBOX_STATE_READY (cw_calls w')))"
proof (intro conjI impI)
  assume "runSandboxStop env rc sandboxID w = (Returned (), w')"
  then show "told (ve_daemon env) (cw_calls w) sandboxID SANDBOX_STATE_STOPPED (cw_calls w')"
    by (auto simp: runSandboxStop_def cli_outcome announced_Returned raw_StopSandbox_def unary_outcome split: sum.splits
        dest!: wait_state_told [OF _ sane_classifiers(2)] elapsed_calls intro: told_later)
next
  assume "runSandboxResume env rc sandboxID w = (Returned (), w')"
  then show "told (ve_daemon env) (cw_calls w) sandboxID SANDBOX_STATE_READY (cw_calls w')"
    by (auto simp: runSandboxResume_def cli_outcome announced_Returned raw_ResumeSandbox_def unary_outcome split: sum.splits
        dest!: wait_state_told [OF _ sane_classifiers(3)] elapsed_calls intro: told_later)
next
  assume r: "runSandboxDelete env rc sandboxID labels w = (Returned (), w')"
  show "if sandboxID \<noteq> '''' then told (ve_daemon env) (cw_calls w) sandboxID SANDBOX_STATE_DELETED (cw_calls w')
      else \<exists>l response. rd_delete_sandboxes (ve_daemon env) (cw_calls w) l labels = Inr response
         \<and> (\<forall>i \<in> set (ds_deleted_sandbox_ids response). told (ve_daemon env) (cw_calls w) i SANDBOX_STATE_DELETED (cw_calls w'))"
  proof (cases "sandboxID = ''''")
    case False
    with r show ?thesis
      by (auto simp: runSandboxDelete_def deleteSingleSandbox_def cli_outcome raw_DeleteSandbox_def unary_outcome
          dest!: wait_state_told [OF _ sane_classifiers(1)] elapsed_calls split: if_splits sum.splits intro: told_later)
  next
    case True
    with r have "deleteSandboxesByLabel env rc labels w = (Returned (), w')"
      by (simp add: runSandboxDelete_def cli_basic_outcome split: if_splits)
    then obtain l response where d: "rd_delete_sandboxes (ve_daemon env) (cw_calls w) l labels = Inr response"
      and rest: "ds_deleted_sandbox_ids response = [] \<or>
        (\<exists>v u x y. wait_all_deleted env rc (ds_deleted_sandbox_ids response) v = (Returned (), u)
           \<and> cw_calls v = cw_calls w @ [(DeleteSandboxesCall labels, l)] \<and> print_elapsed env x y u = (Returned (), w'))"
      by (fastforce simp: deleteSandboxesByLabel_def cli_outcome Let_def raw_DeleteSandboxes_def unary_outcome
          split: if_splits sum.splits)
    from rest have "\<forall>i \<in> set (ds_deleted_sandbox_ids response). told (ve_daemon env) (cw_calls w) i SANDBOX_STATE_DELETED (cw_calls w')"
      by (auto dest!: elapsed_calls wait_all_told intro: told_later)
    with d True show ?thesis by auto
  qed
next
  assume "runSandboxCreate env wr rc args w = (Returned (), w')" and "\<not> ca_json args"
  then show "(\<exists>l request sb. rd_create_sandbox (ve_daemon env) (cw_calls w) l request = Inr sb
      \<and> told (ve_daemon env) (cw_calls w) (sh_sandbox_id (get_handle sb)) SANDBOX_STATE_READY (cw_calls w'))"
    by (auto simp: runSandboxCreate_def cli_outcome Let_def announced_Returned raw_CreateSandbox_def unary_outcome
        dest!: wait_ready_told elapsed_calls split: if_splits sum.splits) (blast intro: told_later)
qed

theorem commands_end_in_state_witness:
  "told prompt_daemon [] ''box-1'' SANDBOX_STATE_STOPPED
     (cw_calls (snd (runSandboxStop (sample_env prompt_daemon) 0 ''box-1'' fresh_world)))"
proof -
  have "fst (runSandboxStop (sample_env prompt_daemon) 0 ''box-1'' fresh_world) = Returned ()" by code_simp
  then obtain w' where run: "runSandboxStop (sample_env prompt_daemon) 0 ''box-1'' fresh_world = (Returned (), w')"
    by (cases "runSandboxStop (sample_env prompt_daemon) 0 ''box-1'' fresh_world") simp
  from conjunct1 [OF commands_end_in_state] run show ?thesis
    by fastforce
qed

end
