(* ===== verification/Session_Props.thy ===== *)
theory Session_Props
  imports Cli_Props
begin

text \<open>
  Sessions: what an interactive session and a long-running one leave behind, and what the agent's process is
  attached to.
\<close>

section \<open>The parts of a session\<close>

lemma deleteAndWait_calls:
  assumes "deleteAndWait env rc sandboxID w = (r, w')"
  obtains more where "cw_calls w' = cw_calls w @ (DeleteSandboxCall sandboxID, withTimeout False rc) # more"
    and "fst ` set more \<subseteq> reads sandboxID" and "cw_child w' = cw_child w"
proof -
  let ?F = "\<lambda>r. case r of
       Inl err \<Rightarrow> print_err (warning ([Lit ''delete sandbox '', Lit sandboxID, Lit '': ''] @ sdk_text err))
     | Inr () \<Rightarrow>
     cli_bind (cli_rpc (raw_GetSandbox (ve_daemon env) False rc sandboxID)) (\<lambda>r.
     case r of
       Inl err \<Rightarrow> print_err (warning ([Lit ''get sandbox after delete '', Lit sandboxID, Lit '': ''] @ sdk_text err))
     | Inr h \<Rightarrow>
     (let sandbox = get_handle h
      in if sh_state sandbox = SANDBOX_STATE_DELETED
         then print_err [Lit ''Sandbox '', Lit sandboxID, Lit '' cleaned up.'', newline]
         else if sh_state sandbox = SANDBOX_STATE_FAILED
         then print_err (warning [Lit ''sandbox '', Lit sandboxID, Lit '' failed to clean up''])
         else
     cli_bind (cli_rpc (raw_Subscribe (ve_daemon env) False rc sandboxID (sh_last_event_sequence sandbox) False)) (\<lambda>r.
     case r of
       Inl err \<Rightarrow>
         print_err (warning ([Lit ''subscribe sandbox events for cleanup '', Lit sandboxID, Lit '': ''] @ sdk_text err))
     | Inr feed \<Rightarrow> run_select env (cleanup_turn sandboxID) () feed)))"
  have F: "makes_only (reads sandboxID) False (?F x)" for x
    unfolding Let_def by (intro makes_only_intros makes_only_cleanup_turn reads_simps)
  obtain x where "?F x (w\<lparr>cw_calls := cw_calls w @ [(DeleteSandboxCall sandboxID, withTimeout False rc)]\<rparr>) = (r, w')"
    using assms by (fastforce simp: deleteAndWait_def cli_bind_def cli_rpc_def raw_DeleteSandbox_def callWithTimeoutUnary_def Let_def)
  from F this show ?thesis by (rule makes_onlyD) (use that in auto)
qed

lemma cleanup_calls:
  assumes "interactive_cleanup env rc sandboxID w = (r, w') \<or> detach_cleanup env rc sandboxID w = (r, w')"
  obtains more where "cw_calls w' = cw_calls w @ (DeleteSandboxCall sandboxID, withTimeout False rc) # more"
    and "fst ` set more \<subseteq> reads sandboxID" and "cw_child w' = cw_child w"
proof -
  from assms obtain v where v: "deleteAndWait env rc sandboxID v = (r, w')" "cw_calls v = cw_calls w" "cw_child v = cw_child w"
    by (auto simp: interactive_cleanup_def detach_cleanup_def cli_bind_def print_err_def)
  from v(1) show ?thesis by (rule deleteAndWait_calls) (use that v in auto)
qed

lemma makes_only_child [makes_only_intros]:
  "makes_only R True (child_note a)" "makes_only R ch (child_wait env)" "makes_only R ch (cli_result x)"
  unfolding child_wait_def cli_result_def by (intro makes_only_intros | simp add: makes_only_def child_note_def)+

lemma makes_only_attached: "makes_only R True (attached_turn env s c)"
  unfolding attached_turn_def by (cases c) (simp_all, (intro makes_only_intros)+)

lemma makes_only_attach: "makes_only R True (attach_agent env containerName command)"
  unfolding attach_agent_def Let_def by (intro makes_only_intros makes_only_select makes_only_attached)

lemma makes_only_prod [makes_only_intros]:
  "(\<And>x y. makes_only R ch (f x y)) \<Longrightarrow> makes_only R ch (case p of (x, y) \<Rightarrow> f x y)"
  by (cases p) simp

lemma makes_only_shell [makes_only_intros]: "makes_only R ch (resolveContainerLoginShell env containerName user)"
  unfolding resolveContainerLoginShell_def Let_def by (intro makes_only_intros)

lemma makes_only_early [makes_only_intros]: "makes_only R ch (early_signal env)"
  unfolding early_signal_def by (intro makes_only_intros)

lemma makes_only_hint: "makes_only (reads sandboxID) ch (waitReadyAndPrintShellHint env rc sandboxID q signals)"
  unfolding waitReadyAndPrintShellHint_def Let_def by (intro makes_only_intros)

lemma makes_only_body: "makes_only (reads sandboxID) True (interactive_body env rc parsed sandboxID q)"
  unfolding interactive_body_def by (intro makes_only_intros makes_only_hint makes_only_attach)

lemma makes_only_confirm: "makes_only R ch (confirm_git env parsed)"
  unfolding confirm_git_def confirmWorkspaceCopy_def by (intro makes_only_intros)

text \<open>The part of a session that depends on the sandbox is reached by a creation the daemon accepted.\<close>

lemma created_session:
  assumes "cli_bind (cli_call what (raw_CreateSandbox rd False rc request)) f w = (r, w')"
  obtains err l where "rd_create_sandbox rd (cw_calls w) l request = Inl err" and "\<exists>e. r = Failed e"
      "cw_calls w' = cw_calls w @ [(CreateSandboxCall request, l)]" "cw_child w' = cw_child w"
  | sb l where "rd_create_sandbox rd (cw_calls w) l request = Inr sb"
      "f sb (w\<lparr>cw_calls := cw_calls w @ [(CreateSandboxCall request, l)]\<rparr>) = (r, w')"
proof -
  let ?l = "withTimeout False rc"
  show ?thesis
  proof (cases "rd_create_sandbox rd (cw_calls w) ?l request")
    case (Inl err)
    with assms have "(\<exists>e. r = Failed e)" "w' = w\<lparr>cw_calls := cw_calls w @ [(CreateSandboxCall request, ?l)]\<rparr>"
      by (auto simp: cli_bind_def cli_call_def cli_rpc_def cli_fail_def cli_ret_def raw_CreateSandbox_def
          callWithTimeoutUnary_def Let_def)
    with Inl show ?thesis by (intro that(1)) auto
  next
    case (Inr sb)
    with assms have "f sb (w\<lparr>cw_calls := cw_calls w @ [(CreateSandboxCall request, ?l)]\<rparr>) = (r, w')"
      by (simp add: cli_bind_def cli_call_def cli_rpc_def cli_fail_def cli_ret_def raw_CreateSandbox_def
          callWithTimeoutUnary_def Let_def)
    with Inr show ?thesis by (rule that(2))
  qed
qed

lemma interactive_session_parts:
  assumes "runInteractiveSession env rc parsed label w = (r, w')"
  obtains "cw_calls w' = cw_calls w" and "cw_child w' = cw_child w"
  | v where "cw_calls v = cw_calls w" "cw_child v = cw_child w"
    "cli_bind (cli_call ''create sandbox'' (raw_CreateSandbox (ve_daemon env) False rc
           (session_request parsed label agentSessionIdleTTL []))) (\<lambda>response.
         let sandbox = get_handle response; sandboxID = sh_sandbox_id sandbox
         in cli_defer (interactive_body env rc parsed sandboxID (sh_last_event_sequence sandbox))
              (interactive_cleanup env rc sandboxID)) v = (r, w')"
proof (cases "ve_stdin_tty env")
  case False
  with assms show ?thesis by (intro that(1)) (auto simp: runInteractiveSession_def cli_fail_def)
next
  case True
  obtain q v where c: "confirm_git env parsed w = (q, v)" by fastforce
  from makes_only_confirm [of "{}" False env parsed] c obtain new where "cw_calls v = cw_calls w @ new" "fst ` set new \<subseteq> {}"
      "\<not> False \<longrightarrow> cw_child v = cw_child w" by (rule makes_onlyD)
  then have keep: "cw_calls v = cw_calls w" "cw_child v = cw_child w" by auto
  have "q \<noteq> Waiting" using c
    by (auto simp: confirm_git_def confirmWorkspaceCopy_def cli_bind_def print_err_def cli_ret_def cli_fail_def split: if_splits)
  with c True assms keep show ?thesis
    by (cases q) (auto simp: runInteractiveSession_def cli_bind_def [of "confirm_git env parsed"] intro: that)
qed

text \<open>
  C20. However an interactive session ends, by its agent, an error or a signal, it has made no sandbox or has
  asked the daemon to delete the one it made, as the last thing but looking whether it is gone.  Only a session that
  is still waiting keeps its sandbox.
\<close>
theorem interactive_session_cleans_up:
  assumes "runInteractiveSession env rc parsed label w = (r, w')" and "r \<noteq> Waiting"
  shows "cw_calls w' = cw_calls w
    \<or> (\<exists>l. let request = session_request parsed label agentSessionIdleTTL []
        in case rd_create_sandbox (ve_daemon env) (cw_calls w) l request of
             Inl err \<Rightarrow> cw_calls w' = cw_calls w @ [(CreateSandboxCall request, l)]
           | Inr sb \<Rightarrow>
               (let sandboxID = sh_sandbox_id (get_handle sb)
                in \<exists>before l' after. cw_calls w' = cw_calls w @ (CreateSandboxCall request, l) # before
                     @ (DeleteSandboxCall sandboxID, l') # after
                   \<and> fst ` set (before @ after) \<subseteq> reads sandboxID))"
  using assms(1)
proof (cases rule: interactive_session_parts)
  case (2 v)
  from 2(3) show ?thesis
  proof (cases rule: created_session)
    case (1 err l)
    with 2 show ?thesis by (intro disjI2 exI [of _ l]) (simp add: Let_def)
  next
    case c: (2 sb l)
    let ?id = "sh_sandbox_id (get_handle sb)"
    let ?v = "v\<lparr>cw_calls := cw_calls v @ [(CreateSandboxCall (session_request parsed label agentSessionIdleTTL []), l)]\<rparr>"
    obtain r1 v1 where b: "interactive_body env rc parsed ?id (sh_last_event_sequence (get_handle sb)) ?v = (r1, v1)"
      by fastforce
    obtain r2 v2 where k: "interactive_cleanup env rc ?id v1 = (r2, v2)" by fastforce
    from c(2) b k assms(2) have "w' = v2"
      by (auto simp: cli_defer_def Let_def split: outcome.splits)
    moreover from makes_only_body b obtain before where "cw_calls v1 = cw_calls ?v @ before" "fst ` set before \<subseteq> reads ?id"
      by (rule makes_onlyD)
    moreover from disjI1 [OF k] obtain after where
      "cw_calls v2 = cw_calls v1 @ (DeleteSandboxCall ?id, withTimeout False rc) # after" "fst ` set after \<subseteq> reads ?id"
      by (rule cleanup_calls)
    ultimately have "cw_calls w' = cw_calls w @ (CreateSandboxCall (session_request parsed label agentSessionIdleTTL []), l)
        # before @ (DeleteSandboxCall ?id, withTimeout False rc) # after \<and> fst ` set (before @ after) \<subseteq> reads ?id"
      by (auto simp: 2)
    with c(1) show ?thesis by (intro disjI2 exI [of _ l]) (auto simp: 2 Let_def)
  qed
qed simp

section \<open>What the agent is attached to\<close>

lemma sanitize_same: "sanitizeContainerName s = sanitizeRuntimeName s"
  by (auto simp: sanitizeContainerName_def sanitizeRuntimeName_def sanitize_char_def)

lemma primary_names_agree: "primaryContainerName sandboxID = dockerPrimaryContainerName sandboxID"
  by (simp add: primaryContainerName_def dockerPrimaryContainerName_def sanitize_same)

text \<open>What the child process is made to do is a start and then signals.\<close>

definition signals_only :: "'a cli \<Rightarrow> bool" where
  "signals_only m \<longleftrightarrow> (\<forall>w. \<exists>acts. cw_child (snd (m w)) = cw_child w @ acts \<and> set acts \<subseteq> {ChildSignal SIGTERM, ChildKill}
     \<and> cw_calls (snd (m w)) = cw_calls w)"

lemma signals_only_basic:
  "signals_only (cli_ret x)" "signals_only (cli_fail e)" "signals_only cli_wait" "signals_only (cli_look f)"
  "signals_only (cli_result y)" "signals_only (child_note (ChildSignal SIGTERM))" "signals_only (child_note ChildKill)"
  by (auto simp: signals_only_def cli_ret_def cli_fail_def cli_wait_def cli_look_def cli_result_def child_note_def
      split: option.splits)

lemma signals_only_bind:
  assumes "signals_only m" and "\<And>x. signals_only (f x)"
  shows "signals_only (cli_bind m f)"
  unfolding signals_only_def
proof
  fix w
  obtain r v where m: "m w = (r, v)" by fastforce
  with assms(1) obtain as1 where one: "cw_child v = cw_child w @ as1" "set as1 \<subseteq> {ChildSignal SIGTERM, ChildKill}"
      "cw_calls v = cw_calls w" unfolding signals_only_def by (metis snd_conv)
  show "\<exists>acts. cw_child (snd (cli_bind m f w)) = cw_child w @ acts \<and> set acts \<subseteq> {ChildSignal SIGTERM, ChildKill}
      \<and> cw_calls (snd (cli_bind m f w)) = cw_calls w"
  proof (cases r)
    case (Returned x)
    from assms(2) [of x] obtain as2 where "cw_child (snd (f x v)) = cw_child v @ as2"
        "set as2 \<subseteq> {ChildSignal SIGTERM, ChildKill}" "cw_calls (snd (f x v)) = cw_calls v"
      unfolding signals_only_def by blast
    with one m Returned show ?thesis by (intro exI [of _ "as1 @ as2"]) (simp add: cli_bind_def)
  qed (use one m in \<open>auto simp: cli_bind_def\<close>)
qed

lemma signals_only_cases:
  "signals_only a \<Longrightarrow> (\<And>x. signals_only (f x)) \<Longrightarrow> signals_only (case e of None \<Rightarrow> a | Some x \<Rightarrow> f x)"
  "(\<And>x. signals_only (g x)) \<Longrightarrow> (\<And>x. signals_only (k x)) \<Longrightarrow> signals_only (case e2 of Inl x \<Rightarrow> g x | Inr x \<Rightarrow> k x)"
  by (cases e; cases e2; simp)+

lemma signals_only_attached: "signals_only (attached_turn env s c)"
  unfolding attached_turn_def child_wait_def
  by (cases c) (simp_all, (intro signals_only_basic signals_only_bind signals_only_cases)+)

lemma signals_only_select: "(\<And>s c. signals_only (body s c)) \<Longrightarrow> signals_only (select_loop body s results ps)"
proof (induction ps arbitrary: s results)
  case (Cons p ps)
  obtain c rs where t: "take_pick p results = (c, rs)" by fastforce
  show ?case by (simp add: t) (intro signals_only_basic signals_only_bind signals_only_cases Cons)
qed (simp add: signals_only_basic)

lemma attach_child:
  assumes "attach_agent env containerName command w = (r, w')"
  shows "cw_child w' = cw_child w \<or> (\<exists>acts. cw_child w' = cw_child w
      @ ChildStart ([''docker'', ''exec'', ''-it'', ''--user'', ''agbox'', containerName] @ command) # acts
      \<and> set acts \<subseteq> {ChildSignal SIGTERM, ChildKill})"
proof (cases "ve_child_start env w ([''docker'', ''exec'', ''-it'', ''--user'', ''agbox'', containerName] @ command)")
  case None
  let ?a = "ChildStart ([''docker'', ''exec'', ''-it'', ''--user'', ''agbox'', containerName] @ command)"
  from None assms have "cli_bind (cli_look (ve_picks env)) (select_loop (attached_turn env) () [])
      (w\<lparr>cw_child := cw_child w @ [?a]\<rparr>) = (r, w')"
    by (simp add: attach_agent_def Let_def cli_bind_def [of "cli_look _"] cli_bind_def [of "child_note _"]
        cli_look_def child_note_def)
  moreover have "signals_only (cli_bind (cli_look (ve_picks env)) (select_loop (attached_turn env) () []))"
    by (intro signals_only_bind signals_only_basic signals_only_select signals_only_attached)
  ultimately show ?thesis unfolding signals_only_def by (force dest: spec [of _ "w\<lparr>cw_child := cw_child w @ [?a]\<rparr>"])
next
  case (Some err)
  with assms show ?thesis by (auto simp: attach_agent_def Let_def cli_bind_def cli_look_def cli_fail_def)
qed

lemma hint_Returned:
  assumes "waitReadyAndPrintShellHint env rc sandboxID q signals w = (Returned c, w')"
  shows "c = primaryContainerName sandboxID" "told (ve_daemon env) (cw_calls w) sandboxID SANDBOX_STATE_READY (cw_calls w')"
proof -
  from assms show "c = primaryContainerName sandboxID"
    by (auto simp: waitReadyAndPrintShellHint_def Let_def cli_outcome)
  from assms obtain u u2 v x y shell where
    t: "waitForSandboxReady env rc sandboxID q signals (w\<lparr>cw_err := cw_err w @ [[Lit ''Waiting for sandbox to be ready...'']]\<rparr>)
      = (Returned (), u)"
    and "print_elapsed env x y u = (Returned (), u2)"
    and "resolveContainerLoginShell env c ''agbox'' u2 = (Returned shell, v)" and "cw_calls w' = cw_calls v"
    by (auto simp: waitReadyAndPrintShellHint_def Let_def cli_outcome announced_Returned)
  moreover from makes_only_shell [of "{}" False env c "''agbox''"] this(3) obtain new where "cw_calls v = cw_calls u2 @ new" "fst ` set new \<subseteq> {}"
    by (rule makes_onlyD)
  ultimately have "cw_calls w' = cw_calls u" by (auto dest: elapsed_calls)
  with wait_ready_told [OF t] show "told (ve_daemon env) (cw_calls w) sandboxID SANDBOX_STATE_READY (cw_calls w')" by simp
qed

lemma body_child:
  assumes "interactive_body env rc parsed sandboxID q w = (r, w')" and "cw_child w' \<noteq> cw_child w"
  shows "\<exists>acts. cw_child w' = cw_child w @ ChildStart ([''docker'', ''exec'', ''-it'', ''--user'', ''agbox'',
        dockerPrimaryContainerName sandboxID] @ sa_command parsed) # acts
      \<and> set acts \<subseteq> {ChildSignal SIGTERM, ChildKill}
      \<and> told (ve_daemon env) (cw_calls w) sandboxID SANDBOX_STATE_READY (cw_calls w')"
proof -
  let ?hint = "waitReadyAndPrintShellHint env rc sandboxID q True"
  obtain r1 u where e: "early_signal env w = (r1, u)" by fastforce
  from makes_only_early [of "{}" False env] e obtain n1 where "cw_calls u = cw_calls w @ n1" "fst ` set n1 \<subseteq> {}"
      "\<not> False \<longrightarrow> cw_child u = cw_child w" by (rule makes_onlyD)
  then have u: "cw_calls u = cw_calls w" "cw_child u = cw_child w" by auto
  obtain r2 v where h: "?hint u = (r2, v)" by fastforce
  from makes_only_hint [of sandboxID False env rc q True] h obtain n2 where "\<not> False \<longrightarrow> cw_child v = cw_child u"
    by (rule makes_onlyD)
  then have v: "cw_child v = cw_child w" by (simp add: u)
  from assms(1) e have run: "r1 = Returned () \<and> cli_bind ?hint (\<lambda>c. attach_agent env c (sa_command parsed)) u = (r, w') \<or> w' = u"
    by (cases r1) (auto simp: interactive_body_def cli_bind_def)
  with assms(2) u have "cli_bind ?hint (\<lambda>c. attach_agent env c (sa_command parsed)) u = (r, w')" by auto
  with h v assms(2) obtain c where c: "r2 = Returned c" "attach_agent env c (sa_command parsed) v = (r, w')"
    by (cases r2) (auto simp: cli_bind_def)
  from h c(1) have h': "?hint u = (Returned c, v)" by simp
  note facts = hint_Returned [OF h']
  from makes_only_attach [of "{}" env c "sa_command parsed"] c(2) obtain n3 where "cw_calls w' = cw_calls v @ n3" "fst ` set n3 \<subseteq> {}"
    by (rule makes_onlyD)
  then have "cw_calls w' = cw_calls v" by auto
  with attach_child [OF c(2)] facts v assms(2) show ?thesis by (auto simp: u primary_names_agree)
qed

text \<open>
  C22. An interactive session attaches its agent to nothing but the primary container of the sandbox it made, by the
  name the daemon gives that container, and only after the daemon has told it, since the creation, that this sandbox is ready;
  afterwards the agent gets no other signal than a termination and a kill.
\<close>
theorem session_attaches_when_ready:
  assumes "runInteractiveSession env rc parsed label w = (r, w')" and "cw_child w' \<noteq> cw_child w"
  shows "\<exists>l request sb acts. rd_create_sandbox (ve_daemon env) (cw_calls w) l request = Inr sb
     \<and> (let sandboxID = sh_sandbox_id (get_handle sb)
        in cw_child w' = cw_child w @ ChildStart ([''docker'', ''exec'', ''-it'', ''--user'', ''agbox'',
             dockerPrimaryContainerName sandboxID] @ sa_command parsed) # acts
         \<and> set acts \<subseteq> {ChildSignal SIGTERM, ChildKill}
         \<and> told (ve_daemon env) (cw_calls w @ [(CreateSandboxCall request, l)]) sandboxID SANDBOX_STATE_READY (cw_calls w'))"
  using assms(1)
proof (cases rule: interactive_session_parts)
  case 1
  with assms(2) show ?thesis by simp
next
  case (2 v)
  from 2(3) show ?thesis
  proof (cases rule: created_session)
    case (1 err l)
    with 2 assms(2) show ?thesis by simp
  next
    case c: (2 sb l)
    let ?request = "session_request parsed label agentSessionIdleTTL []"
    let ?id = "sh_sandbox_id (get_handle sb)"
    let ?v = "v\<lparr>cw_calls := cw_calls v @ [(CreateSandboxCall ?request, l)]\<rparr>"
    obtain r1 v1 where b: "interactive_body env rc parsed ?id (sh_last_event_sequence (get_handle sb)) ?v = (r1, v1)"
      by fastforce
    obtain r2 v2 where k: "interactive_cleanup env rc ?id v1 = (r2, v2)" by fastforce
    from disjI1 [OF k] obtain more' where k': "cw_calls v2 = cw_calls v1 @ more'" "cw_child v2 = cw_child v1"
      by (rule cleanup_calls) auto
    from c(2) b k have "w' = v1 \<or> w' = v2"
      by (auto simp: cli_defer_def Let_def split: outcome.splits)
    with k' have w': "cw_child w' = cw_child v1" and calls: "\<exists>n. cw_calls w' = cw_calls v1 @ n" by auto
    from w' assms(2) 2 have "cw_child v1 \<noteq> cw_child ?v" by simp
    from body_child [OF b this] w' calls 2 have "\<exists>acts. cw_child w' = cw_child w @ ChildStart ([''docker'', ''exec'',
          ''-it'', ''--user'', ''agbox'', dockerPrimaryContainerName ?id] @ sa_command parsed) # acts
        \<and> set acts \<subseteq> {ChildSignal SIGTERM, ChildKill}
        \<and> told (ve_daemon env) (cw_calls w @ [(CreateSandboxCall ?request, l)]) ?id SANDBOX_STATE_READY (cw_calls w')"
      by (auto intro: told_append)
    with c(1) 2 show ?thesis by (auto simp: Let_def)
  qed
qed

section \<open>Sessions that are left running\<close>

text \<open>Every call but a deletion.\<close>

definition deletes_nothing :: "rpc set" where
  "deletes_nothing = UNIV - range DeleteSandboxCall"

lemma deletes_nothing_simps [simp]: "call \<in> deletes_nothing \<longleftrightarrow> (\<forall>sandboxID. call \<noteq> DeleteSandboxCall sandboxID)"
  by (auto simp: deletes_nothing_def)

lemma reads_delete_nothing: "reads sandboxID \<subseteq> deletes_nothing"
  by (auto simp: reads_def)

lemma makes_only_get_exec [makes_only_intros]: "makes_only deletes_nothing ch (get_exec env rc what execID)"
  unfolding get_exec_def raw_GetExec_def by (intro makes_only_intros) simp

lemma makes_only_done_turn: "makes_only deletes_nothing ch (done_turn env rc execID s c)"
  unfolding done_turn_def by (auto split: choice.splits stream_result.splits intro!: makes_only_intros)

lemma makes_only_list [makes_only_intros]:
  "makes_only R ch a \<Longrightarrow> (\<And>x xs. makes_only R ch (f x xs)) \<Longrightarrow> makes_only R ch (case ys of [] \<Rightarrow> a | x # xs \<Rightarrow> f x xs)"
  by (cases ys) simp_all

lemma makes_only_pair_url: "makes_only deletes_nothing ch (fetchPaseoPairURL env rc sandboxID)"
  unfolding fetchPaseoPairURL_def waitForExecDone_def show_exec_log_def raw_CreateExec_def
  by (intro makes_only_intros makes_only_done_turn) simp_all

lemma makes_only_detached: "makes_only deletes_nothing ch (detached_part env rc parsed sandboxID containerName)"
  unfolding detached_part_def by (intro makes_only_intros makes_only_pair_url)

text \<open>Without a pairing URL to fetch, nothing can fail once the sandbox is ready.\<close>

lemma detached_part_ends:
  assumes "detached_part env rc parsed sandboxID containerName w = (r, w')"
  shows "r = Failed e \<Longrightarrow> sa_agent_type parsed = ''paseo''"
    and "r = Returned () \<Longrightarrow> last (cw_out w') = [Lit sandboxID, newline]"
proof -
  assume "r = Failed e"
  with assms show "sa_agent_type parsed = ''paseo''"
    by (auto simp: detached_part_def cli_outcome split: if_splits option.splits)
next
  assume "r = Returned ()"
  with assms show "last (cw_out w') = [Lit sandboxID, newline]" by (auto simp: detached_part_def cli_outcome)
qed


lemma case_unit_id: "(case u of () \<Rightarrow> m) = m"
  by (cases u) (simp only: unit.case)

lemmas session_steps = case_unit_id cli_bind_def cli_ret_def cli_fail_def cli_look_def cli_rpc_def cli_call_def cli_on_failure_def
  cli_defer_def print_err_def print_out_def callWithTimeoutUnary_def withTimeout_def raw_calls Let_def

text \<open>The sample sandbox is ready at once, and nothing is pending.\<close>

lemma sample_ready:
  assumes "\<not> deletion_asked (cw_calls w)" and "\<not> stop_asked (cw_calls w)"
  shows "waitForSandboxReady (sample_env prompt_daemon) rc ''box-1'' q signals w
     = (Returned (), w\<lparr>cw_calls := cw_calls w @ [(GetSandboxCall ''box-1'', withTimeout False rc)]\<rparr>)"
  using assms by (simp add: waitForSandboxReady_def session_steps prompt_daemon_def get_handle_def sample_handle_def)

lemma sample_shell: "resolveContainerLoginShell (sample_env rd) c user w = (Returned ''/bin/bash'', w)"
proof -
  have "trim_space ''/bin/bash'' = ''/bin/bash''" by code_simp
  then show ?thesis by (simp add: resolveContainerLoginShell_def session_steps sample_env_def)
qed


text \<open>An agent that ends at once.\<close>

lemma sample_attach:
  assumes "cw_child w = []"
  shows "attach_agent (sample_env prompt_daemon) c command w
     = (Returned (), w\<lparr>cw_child := [ChildStart ([''docker'', ''exec'', ''-it'', ''--user'', ''agbox'', c] @ command)]\<rparr>)"
proof -
  have "ve_picks (sample_env prompt_daemon) (w\<lparr>cw_child := [a]\<rparr>) = [FromChild]" for a
    by (simp add: sample_env_def)
  with assms show ?thesis
    by (simp add: attach_agent_def attached_turn_def child_wait_def child_note_def cli_result_def exitCodeFromCmdErr_def session_steps)
qed

lemma sample_delete:
  assumes "cw_calls w = calls"
  shows "deleteAndWait (sample_env prompt_daemon) rc ''box-1'' w = (Returned (),
     w\<lparr>cw_calls := calls @ [(DeleteSandboxCall ''box-1'', withTimeout False rc), (GetSandboxCall ''box-1'', withTimeout False rc)],
       cw_err := cw_err w @ [[Lit ''Sandbox '', Lit ''box-1'', Lit '' cleaned up.'', newline]]\<rparr>)"
  using assms
  by (simp add: deleteAndWait_def session_steps prompt_daemon_def sample_daemon_def deletion_asked_def get_handle_def sample_handle_def)

lemma sample_interactive:
  "\<exists>w'. runInteractiveSession (sample_env prompt_daemon) 0 sample_session ''bash'' fresh_world = (Returned (), w')
     \<and> cw_calls w' \<noteq> [] \<and> cw_child w' \<noteq> []"
  by (simp add: runInteractiveSession_def confirm_git_def interactive_body_def interactive_cleanup_def early_signal_def
      waitReadyAndPrintShellHint_def announced_wait_def print_elapsed_def session_steps sample_ready sample_shell
      deletion_asked_def stop_asked_def sample_attach sample_delete)

theorem interactive_session_cleans_up_witness:
  "\<exists>l. (DeleteSandboxCall ''box-1'', l)
     \<in> set (cw_calls (snd (runInteractiveSession (sample_env prompt_daemon) 0 sample_session ''bash'' fresh_world)))"
proof -
  obtain w' where run: "runInteractiveSession (sample_env prompt_daemon) 0 sample_session ''bash'' fresh_world = (Returned (), w')"
    and asked: "cw_calls w' \<noteq> []" using sample_interactive by blast
  from interactive_session_cleans_up [OF run] asked have "\<exists>l. (DeleteSandboxCall ''box-1'', l) \<in> set (cw_calls w')"
    by (auto simp: Let_def)
  with run show ?thesis by auto
qed

theorem session_attaches_when_ready_witness:
  "\<exists>start. told prompt_daemon start ''box-1'' SANDBOX_STATE_READY
     (cw_calls (snd (runInteractiveSession (sample_env prompt_daemon) 0 sample_session ''bash'' fresh_world)))"
proof -
  obtain w' where run: "runInteractiveSession (sample_env prompt_daemon) 0 sample_session ''bash'' fresh_world = (Returned (), w')"
    and begun: "cw_child w' \<noteq> []" using sample_interactive by blast
  from session_attaches_when_ready [OF run] begun obtain start where "told prompt_daemon start ''box-1'' SANDBOX_STATE_READY (cw_calls w')"
    by (auto simp: Let_def)
  with run show ?thesis by auto
qed

end
