(* ===== verification/Exec_Props.thy ===== *)
theory Exec_Props
  imports Session_Props
begin

text \<open>
  What \<^verbatim>\<open>agbox exec run\<close> reports of an exec, and a wait for a deletion that does not end.
\<close>

section \<open>The exit code of an exec\<close>

definition exec_seen :: "remote_daemon \<Rightarrow> call_log \<Rightarrow> string \<Rightarrow> exec_status \<Rightarrow> call_log \<Rightarrow> bool" where
  "exec_seen rd start execID status calls \<longleftrightarrow>
     (\<exists>h l hs. calls = start @ h @ (GetExecCall execID, l) # hs \<and> rd_get_exec rd (start @ h) l execID = Inr (Some status))"

definition cancel_accepted :: "remote_daemon \<Rightarrow> call_log \<Rightarrow> string \<Rightarrow> call_log \<Rightarrow> bool" where
  "cancel_accepted rd start execID calls \<longleftrightarrow>
     (\<exists>h l hs. calls = start @ h @ (CancelExecCall execID, l) # hs
        \<and> rd_accept rd (start @ h) l (CancelExecCall execID) = Inr ())"

lemma seen_append: "exec_seen rd start execID status calls \<Longrightarrow> exec_seen rd start execID status (calls @ new)"
  unfolding exec_seen_def by (metis append.assoc append_Cons)

lemma cancel_append: "cancel_accepted rd start execID calls \<Longrightarrow> cancel_accepted rd start execID (calls @ new)"
  unfolding cancel_accepted_def by (metis append.assoc append_Cons)

lemma get_exec_seen:
  assumes "get_exec env rc what execID w = (Returned status, w')" and "cw_calls w = start @ h"
  shows "exec_seen (ve_daemon env) start execID status (cw_calls w')"
  using assms
  by (auto simp: get_exec_def cli_outcome raw_GetExec_def unary_outcome requireExecStatus_def exec_seen_def
      split: sum.splits option.splits)

lemma get_exec_noisy: "get_exec env rc what execID w = (Failed e, w') \<Longrightarrow> \<not> cx_silent e \<and> (\<exists>c m s. e = CliError c m s)"
  by (auto simp: get_exec_def cli_bind_def cli_call_def cli_rpc_def cli_fail_def cli_ret_def runtimeErrorf_def
      split: sum.splits prod.splits outcome.splits)

lemma get_exec_ends: "get_exec env rc what execID w \<noteq> (Waiting, w')"
  by (auto simp: get_exec_def cli_bind_def cli_call_def cli_rpc_def cli_fail_def cli_ret_def
      split: sum.splits prod.splits outcome.splits)

lemma cancelExec_accepted:
  assumes "cancelExec env rc execID w = (Returned (Inr ()), w')" and "cw_calls w = start @ h"
  shows "cancel_accepted (ve_daemon env) start execID (cw_calls w')"
  using assms
  by (auto simp: cancelExec_def cli_outcome raw_CancelExec_def unary_outcome cancel_accepted_def split: sum.splits)

lemma makes_only_exec_turn: "makes_only UNIV True (exec_turn env rc execID s c)"
  unfolding exec_turn_def Let_def
  by (auto split: choice.splits stream_result.splits
      simp: cancelExec_def raw_CancelExec_def get_exec_def raw_GetExec_def intro!: makes_only_intros)

text \<open>The code of an exec that has ended: its own if it finished, or failed with one; 125 otherwise.\<close>

definition exec_code :: "exec_status \<Rightarrow> int" where
  "exec_code status =
     (if es_state status = EXEC_STATE_FINISHED \<or> es_state status = EXEC_STATE_FAILED \<and> es_exit_code status \<noteq> 0
      then es_exit_code status else 125)"

lemma exec_code_eq: "execExitCode (es_state status) (es_exit_code status) 0 = exec_code status"
  by (simp add: execExitCode_def exec_code_def)

text \<open>What a run reports when it says nothing but an exit code.\<close>

definition reported :: "remote_daemon \<Rightarrow> call_log \<Rightarrow> string \<Rightarrow> int \<Rightarrow> call_log \<Rightarrow> bool" where
  "reported rd start execID code calls \<longleftrightarrow>
     (\<exists>status. exec_seen rd start execID status calls \<and> isTerminalExecState (es_state status)
        \<and> (code = exec_code status
           \<or> cancel_accepted rd start execID calls \<and> code \<in> {125, 130, 143}))"

lemma signal_code: "exitCodeForSignal sig \<in> {125, 130, 143}"
  by (simp add: exitCodeForSignal_def)

lemma reported_append: "reported rd start execID code calls \<Longrightarrow> reported rd start execID code (calls @ new)"
  unfolding reported_def by (blast intro: seen_append cancel_append)

lemma reported_plain:
  "exec_seen rd start execID status calls \<Longrightarrow> isTerminalExecState (es_state status) \<Longrightarrow>
     reported rd start execID (execExitCode (es_state status) (es_exit_code status) 0) calls"
  unfolding reported_def exec_code_eq by blast

lemma reported_cancelled:
  "exec_seen rd start execID status calls \<Longrightarrow> isTerminalExecState (es_state status) \<Longrightarrow>
     cancel_accepted rd start execID calls \<Longrightarrow> code \<in> {125, 130, 143} \<Longrightarrow> reported rd start execID code calls"
  unfolding reported_def by blast

definition ends_reported :: "remote_daemon \<Rightarrow> call_log \<Rightarrow> string \<Rightarrow> 'a outcome \<Rightarrow> cli_world \<Rightarrow> bool" where
  "ends_reported rd start execID r w' \<longleftrightarrow>
     (\<forall>x. r \<noteq> Returned x) \<and> (\<forall>code. r = Failed (CliError code None True) \<longrightarrow> reported rd start execID code (cw_calls w'))"

lemma ends_noisy [simp]: "ends_reported rd start execID (Failed (runtimeErrorf msg)) w'"
  by (simp add: ends_reported_def runtimeErrorf_def)

lemma ends_waiting [simp]: "ends_reported rd start execID Waiting w'"
  by (simp add: ends_reported_def)

lemma ends_code: "reported rd start execID code (cw_calls w') \<Longrightarrow> ends_reported rd start execID (Failed (exitCodeError code)) w'"
  by (simp add: ends_reported_def exitCodeError_def)

lemma cancelExec_eq:
  "cancelExec env rc execID w =
     (Returned (case rd_accept (ve_daemon env) (cw_calls w) (withTimeout True rc) (CancelExecCall execID) of
        Inl err \<Rightarrow> Inl (RpcFailed (translateRPCError err)) | Inr u \<Rightarrow> Inr ()),
      w\<lparr>cw_calls := cw_calls w @ [(CancelExecCall execID, withTimeout True rc)]\<rparr>)"
  by (auto simp: cancelExec_def cli_rpc_def raw_CancelExec_def callWithTimeoutUnary_def Let_def split: sum.splits)

lemma ended_early_eq:
  "ended_early env rc execID baseline w =
     (let finish = Failed (exitCodeError (execExitCode (es_state baseline) (es_exit_code baseline) 0))
      in case ve_pending env w of
           None \<Rightarrow> (finish, w)
         | Some sig \<Rightarrow>
             (case cancelExec env rc execID w of
                (Returned (Inl err), v) \<Rightarrow>
                  (if is_already_terminal err then finish
                   else Failed (runtimeErrorf ([Lit ''cancel exec: ''] @ sdk_text err)), v)
              | (Returned (Inr _), v) \<Rightarrow> (Failed (exitCodeError (exitCodeForSignal sig)), v)
              | (Failed e, v) \<Rightarrow> (Failed e, v)
              | (Waiting, v) \<Rightarrow> (Waiting, v)))"
  by (simp add: ended_early_def cli_bind_def cli_look_def peekExecSignal_def cli_fail_def Let_def case_unit_id
      split: option.split outcome.split sum.split prod.split)

lemma ended_early_reported:
  assumes run: "ended_early env rc execID baseline w = (r, w')" and ended: "isTerminalExecState (es_state baseline)"
    and seen: "exec_seen (ve_daemon env) start execID baseline (cw_calls w)" and at: "cw_calls w = start @ h"
  shows "ends_reported (ve_daemon env) start execID r w'"
proof (cases "ve_pending env w")
  case None
  with run have "r = Failed (exitCodeError (execExitCode (es_state baseline) (es_exit_code baseline) 0))" "w' = w"
    by (simp_all add: ended_early_eq Let_def)
  with reported_plain [OF seen ended] show ?thesis by (simp add: ends_code)
next
  case (Some sig)
  obtain y v where c: "cancelExec env rc execID w = (Returned y, v)"
    and v: "cw_calls v = cw_calls w @ [(CancelExecCall execID, withTimeout True rc)]" by (simp add: cancelExec_eq)
  have seen': "exec_seen (ve_daemon env) start execID baseline (cw_calls v)" using seen_append [OF seen] by (simp add: v)
  show ?thesis
  proof (cases y)
    case (Inl err)
    with run Some c have "w' = v"
      and "r = (if is_already_terminal err
                then Failed (exitCodeError (execExitCode (es_state baseline) (es_exit_code baseline) 0))
                else Failed (runtimeErrorf ([Lit ''cancel exec: ''] @ sdk_text err)))"
      by (simp_all add: ended_early_eq Let_def split: if_splits)
    with reported_plain [OF seen' ended] show ?thesis by (simp add: ends_code)
  next
    case (Inr u)
    with run Some c have r: "w' = v" "r = Failed (exitCodeError (exitCodeForSignal sig))"
      by (simp_all add: ended_early_eq Let_def)
    from Inr c have "cancelExec env rc execID w = (Returned (Inr ()), v)" by simp
    from reported_cancelled [OF seen' ended cancelExec_accepted [OF this at] signal_code] r
    show ?thesis by (simp add: ends_code)
  qed
qed

text \<open>What holds in the loop: the calls grow, and a signal overrides the exec's exit code only once the cancellation is accepted.\<close>

definition watch_ok :: "remote_daemon \<Rightarrow> call_log \<Rightarrow> string \<Rightarrow> exec_watch \<Rightarrow> cli_world \<Rightarrow> bool" where
  "watch_ok rd start execID s v \<longleftrightarrow>
     (\<exists>h. cw_calls v = start @ h)
     \<and> (ew_overrides s \<longrightarrow> cancel_accepted rd start execID (cw_calls v) \<and> ew_signal_code s \<in> {125, 130, 143})
     \<and> (\<not> ew_overrides s \<or> \<not> ew_watching s)"

lemma watch_ok_grows:
  "watch_ok rd start execID s v \<Longrightarrow> cw_calls v' = cw_calls v @ new \<Longrightarrow> watch_ok rd start execID s v'"
  unfolding watch_ok_def by (auto intro: cancel_append)

lemma get_exec_grows:
  assumes "get_exec env rc what execID v = (r, v')"
  obtains new where "cw_calls v' = cw_calls v @ new"
proof -
  have "makes_only UNIV True (get_exec env rc what execID)"
    unfolding get_exec_def raw_GetExec_def by (intro makes_only_intros) simp
  from this assms show ?thesis by (rule makes_onlyD) (rule that)
qed

text \<open>A turn on a signal.\<close>

lemma exec_turn_cancel:
  assumes "ew_watching s"
  shows "exec_turn env rc execID s (GotSignal (Some sg)) v =
     (let s' = s\<lparr>ew_watching := False, ew_signal_code := exitCodeForSignal sg\<rparr>
      in case cancelExec env rc execID v of
           (Returned (Inl err), u) \<Rightarrow>
             (if is_already_terminal err then Returned (Inl s')
              else Failed (runtimeErrorf ([Lit ''cancel exec: ''] @ sdk_text err)), u)
         | (Returned (Inr _), u) \<Rightarrow> (Returned (Inl (s'\<lparr>ew_overrides := True\<rparr>)), u)
         | (Failed e, u) \<Rightarrow> (Failed e, u)
         | (Waiting, u) \<Rightarrow> (Waiting, u))"
  using assms
  by (simp add: exec_turn_def cli_bind_def cli_ret_def cli_fail_def Let_def case_unit_id
      split: outcome.split sum.split prod.split)

lemma signal_turn:
  assumes "exec_turn env rc execID s (GotSignal sig) v = (r, v')" and "watch_ok rd start execID s v" and "rd = ve_daemon env"
  shows "(\<exists>s'. r = Returned (Inl s') \<and> watch_ok rd start execID s' v') \<or> (\<exists>msg. r = Failed (runtimeErrorf msg))"
proof (cases "ew_watching s \<and> sig \<noteq> None")
  case False
  with assms show ?thesis
    by (auto simp: exec_turn_def Let_def cli_ret_def watch_ok_def split: option.splits if_splits)
next
  case True
  then obtain sg where sg: "ew_watching s" "sig = Some sg" by auto
  let ?s = "s\<lparr>ew_watching := False, ew_signal_code := exitCodeForSignal sg\<rparr>"
  obtain y u where c: "cancelExec env rc execID v = (Returned y, u)"
    and u: "cw_calls u = cw_calls v @ [(CancelExecCall execID, withTimeout True rc)]" by (simp add: cancelExec_eq)
  show ?thesis
  proof (cases y)
    case (Inl err)
    with c sg assms(1) have "v' = u \<and> (r = Returned (Inl ?s) \<or> (\<exists>msg. r = Failed (runtimeErrorf msg)))"
      by (auto simp: exec_turn_cancel Let_def split: if_splits)
    with assms(2) sg u show ?thesis by (auto simp: watch_ok_def)
  next
    case (Inr x)
    with c sg assms(1) have r: "v' = u \<and> r = Returned (Inl (?s\<lparr>ew_overrides := True\<rparr>))"
      by (simp add: exec_turn_cancel Let_def)
    from assms(2) obtain h where at: "cw_calls v = start @ h" by (auto simp: watch_ok_def)
    from c Inr have "cancelExec env rc execID v = (Returned (Inr ()), u)" by simp
    from cancelExec_accepted [OF this at] have "cancel_accepted rd start execID (cw_calls u)" by (simp only: assms(3))
    with at u have "watch_ok rd start execID (?s\<lparr>ew_overrides := True\<rparr>) u"
      using signal_code [of sg] by (simp add: watch_ok_def)
    with r show ?thesis by blast
  qed
qed

text \<open>A turn on anything else keeps the state, or it ends the loop.\<close>

lemma other_turn:
  assumes "exec_turn env rc execID s c v = (r, v')" and ok: "watch_ok (ve_daemon env) start execID s v"
    and "\<And>sig. c \<noteq> GotSignal sig"
  shows "r = Returned (Inl s) \<and> watch_ok (ve_daemon env) start execID s v'
    \<or> (\<exists>e. r = Failed e) \<and> ends_reported (ve_daemon env) start execID r v'"
proof (cases "\<exists>e. c = GotResult (ResultEvent e)")
  case False
  with assms show ?thesis
    by (cases c) (auto simp: exec_turn_def cli_ret_def cli_fail_def split: stream_result.splits)
next
  case True
  then obtain e where "c = GotResult (ResultEvent e)" by auto
  with assms(1) have run: "cli_bind (get_exec env rc ''get exec'' execID) (\<lambda>current.
          if isTerminalExecState (es_state current) then
            (if ew_overrides s then cli_fail (exitCodeError (ew_signal_code s))
             else cli_fail (exitCodeError (execExitCode (es_state current) (es_exit_code current) 0)))
          else stay s) v = (r, v')" by (simp add: exec_turn_def)
  obtain q u where g: "get_exec env rc ''get exec'' execID v = (q, u)" by fastforce
  then obtain new where "cw_calls u = cw_calls v @ new" by (rule get_exec_grows)
  with ok have u: "watch_ok (ve_daemon env) start execID s u" by (rule watch_ok_grows)
  from ok obtain h where at: "cw_calls v = start @ h" by (auto simp: watch_ok_def)
  show ?thesis
  proof (cases q)
    case (Returned current)
    with g have "get_exec env rc ''get exec'' execID v = (Returned current, u)" by simp
    from get_exec_seen [OF this at] have seen: "exec_seen (ve_daemon env) start execID current (cw_calls u)" .
    show ?thesis
    proof (cases "isTerminalExecState (es_state current)")
      case False
      with run g Returned u show ?thesis by (simp add: cli_bind_def cli_ret_def)
    next
      case True
      with run g Returned have "v' = u"
        and "r = Failed (exitCodeError (if ew_overrides s then ew_signal_code s
              else execExitCode (es_state current) (es_exit_code current) 0))"
        by (simp_all add: cli_bind_def cli_fail_def split: if_splits)
      moreover have "reported (ve_daemon env) start execID (if ew_overrides s then ew_signal_code s
              else execExitCode (es_state current) (es_exit_code current) 0) (cw_calls u)"
        using u reported_plain [OF seen True] reported_cancelled [OF seen True] by (simp add: watch_ok_def)
      ultimately show ?thesis by (simp add: ends_code)
    qed
  next
    case (Failed err)
    with run g have "r = Failed err" by (simp add: cli_bind_def)
    with get_exec_noisy g Failed show ?thesis by (fastforce simp: ends_reported_def)
  next
    case Waiting
    with g get_exec_ends show ?thesis by blast
  qed
qed

lemma ends_Failed: "ends_reported rd start execID (Failed e :: 'a outcome) v \<Longrightarrow> ends_reported rd start execID (Failed e :: 'b outcome) v"
  by (simp add: ends_reported_def)

lemma any_turn:
  assumes "exec_turn env rc execID s c v = (r, v')" and "watch_ok (ve_daemon env) start execID s v"
  shows "(\<exists>s'. r = Returned (Inl s') \<and> watch_ok (ve_daemon env) start execID s' v')
    \<or> (\<exists>e. r = Failed e \<and> ends_reported (ve_daemon env) start execID (Failed e :: unit outcome) v')"
proof (cases "\<exists>sig. c = GotSignal sig")
  case True
  then obtain sig where "c = GotSignal sig" by auto
  with assms(1) have "exec_turn env rc execID s (GotSignal sig) v = (r, v')" by simp
  from signal_turn [OF this assms(2) refl] show ?thesis by (auto intro: ends_noisy)
next
  case False
  with other_turn [OF assms] show ?thesis by (blast intro: ends_Failed)
qed

lemma exec_loop:
  assumes "run_select env (exec_turn env rc execID) s feed w = (r, w')" and "watch_ok (ve_daemon env) start execID s w"
  shows "ends_reported (ve_daemon env) start execID r w'"
proof (rule select_loop_rule [where I = "watch_ok (ve_daemon env) start execID" and RS = UNIV
      and Q = "ends_reported (ve_daemon env) start execID", OF assms(1) [unfolded run_select_eq] assms(2) subset_UNIV])
  fix s c v s' v'
  assume "watch_ok (ve_daemon env) start execID s v" and "exec_turn env rc execID s c v = (Returned (Inl s'), v')"
  from any_turn [OF this(2,1)] show "watch_ok (ve_daemon env) start execID s' v'" by auto
next
  fix s c v x v'
  assume "watch_ok (ve_daemon env) start execID s v" and "exec_turn env rc execID s c v = (Returned (Inr x), v')"
  from any_turn [OF this(2,1)] show "ends_reported (ve_daemon env) start execID (Returned x) v'" by auto
next
  fix s c v e v'
  assume "watch_ok (ve_daemon env) start execID s v" and "exec_turn env rc execID s c v = (Failed e, v')"
  from any_turn [OF this(2,1)] show "ends_reported (ve_daemon env) start execID (Failed e :: unit outcome) v'" by auto
qed simp

lemma get_exec_failed: "get_exec env rc what execID w = (Failed e, w') \<Longrightarrow> ends_reported rd start execID (Failed e) w'"
  using get_exec_noisy by (fastforce simp: ends_reported_def)

text \<open>The part of a run after the exec is created.\<close>

lemma exec_followed:
  assumes "cli_bind (get_exec env rc what execID) (\<lambda>baseline.
            if isTerminalExecState (es_state baseline) then ended_early env rc execID baseline
            else
              cli_bind (cli_call ''subscribe sandbox events''
                (raw_Subscribe (ve_daemon env) False rc (es_sandbox_id baseline) (es_last_event_sequence baseline) False))
              (\<lambda>feed. run_select env (exec_turn env rc execID)
                 \<lparr>ew_watching = True, ew_signal_code = 0, ew_overrides = False\<rparr> feed)) w = (r, w')"
  shows "ends_reported (ve_daemon env) (cw_calls w) execID r w'"
proof -
  obtain q v where g: "get_exec env rc what execID w = (q, v)" by fastforce
  then obtain new where new: "cw_calls v = cw_calls w @ new" by (rule get_exec_grows)
  show ?thesis
  proof (cases q)
    case (Failed e)
    with g assms have "r = Failed e" "w' = v" by (simp_all add: cli_bind_def)
    with get_exec_failed g Failed show ?thesis by blast
  next
    case Waiting
    with g get_exec_ends show ?thesis by blast
  next
    case (Returned baseline)
    with g get_exec_seen [where w = w and h = "[]"]
    have seen: "exec_seen (ve_daemon env) (cw_calls w) execID baseline (cw_calls v)" by simp
    show ?thesis
    proof (cases "isTerminalExecState (es_state baseline)")
      case True
      with assms g Returned have "ended_early env rc execID baseline v = (r, w')" by (simp add: cli_bind_def)
      from ended_early_reported [OF this True seen new] show ?thesis .
    next
      case False
      let ?sub = "cli_call ''subscribe sandbox events''
        (raw_Subscribe (ve_daemon env) False rc (es_sandbox_id baseline) (es_last_event_sequence baseline) False)"
      let ?s = "\<lparr>ew_watching = True, ew_signal_code = 0, ew_overrides = False\<rparr>"
      from False assms g Returned
      have run: "cli_bind ?sub (run_select env (exec_turn env rc execID) ?s) v = (r, w')" by (simp add: cli_bind_def)
      obtain q2 u where s: "?sub v = (q2, u)" by fastforce
      then have u: "cw_calls u = cw_calls v @ [(SubscribeCall (es_sandbox_id baseline) (es_last_event_sequence baseline) False,
          withTimeout False rc)]" and noisy: "q2 \<noteq> Waiting" "\<And>e. q2 = Failed e \<Longrightarrow> \<exists>msg. e = runtimeErrorf msg"
        by (auto simp: cli_call_def cli_rpc_def cli_bind_def cli_ret_def cli_fail_def raw_Subscribe_def
            callWithTimeoutUnary_def Let_def split: sum.splits)
      show ?thesis
      proof (cases q2)
        case (Returned feed)
        with run s have "run_select env (exec_turn env rc execID) ?s feed u = (r, w')" by (simp add: cli_bind_def)
        moreover have "watch_ok (ve_daemon env) (cw_calls w) execID ?s u" by (simp add: watch_ok_def u new)
        ultimately show ?thesis by (rule exec_loop)
      qed (use run s noisy in \<open>auto simp: cli_bind_def\<close>)
    qed
  qed
qed

text \<open>
  C29. \<^verbatim>\<open>agbox exec run\<close> never ends with success by itself: when it ends without a message, its exit code is that of
  the exec it made, as the daemon reported it in a terminal state (the code the exec finished with; for one that failed
  its code or 125; 125 when it was cancelled), or the code of a signal, 130, 143 or 125, and then the daemon has
  accepted to cancel the exec and the exec has ended.
\<close>
theorem exec_run_reports_exec:
  assumes "runSandboxExecWithSignals env rc parsed w = (r, w')"
  shows "(\<forall>x. r \<noteq> Returned x)
    \<and> (\<forall>code. r = Failed (CliError code None True) \<longrightarrow>
         (\<exists>l request created. rd_create_exec (ve_daemon env) (cw_calls w) l request = Inr created
            \<and> xr_sandbox_id request = xa_sandbox_id parsed \<and> xr_command request = xa_command parsed
            \<and> reported (ve_daemon env) (cw_calls w @ [(CreateExecCall request, l)]) (xs_exec_id created) code (cw_calls w')))"
proof -
  let ?rd = "ve_daemon env" and ?l = "withTimeout False rc"
  let ?request = "\<lparr>xr_sandbox_id = xa_sandbox_id parsed, xr_command = xa_command parsed,
            xr_cwd = (if xa_cwd parsed \<noteq> '''' then xa_cwd parsed else ''''),
            xr_env_overrides = xa_env_overrides parsed, xr_exec_id = ''''\<rparr>"
  show ?thesis
  proof (cases "rd_create_exec ?rd (cw_calls w) ?l ?request")
    case (Inl err)
    with assms have "\<exists>msg. r = Failed (runtimeErrorf msg)"
      by (auto simp: runSandboxExecWithSignals_def cli_bind_def cli_call_def cli_rpc_def cli_fail_def cli_ret_def
          raw_CreateExec_def callWithTimeoutUnary_def Let_def)
    then show ?thesis by (auto simp: runtimeErrorf_def)
  next
    case (Inr created)
    let ?v = "w\<lparr>cw_calls := cw_calls w @ [(CreateExecCall ?request, ?l)]\<rparr>"
    from Inr have "cli_call ''create exec'' (raw_CreateExec ?rd False rc ?request) w = (Returned created, ?v)"
      by (simp add: cli_bind_def cli_call_def cli_rpc_def cli_fail_def cli_ret_def
          raw_CreateExec_def callWithTimeoutUnary_def Let_def)
    with assms have "ends_reported ?rd (cw_calls ?v) (xs_exec_id created) r w'"
      by (intro exec_followed) (simp add: runSandboxExecWithSignals_def cli_bind_def [of "cli_call ''create exec'' _"] Let_def)
    then have "\<forall>x. r \<noteq> Returned x"
      and "\<forall>code. r = Failed (CliError code None True) \<longrightarrow> reported ?rd (cw_calls ?v) (xs_exec_id created) code (cw_calls w')"
      unfolding ends_reported_def by blast+
    with Inr show ?thesis
      by (intro conjI allI impI, blast) (rule exI [of _ ?l], rule exI [of _ ?request], rule exI [of _ created], simp)
  qed
qed

section \<open>A deletion that failed\<close>

text \<open>As long as the stream is open and nothing deleted comes through, the wait for a deletion goes on.\<close>

lemma deletion_loop_waits:
  assumes "SANDBOX_STATE_DELETED \<notin> event_state ` set evs" and "count_list ps FromStream \<le> length evs"
    and "\<And>e. FromContext e \<notin> set ps"
  shows "select_loop (state_turn env rc sandboxID classifyDeleted) () (map ResultEvent evs @ rest) ps v = (Waiting, v)"
  using assms
proof (induction ps arbitrary: evs)
  case (Cons p ps)
  have stays: "state_turn env rc sandboxID classifyDeleted () c v = (Returned (Inl ()), v)"
    if "c \<noteq> GotClosed" "\<And>x. c = GotResult x \<Longrightarrow> \<exists>e. x = ResultEvent e \<and> event_state e \<noteq> SANDBOX_STATE_DELETED"
      "\<And>e. c \<noteq> GotContext e" for c
    using that by (cases c) (auto simp: state_turn_def classifyDeleted_def cli_bind_def cli_ret_def)
  show ?case
  proof (cases "p = FromStream")
    case True
    with Cons.prems(2) obtain e es where e: "evs = e # es" by (cases evs) auto
    with Cons.prems(1) have "state_turn env rc sandboxID classifyDeleted () (GotResult (ResultEvent e)) v = (Returned (Inl ()), v)"
      by (intro stays) auto
    with True e Cons show ?thesis by (simp add: cli_bind_def)
  next
    case False
    with Cons.prems(3) obtain c where c: "take_pick p (map ResultEvent evs @ rest) = (c, map ResultEvent evs @ rest)"
        "state_turn env rc sandboxID classifyDeleted () c v = (Returned (Inl ()), v)"
      by (cases p) (auto intro!: stays)
    from c Cons.IH [of evs] Cons.prems False show ?thesis by (simp add: cli_bind_def)
  qed
qed (simp add: cli_wait_def)

text \<open>
  C40. A deletion that failed is waited for without end: when the daemon accepts the deletion of a sandbox and then
  reports it failed, \<^verbatim>\<open>agbox sandbox delete\<close> does not return, unless the event stream or the command's context ends.
\<close>
theorem failed_deletion_hangs:
  assumes "sandboxID \<noteq> ''''"
    and accepted: "\<And>h l. rd_accept (ve_daemon env) h l (DeleteSandboxCall sandboxID) = Inr ()"
    and failed: "\<And>h l. \<exists>sb. rd_get_sandbox (ve_daemon env) h l sandboxID = Inr sb \<and> sh_state (get_handle sb) = SANDBOX_STATE_FAILED"
    and open': "\<And>h l q. \<exists>feed. rd_subscribe (ve_daemon env) h l sandboxID q False = Inr feed
        \<and> SANDBOX_STATE_DELETED \<notin> event_state ` set (fd_events feed)
        \<and> (\<forall>v. count_list (ve_picks env v) FromStream \<le> length (fd_events feed))"
    and "\<And>v e. FromContext e \<notin> set (ve_picks env v)"
  shows "fst (runSandboxDelete env rc sandboxID [] w) = Waiting"
proof -
  let ?rd = "ve_daemon env" and ?l = "withTimeout False rc"
  let ?u = "w\<lparr>cw_calls := cw_calls w @ [(DeleteSandboxCall sandboxID, ?l)]\<rparr>"
  have del: "cli_call ''delete sandbox'' (raw_DeleteSandbox ?rd False rc sandboxID) w = (Returned (), ?u)"
    by (simp add: cli_call_def cli_rpc_def cli_bind_def cli_ret_def raw_DeleteSandbox_def callWithTimeoutUnary_def Let_def accepted)
  have hang: "fst (cli_waitForSandboxState env rc sandboxID classifyDeleted v) = Waiting" for v
  proof -
    let ?v = "v\<lparr>cw_calls := cw_calls v @ [(GetSandboxCall sandboxID, ?l)]\<rparr>"
    obtain sb where sb: "rd_get_sandbox ?rd (cw_calls v) ?l sandboxID = Inr sb" "sh_state (get_handle sb) = SANDBOX_STATE_FAILED"
      using failed by blast
    obtain feed where feed: "rd_subscribe ?rd (cw_calls ?v) ?l sandboxID (sh_last_event_sequence (get_handle sb)) False = Inr feed"
        "SANDBOX_STATE_DELETED \<notin> event_state ` set (fd_events feed)"
        "\<And>v. count_list (ve_picks env v) FromStream \<le> length (fd_events feed)"
      using open' by blast
    note loop = deletion_loop_waits [OF feed(2,3) assms(5)]
    from sb feed(1) show ?thesis
      by (simp add: cli_waitForSandboxState_def cli_call_def cli_rpc_def cli_bind_def cli_ret_def raw_GetSandbox_def
          raw_Subscribe_def callWithTimeoutUnary_def Let_def classifyDeleted_def run_select_eq pump_results_def loop)
  qed
  let ?told = "?u\<lparr>cw_err := cw_err ?u @ [[Lit ''Waiting for sandbox '', Lit sandboxID, Lit '' to be deleted...'', newline]]\<rparr>"
  obtain v where "cli_waitForSandboxState env rc sandboxID classifyDeleted ?told = (Waiting, v)"
    using hang [of ?told] by (metis prod.collapse)
  with assms(1) del show ?thesis
    by (simp add: runSandboxDelete_def deleteSingleSandbox_def cli_bind_def print_err_def)
qed

theorem failed_deletion_hangs_witness:
  "fst (runSandboxDelete (sample_env stuck_daemon) 0 ''box-1'' [] fresh_world) = Waiting"
  by (rule failed_deletion_hangs)
    (auto simp: sample_env_def stuck_daemon_def sample_daemon_def get_handle_def sample_handle_def event_state_def sample_event_def)

theorem exec_run_reports_exec_witness:
  "\<exists>w'. runSandboxExecWithSignals (sample_env prompt_daemon) 0 sample_run fresh_world = (Failed (CliError 3 None True), w')
     \<and> (\<exists>start. reported prompt_daemon start ''exec-1'' 3 (cw_calls w'))"
proof -
  let ?run = "runSandboxExecWithSignals (sample_env prompt_daemon) 0 sample_run fresh_world"
  have "fst ?run = Failed (CliError 3 None True)" by code_simp
  then obtain w' where run: "?run = (Failed (CliError 3 None True), w')" by (cases ?run) simp
  from exec_run_reports_exec [OF run] run show ?thesis
    by auto
qed

end
