(* ===== verification/Flag_Props.thy ===== *)
theory Flag_Props
  imports Cli_Sample Config_Props
begin

text \<open>
  What the flags of a session become: mounts, copies and ports read back what they print as, and the arguments of a
  session are well-formed.
\<close>

section \<open>Round trips\<close>

lemma join_split: "join_with [sep] (split_char sep s) = s"
proof (induction s)
  case (Cons c s)
  then show ?case by (cases "split_char sep s") (auto simp: join_with_def)
qed (simp add: join_with_def)

lemma split_two: "split_char sep s = [a, b] \<longleftrightarrow> s = a @ sep # b \<and> sep \<notin> set a \<and> sep \<notin> set b"
proof
  assume p: "split_char sep s = [a, b]"
  with join_split [of sep s] split_char_no_sep [of _ sep s] show "s = a @ sep # b \<and> sep \<notin> set a \<and> sep \<notin> set b"
    by (auto simp: join_with_def)
qed (auto simp: split_char_append_sep split_char_plain)

lemma split_three:
  "split_char sep s = [a, b, c] \<longleftrightarrow> s = a @ sep # b @ sep # c \<and> sep \<notin> set a \<and> sep \<notin> set b \<and> sep \<notin> set c"
proof
  assume p: "split_char sep s = [a, b, c]"
  with join_split [of sep s] split_char_no_sep [of _ sep s]
  show "s = a @ sep # b @ sep # c \<and> sep \<notin> set a \<and> sep \<notin> set b \<and> sep \<notin> set c"
    by (auto simp: join_with_def)
qed (auto simp: split_char_append_sep split_char_plain)

definition show_mount :: "mount_spec \<Rightarrow> string" where
  "show_mount m = ms_source m @ '':'' @ ms_target m @ (if ms_writable m then '':writable'' else '''')"

definition mount_ok :: "mount_spec \<Rightarrow> bool" where
  "mount_ok m \<longleftrightarrow> ms_source m \<noteq> '''' \<and> ms_target m \<noteq> '''' \<and> CHR '':'' \<notin> set (ms_source m) \<and> CHR '':'' \<notin> set (ms_target m)"

definition show_copy :: "copy_spec \<Rightarrow> string" where
  "show_copy c = cp_source c @ '':'' @ cp_target c"

definition copy_ok :: "copy_spec \<Rightarrow> bool" where
  "copy_ok c \<longleftrightarrow> cp_source c \<noteq> '''' \<and> cp_target c \<noteq> '''' \<and> CHR '':'' \<notin> set (cp_source c) \<and> cp_exclude_patterns c = []"

definition show_mapping :: "port_mapping \<Rightarrow> string" where
  "show_mapping p = show_nat (unat (pm_host_port p)) @ '':'' @ show_nat (unat (pm_container_port p))
     @ ''/'' @ portProtocolToString (pm_protocol p)"

lemma parseMountFlag_exact: "parseMountFlag s = Inr m \<longleftrightarrow> s = show_mount m \<and> mount_ok m"
proof
  assume "parseMountFlag s = Inr m"
  then show "s = show_mount m \<and> mount_ok m"
    by (auto simp: parseMountFlag_def Let_def show_mount_def mount_ok_def split_two split_three
        split: list.splits if_splits)
next
  assume m: "s = show_mount m \<and> mount_ok m"
  show "parseMountFlag s = Inr m"
  proof (cases "ms_writable m")
    case True
    with m have "split_char (CHR '':'') s = [ms_source m, ms_target m, ''writable'']"
      by (simp add: split_three show_mount_def mount_ok_def)
    with m True show ?thesis by (cases m) (simp add: parseMountFlag_def Let_def mount_ok_def)
  next
    case False
    with m have "split_char (CHR '':'') s = [ms_source m, ms_target m]"
      by (simp add: split_two show_mount_def mount_ok_def)
    with m False show ?thesis by (cases m) (simp add: parseMountFlag_def Let_def mount_ok_def)
  qed
qed

lemma parseCopyFlag_exact: "parseCopyFlag s = Inr c \<longleftrightarrow> s = show_copy c \<and> copy_ok c"
proof
  assume "parseCopyFlag s = Inr c"
  then show "s = show_copy c \<and> copy_ok c"
    by (auto simp: parseCopyFlag_def show_copy_def copy_ok_def Cut_Some split: option.splits if_splits)
next
  assume c: "s = show_copy c \<and> copy_ok c"
  then have "Cut (CHR '':'') s = Some (cp_source c, cp_target c)" by (simp add: Cut_Some show_copy_def copy_ok_def)
  with c show "parseCopyFlag s = Inr c" by (cases c) (simp add: parseCopyFlag_def copy_ok_def)
qed

lemma parsePortNumber_Inr: "parsePortNumber raw role s = Inr n \<Longrightarrow> 1 \<le> n \<and> n \<le> 65535"
  by (auto simp: parsePortNumber_def split: sum.splits if_splits)

lemma parsePortNumber_show: "1 \<le> n \<Longrightarrow> n \<le> 65535 \<Longrightarrow> parsePortNumber (show_nat n) role s = Inr (int n)"
  by (simp add: parsePortNumber_def Atoi_show_nat)

lemma small_word: "1 \<le> n \<Longrightarrow> n \<le> 65535 \<Longrightarrow> 1 \<le> (of_int n :: 32 word) \<and> (of_int n :: 32 word) \<le> 65535"
  by (simp add: word_le_def uint_word_of_int take_bit_int_eq_self)

lemma port_protocol_known:
  "port_protocol_of s = Some p \<Longrightarrow> p \<in> {PORT_PROTOCOL_TCP, PORT_PROTOCOL_UDP, PORT_PROTOCOL_SCTP}"
  by (auto simp: port_protocol_of_def Let_def split: if_splits)

lemma two_parts:
  "(case xs of [host, container] \<Rightarrow> f host container | _ \<Rightarrow> Inl e) = Inr p \<Longrightarrow>
     \<exists>host container. xs = [host, container] \<and> f host container = Inr p"
  by (auto split: list.splits)

lemma parsePortFlag_ok:
  assumes "parsePortFlag s = Inr p"
  shows "port_ok p"
proof -
  from assms obtain hostContainer proto where
    "(case split_char (CHR '':'') hostContainer of
        [host, container] \<Rightarrow>
          if host = '''' \<or> container = '''' then Inl (flag_error ''--port'' s [Lit ''must be host:container[/proto]''])
          else
            res_bind (parsePortNumber host ''--port host_port'' s) (\<lambda>hostPort.
            res_bind (parsePortNumber container ''--port container_port'' s) (\<lambda>containerPort.
            case port_protocol_of proto of
              None \<Rightarrow> Inl (flag_error ''--port'' s [Lit ''unsupported protocol '', Quoted proto, Lit ''; must be tcp, udp, or sctp''])
            | Some proto \<Rightarrow>
                Inr \<lparr>pm_container_port = of_int containerPort, pm_host_port = of_int hostPort, pm_protocol = proto\<rparr>))
      | _ \<Rightarrow> Inl (flag_error ''--port'' s [Lit ''must be host:container[/proto]''])) = Inr p"
    unfolding parsePortFlag_def Let_def by (auto simp only: res_bind_eq_Inr split: if_splits)
  from two_parts [OF this] obtain host container hostPort containerPort proto' where
    "parsePortNumber host ''--port host_port'' s = Inr hostPort"
    "parsePortNumber container ''--port container_port'' s = Inr containerPort"
    "port_protocol_of proto = Some proto'"
    "p = \<lparr>pm_container_port = of_int containerPort, pm_host_port = of_int hostPort, pm_protocol = proto'\<rparr>"
    by (auto simp: res_bind_eq_Inr split: if_splits option.splits)
  then show ?thesis
    by (auto simp: port_ok_def small_word dest!: parsePortNumber_Inr port_protocol_known)
qed

lemma digits_plain: "c \<notin> set (show_nat n)" if "digit_value c = None"
  using that show_nat_digits by blast

lemma parsePortFlag_show:
  assumes "port_ok p"
  shows "parsePortFlag (show_mapping p) = Inr p"
proof -
  let ?h = "show_nat (unat (pm_host_port p))" and ?c = "show_nat (unat (pm_container_port p))"
  have "digit_value slash = None" "digit_value (CHR '':'') = None" by (auto simp: digit_value_def)
  note plain = digits_plain [OF this(1)] digits_plain [OF this(2)]
  from assms have proto: "port_protocol_of (portProtocolToString (pm_protocol p)) = Some (pm_protocol p)"
    and nonempty: "portProtocolToString (pm_protocol p) \<noteq> ''''"
    by (auto simp: port_ok_def portProtocolToString_def port_protocol_of_def to_lower_def lower_char_def Let_def)
  have cut': "Cut slash (show_mapping p) = Some (?h @ '':'' @ ?c, portProtocolToString (pm_protocol p))"
    using plain by (simp add: Cut_Some show_mapping_def)
  have split': "split_char (CHR '':'') (?h @ '':'' @ ?c) = [?h, ?c]"
    using plain by (simp add: split_two)
  from assms have bounds: "1 \<le> unat (pm_host_port p)" "unat (pm_host_port p) \<le> 65535"
      "1 \<le> unat (pm_container_port p)" "unat (pm_container_port p) \<le> 65535"
    by (auto simp: port_ok_def word_le_nat_alt)
  have "show_mapping p \<noteq> ''''" by (simp add: show_mapping_def)
  with cut' split' nonempty proto bounds show ?thesis
    by (cases p) (simp add: parsePortFlag_def Let_def parsePortNumber_show)
qed

text \<open>
  C31. The flags that name a mount, a copy or a port read back exactly what was written: \<^verbatim>\<open>--mount\<close> and \<^verbatim>\<open>--copy\<close> accept
  precisely the texts that print some mount or copy with non-empty paths (and no colon where it would separate), and give
  that one; \<^verbatim>\<open>--port\<close> gives a mapping the daemon's validation accepts by itself, and reads back every such
  mapping as it is printed.
\<close>
theorem flags_roundtrip:
  "(parseMountFlag s = Inr m \<longleftrightarrow> s = show_mount m \<and> mount_ok m)
   \<and> (parseCopyFlag s = Inr c \<longleftrightarrow> s = show_copy c \<and> copy_ok c)
   \<and> (parsePortFlag s = Inr p \<longrightarrow> port_ok p)
   \<and> (port_ok q \<longrightarrow> parsePortFlag (show_mapping q) = Inr q)"
  using parsePortFlag_ok parsePortFlag_show by (simp add: parseMountFlag_exact parseCopyFlag_exact)

theorem flags_roundtrip_witness:
  "let p = \<lparr>pm_container_port = 80, pm_host_port = 8080, pm_protocol = PORT_PROTOCOL_UDP\<rparr>
   in parsePortFlag (show_mapping p) = Inr p"
proof -
  have "port_ok \<lparr>pm_container_port = 80, pm_host_port = 8080, pm_protocol = PORT_PROTOCOL_UDP\<rparr>"
    by (simp add: port_ok_def)
  from mp [OF conjunct2 [OF conjunct2 [OF conjunct2 [OF flags_roundtrip]]] this] show ?thesis by (simp add: Let_def)
qed

section \<open>Lists and maps of flags\<close>

lemma parse_each_ok:
  assumes "parse_each parse raws = Inr xs" and "\<And>raw x. parse raw = Inr x \<Longrightarrow> P x"
  shows "list_all P xs"
  using assms(1)
proof (induction raws arbitrary: xs)
  case (Cons raw raws)
  with assms(2) show ?case by (auto simp: res_bind_eq_Inr)
qed simp

lemma parse_assignments_ok:
  assumes "parse_assignments parse raws = Inr m" and "\<And>raw k v. parse raw = Inr (k, v) \<Longrightarrow> P k"
  shows "gm_ok m \<and> (\<forall>k \<in> gm_keys m. P k)"
proof (rule fold_result_invariant [OF assms(1) [unfolded parse_assignments_def]])
  show "gm_ok [] \<and> (\<forall>k \<in> gm_keys []. P k)" by (simp add: gm_keys_def)
next
  fix raw m m'
  assume "gm_ok m \<and> (\<forall>k \<in> gm_keys m. P k)" and "res_bind (parse raw) (\<lambda>(key, v). Inr (gm_set key v m)) = Inr m'"
  with assms(2) show "gm_ok m' \<and> (\<forall>k \<in> gm_keys m'. P k)" by (auto simp: res_bind_eq_Inr)
qed

lemma dedupe_spec:
  assumes "distinct out" and "seen = set out"
  shows "distinct (snd (fold dedupe_one xs (seen, out))) \<and> set (snd (fold dedupe_one xs (seen, out))) = set out \<union> set xs"
  using assms
proof (induction xs arbitrary: seen out)
  case (Cons x xs)
  show ?case
  proof (cases "x \<in> seen")
    case True
    with Cons show ?thesis by (auto simp: dedupe_one_def)
  next
    case False
    with Cons.prems Cons.IH [of "out @ [x]" "insert x seen"] show ?thesis by (auto simp: dedupe_one_def)
  qed
qed simp

lemma dedupe_tools: "distinct (dedupePreserveOrder xs) \<and> set (dedupePreserveOrder xs) = set xs"
  using dedupe_spec [of "[]" "{}" xs] by (simp add: dedupePreserveOrder_def)

section \<open>The arguments of a session\<close>

definition tools_of_type :: "string \<Rightarrow> string list" where
  "tools_of_type agentType = (case gm_get agentTypeDefs agentType of Some td \<Rightarrow> td_builtin_tools td | None \<Rightarrow> [])"

text \<open>The workspace that may be copied: where the path really leads, neither the root nor the home directory.\<close>

definition workspace_ok :: "cli_env \<Rightarrow> string \<Rightarrow> bool" where
  "workspace_ok env workspace \<longleftrightarrow>
     workspace \<noteq> [slash]
     \<and> (\<exists>path. ve_eval_symlinks env path = Inr workspace)
     \<and> (\<exists>home realHome. ve_home env = Inr home \<and> ve_eval_symlinks env home = Inr realHome \<and> workspace \<noteq> realHome)"

definition session_args_ok :: "cli_env \<Rightarrow> session_flags \<Rightarrow> agent_session_args \<Rightarrow> bool" where
  "session_args_ok env v a \<longleftrightarrow>
     (sa_agent_type a = '''' \<or> gm_get agentTypeDefs (sa_agent_type a) \<noteq> None)
   \<and> (\<forall>word \<in> set (sa_command a). word \<noteq> '''') \<and> (sa_command a = [] \<longrightarrow> sa_config_yaml a \<noteq> '''')
   \<and> (sa_workspace a = '''' \<or> workspace_ok env (sa_workspace a))
   \<and> distinct (sa_builtin_tools a)
   \<and> set (sa_builtin_tools a) = set (tools_of_type (sa_agent_type a)) \<union> set (fv_builtin_tools v)
   \<and> gm_ok (sa_envs a) \<and> gm_ok (sa_user_labels a) \<and> '''' \<notin> gm_keys (sa_user_labels a)
   \<and> sa_gpus a \<in> {'''', ''all''}
   \<and> list_all mount_ok (sa_user_mounts a) \<and> list_all copy_ok (sa_user_copies a) \<and> list_all port_ok (sa_user_ports a)"

lemma validateWorkspacePath_ok: "validateWorkspacePath env path = Inr w \<Longrightarrow> workspace_ok env w"
  by (auto simp: validateWorkspacePath_def workspace_ok_def split: sum.splits if_splits)

lemma resolve_workspace_ok: "resolve_workspace env v td = Inr w \<Longrightarrow> w = '''' \<or> workspace_ok env w"
  by (auto simp: resolve_workspace_def dest!: validateWorkspacePath_ok split: if_splits sum.splits)

lemma command_words_ok: "command_words raw = Inr command \<Longrightarrow> command \<noteq> [] \<and> (\<forall>word \<in> set command. word \<noteq> '''')"
  by (auto simp: command_words_def dest: Fields_nonempty split: if_splits)

lemma session_label_key: "session_label raw = Inr (k, x) \<Longrightarrow> k \<noteq> ''''"
  by (auto simp: session_label_def res_bind_eq_Inr split: if_splits)

lemma type_commands:
  assumes "gm_get agentTypeDefs t = Some td"
  shows "(\<forall>word \<in> set (td_command td). word \<noteq> '''') \<and> (td_command td = [] \<longrightarrow> td_config_yaml td \<noteq> '''')"
  using assms
  by (auto simp: agentTypeDefs_def coding_agent_def openclawConfigYaml_def paseoConfigYaml_def text_lines_def
      split: if_splits)

lemma type_named: "gm_get agentTypeDefs '''' = None"
  by (simp add: agentTypeDefs_def)

lemma resolve_agent_ok:
  assumes "resolve_agent v agentType = Inr (td, command, tools)"
  shows "gm_get agentTypeDefs (if td \<noteq> None then agentType else '''') = td" (is ?t)
    and "\<forall>word \<in> set command. word \<noteq> ''''"
    and "command = [] \<longrightarrow> (case td of Some d \<Rightarrow> td_config_yaml d | None \<Rightarrow> '''') \<noteq> ''''"
    and "distinct tools"
    and "set tools = set (tools_of_type (if td \<noteq> None then agentType else '''')) \<union> set (fv_builtin_tools v)"
  using assms dedupe_tools
  by (auto simp: resolve_agent_def tools_of_type_def type_named res_bind_eq_Inr
      dest: command_words_ok type_commands type_commands [OF sym]
      split: if_splits option.splits)

lemma refused_if: "(if c then Inl e else r) = Inr x \<longleftrightarrow> \<not> c \<and> r = Inr x"
  by auto

text \<open>
  C30. Whatever the flags, the arguments a session starts with are well-formed: its type is a registered one or none; no word
  of its command is empty, and only a type whose configuration names the command has none; the workspace to be copied is
  a resolved path that is neither the root nor the home directory; the tools are those of the type and of the flags,
  each once; environment and labels have each key once, and no label an empty one; \<^verbatim>\<open>--gpus\<close> is empty or \<^verbatim>\<open>all\<close>;
  and every mount, copy and port is one the daemon accepts the shape of.
\<close>
theorem session_args_well_formed:
  assumes "resolveAgentSessionArgs env v agentType = Inr a"
  shows "session_args_ok env v a"
proof -
  from assms obtain td command tools command' workspace envs mounts ports copies labels where
    agent: "resolve_agent v agentType = Inr (td, command, tools)"
    and cmd: "(if td \<noteq> None \<and> fv_raw_command v \<noteq> '''' then command_words (fv_raw_command v) else Inr command) = Inr command'"
    and ws: "resolve_workspace env v td = Inr workspace"
    and envs: "parse_assignments (\<lambda>raw. parseKeyValueAssignment raw ''--env'') (fv_envs v) = Inr envs"
    and gpus: "\<not> (fv_gpus v \<noteq> '''' \<and> fv_gpus v \<noteq> ''all'')"
    and mounts: "parse_each parseMountFlag (fv_mounts v) = Inr mounts"
    and ports: "parse_each parsePortFlag (fv_ports v) = Inr ports"
    and copies: "parse_each parseCopyFlag (fv_copies v) = Inr copies"
    and labels: "parse_assignments session_label (fv_labels v) = Inr labels"
    and a: "sa_agent_type a = (if td \<noteq> None then agentType else '''')" "sa_command a = command'" "sa_workspace a = workspace"
      "sa_builtin_tools a = tools" "sa_envs a = envs" "sa_gpus a = fv_gpus v"
      "sa_config_yaml a = (case td of Some d \<Rightarrow> td_config_yaml d | None \<Rightarrow> '''')"
      "sa_user_mounts a = mounts" "sa_user_ports a = ports" "sa_user_copies a = copies" "sa_user_labels a = labels"
    unfolding resolveAgentSessionArgs_def
    by (simp only: res_bind_eq_Inr refused_if split_paired_Ex prod.case sum.inject)
      (elim exE conjE, hypsubst, rule that, (assumption | simp only: agent_session_args.simps)+)
  note agent_ok = resolve_agent_ok [OF agent]
  have "(\<forall>word \<in> set command'. word \<noteq> '''') \<and> (command' = [] \<longrightarrow> sa_config_yaml a \<noteq> '''')"
    using cmd agent_ok(2,3) a(7) command_words_ok by (auto split: if_splits)
  moreover have "list_all mount_ok mounts" by (rule parse_each_ok [OF mounts]) (simp add: parseMountFlag_exact)
  moreover have "list_all copy_ok copies" by (rule parse_each_ok [OF copies]) (simp add: parseCopyFlag_exact)
  moreover have "list_all port_ok ports" by (rule parse_each_ok [OF ports parsePortFlag_ok])
  moreover have "gm_ok envs" using parse_assignments_ok [OF envs, of "\<lambda>_. True"] by simp
  moreover have "gm_ok labels \<and> (\<forall>k \<in> gm_keys labels. k \<noteq> '''')"
    by (rule parse_assignments_ok [OF labels session_label_key])
  ultimately show ?thesis
    using agent_ok(1,4,5) resolve_workspace_ok [OF ws] gpus unfolding session_args_ok_def a by auto
qed

definition sample_flags :: session_flags where
  "sample_flags = \<lparr>fv_raw_command = '''', fv_mode = '''', fv_workspace = '''', fv_builtin_tools = [''git'', ''git''],
     fv_envs = [''A=1'', ''A=2''], fv_cpu_limit = '''', fv_memory_limit = '''', fv_disk_limit = '''', fv_gpus = ''all'',
     fv_sandbox_id = '''', fv_mounts = [''/a:/b:writable''], fv_ports = [], fv_copies = [''/c:/d''], fv_labels = [''k=''],
     fv_mode_overridden = False, fv_workspace_overridden = False\<rparr>"

theorem session_args_well_formed_witness:
  "\<exists>a. resolveAgentSessionArgs (sample_env prompt_daemon) sample_flags ''openclaw'' = Inr a
     \<and> session_args_ok (sample_env prompt_daemon) sample_flags a"
proof -
  have "parseMountFlag ''/a:/b:writable'' = Inr \<lparr>ms_source = ''/a'', ms_target = ''/b'', ms_writable = True\<rparr>"
    by (simp add: parseMountFlag_exact show_mount_def mount_ok_def)
  moreover have "parseCopyFlag ''/c:/d'' = Inr \<lparr>cp_source = ''/c'', cp_target = ''/d'', cp_exclude_patterns = []\<rparr>"
    by (simp add: parseCopyFlag_exact show_copy_def copy_ok_def)
  ultimately obtain a where "resolveAgentSessionArgs (sample_env prompt_daemon) sample_flags ''openclaw'' = Inr a"
    by (auto simp: agentTypeDefs_def resolveAgentSessionArgs_def resolve_agent_def resolve_mode_def resolve_workspace_def sample_flags_def
        parse_assignments_def parseKeyValueAssignment_def session_label_def parseLabelAssignment_def)
  with session_args_well_formed [OF this] show ?thesis by blast
qed

end
