(* ===== verification/Daemon_Start.thy ===== *)
theory Daemon_Start
  imports Platform_Dirs Go_Conv Service_State
begin

text \<open>
  The start-up of \<^verbatim>\<open>agboxd\<close>: the configuration file (\<^verbatim>\<open>cmd/agboxd/config.go\<close>), the logger's level
  (\<^verbatim>\<open>internal/logging/logging.go\<close>), the lock that keeps a second daemon off the machine (\<^verbatim>\<open>cmd/agboxd/lock.go\<close>),
  the server's socket (\<^verbatim>\<open>ListenAndServe\<close> in \<^verbatim>\<open>control/service_clone.go\<close>) and the order of it all
  (\<^verbatim>\<open>cmd/agboxd/main.go\<close>).

  Every request to the host that can fail is a constructor of \<open>start_act\<close>; the host's answers may depend on
  all requests made before, and a start-up is a function that adds its requests to the history.  The TOML
  decoder and \<^verbatim>\<open>time.ParseDuration\<close> are fields of the host.
\<close>

section \<open>Configuration\<close>

record daemon_file_config =
  fc_idle_ttl :: string
  fc_cleanup_ttl :: string
  fc_log_level :: string
  fc_exec_output_root :: string
  fc_exec_output_template :: string

definition empty_file_config :: daemon_file_config where
  "empty_file_config = \<lparr>fc_idle_ttl = '''', fc_cleanup_ttl = '''', fc_log_level = '''',
     fc_exec_output_root = '''', fc_exec_output_template = ''''\<rparr>"

datatype file_answer = FileAbsent | FileUnreadable go_error | FileContent string

datatype start_act =
    MakeLockDir string
  | OpenLock string
  | FlockExclusive
  | FlockUnlock
  | CloseLock
  | TruncateLock
  | WriteLock string
  | RewindLock
  | StartService string
  | MakeSocketDir string
  | RemoveSocket string
  | ListenSocket string
  | ServeSocket
  | CloseListener
  | CloseRegistry

type_synonym start_log = "start_act list"

record ('st, 'r) start_host =
  sx_goos :: string
  sx_home :: "go_error + string"
  sx_lookup :: env_lookup
  sx_read_file :: "string \<Rightarrow> file_answer"
  sx_decode_toml :: "string \<Rightarrow> go_error + daemon_file_config"
  sx_parse_duration :: "string \<Rightarrow> go_error + duration"
  sx_status :: "go_error + string list"     \<comment> \<open>\<^verbatim>\<open>/proc/self/status\<close>\<close>
  sx_pid :: nat
  sx_answer :: "start_log \<Rightarrow> start_act \<Rightarrow> go_error option"
  sx_defaults :: "('st, 'r) service_config"  \<comment> \<open>\<^verbatim>\<open>DefaultServiceConfig\<close>\<close>

record ('st, 'r) startup_config =
  su_socket_path :: string
  su_lock_path :: string
  su_id_store_path :: string
  su_service_config :: "('st, 'r) service_config"

definition loadDaemonFileConfigIfPresent ::
  "('st, 'r) start_host \<Rightarrow> string \<Rightarrow> go_error + daemon_file_config" where
  "loadDaemonFileConfigIfPresent sx path =
     (case sx_read_file sx path of
        FileAbsent \<Rightarrow> Inr empty_file_config
      | FileUnreadable err \<Rightarrow>
          Inl (ErrText ([Lit ''read daemon config file '', Lit path, Lit '': ''] @ error_text err))
      | FileContent content \<Rightarrow>
          (case sx_decode_toml sx content of
             Inl err \<Rightarrow> Inl (ErrText ([Lit ''decode daemon config file '', Lit path, Lit '': ''] @ error_text err))
           | Inr config \<Rightarrow> Inr config))"

definition parse_ttl ::
  "('st, 'r) start_host \<Rightarrow> string \<Rightarrow> string \<Rightarrow> string \<Rightarrow> go_error + duration" where
  "parse_ttl sx field configPath s =
     (case sx_parse_duration sx s of
        Inl err \<Rightarrow> Inl (ErrText ([Lit ''parse '', Lit field, Lit '' from '', Lit configPath, Lit '': ''] @ error_text err))
      | Inr d \<Rightarrow> Inr d)"

definition applyFileConfig ::
  "('st, 'r) start_host \<Rightarrow> ('st, 'r) service_config \<Rightarrow> string \<Rightarrow> daemon_file_config
     \<Rightarrow> go_error + ('st, 'r) service_config" where
  "applyFileConfig sx serviceConfig configPath fileConfig =
     res_bind (if fc_idle_ttl fileConfig \<noteq> '''' then
                 res_bind (parse_ttl sx ''runtime.idle_ttl'' configPath (fc_idle_ttl fileConfig)) (\<lambda>idleTTL.
                   Inr (serviceConfig\<lparr>cfg_idle_ttl := idleTTL\<rparr>))
               else Inr serviceConfig) (\<lambda>serviceConfig.
     res_bind (if fc_cleanup_ttl fileConfig \<noteq> '''' then
                 res_bind (parse_ttl sx ''runtime.cleanup_ttl'' configPath (fc_cleanup_ttl fileConfig)) (\<lambda>cleanupTTL.
                   Inr (serviceConfig\<lparr>cfg_cleanup_ttl := cleanupTTL\<rparr>))
               else Inr serviceConfig) (\<lambda>serviceConfig.
     let serviceConfig = (if fc_log_level fileConfig \<noteq> ''''
           then serviceConfig\<lparr>cfg_log_level := fc_log_level fileConfig\<rparr> else serviceConfig);
         serviceConfig = (if fc_exec_output_root fileConfig \<noteq> ''''
           then serviceConfig\<lparr>cfg_artifact_output_root := fc_exec_output_root fileConfig\<rparr> else serviceConfig);
         serviceConfig = (if fc_exec_output_template fileConfig \<noteq> ''''
           then serviceConfig\<lparr>cfg_artifact_output_template := fc_exec_output_template fileConfig\<rparr>
           else serviceConfig)
     in Inr serviceConfig))"

definition resolveStartupConfig ::
  "('st, 'r) start_host \<Rightarrow> string list \<Rightarrow> go_error + ('st, 'r) startup_config" where
  "resolveStartupConfig sx args =
     (let goos = sx_goos sx; home = sx_home sx; lookupEnv = sx_lookup sx
      in if args \<noteq> [] then
           Inl (ErrText ([Lit ''agboxd does not accept CLI path overrides: ['', Lit (join_with '' '' args), Lit '']'']))
         else
           res_bind (socketPathForGOOS goos home lookupEnv) (\<lambda>socketPath.
           res_bind (lockPathForGOOS goos home lookupEnv) (\<lambda>lockPath.
           res_bind (configFilePathForGOOS goos home lookupEnv) (\<lambda>configPath.
           res_bind (idStorePathForGOOS goos home lookupEnv) (\<lambda>idStorePath.
           res_bind (loadDaemonFileConfigIfPresent sx configPath) (\<lambda>fileConfig.
           res_bind (applyFileConfig sx (sx_defaults sx) configPath fileConfig) (\<lambda>serviceConfig.
           let serviceConfig = (if cfg_artifact_output_root serviceConfig = ''''
                 then serviceConfig\<lparr>cfg_artifact_output_root := execLogRootForGOOS goos home lookupEnv\<rparr>
                 else serviceConfig)
           in Inr \<lparr>su_socket_path = socketPath, su_lock_path = lockPath, su_id_store_path = idStorePath,
                   su_service_config = serviceConfig\<rparr>)))))))"

section \<open>The level of the logger\<close>

text \<open>\<^verbatim>\<open>slog.Level.UnmarshalText\<close>: a name and an offset with a sign\<close>

definition slog_level :: "string \<Rightarrow> go_error + int" where
  "slog_level s =
     (let name = takeWhile (\<lambda>c. c \<noteq> CHR ''+'' \<and> c \<noteq> CHR ''-'') s;
          rest = drop (length name) s;
          bad = (\<lambda>err. Inl (ErrText ([Lit ''slog: level string '', Quoted s, Lit '': ''] @ err)))
      in case (if rest = [] then Inr 0 else Atoi rest) of
           Inl err \<Rightarrow> bad (error_text err)
         | Inr offset \<Rightarrow>
             (let up = to_upper name
              in if up = ''DEBUG'' then Inr (-4 + offset)
                 else if up = ''INFO'' then Inr offset
                 else if up = ''WARN'' then Inr (4 + offset)
                 else if up = ''ERROR'' then Inr (8 + offset)
                 else bad [Lit ''unknown name'']))"

definition SetupLogger :: "string \<Rightarrow> go_error + int" where
  "SetupLogger level =
     (if level = '''' then Inl (ErrText [Lit ''log level must not be empty''])
      else case slog_level level of
        Inl err \<Rightarrow> Inl (ErrText ([Lit ''parse log level '', Quoted level, Lit '': ''] @ error_text err))
      | Inr lv \<Rightarrow> Inr lv)"

section \<open>Requests to the host\<close>

type_synonym 'a start = "start_log \<Rightarrow> (go_error + 'a) \<times> start_log"

definition st_ret :: "'a \<Rightarrow> 'a start" where
  "st_ret x t = (Inr x, t)"

definition st_fail :: "go_error \<Rightarrow> 'a start" where
  "st_fail e t = (Inl e, t)"

definition st_bind :: "'a start \<Rightarrow> ('a \<Rightarrow> 'b start) \<Rightarrow> 'b start" where
  "st_bind m f t = (case m t of (Inl e, t') \<Rightarrow> (Inl e, t') | (Inr x, t') \<Rightarrow> f x t')"

definition st_act :: "('st, 'r) start_host \<Rightarrow> start_act \<Rightarrow> unit start" where
  "st_act sx a t = (case sx_answer sx t a of Some e \<Rightarrow> (Inl e, t @ [a]) | None \<Rightarrow> (Inr (), t @ [a]))"

text \<open>A request whose error is dropped, and one whose error is replaced after some clean-up.\<close>

definition st_quiet :: "('st, 'r) start_host \<Rightarrow> start_act \<Rightarrow> unit start" where
  "st_quiet sx a t = (Inr (), t @ [a])"

definition st_or :: "'a start \<Rightarrow> (go_error \<Rightarrow> 'a start) \<Rightarrow> 'a start" where
  "st_or m f t = (case m t of (Inl e, t') \<Rightarrow> f e t' | r \<Rightarrow> r)"

section \<open>The host lock\<close>

definition EWOULDBLOCK :: go_error where
  "EWOULDBLOCK = ErrText [Lit ''resource temporarily unavailable'']"

definition lock_error :: "string \<Rightarrow> string \<Rightarrow> go_error \<Rightarrow> go_error" where
  "lock_error what lockPath err = ErrText ([Lit what, Lit '' host lock '', Lit lockPath, Lit '': ''] @ error_text err)"

definition give_up_lock :: "('st, 'r) start_host \<Rightarrow> go_error \<Rightarrow> 'a start" where
  "give_up_lock sx err =
     st_bind (st_quiet sx FlockUnlock) (\<lambda>_. st_bind (st_quiet sx CloseLock) (\<lambda>_. st_fail err))"

definition acquireHostLock :: "('st, 'r) start_host \<Rightarrow> string \<Rightarrow> unit start" where
  "acquireHostLock sx lockPath =
     st_bind (st_or (st_act sx (MakeLockDir (Dir lockPath))) (\<lambda>err.
       st_fail (ErrText ([Lit ''create lock directory for '', Lit lockPath, Lit '': ''] @ error_text err)))) (\<lambda>_.
     st_bind (st_or (st_act sx (OpenLock lockPath)) (\<lambda>err. st_fail (lock_error ''open'' lockPath err))) (\<lambda>_.
     st_bind (st_or (st_act sx FlockExclusive) (\<lambda>err.
       st_bind (st_quiet sx CloseLock) (\<lambda>_.
         if err = EWOULDBLOCK then
           st_fail (ErrText [Lit ''agboxd host lock '', Lit lockPath,
             Lit '' is already held; refuse to start a second daemon on this machine''])
         else st_fail (lock_error ''acquire'' lockPath err)))) (\<lambda>_.
     st_bind (st_or (st_act sx TruncateLock) (\<lambda>err. give_up_lock sx (lock_error ''truncate'' lockPath err))) (\<lambda>_.
     st_bind (st_or (st_act sx (WriteLock (show_nat (sx_pid sx) @ [CHR 0x0A]))) (\<lambda>err.
       give_up_lock sx (lock_error ''write'' lockPath err))) (\<lambda>_.
     st_or (st_act sx RewindLock) (\<lambda>err. give_up_lock sx (lock_error ''rewind'' lockPath err)))))))"

definition release_lock :: "('st, 'r) start_host \<Rightarrow> string \<Rightarrow> start_log \<Rightarrow> go_error option \<times> start_log" where
  "release_lock sx lockPath t =
     (let unlockErr = sx_answer sx t FlockUnlock; t = t @ [FlockUnlock];
          closeErr = sx_answer sx t CloseLock; t = t @ [CloseLock]
      in (case unlockErr of
            Some err \<Rightarrow> Some (lock_error ''release'' lockPath err)
          | None \<Rightarrow> map_option (lock_error ''close'' lockPath) closeErr, t))"

section \<open>The server\<close>

text \<open>\<^verbatim>\<open>defer listener.Close()\<close> runs whether or not serving ended with an error.\<close>

definition ListenAndServe :: "('st, 'r) start_host \<Rightarrow> string \<Rightarrow> unit start" where
  "ListenAndServe sx socketPath =
     st_bind (st_act sx (MakeSocketDir (Dir socketPath))) (\<lambda>_.
     st_bind (st_act sx (RemoveSocket socketPath)) (\<lambda>_.
     st_bind (st_act sx (ListenSocket socketPath)) (\<lambda>_.
     (\<lambda>t. case st_act sx ServeSocket t of (r, t') \<Rightarrow> (r, snd (st_quiet sx CloseListener t'))))))"

section \<open>The daemon\<close>

record daemon_exit =
  dx_code :: int
  dx_stderr :: "go_error option"   \<comment> \<open>what is printed to standard error before the logger exists\<close>

text \<open>
  \<^verbatim>\<open>runWithDeps\<close> with the lock, the service and the server \<^verbatim>\<open>run\<close> passes to it.  The service comes with a closer, which
  is run before the lock is released; the errors of both are logged only.
\<close>

definition runWithDeps :: "('st, 'r) start_host \<Rightarrow> string list \<Rightarrow> start_log \<Rightarrow> daemon_exit \<times> start_log" where
  "runWithDeps sx args t =
     (case resolveStartupConfig sx args of
        Inl err \<Rightarrow> (\<lparr>dx_code = 2, dx_stderr = Some err\<rparr>, t)
      | Inr startup \<Rightarrow>
     (case SetupLogger (cfg_log_level (su_service_config startup)) of
        Inl err \<Rightarrow> (\<lparr>dx_code = 2, dx_stderr = Some err\<rparr>, t)
      | Inr _ \<Rightarrow>
     (case acquireHostLock sx (su_lock_path startup) t of
        (Inl _, t) \<Rightarrow> (\<lparr>dx_code = 1, dx_stderr = None\<rparr>, t)
      | (Inr (), t) \<Rightarrow>
     (case st_act sx (StartService (su_id_store_path startup)) t of
        (Inl _, t) \<Rightarrow> (\<lparr>dx_code = 1, dx_stderr = None\<rparr>, snd (release_lock sx (su_lock_path startup) t))
      | (Inr (), t) \<Rightarrow>
     (case ListenAndServe sx (su_socket_path startup) t of
        (r, t) \<Rightarrow>
          (\<lparr>dx_code = (if isl r then 1 else 0), dx_stderr = None\<rparr>,
           snd (release_lock sx (su_lock_path startup) (snd (st_quiet sx CloseRegistry t)))))))))"

definition run_daemon :: "('st, 'r) start_host \<Rightarrow> string list \<Rightarrow> daemon_exit \<times> start_log" where
  "run_daemon sx args =
     (case (if sx_goos sx = ''linux'' then CheckNetAdminCapability (sx_status sx) else None) of
        Some err \<Rightarrow> (\<lparr>dx_code = 1, dx_stderr = Some err\<rparr>, [])
      | None \<Rightarrow> runWithDeps sx args [])"

end
