(* ===== verification/Start_Props.thy ===== *)
theory Start_Props
  imports Daemon_Start Cli_Exec Sample_Run
begin

text \<open>
  The start-up of the daemon: one daemon at a time owns the socket, and the command line dials where it listens.
\<close>

section \<open>The lock\<close>

text \<open>What only the holder of the host lock may do.\<close>

fun needs_lock :: "start_act \<Rightarrow> bool" where
  "needs_lock (MakeLockDir _) = False"
| "needs_lock (OpenLock _) = False"
| "needs_lock FlockExclusive = False"
| "needs_lock CloseLock = False"
| "needs_lock _ = True"

text \<open>
  The discipline of the lock over a trace: it is asked for once at a time, what needs it is done while it is held, and at
  the end it is not held.  \<open>h\<close> is what came before.
\<close>

fun lock_discipline :: "('st, 'r) start_host \<Rightarrow> start_log \<Rightarrow> bool \<Rightarrow> start_log \<Rightarrow> bool" where
  "lock_discipline sx h held [] \<longleftrightarrow> \<not> held"
| "lock_discipline sx h held (a # as) \<longleftrightarrow>
     (if a = FlockExclusive then \<not> held \<and> lock_discipline sx (h @ [a]) (sx_answer sx h a = None) as
      else (needs_lock a \<longrightarrow> held) \<and> lock_discipline sx (h @ [a]) (held \<and> a \<noteq> FlockUnlock) as)"

lemmas start_steps = st_bind_def st_ret_def st_fail_def st_act_def st_quiet_def st_or_def

abbreviation lock_taken :: "('st, 'r) start_host \<Rightarrow> string \<Rightarrow> start_log" where
  "lock_taken sx p \<equiv> [MakeLockDir (Dir p), OpenLock p, FlockExclusive, TruncateLock,
     WriteLock (show_nat (sx_pid sx) @ [CHR 0x0A]), RewindLock]"

text \<open>What a trace without the server looks like.\<close>

definition no_server :: "string \<Rightarrow> start_log \<Rightarrow> bool" where
  "no_server p t \<longleftrightarrow> ServeSocket \<notin> set t \<and> (\<forall>s. ListenSocket s \<notin> set t) \<and> (\<forall>q. OpenLock q \<in> set t \<longrightarrow> q = p)"

lemma acquire_result:
  assumes "acquireHostLock sx p [] = (r, t)"
  shows "(case r of
      Inl _ \<Rightarrow> lock_discipline sx [] False t \<and> no_server p t
    | Inr _ \<Rightarrow> t = lock_taken sx p \<and> sx_answer sx [MakeLockDir (Dir p), OpenLock p] FlockExclusive = None)"
  using assms
  by (auto simp: acquireHostLock_def give_up_lock_def start_steps no_server_def split: option.splits if_splits)

lemma listen_result:
  assumes "ListenAndServe sx s t = (r, t')"
  shows "\<exists>served. t' = t @ served \<and> set served \<subseteq> {MakeSocketDir (Dir s), RemoveSocket s, ListenSocket s, ServeSocket, CloseListener}
     \<and> (\<not> isl r \<longrightarrow> ServeSocket \<in> set served)"
  using assms
  by (auto simp: ListenAndServe_def start_steps split: option.splits)

text \<open>While the lock is held, anything but the lock's own requests keeps the discipline.\<close>

lemma discipline_held:
  "FlockExclusive \<notin> set as \<Longrightarrow> FlockUnlock \<notin> set as \<Longrightarrow>
     lock_discipline sx h True (as @ [FlockUnlock, CloseLock]) "
  by (induction as arbitrary: h) auto

lemma discipline_taken:
  assumes "sx_answer sx [MakeLockDir (Dir p), OpenLock p] FlockExclusive = None"
    and "FlockExclusive \<notin> set as" "FlockUnlock \<notin> set as"
  shows "lock_discipline sx [] False (lock_taken sx p @ as @ [FlockUnlock, CloseLock])"
  using assms discipline_held [OF assms(2,3)] by simp

lemma release_trace: "snd (release_lock sx p t) = t @ [FlockUnlock, CloseLock]"
  by (simp add: release_lock_def Let_def)

lemma resolve_paths:
  assumes "resolveStartupConfig sx args = Inr su"
  shows "socketPathForGOOS (sx_goos sx) (sx_home sx) (sx_lookup sx) = Inr (su_socket_path su)"
    and "lockPathForGOOS (sx_goos sx) (sx_home sx) (sx_lookup sx) = Inr (su_lock_path su)" and "args = []"
  using assms by (auto simp: resolveStartupConfig_def Let_def res_bind_eq_Inr split: if_splits)

definition paths_ok :: "('st, 'r) start_host \<Rightarrow> start_log \<Rightarrow> bool" where
  "paths_ok sx t \<longleftrightarrow>
     (\<forall>s. ListenSocket s \<in> set t \<longrightarrow> socketPathForGOOS (sx_goos sx) (sx_home sx) (sx_lookup sx) = Inr s)
   \<and> (\<forall>q. OpenLock q \<in> set t \<longrightarrow> lockPathForGOOS (sx_goos sx) (sx_home sx) (sx_lookup sx) = Inr q)"

lemma run_daemon_result:
  assumes "run_daemon sx args = (dx, t)"
  shows "lock_discipline sx [] False t \<and> (dx_code dx = 2 \<longrightarrow> t = []) \<and> (dx_code dx = 0 \<longrightarrow> ServeSocket \<in> set t)
     \<and> paths_ok sx t"
proof (cases "(if sx_goos sx = ''linux'' then CheckNetAdminCapability (sx_status sx) else None) = None
    \<and> (\<exists>su lv. resolveStartupConfig sx args = Inr su \<and> SetupLogger (cfg_log_level (su_service_config su)) = Inr lv)")
  case False
  with assms have "t = []" "dx_code dx \<noteq> 0"
    by (auto simp: run_daemon_def runWithDeps_def split: option.splits sum.splits if_splits)
  then show ?thesis by (simp add: paths_ok_def)
next
  case True
  then obtain su lv where su: "resolveStartupConfig sx args = Inr su"
      "SetupLogger (cfg_log_level (su_service_config su)) = Inr lv"
    and run: "runWithDeps sx args [] = (dx, t)" using assms by (auto simp: run_daemon_def)
  let ?p = "su_lock_path su" and ?s = "su_socket_path su"
  note paths = resolve_paths [OF su(1)]
  obtain r t1 where acq: "acquireHostLock sx ?p [] = (r, t1)" by fastforce
  show ?thesis
  proof (cases r)
    case (Inl e)
    with acq su run have "t = t1" "dx_code dx = 1" by (auto simp: runWithDeps_def)
    with acquire_result [OF acq] Inl paths show ?thesis by (auto simp: no_server_def paths_ok_def)
  next
    case (Inr u)
    with acquire_result [OF acq] have t1: "t1 = lock_taken sx ?p"
      and granted: "sx_answer sx [MakeLockDir (Dir ?p), OpenLock ?p] FlockExclusive = None" by auto
    obtain r2 t2 where st: "st_act sx (StartService (su_id_store_path su)) t1 = (r2, t2)" by fastforce
    then have t2: "t2 = t1 @ [StartService (su_id_store_path su)]" by (auto simp: st_act_def split: option.splits)
    show ?thesis
    proof (cases r2)
      case (Inl e)
      with acq su run st Inr have "t = t2 @ [FlockUnlock, CloseLock]" "dx_code dx = 1"
        by (auto simp: runWithDeps_def release_trace split: unit.splits)
      moreover from discipline_taken [OF granted, of "[StartService (su_id_store_path su)]"]
      have "lock_discipline sx [] False (t2 @ [FlockUnlock, CloseLock])" by (simp add: t1 t2)
      ultimately show ?thesis using paths by (auto simp: t1 t2 paths_ok_def)
    next
      case r2: (Inr u2)
      obtain r3 t3 where l: "ListenAndServe sx ?s t2 = (r3, t3)" by fastforce
      from listen_result [OF l] obtain served where t3: "t3 = t2 @ served"
        "set served \<subseteq> {MakeSocketDir (Dir ?s), RemoveSocket ?s, ListenSocket ?s, ServeSocket, CloseListener}"
        "\<not> isl r3 \<longrightarrow> ServeSocket \<in> set served" by blast
      from acq su run st Inr r2 l have "t = t3 @ [CloseRegistry, FlockUnlock, CloseLock]" "dx_code dx = (if isl r3 then 1 else 0)"
        by (auto simp: runWithDeps_def release_trace st_quiet_def split: unit.splits)
      moreover have "lock_discipline sx [] False (t3 @ [CloseRegistry, FlockUnlock, CloseLock])"
        using discipline_taken [OF granted, of "StartService (su_id_store_path su) # served @ [CloseRegistry]"] t3(2)
        by (auto simp: t1 t2 t3(1))
      ultimately show ?thesis using paths t3 by (auto simp: t1 t2 paths_ok_def split: if_splits)
    qed
  qed
qed

text \<open>
  C23. However a start of the daemon goes, it writes the lock file, opens the registry, removes and binds the socket and
  serves only while it holds the exclusive host lock, and when it ends it does not hold it.  A configuration
  it refuses (exit code 2) leaves the machine untouched, and only a daemon that has served ends with code 0.
\<close>
theorem daemon_lock_protects:
  "case run_daemon sx args of (dx, t) \<Rightarrow>
     lock_discipline sx [] False t \<and> (dx_code dx = 2 \<longrightarrow> t = []) \<and> (dx_code dx = 0 \<longrightarrow> ServeSocket \<in> set t)"
  using run_daemon_result [of sx args] by (auto split: prod.splits)

section \<open>The socket\<close>

text \<open>
  C39. The command line finds the daemon: with the same operating system, home directory and environment, what a command
  dials is the socket the daemon listens on, and the lock and the socket of a daemon are in one directory, so that two daemons that would listen
  on one socket compete for one lock.
\<close>
theorem client_finds_daemon:
  assumes "run_daemon sx args = (dx, t)" and "ListenSocket s \<in> set t"
    and "ve_goos env = sx_goos sx" and "ve_home env = sx_home sx" and "ve_lookup env = sx_lookup sx"
  shows "connect_daemon env limit w =
      (case ve_dial env s of None \<Rightarrow> (Returned limit, w)
       | Some err \<Rightarrow> (Failed (runtimeErrorf ([Lit ''connect daemon: ''] @ error_text err)), w))
    \<and> (\<exists>root. s = JoinPath [root, ''agboxd.sock''] \<and> (\<forall>q. OpenLock q \<in> set t \<longrightarrow> q = JoinPath [root, ''agboxd.lock'']))"
proof (rule conjI)
  from run_daemon_result [OF assms(1)] assms(2)
  have s: "socketPathForGOOS (sx_goos sx) (sx_home sx) (sx_lookup sx) = Inr s"
    and q: "\<And>q. OpenLock q \<in> set t \<Longrightarrow> lockPathForGOOS (sx_goos sx) (sx_home sx) (sx_lookup sx) = Inr q"
    by (auto simp: paths_ok_def)
  from s show "connect_daemon env limit w =
      (case ve_dial env s of None \<Rightarrow> (Returned limit, w)
       | Some err \<Rightarrow> (Failed (runtimeErrorf ([Lit ''connect daemon: ''] @ error_text err)), w))"
    by (simp add: connect_daemon_def assms(3-5) cli_ret_def cli_fail_def split: option.split)
  from s obtain root where "runtimeRootPathForGOOS (sx_goos sx) (sx_home sx) (sx_lookup sx) = Inr root"
      "s = JoinPath [root, ''agboxd.sock'']"
    by (auto simp: socketPathForGOOS_def res_bind_eq_Inr simp del: JoinPath.simps)
  with q show "\<exists>root. s = JoinPath [root, ''agboxd.sock''] \<and> (\<forall>q. OpenLock q \<in> set t \<longrightarrow> q = JoinPath [root, ''agboxd.lock''])"
    by (auto simp: lockPathForGOOS_def simp del: JoinPath.simps)
qed

text \<open>A host on which every request is granted.\<close>

definition sample_host :: "(memory_event_store, memory_id_registry) start_host" where
  "sample_host = \<lparr>sx_goos = darwin, sx_home = Inr ''/home/u'', sx_lookup = Some (\<lambda>_. Some ''/u''),
     sx_read_file = (\<lambda>_. FileAbsent), sx_decode_toml = (\<lambda>_. Inr empty_file_config),
     sx_parse_duration = (\<lambda>_. Inr hour), sx_status = Inr [], sx_pid = 7,
     sx_answer = (\<lambda>_ _. None), sx_defaults = sample_base\<rparr>"

abbreviation sample_socket :: string where
  "sample_socket \<equiv> JoinPath [JoinPath [''/u'', ''agbox''], ''agboxd.sock'']"

lemma sample_config_read:
  obtains su where "resolveStartupConfig sample_host [] = Inr su" and "su_socket_path su = sample_socket"
    and "SetupLogger (cfg_log_level (su_service_config su)) = Inr 0"
proof -
  have level: "SetupLogger ''info'' = Inr 0" by code_simp
  have "cfg_log_level sample_base = ''info''" "cfg_artifact_output_root sample_base = ''''" by (simp_all add: DefaultServiceConfig_def)
  with level have "\<exists>su. resolveStartupConfig sample_host [] = Inr su \<and> su_socket_path su = sample_socket
      \<and> SetupLogger (cfg_log_level (su_service_config su)) = Inr 0"
    by (simp add: sample_host_def resolveStartupConfig_def Let_def
        socketPathForGOOS_def lockPathForGOOS_def runtimeRootPathForGOOS_def runtimeDirForGOOS_def lookupEnvValue_def
        configFilePathForGOOS_def configDirForGOOS_def idStorePathForGOOS_def dataDirForGOOS_def
        loadDaemonFileConfigIfPresent_def applyFileConfig_def empty_file_config_def del: JoinPath.simps)
  then show ?thesis using that by blast
qed

lemma sample_act: "st_act sample_host a t = (Inr (), t @ [a])"
  by (simp add: st_act_def sample_host_def)

lemma sample_start:
  "\<exists>dx t. run_daemon sample_host [] = (dx, t) \<and> dx_code dx = 0 \<and> ListenSocket sample_socket \<in> set t"
proof -
  obtain su where su: "resolveStartupConfig sample_host [] = Inr su" "su_socket_path su = sample_socket"
    "SetupLogger (cfg_log_level (su_service_config su)) = Inr 0" by (rule sample_config_read)
  have acq: "acquireHostLock sample_host p t = (Inr (), t @ lock_taken sample_host p)" for p t
    by (simp add: acquireHostLock_def st_bind_def st_or_def sample_act)
  have serve: "ListenAndServe sample_host s t = (Inr (), t @ [MakeSocketDir (Dir s), RemoveSocket s, ListenSocket s,
      ServeSocket, CloseListener])" for s t
    by (simp add: ListenAndServe_def st_bind_def sample_act st_quiet_def)
  have unit: "(case u of () \<Rightarrow> m) = m" for u and m :: "daemon_exit \<times> start_log" by (cases u) (simp only: unit.case)
  have "sx_goos sample_host \<noteq> ''linux''" by (simp add: sample_host_def)
  then show ?thesis
    by (simp add: run_daemon_def runWithDeps_def unit su acq serve sample_act release_trace st_quiet_def del: JoinPath.simps)
qed

theorem daemon_lock_protects_witness:
  "ServeSocket \<in> set (snd (run_daemon sample_host []))"
proof -
  obtain dx t where "run_daemon sample_host [] = (dx, t)" "dx_code dx = 0" using sample_start by blast
  with daemon_lock_protects [of sample_host "[]"] show ?thesis by simp
qed

theorem client_finds_daemon_witness:
  "\<exists>root. sample_socket = JoinPath [root, ''agboxd.sock'']
     \<and> (\<forall>q. OpenLock q \<in> set (snd (run_daemon sample_host [])) \<longrightarrow> q = JoinPath [root, ''agboxd.lock''])"
proof -
  obtain dx t where run: "run_daemon sample_host [] = (dx, t)" "ListenSocket sample_socket \<in> set t" using sample_start by blast
  let ?env = "(undefined :: cli_env)\<lparr>ve_goos := sx_goos sample_host, ve_home := sx_home sample_host, ve_lookup := sx_lookup sample_host\<rparr>"
  have "\<exists>root. sample_socket = JoinPath [root, ''agboxd.sock''] \<and> (\<forall>q. OpenLock q \<in> set t \<longrightarrow> q = JoinPath [root, ''agboxd.lock''])"
    by (rule conjunct2 [OF client_finds_daemon [OF run, of ?env]]) simp_all
  then show ?thesis by (simp only: run(1) snd_conv)
qed

end
