(* ===== verification/Watch_Loop.thy ===== *)
theory Watch_Loop
  imports Daemon Docker_Lifecycle
begin

text \<open>
  The loop of the container watch (\<^verbatim>\<open>run\<close> and \<^verbatim>\<open>processEvents\<close> of \<^verbatim>\<open>docker_event_watcher.go\<close>) and the goroutine of
  \<^verbatim>\<open>WatchContainerEvents\<close> that feeds it.  Which way the loop goes depends on its channels only, so the loop is
  a function from what its selects receive to the calls it makes; what a call does to the service is
  \<open>watch_does\<close>, under the service's mutex, with any other goroutine between two calls.
\<close>

section \<open>The engine's events\<close>

text \<open>What the watch asks the engine for, and what it forwards of the stream it gets.\<close>

definition watch_filters :: "(string \<times> string) list" where
  "watch_filters = [(''type'', ''container''), (''event'', ''die''), (''event'', ''oom''), (''label'', LabelSandboxID)]"

fun forwarded :: "((string, string) gomap \<times> string) list \<Rightarrow> container_event list" where
  "forwarded [] = []"
| "forwarded ((attributes, action) # msgs) =
     (case container_event_of attributes action of
        None \<Rightarrow> forwarded msgs
      | Some ce \<Rightarrow> ce # forwarded msgs)"

section \<open>The loop\<close>

text \<open>What the select of \<^verbatim>\<open>processEvents\<close> receives; \<open>None\<close> is a channel that was closed.\<close>

datatype watch_pick =
  WatchCancelled
| StreamError "string option"
| StreamEvent "container_event option"
| TickerFired

datatype watch_call =
  WatchReconcile
| WatchSubscribe
| WatchHandle container_event
| WatchSleep duration

text \<open>The answer is \<open>None\<close> as long as the select blocks.\<close>

fun processEvents :: "watch_pick list \<Rightarrow> watch_call list \<times> bool option" where
  "processEvents [] = ([], None)"
| "processEvents (WatchCancelled # ps) = ([], Some False)"
| "processEvents (StreamError err # ps) = ([], Some True)"
| "processEvents (StreamEvent None # ps) = ([], Some True)"
| "processEvents (StreamEvent (Some event) # ps) =
     (case processEvents ps of (calls, again) \<Rightarrow> (WatchHandle event # calls, again))"
| "processEvents (TickerFired # ps) =
     (case processEvents ps of (calls, again) \<Rightarrow> (WatchReconcile # calls, again))"

text \<open>
  One turn of \<^verbatim>\<open>run\<close>: what the channels of the connection give, and whether the context is cancelled during the
  wait after it.  The flag of the result tells that \<^verbatim>\<open>run\<close> has returned.
\<close>

record watch_connection =
  wc_picks :: "watch_pick list"
  wc_cancelled_in_wait :: bool

abbreviation maxBackoff :: duration where "maxBackoff \<equiv> 30 * second"

fun watcher_loop :: "duration \<Rightarrow> watch_connection list \<Rightarrow> watch_call list \<times> bool" where
  "watcher_loop backoff [] = ([], False)"
| "watcher_loop backoff (c # cs) =
     (case processEvents (wc_picks c) of (calls, again) \<Rightarrow>
      let backoff = second;
          turn = [WatchReconcile, WatchSubscribe] @ calls in
      case again of
        None \<Rightarrow> (turn, False)
      | Some False \<Rightarrow> (turn, True)
      | Some True \<Rightarrow>
          if wc_cancelled_in_wait c then (turn @ [WatchSleep backoff], True)
          else case watcher_loop (min (backoff * 2) maxBackoff) cs of
            (later, returned) \<Rightarrow> (turn @ WatchSleep backoff # later, returned))"

definition watcher_run :: "watch_connection list \<Rightarrow> watch_call list \<times> bool" where
  "watcher_run cs = watcher_loop second cs"

section \<open>What a call does to the service\<close>

definition watch_does ::
  "('st, 'r) service_config \<Rightarrow> inspector \<Rightarrow> time \<Rightarrow> watch_call \<Rightarrow> ('st, 'r) service
     \<Rightarrow> ('st, 'r) service \<times> task list" where
  "watch_does cfg inspect now call s =
     (case call of
        WatchReconcile \<Rightarrow> reconcileAll cfg inspect now s
      | WatchHandle event \<Rightarrow> handleEvent cfg inspect now event s
      | WatchSubscribe \<Rightarrow> (s, [])
      | WatchSleep _ \<Rightarrow> (s, []))"

text \<open>Each call is a step of the daemon, or none.\<close>

lemma watch_does_step:
  assumes "watch_does cfg inspect now call (dm_service d) = (s, ts)"
  shows "daemon_step cfg d (spawn s ts d) \<or> spawn s ts d = d"
proof (cases call)
  case WatchReconcile
  with assms show ?thesis by (auto simp: watch_does_def intro: daemon_step.reconcile)
next
  case (WatchHandle event)
  with assms show ?thesis by (auto simp: watch_does_def intro: daemon_step.container_event)
qed (use assms in \<open>auto simp: watch_does_def spawn_def\<close>)

lemma watch_does_upd:
  "watch_does cfg inspect now call s = (s', ts) \<Longrightarrow> keyed s \<Longrightarrow> upd cfg s s'"
  by (auto simp: watch_does_def intro: reconcileAll_upd handleEvent_upd upd.none split: watch_call.splits)

section \<open>The schedule\<close>

lemma processEvents_calls:
  "c \<in> set (fst (processEvents ps)) \<Longrightarrow> c = WatchReconcile \<or> (\<exists>event. c = WatchHandle event)"
  by (induction ps rule: processEvents.induct) (auto split: prod.splits)

text \<open>
  Every wait before a new subscription is one second long: the backoff is set back to it before it is used, so it never
  grows.
\<close>

lemma sleeps_one_second: "WatchSleep b \<in> set (fst (watcher_loop b0 cs)) \<Longrightarrow> b = second"
proof (induction b0 cs rule: watcher_loop.induct)
  case (2 b0 c cs)
  obtain calls again where p: "processEvents (wc_picks c) = (calls, again)" by fastforce
  with processEvents_calls [of "WatchSleep b" "wc_picks c"] have "WatchSleep b \<notin> set calls" by auto
  with 2 p show ?case
    by (fastforce simp: Let_def split: prod.splits option.splits bool.splits if_splits)
qed simp

text \<open>
  Every subscription comes right after a reconciliation: what happened while the watch was not subscribed is
  looked at before it waits for events.
\<close>

fun subscribes_after :: "bool \<Rightarrow> watch_call list \<Rightarrow> bool" where
  "subscribes_after reconciled [] = True"
| "subscribes_after reconciled (c # cs) =
     ((c = WatchSubscribe \<longrightarrow> reconciled) \<and> subscribes_after (c = WatchReconcile) cs)"

lemma subscribes_after_append:
  "WatchSubscribe \<notin> set xs \<Longrightarrow> subscribes_after b (xs @ ys)
     = subscribes_after (if xs = [] then b else last xs = WatchReconcile) ys"
  by (induction xs arbitrary: b) auto

lemma subscribes_reconciled: "subscribes_after b (fst (watcher_loop b0 cs))"
proof (induction b0 cs arbitrary: b rule: watcher_loop.induct)
  case (2 b0 c cs)
  obtain calls again where p: "processEvents (wc_picks c) = (calls, again)" by fastforce
  with processEvents_calls [of "WatchSubscribe" "wc_picks c"] have "WatchSubscribe \<notin> set calls" by auto
  moreover from this have "subscribes_after False calls" using subscribes_after_append [of calls False "[]"] by simp
  ultimately show ?case
    using 2 p by (auto simp: Let_def subscribes_after_append split: prod.splits option.splits bool.splits)
qed simp

end
