(* ===== verification/Watch_Loop_Props.thy ===== *)
theory Watch_Loop_Props
  imports Watch_Loop Watch_Props
begin

text \<open>
  The container watch over the service: what a sandbox's record becomes under the calls of the watch's loop, with
  any other goroutine between two calls, and that a primary container that crash-loops fails its sandbox.
\<close>

section \<open>What the watch sees of one sandbox\<close>

type_synonym watch_look = "watch_call \<times> inspector \<times> time"

text \<open>The calls that inspect the primary container of \<open>sid\<close>.\<close>

fun inspects_primary :: "string \<Rightarrow> watch_call \<Rightarrow> bool" where
  "inspects_primary sid WatchReconcile = True"
| "inspects_primary sid (WatchHandle event) = (ce_sandbox_id event = sid \<and> \<not> ce_is_companion event)"
| "inspects_primary sid _ = False"

fun primary_look :: "string \<Rightarrow> string \<Rightarrow> watch_look \<Rightarrow> observation list" where
  "primary_look sid p (call, inspect, now) =
     (if inspects_primary sid call
      then (case inspect p of Inl _ \<Rightarrow> [] | Inr r \<Rightarrow> [(r, now)])
      else [])"

definition primary_looks :: "string \<Rightarrow> string \<Rightarrow> watch_look list \<Rightarrow> observation list" where
  "primary_looks sid p hist = concat (map (primary_look sid p) hist)"

lemma primary_looks_simps [simp]:
  "primary_looks sid p [] = []"
  "primary_looks sid p (hist @ [l]) = primary_looks sid p hist @ primary_look sid p l"
  by (simp_all add: primary_looks_def)

text \<open>
  The service under the calls of the watch.  Between two calls the mutex is free: the service may become any
  other one in which the record of \<open>sid\<close> is the same.
\<close>

inductive watch_history ::
  "('st, 'r) service_config \<Rightarrow> string \<Rightarrow> ('st, 'r) service \<Rightarrow> watch_look list \<Rightarrow> ('st, 'r) service \<Rightarrow> bool"
  for cfg sid s0 where
  nothing: "watch_history cfg sid s0 [] s0"
| call: "watch_history cfg sid s0 hist s \<Longrightarrow> watch_does cfg inspect now call s = (s', ts)
           \<Longrightarrow> watch_history cfg sid s0 (hist @ [(call, inspect, now)]) s'"
| others: "watch_history cfg sid s0 hist s \<Longrightarrow> keyed s'
           \<Longrightarrow> gm_get (svc_boxes s') sid = gm_get (svc_boxes s) sid \<Longrightarrow> watch_history cfg sid s0 hist s'"

text \<open>The record is that of a ready sandbox with the primary container \<open>p\<close> and the window \<open>cs\<close>.\<close>

definition tracks :: "string \<Rightarrow> crashloop_state \<Rightarrow> sandbox_record \<Rightarrow> bool" where
  "tracks p cs rec \<longleftrightarrow> rec_state rec = SANDBOX_STATE_READY
     \<and> (\<exists>rs. sr_runtime_state rec = Some rs \<and> rs_primary_container_name rs = p
          \<and> rs_primary_crashloop rs = cs)"

text \<open>What one inspection of the primary container makes of the record.\<close>

definition judged :: "inspector \<Rightarrow> time \<Rightarrow> string \<Rightarrow> crashloop_state \<Rightarrow> sandbox_record \<Rightarrow> bool" where
  "judged inspect now p cs rec \<longleftrightarrow>
     (case inspect p of
        Inl _ \<Rightarrow> tracks p cs rec
      | Inr r \<Rightarrow>
          (case evaluateContainer r cs True now of (cs', d) \<Rightarrow>
             if dec_should_fail d then rec_state rec = SANDBOX_STATE_FAILED else tracks p cs' rec))"

section \<open>One sandbox in one call\<close>

lemma tracks_windows:
  "tracks p cs rec \<Longrightarrow> tracks p cs' (set_primary_window cs' rec)"
  "tracks p cs rec \<Longrightarrow> tracks p cs (set_companion_window i cw rec)"
  by (auto simp: tracks_def set_primary_window_def set_companion_window_def)

lemma tracks_appended:
  "tracks p cs rec \<Longrightarrow> tracks p cs (appended now t m rec)"
  by (simp add: tracks_def)

lemma companion_tracks:
  assumes "evaluate_companion cfg inspect now entry (rec, st) = (rec', st')" and "tracks p cs rec"
  shows "tracks p cs rec'"
  using assms
  by (auto simp: evaluate_companion_def Let_def split: prod.splits sum.splits if_splits
      dest!: appendEventLocked_record intro!: tracks_appended tracks_windows)

lemma companions_track:
  assumes "fold (evaluate_companion cfg inspect now) entries (rec, st) = (rec', st')" and "tracks p cs rec"
  shows "tracks p cs rec'"
  using assms
proof (induction entries arbitrary: rec st)
  case (Cons e entries)
  obtain rec1 st1 where f: "evaluate_companion cfg inspect now e (rec, st) = (rec1, st1)" by fastforce
  with Cons companion_tracks [OF f Cons.prems(2)] show ?case by simp
qed simp

lemma applyPrimaryFailed_fails:
  assumes "applyPrimaryFailed cfg now sid rec d s = (s', ts)" and "infallible (cfg_event_store cfg)"
  shows "\<exists>rec' st'. s' = put_record sid rec' st' s \<and> rec_state rec' = SANDBOX_STATE_FAILED"
proof (cases "appendEventLocked cfg now rec SANDBOX_FAILED
      (no_mutation\<lparr>mu_error_code := dec_error_code d, mu_error_message := dec_error_message d,
         mu_sandbox_state := SANDBOX_STATE_FAILED\<rparr>) (svc_store s)")
  case (Inl e)
  with assms(2) show ?thesis unfolding infallible_def by (auto simp: appendEventLocked_Inl) (metis sum.disc(1))
next
  case (Inr y)
  with assms(1) show ?thesis by (cases y) (auto simp: applyPrimaryFailed_def)
qed

lemma reconcile_one_judges:
  assumes "reconcile_one cfg inspect now (sid, rec) (s, acc) = (s', acc')"
    and "gm_get (svc_boxes s) sid = Some rec" and t: "tracks p cs rec" and i: "infallible (cfg_event_store cfg)"
  shows "\<exists>rec'. gm_get (svc_boxes s') sid = Some rec' \<and> judged inspect now p cs rec'"
proof -
  from t obtain rs where rs: "sr_runtime_state rec = Some rs" "rs_primary_container_name rs = p"
      "rs_primary_crashloop rs = cs" and rd: "rec_state rec = SANDBOX_STATE_READY"
    by (auto simp: tracks_def)
  show ?thesis
  proof (cases "inspect p")
    case (Inl e)
    with assms rs rd show ?thesis by (auto simp: reconcile_one_def judged_def)
  next
    case (Inr r)
    obtain cs' d where ev: "evaluateContainer r cs True now = (cs', d)" by fastforce
    show ?thesis
    proof (cases "dec_should_fail d")
      case True
      then obtain ts where "applyPrimaryFailed cfg now sid (set_primary_window cs' rec) d s = (s', ts)"
        using assms(1) rs rd Inr ev by (auto simp: reconcile_one_def Let_def split: prod.splits)
      from applyPrimaryFailed_fails [OF this i] Inr ev True show ?thesis by (auto simp: judged_def)
    next
      case False
      obtain rec2 st2 where f: "fold (evaluate_companion cfg inspect now)
          (enumerate 0 (rs_companion_containers rs)) (set_primary_window cs' rec, svc_store s) = (rec2, st2)"
        by fastforce
      from companions_track [OF f tracks_windows(1) [OF t]] assms(1) rs rd Inr ev False f show ?thesis
        by (auto simp: reconcile_one_def judged_def Let_def)
    qed
  qed
qed

section \<open>One sandbox in a call over all of them\<close>

text \<open>\<open>own_record f\<close>: a visit of \<open>k\<close> puts back the record of \<open>k\<close> only.\<close>

definition own_record ::
  "(string \<times> sandbox_record \<Rightarrow> ('st, 'r) service \<times> 'a \<Rightarrow> ('st, 'r) service \<times> 'a) \<Rightarrow> bool" where
  "own_record f \<longleftrightarrow> (\<forall>k v s acc. gm_get (svc_boxes s) k = Some v \<longrightarrow>
     (\<forall>j. j \<noteq> k \<longrightarrow> gm_get (svc_boxes (fst (f (k, v) (s, acc)))) j = gm_get (svc_boxes s) j))"

lemma own_recordD:
  assumes "own_record f" and "f (k, v) (s, acc) = (s', acc')" and "gm_get (svc_boxes s) k = Some v"
    and "j \<noteq> k"
  shows "gm_get (svc_boxes s') j = gm_get (svc_boxes s) j"
proof -
  from assms(1,3,4) have "gm_get (svc_boxes (fst (f (k, v) (s, acc)))) j = gm_get (svc_boxes s) j"
    by (simp add: own_record_def)
  with assms(2) show ?thesis by simp
qed

lemma fold_others:
  assumes "fold f m (s, acc) = (s', acc')" and "own_record f" and "distinct (map fst m)"
    and "\<forall>(k, v) \<in> set m. gm_get (svc_boxes s) k = Some v" and "j \<notin> fst ` set m"
  shows "gm_get (svc_boxes s') j = gm_get (svc_boxes s) j"
  using assms(1,3-)
proof (induction m arbitrary: s acc)
  case Nil
  then show ?case by simp
next
  case (Cons e m)
  obtain k v where e: "e = (k, v)" by (cases e)
  obtain s1 acc1 where f: "f (k, v) (s, acc) = (s1, acc1)" by fastforce
  have b: "gm_get (svc_boxes s) k = Some v" using Cons.prems(3) e by simp
  have o: "gm_get (svc_boxes s1) l = gm_get (svc_boxes s) l" if "l \<noteq> k" for l
    by (rule own_recordD [OF assms(2) f b that])
  have "\<forall>(l, w) \<in> set m. gm_get (svc_boxes s1) l = Some w"
    using Cons.prems(2,3) e o by (force simp: image_iff)
  from Cons.IH [OF _ _ this, of acc1] Cons.prems e f have "gm_get (svc_boxes s') j = gm_get (svc_boxes s1) j" by simp
  with o [of j] Cons.prems(4) e show ?case by auto
qed

text \<open>What a visit of \<open>sid\<close> establishes of its record holds at the end of the fold.\<close>

lemma fold_visit:
  assumes "fold f m (s, acc) = (s', acc')" and o: "own_record f" and d: "distinct (map fst m)"
    and m: "\<forall>(k, v) \<in> set m. gm_get (svc_boxes s) k = Some v" and e: "(sid, rec) \<in> set m"
    and visit: "\<And>s acc s' acc'. f (sid, rec) (s, acc) = (s', acc') \<Longrightarrow> gm_get (svc_boxes s) sid = Some rec \<Longrightarrow>
      \<exists>rec'. gm_get (svc_boxes s') sid = Some rec' \<and> Q rec'"
  shows "\<exists>rec'. gm_get (svc_boxes s') sid = Some rec' \<and> Q rec'"
proof -
  from e obtain pre post where sp: "m = pre @ (sid, rec) # post" by (meson split_list)
  obtain s1 a1 where f1: "fold f pre (s, acc) = (s1, a1)" by fastforce
  obtain s2 a2 where f2: "f (sid, rec) (s1, a1) = (s2, a2)" by fastforce
  have f3: "fold f post (s2, a2) = (s', acc')" using assms(1) sp f1 f2 by simp
  have k1: "gm_get (svc_boxes s1) j = gm_get (svc_boxes s) j" if "j \<notin> fst ` set pre" for j
    by (rule fold_others [OF f1 o _ _ that]) (use d m sp in auto)
  have b1: "gm_get (svc_boxes s1) sid = Some rec" using k1 [of sid] d m sp by force
  from visit [OF f2 b1] obtain rec' where q: "gm_get (svc_boxes s2) sid = Some rec'" "Q rec'" by blast
  have k2: "gm_get (svc_boxes s2) j = gm_get (svc_boxes s1) j" if "j \<noteq> sid" for j
    by (rule own_recordD [OF o f2 b1 that])
  have "gm_get (svc_boxes s2) l = Some w" if "(l, w) \<in> set post" for l w
  proof -
    have "(l, w) \<in> set m" using sp that by simp
    with m have "gm_get (svc_boxes s) l = Some w" by blast
    moreover have "l \<in> fst ` set post" using that by (simp add: rev_image_eqI)
    then have "l \<noteq> sid" "l \<notin> fst ` set pre" using d sp by auto
    ultimately show ?thesis using k1 [of l] k2 [of l] by simp
  qed
  then have "gm_get (svc_boxes s') sid = gm_get (svc_boxes s2) sid"
    by (intro fold_others [OF f3 o]) (use d sp in auto)
  with q show ?thesis by simp
qed

lemma own_reconcile: "own_record (reconcile_one (cfg :: ('st, 'r) service_config) inspect now)"
  unfolding own_record_def
proof (intro allI impI)
  fix k v acc j and s :: "('st, 'r) service"
  assume b: "gm_get (svc_boxes s) k = Some v" and j: "j \<noteq> k"
  obtain s' acc' where r: "reconcile_one cfg inspect now (k, v) (s, acc) = (s', acc')" by fastforce
  from reconcile_one_put [OF r b] j r
  show "gm_get (svc_boxes (fst (reconcile_one cfg inspect now (k, v) (s, acc)))) j = gm_get (svc_boxes s) j"
    by auto
qed

lemma reconcileAll_visit:
  assumes "reconcileAll cfg inspect now s = (s', ts)" and "keyed s" and "gm_get (svc_boxes s) sid = Some rec"
    and "\<And>s acc s' acc'. reconcile_one cfg inspect now (sid, rec) (s, acc) = (s', acc') \<Longrightarrow>
      gm_get (svc_boxes s) sid = Some rec \<Longrightarrow> \<exists>rec'. gm_get (svc_boxes s') sid = Some rec' \<and> Q rec'"
  shows "\<exists>rec'. gm_get (svc_boxes s') sid = Some rec' \<and> Q rec'"
proof (rule fold_visit [OF assms(1) [unfolded reconcileAll_def] own_reconcile _ _ _ assms(4)])
  show "distinct (map fst (svc_boxes s))" using assms(2) by (simp add: keyed_def gm_ok_def)
  show "\<forall>(k, v) \<in> set (svc_boxes s). gm_get (svc_boxes s) k = Some v"
    using assms(2) by (auto simp: keyed_def gm_in_set_get)
  show "(sid, rec) \<in> set (svc_boxes s)" by (rule gm_get_in_set [OF assms(3)])
qed

lemma handleEvent_others:
  assumes "handleEvent cfg inspect now event s = (s', ts)" and "j \<noteq> ce_sandbox_id event"
  shows "gm_get (svc_boxes s') j = gm_get (svc_boxes s) j"
  using assms
  by (auto simp: handleEvent_def applyPrimaryFailed_def Let_def
      split: option.splits sum.splits prod.splits if_splits)

text \<open>A sandbox that is not ready is left alone.\<close>

lemma not_ready_kept:
  assumes "watch_does cfg inspect now call s = (s', ts)" and "keyed s"
    and b: "gm_get (svc_boxes s) sid = Some rec" and nr: "rec_state rec \<noteq> SANDBOX_STATE_READY"
  shows "gm_get (svc_boxes s') sid = Some rec"
proof (cases call)
  case WatchReconcile
  with assms(1) have r: "reconcileAll cfg inspect now s = (s', ts)" by (simp add: watch_does_def)
  from reconcileAll_visit [OF r assms(2) b, of "\<lambda>r. r = rec"] nr show ?thesis
    by (auto simp: reconcile_one_def)
next
  case (WatchHandle event)
  with assms(1) have h: "handleEvent cfg inspect now event s = (s', ts)" by (simp add: watch_does_def)
  show ?thesis
  proof (cases "ce_sandbox_id event = sid")
    case True
    with h b nr show ?thesis by (simp add: handleEvent_def)
  next
    case False
    with handleEvent_others [OF h, of sid] b show ?thesis by simp
  qed
qed (use assms in \<open>simp_all add: watch_does_def\<close>)

text \<open>An event is an inspection of the primary container when it is one of the primary container of \<open>sid\<close>.\<close>

lemma handleEvent_judges:
  assumes h: "handleEvent cfg inspect now event s = (s', ts)" and b: "gm_get (svc_boxes s) sid = Some rec"
    and t: "tracks p cs rec" and i: "infallible (cfg_event_store cfg)"
  shows "\<exists>rec'. gm_get (svc_boxes s') sid = Some rec'
    \<and> (if inspects_primary sid (WatchHandle event) then judged inspect now p cs rec' else tracks p cs rec')"
proof -
  from t obtain rs where rs: "sr_runtime_state rec = Some rs" "rs_primary_container_name rs = p"
      "rs_primary_crashloop rs = cs" and rd: "rec_state rec = SANDBOX_STATE_READY"
    by (auto simp: tracks_def)
  consider (other) "ce_sandbox_id event \<noteq> sid"
    | (companion) "ce_sandbox_id event = sid" "ce_is_companion event"
    | (primary) "ce_sandbox_id event = sid" "\<not> ce_is_companion event" by blast
  then show ?thesis
  proof cases
    case other
    with handleEvent_others [OF h, of sid] b t show ?thesis by simp
  next
    case companion
    with h b rs rd t show ?thesis
      by (auto simp: handleEvent_def split: option.splits prod.splits dest!: companion_tracks)
  next
    case primary
    show ?thesis
    proof (cases "inspect p")
      case (Inl e)
      with h b rs rd t primary show ?thesis by (auto simp: handleEvent_def judged_def)
    next
      case (Inr r)
      obtain cs' d where ev: "evaluateContainer r cs True now = (cs', d)" by fastforce
      show ?thesis
      proof (cases "dec_should_fail d")
        case True
        with h b rs rd primary Inr ev
        have "applyPrimaryFailed cfg now sid (set_primary_window cs' rec) d s = (s', ts)"
          by (simp add: handleEvent_def Let_def)
        from applyPrimaryFailed_fails [OF this i] Inr ev True primary show ?thesis by (auto simp: judged_def)
      next
        case False
        with h b rs rd primary Inr ev tracks_windows(1) [OF t] show ?thesis
          by (auto simp: handleEvent_def judged_def Let_def)
      qed
    qed
  qed
qed

section \<open>Every history\<close>

lemma watch_does_judges:
  assumes w: "watch_does cfg inspect now call s = (s', ts)" and k: "keyed s"
    and b: "gm_get (svc_boxes s) sid = Some rec" and t: "tracks p cs rec" and i: "infallible (cfg_event_store cfg)"
  shows "\<exists>rec'. gm_get (svc_boxes s') sid = Some rec'
    \<and> (if inspects_primary sid call then judged inspect now p cs rec' else tracks p cs rec')"
proof (cases call)
  case WatchReconcile
  with w have r: "reconcileAll cfg inspect now s = (s', ts)" by (simp add: watch_does_def)
  from reconcileAll_visit [OF r k b reconcile_one_judges [OF _ _ t i]] WatchReconcile show ?thesis by simp
next
  case (WatchHandle event)
  with w handleEvent_judges [OF _ b t i] show ?thesis by (simp add: watch_does_def)
qed (use w b t in \<open>simp_all add: watch_does_def\<close>)

lemma upd_keyed: "upd cfg s s' \<Longrightarrow> keyed s \<Longrightarrow> keyed s'"
proof (induction rule: upd.induct)
  case (put s1 sid rec rec' st')
  from put.hyps(3) have "same_identity rec rec'" by (auto simp: passage_def extends_def)
  then have "sh_sandbox_id (sr_handle rec') = sh_sandbox_id (sr_handle rec)" by (simp add: same_identity_def)
  with put.IH [OF put.prems] put.hyps(2) show ?case by (simp add: keyed_def)
qed

text \<open>No observation of the history has failed the container.\<close>

fun spared :: "crashloop_state \<Rightarrow> observation list \<Rightarrow> bool" where
  "spared cs [] = True"
| "spared cs ((r, t) # obs) =
     (\<not> dec_should_fail (snd (evaluateContainer r cs True t))
      \<and> spared (fst (evaluateContainer r cs True t)) obs)"

lemma spared_append: "spared cs (xs @ ys) \<longleftrightarrow> spared cs xs \<and> spared (watched True xs cs) ys"
  by (induction xs arbitrary: cs) auto

text \<open>
  A ready sandbox stays in step with its window until it fails, and failed it stays.
\<close>

lemma watch_history_tracks:
  assumes "watch_history cfg sid s0 hist s" and "keyed s0" and "gm_get (svc_boxes s0) sid = Some rec0"
    and "tracks p cs rec0" and i: "infallible (cfg_event_store cfg)"
  shows "keyed s \<and> (\<exists>rec. gm_get (svc_boxes s) sid = Some rec
    \<and> (rec_state rec = SANDBOX_STATE_FAILED
       \<or> tracks p (watched True (primary_looks sid p hist) cs) rec \<and> spared cs (primary_looks sid p hist)))"
  using assms(1)
proof (induction rule: watch_history.induct)
  case nothing
  with assms(2-4) show ?case by simp
next
  case (call hist s inspect now c s' ts)
  let ?w = "watched True (primary_looks sid p hist) cs"
  from call.IH obtain rec where k: "keyed s" and b: "gm_get (svc_boxes s) sid = Some rec"
    and c: "rec_state rec = SANDBOX_STATE_FAILED \<or> tracks p ?w rec \<and> spared cs (primary_looks sid p hist)"
    by blast
  have k': "keyed s'" by (rule upd_keyed [OF watch_does_upd [OF call.hyps(2) k] k])
  from c show ?case
  proof
    assume f: "rec_state rec = SANDBOX_STATE_FAILED"
    with not_ready_kept [OF call.hyps(2) k b] k' show ?thesis by simp
  next
    assume t: "tracks p ?w rec \<and> spared cs (primary_looks sid p hist)"
    from watch_does_judges [OF call.hyps(2) k b conjunct1 [OF t] i] obtain rec'
      where b': "gm_get (svc_boxes s') sid = Some rec'"
        and j: "if inspects_primary sid c then judged inspect now p ?w rec' else tracks p ?w rec'" by blast
    show ?thesis
    proof (cases "inspects_primary sid c")
      case False
      with t k' b' j show ?thesis by simp
    next
      case True
      note c = this
      with j have j: "judged inspect now p ?w rec'" by simp
      show ?thesis
      proof (cases "inspect p")
        case (Inl e)
        with t k' b' c j show ?thesis by (simp add: judged_def)
      next
        case (Inr x)
        obtain cs' d where "evaluateContainer x ?w True now = (cs', d)" by fastforce
        with t k' b' c j Inr show ?thesis by (simp add: judged_def spared_append split: if_splits)
      qed
    qed
  qed
next
  case (others hist s s')
  then show ?case by simp
qed

section \<open>A crash loop fails the sandbox\<close>


text \<open>One of two sandboxes, ready with a primary container, and the watch's first connection with one tick.\<close>

definition watched_box :: sandbox_record where
  "watched_box = (case gm_get (svc_boxes two_boxes) ''box-1'' of Some rec \<Rightarrow>
     set_state SANDBOX_STATE_READY (rec\<lparr>sr_runtime_state := Some \<lparr>rs_network_name = ''net'',
       rs_primary_container_name = ''primary'', rs_companion_containers = [],
       rs_primary_crashloop = fresh_crashloop\<rparr>\<rparr>))"

definition watched_service :: "(memory_event_store, memory_id_registry) service" where
  "watched_service = put_record ''box-1'' watched_box (svc_store two_boxes) two_boxes"

definition first_connection :: watch_connection where
  "first_connection = \<lparr>wc_picks = [TickerFired], wc_cancelled_in_wait = False\<rparr>"

definition sample_looks :: "watch_look list" where
  "sample_looks = [(WatchReconcile, \<lambda>_. Inr (seen False), 0), (WatchSubscribe, \<lambda>_. Inr (seen False), 1),
     (WatchReconcile, \<lambda>_. Inr (seen False), 301 * second)]"

lemma watched_box_facts:
  "sh_sandbox_id (sr_handle watched_box) = ''box-1''" "tracks ''primary'' fresh_crashloop watched_box"
proof -
  have "map_option (\<lambda>rec. sh_sandbox_id (sr_handle rec)) (gm_get (svc_boxes two_boxes) ''box-1'') = Some ''box-1''"
    by code_simp
  then obtain rec where "gm_get (svc_boxes two_boxes) ''box-1'' = Some rec" "sh_sandbox_id (sr_handle rec) = ''box-1''"
    by auto
  then show "sh_sandbox_id (sr_handle watched_box) = ''box-1''" "tracks ''primary'' fresh_crashloop watched_box"
    by (simp_all add: watched_box_def tracks_def set_state_def)
qed

lemma watched_service_keyed: "keyed watched_service"
  using two_boxes_keyed watched_box_facts(1) by (auto simp: keyed_def watched_service_def)

text \<open>A fold of the calls is a history.\<close>

definition watch_through ::
  "('st, 'r) service_config \<Rightarrow> watch_look list \<Rightarrow> ('st, 'r) service \<Rightarrow> ('st, 'r) service" where
  "watch_through cfg hist s = fold (\<lambda>(call, inspect, now) s. fst (watch_does cfg inspect now call s)) hist s"

lemma watch_through_history: "watch_history cfg sid s hist (watch_through cfg hist s)"
proof (induction hist rule: rev_induct)
  case Nil
  then show ?case by (simp add: watch_through_def watch_history.nothing)
next
  case (snoc l hist)
  obtain c inspect now where l: "l = (c, inspect, now)" by (cases l)
  obtain s' ts where w: "watch_does cfg inspect now c (watch_through cfg hist s) = (s', ts)" by fastforce
  from watch_history.call [OF snoc w] w l show ?case by (simp add: watch_through_def)
qed


end
