(* ===== verification/Spec2Isabelle.thy ===== *)
theory Spec2Isabelle
  imports Restore_Props Object_Props Persistent_Props Life_Props Docker_Props Nftables_Props
    Copy_Props Artifact_Path Client_Props Exec_Props Flag_Props Start_Props Watch_Loop_Props
begin

text \<open>
  A verification development for agents-sandbox: a daemon (\<^verbatim>\<open>agboxd\<close>) that runs sandboxes for coding
  agents, each a primary container with companion containers on a network of its own, behind a gRPC
  service; a Go client and a command line talk to it.

  \<^bold>\<open>The program.\<close>  \<^verbatim>\<open>internal/control\<close> is the daemon.  Its \<^verbatim>\<open>Service\<close> keeps one record per sandbox (the
  handle shown to clients, the event log, the execs, the runtime state) under one mutex.  RPC handlers
  (\<^verbatim>\<open>service.go\<close>) check a request, append an event to the log, through the event store, and start a
  goroutine (\<^verbatim>\<open>service_async.go\<close>) that calls the container backend and appends the outcome.  A cleanup
  loop (\<^verbatim>\<open>service_events.go\<close>) stops idle sandboxes, deletes those stopped long ago and purges old logs; a
  watcher (\<^verbatim>\<open>docker_event_watcher.go\<close>) fails sandboxes whose container is gone or loops.  After a restart
  \<^verbatim>\<open>restorePersistedSandboxes\<close> rebuilds the records from the store.  Ids are reserved in an id registry.

  \<^bold>\<open>Data and pure functions.\<close>
  \<^item> \<open>Prelude\<close>: results of fallible calls, Go maps (association lists with distinct keys, in an
    unspecified order that no theorem relies on), shared list and map lemmas, the collections of
    simplification rules.
  \<^item> \<open>Api_Types\<close> (\<^verbatim>\<open>api/proto/service.proto\<close>): the messages and enums.  \<open>Status_Errors\<close>
    (\<^verbatim>\<open>control/errors.go\<close>, \<^verbatim>\<open>sdk/go/rawclient/errors.go\<close>): the errors and what a client makes of them.
    \<open>Clone\<close> (\<^verbatim>\<open>service_clone.go\<close>): the copies, each proved to be the identity on values.
  \<^item> \<open>Go_Path\<close>, \<open>Host_Env\<close>: Go's \<^verbatim>\<open>path/filepath\<close> as far as it is used, the host's file system as a
    record of answers, the tilde expansions (\<^verbatim>\<open>docker_runtime_materialize.go\<close>).
  \<^item> \<open>Res_Limits\<close> (\<^verbatim>\<open>reslimits\<close>, \<^verbatim>\<open>resource_limits.go\<close>), \<open>Profile\<close> (\<^verbatim>\<open>profile/capabilities.go\<close>),
    \<open>Yaml_Config\<close> (\<^verbatim>\<open>yaml_config.go\<close>), \<open>Validation\<close> (\<^verbatim>\<open>service_validation.go\<close>): what a request may ask
    for, how a declarative configuration is merged with it, and where exec logs go.
  \<^item> \<open>Docker_Names\<close> (\<^verbatim>\<open>docker_runtime_dockerapi.go\<close>, \<^verbatim>\<open>runtime/docker/labels.go\<close>): names and labels of
    Docker objects.  \<open>Nftables\<close> (\<^verbatim>\<open>docker_runtime_nftables*.go\<close>): the host isolation rules.
  \<^item> \<open>Go_Match\<close> (\<^verbatim>\<open>filepath.Match\<close>, \<^verbatim>\<open>filepath.Base\<close>), \<open>Copy_Tree\<close> (\<^verbatim>\<open>docker_runtime_copy.go\<close>,
    \<^verbatim>\<open>projections.go\<close>): the archive that carries a directory tree into a container, and which trees are
    refused.  \<open>Artifact_Path\<close> (\<^verbatim>\<open>runtime/docker/artifacts.go\<close>): the path of a run's output file.

  \<^bold>\<open>Stores.\<close>
  \<^item> \<open>Id_Registry\<close> (\<^verbatim>\<open>id_registry.go\<close>) and \<open>Event_Store\<close> (\<^verbatim>\<open>event_store.go\<close>): the in-memory stores and
    the locales \<open>id_registry\<close> and \<open>event_store\<close> that state what the daemon relies on, interpreted on them.
  \<^item> \<open>Bolt\<close>, \<open>Persistent_Store\<close>, \<open>Persistent_Laws\<close>: the bbolt-backed stores.  bbolt and the protobuf
    encoder are parameters with their documented laws (\<open>bolt\<close>, \<open>message_codec\<close>); the locale \<open>bolt_store\<close>
    proves that both persistent stores keep the same contracts (sublocales of \<open>event_store\<close> and
    \<open>id_registry\<close>), and a list-backed database with a tagged encoder instantiates it.

  \<^bold>\<open>The service.\<close>  \<open>Service_State\<close> (records and \<open>appendEventLocked\<close>), \<open>Service_Rpc\<close> (handlers),
  \<open>Service_Async\<close> (goroutines, each as its two critical sections around the call of the backend),
  \<open>Service_Cleanup\<close> (cleanup loop and watcher), \<open>Watch_Loop\<close> (the watcher's reconnecting loop), \<open>Service_Restore\<close> (restart).  Each critical section is one
  function from the service, the store and the registry to their next values; an error of the store or
  registry, an early return and a refusal are values of its result.

  \<^bold>\<open>The daemon.\<close>  \<open>Daemon\<close> composes them to a step relation \<open>dstep\<close>: the state is the service, the store, the
  registry and the goroutines under way with the snapshot each works on, and a step is one critical
  section, in any order.  The backend's answers, the clock and the generator of ids are arguments of the
  steps and unconstrained, so a theorem about reachable states covers every interleaving and every
  behaviour of the backend.  \<open>Restart\<close> adds the end of the process and its successor: \<open>lifetime\<close> is a
  sequence of such steps and of successful restarts, each with a service rebuilt from the store alone;
  a start-up that fails ends it.  \<open>Restart_Inv\<close> shows that a restart re-establishes the invariant.

  \<^bold>\<open>The Docker backend\<close> (\<^verbatim>\<open>docker_runtime*.go\<close>).  \<open>Docker_Engine\<close>: the requests the backend sends, the
  engine as a record of answer functions, each free to depend on the whole history of requests, and the
  monad of calls that keeps the history.  The goroutines that start companions run between the calls of
  the creating one: the engine says how many of them move before each call (\<open>eg_turns\<close>).
  \<open>Docker_Backend\<close>: mounts, environment, GPU groups, isolation.  \<open>Docker_Lifecycle\<close>: create, resume, stop,
  delete, inspect and the reapplication of isolation, with their clean-ups.  \<open>Docker_Exec\<close>: execs, the
  health check of companions and the hooks after start; polling an exec may last forever, so it is a
  partial function, and the health loop is bounded by the polls left before its deadline (\<open>eg_polls\<close>).
  \<open>Docker_Trace\<close>: which requests each operation can add to the history, and in which order.

  \<^bold>\<open>The Go client\<close> (\<^verbatim>\<open>sdk/go\<close>).  \<open>Client_Types\<close> (\<^verbatim>\<open>client/types.go\<close>): its own types and the conversions
  from messages.  \<open>Client_Options\<close> (\<^verbatim>\<open>client/options.go\<close>): the options of each call, applied in order, and
  the request they build.  \<open>Client_Calls\<close> (\<^verbatim>\<open>rawclient/client.go\<close>, \<^verbatim>\<open>rawclient/stream.go\<close>,
  \<^verbatim>\<open>client/client.go\<close>, \<^verbatim>\<open>client/wait.go\<close>): the calls and the waits; the daemon's answers and the events a
  stream delivers are arguments.

  \<^bold>\<open>The command line\<close> (\<^verbatim>\<open>cmd/agbox\<close>).  \<open>Cli_World\<close>: errors and exit codes (\<^verbatim>\<open>cli_result.go\<close>), and the monad of
  commands.  A command sees the daemon only through the raw client of \<open>Client_Calls\<close>; its effects are the calls it has
  made, what it printed and what it did to the attached process, and it may be \<open>Waiting\<close> for ever.  A Go
  \<^verbatim>\<open>select\<close> in a loop is \<open>select_loop\<close> over the picks the environment makes; the list of picks is its
  fuel, and where it ends nothing happens any more.  \<open>Cli_Format\<close> (\<^verbatim>\<open>format.go\<close>): what is printed.
  \<open>Cli_Sandbox\<close> (\<^verbatim>\<open>sandbox.go\<close>), \<open>Cli_Exec\<close> (\<^verbatim>\<open>sandbox_exec.go\<close>, \<^verbatim>\<open>exec.go\<close>): the commands and their waits.
  \<open>Cli_Flags\<close>, \<open>Cli_Agents\<close> (\<^verbatim>\<open>cmd_agent.go\<close>, \<^verbatim>\<open>agent_types.go\<close>, \<^verbatim>\<open>openclaw.go\<close>, \<^verbatim>\<open>paseo.go\<close>): the values of
  flags, the registered agents, the arguments of a session.  \<open>Cli_Session\<close> (\<^verbatim>\<open>agent_session.go\<close>): sessions,
  with \<^verbatim>\<open>defer\<close> as \<open>cli_defer\<close>.  \<open>Cli_Commands\<close>: every command as cobra runs it, and the exit code of the process
  (\<^verbatim>\<open>root.go\<close>).  \<open>Go_Conv\<close>: what these use of \<^verbatim>\<open>strings\<close>, \<^verbatim>\<open>strconv\<close>, \<^verbatim>\<open>os\<close> and \<^verbatim>\<open>encoding/json\<close>.

  \<^bold>\<open>Start-up.\<close>  \<open>Platform_Dirs\<close> (\<^verbatim>\<open>internal/platform\<close>): sockets, locks and directories, and the capability
  check.  \<open>Daemon_Start\<close> (\<^verbatim>\<open>cmd/agboxd\<close>, \<^verbatim>\<open>internal/logging\<close>): configuration, lock, server and exit codes of
  the daemon, as the trace of its requests to the host, any of which may be refused.

  \<^bold>\<open>Lemmas.\<close>  \<open>Cli_Laws\<close>: outcomes of commands, the calls a part can make, an induction for waits, and what
  the daemon has told.  \<open>Cli_Sample\<close>: a concrete terminal and daemon.  \<open>Path_Laws\<close>: paths joined below a root.  \<open>Record_Log\<close>, \<open>Service_Upd\<close>, \<open>Exec_Upd\<close>: what each operation does to one sandbox, as a small
  set of shapes (an event appended, an exec changed), each shown to keep the record invariant.
  \<open>Step_Kept\<close>: what no step loses.  \<open>Sample_Run\<close>: a concrete run on which witnesses are evaluated.

  \<^bold>\<open>Properties.\<close>
  \<^item> \<open>Run_Props\<close>: in every reachable state logs are numbered without gaps, the store agrees with memory,
    execs are what their log says, the exec index is exact, and nothing recorded is lost or reused.
  \<^item> \<open>Rpc_Props\<close>: creating, listing and following sandboxes, accepted or refused.  \<open>Sweep_Props\<close>: deletion,
    idle stop and cleanup.  \<open>Watch_Props\<close>: crash-loop detection of one container, and a deletion
    undone by a stop.  \<open>Watch_Loop_Props\<close>: under the watcher's calls, whatever runs between them, a crash loop fails
    its sandbox.
    \<open>Restore_Props\<close>: what exactly a restart brings back.
  \<^item> \<open>Config_Props\<close>: what validation guarantees, and the merge.  \<open>Object_Props\<close>: log files stay inside their
    root, names and labels of Docker objects, the errors a client sees.
  \<^item> \<open>Persistent_Props\<close>: the persistent store answers as the memory store does, and the daemon over it keeps
    its logs in the database.  \<open>Life_Props\<close>: the same for a whole lifetime over the database, and what a
    restart keeps of every sandbox and exec.
  \<^item> \<open>Docker_Props\<close>: over any engine, a failed creation removes all it made, no container is made before
    its network is isolated, a deletion attempts every step, and waiting for a companion's health is
    bounded.  \<open>Nftables_Props\<close>: the locale \<open>netfilter\<close> states what the kernel's table of rules promises;
    over it isolation is recognised, complete after it is applied, and gone after it is removed.
  \<^item> \<open>Copy_Props\<close>: what a copied tree's archive holds, which trees are refused, and that no link of it
    leaves the tree.  \<open>Client_Props\<close>: the client's conversions lose nothing, its requests are what its
    options say, and a wait answers with the state it waited for, however the daemon's answers and its
    event stream interleave.
  \<^item> \<open>Cli_Props\<close>: a command that waits and succeeds was told what it waited for.  \<open>Session_Props\<close>: no session
    leaves a sandbox behind that it should not, and the agent is attached to the session's own ready sandbox.
    \<open>Exec_Props\<close>: the exit code of a run is the exec's or that of an accepted cancellation; waiting for a
    deletion that failed does not end.  \<open>Flag_Props\<close>: flags read back what they print, and the arguments of
    a session are well-formed.  \<open>Start_Props\<close>: the daemon touches its socket and database only while it holds
    the host lock, and the command line dials where it listens.

  \<^bold>\<open>Bounds and fuel.\<close>  Sequence numbers are 64-bit words.  The invariants of logs are stated for sandboxes
  with fewer than \<open>2 ^ 64\<close> events (\<open>log_bound\<close>), which the counters cannot exceed without wrapping.  Times
  are integers of nanoseconds; where they are stored in 8 bytes the theorems ask that they fit 64 bits.
  The id allocation loop has no bound in the code: it is a function of the list of generated ids, and
  answers as soon as one of them is free (\<open>CreateSandbox_answers\<close>).

  \<^bold>\<open>Not modelled.\<close>  The YAML decoder, bbolt, protobuf, float parsing, go-units, the Docker engine and the
  netfilter library are not in the repository: they are parameters.  Logging has no effect on state.  The
  gRPC transport, with the client's dialling and its channels, and the generated code are glue; the
  backend takes the outcome of writing an archive to a container as an answer of the engine.  cobra,
  which splits the command line, is not in the repository either: an invocation is the command and the values it
  found, or its error, and the registration of flags with their help texts is its input; so are the
  encoders and decoders of JSON, YAML and TOML.  Goroutines that only move events from a stream to a
  channel are the list of events with the error that ended it.  Not modelled: the
  macOS keychain projection, a sequence of host calls without state of its own; the second interrupt that ends the process during a session's clean-up; the
  names of the audit package and the version string of the build.
\<close>

end
